(* ===== verification/Prelude.thy ===== *)
theory Prelude
  imports
    Main
    "HOL-Library.Char_ord"
    "HOL-Library.List_Lexorder"
    "HOL-Library.Product_Lexorder"
    "HOL-Library.Sublist"
    "HOL-Library.Multiset"
    "HOL-Library.Word"
begin

text \<open>
  What every component shares. A Rust string is the list of its UTF-8 bytes, one
  \<open>char\<close> per byte, so \<open>length\<close> is \<open>str::len\<close>, byte scans are list predicates and the
  byte-wise order of \<open>str\<close> is the lexicographic order of \<open>List_Lexorder\<close>. Operations that
  Rust defines on characters (\<open>trim\<close>, \<open>char::is_control\<close>, \<open>char::is_whitespace\<close>) go through
  \<open>utf8_chars\<close>, which cuts a string into the byte sequences of its characters. The second half
  holds results (\<open>Result\<close> as a sum), sequences of \<open>?\<close> checks, decimal numbers and
  the ordered maps that stand for \<open>BTreeMap\<close>.
\<close>

named_theorems result_simps "when a sequence of checks succeeds"
named_theorems ascii_simps "definitions of the ASCII character classes"

type_synonym u8 = "8 word"
type_synonym u32 = "32 word"
type_synonym u64 = "64 word"
type_synonym bytes = string

section \<open>ASCII classes\<close>

definition is_digit :: "char \<Rightarrow> bool" where
  "is_digit c = (48 \<le> (of_char c :: nat) \<and> (of_char c :: nat) \<le> 57)"

definition is_lower :: "char \<Rightarrow> bool" where
  "is_lower c = (97 \<le> (of_char c :: nat) \<and> (of_char c :: nat) \<le> 122)"

definition is_upper :: "char \<Rightarrow> bool" where
  "is_upper c = (65 \<le> (of_char c :: nat) \<and> (of_char c :: nat) \<le> 90)"

definition is_alpha :: "char \<Rightarrow> bool" where
  "is_alpha c = (is_lower c \<or> is_upper c)"

definition is_alnum :: "char \<Rightarrow> bool" where
  "is_alnum c = (is_alpha c \<or> is_digit c)"

definition is_lower_hex :: "char \<Rightarrow> bool" where
  "is_lower_hex c = (is_digit c \<or> (97 \<le> (of_char c :: nat) \<and> (of_char c :: nat) \<le> 102))"

definition is_hexdigit :: "char \<Rightarrow> bool" where
  "is_hexdigit c = (is_lower_hex c \<or> (65 \<le> (of_char c :: nat) \<and> (of_char c :: nat) \<le> 70))"

definition is_ascii_control :: "char \<Rightarrow> bool" where
  "is_ascii_control c = ((of_char c :: nat) < 32 \<or> (of_char c :: nat) = 127)"

definition is_ascii_ws :: "char \<Rightarrow> bool" where
  "is_ascii_ws c = ((of_char c :: nat) \<in> {9, 10, 12, 13, 32})"

definition to_lower :: "char \<Rightarrow> char" where
  "to_lower c = (if is_upper c then char_of ((of_char c :: nat) + 32) else c)"

definition ascii_lowercase :: "string \<Rightarrow> string" where
  "ascii_lowercase s = map to_lower s"

definition eq_ignore_ascii_case :: "string \<Rightarrow> string \<Rightarrow> bool" where
  "eq_ignore_ascii_case a b = (ascii_lowercase a = ascii_lowercase b)"

lemmas ascii_defs [ascii_simps] =
  is_digit_def is_lower_def is_upper_def is_alpha_def is_alnum_def is_lower_hex_def
  is_hexdigit_def is_ascii_control_def is_ascii_ws_def

abbreviation nl :: char where "nl \<equiv> CHR 0x0A"
abbreviation cr :: char where "cr \<equiv> CHR 0x0D"
abbreviation tab :: char where "tab \<equiv> CHR 0x09"
abbreviation dquote :: char where "dquote \<equiv> CHR 0x22"
abbreviation squote :: char where "squote \<equiv> CHR 0x27"
abbreviation backslash :: char where "backslash \<equiv> CHR 0x5C"

section \<open>Splitting and joining\<close>

fun split_on :: "'a \<Rightarrow> 'a list \<Rightarrow> 'a list list" where
  "split_on sep [] = [[]]"
| "split_on sep (c # cs) =
     (if c = sep then [] # split_on sep cs
      else (case split_on sep cs of [] \<Rightarrow> [[c]] | f # fs \<Rightarrow> (c # f) # fs))"

fun join_on :: "'a list \<Rightarrow> 'a list list \<Rightarrow> 'a list" where
  "join_on sep [] = []"
| "join_on sep [f] = f"
| "join_on sep (f # g # fs) = f @ sep @ join_on sep (g # fs)"

fun split_once :: "'a \<Rightarrow> 'a list \<Rightarrow> ('a list \<times> 'a list) option" where
  "split_once sep [] = None"
| "split_once sep (c # cs) =
     (if c = sep then Some ([], cs)
      else map_option (\<lambda>(a, b). (c # a, b)) (split_once sep cs))"

definition rsplit_once :: "'a \<Rightarrow> 'a list \<Rightarrow> ('a list \<times> 'a list) option" where
  "rsplit_once sep s = map_option (\<lambda>(a, b). (rev b, rev a)) (split_once sep (rev s))"

fun strip_prefix :: "'a list \<Rightarrow> 'a list \<Rightarrow> 'a list option" where
  "strip_prefix [] s = Some s"
| "strip_prefix (p # ps) [] = None"
| "strip_prefix (p # ps) (c # cs) = (if p = c then strip_prefix ps cs else None)"

definition strip_suffix :: "'a list \<Rightarrow> 'a list \<Rightarrow> 'a list option" where
  "strip_suffix p s = map_option rev (strip_prefix (rev p) (rev s))"

definition starts_with :: "'a list \<Rightarrow> 'a list \<Rightarrow> bool" where
  "starts_with p s = (strip_prefix p s \<noteq> None)"

definition ends_with :: "'a list \<Rightarrow> 'a list \<Rightarrow> bool" where
  "ends_with p s = (strip_suffix p s \<noteq> None)"

fun contains_sub :: "'a list \<Rightarrow> 'a list \<Rightarrow> bool" where
  "contains_sub p [] = (p = [])"
| "contains_sub p (c # cs) = (starts_with p (c # cs) \<or> contains_sub p cs)"

text \<open>\<open>str::lines\<close>: a line ends at LF or CR LF; an unterminated last line keeps its CR.\<close>

fun split_inclusive :: "'a \<Rightarrow> 'a list \<Rightarrow> 'a list list" where
  "split_inclusive sep [] = []"
| "split_inclusive sep (c # cs) =
     (if c = sep then [c] # split_inclusive sep cs
      else (case split_inclusive sep cs of [] \<Rightarrow> [[c]] | f # fs \<Rightarrow> (c # f) # fs))"

definition chomp :: "string \<Rightarrow> string" where
  "chomp l = (case strip_suffix [nl] l of
                None \<Rightarrow> l
              | Some m \<Rightarrow> (case strip_suffix [cr] m of None \<Rightarrow> m | Some k \<Rightarrow> k))"

definition str_lines :: "string \<Rightarrow> string list" where
  "str_lines s = map chomp (split_inclusive nl s)"

text \<open>\<open>split_ascii_whitespace\<close>: the maximal runs of bytes that are not ASCII white space.\<close>

fun ascii_tokens_acc :: "string \<Rightarrow> string \<Rightarrow> string list" where
  "ascii_tokens_acc acc [] = (if acc = [] then [] else [rev acc])"
| "ascii_tokens_acc acc (c # cs) =
     (if is_ascii_ws c then (if acc = [] then [] else [rev acc]) @ ascii_tokens_acc [] cs
      else ascii_tokens_acc (c # acc) cs)"

definition split_ascii_whitespace :: "string \<Rightarrow> string list" where
  "split_ascii_whitespace s = ascii_tokens_acc [] s"

section \<open>UTF-8 characters\<close>

definition seq_len :: "char \<Rightarrow> nat" where
  "seq_len c = (let b = (of_char c :: nat) in
     if 194 \<le> b \<and> b \<le> 223 then 2 else if 224 \<le> b \<and> b \<le> 239 then 3
     else if 240 \<le> b \<and> b \<le> 244 then 4 else 1)"

fun utf8_chars :: "string \<Rightarrow> string list" where
  "utf8_chars [] = []"
| "utf8_chars (c # cs) =
     (c # take (seq_len c - 1) cs) # utf8_chars (drop (seq_len c - 1) cs)"

definition cont_byte :: "nat \<Rightarrow> bool" where
  "cont_byte b = (128 \<le> b \<and> b \<le> 191)"

definition utf8_seq_ok :: "string \<Rightarrow> bool" where
  "utf8_seq_ok s = (case map (of_char :: char \<Rightarrow> nat) s of
     [a] \<Rightarrow> a < 128
   | [a, b] \<Rightarrow> 194 \<le> a \<and> a \<le> 223 \<and> cont_byte b
   | [a, b, c] \<Rightarrow> (a = 224 \<and> 160 \<le> b \<and> b \<le> 191 \<or> a = 237 \<and> 128 \<le> b \<and> b \<le> 159
        \<or> 225 \<le> a \<and> a \<le> 239 \<and> a \<noteq> 237 \<and> cont_byte b) \<and> cont_byte c
   | [a, b, c, d] \<Rightarrow> (a = 240 \<and> 144 \<le> b \<and> b \<le> 191 \<or> a = 244 \<and> 128 \<le> b \<and> b \<le> 143
        \<or> 241 \<le> a \<and> a \<le> 243 \<and> cont_byte b) \<and> cont_byte c \<and> cont_byte d
   | _ \<Rightarrow> False)"

text \<open>\<open>std::str::from_utf8\<close> accepts exactly the well-formed sequences.\<close>

definition utf8_valid :: "bytes \<Rightarrow> bool" where
  "utf8_valid s = list_all utf8_seq_ok (utf8_chars s)"

definition code_point :: "string \<Rightarrow> nat" where
  "code_point s = (case map (of_char :: char \<Rightarrow> nat) s of
     [a] \<Rightarrow> a
   | [a, b] \<Rightarrow> (a mod 32) * 64 + b mod 64
   | [a, b, c] \<Rightarrow> (a mod 16) * 4096 + (b mod 64) * 64 + c mod 64
   | [a, b, c, d] \<Rightarrow> (a mod 8) * 262144 + (b mod 64) * 4096 + (c mod 64) * 64 + d mod 64
   | _ \<Rightarrow> 65533)"

text \<open>\<open>char::is_whitespace\<close> (property White_Space) and \<open>char::is_control\<close> (category Cc).\<close>

definition is_whitespace :: "string \<Rightarrow> bool" where
  "is_whitespace s = (let n = code_point s in
     9 \<le> n \<and> n \<le> 13 \<or> 8192 \<le> n \<and> n \<le> 8202
     \<or> n \<in> {32, 133, 160, 5760, 8232, 8233, 8239, 8287, 12288})"

definition is_control :: "string \<Rightarrow> bool" where
  "is_control s = (let n = code_point s in n < 32 \<or> 127 \<le> n \<and> n < 160)"

definition any_whitespace :: "string \<Rightarrow> bool" where
  "any_whitespace s = list_ex is_whitespace (utf8_chars s)"

definition any_control :: "string \<Rightarrow> bool" where
  "any_control s = list_ex is_control (utf8_chars s)"

definition trim_end :: "string \<Rightarrow> string" where
  "trim_end s = concat (rev (dropWhile is_whitespace (rev (utf8_chars s))))"

definition trim :: "string \<Rightarrow> string" where
  "trim s = concat (dropWhile is_whitespace
       (rev (dropWhile is_whitespace (rev (utf8_chars s)))))"

section \<open>Decimal numbers\<close>

definition digit_val :: "char \<Rightarrow> nat" where
  "digit_val c = (of_char c :: nat) - 48"

definition dec :: "string \<Rightarrow> nat" where
  "dec s = foldl (\<lambda>n c. 10 * n + digit_val c) 0 s"

definition all_digits :: "string \<Rightarrow> bool" where
  "all_digits s = list_all is_digit s"

text \<open>\<open>str::parse\<close> at an unsigned width: an optional \<open>+\<close>, then digits, and no overflow.\<close>

definition parse_unsigned :: "nat \<Rightarrow> string \<Rightarrow> nat option" where
  "parse_unsigned w s =
     (let ds = (case s of c # d # ds \<Rightarrow> if c = CHR ''+'' then d # ds else s | _ \<Rightarrow> s)
      in if ds \<noteq> [] \<and> all_digits ds \<and> dec ds < 2 ^ w then Some (dec ds) else None)"

definition parse_u32 :: "string \<Rightarrow> u32 option" where
  "parse_u32 s = map_option of_nat (parse_unsigned 32 s)"

definition parse_u64 :: "string \<Rightarrow> u64 option" where
  "parse_u64 s = map_option of_nat (parse_unsigned 64 s)"

definition digit_char :: "nat \<Rightarrow> char" where
  "digit_char n = char_of (48 + n)"

fun show_nat :: "nat \<Rightarrow> string" where
  "show_nat n = (if n < 10 then [digit_char n]
                 else show_nat (n div 10) @ [digit_char (n mod 10)])"

declare show_nat.simps [simp del]

definition show_u64 :: "u64 \<Rightarrow> string" where
  "show_u64 n = show_nat (unat n)"


section \<open>Laws of the string operations\<close>

lemma strip_prefix_Some [simp]: "strip_prefix p s = Some r \<longleftrightarrow> s = p @ r"
  by (induction p s rule: strip_prefix.induct) auto

lemma strip_suffix_Some [simp]: "strip_suffix p s = Some r \<longleftrightarrow> s = r @ p"
  by (auto simp: strip_suffix_def) (metis rev_append rev_rev_ident)

lemma strip_suffix_app [simp]: "strip_suffix p (r @ p) = Some r"
  by (rule iffD2 [OF strip_suffix_Some]) simp

lemma strip_prefix_app [simp]: "strip_prefix p (p @ r) = Some r"
  by (rule iffD2 [OF strip_prefix_Some]) simp

lemma starts_with_iff: "starts_with p s \<longleftrightarrow> (\<exists>r. s = p @ r)"
  unfolding starts_with_def by (metis not_None_eq strip_prefix_Some)

lemma ends_with_iff: "ends_with p s \<longleftrightarrow> (\<exists>r. s = r @ p)"
  unfolding ends_with_def by (metis not_None_eq strip_suffix_Some)

lemma split_on_not_Nil [simp]: "split_on sep s \<noteq> []"
  by (cases s) (auto split: list.splits)

lemma join_on_Cons_Cons: "fs \<noteq> [] \<Longrightarrow> join_on sep (f # fs) = f @ sep @ join_on sep fs"
  by (cases fs) auto

lemma join_on_head: "join_on sep ((c # f) # fs) = c # join_on sep (f # fs)"
  by (cases fs) auto

lemma join_split_on [simp]: "join_on [sep] (split_on sep s) = s"
proof (induction s)
  case (Cons c s)
  then show ?case
    by (cases "split_on sep s") (simp_all add: join_on_Cons_Cons join_on_head)
qed simp

lemma split_on_no_sep: "f \<in> set (split_on sep s) \<Longrightarrow> sep \<notin> set f"
  by (induction s arbitrary: f) (auto split: list.splits if_splits)

lemma split_on_no_occ: "sep \<notin> set f \<Longrightarrow> split_on sep f = [f]"
  by (induction f) auto

lemma split_on_append_sep: "sep \<notin> set f \<Longrightarrow> split_on sep (f @ sep # s) = f # split_on sep s"
  by (induction f) auto

lemma split_on_join:
  "fs \<noteq> [] \<Longrightarrow> \<forall>f \<in> set fs. sep \<notin> set f \<Longrightarrow> split_on sep (join_on [sep] fs) = fs"
proof (induction fs)
  case (Cons f fs)
  then show ?case by (cases fs) (auto simp: split_on_no_occ split_on_append_sep)
qed simp

lemma split_inclusive_app:
  "sep \<notin> set l \<Longrightarrow> split_inclusive sep (l @ sep # rest) = (l @ [sep]) # split_inclusive sep rest"
  by (induction l) auto

lemma split_once_Some:
  "split_once sep s = Some (a, b) \<longleftrightarrow> s = a @ sep # b \<and> sep \<notin> set a"
proof (induction s arbitrary: a)
  case (Cons c s)
  show ?case
  proof (cases a)
    case Nil
    then show ?thesis by auto
  next
    case (Cons d a')
    with Cons.IH [of a'] show ?thesis by auto
  qed
qed simp

lemma split_once_None: "split_once sep s = None \<longleftrightarrow> sep \<notin> set s"
  by (induction s) auto

lemma split_once_app [simp]: "sep \<notin> set a \<Longrightarrow> split_once sep (a @ sep # b) = Some (a, b)"
  by (simp add: split_once_Some)

lemma rsplit_once_Some:
  "rsplit_once sep s = Some (a, b) \<longleftrightarrow> s = a @ sep # b \<and> sep \<notin> set b"
proof -
  have "rsplit_once sep s = Some (a, b) \<longleftrightarrow> split_once sep (rev s) = Some (rev b, rev a)"
    by (auto simp: rsplit_once_def)
  also have "\<dots> \<longleftrightarrow> s = a @ sep # b \<and> sep \<notin> set b"
    by (simp add: split_once_Some rev_swap)
  finally show ?thesis .
qed

section \<open>Laws of decimal numbers\<close>

lemma of_char_of_nat: "n < 256 \<Longrightarrow> (of_char (char_of n) :: nat) = n"
  by simp

lemma is_digit_digit_char [simp]: "n < 10 \<Longrightarrow> is_digit (digit_char n)"
  by (simp add: is_digit_def digit_char_def)

lemma digit_val_digit_char [simp]: "n < 10 \<Longrightarrow> digit_val (digit_char n) = n"
  by (simp add: digit_val_def digit_char_def)

lemma dec_Nil [simp]: "dec [] = 0"
  by (simp add: dec_def)

lemma dec_snoc [simp]: "dec (s @ [c]) = 10 * dec s + digit_val c"
  by (simp add: dec_def)

lemma dec_single [simp]: "dec [c] = digit_val c"
  by (simp add: dec_def)

lemma dec_show_nat [simp]: "dec (show_nat n) = n"
proof (induction n rule: show_nat.induct)
  case (1 n)
  then show ?case by (cases "n < 10") (simp_all add: show_nat.simps [of n])
qed

lemma all_digits_show_nat [simp]: "all_digits (show_nat n)"
proof (induction n rule: show_nat.induct)
  case (1 n)
  then show ?case
    by (cases "n < 10") (simp_all add: show_nat.simps [of n] all_digits_def)
qed

lemma show_nat_not_Nil [simp]: "show_nat n \<noteq> []"
  by (subst show_nat.simps) simp

lemma show_nat_inj [simp]: "show_nat m = show_nat n \<longleftrightarrow> m = n"
  by (metis dec_show_nat)

lemma plus_not_digit [simp]: "\<not> is_digit CHR ''+''"
  by (simp add: is_digit_def)

lemma parse_unsigned_digits:
  "all_digits s \<Longrightarrow>
   parse_unsigned w s = (if s \<noteq> [] \<and> dec s < 2 ^ w then Some (dec s) else None)"
  by (auto simp: parse_unsigned_def all_digits_def Let_def
      split: list.splits)

lemma parse_unsigned_show [simp]:
  "parse_unsigned w (show_nat n) = (if n < 2 ^ w then Some n else None)"
  by (simp add: parse_unsigned_digits)

lemma parse_unsigned_bound: "parse_unsigned w s = Some n \<Longrightarrow> n < 2 ^ w"
  by (auto simp: parse_unsigned_def Let_def split: if_splits list.splits)

lemma parse_u64_show [simp]: "parse_u64 (show_u64 v) = Some v"
proof -
  have "unat v < 2 ^ 64" using unsigned_less [of v] by simp
  then show ?thesis by (simp add: parse_u64_def show_u64_def)
qed

lemma all_digits_show_u64 [simp]: "all_digits (show_u64 v)"
  by (simp add: show_u64_def)

lemma show_u64_not_Nil [simp]: "show_u64 v \<noteq> []"
  by (simp add: show_u64_def)

lemma all_digitsD: "all_digits s \<Longrightarrow> c \<in> set s \<Longrightarrow> is_digit c"
  by (simp add: all_digits_def list_all_iff)

lemma not_digit_show_u64: "\<not> is_digit c \<Longrightarrow> c \<notin> set (show_u64 v)"
  using all_digitsD [OF all_digits_show_u64] by blast

section \<open>Laws of UTF-8 characters\<close>

lemma concat_utf8_chars [simp]: "concat (utf8_chars s) = s"
  by (induction s rule: utf8_chars.induct) simp_all

lemma utf8_chars_Nil_iff [simp]: "utf8_chars s = [] \<longleftrightarrow> s = []"
  by (cases s) auto

definition is_ascii :: "string \<Rightarrow> bool" where
  "is_ascii s = list_all (\<lambda>c. (of_char c :: nat) < 128) s"

lemma seq_len_ascii: "(of_char c :: nat) < 128 \<Longrightarrow> seq_len c = 1"
  by (simp add: seq_len_def)

lemma utf8_chars_ascii: "is_ascii s \<Longrightarrow> utf8_chars s = map (\<lambda>c. [c]) s"
  by (induction s rule: utf8_chars.induct) (simp_all add: is_ascii_def seq_len_ascii)

lemma utf8_valid_ascii: "is_ascii s \<Longrightarrow> utf8_valid s"
  by (simp add: utf8_valid_def utf8_chars_ascii utf8_seq_ok_def is_ascii_def list_all_iff)

lemma any_control_ascii:
  "is_ascii s \<Longrightarrow> any_control s \<longleftrightarrow> list_ex is_ascii_control s"
proof -
  assume a: "is_ascii s"
  have "is_control [c] \<longleftrightarrow> is_ascii_control c" if "c \<in> set s" for c
    using a that by (auto simp: is_control_def code_point_def is_ascii_control_def
        is_ascii_def list_all_iff Let_def)
  with a show ?thesis
    by (auto simp: any_control_def utf8_chars_ascii list_ex_iff)
qed

definition is_graph :: "char \<Rightarrow> bool" where
  "is_graph c = (33 \<le> (of_char c :: nat) \<and> (of_char c :: nat) \<le> 126)"

lemma graph_ascii: "list_all is_graph s \<Longrightarrow> is_ascii s"
  by (auto simp: is_ascii_def is_graph_def list_all_iff)

lemma graph_not_whitespace: "is_graph c \<Longrightarrow> \<not> is_whitespace [c]"
  by (auto simp: is_graph_def is_whitespace_def code_point_def Let_def)

lemma dropWhile_graph:
  "list_all is_graph s \<Longrightarrow> dropWhile is_whitespace (map (\<lambda>c. [c]) s) = map (\<lambda>c. [c]) s"
  by (cases s) (auto dest: graph_not_whitespace)

lemma concat_map_single [simp]: "concat (map (\<lambda>c. [c]) s) = s"
  by (induction s) auto

lemma trim_graph: "list_all is_graph s \<Longrightarrow> trim s = s"
  using dropWhile_graph [of s] dropWhile_graph [of "rev s"]
  by (simp add: trim_def utf8_chars_ascii graph_ascii rev_map)

lemma trim_end_graph: "list_all is_graph s \<Longrightarrow> trim_end s = s"
  using dropWhile_graph [of "rev s"]
  by (simp add: trim_end_def utf8_chars_ascii graph_ascii rev_map)

lemma trim_end_graph_nl: "list_all is_graph s \<Longrightarrow> trim_end (s @ [nl]) = s"
proof -
  assume g: "list_all is_graph s"
  then have "is_ascii (s @ [nl])" by (auto dest: graph_ascii simp: is_ascii_def)
  moreover have "is_whitespace [nl]"
    by (simp add: is_whitespace_def code_point_def)
  ultimately show ?thesis using g dropWhile_graph [of "rev s"]
    by (simp add: trim_end_def utf8_chars_ascii rev_map)
qed

lemma any_control_graph: "list_all is_graph s \<Longrightarrow> \<not> any_control s"
  by (auto simp: any_control_ascii graph_ascii list_ex_iff list_all_iff is_graph_def
      is_ascii_control_def)

lemma any_whitespace_graph: "list_all is_graph s \<Longrightarrow> \<not> any_whitespace s"
  by (auto simp: any_whitespace_def utf8_chars_ascii graph_ascii list_ex_iff list_all_iff
      dest: graph_not_whitespace)

lemma is_alnum_graph: "is_alnum c \<Longrightarrow> is_graph c"
  by (auto simp: is_graph_def ascii_simps)

lemma is_digit_graph: "is_digit c \<Longrightarrow> is_graph c"
  by (auto simp: is_graph_def ascii_simps)

lemma is_digit_alnum [simp]: "is_digit c \<Longrightarrow> is_alnum c"
  by (simp add: ascii_simps)

end
