(* ===== verification/Ordmap.thy ===== *)
theory Ordmap
  imports Prelude
begin

text \<open>
  Results and ordered maps. A fallible function returns a sum, \<open>Inl\<close> the error; a block of
  consecutive \<open>?\<close> checks is \<open>first_error\<close> of their list, in source order, and a loop of checks
  over a collection is \<open>check_each\<close>. A \<open>BTreeMap\<close> is the list of its entries in strictly
  increasing key order; the locale states what the components rely on, the interpretation
  \<open>bm\<close> proves it of the model. A \<open>BTreeSet\<close> used only for membership is a HOL set.
\<close>

section \<open>Sequences of checks\<close>

type_synonym ('e, 'a) result = "'e + 'a"

definition ensure :: "bool \<Rightarrow> 'e \<Rightarrow> ('e, unit) result" where
  "ensure b e = (if b then Inr () else Inl e)"

definition and_then :: "('e, 'a) result \<Rightarrow> ('a \<Rightarrow> ('e, 'b) result) \<Rightarrow> ('e, 'b) result" where
  "and_then r f = (case r of Inl e \<Rightarrow> Inl e | Inr a \<Rightarrow> f a)"

definition map_err :: "('e \<Rightarrow> 'f) \<Rightarrow> ('e, 'a) result \<Rightarrow> ('f, 'a) result" where
  "map_err f r = (case r of Inl e \<Rightarrow> Inl (f e) | Inr a \<Rightarrow> Inr a)"

definition ok_or :: "'e \<Rightarrow> 'a option \<Rightarrow> ('e, 'a) result" where
  "ok_or e x = (case x of None \<Rightarrow> Inl e | Some a \<Rightarrow> Inr a)"

fun first_error :: "('e, unit) result list \<Rightarrow> ('e, unit) result" where
  "first_error [] = Inr ()"
| "first_error (c # cs) = (case c of Inl e \<Rightarrow> Inl e | Inr _ \<Rightarrow> first_error cs)"

definition check_each :: "('a \<Rightarrow> ('e, unit) result) \<Rightarrow> 'a list \<Rightarrow> ('e, unit) result" where
  "check_each f xs = first_error (map f xs)"

fun traverse :: "('a \<Rightarrow> ('e, 'b) result) \<Rightarrow> 'a list \<Rightarrow> ('e, 'b list) result" where
  "traverse f [] = Inr []"
| "traverse f (x # xs) = (case f x of Inl e \<Rightarrow> Inl e
     | Inr y \<Rightarrow> (case traverse f xs of Inl e \<Rightarrow> Inl e | Inr ys \<Rightarrow> Inr (y # ys)))"

definition is_ok :: "('e, 'a) result \<Rightarrow> bool" where
  "is_ok r = (case r of Inl _ \<Rightarrow> False | Inr _ \<Rightarrow> True)"

lemma ensure_Inr [result_simps, simp]: "ensure b e = Inr u \<longleftrightarrow> b"
  by (simp add: ensure_def)

lemma ensure_Inl [simp]: "ensure b e = Inl e' \<longleftrightarrow> \<not> b \<and> e' = e"
  by (auto simp: ensure_def)

lemma ensure_simps [simp]: "ensure True e = Inr ()" "ensure False e = Inl e"
  by (simp_all add: ensure_def)

lemma and_then_Inr [result_simps, simp]:
  "and_then r f = Inr b \<longleftrightarrow> (\<exists>a. r = Inr a \<and> f a = Inr b)"
  by (simp add: and_then_def split: sum.splits)

lemma and_then_simps [simp]: "and_then (Inl e) f = Inl e" "and_then (Inr a) f = f a"
  by (simp_all add: and_then_def)

lemma and_then_Inl:
  "and_then r f = Inl e \<longleftrightarrow> r = Inl e \<or> (\<exists>a. r = Inr a \<and> f a = Inl e)"
  by (auto simp: and_then_def split: sum.splits)

lemma map_err_Inr [result_simps, simp]: "map_err f r = Inr a \<longleftrightarrow> r = Inr a"
  by (cases r) (auto simp: map_err_def)

lemma map_err_simps [simp]: "map_err f (Inl e) = Inl (f e)" "map_err f (Inr a) = Inr a"
  by (simp_all add: map_err_def)

lemma ok_or_Inr [result_simps, simp]: "ok_or e x = Inr a \<longleftrightarrow> x = Some a"
  by (cases x) (auto simp: ok_or_def)

lemma ok_or_simps [simp]: "ok_or e None = Inl e" "ok_or e (Some a) = Inr a"
  by (simp_all add: ok_or_def)

lemma is_ok_simps [simp]: "is_ok (Inl e) = False" "is_ok (Inr a) = True"
  by (simp_all add: is_ok_def)

lemma is_ok_iff: "is_ok r \<longleftrightarrow> (\<exists>a. r = Inr a)"
  by (cases r) auto

lemma unit_result_cases: "r = Inr () \<or> (\<exists>e. r = Inl e)"
  by (cases r) auto

lemma first_error_Inr [result_simps, simp]:
  "first_error cs = Inr u \<longleftrightarrow> (\<forall>c \<in> set cs. c = Inr ())"
  by (induction cs) (auto split: sum.splits)

lemma first_error_Inl: "first_error cs = Inl e \<Longrightarrow> Inl e \<in> set cs"
  by (induction cs) (auto split: sum.splits)

lemma first_error_simps [simp]:
  "first_error [] = Inr ()" "first_error (Inl e # cs) = Inl e"
  "first_error (Inr u # cs) = first_error cs"
  by simp_all

lemma first_error_append:
  "first_error (cs @ ds) = (case first_error cs of Inl e \<Rightarrow> Inl e | Inr _ \<Rightarrow> first_error ds)"
  by (induction cs) (simp_all split: sum.split del: first_error_Inr)

lemma check_each_Inr [result_simps, simp]:
  "check_each f xs = Inr u \<longleftrightarrow> (\<forall>x \<in> set xs. f x = Inr ())"
  by (simp add: check_each_def)

lemma check_each_Inl: "check_each f xs = Inl e \<Longrightarrow> \<exists>x \<in> set xs. f x = Inl e"
  unfolding check_each_def using first_error_Inl by fastforce

lemma traverse_Inr:
  "traverse f xs = Inr ys \<longleftrightarrow> list_all2 (\<lambda>x y. f x = Inr y) xs ys"
proof (induction xs arbitrary: ys)
  case (Cons x xs)
  show ?case
  proof (cases ys)
    case (Cons y ys')
    then show ?thesis using Cons.IH [of ys'] by (auto split: sum.splits)
  qed (auto split: sum.splits)
qed auto

lemma traverse_length: "traverse f xs = Inr ys \<Longrightarrow> length ys = length xs"
  by (auto simp: traverse_Inr dest: list_all2_lengthD)

lemma traverse_set: "traverse f xs = Inr ys \<Longrightarrow> y \<in> set ys \<Longrightarrow> \<exists>x \<in> set xs. f x = Inr y"
  by (auto simp: traverse_Inr list_all2_conv_all_nth in_set_conv_nth) (metis nth_mem)

text \<open>From here on \<open>first_error\<close> unfolds only on a check that is already decided.\<close>

declare first_error.simps [simp del]

section \<open>Sorting and removing duplicates\<close>

lemma sorted_dedup_strict: "sorted xs \<Longrightarrow> sorted_wrt (<) (remdups_adj xs)"
proof (induction xs rule: remdups_adj.induct)
  case (3 x y xs)
  then show ?case
    by (cases "x = y") (auto simp: order.strict_iff_order intro: order.trans)
qed simp_all

lemma sort_dedup_strict [simp]: "sorted_wrt (<) (remdups_adj (sort xs))"
  by (simp add: sorted_dedup_strict)

lemma dedup_of_strict: "sorted_wrt (<) xs \<Longrightarrow> remdups_adj (sort xs) = xs"
  by (simp add: strict_sorted_iff remdups_adj_distinct sorted_sort_id)

text \<open>\<open>windows(2).all(|pair| pair[0] < pair[1])\<close>.\<close>

fun increasing_pairs :: "'a::linorder list \<Rightarrow> bool" where
  "increasing_pairs [] = True"
| "increasing_pairs [x] = True"
| "increasing_pairs (x # y # xs) = (x < y \<and> increasing_pairs (y # xs))"

lemma increasing_pairs_iff: "increasing_pairs xs \<longleftrightarrow> sorted_wrt (<) xs"
  by (induction xs rule: increasing_pairs.induct) (auto intro: less_trans)

section \<open>Ordered maps\<close>

type_synonym ('k, 'v) bmap = "('k \<times> 'v) list"

definition bm_wf :: "('k::linorder, 'v) bmap \<Rightarrow> bool" where
  "bm_wf m = sorted_wrt (<) (map fst m)"

fun bm_insert :: "'k::linorder \<Rightarrow> 'v \<Rightarrow> ('k, 'v) bmap \<Rightarrow> ('k, 'v) bmap" where
  "bm_insert k v [] = [(k, v)]"
| "bm_insert k v ((k', v') # m) =
     (if k < k' then (k, v) # (k', v') # m
      else if k = k' then (k, v) # m
      else (k', v') # bm_insert k v m)"

fun bm_get :: "('k, 'v) bmap \<Rightarrow> 'k \<Rightarrow> 'v option" where
  "bm_get [] k = None"
| "bm_get ((k', v) # m) k = (if k = k' then Some v else bm_get m k)"

fun bm_remove :: "'k \<Rightarrow> ('k, 'v) bmap \<Rightarrow> ('k, 'v) bmap" where
  "bm_remove k [] = []"
| "bm_remove k ((k', v) # m) = (if k = k' then m else (k', v) # bm_remove k m)"

definition bm_keys :: "('k, 'v) bmap \<Rightarrow> 'k list" where
  "bm_keys m = map fst m"

definition bm_values :: "('k, 'v) bmap \<Rightarrow> 'v list" where
  "bm_values m = map snd m"

text \<open>Collecting pairs inserts them in order; a later pair replaces an earlier one.\<close>

fun bm_collect :: "('k::linorder \<times> 'v) list \<Rightarrow> ('k, 'v) bmap \<Rightarrow> ('k, 'v) bmap" where
  "bm_collect [] m = m"
| "bm_collect ((k, v) # kvs) m = bm_collect kvs (bm_insert k v m)"

definition bm_of_list :: "('k::linorder \<times> 'v) list \<Rightarrow> ('k, 'v) bmap" where
  "bm_of_list kvs = bm_collect kvs []"

lemma bm_get_map_of: "bm_get m = map_of m"
  by (rule ext, induct_tac m) auto

lemma bm_get_insert [simp]:
  "bm_get (bm_insert k v m) k' = (if k' = k then Some v else bm_get m k')"
  by (induction m rule: bm_insert.induct [where ?a0.0 = k and ?a1.0 = v]) auto

lemma bm_wf_simps [simp]:
  "bm_wf []" "bm_wf ((k, v) # m) \<longleftrightarrow> (\<forall>k' \<in> fst ` set m. k < k') \<and> bm_wf m"
  by (simp_all add: bm_wf_def)

lemma bm_insert_keys: "fst ` set (bm_insert k v m) = insert k (fst ` set m)"
  by (induction k v m rule: bm_insert.induct) auto

lemma bm_insert_wf: "bm_wf m \<Longrightarrow> bm_wf (bm_insert k v m)"
  by (induction k v m rule: bm_insert.induct) (auto simp: bm_insert_keys)

lemma bm_remove_subset: "set (bm_remove k m) \<subseteq> set m"
  by (induction m) (auto split: if_splits)

lemma bm_remove_wf: "bm_wf m \<Longrightarrow> bm_wf (bm_remove k m)"
  using bm_remove_subset by (induction m) (fastforce split: if_splits)+

lemma bm_get_None: "bm_get m k = None \<longleftrightarrow> k \<notin> fst ` set m"
  by (simp add: bm_get_map_of map_of_eq_None_iff)

lemma bm_get_remove:
  "bm_wf m \<Longrightarrow> bm_get (bm_remove k m) k' = (if k' = k then None else bm_get m k')"
proof (induction m)
  case (Cons e m)
  then have "bm_get m (fst e) = None"
    by (cases e) (auto simp: bm_get_None)
  with Cons show ?case by (cases e) auto
qed simp

lemma bm_wf_distinct: "bm_wf m \<Longrightarrow> distinct (map fst m)"
  by (simp add: bm_wf_def strict_sorted_iff)

lemma bm_get_Some: "bm_wf m \<Longrightarrow> bm_get m k = Some v \<longleftrightarrow> (k, v) \<in> set m"
  by (simp add: bm_get_map_of map_of_eq_Some_iff bm_wf_distinct)

text \<open>What a client of an ordered map may use.\<close>

locale ordered_map =
  fixes wf :: "'m \<Rightarrow> bool"
    and empty :: "'m"
    and insert_kv :: "'k::linorder \<Rightarrow> 'v \<Rightarrow> 'm \<Rightarrow> 'm"
    and remove :: "'k \<Rightarrow> 'm \<Rightarrow> 'm"
    and get :: "'m \<Rightarrow> 'k \<Rightarrow> 'v option"
    and entries :: "'m \<Rightarrow> ('k \<times> 'v) list"
  assumes wf_empty: "wf empty"
    and wf_insert: "wf m \<Longrightarrow> wf (insert_kv k v m)"
    and wf_remove: "wf m \<Longrightarrow> wf (remove k m)"
    and get_empty: "get empty k = None"
    and get_insert: "get (insert_kv k v m) k' = (if k' = k then Some v else get m k')"
    and get_remove: "wf m \<Longrightarrow> get (remove k m) k' = (if k' = k then None else get m k')"
    and entries_get: "wf m \<Longrightarrow> (k, v) \<in> set (entries m) \<longleftrightarrow> get m k = Some v"
    and entries_sorted: "wf m \<Longrightarrow> sorted_wrt (<) (map fst (entries m))"
begin

definition collect :: "('k \<times> 'v) list \<Rightarrow> 'm \<Rightarrow> 'm" where
  "collect kvs m = fold (\<lambda>(k, v). insert_kv k v) kvs m"

lemma collect_wf: "wf m \<Longrightarrow> wf (collect kvs m)"
  unfolding collect_def by (induction kvs arbitrary: m) (auto simp: wf_insert)

lemma collect_get:
  "get (collect kvs m) k = (case map_of (rev kvs) k of None \<Rightarrow> get m k | Some v \<Rightarrow> Some v)"
  unfolding collect_def
  by (induction kvs arbitrary: m) (auto simp: get_insert map_add_def split: option.splits)

lemma keys_dom: "wf m \<Longrightarrow> fst ` set (entries m) = dom (get m)"
proof -
  assume w: "wf m"
  have "k \<in> fst ` set (entries m) \<longleftrightarrow> (\<exists>v. get m k = Some v)" for k
    by (force simp flip: entries_get [OF w])
  then show ?thesis by auto
qed

lemma keys_distinct: "wf m \<Longrightarrow> distinct (map fst (entries m))"
  using entries_sorted by (simp add: strict_sorted_iff)

lemma entries_unique:
  assumes "wf m" and "wf m'" and eq: "get m = get m'"
  shows "entries m = entries m'"
proof (rule map_sorted_distinct_set_unique [where f = fst])
  show "inj_on fst (set (entries m) \<union> set (entries m'))"
    using assms by (auto simp: inj_on_def entries_get)
  show "sorted (map fst (entries m))" "sorted (map fst (entries m'))"
    using entries_sorted assms by (simp_all add: strict_sorted_iff)
  show "distinct (map fst (entries m))" "distinct (map fst (entries m'))"
    using keys_distinct assms by simp_all
  show "set (entries m) = set (entries m')"
    using assms by (auto simp: entries_get)
qed

end

interpretation bm: ordered_map bm_wf "[]" bm_insert bm_remove bm_get "\<lambda>m. m"
  by unfold_locales
    (auto simp: bm_insert_wf bm_remove_wf bm_get_remove bm_get_Some,
     simp add: bm_wf_def)

lemma bm_collect_eq: "bm_collect kvs m = bm.collect kvs m"
  unfolding bm.collect_def by (induction kvs m rule: bm_collect.induct) auto

lemma bm_of_list_wf [simp]: "bm_wf (bm_of_list kvs)"
  by (simp add: bm_of_list_def bm_collect_eq bm.collect_wf)

lemma bm_of_list_get: "bm_get (bm_of_list kvs) k = map_of (rev kvs) k"
  by (simp add: bm_of_list_def bm_collect_eq bm.collect_get split: option.splits)

lemma bm_of_list_keys: "fst ` set (bm_of_list kvs) = fst ` set kvs"
  using bm.keys_dom [OF bm_of_list_wf, of kvs]
  by (simp add: bm_of_list_get dom_map_of_conv_image_fst fun_eq_iff dom_def)
    (force simp: map_of_eq_None_iff domIff dom_map_of_conv_image_fst
      simp flip: not_None_eq)

lemma bm_keys_set: "set (bm_keys m) = fst ` set m"
  by (simp add: bm_keys_def)

lemma bm_values_set: "bm_wf m \<Longrightarrow> v \<in> set (bm_values m) \<longleftrightarrow> (\<exists>k. bm_get m k = Some v)"
  by (force simp: bm_values_def bm_get_Some)

lemma bm_keys_sorted: "bm_wf m \<Longrightarrow> sorted_wrt (<) (bm_keys m)"
  by (simp add: bm_wf_def bm_keys_def)

end
