(* ===== verification/Strict_Json.thy ===== *)
theory Strict_Json
  imports Ordmap
begin

text \<open>
  \<open>crates/stack-runtime/src/strict_json.rs\<close>: JSON values without duplicate keys. The
  tokenizer is \<open>serde_json\<close>; what it hands to the visitor is a \<open>raw_json\<close>, a tree whose
  objects are the key/value pairs in document order, duplicates included. A \<open>StrictValue\<close> and
  the \<open>serde_json::Value\<close> it converts to have the same constructors and are one type here.
  A 64-bit float is its IEEE bit pattern, an \<open>i64\<close> its two's complement.
\<close>

datatype raw_json =
    Raw_Null
  | Raw_Bool bool
  | Raw_I64 u64
  | Raw_U64 u64
  | Raw_F64 u64
  | Raw_String string
  | Raw_Array "raw_json list"
  | Raw_Object "(string \<times> raw_json) list"

datatype json_number = Pos_Int u64 | Neg_Int u64 | Float u64

datatype json =
    Null
  | Bool bool
  | Number json_number
  | String string
  | Array "json list"
  | Object "(string \<times> json) list"

definition number_of_i64 :: "u64 \<Rightarrow> json_number" where
  "number_of_i64 n = (if bit n 63 then Neg_Int n else Pos_Int n)"

definition finite_f64 :: "u64 \<Rightarrow> bool" where
  "finite_f64 x = ((unat x div 2 ^ 52) mod 2 ^ 11 \<noteq> 2047)"

definition number_of_f64 :: "u64 \<Rightarrow> json_number option" where
  "number_of_f64 x = (if finite_f64 x then Some (Float x) else None)"

text \<open>The visitor, one function per \<open>visit_\<close> method that does more than wrap its value.\<close>

fun strict_value :: "raw_json \<Rightarrow> json option"
  and visit_seq :: "raw_json list \<Rightarrow> json list option"
  and visit_map :: "(string \<times> raw_json) list \<Rightarrow> (string, json) bmap \<Rightarrow> (string, json) bmap option"
where
  "strict_value Raw_Null = Some Null"
| "strict_value (Raw_Bool b) = Some (Bool b)"
| "strict_value (Raw_I64 n) = Some (Number (number_of_i64 n))"
| "strict_value (Raw_U64 n) = Some (Number (Pos_Int n))"
| "strict_value (Raw_F64 x) = map_option Number (number_of_f64 x)"
| "strict_value (Raw_String s) = Some (String s)"
| "strict_value (Raw_Array vs) = map_option Array (visit_seq vs)"
| "strict_value (Raw_Object kvs) = map_option Object (visit_map kvs [])"
| "visit_seq [] = Some []"
| "visit_seq (v # vs) = (case strict_value v of None \<Rightarrow> None
     | Some x \<Rightarrow> map_option ((#) x) (visit_seq vs))"
| "visit_map [] values = Some values"
| "visit_map ((key, v) # kvs) values =
     (if bm_get values key \<noteq> None then None
      else case strict_value v of None \<Rightarrow> None
         | Some x \<Rightarrow> visit_map kvs (bm_insert key x values))"

section \<open>What strict means\<close>

text \<open>No object of the document repeats a key, and every float is finite.\<close>

fun duplicate_free :: "raw_json \<Rightarrow> bool" where
  "duplicate_free (Raw_F64 x) = finite_f64 x"
| "duplicate_free (Raw_Array vs) = list_all duplicate_free vs"
| "duplicate_free (Raw_Object kvs) =
     (distinct (map fst kvs) \<and> list_all (\<lambda>kv. duplicate_free (snd kv)) kvs)"
| "duplicate_free _ = True"

text \<open>The value a document denotes, whatever its keys: later pairs replace earlier ones.\<close>

fun denote :: "raw_json \<Rightarrow> json" where
  "denote Raw_Null = Null"
| "denote (Raw_Bool b) = Bool b"
| "denote (Raw_I64 n) = Number (number_of_i64 n)"
| "denote (Raw_U64 n) = Number (Pos_Int n)"
| "denote (Raw_F64 x) = Number (Float x)"
| "denote (Raw_String s) = String s"
| "denote (Raw_Array vs) = Array (map denote vs)"
| "denote (Raw_Object kvs) = Object (bm_of_list (map (\<lambda>kv. (fst kv, denote (snd kv))) kvs))"

text \<open>Every object of a value is an ordered map.\<close>

fun json_wf :: "json \<Rightarrow> bool" where
  "json_wf (Array vs) = list_all json_wf vs"
| "json_wf (Object m) = (bm_wf m \<and> list_all (\<lambda>kv. json_wf (snd kv)) m)"
| "json_wf _ = True"

lemma bm_collect_Cons: "bm_collect (kv # kvs) m = bm_collect kvs (bm_insert (fst kv) (snd kv) m)"
  by (cases kv) simp

lemma strict_value_spec:
  "strict_value r = (if duplicate_free r then Some (denote r) else None)"
  "visit_seq vs = (if list_all duplicate_free vs then Some (map denote vs) else None)"
  "visit_map kvs m =
     (if distinct (map fst kvs) \<and> fst ` set kvs \<inter> fst ` set m = {}
         \<and> list_all (\<lambda>kv. duplicate_free (snd kv)) kvs
      then Some (bm_collect (map (\<lambda>kv. (fst kv, denote (snd kv))) kvs) m) else None)"
proof (induction r and vs and kvs m rule: strict_value_visit_seq_visit_map.induct)
  case (12 key v kvs m)
  show ?case
  proof (cases "key \<in> fst ` set m \<or> \<not> duplicate_free v")
    case True
    then show ?thesis using 12 by (auto simp: bm_get_None)
  next
    case False
    then have "bm_get m key = None" by (simp add: bm_get_None)
    with 12 False show ?thesis by (auto simp: bm_insert_keys)
  qed
qed (auto simp: number_of_f64_def bm_of_list_def)

lemma bm_insert_all: "list_all P m \<Longrightarrow> P (k, v) \<Longrightarrow> list_all P (bm_insert k v m)"
  by (induction k v m rule: bm_insert.induct) auto

lemma bm_collect_all: "list_all P m \<Longrightarrow> list_all P kvs \<Longrightarrow> list_all P (bm_collect kvs m)"
  by (induction kvs m rule: bm_collect.induct) (auto intro: bm_insert_all)

lemma denote_wf: "json_wf (denote r)"
proof (induction r rule: denote.induct)
  case (8 kvs)
  then have "list_all (\<lambda>kv. json_wf (snd kv)) (map (\<lambda>kv. (fst kv, denote (snd kv))) kvs)"
    by (fastforce simp: list_all_iff)
  then show ?case by (simp add: bm_of_list_def [symmetric])
    (simp add: bm_of_list_def bm_collect_all)
qed (auto simp: list_all_iff)

end
