(* ===== verification/Kernel.thy ===== *)
theory Kernel
  imports Ordmap
begin

text \<open>
  \<open>crates/stack-schema/src/error.rs\<close> and \<open>kernel.rs\<close>: the validation error of the profile
  schema and the numeric kernel version. \<open>KernelVersion\<close> derives \<open>Ord\<close>, the lexicographic
  order of its three \<open>u64\<close> components; \<open>parse_release\<close> is modelled with every error branch.
  \<open>str_debug\<close> is the \<open>{:?}\<close> form that error messages quote: the escapes are those of ASCII
  text, other characters pass through.
\<close>

section \<open>Errors\<close>

record schema_error =
  se_code :: string
  se_message :: string

definition schema_err :: "string \<Rightarrow> string \<Rightarrow> schema_error" where
  "schema_err c m = \<lparr>se_code = c, se_message = m\<rparr>"

definition hex_digit :: "nat \<Rightarrow> char" where
  "hex_digit n = (if n < 10 then char_of (48 + n) else char_of (87 + n))"

fun show_hex :: "nat \<Rightarrow> string" where
  "show_hex n = (if n < 16 then [hex_digit n] else show_hex (n div 16) @ [hex_digit (n mod 16)])"

declare show_hex.simps [simp del]

definition escape_debug :: "char \<Rightarrow> string" where
  "escape_debug c =
     (if c = CHR 0x00 then [backslash, CHR ''0'']
      else if c = tab then [backslash, CHR ''t'']
      else if c = cr then [backslash, CHR ''r'']
      else if c = nl then [backslash, CHR ''n'']
      else if c = dquote then [backslash, dquote]
      else if c = backslash then [backslash, backslash]
      else if is_ascii_control c then backslash # ''u{'' @ show_hex (of_char c) @ ''}''
      else [c])"

definition str_debug :: "string \<Rightarrow> string" where
  "str_debug s = dquote # concat (map escape_debug s) @ [dquote]"

section \<open>Kernel versions\<close>

datatype kernel_version = KernelVersion (major: u64) (minor: u64) (patch: u64)

definition version_key :: "kernel_version \<Rightarrow> u64 \<times> u64 \<times> u64" where
  "version_key v = (major v, minor v, patch v)"

instantiation kernel_version :: linorder
begin

definition less_eq_kernel_version :: "kernel_version \<Rightarrow> kernel_version \<Rightarrow> bool" where
  "less_eq_kernel_version v w = (version_key v \<le> version_key w)"

definition less_kernel_version :: "kernel_version \<Rightarrow> kernel_version \<Rightarrow> bool" where
  "less_kernel_version v w = (version_key v < version_key w)"

instance
  by standard
    (auto simp: less_eq_kernel_version_def less_kernel_version_def version_key_def
      kernel_version.expand)

end

definition invalid_kernel :: "string \<Rightarrow> schema_error" where
  "invalid_kernel v = schema_err ''PROFILE_FIELD_INVALID''
     (''invalid kernel release '' @ str_debug v)"

text \<open>The part before the first \<open>-\<close>, provided the suffix after it is acceptable.\<close>

definition numeric_part :: "string \<Rightarrow> string option" where
  "numeric_part v = (case split_once CHR ''-'' v of
       None \<Rightarrow> Some v
     | Some (numeric, sfx) \<Rightarrow>
         if sfx = [] then None
         else if any_whitespace sfx then None
         else Some numeric)"

definition numeric_component :: "string \<Rightarrow> bool" where
  "numeric_component c = (c \<noteq> [] \<and> all_digits c)"

definition parse_release :: "string \<Rightarrow> (schema_error, kernel_version) result" where
  "parse_release value =
     (if value = [] \<or> trim value \<noteq> value then Inl (invalid_kernel value)
      else case numeric_part value of
        None \<Rightarrow> Inl (invalid_kernel value)
      | Some numeric \<Rightarrow>
          (let components = split_on CHR ''.'' numeric in
           if length components \<noteq> 3 \<or> list_ex (\<lambda>c. \<not> numeric_component c) components
           then Inl (invalid_kernel value)
           else and_then (ok_or (invalid_kernel value) (parse_u64 (components ! 0))) (\<lambda>a.
                and_then (ok_or (invalid_kernel value) (parse_u64 (components ! 1))) (\<lambda>b.
                and_then (ok_or (invalid_kernel value) (parse_u64 (components ! 2))) (\<lambda>c.
                Inr (KernelVersion a b c))))))"

definition render_version :: "kernel_version \<Rightarrow> string" where
  "render_version v =
     join_on ''.'' [show_u64 (major v), show_u64 (minor v), show_u64 (patch v)]"

section \<open>Laws\<close>

lemma version_less_iff:
  "v < w \<longleftrightarrow> major v < major w \<or> major v = major w \<and>
     (minor v < minor w \<or> minor v = minor w \<and> patch v < patch w)"
  by (auto simp: less_kernel_version_def version_key_def)

lemma list_three: "length xs = 3 \<longleftrightarrow> (\<exists>a b c. xs = [a, b, c])"
  by (auto simp: numeral_eq_Suc length_Suc_conv)

lemma dot_dash_not_digit [simp]: "\<not> is_digit CHR ''.''" "\<not> is_digit CHR ''-''"
  by (simp_all add: is_digit_def)

lemma parse_u64_digits:
  "all_digits s \<Longrightarrow> s \<noteq> [] \<Longrightarrow>
   parse_u64 s = (if dec s < 2 ^ 64 then Some (of_nat (dec s)) else None)"
  by (simp add: parse_u64_def parse_unsigned_digits)

text \<open>An accepted release is three dotted decimals below \<open>2 ^ 64\<close> and a clean suffix.\<close>

definition release_grammar :: "string \<Rightarrow> kernel_version \<Rightarrow> bool" where
  "release_grammar value v =
     (value \<noteq> [] \<and> trim value = value \<and>
      (\<exists>a b c. numeric_part value = Some (join_on ''.'' [a, b, c])
         \<and> (\<forall>d \<in> {a, b, c}. numeric_component d \<and> dec d < 2 ^ 64)
         \<and> v = KernelVersion (of_nat (dec a)) (of_nat (dec b)) (of_nat (dec c))))"

lemma digits_no_sep: "all_digits s \<Longrightarrow> \<not> is_digit c \<Longrightarrow> c \<notin> set s"
  using all_digitsD by blast

lemma split_three:
  assumes "all_digits a" "all_digits b" "all_digits c"
  shows "split_on CHR ''.'' (join_on ''.'' [a, b, c]) = [a, b, c]"
  by (rule split_on_join) (use assms digits_no_sep [OF _ dot_dash_not_digit(1)] in auto)

lemma split_eq_three:
  assumes "split_on CHR ''.'' n = [a, b, c]"
  shows "n = join_on ''.'' [a, b, c]"
  using join_split_on [of "CHR ''.''" n] unfolding assms by (rule sym)

lemma parse_release_iff:
  "parse_release value = Inr v \<longleftrightarrow> release_grammar value v"
proof
  assume "parse_release value = Inr v"
  then obtain n cs where n: "numeric_part value = Some n" and v: "value \<noteq> []" "trim value = value"
    and cs: "split_on CHR ''.'' n = cs" "length cs = 3" "\<forall>c \<in> set cs. numeric_component c"
    and k: "\<exists>x y z. parse_u64 (cs ! 0) = Some x \<and> parse_u64 (cs ! 1) = Some y
            \<and> parse_u64 (cs ! 2) = Some z \<and> v = KernelVersion x y z"
    by (auto simp: parse_release_def Let_def list_ex_iff split: if_splits option.splits)
  from cs(2) obtain a b c where abc: "cs = [a, b, c]" by (auto simp: list_three)
  with cs have "n = join_on ''.'' [a, b, c]" using split_eq_three by simp
  moreover from cs(3) abc have "\<forall>d \<in> {a, b, c}. numeric_component d" by simp
  moreover from this k abc have "\<forall>d \<in> {a, b, c}. dec d < 2 ^ 64"
    and "v = KernelVersion (of_nat (dec a)) (of_nat (dec b)) (of_nat (dec c))"
    by (auto simp: numeric_component_def parse_u64_digits split: if_splits)
  ultimately show "release_grammar value v"
    using n v by (auto simp: release_grammar_def)
next
  assume "release_grammar value v"
  then show "parse_release value = Inr v"
    by (auto simp: release_grammar_def parse_release_def Let_def split_three
        numeric_component_def parse_u64_digits simp del: join_on.simps)
qed

lemma parse_release_Inl: "parse_release value = Inl e \<Longrightarrow> e = invalid_kernel value"
  by (auto simp: parse_release_def Let_def and_then_Inl ok_or_def
      split: if_splits option.splits)

lemma render_graph: "list_all is_graph (render_version v)"
proof -
  have "list_all is_graph (show_u64 n)" for n
    using all_digits_show_u64 [of n] is_digit_graph by (auto simp: all_digits_def list_all_iff)
  moreover have "is_graph CHR ''.''" by (simp add: is_graph_def)
  ultimately show ?thesis by (simp add: render_version_def)
qed

lemma render_no_dash: "CHR ''-'' \<notin> set (render_version v)"
  by (auto simp: render_version_def dest: not_digit_show_u64 [THEN notE, rotated])

lemma render_not_Nil [simp]: "render_version v \<noteq> []"
  by (simp add: render_version_def)

lemma dec_show_u64 [simp]: "dec (show_u64 n) = unat n"
  by (simp add: show_u64_def)

lemma render_components:
  "\<exists>a b c. render_version v = join_on ''.'' [a, b, c]
     \<and> (\<forall>d \<in> {a, b, c}. numeric_component d \<and> dec d < 2 ^ 64)
     \<and> v = KernelVersion (of_nat (dec a)) (of_nat (dec b)) (of_nat (dec c))"
proof -
  have "unat n < 2 ^ 64" for n :: u64 using unsigned_less [of n] by simp
  then show ?thesis
    by (intro exI [of _ "show_u64 (major v)"] exI [of _ "show_u64 (minor v)"]
        exI [of _ "show_u64 (patch v)"])
      (auto simp: render_version_def numeric_component_def)
qed

end
