(* ===== verification/Profile.thy ===== *)
theory Profile
  imports Kernel
begin

text \<open>
  \<open>crates/stack-schema/src/profile.rs\<close>: the capability profile and its validation. Every
  struct is a record with the fields of the source, every enum a datatype; \<open>validate\<close> is the
  source's sequence of checks, each with its error, in the source's order. Decoding TOML is the
  third-party \<open>toml\<close> crate: \<open>parse_toml\<close> takes it as an argument that returns the decoded
  profile or the text of its error.
\<close>

section \<open>Data\<close>

datatype profile_status = Candidate | Experimental | Qualified | Unsupported | Deprecated
datatype package_manager = Rpm | Dpkg | Pacman
datatype activation_requirement = Immediate | Reboot | Relogin
datatype redistribution_verdict = Allowed | External_Only | Forbidden
datatype conflict_resolution = Remove

record platform_selector =
  ps_id :: string
  ps_version_id :: string
  ps_arch :: string

datatype pci_id = PciId (vendor: string) (device: string)

definition pci_key :: "pci_id \<Rightarrow> string \<times> string" where
  "pci_key a = (vendor a, device a)"

instantiation pci_id :: linorder
begin

definition less_eq_pci_id :: "pci_id \<Rightarrow> pci_id \<Rightarrow> bool" where
  "less_eq_pci_id a b = (pci_key a \<le> pci_key b)"

definition less_pci_id :: "pci_id \<Rightarrow> pci_id \<Rightarrow> bool" where
  "less_pci_id a b = (pci_key a < pci_key b)"

instance
  by standard (auto simp: less_eq_pci_id_def less_pci_id_def pci_key_def pci_id.expand)

end

record kernel_range =
  kr_min :: string
  kr_max_exclusive :: string
  kr_module :: string

record installed_file =
  if_path :: string
  if_sha256 :: string

record native_provider =
  np_package :: string
  np_version :: string
  np_activation :: activation_requirement
  np_files :: "installed_file list"

record license_record =
  lr_expression :: string
  lr_redistribution :: redistribution_verdict
  lr_evidence_sha256 :: string

record package_conflict =
  pc_package :: string
  pc_resolution :: conflict_resolution

record component_requirement =
  cr_version :: string
  cr_source :: string
  cr_sha256 :: string
  cr_provider :: native_provider
  cr_license :: license_record

record qualification_record =
  q_evidence_id :: string
  q_evidence_sha256 :: string
  q_qualified_at :: string
  q_hardware_class :: string
  q_test_suite_version :: string

record profile =
  p_schema_version :: u32
  p_id :: string
  p_stack_release :: string
  p_status :: profile_status
  p_package_manager :: package_manager
  p_conflicts :: "package_conflict list"
  p_platform :: platform_selector
  p_hardware :: "pci_id list"
  p_kernel :: kernel_range
  p_components :: "(string, component_requirement) bmap"
  p_qualification :: "qualification_record option"

section \<open>Constants and field predicates\<close>

definition PROFILE_SCHEMA_VERSION :: u32 where "PROFILE_SCHEMA_VERSION = 1"

definition REQUIRED_COMPONENTS :: "string list" where
  "REQUIRED_COMPONENTS = [''level_zero_loader'', ''npu_compiler'', ''npu_firmware'',
     ''npu_userspace_driver'', ''openvino_npu_plugin'', ''openvino_runtime'']"

definition MAX_PROFILE_BYTES :: nat where "MAX_PROFILE_BYTES = 1048576"
definition MAX_SCALAR_BYTES :: nat where "MAX_SCALAR_BYTES = 4096"
definition MAX_HARDWARE_IDS :: nat where "MAX_HARDWARE_IDS = 64"
definition MAX_CONFLICTS :: nat where "MAX_CONFLICTS = 32"
definition MAX_PROVIDER_FILES :: nat where "MAX_PROVIDER_FILES = 16"

definition APPROVED_FILE_PREFIXES :: "string list" where
  "APPROVED_FILE_PREFIXES = [''/usr/bin/'', ''/usr/lib/'', ''/usr/lib64/'', ''/usr/libexec/'',
     ''/usr/share/'', ''/usr/lib/firmware/'']"

definition is_lower_hex_quad :: "string \<Rightarrow> bool" where
  "is_lower_hex_quad v = (length v = 4 \<and> list_all is_lower_hex v)"

definition is_sha256 :: "string \<Rightarrow> bool" where
  "is_sha256 v = (length v = 64 \<and> list_all is_lower_hex v)"

definition is_https_source :: "string \<Rightarrow> bool" where
  "is_https_source v = (case strip_prefix ''https://'' v of
       None \<Rightarrow> False
     | Some remainder \<Rightarrow> remainder \<noteq> [] \<and> \<not> any_whitespace remainder)"

definition is_package_name :: "string \<Rightarrow> bool" where
  "is_package_name v = (v \<noteq> [] \<and> list_all (\<lambda>c. is_alnum c \<or> c \<in> set ''.+-_'') v)"

definition is_package_version :: "string \<Rightarrow> bool" where
  "is_package_version v = (v \<noteq> [] \<and> list_all (\<lambda>c. is_alnum c \<or> c \<in> set ''.+-_:~^'') v)"

definition is_approved_file_path :: "string \<Rightarrow> bool" where
  "is_approved_file_path v =
     (list_ex (\<lambda>p. starts_with p v) APPROVED_FILE_PREFIXES
      \<and> \<not> ends_with ''/'' v
      \<and> \<not> contains_sub ''//'' v
      \<and> \<not> any_control v
      \<and> list_all (\<lambda>c. c \<noteq> [] \<and> c \<noteq> ''.'' \<and> c \<noteq> ''..'') (drop 1 (split_on CHR ''/'' v)))"

definition clean_text :: "string \<Rightarrow> bool" where
  "clean_text v = (v \<noteq> [] \<and> trim v = v \<and> \<not> any_control v)"

section \<open>Checks\<close>

definition resource_limit :: "string \<Rightarrow> schema_error" where
  "resource_limit m = schema_err ''PROFILE_RESOURCE_LIMIT'' m"

definition package_invalid :: "string \<Rightarrow> schema_error" where
  "package_invalid m = schema_err ''PROFILE_PACKAGE_INVALID'' m"

definition provenance_invalid :: "string \<Rightarrow> schema_error" where
  "provenance_invalid m = schema_err ''PROFILE_PROVENANCE_INVALID'' m"

definition check_scalar_limit :: "string \<Rightarrow> (schema_error, unit) result" where
  "check_scalar_limit v =
     ensure (length v \<le> MAX_SCALAR_BYTES) (resource_limit ''profile scalar exceeds 4096 bytes'')"

definition text_rule :: string where
  "text_rule = '' must be nonempty and contain no surrounding whitespace or controls''"

definition require_nonempty :: "string \<Rightarrow> string \<Rightarrow> (schema_error, unit) result" where
  "require_nonempty f v =
     ensure (clean_text v) (schema_err ''PROFILE_FIELD_INVALID'' (f @ text_rule))"

definition require_qualification_text :: "string \<Rightarrow> string \<Rightarrow> (schema_error, unit) result" where
  "require_qualification_text f v =
     ensure (clean_text v) (schema_err ''PROFILE_QUALIFICATION_MISSING'' (f @ text_rule))"

definition profile_scalars :: "profile \<Rightarrow> string list" where
  "profile_scalars p =
     [p_id p, p_stack_release p, ps_id (p_platform p), ps_version_id (p_platform p),
      ps_arch (p_platform p), kr_min (p_kernel p), kr_max_exclusive (p_kernel p),
      kr_module (p_kernel p)]"

definition component_scalars :: "string \<times> component_requirement \<Rightarrow> string list" where
  "component_scalars e = (case e of (name, c) \<Rightarrow>
     [name, cr_version c, cr_source c, cr_sha256 c, np_package (cr_provider c),
      np_version (cr_provider c), lr_expression (cr_license c),
      lr_evidence_sha256 (cr_license c)]
     @ concat (map (\<lambda>f. [if_path f, if_sha256 f]) (np_files (cr_provider c))))"

definition qualification_scalars :: "qualification_record \<Rightarrow> string list" where
  "qualification_scalars q =
     [q_evidence_id q, q_evidence_sha256 q, q_qualified_at q, q_hardware_class q,
      q_test_suite_version q]"

definition validate_scalar_limits :: "profile \<Rightarrow> (schema_error, unit) result" where
  "validate_scalar_limits p = first_error
     [check_each check_scalar_limit (profile_scalars p),
      check_each check_scalar_limit (concat (map (\<lambda>h. [vendor h, device h]) (p_hardware p))),
      check_each check_scalar_limit (map pc_package (p_conflicts p)),
      check_each check_scalar_limit (concat (map component_scalars (p_components p))),
      check_each check_scalar_limit
        (case p_qualification p of None \<Rightarrow> [] | Some q \<Rightarrow> qualification_scalars q)]"

text \<open>The loop over the conflicts, with the previous package name it carries.\<close>

fun validate_conflicts ::
  "string option \<Rightarrow> package_conflict list \<Rightarrow> (schema_error, unit) result" where
  "validate_conflicts previous [] = Inr ()"
| "validate_conflicts previous (c # cs) =
     (if \<not> is_package_name (pc_package c)
      then Inl (package_invalid ''conflict package name is invalid'')
      else if (case previous of None \<Rightarrow> False | Some q \<Rightarrow> q \<ge> pc_package c)
      then Inl (package_invalid ''conflict package names must be sorted and unique'')
      else validate_conflicts (Some (pc_package c)) cs)"

definition validate_pci_id :: "pci_id \<Rightarrow> (schema_error, unit) result" where
  "validate_pci_id h =
     ensure (is_lower_hex_quad (vendor h) \<and> is_lower_hex_quad (device h))
       (schema_err ''PROFILE_PCI_ID_INVALID''
          (''invalid PCI identifier '' @ vendor h @ '':'' @ device h))"

definition validate_kernel :: "kernel_range \<Rightarrow> (schema_error, unit) result" where
  "validate_kernel k =
     (if kr_module k \<noteq> ''intel_vpu''
      then Inl (schema_err ''PROFILE_FIELD_INVALID'' ''kernel module must be intel_vpu'')
      else and_then (parse_release (kr_min k)) (\<lambda>lo.
           and_then (parse_release (kr_max_exclusive k)) (\<lambda>hi.
           ensure (lo < hi)
             (schema_err ''PROFILE_KERNEL_RANGE_INVALID''
                ''kernel minimum must be lower than the exclusive maximum''))))"

definition validate_component_set :: "string list \<Rightarrow> (schema_error, unit) result" where
  "validate_component_set actual =
     (case find (\<lambda>r. r \<notin> set actual) REQUIRED_COMPONENTS of
        Some missing \<Rightarrow> Inl (schema_err ''PROFILE_COMPONENT_MISSING''
          (''required component '' @ missing @ '' is missing''))
      | None \<Rightarrow>
          (case find (\<lambda>a. a \<notin> set REQUIRED_COMPONENTS) actual of
             Some extra \<Rightarrow> Inl (schema_err ''PROFILE_FIELD_INVALID''
               (''unknown component '' @ extra))
           | None \<Rightarrow> Inr ()))"

definition validate_file :: "string \<Rightarrow> installed_file \<Rightarrow> (schema_error, unit) result" where
  "validate_file name f = first_error
     [ensure (is_approved_file_path (if_path f)) (schema_err ''PROFILE_PATH_INVALID''
        (''component '' @ name @ '' critical file path is invalid'')),
      ensure (is_sha256 (if_sha256 f)) (schema_err ''PROFILE_HASH_INVALID''
        (''component '' @ name
         @ '' critical file SHA-256 must be 64 lowercase hexadecimal digits''))]"

definition validate_component ::
  "string \<times> component_requirement \<Rightarrow> (schema_error, unit) result" where
  "validate_component e = (case e of (name, c) \<Rightarrow> first_error
     [require_nonempty (''component '' @ name @ '' version'') (cr_version c),
      ensure (is_https_source (cr_source c)) (schema_err ''PROFILE_FIELD_INVALID''
        (''component '' @ name @ '' source must be a nonempty HTTPS URL'')),
      ensure (is_sha256 (cr_sha256 c)) (schema_err ''PROFILE_HASH_INVALID''
        (''component '' @ name @ '' SHA-256 must be 64 lowercase hexadecimal digits'')),
      ensure (is_package_name (np_package (cr_provider c)))
        (package_invalid (''component '' @ name @ '' provider package is invalid'')),
      ensure (is_package_version (np_version (cr_provider c)))
        (package_invalid (''component '' @ name @ '' provider version is invalid'')),
      ensure (np_files (cr_provider c) \<noteq> []
              \<and> length (np_files (cr_provider c)) \<le> MAX_PROVIDER_FILES)
        (resource_limit (''component '' @ name
          @ '' must have between 1 and 16 critical files'')),
      check_each (validate_file name) (np_files (cr_provider c)),
      require_nonempty (''component '' @ name @ '' license expression'')
        (lr_expression (cr_license c)),
      ensure (is_sha256 (lr_evidence_sha256 (cr_license c)))
        (provenance_invalid (''component '' @ name @ '' license evidence SHA-256 is invalid''))])"

definition validate_qualification :: "profile \<Rightarrow> (schema_error, unit) result" where
  "validate_qualification p =
     (if p_status p \<noteq> Qualified then Inr ()
      else and_then (ok_or (schema_err ''PROFILE_QUALIFICATION_MISSING''
             ''qualified profile requires qualification evidence'') (p_qualification p)) (\<lambda>q.
        first_error
          [require_qualification_text ''qualification evidence id'' (q_evidence_id q),
           ensure (is_sha256 (q_evidence_sha256 q))
             (provenance_invalid ''qualification evidence SHA-256 is invalid''),
           require_qualification_text ''qualification timestamp'' (q_qualified_at q),
           require_qualification_text ''qualification hardware class'' (q_hardware_class q),
           require_qualification_text ''qualification test suite version''
             (q_test_suite_version q),
           ensure (\<not> list_ex (\<lambda>c. lr_redistribution (cr_license c) = Forbidden)
                     (bm_values (p_components p)))
             (provenance_invalid
               ''qualified profile contains a forbidden redistribution verdict'')]))"

definition validate :: "profile \<Rightarrow> (schema_error, unit) result" where
  "validate p = first_error
     [ensure (p_schema_version p = PROFILE_SCHEMA_VERSION)
        (schema_err ''PROFILE_SCHEMA_UNSUPPORTED''
          (''unsupported schema version '' @ show_nat (unat (p_schema_version p)))),
      ensure (length (p_hardware p) \<le> MAX_HARDWARE_IDS)
        (resource_limit ''profile has more than 64 hardware identifiers''),
      ensure (length (p_conflicts p) \<le> MAX_CONFLICTS)
        (resource_limit ''profile has more than 32 conflicts''),
      validate_scalar_limits p,
      require_nonempty ''profile id'' (p_id p),
      require_nonempty ''stack release'' (p_stack_release p),
      require_nonempty ''platform id'' (ps_id (p_platform p)),
      require_nonempty ''platform version'' (ps_version_id (p_platform p)),
      require_nonempty ''platform architecture'' (ps_arch (p_platform p)),
      ensure (p_hardware p \<noteq> []) (schema_err ''PROFILE_PCI_ID_INVALID''
        ''at least one PCI identifier is required''),
      validate_conflicts None (p_conflicts p),
      check_each validate_pci_id (p_hardware p),
      validate_kernel (p_kernel p),
      validate_component_set (bm_keys (p_components p)),
      check_each validate_component (p_components p),
      validate_qualification p]"

definition parse_toml :: "(string \<Rightarrow> (string, profile) result) \<Rightarrow> string
    \<Rightarrow> (schema_error, profile) result" where
  "parse_toml from_str input =
     (if length input > MAX_PROFILE_BYTES
      then Inl (resource_limit ''profile input exceeds 1048576 bytes'')
      else and_then (map_err (\<lambda>e. schema_err ''PROFILE_TOML_INVALID'' (''invalid TOML: '' @ e))
                       (from_str input)) (\<lambda>p.
           and_then (validate p) (\<lambda>_. Inr p)))"

section \<open>What a valid profile is\<close>

definition short_scalar :: "string \<Rightarrow> bool" where
  "short_scalar v = (length v \<le> 4096)"

definition resources_ok :: "profile \<Rightarrow> bool" where
  "resources_ok p =
     (length (p_hardware p) \<le> 64 \<and> length (p_conflicts p) \<le> 32
      \<and> (\<forall>v \<in> set (profile_scalars p). short_scalar v)
      \<and> (\<forall>h \<in> set (p_hardware p). short_scalar (vendor h) \<and> short_scalar (device h))
      \<and> (\<forall>c \<in> set (p_conflicts p). short_scalar (pc_package c))
      \<and> (\<forall>e \<in> set (p_components p). \<forall>v \<in> set (component_scalars e). short_scalar v)
      \<and> (\<forall>q. p_qualification p = Some q \<longrightarrow> (\<forall>v \<in> set (qualification_scalars q). short_scalar v)))"

definition platform_ok :: "profile \<Rightarrow> bool" where
  "platform_ok p =
     (clean_text (p_id p) \<and> clean_text (p_stack_release p)
      \<and> clean_text (ps_id (p_platform p)) \<and> clean_text (ps_version_id (p_platform p))
      \<and> clean_text (ps_arch (p_platform p)))"

definition hardware_ok :: "profile \<Rightarrow> bool" where
  "hardware_ok p =
     (p_hardware p \<noteq> []
      \<and> (\<forall>h \<in> set (p_hardware p). is_lower_hex_quad (vendor h) \<and> is_lower_hex_quad (device h)))"

definition conflicts_ok :: "package_conflict list \<Rightarrow> bool" where
  "conflicts_ok cs = (sorted_wrt (<) (map pc_package cs)
      \<and> (\<forall>c \<in> set cs. is_package_name (pc_package c)))"

definition kernel_ok :: "kernel_range \<Rightarrow> bool" where
  "kernel_ok k = (kr_module k = ''intel_vpu''
      \<and> (\<exists>lo hi. release_grammar (kr_min k) lo \<and> release_grammar (kr_max_exclusive k) hi
           \<and> lo < hi))"

definition file_ok :: "installed_file \<Rightarrow> bool" where
  "file_ok f = (is_approved_file_path (if_path f) \<and> is_sha256 (if_sha256 f))"

definition component_ok :: "component_requirement \<Rightarrow> bool" where
  "component_ok c =
     (clean_text (cr_version c) \<and> is_https_source (cr_source c) \<and> is_sha256 (cr_sha256 c)
      \<and> is_package_name (np_package (cr_provider c))
      \<and> is_package_version (np_version (cr_provider c))
      \<and> length (np_files (cr_provider c)) \<in> {1..16}
      \<and> (\<forall>f \<in> set (np_files (cr_provider c)). file_ok f)
      \<and> clean_text (lr_expression (cr_license c)) \<and> is_sha256 (lr_evidence_sha256 (cr_license c)))"

definition qualification_ok :: "profile \<Rightarrow> bool" where
  "qualification_ok p = (p_status p = Qualified \<longrightarrow>
     (\<exists>q. p_qualification p = Some q
        \<and> clean_text (q_evidence_id q) \<and> is_sha256 (q_evidence_sha256 q)
        \<and> clean_text (q_qualified_at q) \<and> clean_text (q_hardware_class q)
        \<and> clean_text (q_test_suite_version q)
        \<and> (\<forall>c \<in> set (bm_values (p_components p)). lr_redistribution (cr_license c) \<noteq> Forbidden)))"

definition profile_ok :: "profile \<Rightarrow> bool" where
  "profile_ok p =
     (p_schema_version p = 1 \<and> resources_ok p \<and> platform_ok p \<and> hardware_ok p
      \<and> conflicts_ok (p_conflicts p) \<and> kernel_ok (p_kernel p)
      \<and> set (bm_keys (p_components p)) = set REQUIRED_COMPONENTS
      \<and> (\<forall>c \<in> set (bm_values (p_components p)). component_ok c)
      \<and> qualification_ok p)"

section \<open>Laws\<close>

lemma validate_conflicts_Inr:
  "validate_conflicts prev cs = Inr () \<longleftrightarrow>
     conflicts_ok cs \<and> (\<forall>q. prev = Some q \<longrightarrow> (\<forall>c \<in> set cs. q < pc_package c))"
proof (induction prev cs rule: validate_conflicts.induct)
  case (2 prev c cs)
  then show ?case
    by (cases prev) (auto simp: conflicts_ok_def not_le intro: less_trans)
qed (simp add: conflicts_ok_def)

lemma validate_kernel_Inr: "validate_kernel k = Inr () \<longleftrightarrow> kernel_ok k"
  by (auto simp: validate_kernel_def kernel_ok_def parse_release_iff)

lemma validate_component_set_Inr:
  "validate_component_set ks = Inr () \<longleftrightarrow> set ks = set REQUIRED_COMPONENTS"
  by (auto simp: validate_component_set_def find_None_iff split: option.splits)
    (auto simp: find_Some_iff)

lemma validate_file_Inr [simp]: "validate_file name f = Inr () \<longleftrightarrow> file_ok f"
  by (simp add: validate_file_def file_ok_def)

lemma validate_component_Inr [simp]:
  "validate_component (name, c) = Inr () \<longleftrightarrow> component_ok c"
  by (auto simp: validate_component_def component_ok_def require_nonempty_def
      MAX_PROVIDER_FILES_def Suc_le_eq)

lemma validate_qualification_Inr: "validate_qualification p = Inr () \<longleftrightarrow> qualification_ok p"
  by (auto simp: validate_qualification_def qualification_ok_def require_qualification_text_def
      list_ex_iff)

lemma check_scalar_limit_Inr [simp]: "check_scalar_limit v = Inr () \<longleftrightarrow> short_scalar v"
  by (simp add: check_scalar_limit_def short_scalar_def MAX_SCALAR_BYTES_def)

lemma validate_scalar_limits_Inr:
  "length (p_hardware p) \<le> 64 \<Longrightarrow> length (p_conflicts p) \<le> 32 \<Longrightarrow>
   validate_scalar_limits p = Inr () \<longleftrightarrow> resources_ok p"
  by (cases "p_qualification p") (auto simp: validate_scalar_limits_def resources_ok_def)

lemma check_components_Inr:
  "(\<forall>e \<in> set m. validate_component e = Inr ()) \<longleftrightarrow> (\<forall>c \<in> set (bm_values m). component_ok c)"
  by (force simp: bm_values_def)

lemmas validate_parts = validate_conflicts_Inr validate_kernel_Inr validate_component_set_Inr
  validate_qualification_Inr check_components_Inr

lemma validate_iff: "validate p = Inr () \<longleftrightarrow> profile_ok p"
proof -
  have "validate p = Inr () \<longleftrightarrow> p_schema_version p = 1 \<and> length (p_hardware p) \<le> 64
      \<and> length (p_conflicts p) \<le> 32 \<and> validate_scalar_limits p = Inr ()
      \<and> platform_ok p \<and> hardware_ok p
      \<and> conflicts_ok (p_conflicts p) \<and> kernel_ok (p_kernel p)
      \<and> set (bm_keys (p_components p)) = set REQUIRED_COMPONENTS
      \<and> (\<forall>c \<in> set (bm_values (p_components p)). component_ok c) \<and> qualification_ok p"
    unfolding validate_def
    by (simp add: validate_parts require_nonempty_def platform_ok_def hardware_ok_def
        validate_pci_id_def PROFILE_SCHEMA_VERSION_def MAX_HARDWARE_IDS_def MAX_CONFLICTS_def)
      blast
  moreover have "resources_ok p \<Longrightarrow> length (p_hardware p) \<le> 64 \<and> length (p_conflicts p) \<le> 32"
    by (simp add: resources_ok_def)
  ultimately show ?thesis
    using validate_scalar_limits_Inr [of p] by (auto simp: profile_ok_def)
qed

lemma parse_toml_Inr:
  "parse_toml from_str input = Inr p \<longleftrightarrow>
     length input \<le> MAX_PROFILE_BYTES \<and> from_str input = Inr p \<and> profile_ok p"
  by (auto simp: parse_toml_def validate_iff not_less)

lemma required_components_sorted: "sorted_wrt (<) REQUIRED_COMPONENTS"
  by (simp add: REQUIRED_COMPONENTS_def list_less_def lexordp_def)

end
