(* ===== verification/Report.thy ===== *)
theory Report
  imports Strict_Json Profile
begin

text \<open>
  \<open>crates/stack-core/src/report.rs\<close>: the diagnostic report, its aggregation and its exit code.
  The details of a check are an ordered map from names to JSON values.
\<close>

datatype diagnostic_command = Status | Doctor
datatype check_status = Pass | Warn | Fail | Blocked
datatype requirement = Required | Optional
datatype overall_status = Overall_Passed | Overall_Degraded | Overall_Failed | Overall_Blocked

record diagnostic_check =
  dc_id :: string
  dc_status :: check_status
  dc_summary :: string
  dc_details :: "(string, json) bmap"
  dc_requirement :: requirement

record profile_summary =
  sum_id :: string
  sum_stack_release :: string
  sum_status :: profile_status

record platform_summary =
  pls_os_id :: string
  pls_os_version_id :: string
  pls_arch :: string
  pls_kernel :: string
  pls_pci_ids :: "string list"

record diagnostic_report =
  dr_schema_version :: u32
  dr_tool_version :: string
  dr_command :: diagnostic_command
  dr_overall :: overall_status
  dr_profile :: "profile_summary option"
  dr_platform :: platform_summary
  dr_reboot_required :: bool
  dr_relogin_required :: bool
  dr_checks :: "diagnostic_check list"

definition aggregate :: "diagnostic_check list \<Rightarrow> overall_status" where
  "aggregate checks =
     (if list_ex (\<lambda>c. dc_requirement c = Required \<and> dc_status c = Fail) checks
      then Overall_Failed
      else if list_ex (\<lambda>c. dc_requirement c = Required \<and> dc_status c = Blocked) checks
      then Overall_Blocked
      else if list_ex (\<lambda>c. dc_status c \<noteq> Pass) checks then Overall_Degraded
      else Overall_Passed)"

definition finalize :: "diagnostic_report \<Rightarrow> diagnostic_report" where
  "finalize r =
     (let checks = sort_key dc_id (dr_checks r) in
      r\<lparr>dr_checks := checks,
        dr_platform := (dr_platform r)\<lparr>pls_pci_ids :=
           remdups_adj (sort (pls_pci_ids (dr_platform r)))\<rparr>,
        dr_overall := aggregate checks\<rparr>)"

definition exit_code :: "diagnostic_report \<Rightarrow> u8" where
  "exit_code r = (case dr_overall r of
       Overall_Passed \<Rightarrow> 0 | Overall_Degraded \<Rightarrow> 0
     | Overall_Failed \<Rightarrow> 1 | Overall_Blocked \<Rightarrow> 1)"

section \<open>Laws\<close>

lemma aggregate_cong: "set cs = set ds \<Longrightarrow> aggregate cs = aggregate ds"
  by (simp add: aggregate_def list_ex_iff)

lemma aggregate_sort [simp]: "aggregate (sort_key f cs) = aggregate cs"
  by (rule aggregate_cong) simp

text \<open>A required check that did not get an answer.\<close>

definition required_bad :: "diagnostic_check \<Rightarrow> bool" where
  "required_bad c = (dc_requirement c = Required \<and> dc_status c \<in> {Fail, Blocked})"

lemma aggregate_bad:
  "aggregate cs \<in> {Overall_Failed, Overall_Blocked} \<longleftrightarrow> (\<exists>c \<in> set cs. required_bad c)"
  by (auto simp: aggregate_def list_ex_iff required_bad_def)

lemma aggregate_passed: "aggregate cs = Overall_Passed \<longleftrightarrow> (\<forall>c \<in> set cs. dc_status c = Pass)"
  by (auto simp: aggregate_def list_ex_iff)

lemma exit_code_aggregate:
  "dr_overall r = aggregate cs \<Longrightarrow>
   exit_code r = (if \<exists>c \<in> set cs. required_bad c then 1 else 0)"
  by (auto simp: exit_code_def aggregate_def list_ex_iff required_bad_def)

lemma finalize_simps [simp]:
  "dr_checks (finalize r) = sort_key dc_id (dr_checks r)"
  "dr_overall (finalize r) = aggregate (dr_checks r)"
  "pls_pci_ids (dr_platform (finalize r)) = remdups_adj (sort (pls_pci_ids (dr_platform r)))"
  "dr_command (finalize r) = dr_command r" "dr_profile (finalize r) = dr_profile r"
  by (simp_all add: finalize_def)

lemma sort_key_idem [simp]: "sort_key f (sort_key f xs) = sort_key f xs"
  by (simp add: sort_key_id_if_sorted)

lemma finalize_idem: "finalize (finalize r) = finalize r"
  by (cases r) (simp add: finalize_def dedup_of_strict)

end
