(* ===== verification/Os_Release.thy ===== *)
theory Os_Release
  imports Ordmap
begin

text \<open>
  \<open>crates/stack-platform/src/lib.rs\<close> (the error type) and \<open>os_release.rs\<close>: \<open>os-release\<close>
  assignments parsed as data. Lines are numbered from one as in the source's messages; the
  scan over characters of \<open>unescape_double_quoted\<close> is a scan over bytes, since the four
  characters it looks for are ASCII.
\<close>

record platform_error =
  pe_code :: string
  pe_message :: string

definition platform_err :: "string \<Rightarrow> string \<Rightarrow> platform_error" where
  "platform_err c m = \<lparr>pe_code = c, pe_message = m\<rparr>"

record os_release =
  or_id :: string
  or_version_id :: string

definition invalid_os_release :: "string \<Rightarrow> platform_error" where
  "invalid_os_release m = platform_err ''PLATFORM_OS_RELEASE_INVALID'' m"

fun unescape_double_quoted :: "string \<Rightarrow> (string, string) result" where
  "unescape_double_quoted [] = Inr []"
| "unescape_double_quoted (c # cs) =
     (if c \<noteq> backslash then
        (case unescape_double_quoted cs of Inl e \<Rightarrow> Inl e | Inr r \<Rightarrow> Inr (c # r))
      else (case cs of
          [] \<Rightarrow> Inl ''ends with a backslash''
        | d # ds \<Rightarrow>
            (case unescape_double_quoted ds of
               Inl e \<Rightarrow> Inl e
             | Inr r \<Rightarrow> Inr (if d \<in> {backslash, dquote, CHR ''$'', CHR 0x60} then d # r
                             else backslash # d # r))))"

definition parse_value :: "string \<Rightarrow> (string, string) result" where
  "parse_value raw = (case raw of
       [] \<Rightarrow> Inr []
     | b # _ \<Rightarrow>
         if b = squote then
           (if length raw < 2 \<or> last raw \<noteq> squote then Inl ''has an unmatched single quote''
            else (let inner = butlast (tl raw) in
              if squote \<in> set inner then Inl ''has an embedded single quote'' else Inr inner))
         else if b = dquote then
           (if length raw < 2 \<or> last raw \<noteq> dquote then Inl ''has an unmatched double quote''
            else unescape_double_quoted (butlast (tl raw)))
         else if any_whitespace raw \<or> squote \<in> set raw \<or> dquote \<in> set raw
           then Inl ''has invalid unquoted characters''
         else Inr raw)"

definition assignment_key :: "string \<Rightarrow> bool" where
  "assignment_key k = (k \<noteq> [] \<and> list_all (\<lambda>c. is_upper c \<or> is_digit c \<or> c = CHR ''_'') k)"

definition parse_line :: "nat \<Rightarrow> string \<Rightarrow> (string, string) bmap
    \<Rightarrow> (platform_error, (string, string) bmap) result" where
  "parse_line number line values =
     (case split_once CHR ''='' line of
        None \<Rightarrow> Inl (invalid_os_release (''line '' @ show_nat number @ '' is not an assignment''))
      | Some (key, raw_value) \<Rightarrow>
          if \<not> assignment_key key
          then Inl (invalid_os_release (''line '' @ show_nat number @ '' has an invalid key''))
          else and_then (map_err (\<lambda>m. invalid_os_release (''line '' @ show_nat number @ '' '' @ m))
                           (parse_value raw_value)) (\<lambda>value.
               if bm_get values key \<noteq> None
               then Inl (invalid_os_release (''duplicate key '' @ key))
               else Inr (bm_insert key value values)))"

fun parse_lines :: "nat \<Rightarrow> string list \<Rightarrow> (string, string) bmap
    \<Rightarrow> (platform_error, (string, string) bmap) result" where
  "parse_lines index [] values = Inr values"
| "parse_lines index (line # rest) values =
     (if line = [] \<or> starts_with ''#'' line then parse_lines (index + 1) rest values
      else and_then (parse_line (index + 1) line values) (parse_lines (index + 1) rest))"

definition required_value :: "(string, string) bmap \<Rightarrow> string \<Rightarrow> (platform_error, string) result" where
  "required_value values key =
     ok_or (invalid_os_release (''missing or empty '' @ key))
       (case bm_get values key of
          None \<Rightarrow> None | Some v \<Rightarrow> if v = [] then None else Some v)"

definition parse_os_release :: "string \<Rightarrow> (platform_error, os_release) result" where
  "parse_os_release input =
     and_then (parse_lines 0 (str_lines input) []) (\<lambda>values.
     and_then (required_value values ''ID'') (\<lambda>i.
     and_then (required_value values ''VERSION_ID'') (\<lambda>v.
     Inr \<lparr>or_id = i, or_version_id = v\<rparr>)))"

section \<open>Laws\<close>

text \<open>The double-quoted form a writer of \<open>os-release\<close> gives a value.\<close>

definition quote_char :: "char \<Rightarrow> string" where
  "quote_char c =
     (if c \<in> {backslash, dquote, CHR ''$'', CHR 0x60} then [backslash, c] else [c])"

definition quote_value :: "string \<Rightarrow> string" where
  "quote_value v = dquote # concat (map quote_char v) @ [dquote]"

lemma unescape_quote:
  "unescape_double_quoted (concat (map quote_char v)) = Inr v"
proof (induction v)
  case (Cons c v)
  then show ?case
    by (cases "c \<in> {backslash, dquote, CHR ''$'', CHR 0x60}") (auto simp: quote_char_def)
qed simp

lemma parse_quote_value: "parse_value (quote_value v) = Inr v"
  by (simp add: parse_value_def quote_value_def unescape_quote butlast_append)

lemma parse_lines_plain:
  assumes "line \<noteq> []" "hd line \<noteq> CHR ''#''"
  shows "parse_lines i (line # rest) m =
     and_then (parse_line (i + 1) line m) (parse_lines (i + 1) rest)"
  using assms by (cases line) (auto simp: starts_with_iff)

lemma parse_line_assignment:
  "assignment_key k \<Longrightarrow> CHR ''='' \<notin> set k \<Longrightarrow> bm_get m k = None \<Longrightarrow>
   parse_line n (k @ CHR ''='' # quote_value v) m = Inr (bm_insert k v m)"
  by (simp add: parse_line_def parse_quote_value)

lemma chomp_nl: "l \<noteq> [] \<Longrightarrow> last l \<noteq> cr \<Longrightarrow> chomp (l @ [nl]) = l"
proof -
  assume l: "l \<noteq> []" "last l \<noteq> cr"
  have "strip_suffix [cr] l = None"
    using l by (cases "strip_suffix [cr] l") auto
  then show ?thesis by (simp add: chomp_def)
qed

lemma str_lines_app:
  "nl \<notin> set l \<Longrightarrow> l \<noteq> [] \<Longrightarrow> last l \<noteq> cr \<Longrightarrow>
   str_lines (l @ nl # rest) = l # str_lines rest"
  by (simp add: str_lines_def split_inclusive_app chomp_nl)

lemma str_lines_Nil [simp]: "str_lines [] = []"
  by (simp add: str_lines_def)

lemma quote_value_last: "last (quote_value v) = dquote"
  by (simp add: quote_value_def)

lemma quote_value_nl: "nl \<notin> set v \<Longrightarrow> nl \<notin> set (quote_value v)"
  by (auto simp: quote_value_def quote_char_def split: if_splits)

lemma quote_value_not_Nil [simp]: "quote_value v \<noteq> []"
  by (simp add: quote_value_def)

lemma parse_line_wf: "parse_line n l m = Inr m' \<Longrightarrow> bm_wf m \<Longrightarrow> bm_wf m'"
  by (auto simp: parse_line_def bm_insert_wf split: if_splits option.splits)

lemma parse_lines_wf: "parse_lines i ls m = Inr m' \<Longrightarrow> bm_wf m \<Longrightarrow> bm_wf m'"
proof (induction ls arbitrary: i m)
  case (Cons l ls)
  then show ?case
    by (cases "l = [] \<or> starts_with ''#'' l") (auto dest: parse_line_wf)
qed simp

lemma required_value_Inr:
  "required_value m k = Inr v \<longleftrightarrow> bm_get m k = Some v \<and> v \<noteq> []"
  by (cases "bm_get m k") (auto simp: required_value_def)

lemma required_value_code:
  "required_value m k = Inl e \<Longrightarrow> pe_code e = ''PLATFORM_OS_RELEASE_INVALID''"
  by (cases "bm_get m k")
    (auto simp: required_value_def invalid_os_release_def platform_err_def split: if_splits)

lemma parse_os_release_nonempty:
  "parse_os_release input = Inr os \<Longrightarrow> or_id os \<noteq> [] \<and> or_version_id os \<noteq> []"
  by (auto simp: parse_os_release_def required_value_Inr)

lemma parse_line_code: "parse_line n l m = Inl e \<Longrightarrow> pe_code e = ''PLATFORM_OS_RELEASE_INVALID''"
  by (auto simp: parse_line_def and_then_Inl map_err_def invalid_os_release_def platform_err_def
      split: option.splits if_splits sum.splits)

lemma parse_lines_code: "parse_lines i ls m = Inl e \<Longrightarrow> pe_code e = ''PLATFORM_OS_RELEASE_INVALID''"
proof (induction ls arbitrary: i m)
  case (Cons l ls)
  then show ?case
    by (cases "l = [] \<or> starts_with ''#'' l") (auto simp: and_then_Inl dest: parse_line_code)
qed simp

lemma parse_os_release_code:
  "parse_os_release input = Inl e \<Longrightarrow> pe_code e = ''PLATFORM_OS_RELEASE_INVALID''"
  unfolding parse_os_release_def
  by (auto simp: and_then_Inl dest: parse_lines_code required_value_code)

end
