(* ===== verification/Platform.thy ===== *)
theory Platform
  imports Os_Release Profile
begin

text \<open>
  \<open>crates/stack-platform/src/linux.rs\<close>: the platform facts. The files under the root are a
  parameter \<open>fs_view\<close>, what one open-and-read or one directory listing of a path returns;
  \<open>read\<close> and \<open>read_bounded\<close> decode the bytes as the source does. A directory listing is a
  sequence of names, any of which may be an error. Error texts of the operating system are
  the argument of the \<open>io_error\<close>.
\<close>

datatype io_error = Not_Found string | Io_Other string

definition io_text :: "io_error \<Rightarrow> string" where
  "io_text e = (case e of Not_Found t \<Rightarrow> t | Io_Other t \<Rightarrow> t)"

record fs_view =
  fs_read :: "string \<Rightarrow> (io_error, bytes) result"
  fs_dir :: "string \<Rightarrow> (io_error, (io_error, string) result list) result"

record platform_facts =
  pf_os_id :: string
  pf_os_version_id :: string
  pf_arch :: string
  pf_kernel :: kernel_version
  pf_pci_ids :: "pci_id list"
  pf_intel_vpu_loaded :: bool
  pf_accel_node_present :: bool
  pf_effective_root :: bool
  pf_boot_time_epoch :: u64

definition path_join :: "string \<Rightarrow> string \<Rightarrow> string" where
  "path_join root rel =
     (if starts_with ''/'' rel then rel
      else if root = [] \<or> ends_with ''/'' root then root @ rel
      else root @ ''/'' @ rel)"

text \<open>\<open>fs::read_to_string\<close>: the bytes, which must be UTF-8.\<close>

definition read_to_string :: "fs_view \<Rightarrow> string \<Rightarrow> (io_error, string) result" where
  "read_to_string fs path = and_then (fs_read fs path) (\<lambda>b.
     if utf8_valid b then Inr b else Inl (Io_Other ''stream did not contain valid UTF-8''))"

definition cannot_read_fact :: "string \<Rightarrow> io_error \<Rightarrow> platform_error" where
  "cannot_read_fact relative e = platform_err ''PLATFORM_IO_ERROR''
     (''cannot read required platform fact '' @ relative @ '': '' @ io_text e)"

definition read_fact :: "fs_view \<Rightarrow> string \<Rightarrow> string \<Rightarrow> (platform_error, string) result" where
  "read_fact fs root relative =
     map_err (cannot_read_fact relative) (read_to_string fs (path_join root relative))"

definition FACT_LIMIT :: nat where "FACT_LIMIT = 1048576"

definition read_bounded ::
  "fs_view \<Rightarrow> string \<Rightarrow> string \<Rightarrow> string \<Rightarrow> (platform_error, string) result" where
  "read_bounded fs root relative invalid_code =
     and_then (map_err (cannot_read_fact relative) (fs_read fs (path_join root relative))) (\<lambda>file.
     (let b = take (FACT_LIMIT + 1) file in
      if length b > FACT_LIMIT
      then Inl (platform_err invalid_code ''platform fact exceeds its byte limit'')
      else if utf8_valid b then Inr b
      else Inl (platform_err invalid_code ''platform fact is not valid UTF-8'')))"

definition parse_effective_root :: "string \<Rightarrow> (platform_error, bool) result" where
  "parse_effective_root status =
     (let rows = List.map_filter (strip_prefix ''Uid:'') (str_lines status) in
      if length rows \<noteq> 1
      then Inl (platform_err ''PLATFORM_PROCESS_INVALID''
        ''process status must contain exactly one UID row'')
      else let fields = split_ascii_whitespace (rows ! 0) in
        if length fields \<noteq> 4 \<or> list_ex (\<lambda>f. f = [] \<or> \<not> all_digits f) fields
        then Inl (platform_err ''PLATFORM_PROCESS_INVALID'' ''process UID row is malformed'')
        else and_then (ok_or (platform_err ''PLATFORM_PROCESS_INVALID''
               ''effective UID is out of range'') (parse_u32 (fields ! 1)))
             (\<lambda>effective. Inr (effective = 0)))"

definition btime_row :: "string \<Rightarrow> string list option" where
  "btime_row line = (case split_ascii_whitespace line of
       [] \<Rightarrow> None
     | f # row \<Rightarrow> if f = ''btime'' then Some row else None)"

definition parse_boot_time :: "string \<Rightarrow> (platform_error, u64) result" where
  "parse_boot_time stat =
     (let rows = List.map_filter btime_row (str_lines stat) in
      if length rows \<noteq> 1 \<or> length (rows ! 0) \<noteq> 1
      then Inl (platform_err ''PLATFORM_BOOT_TIME_INVALID''
        ''process statistics must contain one exact boot-time row'')
      else let value = rows ! 0 ! 0 in
        if value = [] \<or> \<not> all_digits value
        then Inl (platform_err ''PLATFORM_BOOT_TIME_INVALID'' ''boot time is malformed'')
        else ok_or (platform_err ''PLATFORM_BOOT_TIME_INVALID'' ''boot time is out of range'')
               (parse_u64 value))"

definition normalize_pci_id :: "string \<Rightarrow> (platform_error, string) result" where
  "normalize_pci_id raw =
     (let value = trim raw;
          value = (case strip_prefix ''0x'' value of
                     Some v \<Rightarrow> v
                   | None \<Rightarrow> (case strip_prefix ''0X'' value of Some v \<Rightarrow> v | None \<Rightarrow> value))
      in if length value \<noteq> 4 \<or> \<not> list_all is_hexdigit value
         then Inl (platform_err ''PLATFORM_PCI_INVALID''
           ''PCI identifiers must contain exactly four hexadecimal digits'')
         else Inr (ascii_lowercase value))"

definition pci_io :: "string \<Rightarrow> io_error \<Rightarrow> platform_error" where
  "pci_io what e = platform_err ''PLATFORM_IO_ERROR'' (what @ '': '' @ io_text e)"

definition read_pci_id ::
  "fs_view \<Rightarrow> string \<Rightarrow> (io_error, string) result \<Rightarrow> (platform_error, pci_id) result" where
  "read_pci_id fs devices entry =
     and_then (map_err (pci_io ''cannot enumerate a PCI device'') entry) (\<lambda>name.
     and_then (map_err (pci_io ''cannot read a PCI vendor identifier'')
       (read_to_string fs (path_join (path_join devices name) ''vendor''))) (\<lambda>v.
     and_then (map_err (pci_io ''cannot read a PCI device identifier'')
       (read_to_string fs (path_join (path_join devices name) ''device''))) (\<lambda>d.
     and_then (normalize_pci_id v) (\<lambda>v'.
     and_then (normalize_pci_id d) (\<lambda>d'. Inr (PciId v' d'))))))"

definition read_pci_ids :: "fs_view \<Rightarrow> string \<Rightarrow> (platform_error, pci_id list) result" where
  "read_pci_ids fs devices = (case fs_dir fs devices of
       Inl (Not_Found _) \<Rightarrow> Inr []
     | Inl e \<Rightarrow> Inl (pci_io ''cannot enumerate PCI devices'' e)
     | Inr entries \<Rightarrow> traverse (read_pci_id fs devices) entries)"

definition accel_name :: "string \<Rightarrow> bool" where
  "accel_name name = (case strip_prefix ''accel'' name of
       None \<Rightarrow> False | Some sfx \<Rightarrow> sfx \<noteq> [] \<and> all_digits sfx)"

fun find_accel :: "(io_error, string) result list \<Rightarrow> (platform_error, bool) result" where
  "find_accel [] = Inr False"
| "find_accel (Inl e # _) = Inl (pci_io ''cannot enumerate an accelerator node'' e)"
| "find_accel (Inr name # entries) = (if accel_name name then Inr True else find_accel entries)"

definition has_accel_node :: "fs_view \<Rightarrow> string \<Rightarrow> (platform_error, bool) result" where
  "has_accel_node fs directory = (case fs_dir fs directory of
       Inl (Not_Found _) \<Rightarrow> Inr False
     | Inl e \<Rightarrow> Inl (pci_io ''cannot enumerate accelerator nodes'' e)
     | Inr entries \<Rightarrow> find_accel entries)"

definition module_line :: "string \<Rightarrow> bool" where
  "module_line line = (case split_ascii_whitespace line of
       [] \<Rightarrow> False | name # _ \<Rightarrow> name = ''intel_vpu'')"

definition schema_error_text :: "schema_error \<Rightarrow> string" where
  "schema_error_text e = se_code e @ '': '' @ se_message e"

definition detect_platform ::
  "fs_view \<Rightarrow> string \<Rightarrow> string \<Rightarrow> (platform_error, platform_facts) result" where
  "detect_platform fs root arch =
     (if arch = [] \<or> trim arch \<noteq> arch
      then Inl (platform_err ''PLATFORM_OS_RELEASE_INVALID'' ''architecture must be nonempty'')
      else
        and_then (read_fact fs root ''etc/os-release'') (\<lambda>text.
        and_then (parse_os_release text) (\<lambda>os.
        and_then (read_fact fs root ''proc/sys/kernel/osrelease'') (\<lambda>release.
        and_then (map_err (\<lambda>e. platform_err ''PLATFORM_KERNEL_INVALID'' (schema_error_text e))
                    (parse_release (trim_end release))) (\<lambda>kernel.
        and_then (read_fact fs root ''proc/modules'') (\<lambda>modules.
        and_then (read_pci_ids fs (path_join root ''sys/bus/pci/devices'')) (\<lambda>ids.
        and_then (has_accel_node fs (path_join root ''dev/accel'')) (\<lambda>accel.
        and_then (read_bounded fs root ''proc/self/status'' ''PLATFORM_PROCESS_INVALID'') (\<lambda>status.
        and_then (parse_effective_root status) (\<lambda>effective.
        and_then (read_bounded fs root ''proc/stat'' ''PLATFORM_BOOT_TIME_INVALID'') (\<lambda>stat.
        and_then (parse_boot_time stat) (\<lambda>boot.
        Inr \<lparr>pf_os_id = or_id os, pf_os_version_id = or_version_id os, pf_arch = arch,
             pf_kernel = kernel, pf_pci_ids = remdups_adj (sort ids),
             pf_intel_vpu_loaded = list_ex module_line (str_lines modules),
             pf_accel_node_present = accel, pf_effective_root = effective,
             pf_boot_time_epoch = boot\<rparr>))))))))))))"

section \<open>Laws\<close>

lemma ascii_lowercase_hex:
  "list_all is_hexdigit s \<Longrightarrow> list_all is_lower_hex (ascii_lowercase s)"
  by (auto simp: ascii_lowercase_def list_all_iff to_lower_def ascii_simps)

lemma lower_hex_fixed: "is_lower_hex c \<Longrightarrow> to_lower c = c"
  by (auto simp: to_lower_def ascii_simps)

lemma ascii_lowercase_fixed: "list_all is_lower_hex s \<Longrightarrow> ascii_lowercase s = s"
  by (induction s) (auto simp: ascii_lowercase_def lower_hex_fixed)

lemma normalize_pci_id_quad: "normalize_pci_id raw = Inr v \<Longrightarrow> is_lower_hex_quad v"
  by (auto simp: normalize_pci_id_def Let_def is_lower_hex_quad_def ascii_lowercase_hex
      split: if_splits) (auto simp: ascii_lowercase_def)

lemma lower_hex_graph: "is_lower_hex c \<Longrightarrow> is_graph c"
  by (auto simp: is_graph_def ascii_simps)

lemma lower_hex_hexdigit: "is_lower_hex c \<Longrightarrow> is_hexdigit c"
  by (simp add: is_hexdigit_def)

lemma quad_trim:
  assumes q: "is_lower_hex_quad v"
  shows "trim v = v" "trim (v @ [nl]) = v" "trim (''0x'' @ v @ [nl]) = ''0x'' @ v"
proof -
  from q have g: "list_all is_graph v"
    by (auto simp: is_lower_hex_quad_def list_all_iff lower_hex_graph)
  then show "trim v = v" by (rule trim_graph)
  have nl: "trim (w @ [nl]) = w" if w: "list_all is_graph w" for w
  proof -
    have "is_ascii (w @ [nl])" using w by (auto dest: graph_ascii simp: is_ascii_def)
    moreover have "is_whitespace [nl]" by (simp add: is_whitespace_def code_point_def)
    ultimately show ?thesis using w dropWhile_graph [of w] dropWhile_graph [of "rev w"]
      by (simp add: trim_def utf8_chars_ascii rev_map)
  qed
  from g show "trim (v @ [nl]) = v" by (rule nl)
  have "list_all is_graph (''0x'' @ v)" using g by (simp add: is_graph_def)
  from nl [OF this] show "trim (''0x'' @ v @ [nl]) = ''0x'' @ v" by simp
qed

lemma quad_no_0x: "is_lower_hex_quad v \<Longrightarrow> strip_prefix ''0x'' v = None \<and> strip_prefix ''0X'' v = None"
proof -
  assume q: "is_lower_hex_quad v"
  have "\<not> is_lower_hex CHR ''x''" "\<not> is_lower_hex CHR ''X''" by (simp_all add: ascii_simps)
  with q show ?thesis
    by (cases v; cases "tl v") (auto simp: is_lower_hex_quad_def)
qed

lemma read_pci_ids_quads:
  "read_pci_ids fs d = Inr ids \<Longrightarrow> h \<in> set ids \<Longrightarrow>
   is_lower_hex_quad (vendor h) \<and> is_lower_hex_quad (device h)"
  by (auto simp: read_pci_ids_def read_pci_id_def dest!: traverse_set normalize_pci_id_quad
      split: sum.splits io_error.splits)

end
