(* ===== verification/Activity.thy ===== *)
theory Activity
  imports Report Platform
begin

text \<open>
  \<open>crates/stack-runtime/src/activity.rs\<close>: the busy-time counters of the accelerator nodes, the
  activity check that compares two samples, and the activation state of the installed
  providers. A counter is a \<open>u128\<close>; the sum of the differences is checked, then narrowed to
  \<open>u64\<close>. One sample reads the file system through one \<open>fs_view\<close>; a missing file is the
  \<open>Not_Found\<close> of its \<open>open\<close>.
\<close>

type_synonym u128 = "128 word"

section \<open>Building checks\<close>

definition mk_check ::
  "string \<Rightarrow> check_status \<Rightarrow> string \<Rightarrow> requirement \<Rightarrow> (string, json) bmap \<Rightarrow> diagnostic_check" where
  "mk_check i st sm rq ds =
     \<lparr>dc_id = i, dc_status = st, dc_summary = sm, dc_details = ds, dc_requirement = rq\<rparr>"

definition details :: "(string \<times> json) list \<Rightarrow> (string, json) bmap" where
  "details kvs = bm_of_list kvs"

definition json_nat :: "nat \<Rightarrow> json" where
  "json_nat n = Number (Pos_Int (of_nat n))"

definition error_details :: "string \<Rightarrow> (string, json) bmap" where
  "error_details code = details [(''error_code'', String code)]"

section \<open>Busy counters\<close>

record busy_counters =
  bc_names :: "string list"
  bc_values :: "u128 list"

datatype busy_counter_snapshot = Counters busy_counters | Absent | Unavailable | Invalid

datatype counter_error = Counter_Unavailable | Counter_Invalid

definition COUNTER_LIMIT :: nat where "COUNTER_LIMIT = 128"

definition strip_newline :: "string \<Rightarrow> string" where
  "strip_newline text = (case strip_suffix [nl] text of Some v \<Rightarrow> v | None \<Rightarrow> text)"

definition read_counter :: "fs_view \<Rightarrow> string \<Rightarrow> (counter_error, u128 option) result" where
  "read_counter fs path = (case fs_read fs path of
       Inl (Not_Found _) \<Rightarrow> Inr None
     | Inl (Io_Other _) \<Rightarrow> Inl Counter_Unavailable
     | Inr file \<Rightarrow>
         (let b = take (COUNTER_LIMIT + 1) file in
          if length b > COUNTER_LIMIT then Inl Counter_Invalid
          else if \<not> utf8_valid b then Inl Counter_Invalid
          else (let value = strip_newline b in
            if value = [] \<or> \<not> all_digits value then Inl Counter_Invalid
            else (case parse_unsigned 128 value of
                    None \<Rightarrow> Inl Counter_Invalid
                  | Some n \<Rightarrow> Inr (Some (of_nat n))))))"

fun accel_entries :: "(io_error, string) result list \<Rightarrow> string list option" where
  "accel_entries [] = Some []"
| "accel_entries (Inl e # _) = None"
| "accel_entries (Inr name # rest) =
     map_option (\<lambda>ns. if utf8_valid name \<and> accel_name name then name # ns else ns)
       (accel_entries rest)"

fun read_counters :: "fs_view \<Rightarrow> string \<Rightarrow> string list
    \<Rightarrow> (busy_counter_snapshot, (string \<times> u128) list \<times> nat) result" where
  "read_counters fs directory [] = Inr ([], 0)"
| "read_counters fs directory (name # rest) =
     (case read_counter fs (path_join (path_join directory name) ''device/npu_busy_time_us'') of
        Inl Counter_Unavailable \<Rightarrow> Inl Unavailable
      | Inl Counter_Invalid \<Rightarrow> Inl Invalid
      | Inr value \<Rightarrow>
          and_then (read_counters fs directory rest) (\<lambda>(found, missing).
            (case value of Some v \<Rightarrow> Inr ((name, v) # found, missing)
             | None \<Rightarrow> Inr (found, missing + 1))))"

definition read_busy_counters :: "fs_view \<Rightarrow> string \<Rightarrow> busy_counter_snapshot" where
  "read_busy_counters fs root =
     (let directory = path_join root ''sys/class/accel'' in
      case fs_dir fs directory of
        Inl (Not_Found _) \<Rightarrow> Absent
      | Inl (Io_Other _) \<Rightarrow> Unavailable
      | Inr entries \<Rightarrow>
          (case accel_entries entries of
             None \<Rightarrow> Unavailable
           | Some names \<Rightarrow>
               (let paths = sort names in
                if paths = [] then Absent
                else (case read_counters fs directory paths of
                        Inl s \<Rightarrow> s
                      | Inr (found, missing) \<Rightarrow>
                          if found = [] then Absent
                          else if missing \<noteq> 0 then Unavailable
                          else Counters \<lparr>bc_names = map fst found,
                                         bc_values = map snd found\<rparr>))))"

section \<open>The activity check\<close>

definition activity_summary :: string where
  "activity_summary = ''NPU activity was observed during inference''"

definition activity_warning :: "string \<Rightarrow> diagnostic_check" where
  "activity_warning code =
     mk_check ''runtime.activity'' Warn activity_summary Optional (error_details code)"

definition checked_add :: "u128 \<Rightarrow> u128 \<Rightarrow> u128 option" where
  "checked_add a b = (if unat a + unat b < 2 ^ 128 then Some (a + b) else None)"

fun add_deltas :: "(u128 \<times> u128) list \<Rightarrow> u128 \<Rightarrow> (string, u128) result" where
  "add_deltas [] delta = Inr delta"
| "add_deltas ((before, after) # rest) delta =
     (if after < before then Inl ''ACTIVITY_COUNTER_DECREASED''
      else (case checked_add delta (after - before) of
              None \<Rightarrow> Inl ''ACTIVITY_COUNTER_INVALID''
            | Some nxt \<Rightarrow> add_deltas rest nxt))"

definition activity_delta ::
  "busy_counter_snapshot \<Rightarrow> busy_counter_snapshot \<Rightarrow> (string, u64) result" where
  "activity_delta before after =
     (if before = Invalid \<or> after = Invalid then Inl ''ACTIVITY_COUNTER_INVALID''
      else case (before, after) of
        (Counters b, Counters a) \<Rightarrow>
          if bc_names b = bc_names a then
            and_then (add_deltas (zip (bc_values b) (bc_values a)) 0) (\<lambda>delta.
              if delta = 0 then Inl ''ACTIVITY_NOT_OBSERVED''
              else if unat delta < 2 ^ 64 then Inr (ucast delta)
              else Inl ''ACTIVITY_COUNTER_INVALID'')
          else Inl ''ACTIVITY_COUNTER_UNAVAILABLE''
      | _ \<Rightarrow> Inl ''ACTIVITY_COUNTER_UNAVAILABLE'')"

definition evaluate_activity ::
  "busy_counter_snapshot \<Rightarrow> busy_counter_snapshot \<Rightarrow> diagnostic_check" where
  "evaluate_activity before after = (case activity_delta before after of
       Inr delta \<Rightarrow> mk_check ''runtime.activity'' Pass activity_summary Optional
         (details [(''busy_time_delta'', Number (Pos_Int delta))])
     | Inl code \<Rightarrow> activity_warning code)"

section \<open>Activation\<close>

record installed_package =
  ip_name :: string
  ip_version :: string
  ip_install_time :: u64

datatype activation_state = Ready | Unknown

record activation_inspection =
  ai_state :: activation_state
  ai_reboot_required :: bool
  ai_relogin_required :: bool
  ai_error_code :: "string option"

definition activation_ready :: "bool \<Rightarrow> activation_inspection" where
  "activation_ready reboot = \<lparr>ai_state = Ready, ai_reboot_required = reboot,
     ai_relogin_required = False, ai_error_code = None\<rparr>"

definition activation_unknown :: activation_inspection where
  "activation_unknown = \<lparr>ai_state = Unknown, ai_reboot_required = False,
     ai_relogin_required = False, ai_error_code = Some ''ACTIVATION_STATE_UNKNOWN''\<rparr>"

fun scan_reboot :: "(string, installed_package) bmap \<Rightarrow> u64 \<Rightarrow> component_requirement list \<Rightarrow> bool
    \<Rightarrow> activation_inspection" where
  "scan_reboot packages boot [] reboot = activation_ready reboot"
| "scan_reboot packages boot (c # cs) reboot =
     (case bm_get packages (np_package (cr_provider c)) of
        None \<Rightarrow> activation_unknown
      | Some package \<Rightarrow>
          if ip_version package \<noteq> np_version (cr_provider c) then activation_unknown
          else scan_reboot packages boot cs (reboot \<or> ip_install_time package > boot))"

definition reboot_providers :: "profile \<Rightarrow> component_requirement list" where
  "reboot_providers p =
     filter (\<lambda>c. np_activation (cr_provider c) = Reboot) (bm_values (p_components p))"

definition inspect_activation ::
  "profile \<Rightarrow> (string, installed_package) bmap \<Rightarrow> u64 option \<Rightarrow> activation_inspection" where
  "inspect_activation p packages boot_time =
     (if reboot_providers p = [] then activation_ready False
      else case boot_time of
        None \<Rightarrow> activation_unknown
      | Some boot \<Rightarrow> scan_reboot packages boot (reboot_providers p) False)"

section \<open>Laws\<close>

lemma mk_check_simps [simp]:
  "dc_id (mk_check i st sm rq ds) = i" "dc_status (mk_check i st sm rq ds) = st"
  "dc_summary (mk_check i st sm rq ds) = sm" "dc_requirement (mk_check i st sm rq ds) = rq"
  "dc_details (mk_check i st sm rq ds) = ds"
  by (simp_all add: mk_check_def)

definition deltas :: "u128 list \<Rightarrow> u128 list \<Rightarrow> nat list" where
  "deltas before after = map2 (\<lambda>b a. unat a - unat b) before after"

lemma unat_checked_add:
  "checked_add a b = Some c \<longleftrightarrow> unat a + unat b < 2 ^ 128 \<and> unat c = unat a + unat b"
proof -
  have "unat (a + b) = unat a + unat b" if "unat a + unat b < 2 ^ 128"
    using that by (simp add: unat_add_lem [symmetric] unat_word_ariths)
  then show ?thesis by (auto simp: checked_add_def word_unat_eq_iff)
qed

lemma add_deltas_Inr:
  "add_deltas ps d = Inr r \<longleftrightarrow>
     (\<forall>(b, a) \<in> set ps. b \<le> a)
     \<and> unat d + (\<Sum>(b, a) \<leftarrow> ps. unat a - unat b) < 2 ^ 128
     \<and> unat r = unat d + (\<Sum>(b, a) \<leftarrow> ps. unat a - unat b)"
proof (induction ps d rule: add_deltas.induct)
  case (1 d)
  have "unat d < 2 ^ 128" using unsigned_less [of d] by simp
  then show ?case by (auto simp: word_unat_eq_iff)
next
  case (2 b a ps d)
  show ?case
  proof (cases "a < b")
    case True
    then show ?thesis by (auto simp: not_le)
  next
    case False
    then have le: "b \<le> a" by simp
    then have u: "unat (a - b) = unat a - unat b" by (rule unat_sub)
    show ?thesis
    proof (cases "checked_add d (a - b)")
      case None
      then have "\<not> unat d + (unat a - unat b) < 2 ^ 128"
        by (simp add: checked_add_def u split: if_splits)
      with None False show ?thesis by auto
    next
      case (Some n)
      then have n: "unat n = unat d + (unat a - unat b)"
        by (simp add: unat_checked_add u)
      from 2 [OF False Some] Some False le n show ?thesis by (auto simp: add.assoc)
    qed
  qed
qed

lemma narrow_u64:
  "(\<exists>w :: u128. unat w = s \<and> s < 2 ^ 128 \<and> w \<noteq> 0 \<and> unat w < 2 ^ 64 \<and> (d :: u64) = ucast w)
     \<longleftrightarrow> 0 < s \<and> s < 2 ^ 64 \<and> unat d = s"
proof
  assume "\<exists>w :: u128. unat w = s \<and> s < 2 ^ 128 \<and> w \<noteq> 0 \<and> unat w < 2 ^ 64 \<and> d = ucast w"
  then obtain w :: u128 where w: "unat w = s" "w \<noteq> 0" "unat w < 2 ^ 64" "d = ucast w"
    by blast
  then have "unat d = s" by (simp add: unsigned_ucast_eq take_bit_nat_eq_self)
  moreover from w have "0 < s" by (metis unat_eq_0 neq0_conv)
  ultimately show "0 < s \<and> s < 2 ^ 64 \<and> unat d = s" using w by simp
next
  assume a: "0 < s \<and> s < 2 ^ 64 \<and> unat d = s"
  let ?w = "ucast d :: u128"
  have d: "unat d < 2 ^ 64" using a by simp
  then have w: "unat ?w = s" using a by (simp add: unsigned_ucast_eq take_bit_nat_eq_self)
  have "unat (ucast ?w :: u64) = take_bit 64 (unat ?w)" by (subst unsigned_ucast_eq) simp
  also have "\<dots> = unat d" using a unfolding w by (simp add: take_bit_nat_eq_self)
  finally have "d = ucast ?w" by (rule word_unat_eq_iff [THEN iffD2, symmetric])
  moreover have "?w \<noteq> 0" using w a by auto
  ultimately show "\<exists>w :: u128. unat w = s \<and> s < 2 ^ 128 \<and> w \<noteq> 0 \<and> unat w < 2 ^ 64 \<and> d = ucast w"
    using w a by (intro exI [of _ ?w]) auto
qed

text \<open>When the check passes: the counters are the same, none went back, and some went on.\<close>

definition activity_observed :: "busy_counters \<Rightarrow> busy_counters \<Rightarrow> nat \<Rightarrow> bool" where
  "activity_observed b a n =
     (bc_names b = bc_names a
      \<and> list_all (\<lambda>(x, y). x \<le> y) (zip (bc_values b) (bc_values a))
      \<and> n = sum_list (deltas (bc_values b) (bc_values a)) \<and> 0 < n \<and> n < 2 ^ 64)"

lemma activity_delta_counters:
  "activity_delta (Counters b) (Counters a) = Inr d \<longleftrightarrow> bc_names b = bc_names a
     \<and> (\<exists>w. add_deltas (zip (bc_values b) (bc_values a)) 0 = Inr w
          \<and> w \<noteq> 0 \<and> unat w < 2 ^ 64 \<and> d = ucast w)"
  by (auto simp: activity_delta_def)

lemma activity_delta_observed:
  "activity_delta (Counters b) (Counters a) = Inr d \<longleftrightarrow> activity_observed b a (unat d)"
proof -
  let ?ps = "zip (bc_values b) (bc_values a)"
  define s where "s = sum_list (deltas (bc_values b) (bc_values a))"
  have add: "add_deltas ?ps 0 = Inr w \<longleftrightarrow>
      list_all (\<lambda>(x, y). x \<le> y) ?ps \<and> unat w = s \<and> s < 2 ^ 128" for w
    by (auto simp: add_deltas_Inr list_all_iff s_def deltas_def)
  have "activity_delta (Counters b) (Counters a) = Inr d \<longleftrightarrow>
      bc_names b = bc_names a \<and> list_all (\<lambda>(x, y). x \<le> y) ?ps
      \<and> (\<exists>w :: u128. unat w = s \<and> s < 2 ^ 128 \<and> w \<noteq> 0 \<and> unat w < 2 ^ 64 \<and> d = ucast w)"
    unfolding activity_delta_counters add by blast
  also have "\<dots> \<longleftrightarrow> activity_observed b a (unat d)"
    unfolding narrow_u64 activity_observed_def s_def [symmetric] by auto
  finally show ?thesis .
qed

lemma activity_delta_Inr:
  "activity_delta before after = Inr d \<longleftrightarrow>
     (\<exists>b a. before = Counters b \<and> after = Counters a \<and> activity_observed b a (unat d))"
  by (cases before; cases after)
    (simp_all add: activity_delta_observed, simp_all add: activity_delta_def)

lemma evaluate_activity_shape:
  "dc_id (evaluate_activity b a) = ''runtime.activity''"
  "dc_requirement (evaluate_activity b a) = Optional"
  "dc_status (evaluate_activity b a) \<in> {Pass, Warn}"
  by (auto simp: evaluate_activity_def activity_warning_def split: sum.splits)

lemma evaluate_activity_Pass:
  "dc_status (evaluate_activity before after) = Pass \<longleftrightarrow>
     (\<exists>b a n. before = Counters b \<and> after = Counters a \<and> activity_observed b a n)"
proof -
  have "dc_status (evaluate_activity before after) = Pass \<longleftrightarrow>
      (\<exists>d. activity_delta before after = Inr d)"
    by (auto simp: evaluate_activity_def activity_warning_def split: sum.splits)
  moreover have "activity_observed b a n \<Longrightarrow> \<exists>d :: u64. unat d = n" for b a n
    by (intro exI [of _ "of_nat n"]) (simp add: activity_observed_def unsigned_of_nat take_bit_nat_eq_self)
  ultimately show ?thesis by (fastforce simp: activity_delta_Inr)
qed

lemma scan_reboot_spec:
  "scan_reboot packages boot cs reboot =
     (if \<forall>c \<in> set cs. \<exists>k. bm_get packages (np_package (cr_provider c)) = Some k
            \<and> ip_version k = np_version (cr_provider c)
      then activation_ready (reboot \<or> (\<exists>c \<in> set cs. \<exists>k.
            bm_get packages (np_package (cr_provider c)) = Some k \<and> ip_install_time k > boot))
      else activation_unknown)"
  by (induction packages boot cs reboot rule: scan_reboot.induct)
    (auto split: option.splits)

end
