(* ===== verification/Effects.thy ===== *)
theory Effects
  imports Ordmap "HOL-Library.State_Monad"
begin

text \<open>
  Code with effects is a state monad over a \<open>world\<close>: the environment \<open>env\<close>, whose type stays
  abstract and which the operating system and other programs may change at every call, and the
  \<open>log\<close> of what the code has done and learned, a ghost no operation reads: the processes it asked
  the runner for with their results, the privileged commands, the commands it started itself, the
  private directories it made and removed, the files it wrote or renamed, what it saw of files (a regular
  file or not, and its length) and read from them, and what it showed the user and was answered.
  \<open>attempt\<close> is the
  \<open>?\<close> operator between effects; \<open>each_attempt\<close> is a loop whose body may fail.
\<close>

type_synonym duration = nat

definition from_secs :: "nat \<Rightarrow> duration" where
  "from_secs n = n * 1000000000"

definition from_millis :: "nat \<Rightarrow> duration" where
  "from_millis n = n * 1000000"

record process_request =
  rq_executable :: string
  rq_args :: "string list"
  rq_timeout :: duration
  rq_stdout_limit :: nat
  rq_stderr_limit :: nat
  rq_environment :: "(string \<times> string) list"

datatype proc_termination = Exit u8 | Signal

record process_output =
  po_termination :: proc_termination
  po_stdout :: bytes
  po_stdout_overflow :: bool
  po_stderr_overflow :: bool

datatype process_error =
    Invalid_Executable | Spawn | Timeout | Pipe_Io | Join | Invalid_Termination

type_synonym process_result = "(process_error, process_output) result"
type_synonym 'e runner = "process_request \<Rightarrow> 'e \<Rightarrow> process_result \<times> 'e"

datatype event =
    Ran process_request process_result
  | Privileged "string list"
  | Started string "string list"
  | Made_Temp string
  | Removed string
  | Wrote string bytes
  | Made_Dir string
  | Copied string string
  | Renamed string string
  | Saw string bool nat
  | Was_Read string bytes
  | Displayed string
  | Answered string

record 'e world =
  env :: 'e
  log :: "event list"

type_synonym ('e, 'a) effect = "('e world, 'a) state"

definition run_process :: "'e runner \<Rightarrow> process_request \<Rightarrow> ('e, process_result) effect" where
  "run_process runner rq = State (\<lambda>w. case runner rq (env w) of
      (r, e) \<Rightarrow> (r, w\<lparr>env := e, log := log w @ [Ran rq r]\<rparr>))"

text \<open>A command given to the privileged executor.\<close>

definition run_privileged :: "(string list \<Rightarrow> 'e \<Rightarrow> 'a \<times> 'e) \<Rightarrow> string list \<Rightarrow> ('e, 'a) effect" where
  "run_privileged executor argv = State (\<lambda>w. case executor argv (env w) of
      (r, e) \<Rightarrow> (r, w\<lparr>env := e, log := log w @ [Privileged argv]\<rparr>))"

text \<open>An access to the system that starts no process.\<close>

definition observe :: "('e \<Rightarrow> 'a \<times> 'e) \<Rightarrow> ('e, 'a) effect" where
  "observe f = State (\<lambda>w. case f (env w) of (a, e) \<Rightarrow> (a, w\<lparr>env := e\<rparr>))"

definition attempt ::
  "('s, ('x, 'a) result) state \<Rightarrow> ('a \<Rightarrow> ('s, ('x, 'b) result) state) \<Rightarrow> ('s, ('x, 'b) result) state"
where
  "attempt m f = State_Monad.bind m (\<lambda>r. case r of
      Inl e \<Rightarrow> State_Monad.return (Inl e) | Inr a \<Rightarrow> f a)"

definition pure :: "('x, 'a) result \<Rightarrow> ('s, ('x, 'a) result) state" where
  "pure r = State_Monad.return r"

fun each_attempt ::
  "('a \<Rightarrow> ('s, ('x, unit) result) state) \<Rightarrow> 'a list \<Rightarrow> ('s, ('x, unit) result) state" where
  "each_attempt f [] = pure (Inr ())"
| "each_attempt f (x # xs) = attempt (f x) (\<lambda>_. each_attempt f xs)"

fun collect_attempt ::
  "('a \<Rightarrow> ('s, ('x, 'b) result) state) \<Rightarrow> 'a list \<Rightarrow> ('s, ('x, 'b list) result) state" where
  "collect_attempt f [] = pure (Inr [])"
| "collect_attempt f (x # xs) =
     attempt (f x) (\<lambda>y. attempt (collect_attempt f xs) (\<lambda>ys. pure (Inr (y # ys))))"

definition with_err :: "('x \<Rightarrow> 'y) \<Rightarrow> ('s, ('x, 'a) result) state \<Rightarrow> ('s, ('y, 'a) result) state" where
  "with_err g m = State_Monad.bind m (\<lambda>r. pure (map_err g r))"

section \<open>Running effects\<close>

named_theorems effect_simps "how the combinators run"

lemma run_state_pure [simp, effect_simps]: "run_state (pure r) w = (r, w)"
  by (simp add: pure_def)

lemma run_state_attempt [effect_simps]:
  "run_state (attempt m f) w = (case run_state m w of
      (Inl e, w') \<Rightarrow> (Inl e, w') | (Inr a, w') \<Rightarrow> run_state (f a) w')"
  by (auto simp: attempt_def split: prod.splits sum.splits)

lemma attempt_Inr:
  "run_state (attempt m f) w = (Inr b, w'') \<longleftrightarrow>
     (\<exists>a w'. run_state m w = (Inr a, w') \<and> run_state (f a) w' = (Inr b, w''))"
  by (auto simp: run_state_attempt split: prod.splits sum.splits)

lemma attempt_Inl:
  "run_state (attempt m f) w = (Inl e, w'') \<longleftrightarrow> run_state m w = (Inl e, w'') \<or>
     (\<exists>a w'. run_state m w = (Inr a, w') \<and> run_state (f a) w' = (Inl e, w''))"
  by (auto simp: run_state_attempt split: prod.splits sum.splits)

lemma with_err_Inr:
  "run_state (with_err g m) w = (Inr a, w') \<longleftrightarrow> run_state m w = (Inr a, w')"
  by (auto simp: with_err_def split: prod.splits)

lemma with_err_Inl:
  "run_state (with_err g m) w = (Inl e, w') \<longleftrightarrow> (\<exists>d. run_state m w = (Inl d, w') \<and> e = g d)"
  by (auto simp: with_err_def map_err_def split: prod.splits sum.splits)

lemma run_process_run:
  "run_state (run_process runner rq) w = (r, w') \<longleftrightarrow>
     (\<exists>e. runner rq (env w) = (r, e) \<and> w' = w\<lparr>env := e, log := log w @ [Ran rq r]\<rparr>)"
  by (auto simp: run_process_def split: prod.splits)

lemma observe_run:
  "run_state (observe f) w = (a, w') \<longleftrightarrow> (\<exists>e. f (env w) = (a, e) \<and> w' = w\<lparr>env := e\<rparr>)"
  by (auto simp: observe_def split: prod.splits)

section \<open>Results whatever the world\<close>

lemma pred_return [simp]: "pred_state P (State_Monad.return x) \<longleftrightarrow> P x"
  by (auto intro: pred_stateI dest: pred_stateD)

lemma pred_pure [simp]: "pred_state P (pure x) \<longleftrightarrow> P x"
  by (simp add: pure_def)

lemma pred_bind: "pred_state Q m \<Longrightarrow> (\<And>x. Q x \<Longrightarrow> pred_state P (f x)) \<Longrightarrow>
   pred_state P (State_Monad.bind m f)"
  by (rule pred_stateI) (auto split: prod.splits dest!: pred_stateD)

lemma pred_bind_any: "(\<And>x. pred_state P (f x)) \<Longrightarrow> pred_state P (State_Monad.bind m f)"
  by (rule pred_bind [where Q = "\<lambda>_. True"]) auto

lemma pred_weaken: "pred_state P m \<Longrightarrow> (\<And>x. P x \<Longrightarrow> Q x) \<Longrightarrow> pred_state Q m"
  by (rule pred_stateI) (auto dest: pred_stateD)

lemma pred_both: "pred_state P m \<Longrightarrow> pred_state Q m \<Longrightarrow> pred_state (\<lambda>x. P x \<and> Q x) m"
  by (rule pred_stateI) (auto dest: pred_stateD)

lemma pred_map: "pred_state Q m \<Longrightarrow> (\<And>x. Q x \<Longrightarrow> P (f x)) \<Longrightarrow>
   pred_state P (State_Monad.bind m (\<lambda>x. State_Monad.return (f x)))"
  by (rule pred_bind) auto

section \<open>What a computation asks processes for\<close>

text \<open>Every event of \<open>m\<close> satisfies \<open>E\<close>; what came before stays in the log.\<close>

definition only_does :: "(event \<Rightarrow> bool) \<Rightarrow> ('e, 'a) effect \<Rightarrow> bool" where
  "only_does E m = (\<forall>w. \<exists>evs. log (snd (run_state m w)) = log w @ evs \<and> list_all E evs)"

definition ran :: "(process_request \<Rightarrow> bool) \<Rightarrow> event \<Rightarrow> bool" where
  "ran R ev = (case ev of Ran rq _ \<Rightarrow> R rq | _ \<Rightarrow> False)"

lemma ran_simps [simp]: "ran R (Ran rq r) = R rq" "ran R (Privileged argv) = False"
  "ran R (Started x args) = False" "ran R (Made_Temp d) = False" "ran R (Removed d) = False"
  "ran R (Wrote p b) = False" "ran R (Made_Dir p) = False" "ran R (Copied p q) = False"
  "ran R (Renamed p q) = False"
  "ran R (Saw p k n) = False" "ran R (Was_Read p b) = False"
  "ran R (Displayed t) = False" "ran R (Answered t) = False"
  by (simp_all add: ran_def)

abbreviation only_runs :: "(process_request \<Rightarrow> bool) \<Rightarrow> ('e, 'a) effect \<Rightarrow> bool" where
  "only_runs R \<equiv> only_does (ran R)"

lemma only_runs_return [intro!, simp]: "only_does E (State_Monad.return x)"
  by (simp add: only_does_def)

lemma only_runs_pure [intro!, simp]: "only_does E (pure x)"
  by (simp add: only_does_def)

lemma only_runs_observe [intro!, simp]: "only_does E (observe f)"
  by (simp add: only_does_def observe_def split: prod.splits)

lemma only_does_process: "(\<And>r. E (Ran rq r)) \<Longrightarrow> only_does E (run_process runner rq)"
  by (simp add: only_does_def run_process_def split: prod.splits)

lemma only_runs_process [intro!]: "R rq \<Longrightarrow> only_runs R (run_process runner rq)"
  by (rule only_does_process) simp

lemma only_does_privileged:
  "E (Privileged argv) \<Longrightarrow> only_does E (run_privileged executor argv)"
  by (simp add: only_does_def run_privileged_def split: prod.splits)

lemma only_runs_bind [intro!]:
  assumes m: "only_does E m" and f: "\<And>x. only_does E (f x)"
  shows "only_does E (State_Monad.bind m f)"
  unfolding only_does_def
proof
  fix w
  obtain x w' where w': "run_state m w = (x, w')" by fastforce
  from m w' obtain rs where "log w' = log w @ rs" "list_all E rs"
    unfolding only_does_def by (metis snd_conv)
  moreover from f obtain ss where "log (snd (run_state (f x) w')) = log w' @ ss" "list_all E ss"
    unfolding only_does_def by blast
  ultimately show "\<exists>rqs. log (snd (run_state (State_Monad.bind m f) w)) = log w @ rqs
      \<and> list_all E rqs"
    using w' by (intro exI [of _ "rs @ ss"]) simp
qed

lemma only_runs_attempt [intro!]:
  "only_does E m \<Longrightarrow> (\<And>x. only_does E (f x)) \<Longrightarrow> only_does E (attempt m f)"
  unfolding attempt_def by (intro only_runs_bind) (auto split: sum.splits)

lemma only_runs_with_err [intro!]: "only_does E m \<Longrightarrow> only_does E (with_err g m)"
  unfolding with_err_def by (intro only_runs_bind) auto

lemma only_runs_each [intro!]:
  "(\<And>x. x \<in> set xs \<Longrightarrow> only_does E (f x)) \<Longrightarrow> only_does E (each_attempt f xs)"
  by (induction xs) auto

lemma only_runs_collect [intro!]:
  "(\<And>x. x \<in> set xs \<Longrightarrow> only_does E (f x)) \<Longrightarrow> only_does E (collect_attempt f xs)"
  by (induction xs) auto

lemma only_runs_traverse [intro!]:
  "(\<And>x. x \<in> set xs \<Longrightarrow> only_does E (f x)) \<Longrightarrow> only_does E (State_Monad.traverse_list f xs)"
  by (induction xs) auto

lemma only_does_weaken: "only_does E m \<Longrightarrow> (\<And>ev. E ev \<Longrightarrow> F ev) \<Longrightarrow> only_does F m"
  unfolding only_does_def by (metis list.pred_mono_strong)

lemma only_runs_weaken: "only_runs R m \<Longrightarrow> (\<And>rq. R rq \<Longrightarrow> S rq) \<Longrightarrow> only_runs S m"
  by (erule only_does_weaken) (auto simp: ran_def split: event.splits)

section \<open>The trace of a success\<close>

text \<open>
  A successful run of \<open>m\<close> adds to the log events that satisfy \<open>P\<close> of its result; \<open>followed\<close> is the
  trace of one computation after another.
\<close>

definition leaves :: "('a \<Rightarrow> event list \<Rightarrow> bool) \<Rightarrow> ('e, ('x, 'a) result) effect \<Rightarrow> bool" where
  "leaves P m = (\<forall>w a w'. run_state m w = (Inr a, w') \<longrightarrow>
     (\<exists>evs. log w' = log w @ evs \<and> P a evs))"

definition followed :: "('a \<Rightarrow> event list \<Rightarrow> bool) \<Rightarrow> ('a \<Rightarrow> 'b \<Rightarrow> event list \<Rightarrow> bool)
    \<Rightarrow> 'b \<Rightarrow> event list \<Rightarrow> bool" where
  "followed P Q b evs = (\<exists>a xs ys. evs = xs @ ys \<and> P a xs \<and> Q a b ys)"

lemma leavesD: "leaves P m \<Longrightarrow> run_state m w = (Inr a, w') \<Longrightarrow>
   \<exists>evs. log w' = log w @ evs \<and> P a evs"
  unfolding leaves_def by blast

lemma leaves_weaken: "leaves P m \<Longrightarrow> (\<And>a evs. P a evs \<Longrightarrow> Q a evs) \<Longrightarrow> leaves Q m"
  unfolding leaves_def by meson

lemma leaves_attempt:
  assumes "leaves P m" and "\<And>a. leaves (Q a) (f a)"
  shows "leaves (followed P Q) (attempt m f)"
  unfolding leaves_def
proof (intro allI impI)
  fix w b w'
  assume "run_state (attempt m f) w = (Inr b, w')"
  then obtain a u where a: "run_state m w = (Inr a, u)" "run_state (f a) u = (Inr b, w')"
    by (auto simp: attempt_Inr)
  from leavesD [OF assms(1) a(1)] leavesD [OF assms(2) a(2)]
  show "\<exists>evs. log w' = log w @ evs \<and> followed P Q b evs"
    unfolding followed_def by (metis append_assoc)
qed

lemma leaves_pure: "leaves (\<lambda>a evs. r = Inr a \<and> evs = []) (pure r)"
  by (simp add: leaves_def)

lemma leaves_with_err: "leaves P m \<Longrightarrow> leaves P (with_err g m)"
  by (simp add: leaves_def with_err_Inr)

lemma leaves_process: "leaves (\<lambda>po evs. evs = [Ran rq (Inr po)]) (run_process runner rq)"
  by (auto simp: leaves_def run_process_run)

lemma leaves_each:
  "(\<And>x. leaves (P x) (f x)) \<Longrightarrow>
   leaves (\<lambda>_ evs. \<exists>ess. evs = concat ess \<and> list_all2 (\<lambda>x es. \<exists>u. P x u es) xs ess) (each_attempt f xs)"
proof (induction xs)
  case Nil
  show ?case by (auto simp: leaves_def)
next
  case (Cons x xs)
  show ?case
    unfolding each_attempt.simps
  proof (rule leaves_weaken [OF leaves_attempt [OF Cons.prems Cons.IH [OF Cons.prems]]])
    fix u evs
    assume "followed (P x) (\<lambda>_ _ evs. \<exists>ess. evs = concat ess
        \<and> list_all2 (\<lambda>x es. \<exists>u. P x u es) xs ess) u evs"
    then obtain a es ess where "evs = es @ concat ess" "P x a es"
        "list_all2 (\<lambda>x es. \<exists>u. P x u es) xs ess" unfolding followed_def by blast
    then show "\<exists>ess. evs = concat ess \<and> list_all2 (\<lambda>x es. \<exists>u. P x u es) (x # xs) ess"
      by (intro exI [of _ "es # ess"]) auto
  qed
qed

lemma only_doesE:
  assumes "only_does E m" "run_state m w = (a, w')"
  obtains evs where "log w' = log w @ evs" "list_all E evs"
  using assms unfolding only_does_def by (metis snd_conv)

text \<open>Steps that leave no event.\<close>

lemma leaves_silent:
  assumes "only_does (\<lambda>_. False) m" "\<And>a. leaves P (f a)"
  shows "leaves P (attempt m f)"
  unfolding leaves_def
proof (intro allI impI)
  fix w b w'
  assume "run_state (attempt m f) w = (Inr b, w')"
  then obtain a u where a: "run_state m w = (Inr a, u)" "run_state (f a) u = (Inr b, w')"
    by (auto simp: attempt_Inr)
  from only_doesE [OF assms(1) a(1)] have "log u = log w" by (metis append_Nil2 list.pred_inject(2) neq_Nil_conv)
  with leavesD [OF assms(2) a(2)] show "\<exists>evs. log w' = log w @ evs \<and> P b evs" by simp
qed

lemma leaves_refused: "leaves P (pure (Inl e))"
  by (simp add: leaves_def)

lemma leaves_if: "leaves P a \<Longrightarrow> leaves P b \<Longrightarrow> leaves P (if c then a else b)"
  by simp

lemma leaves_then:
  assumes "leaves P m" "\<And>a. leaves (Q a) (f a)"
    and "\<And>a b xs ys. P a xs \<Longrightarrow> Q a b ys \<Longrightarrow> R b (xs @ ys)"
  shows "leaves R (attempt m f)"
  by (rule leaves_weaken [OF leaves_attempt [OF assms(1,2)]]) (auto simp: followed_def assms(3))

section \<open>Computations on a system at rest\<close>

text \<open>\<open>m\<close> returns \<open>v\<close> from every world whose environment is \<open>e\<close>, and leaves it there.\<close>

definition yields :: "'e \<Rightarrow> ('e, 'a) effect \<Rightarrow> 'a \<Rightarrow> bool" where
  "yields e m v = (\<forall>w. env w = e \<longrightarrow> (\<exists>w'. run_state m w = (v, w') \<and> env w' = e))"

named_theorems yields_intros "computations at rest"

lemma yields_return [yields_intros]: "yields e (State_Monad.return v) v"
  by (simp add: yields_def)

lemma yields_pure [yields_intros]: "yields e (pure r) r"
  by (simp add: yields_def)

lemma yields_bind [yields_intros]:
  "yields e m a \<Longrightarrow> yields e (f a) b \<Longrightarrow> yields e (State_Monad.bind m f) b"
  by (fastforce simp: yields_def)

lemma yields_observe [yields_intros]: "snd (f e) = e \<Longrightarrow> yields e (observe f) (fst (f e))"
  by (auto simp: yields_def observe_def split: prod.splits)

lemma yields_process [yields_intros]:
  "snd (runner rq e) = e \<Longrightarrow> yields e (run_process runner rq) (fst (runner rq e))"
  by (auto simp: yields_def run_process_def split: prod.splits)

lemma yields_attempt [yields_intros]:
  "yields e m r \<Longrightarrow> (\<And>a. r = Inr a \<Longrightarrow> yields e (f a) (g a)) \<Longrightarrow>
   yields e (attempt m f) (and_then r g)"
  unfolding attempt_def
  by (rule yields_bind, assumption) (cases r, auto intro: yields_return)

lemma yields_with_err [yields_intros]:
  "yields e m r \<Longrightarrow> yields e (with_err h m) (map_err h r)"
  unfolding with_err_def by (rule yields_bind) (auto intro: yields_pure)

lemma yields_traverse [yields_intros]:
  "(\<And>x. x \<in> set xs \<Longrightarrow> yields e (f x) (g x)) \<Longrightarrow>
   yields e (State_Monad.traverse_list f xs) (map g xs)"
  by (induction xs) (auto intro!: yields_intros)

definition settles :: "'e \<Rightarrow> ('e, 'a) effect \<Rightarrow> bool" where
  "settles e m = (\<exists>v. yields e m v)"

lemma settles_pure [intro!, simp]: "settles e (pure r)" "settles e (State_Monad.return v)"
  by (auto simp: settles_def intro: yields_intros)

lemma settles_observe [intro]: "snd (f e) = e \<Longrightarrow> settles e (observe f)"
  by (auto simp: settles_def intro: yields_intros)

lemma settles_process [intro]: "snd (runner rq e) = e \<Longrightarrow> settles e (run_process runner rq)"
  by (auto simp: settles_def intro: yields_intros)

lemma settles_bind [intro!]:
  "settles e m \<Longrightarrow> (\<And>a. settles e (f a)) \<Longrightarrow> settles e (State_Monad.bind m f)"
  unfolding settles_def by (meson yields_bind)

lemma settles_attempt [intro!]:
  "settles e m \<Longrightarrow> (\<And>a. settles e (f a)) \<Longrightarrow> settles e (attempt m f)"
  unfolding attempt_def by (intro settles_bind) (auto split: sum.splits)

lemma settles_with_err [intro!]: "settles e m \<Longrightarrow> settles e (with_err g m)"
  unfolding with_err_def by (intro settles_bind) auto

lemma yields_unique: "yields e m a \<Longrightarrow> yields e m b \<Longrightarrow> a = b"
  unfolding yields_def by (metis prod.inject world.select_convs(1))

lemma yields_run: "yields e m v \<Longrightarrow> env w = e \<Longrightarrow> fst (run_state m w) = v"
  unfolding yields_def by fastforce

lemma settles_yields:
  "settles e m \<Longrightarrow> yields e m (fst (run_state m \<lparr>env = e, log = []\<rparr>))"
proof -
  assume "settles e m"
  then obtain v where v: "yields e m v" by (auto simp: settles_def)
  then have "fst (run_state m \<lparr>env = e, log = []\<rparr>) = v" by (rule yields_run) simp
  with v show ?thesis by simp
qed

lemma settles_if: "settles e a \<Longrightarrow> settles e b \<Longrightarrow> settles e (if c then a else b)"
  by simp

text \<open>The value of a computation at rest.\<close>

definition value_at :: "'e \<Rightarrow> ('e, 'a) effect \<Rightarrow> 'a" where
  "value_at e m = fst (run_state m \<lparr>env = e, log = []\<rparr>)"

lemma value_run: "settles e m \<Longrightarrow> env w = e \<Longrightarrow> fst (run_state m w) = value_at e m"
  unfolding value_at_def by (rule yields_run [OF settles_yields])

lemma value_pure [simp]: "value_at e (pure r) = r"
  by (simp add: value_at_def)

lemma value_observe [simp]: "value_at e (observe f) = fst (f e)"
  by (simp add: value_at_def observe_def split: prod.split)

lemma value_with_err [simp]: "value_at e (with_err g m) = map_err g (value_at e m)"
  by (simp add: value_at_def with_err_def split: prod.split)

lemma value_attempt:
  assumes "settles e m" "\<And>a. settles e (f a)"
  shows "value_at e (attempt m f) = and_then (value_at e m) (\<lambda>a. value_at e (f a))"
proof (rule yields_unique)
  show "yields e (attempt m f) (value_at e (attempt m f))"
    unfolding value_at_def by (intro settles_yields settles_attempt assms)
  show "yields e (attempt m f) (and_then (value_at e m) (\<lambda>a. value_at e (f a)))"
    unfolding value_at_def by (intro yields_attempt settles_yields assms)
qed

lemma value_bind_pure:
  "value_at e (State_Monad.bind (observe f) (\<lambda>a. pure (g a))) = g (fst (f e))"
  by (simp add: value_at_def observe_def split: prod.split)

end
