(* ===== verification/Process.thy ===== *)
theory Process
  imports Effects
begin

text \<open>
  \<open>crates/stack-runtime/src/process.rs\<close>: the process runner. What the operating system does is
  the parameter \<open>spawn\<close>: for a command it returns the child's future, a \<open>child\<close> record: whether
  the two pipes and reader threads exist, the results of the \<open>read\<close> calls on each pipe, the
  result of the n-th \<open>try_wait\<close>, the time that passes in the n-th turn of the loop beyond the
  sleep itself, and what \<open>wait\<close> returns after a kill. The clock never goes back and a sleep
  lasts at least as long as asked: the elapsed time is the sum of the sleeps and those delays.
  The reader threads, the supervising loop, the joins and the order in which errors win are the
  source's. The calls that end or reap the child are kept in a trace. Durations are nanoseconds.
\<close>

datatype exit_status = Status_Signal | Status_Code int | Status_Other
datatype read_event = Read bytes | Read_Error
datatype wait_result = Exited exit_status | Running | Wait_Error
datatype child_event = Spawned | Waited exit_status | Killed | Wait_Failed

record spawn_command =
  sc_executable :: string
  sc_args :: "string list"
  sc_environment :: "string \<Rightarrow> string option"

record child =
  ch_stdout_pipe :: bool
  ch_stderr_pipe :: bool
  ch_stdout_thread :: bool
  ch_stderr_thread :: bool
  ch_stdout_joins :: bool
  ch_stderr_joins :: bool
  ch_stdout_reads :: "read_event list"
  ch_stderr_reads :: "read_event list"
  ch_try_wait :: "nat \<Rightarrow> wait_result"
  ch_delay :: "nat \<Rightarrow> duration"
  ch_recheck :: "nat \<Rightarrow> duration"
  ch_wait_after_kill :: "exit_status option"

record captured_output =
  co_bytes :: bytes
  co_overflow :: bool

text \<open>The reader thread: every chunk \<open>read\<close> returns, at most \<open>limit\<close> bytes of them kept.\<close>

fun read_loop :: "nat \<Rightarrow> read_event list \<Rightarrow> bytes \<Rightarrow> bool \<Rightarrow> (process_error, captured_output) result"
where
  "read_loop limit [] captured overflow =
     Inr \<lparr>co_bytes = captured, co_overflow = overflow\<rparr>"
| "read_loop limit (Read_Error # _) captured overflow = Inl Pipe_Io"
| "read_loop limit (Read buffer # rest) captured overflow =
     (if buffer = [] then Inr \<lparr>co_bytes = captured, co_overflow = overflow\<rparr>
      else (let available = limit - length captured;
                retained = min available (length buffer)
            in read_loop limit rest (captured @ take retained buffer)
                 (overflow \<or> retained < length buffer)))"

definition reader_thread :: "nat \<Rightarrow> read_event list \<Rightarrow> (process_error, captured_output) result" where
  "reader_thread limit reads = read_loop limit reads [] False"

text \<open>Both threads are joined before either result is looked at.\<close>

definition join_readers ::
  "(process_error, captured_output) result option \<Rightarrow> (process_error, captured_output) result option
    \<Rightarrow> (process_error, captured_output \<times> captured_output) result" where
  "join_readers out err =
     and_then (ok_or Join out) (\<lambda>out.
     and_then (ok_or Join err) (\<lambda>err.
     and_then out (\<lambda>o'. and_then err (\<lambda>e'. Inr (o', e')))))"

definition kill_and_reap :: "child \<Rightarrow> child_event list" where
  "kill_and_reap c = (case ch_wait_after_kill c of
       Some st \<Rightarrow> [Killed, Waited st] | None \<Rightarrow> [Killed, Wait_Failed])"

type_synonym lifecycle = "(process_error, exit_status \<times> bool) result \<times> child_event list"

text \<open>
  The loop around \<open>try_wait\<close>. Turn \<open>n\<close> reads the clock at \<open>now\<close>; when the child is running it
  reads it again for the remaining time and sleeps for at most ten milliseconds of that.
\<close>

definition next_turn :: "duration \<Rightarrow> child \<Rightarrow> nat \<Rightarrow> duration \<Rightarrow> duration" where
  "next_turn timeout c n now =
     (let again = now + ch_recheck c n; remaining = timeout - again
      in again + min remaining (from_millis 10) + ch_delay c (n + 1))"

lemma next_turn_later: "now < timeout \<Longrightarrow> now < next_turn timeout c n now"
  by (auto simp: next_turn_def Let_def from_millis_def min_def)

function supervise :: "duration \<Rightarrow> child \<Rightarrow> nat \<Rightarrow> duration \<Rightarrow> lifecycle" where
  "supervise timeout c n now = (case ch_try_wait c n of
       Exited st \<Rightarrow> (Inr (st, False), [Waited st])
     | Wait_Error \<Rightarrow> (Inl Spawn, kill_and_reap c)
     | Running \<Rightarrow>
         if now \<ge> timeout then
           (case ch_wait_after_kill c of
              Some st \<Rightarrow> (Inr (st, True), [Killed, Waited st])
            | None \<Rightarrow> (Inl Spawn, [Killed, Wait_Failed] @ kill_and_reap c))
         else supervise timeout c (n + 1) (next_turn timeout c n now))"
  by pat_completeness auto

termination
  by (relation "measure (\<lambda>(timeout, c, n, now). timeout - now)")
    (simp_all add: next_turn_later diff_less_mono2)

declare supervise.simps [simp del]

definition classify_termination :: "exit_status \<Rightarrow> (process_error, proc_termination) result" where
  "classify_termination st = (case st of
       Status_Signal \<Rightarrow> Inr Signal
     | Status_Other \<Rightarrow> Inl Invalid_Termination
     | Status_Code code \<Rightarrow>
         if 0 \<le> code \<and> code < 256 then Inr (Exit (of_int code)) else Inl Invalid_Termination)"

definition is_absolute :: "string \<Rightarrow> bool" where
  "is_absolute path = starts_with ''/'' path"

definition spawn_of :: "process_request \<Rightarrow> spawn_command" where
  "spawn_of rq = \<lparr>sc_executable = rq_executable rq, sc_args = rq_args rq,
     sc_environment = (map_of (rev (rq_environment rq)))(''LC_ALL'' \<mapsto> ''C'')\<rparr>"

text \<open>The part of \<open>run\<close> after the readers are started.\<close>

definition finish_run :: "process_request \<Rightarrow> child \<Rightarrow> (process_error, exit_status \<times> bool) result
    \<Rightarrow> process_result" where
  "finish_run rq c life =
     (let readers = join_readers
        (if ch_stdout_joins c then Some (reader_thread (rq_stdout_limit rq) (ch_stdout_reads c))
         else None)
        (if ch_stderr_joins c then Some (reader_thread (rq_stderr_limit rq) (ch_stderr_reads c))
         else None)
      in and_then life (\<lambda>(status, timed_out).
         and_then readers (\<lambda>(out, err).
         if timed_out then Inl Timeout
         else and_then (classify_termination status) (\<lambda>t.
           Inr \<lparr>po_termination = t, po_stdout = co_bytes out,
                po_stdout_overflow = co_overflow out, po_stderr_overflow = co_overflow err\<rparr>))))"

definition system_run :: "(spawn_command \<Rightarrow> 'e \<Rightarrow> child option \<times> 'e) \<Rightarrow> process_request \<Rightarrow> 'e
    \<Rightarrow> (process_result \<times> child_event list) \<times> 'e" where
  "system_run spawn rq e =
     (if \<not> is_absolute (rq_executable rq) then ((Inl Invalid_Executable, []), e)
      else case spawn (spawn_of rq) e of
        (None, e') \<Rightarrow> ((Inl Spawn, []), e')
      | (Some c, e') \<Rightarrow>
          (if \<not> ch_stdout_pipe c \<or> \<not> ch_stderr_pipe c
           then (Inl Pipe_Io, Spawned # kill_and_reap c)
           else if \<not> ch_stdout_thread c \<or> \<not> ch_stderr_thread c
           then (Inl Spawn, Spawned # kill_and_reap c)
           else (case supervise (rq_timeout rq) c 0 (ch_delay c 0) of
                   (life, tr) \<Rightarrow> (finish_run rq c life, Spawned # tr)), e'))"

text \<open>The runner the rest of the program calls.\<close>

definition system_runner :: "(spawn_command \<Rightarrow> 'e \<Rightarrow> child option \<times> 'e) \<Rightarrow> 'e runner" where
  "system_runner spawn rq e = (case system_run spawn rq e of ((r, _), e') \<Rightarrow> (r, e'))"

section \<open>Reading a pipe\<close>

fun pipe_data :: "read_event list \<Rightarrow> bytes" where
  "pipe_data [] = []"
| "pipe_data (Read_Error # _) = []"
| "pipe_data (Read b # rest) = (if b = [] then [] else b @ pipe_data rest)"

fun pipe_fails :: "read_event list \<Rightarrow> bool" where
  "pipe_fails [] = False"
| "pipe_fails (Read_Error # _) = True"
| "pipe_fails (Read b # rest) = (b \<noteq> [] \<and> pipe_fails rest)"

lemma read_loop_spec:
  "length captured \<le> limit \<Longrightarrow> read_loop limit reads captured overflow =
     (if pipe_fails reads then Inl Pipe_Io
      else Inr \<lparr>co_bytes = take limit (captured @ pipe_data reads),
                co_overflow = (overflow \<or> limit < length captured + length (pipe_data reads))\<rparr>)"
proof (induction limit reads captured overflow rule: read_loop.induct)
  case (3 limit buffer rest captured overflow)
  show ?case
  proof (cases "buffer = []")
    case False
    let ?k = "min (limit - length captured) (length buffer)"
    have len: "length (captured @ take ?k buffer) \<le> limit" using 3 by simp
    have more: "take limit ((captured @ take ?k buffer) @ pipe_data rest)
        = take limit (captured @ buffer @ pipe_data rest)"
      by (cases "length buffer \<le> limit - length captured") (use 3 in auto)
    have over: "(overflow \<or> ?k < length buffer)
          \<or> limit < length (captured @ take ?k buffer) + length (pipe_data rest)
        \<longleftrightarrow> overflow \<or> limit < length captured + length (buffer @ pipe_data rest)"
      using 3(2) by (cases "length buffer \<le> limit - length captured") auto
    from False 3(1) [OF False refl refl len] show ?thesis
      by (simp only: read_loop.simps Let_def if_False pipe_fails.simps pipe_data.simps more over)
        simp
  qed (use 3 in simp)
qed simp_all

lemma reader_thread_spec:
  "reader_thread limit reads =
     (if pipe_fails reads then Inl Pipe_Io
      else Inr \<lparr>co_bytes = take limit (pipe_data reads),
                co_overflow = (limit < length (pipe_data reads))\<rparr>)"
  by (simp add: reader_thread_def read_loop_spec)

section \<open>The supervising loop\<close>

definition reaped :: "child_event list \<Rightarrow> bool" where
  "reaped tr = (\<exists>st. Waited st \<in> set tr)"

text \<open>The clock at the turn where the loop stopped.\<close>

definition lifecycle_ok :: "duration \<Rightarrow> child \<Rightarrow> lifecycle \<Rightarrow> bool" where
  "lifecycle_ok timeout c r = (case r of (life, tr) \<Rightarrow>
     (reaped tr \<or> ch_wait_after_kill c = None)
     \<and> (case life of
          Inl e \<Rightarrow> e = Spawn
        | Inr (st, timed_out) \<Rightarrow>
            if timed_out then Killed \<in> set tr \<and> (\<exists>n. ch_try_wait c n = Running)
            else tr = [Waited st] \<and> (\<exists>n. ch_try_wait c n = Exited st)))"

lemma kill_and_reap_reaped: "reaped (kill_and_reap c) \<or> ch_wait_after_kill c = None"
  by (auto simp: reaped_def kill_and_reap_def split: option.splits)

lemma reaped_append: "reaped (xs @ ys) \<longleftrightarrow> reaped xs \<or> reaped ys"
  by (auto simp: reaped_def)

lemma reaped_Waited [simp]: "reaped [Waited st]" "reaped [Killed, Waited st]"
  by (auto simp: reaped_def)

lemma supervise_result: "lifecycle_ok timeout c (supervise timeout c n now)"
proof (induction timeout c n now rule: supervise.induct)
  case (1 timeout c n now)
  show ?case
  proof (cases "ch_try_wait c n")
    case (Exited st)
    then show ?thesis by (auto simp: supervise.simps [of timeout c n] lifecycle_ok_def)
  next
    case Running
    show ?thesis
    proof (cases "now \<ge> timeout")
      case True
      with Running show ?thesis
        by (auto simp: supervise.simps [of timeout c n] lifecycle_ok_def split: option.splits)
    next
      case False
      with 1 [OF Running this] Running show ?thesis
        by (simp add: supervise.simps [of timeout c n])
    qed
  next
    case Wait_Error
    then show ?thesis using kill_and_reap_reaped [of c]
      by (auto simp: supervise.simps [of timeout c n] lifecycle_ok_def)
  qed
qed

text \<open>A child that exits at the first turn is never killed, however late the clock is.\<close>

lemma supervise_exited:
  "ch_try_wait c n = Exited st \<Longrightarrow> supervise timeout c n now = (Inr (st, False), [Waited st])"
  by (simp add: supervise.simps [of timeout c n])

text \<open>A child that never exits is killed and its run ends in a timeout or a spawn error.\<close>

lemma supervise_never_exits:
  "\<forall>n. ch_try_wait c n = Running \<Longrightarrow> Killed \<in> set (snd (supervise timeout c n now))
     \<and> (\<forall>st. fst (supervise timeout c n now) \<noteq> Inr (st, False))"
proof (induction timeout c n now rule: supervise.induct)
  case (1 timeout c n now)
  then have r: "ch_try_wait c n = Running" by blast
  show ?case
  proof (cases "now \<ge> timeout")
    case True
    with r show ?thesis
      by (auto simp: supervise.simps [of timeout c n] split: option.splits)
  next
    case False
    with 1 r show ?thesis by (simp add: supervise.simps [of timeout c n])
  qed
qed

section \<open>What a caller of a runner may use\<close>

lemma join_readers_Inr:
  "join_readers out err = Inr (a, b) \<longleftrightarrow> out = Some (Inr a) \<and> err = Some (Inr b)"
  by (auto simp: join_readers_def)

lemma finish_run_Inr:
  assumes "finish_run rq c life = Inr po"
  shows "\<exists>st. life = Inr (st, False) \<and> classify_termination st = Inr (po_termination po)
     \<and> po_stdout po = take (rq_stdout_limit rq) (pipe_data (ch_stdout_reads c))
     \<and> po_stdout_overflow po = (rq_stdout_limit rq < length (pipe_data (ch_stdout_reads c)))
     \<and> po_stderr_overflow po = (rq_stderr_limit rq < length (pipe_data (ch_stderr_reads c)))
     \<and> \<not> pipe_fails (ch_stdout_reads c) \<and> \<not> pipe_fails (ch_stderr_reads c)"
  using assms
  by (auto simp: finish_run_def Let_def join_readers_Inr reader_thread_spec
      split: if_splits prod.splits)

text \<open>
  A runner: \<open>run\<close>, and as ghosts what the child of a request writes to its standard output and
  error before it ends.
\<close>

locale bounded_runner =
  fixes run :: "process_request \<Rightarrow> 'e \<Rightarrow> process_result \<times> 'e"
    and written_out :: "process_request \<Rightarrow> 'e \<Rightarrow> bytes"
    and written_err :: "process_request \<Rightarrow> 'e \<Rightarrow> bytes"
  assumes run_relative: "\<not> is_absolute (rq_executable rq) \<Longrightarrow> run rq e = (Inl Invalid_Executable, e)"
    and run_stdout: "run rq e = (Inr po, e') \<Longrightarrow>
      po_stdout po = take (rq_stdout_limit rq) (written_out rq e)"
    and run_stdout_overflow: "run rq e = (Inr po, e') \<Longrightarrow>
      po_stdout_overflow po = (rq_stdout_limit rq < length (written_out rq e))"
    and run_stderr_overflow: "run rq e = (Inr po, e') \<Longrightarrow>
      po_stderr_overflow po = (rq_stderr_limit rq < length (written_err rq e))"
begin

lemma stdout_bounded: "run rq e = (Inr po, e') \<Longrightarrow> length (po_stdout po) \<le> rq_stdout_limit rq"
  by (simp add: run_stdout)

lemma stdout_complete:
  "run rq e = (Inr po, e') \<Longrightarrow> \<not> po_stdout_overflow po \<Longrightarrow> po_stdout po = written_out rq e"
  by (simp add: run_stdout run_stdout_overflow)

lemma stdout_overflow_full:
  "run rq e = (Inr po, e') \<Longrightarrow> po_stdout_overflow po \<Longrightarrow>
   length (po_stdout po) = rq_stdout_limit rq"
  by (simp add: run_stdout run_stdout_overflow)

lemma success_absolute: "run rq e = (Inr po, e') \<Longrightarrow> is_absolute (rq_executable rq)"
  using run_relative by fastforce

end

definition child_stdout ::
  "(spawn_command \<Rightarrow> 'e \<Rightarrow> child option \<times> 'e) \<Rightarrow> process_request \<Rightarrow> 'e \<Rightarrow> bytes" where
  "child_stdout spawn rq e = (case fst (spawn (spawn_of rq) e) of
      None \<Rightarrow> [] | Some c \<Rightarrow> pipe_data (ch_stdout_reads c))"

definition child_stderr ::
  "(spawn_command \<Rightarrow> 'e \<Rightarrow> child option \<times> 'e) \<Rightarrow> process_request \<Rightarrow> 'e \<Rightarrow> bytes" where
  "child_stderr spawn rq e = (case fst (spawn (spawn_of rq) e) of
      None \<Rightarrow> [] | Some c \<Rightarrow> pipe_data (ch_stderr_reads c))"

lemma system_runner_Inr:
  assumes "system_runner spawn rq e = (Inr po, e')"
  obtains c where "is_absolute (rq_executable rq)" "spawn (spawn_of rq) e = (Some c, e')"
    "finish_run rq c (fst (supervise (rq_timeout rq) c 0 (ch_delay c 0))) = Inr po"
  using assms
  by (auto simp: system_runner_def system_run_def split: prod.splits if_splits option.splits)

interpretation sys: bounded_runner "system_runner spawn" "child_stdout spawn" "child_stderr spawn"
  for spawn
proof
  fix rq e po e'
  assume r: "system_runner spawn rq e = (Inr po, e')"
  then obtain c where c: "spawn (spawn_of rq) e = (Some c, e')"
    and f: "finish_run rq c (fst (supervise (rq_timeout rq) c 0 (ch_delay c 0))) = Inr po"
    by (rule system_runner_Inr)
  from finish_run_Inr [OF f] c
  show "po_stdout po = take (rq_stdout_limit rq) (child_stdout spawn rq e)"
    and "po_stdout_overflow po = (rq_stdout_limit rq < length (child_stdout spawn rq e))"
    and "po_stderr_overflow po = (rq_stderr_limit rq < length (child_stderr spawn rq e))"
    by (auto simp: child_stdout_def child_stderr_def)
qed (simp add: system_runner_def system_run_def)

end
