(* ===== verification/Package.thy ===== *)
theory Package
  imports Activity Process
begin

text \<open>
  \<open>crates/stack-runtime/src/package.rs\<close>: the inspection of the RPM packages, files and owners a
  profile names. The runner and the file operations are fields of the inspector; \<open>sha256\<close> gives
  the lowercase hexadecimal digest. The file and owner caches are passed through the loops as
  the source passes its two maps. \<open>expect\<close> on a query that was made is \<open>queried\<close>: the lemma
  \<open>queried_made\<close> shows that its other branch is dead.
\<close>

record metadata =
  md_kind_file :: bool
  md_len :: nat
  md_dev :: nat
  md_ino :: nat

record 'e file_ops =
  fo_lstat :: "string \<Rightarrow> 'e \<Rightarrow> (io_error, metadata) result \<times> 'e"
  fo_open :: "string \<Rightarrow> 'e \<Rightarrow> (io_error, nat) result \<times> 'e"
  fo_fstat :: "nat \<Rightarrow> 'e \<Rightarrow> (io_error, metadata) result \<times> 'e"
  fo_read_all :: "nat \<Rightarrow> 'e \<Rightarrow> (io_error, bytes) result \<times> 'e"

record 'e rpm_inspector =
  ri_rpm :: string
  ri_root :: string
  ri_runner :: "'e runner"
  ri_files :: "'e file_ops"
  ri_sha256 :: "bytes \<Rightarrow> string"

datatype package_query = Present installed_package | Missing | Query_Failed string
datatype file_observation = Digest string | File_Failed string

record package_inspection =
  pi_checks :: "diagnostic_check list"
  pi_packages :: "(string, installed_package) bmap"

definition PACKAGE_FORMAT :: string where
  "PACKAGE_FORMAT = ''%{NAME}'' @ [tab] @ ''%{EPOCHNUM}:%{VERSION}-%{RELEASE}'' @ [tab]
     @ ''%{INSTALLTIME}'' @ [nl]"

definition OWNER_FORMAT :: string where "OWNER_FORMAT = ''%{NAME}'' @ [nl]"
definition QUERY_TIMEOUT :: duration where "QUERY_TIMEOUT = from_secs 10"
definition MAX_CRITICAL_FILE_BYTES :: nat where
  "MAX_CRITICAL_FILE_BYTES = 2 * 1024 * 1024 * 1024"

section \<open>RPM output\<close>

definition parse_one_line :: "bytes \<Rightarrow> string option" where
  "parse_one_line b = (case strip_suffix [nl] b of
       None \<Rightarrow> None
     | Some line \<Rightarrow> if line = [] \<or> nl \<in> set line \<or> cr \<in> set line then None
                    else if utf8_valid line then Some line else None)"

definition rpm_name :: "string \<Rightarrow> bool" where
  "rpm_name v = (is_package_name v \<and> length v \<le> 4096)"

definition rpm_version :: "string \<Rightarrow> bool" where
  "rpm_version v = (is_package_version v \<and> length v \<le> 4096)"

definition parse_package_output :: "bytes \<Rightarrow> string \<Rightarrow> installed_package option" where
  "parse_package_output b expected_name =
     Option.bind (parse_one_line b) (\<lambda>line.
       (case split_on tab line of
          [name, version, install_time] \<Rightarrow>
            if name \<noteq> expected_name \<or> \<not> rpm_name name \<or> \<not> rpm_version version
               \<or> install_time = [] \<or> \<not> all_digits install_time
            then None
            else map_option (\<lambda>t. \<lparr>ip_name = name, ip_version = version, ip_install_time = t\<rparr>)
                   (parse_u64 install_time)
        | _ \<Rightarrow> None))"

definition parse_owner_output :: "bytes \<Rightarrow> string option" where
  "parse_owner_output b = Option.bind (parse_one_line b)
     (\<lambda>owner. if rpm_name owner then Some owner else None)"

section \<open>Queries\<close>

definition rpm_request :: "'e rpm_inspector \<Rightarrow> string list \<Rightarrow> process_request" where
  "rpm_request insp args = \<lparr>rq_executable = ri_rpm insp, rq_args = args,
     rq_timeout = QUERY_TIMEOUT, rq_stdout_limit = 65536, rq_stderr_limit = 16384,
     rq_environment = []\<rparr>"

definition not_installed_line :: "string \<Rightarrow> bytes" where
  "not_installed_line package = ''package '' @ package @ '' is not installed'' @ [nl]"

definition classify_query :: "string \<Rightarrow> process_result \<Rightarrow> package_query" where
  "classify_query package res = (case res of
       Inl _ \<Rightarrow> Query_Failed ''PACKAGE_QUERY_FAILED''
     | Inr po \<Rightarrow>
         if po_stdout_overflow po \<or> po_stderr_overflow po
         then Query_Failed ''PACKAGE_OUTPUT_INVALID''
         else if po_termination po = Exit 1
              \<and> (po_stdout po = [] \<or> po_stdout po = not_installed_line package)
         then Missing
         else if po_termination po = Exit 0
         then (case parse_package_output (po_stdout po) package of
                 Some k \<Rightarrow> Present k | None \<Rightarrow> Query_Failed ''PACKAGE_OUTPUT_INVALID'')
         else Query_Failed ''PACKAGE_QUERY_FAILED'')"

definition package_args :: "string \<Rightarrow> string list" where
  "package_args package = [''-q'', ''--qf'', PACKAGE_FORMAT, ''--'', package]"

definition query_package :: "'e rpm_inspector \<Rightarrow> string \<Rightarrow> ('e, package_query) effect" where
  "query_package insp package = do {
     res \<leftarrow> run_process (ri_runner insp) (rpm_request insp (package_args package));
     State_Monad.return (classify_query package res)
   }"

definition classify_owner :: "process_result \<Rightarrow> (string, string) result" where
  "classify_owner res = (case res of
       Inl _ \<Rightarrow> Inl ''PACKAGE_QUERY_FAILED''
     | Inr po \<Rightarrow>
         if po_stdout_overflow po \<or> po_stderr_overflow po then Inl ''PACKAGE_OUTPUT_INVALID''
         else if po_termination po \<noteq> Exit 0 then Inl ''PACKAGE_OWNERSHIP_MISMATCH''
         else ok_or ''PACKAGE_OUTPUT_INVALID'' (parse_owner_output (po_stdout po)))"

definition owner_args :: "string \<Rightarrow> string list" where
  "owner_args path = [''-qf'', ''--qf'', OWNER_FORMAT, ''--'', path]"

definition query_owner :: "'e rpm_inspector \<Rightarrow> string \<Rightarrow> ('e, (string, string) result) effect" where
  "query_owner insp path = do {
     res \<leftarrow> run_process (ri_runner insp) (rpm_request insp (owner_args path));
     State_Monad.return (classify_owner res)
   }"

section \<open>Files\<close>

definition same_file :: "metadata \<Rightarrow> metadata \<Rightarrow> bool" where
  "same_file a b = (md_dev a = md_dev b \<and> md_ino a = md_ino b)"

definition file_io_code :: "io_error \<Rightarrow> string" where
  "file_io_code e = (case e of Not_Found _ \<Rightarrow> ''PACKAGE_FILE_MISSING''
     | Io_Other _ \<Rightarrow> ''PACKAGE_FILE_UNREADABLE'')"

definition opened_consistent :: "metadata \<Rightarrow> metadata \<Rightarrow> metadata \<Rightarrow> bool" where
  "opened_consistent before opened after =
     (md_kind_file after \<and> md_len opened \<le> MAX_CRITICAL_FILE_BYTES
      \<and> same_file before opened \<and> same_file opened after)"

definition hash_regular_file ::
  "'e file_ops \<Rightarrow> (bytes \<Rightarrow> string) \<Rightarrow> string \<Rightarrow> ('e, (string, string) result) effect" where
  "hash_regular_file fo sha256 path =
     attempt (with_err file_io_code (observe (fo_lstat fo path))) (\<lambda>before.
     attempt (pure (first_error
       [ensure (md_kind_file before) ''PACKAGE_FILE_INVALID'',
        ensure (md_len before \<le> MAX_CRITICAL_FILE_BYTES) ''PACKAGE_FILE_INVALID''])) (\<lambda>_.
     attempt (with_err file_io_code (observe (fo_open fo path))) (\<lambda>file.
     attempt (with_err (\<lambda>_. ''PACKAGE_FILE_UNREADABLE'') (observe (fo_fstat fo file))) (\<lambda>opened.
     attempt (with_err (\<lambda>_. ''PACKAGE_FILE_INVALID'') (observe (fo_lstat fo path))) (\<lambda>after.
     attempt (pure (ensure (opened_consistent before opened after) ''PACKAGE_FILE_INVALID'')) (\<lambda>_.
     attempt (with_err (\<lambda>_. ''PACKAGE_FILE_UNREADABLE'') (observe (fo_read_all fo file))) (\<lambda>b.
     pure (Inr (sha256 b)))))))))"

definition file_observation_of :: "(string, string) result \<Rightarrow> file_observation" where
  "file_observation_of r = (case r of Inl code \<Rightarrow> File_Failed code | Inr d \<Rightarrow> Digest d)"

definition inspect_file :: "'e rpm_inspector \<Rightarrow> string \<Rightarrow> ('e, file_observation) effect" where
  "inspect_file insp path =
     (if \<not> is_absolute path then State_Monad.return (File_Failed ''PACKAGE_FILE_INVALID'')
      else do {
        r \<leftarrow> hash_regular_file (ri_files insp) (ri_sha256 insp)
               (path_join (ri_root insp) (dropWhile ((=) CHR ''/'') path));
        State_Monad.return (file_observation_of r)
      })"

section \<open>Checks\<close>

definition provider_summary :: string where
  "provider_summary = ''Native provider matches the selected profile''"

definition package_id :: "string \<Rightarrow> string" where
  "package_id capability = ''package.'' @ capability"

definition package_check ::
  "string \<Rightarrow> check_status \<Rightarrow> (string, json) bmap \<Rightarrow> diagnostic_check" where
  "package_check capability st ds =
     mk_check (package_id capability) st provider_summary Required ds"

definition provider_failure :: "string \<Rightarrow> string \<Rightarrow> string \<Rightarrow> (string \<times> json) list \<Rightarrow> diagnostic_check"
where
  "provider_failure capability code package extra =
     package_check capability Fail
       (bm_collect extra (details [(''error_code'', String code), (''package'', String package)]))"

definition provider_pass :: "string \<Rightarrow> installed_package \<Rightarrow> diagnostic_check" where
  "provider_pass capability k = package_check capability Pass
     (details [(''package'', String (ip_name k)), (''version'', String (ip_version k))])"

type_synonym caches =
  "(string, file_observation) bmap \<times> (string, (string, string) result) bmap"

text \<open>\<open>entry(key).or_insert_with(f)\<close>.\<close>

definition cached :: "('k::linorder, 'v) bmap \<Rightarrow> 'k \<Rightarrow> ('s, 'v) state
    \<Rightarrow> ('s, 'v \<times> ('k, 'v) bmap) state" where
  "cached m k f = (case bm_get m k of
       Some v \<Rightarrow> State_Monad.return (v, m)
     | None \<Rightarrow> do { v \<leftarrow> f; State_Monad.return (v, bm_insert k v m) })"

text \<open>What the observations of one expected file decide: \<open>None\<close> to go on to the next one.\<close>

definition digest_verdict ::
  "string \<Rightarrow> native_provider \<Rightarrow> installed_file \<Rightarrow> file_observation \<Rightarrow> diagnostic_check option" where
  "digest_verdict capability provider f observed = (case observed of
       File_Failed code \<Rightarrow> Some (provider_failure capability code (np_package provider) [])
     | Digest actual \<Rightarrow>
         if actual \<noteq> if_sha256 f
         then Some (provider_failure capability ''PACKAGE_DIGEST_MISMATCH'' (np_package provider) [])
         else None)"

definition owner_verdict ::
  "string \<Rightarrow> native_provider \<Rightarrow> (string, string) result \<Rightarrow> diagnostic_check option" where
  "owner_verdict capability provider owner = (case owner of
       Inl code \<Rightarrow> Some (provider_failure capability code (np_package provider) [])
     | Inr actual \<Rightarrow>
         if actual \<noteq> np_package provider
         then Some (provider_failure capability ''PACKAGE_OWNERSHIP_MISMATCH'' (np_package provider)
                      [(''actual_package'', String actual)])
         else None)"

fun inspect_provider_files :: "'e rpm_inspector \<Rightarrow> string \<Rightarrow> native_provider \<Rightarrow> installed_package
    \<Rightarrow> installed_file list \<Rightarrow> caches \<Rightarrow> ('e, diagnostic_check \<times> caches) effect" where
  "inspect_provider_files insp capability provider installed [] (files, owners) =
     State_Monad.return (provider_pass capability installed, (files, owners))"
| "inspect_provider_files insp capability provider installed (f # fs) (files, owners) = do {
     (observed, files') \<leftarrow> cached files (if_path f) (inspect_file insp (if_path f));
     (case digest_verdict capability provider f observed of
        Some c \<Rightarrow> State_Monad.return (c, (files', owners))
      | None \<Rightarrow> do {
          (owner, owners') \<leftarrow> cached owners (if_path f) (query_owner insp (if_path f));
          (case owner_verdict capability provider owner of
             Some c \<Rightarrow> State_Monad.return (c, (files', owners'))
           | None \<Rightarrow> inspect_provider_files insp capability provider installed fs (files', owners'))
        })
   }"

definition queried :: "(string, package_query) bmap \<Rightarrow> string \<Rightarrow> package_query" where
  "queried queries name = (case bm_get queries name of
       Some q \<Rightarrow> q | None \<Rightarrow> Query_Failed ''PANIC'')"

text \<open>The first conflict that is installed or could not be queried.\<close>

fun conflict_failure :: "(string, package_query) bmap \<Rightarrow> package_conflict list
    \<Rightarrow> (string \<times> string \<times> string option) option" where
  "conflict_failure queries [] = None"
| "conflict_failure queries (c # cs) = (case queried queries (pc_package c) of
       Present k \<Rightarrow> Some (''PACKAGE_CONFLICT'', ip_name k, Some (ip_version k))
     | Query_Failed code \<Rightarrow> Some (code, pc_package c, None)
     | Missing \<Rightarrow> conflict_failure queries cs)"

definition inspect_provider :: "'e rpm_inspector \<Rightarrow> (string, package_query) bmap \<Rightarrow> string
    \<Rightarrow> native_provider \<Rightarrow> caches \<Rightarrow> ('e, diagnostic_check \<times> caches) effect" where
  "inspect_provider insp queries capability provider cs =
     (case queried queries (np_package provider) of
        Missing \<Rightarrow> State_Monad.return
          (provider_failure capability ''PACKAGE_NOT_INSTALLED'' (np_package provider) [], cs)
      | Query_Failed code \<Rightarrow> State_Monad.return
          (provider_failure capability code (np_package provider) [], cs)
      | Present installed \<Rightarrow>
          if ip_version installed \<noteq> np_version provider
          then State_Monad.return
            (provider_failure capability ''PACKAGE_VERSION_MISMATCH'' (np_package provider)
               [(''expected_version'', String (np_version provider)),
                (''actual_version'', String (ip_version installed))], cs)
          else inspect_provider_files insp capability provider installed (np_files provider) cs)"

definition apply_conflict :: "(string \<times> string \<times> string option) option \<Rightarrow> string
    \<Rightarrow> diagnostic_check \<Rightarrow> diagnostic_check" where
  "apply_conflict failure capability c =
     (if dc_status c \<noteq> Pass then c
      else case failure of
        None \<Rightarrow> c
      | Some (code, package, version) \<Rightarrow> provider_failure capability code package
          (case version of None \<Rightarrow> [] | Some v \<Rightarrow> [(''actual_version'', String v)]))"

fun inspect_components :: "'e rpm_inspector \<Rightarrow> (string, package_query) bmap
    \<Rightarrow> (string \<times> string \<times> string option) option \<Rightarrow> (string \<times> component_requirement) list \<Rightarrow> caches
    \<Rightarrow> ('e, diagnostic_check list) effect" where
  "inspect_components insp queries failure [] cs = State_Monad.return []"
| "inspect_components insp queries failure ((capability, component) # rest) cs = do {
     (c, cs') \<leftarrow> inspect_provider insp queries capability (cr_provider component) cs;
     checks \<leftarrow> inspect_components insp queries failure rest cs';
     State_Monad.return (apply_conflict failure capability c # checks)
   }"

definition package_names :: "profile \<Rightarrow> string list" where
  "package_names p = remdups_adj (sort (
     map (\<lambda>c. np_package (cr_provider c)) (bm_values (p_components p))
     @ map pc_package (p_conflicts p)))"

definition unavailable_check :: "string \<times> component_requirement \<Rightarrow> diagnostic_check" where
  "unavailable_check e = (case e of (capability, component) \<Rightarrow>
     package_check capability Blocked
       (details [(''error_code'', String ''PACKAGE_INSPECTOR_UNAVAILABLE''),
                 (''package'', String (np_package (cr_provider component)))]))"

definition present_packages ::
  "(string \<times> package_query) list \<Rightarrow> (string, installed_package) bmap" where
  "present_packages queries = List.map_filter (\<lambda>(n, q). case q of
       Present k \<Rightarrow> Some (n, k) | Missing \<Rightarrow> None | Query_Failed _ \<Rightarrow> None) queries"

definition inspect_packages :: "'e rpm_inspector \<Rightarrow> profile \<Rightarrow> ('e, package_inspection) effect" where
  "inspect_packages insp p =
     (if p_package_manager p \<noteq> Rpm
      then State_Monad.return
        \<lparr>pi_checks = map unavailable_check (p_components p), pi_packages = []\<rparr>
      else do {
        results \<leftarrow> State_Monad.traverse_list (query_package insp) (package_names p);
        let queries = zip (package_names p) results;
        checks \<leftarrow> inspect_components insp queries (conflict_failure queries (p_conflicts p))
                    (p_components p) ([], []);
        State_Monad.return \<lparr>pi_checks = sort_key dc_id checks,
          pi_packages = present_packages queries\<rparr>
      })"

section \<open>The checks a profile gets\<close>

lemma package_check_simps [simp]:
  "dc_id (package_check cap st ds) = package_id cap"
  "dc_status (package_check cap st ds) = st"
  "dc_requirement (package_check cap st ds) = Required"
  by (simp_all add: package_check_def)

text \<open>A check of the provider of \<open>capability\<close>.\<close>

definition provider_shape :: "string \<Rightarrow> diagnostic_check \<Rightarrow> bool" where
  "provider_shape capability c =
     (dc_id c = package_id capability \<and> dc_requirement c = Required
      \<and> dc_status c \<in> {Pass, Fail, Blocked})"

lemma provider_shape_intros [simp, intro]:
  "provider_shape cap (provider_failure cap code k extra)"
  "provider_shape cap (provider_pass cap inst)"
  by (simp_all add: provider_shape_def provider_failure_def provider_pass_def)

lemma verdict_shape:
  "digest_verdict cap p f obs = Some c \<Longrightarrow> provider_shape cap c"
  "owner_verdict cap p owner = Some c \<Longrightarrow> provider_shape cap c"
  by (auto simp: digest_verdict_def owner_verdict_def
      split: file_observation.splits sum.splits if_splits)

lemma inspect_provider_files_shape:
  "pred_state (\<lambda>(c, _). provider_shape cap c)
     (inspect_provider_files insp cap p inst fs cs)"
proof (induction fs arbitrary: cs)
  case Nil
  then show ?case by (cases cs) auto
next
  case (Cons f fs)
  then show ?case
    by (cases cs) (auto intro!: pred_bind_any simp: verdict_shape split: option.split)
qed

lemma inspect_provider_shape:
  "pred_state (\<lambda>(c, _). provider_shape cap c) (inspect_provider insp qs cap p cs)"
  by (auto simp: inspect_provider_def inspect_provider_files_shape split: package_query.splits)

lemma apply_conflict_shape: "provider_shape cap c \<Longrightarrow> provider_shape cap (apply_conflict fl cap c)"
  by (auto simp: apply_conflict_def split: option.splits)

lemma inspect_components_shape:
  "pred_state (\<lambda>checks. list_all2 (\<lambda>e c. provider_shape (fst e) c) es checks)
     (inspect_components insp qs fl es cs)"
proof (induction es arbitrary: cs)
  case (Cons e es)
  show ?case
    by (cases e) (auto intro!: pred_bind [OF inspect_provider_shape] pred_bind [OF Cons.IH]
        simp: apply_conflict_shape)
qed auto

lemma package_ids_sorted:
  "bm_wf m \<Longrightarrow> sorted (map (\<lambda>e. package_id (fst e)) m)"
proof -
  assume "bm_wf m"
  then have "sorted_wrt (\<lambda>a b. a < b) (map fst m)" by (simp add: bm_wf_def)
  then have "sorted (map fst m)" by (simp add: strict_sorted_iff)
  moreover have "a \<le> b \<Longrightarrow> p @ a \<le> p @ (b :: string)" for a b p
    by (induction p) auto
  then have "a \<le> b \<Longrightarrow> package_id a \<le> package_id b" for a b
    unfolding package_id_def .
  ultimately show ?thesis
    unfolding sorted_map by (rule sorted_wrt_mono_rel [rotated]) auto
qed

text \<open>One check for each component, in the order of the components.\<close>

definition package_checks_shape ::
  "(string, component_requirement) bmap \<Rightarrow> diagnostic_check list \<Rightarrow> bool" where
  "package_checks_shape m checks = list_all2 (\<lambda>e c. provider_shape (fst e) c) m checks"

lemma package_checks_ids:
  "package_checks_shape m checks \<Longrightarrow> map dc_id checks = map (\<lambda>e. package_id (fst e)) m"
  unfolding package_checks_shape_def
  by (induction rule: list_all2_induct) (auto simp: provider_shape_def)

lemma package_checks_sorted:
  "bm_wf m \<Longrightarrow> package_checks_shape m checks \<Longrightarrow> sort_key dc_id checks = checks"
  by (rule sort_key_id_if_sorted) (simp add: package_checks_ids package_ids_sorted)

lemma inspect_packages_shape:
  assumes "bm_wf (p_components p)"
  shows "pred_state (\<lambda>r. package_checks_shape (p_components p) (pi_checks r)) (inspect_packages insp p)"
proof (cases "p_package_manager p = Rpm")
  case True
  have "pred_state (package_checks_shape (p_components p))
      (inspect_components insp qs fl (p_components p) cs)" for qs fl cs
    using inspect_components_shape [of "p_components p" insp qs fl cs]
    by (simp add: package_checks_shape_def [abs_def])
  note shape = this
  show ?thesis
    using True assms by (auto simp: inspect_packages_def Let_def package_checks_sorted
        intro!: pred_bind_any pred_bind [OF shape])
next
  case False
  have "list_all2 (\<lambda>e c. provider_shape (fst e) c) m (map unavailable_check m)" for m
    by (induction m) (auto simp: unavailable_check_def provider_shape_def)
  with False show ?thesis
    by (auto simp: inspect_packages_def package_checks_shape_def)
qed

section \<open>What the inspector runs\<close>

definition rpm_query :: "'e rpm_inspector \<Rightarrow> process_request \<Rightarrow> bool" where
  "rpm_query insp rq = (\<exists>x. rq = rpm_request insp (package_args x) \<or> rq = rpm_request insp (owner_args x))"

lemma only_runs_query [intro!]:
  "only_runs (rpm_query insp) (query_package insp n)"
  "only_runs (rpm_query insp) (query_owner insp n)"
  by (auto simp: query_package_def query_owner_def rpm_query_def)

lemma only_runs_hash [intro!]: "only_does E (hash_regular_file fo sha path)"
  by (auto simp: hash_regular_file_def)

lemma only_runs_file [intro!]: "only_does E (inspect_file insp path)"
  by (auto simp: inspect_file_def)

lemma only_runs_cached [intro!]: "only_does E f \<Longrightarrow> only_does E (cached m k f)"
  by (auto simp: cached_def split: option.splits)

lemma only_runs_provider_files:
  "only_runs (rpm_query insp) (inspect_provider_files insp cap p inst fs cs)"
proof (induction fs arbitrary: cs)
  case Nil
  then show ?case by (cases cs) simp
next
  case (Cons f fs)
  then show ?case by (cases cs) (auto split: option.splits)
qed

lemma only_runs_provider: "only_runs (rpm_query insp) (inspect_provider insp qs cap p cs)"
  by (auto simp: inspect_provider_def only_runs_provider_files split: package_query.splits)

lemma only_runs_components: "only_runs (rpm_query insp) (inspect_components insp qs fl es cs)"
proof (induction es arbitrary: cs)
  case (Cons e es)
  then show ?case
    by (cases e) (auto simp: Cons.IH intro!: only_runs_bind only_runs_provider)
qed simp

lemma only_runs_packages: "only_runs (rpm_query insp) (inspect_packages insp p)"
  by (auto simp: inspect_packages_def Let_def intro!: only_runs_components)

section \<open>Inspecting a system at rest\<close>

definition quiet :: "'e rpm_inspector \<Rightarrow> 'e \<Rightarrow> bool" where
  "quiet insp e = ((\<forall>rq. snd (ri_runner insp rq e) = e)
     \<and> (\<forall>p. snd (fo_lstat (ri_files insp) p e) = e)
     \<and> (\<forall>p. snd (fo_open (ri_files insp) p e) = e)
     \<and> (\<forall>h. snd (fo_fstat (ri_files insp) h e) = e)
     \<and> (\<forall>h. snd (fo_read_all (ri_files insp) h e) = e))"

definition package_at :: "'e rpm_inspector \<Rightarrow> 'e \<Rightarrow> string \<Rightarrow> package_query" where
  "package_at insp e n =
     classify_query n (fst (ri_runner insp (rpm_request insp (package_args n)) e))"

definition owner_at :: "'e rpm_inspector \<Rightarrow> 'e \<Rightarrow> string \<Rightarrow> (string, string) result" where
  "owner_at insp e path =
     classify_owner (fst (ri_runner insp (rpm_request insp (owner_args path)) e))"

definition file_at :: "'e rpm_inspector \<Rightarrow> 'e \<Rightarrow> string \<Rightarrow> file_observation" where
  "file_at insp e path = fst (run_state (inspect_file insp path) \<lparr>env = e, log = []\<rparr>)"

lemma yields_query [yields_intros]:
  "quiet insp e \<Longrightarrow> yields e (query_package insp n) (package_at insp e n)"
  "quiet insp e \<Longrightarrow> yields e (query_owner insp n) (owner_at insp e n)"
  by (auto simp: query_package_def query_owner_def package_at_def owner_at_def quiet_def
      intro!: yields_intros)

lemma settles_file: "quiet insp e \<Longrightarrow> settles e (inspect_file insp path)"
  by (auto simp: inspect_file_def hash_regular_file_def quiet_def)

lemma yields_file [yields_intros]:
  "quiet insp e \<Longrightarrow> yields e (inspect_file insp path) (file_at insp e path)"
  unfolding file_at_def by (rule settles_yields) (rule settles_file)

text \<open>The caches hold what the system would answer.\<close>

definition caches_ok :: "'e rpm_inspector \<Rightarrow> 'e \<Rightarrow> caches \<Rightarrow> bool" where
  "caches_ok insp e cs =
     ((\<forall>k v. bm_get (fst cs) k = Some v \<longrightarrow> v = file_at insp e k)
      \<and> (\<forall>k v. bm_get (snd cs) k = Some v \<longrightarrow> v = owner_at insp e k))"

lemma yields_cached:
  assumes "yields e f v" and "\<And>u. bm_get m k = Some u \<Longrightarrow> u = v"
  shows "\<exists>m'. yields e (cached m k f) (v, m')
     \<and> (\<forall>k' u. bm_get m' k' = Some u \<longrightarrow> bm_get m k' = Some u \<or> k' = k \<and> u = v)"
proof (cases "bm_get m k")
  case None
  have "yields e (cached m k f) (v, bm_insert k v m)"
    using None assms(1) by (auto simp: cached_def intro!: yields_bind yields_return)
  then show ?thesis by (intro exI conjI) (auto split: if_splits)
next
  case (Some u)
  then have "yields e (cached m k f) (v, m)"
    using assms(2) by (auto simp: cached_def intro: yields_return)
  then show ?thesis by blast
qed

definition file_verified :: "'e rpm_inspector \<Rightarrow> 'e \<Rightarrow> string \<Rightarrow> installed_file \<Rightarrow> bool" where
  "file_verified insp e package f =
     (file_at insp e (if_path f) = Digest (if_sha256 f) \<and> owner_at insp e (if_path f) = Inr package)"

lemma digest_verdict_None:
  "digest_verdict cap p f obs = None \<longleftrightarrow> obs = Digest (if_sha256 f)"
  by (auto simp: digest_verdict_def split: file_observation.splits)

lemma owner_verdict_None: "owner_verdict cap p ow = None \<longleftrightarrow> ow = Inr (np_package p)"
  by (auto simp: owner_verdict_def split: sum.splits)

lemma verdict_not_Pass:
  "digest_verdict cap p f obs = Some c \<Longrightarrow> dc_status c \<noteq> Pass"
  "owner_verdict cap p ow = Some c \<Longrightarrow> dc_status c \<noteq> Pass"
  by (auto simp: digest_verdict_def owner_verdict_def provider_failure_def
      split: file_observation.splits sum.splits if_splits)

lemma provider_files_at_rest:
  assumes q: "quiet insp e"
  shows "caches_ok insp e cs \<Longrightarrow> \<exists>c cs'.
     yields e (inspect_provider_files insp cap p inst fs cs) (c, cs') \<and> caches_ok insp e cs'
     \<and> (dc_status c = Pass \<longleftrightarrow> (\<forall>f \<in> set fs. file_verified insp e (np_package p) f))"
proof (induction fs arbitrary: cs)
  case Nil
  then show ?case
    by (cases cs) (auto intro!: exI yields_return simp: provider_pass_def)
next
  case (Cons f fs)
  obtain files owners where cs: "cs = (files, owners)" by (cases cs)
  let ?path = "if_path f" and ?r = "inspect_provider_files insp cap p inst (f # fs) cs"
  from yields_cached [OF yields_file [OF q, of ?path], of files ?path] Cons.prems obtain files'
    where y1: "yields e (cached files ?path (inspect_file insp ?path)) (file_at insp e ?path, files')"
      and c1: "caches_ok insp e (files', owners)"
    by (auto simp: cs caches_ok_def) blast
  show ?case
  proof (cases "digest_verdict cap p f (file_at insp e ?path)")
    case (Some c)
    have "yields e ?r (c, (files', owners))"
      unfolding cs inspect_provider_files.simps
      by (rule yields_bind [OF y1]) (simp add: Some yields_return)
    moreover have "\<not> file_verified insp e (np_package p) f"
      using Some digest_verdict_None [of cap p f "file_at insp e ?path"]
      by (auto simp: file_verified_def)
    ultimately show ?thesis using c1 verdict_not_Pass(1) [OF Some] by auto
  next
    case None
    from yields_cached [OF yields_query(2) [OF q, of ?path], of owners ?path] Cons.prems
    obtain owners'
      where y2: "yields e (cached owners ?path (query_owner insp ?path)) (owner_at insp e ?path, owners')"
        and c2: "caches_ok insp e (files', owners')"
      using c1 by (auto simp: cs caches_ok_def) blast
    show ?thesis
    proof (cases "owner_verdict cap p (owner_at insp e ?path)")
      case (Some c)
      have "yields e ?r (c, (files', owners'))"
        unfolding cs inspect_provider_files.simps
        by (rule yields_bind [OF y1], simp add: None, rule yields_bind [OF y2])
          (simp add: Some yields_return)
      moreover have "\<not> file_verified insp e (np_package p) f"
        using Some owner_verdict_None [of cap p "owner_at insp e ?path"]
        by (auto simp: file_verified_def)
      ultimately show ?thesis using c2 verdict_not_Pass(2) [OF Some] by auto
    next
      case owner: None
      from Cons.IH [OF c2] obtain c cs' where
        y: "yields e (inspect_provider_files insp cap p inst fs (files', owners')) (c, cs')"
        and rest: "caches_ok insp e cs'"
          "dc_status c = Pass \<longleftrightarrow> (\<forall>f \<in> set fs. file_verified insp e (np_package p) f)" by blast
      have "yields e ?r (c, cs')"
        unfolding cs inspect_provider_files.simps
        by (rule yields_bind [OF y1], simp add: None, rule yields_bind [OF y2])
          (simp add: owner y)
      moreover have "file_verified insp e (np_package p) f"
        using None owner by (simp add: file_verified_def digest_verdict_None owner_verdict_None)
      ultimately show ?thesis using rest by (intro exI [of _ c] exI [of _ cs']) auto
    qed
  qed
qed

definition provider_verified :: "'e rpm_inspector \<Rightarrow> 'e \<Rightarrow> native_provider \<Rightarrow> bool" where
  "provider_verified insp e p =
     ((\<exists>k. package_at insp e (np_package p) = Present k \<and> ip_version k = np_version p)
      \<and> (\<forall>f \<in> set (np_files p). file_verified insp e (np_package p) f))"

definition conflict_free :: "'e rpm_inspector \<Rightarrow> 'e \<Rightarrow> package_conflict list \<Rightarrow> bool" where
  "conflict_free insp e cs = (\<forall>c \<in> set cs. package_at insp e (pc_package c) = Missing)"

lemma provider_at_rest:
  assumes q: "quiet insp e" and cs: "caches_ok insp e cs"
    and made: "queried qs (np_package p) = package_at insp e (np_package p)"
  shows "\<exists>c cs'. yields e (inspect_provider insp qs cap p cs) (c, cs') \<and> caches_ok insp e cs'
     \<and> (dc_status c = Pass \<longleftrightarrow> provider_verified insp e p)"
proof (cases "\<exists>k. package_at insp e (np_package p) = Present k \<and> ip_version k = np_version p")
  case True
  then obtain k where k: "package_at insp e (np_package p) = Present k" "ip_version k = np_version p"
    by blast
  then have "inspect_provider insp qs cap p cs =
      inspect_provider_files insp cap p k (np_files p) cs"
    by (simp add: inspect_provider_def made)
  moreover have "provider_verified insp e p \<longleftrightarrow>
      (\<forall>f \<in> set (np_files p). file_verified insp e (np_package p) f)"
    using True by (simp add: provider_verified_def)
  ultimately show ?thesis using provider_files_at_rest [OF q cs] by simp
next
  case False
  then have "\<exists>c. inspect_provider insp qs cap p cs = State_Monad.return (c, cs)
      \<and> dc_status c \<noteq> Pass"
    by (cases "package_at insp e (np_package p)")
      (simp_all add: inspect_provider_def made,
       (intro exI conjI, rule refl, simp add: provider_failure_def)+)
  then obtain c where c: "inspect_provider insp qs cap p cs = State_Monad.return (c, cs)"
      "dc_status c \<noteq> Pass" by blast
  have "\<not> provider_verified insp e p" using False by (auto simp: provider_verified_def)
  then show ?thesis using cs c yields_return [of e "(c, cs)"]
    by (intro exI [of _ c] exI [of _ cs]) auto
qed

lemma apply_conflict_Pass:
  "dc_status (apply_conflict fl cap c) = Pass \<longleftrightarrow> dc_status c = Pass \<and> fl = None"
  by (auto simp: apply_conflict_def provider_failure_def split: option.splits prod.splits)

lemma components_at_rest:
  assumes q: "quiet insp e"
    and made: "\<forall>en \<in> set es. queried qs (np_package (cr_provider (snd en)))
       = package_at insp e (np_package (cr_provider (snd en)))"
  shows "caches_ok insp e cs \<Longrightarrow> \<exists>checks. yields e (inspect_components insp qs fl es cs) checks
     \<and> list_all2 (\<lambda>en c. dc_status c = Pass \<longleftrightarrow>
          provider_verified insp e (cr_provider (snd en)) \<and> fl = None) es checks"
  using made
proof (induction es arbitrary: cs)
  case Nil
  then show ?case by (auto intro: yields_return)
next
  case (Cons en es)
  obtain cap comp where en: "en = (cap, comp)" by (cases en)
  from Cons.prems have made: "queried qs (np_package (cr_provider comp))
      = package_at insp e (np_package (cr_provider comp))" by (simp add: en)
  from provider_at_rest [OF q Cons.prems(1) made, where cap = cap] obtain c cs' where
    y: "yields e (inspect_provider insp qs cap (cr_provider comp) cs) (c, cs')"
    and cs': "caches_ok insp e cs'"
    and c: "dc_status c = Pass \<longleftrightarrow> provider_verified insp e (cr_provider comp)" by blast
  from Cons.IH [OF cs'] Cons.prems(2) obtain checks where
    ys: "yields e (inspect_components insp qs fl es cs') checks"
    and checks: "list_all2 (\<lambda>en c. dc_status c = Pass \<longleftrightarrow>
          provider_verified insp e (cr_provider (snd en)) \<and> fl = None) es checks" by auto
  have "yields e (inspect_components insp qs fl (en # es) cs) (apply_conflict fl cap c # checks)"
    unfolding en inspect_components.simps
    by (rule yields_bind [OF y], simp, rule yields_bind [OF ys], rule yields_return)
  then show ?case using checks c
    by (intro exI conjI) (auto simp: en apply_conflict_Pass)
qed

lemma queried_made: "n \<in> set ns \<Longrightarrow> queried (zip ns (map f ns)) n = f n"
  by (simp add: queried_def bm_get_map_of map_of_zip_map)

lemma conflict_failure_None:
  "(\<forall>c \<in> set cs. queried qs (pc_package c) = package_at insp e (pc_package c)) \<Longrightarrow>
   conflict_failure qs cs = None \<longleftrightarrow> conflict_free insp e cs"
  by (induction cs) (auto simp: conflict_free_def split: package_query.splits)

lemma package_names_set:
  "set (package_names p) = (\<lambda>c. np_package (cr_provider c)) ` set (bm_values (p_components p))
     \<union> pc_package ` set (p_conflicts p)"
  by (simp add: package_names_def)

text \<open>What the inspection returns on a system at rest.\<close>

definition inspection_at_rest :: "'e rpm_inspector \<Rightarrow> 'e \<Rightarrow> profile \<Rightarrow> package_inspection \<Rightarrow> bool" where
  "inspection_at_rest insp e p r =
     (list_all2 (\<lambda>en c. dc_status c = Pass \<longleftrightarrow>
          provider_verified insp e (cr_provider (snd en)) \<and> conflict_free insp e (p_conflicts p))
        (p_components p) (pi_checks r)
      \<and> (\<forall>n k. bm_get (pi_packages r) n = Some k \<longleftrightarrow>
           n \<in> set (package_names p) \<and> package_at insp e n = Present k))"

lemma present_packages_get:
  "bm_get (present_packages (zip ns (map f ns))) n = Some k \<longleftrightarrow> n \<in> set ns \<and> f n = Present k"
proof (induction ns)
  case (Cons m ns)
  then show ?case
    by (cases "f m") (auto simp: present_packages_def map_filter_simps)
qed (simp add: present_packages_def map_filter_simps)

lemma packages_at_rest:
  assumes q: "quiet insp e" and rpm: "p_package_manager p = Rpm" and wf: "bm_wf (p_components p)"
  shows "\<exists>r. yields e (inspect_packages insp p) r \<and> inspection_at_rest insp e p r"
proof -
  let ?ns = "package_names p"
  let ?qs = "zip ?ns (map (package_at insp e) ?ns)"
  have provs: "\<forall>en \<in> set (p_components p). queried ?qs (np_package (cr_provider (snd en)))
      = package_at insp e (np_package (cr_provider (snd en)))"
    by (intro ballI queried_made) (force simp: package_names_set bm_values_def)
  have confs: "\<forall>c \<in> set (p_conflicts p). queried ?qs (pc_package c)
      = package_at insp e (pc_package c)"
    by (auto intro!: queried_made simp: package_names_set)
  have "caches_ok insp e ([], [])" by (simp add: caches_ok_def)
  from components_at_rest [OF q provs this, of "conflict_failure ?qs (p_conflicts p)"]
  obtain checks where
    y: "yields e (inspect_components insp ?qs (conflict_failure ?qs (p_conflicts p))
          (p_components p) ([], [])) checks"
    and ok: "list_all2 (\<lambda>en c. dc_status c = Pass \<longleftrightarrow> provider_verified insp e (cr_provider (snd en))
          \<and> conflict_free insp e (p_conflicts p)) (p_components p) checks"
    by (auto simp: conflict_failure_None [OF confs])
  have "pred_state (\<lambda>checks. package_checks_shape (p_components p) checks)
      (inspect_components insp ?qs (conflict_failure ?qs (p_conflicts p)) (p_components p) ([], []))"
    using inspect_components_shape by (simp add: package_checks_shape_def)
  then have "package_checks_shape (p_components p) checks"
    using y unfolding yields_def by (metis pred_stateD world.select_convs(1))
  then have "sort_key dc_id checks = checks" by (rule package_checks_sorted [OF wf])
  then have "yields e (inspect_packages insp p)
      \<lparr>pi_checks = checks, pi_packages = present_packages ?qs\<rparr>"
    using rpm y q unfolding inspect_packages_def
    by (auto simp: Let_def intro!: yields_bind [OF yields_traverse] yields_bind [OF y]
        yields_return yields_query)
  then show ?thesis using ok
    by (intro exI conjI) (auto simp: inspection_at_rest_def present_packages_get)
qed

end
