(* ===== verification/Device.thy ===== *)
theory Device
  imports Activity
begin

text \<open>
  \<open>crates/stack-runtime/src/device.rs\<close>: the accelerator nodes and the access check. The system
  is a \<open>device_view\<close>: the listing of a directory, the file type \<open>lstat\<close> reports and the outcome
  of opening a node for reading and writing; each path is listed, examined and opened once.
\<close>

datatype file_kind = Kind_File | Kind_Directory | Kind_Symlink | Kind_Char_Device | Kind_Other
datatype open_outcome = Opened | Open_Denied | Open_Failed

record device_view =
  dv_dir :: "string \<Rightarrow> (io_error, (io_error, string) result list) result"
  dv_kind :: "string \<Rightarrow> (io_error, file_kind) result"
  dv_open :: "string \<Rightarrow> open_outcome"

record device_inspection =
  di_node_count :: nat
  di_checks :: "diagnostic_check list"

definition node_summary :: string where
  "node_summary = ''NPU accelerator device is present''"

definition access_summary :: string where
  "access_summary = ''Normal-user NPU access is available''"

definition missing_inspection :: device_inspection where
  "missing_inspection = \<lparr>di_node_count = 0, di_checks =
     [mk_check ''device.node'' Fail node_summary Required (error_details ''DEVICE_NODE_MISSING''),
      mk_check ''device.access'' Blocked access_summary Required
        (error_details ''DEVICE_NODE_MISSING'')]\<rparr>"

definition failed_inspection :: "string \<Rightarrow> device_inspection" where
  "failed_inspection code = \<lparr>di_node_count = 0, di_checks =
     [mk_check ''device.node'' Fail node_summary Required (error_details code),
      mk_check ''device.access'' Fail access_summary Required (error_details code)]\<rparr>"

definition is_supported_node_type :: "file_kind \<Rightarrow> bool" where
  "is_supported_node_type k = (k = Kind_File \<or> k = Kind_Char_Device)"

text \<open>The scan of the directory: the supported candidates and whether one was unsuitable.\<close>

fun scan_nodes :: "device_view \<Rightarrow> string \<Rightarrow> (io_error, string) result list
    \<Rightarrow> (string list \<times> bool) option" where
  "scan_nodes dv directory [] = Some ([], False)"
| "scan_nodes dv directory (Inl e # _) = None"
| "scan_nodes dv directory (Inr name # rest) =
     map_option (\<lambda>(candidates, invalid).
        if \<not> utf8_valid name \<or> \<not> accel_name name then (candidates, invalid)
        else (case dv_kind dv (path_join directory name) of
                Inr k \<Rightarrow> if is_supported_node_type k then (name # candidates, invalid)
                         else (candidates, True)
              | Inl _ \<Rightarrow> (candidates, True)))
       (scan_nodes dv directory rest)"

definition access_error_code :: "open_outcome list \<Rightarrow> string" where
  "access_error_code outcomes =
     (let denied = Open_Denied \<in> set outcomes; failed = Open_Failed \<in> set outcomes in
      if failed then ''DEVICE_ACCESS_FAILED''
      else if denied then ''DEVICE_ACCESS_DENIED''
      else ''DEVICE_ACCESS_FAILED'')"

definition access_check ::
  "bool \<Rightarrow> diagnostic_command \<Rightarrow> nat \<Rightarrow> open_outcome list \<Rightarrow> diagnostic_check" where
  "access_check effective_root command node_count outcomes =
     (if effective_root then
        mk_check ''device.access'' Blocked access_summary
          (if effective_root \<and> command = Status then Optional else Required)
          (error_details ''NORMAL_USER_REQUIRED'')
      else if Opened \<in> set outcomes then
        mk_check ''device.access'' Pass access_summary Required
          (details [(''count'', json_nat node_count)])
      else
        mk_check ''device.access'' Fail access_summary Required
          (error_details (access_error_code outcomes)))"

definition inspect_devices ::
  "device_view \<Rightarrow> string \<Rightarrow> bool \<Rightarrow> diagnostic_command \<Rightarrow> device_inspection" where
  "inspect_devices dv root effective_root command =
     (let directory = path_join root ''dev/accel'' in
      case dv_dir dv directory of
        Inl (Not_Found _) \<Rightarrow> missing_inspection
      | Inl (Io_Other _) \<Rightarrow> failed_inspection ''DEVICE_ACCESS_FAILED''
      | Inr entries \<Rightarrow>
          (case scan_nodes dv directory entries of
             None \<Rightarrow> failed_inspection ''DEVICE_ACCESS_FAILED''
           | Some (found, invalid_candidate) \<Rightarrow>
               (let candidates = sort found in
                if candidates = [] then
                  (if invalid_candidate then failed_inspection ''DEVICE_ACCESS_FAILED''
                   else missing_inspection)
                else (let node_count = length candidates in
                  \<lparr>di_node_count = node_count, di_checks =
                     [mk_check ''device.node'' Pass node_summary Required
                        (details [(''count'', json_nat node_count)]),
                      access_check effective_root command node_count
                        (if effective_root then []
                         else map (\<lambda>n. dv_open dv (path_join directory n)) candidates)]\<rparr>))))"

section \<open>Laws\<close>

text \<open>The nodes that count: well named and of a supported type.\<close>

definition usable_node :: "device_view \<Rightarrow> string \<Rightarrow> string \<Rightarrow> bool" where
  "usable_node dv directory name = (utf8_valid name \<and> accel_name name
     \<and> (\<exists>k. dv_kind dv (path_join directory name) = Inr k \<and> is_supported_node_type k))"

lemma scan_nodes_Some:
  "scan_nodes dv directory entries = Some (found, invalid) \<Longrightarrow>
     list_all is_ok entries
     \<and> found = filter (usable_node dv directory) (map projr entries)"
proof (induction dv directory entries arbitrary: found invalid rule: scan_nodes.induct)
  case (3 dv directory name rest)
  then show ?case
    by (auto simp: usable_node_def split: if_splits sum.splits)
qed simp_all

lemma scan_nodes_None: "scan_nodes dv directory entries = None \<longleftrightarrow> \<not> list_all is_ok entries"
  by (induction dv directory entries rule: scan_nodes.induct) auto

lemma inspect_devices_ids:
  "map dc_id (di_checks (inspect_devices dv root er cmd)) = [''device.node'', ''device.access'']"
  by (simp add: inspect_devices_def missing_inspection_def failed_inspection_def access_check_def
      Let_def split: sum.split io_error.split option.split prod.split)

definition device_inspection_pass :: "device_inspection \<Rightarrow> bool" where
  "device_inspection_pass d = list_all (\<lambda>c. dc_status c = Pass) (di_checks d)"

text \<open>Both checks pass exactly when a normal user opened one of the usable nodes.\<close>

lemma access_check_Pass:
  "dc_status (access_check er cmd n os) = Pass \<longleftrightarrow> \<not> er \<and> Opened \<in> set os"
  by (simp add: access_check_def)

lemma not_pass_inspections [simp]:
  "\<not> device_inspection_pass missing_inspection" "\<not> device_inspection_pass (failed_inspection c)"
  by (simp_all add: device_inspection_pass_def missing_inspection_def failed_inspection_def)

lemma inspect_devices_pass:
  "device_inspection_pass (inspect_devices dv root er cmd) \<longleftrightarrow> \<not> er \<and>
     (\<exists>entries. dv_dir dv (path_join root ''dev/accel'') = Inr entries \<and> list_all is_ok entries
        \<and> (\<exists>name \<in> set (map projr entries). usable_node dv (path_join root ''dev/accel'') name
             \<and> dv_open dv (path_join (path_join root ''dev/accel'') name) = Opened))"
    (is "?L \<longleftrightarrow> ?R")
proof (cases "dv_dir dv (path_join root ''dev/accel'')")
  case (Inl e)
  then show ?thesis by (cases e) (simp_all add: inspect_devices_def)
next
  case (Inr entries)
  let ?dir = "path_join root ''dev/accel''"
  show ?thesis
  proof (cases "scan_nodes dv ?dir entries")
    case None
    then have "\<not> list_all is_ok entries" by (simp add: scan_nodes_None)
    with Inr None show ?thesis by (simp add: inspect_devices_def)
  next
    case (Some fi)
    obtain found invalid where fi: "fi = (found, invalid)" by (cases fi)
    from scan_nodes_Some [OF Some [unfolded fi]] have ok: "list_all is_ok entries"
      and found: "set found = {n \<in> set (map projr entries). usable_node dv ?dir n}" by auto
    have "?L \<longleftrightarrow> \<not> er \<and> (\<exists>n \<in> set found. dv_open dv (path_join ?dir n) = Opened)"
    proof (cases "found = []")
      case True
      with Inr Some fi show ?thesis by (simp add: inspect_devices_def)
    next
      case False
      then have "sort found \<noteq> []" by (metis length_0_conv length_sort)
      with Inr Some fi show ?thesis
        by (force simp: inspect_devices_def device_inspection_pass_def access_check_Pass Let_def)
    qed
    also have "\<dots> \<longleftrightarrow> ?R" using Inr ok found by auto
    finally show ?thesis .
  qed
qed

lemma inspect_devices_root:
  "er \<Longrightarrow> \<exists>c \<in> set (di_checks (inspect_devices dv root er cmd)).
     dc_id c = ''device.access'' \<and> dc_status c \<noteq> Pass"
  by (simp add: inspect_devices_def missing_inspection_def failed_inspection_def access_check_def
      Let_def split: sum.split io_error.split option.split prod.split)

lemma inspect_devices_root_doctor:
  "\<exists>c \<in> set (di_checks (inspect_devices dv root True Doctor)). required_bad c"
  by (simp add: inspect_devices_def missing_inspection_def failed_inspection_def access_check_def
      Let_def required_bad_def split: sum.split io_error.split option.split prod.split)

end
