(* ===== verification/Protocol.thy ===== *)
theory Protocol
  imports Strict_Json Profile
begin

text \<open>
  \<open>crates/stack-runtime/src/protocol.rs\<close>: one bounded report of a probe helper, parsed and
  validated. The \<open>serde_json\<close> crate is the parameter \<open>probe_serde\<close>: the tokenizer applied to
  the text (the value and whether only white space follows it) and \<open>from_value\<close> at each type
  the source decodes. Everything the source checks itself is below. A tolerance is the bit
  pattern of its \<open>f64\<close>.
\<close>

datatype probe_kind = Level_Zero | Open_Vino
datatype probe_mode = Enumerate | Infer
datatype probe_outcome = Outcome_Pass | Outcome_Fail

datatype probe_error_code =
    Level_Zero_Permission_Denied
  | Level_Zero_Dependency_Unavailable
  | Level_Zero_No_Vpu
  | Level_Zero_Enumeration_Failed
  | Level_Zero_Internal_Failure
  | Open_Vino_No_Npu
  | Open_Vino_Enumeration_Failed
  | Open_Vino_Compile_Failed
  | Open_Vino_Wrong_Device
  | Open_Vino_Inference_Failed
  | Open_Vino_Output_Invalid
  | Open_Vino_Internal_Failure

record level_zero_device =
  lz_vendor_id :: string
  lz_device_id :: string
  lz_driver_version :: u32

record level_zero_observation =
  lz_vpu_devices :: "level_zero_device list"

record open_vino_enumerate_observation =
  oe_available_devices :: "string list"
  oe_runtime_version :: string

record open_vino_infer_observation =
  oi_available_devices :: "string list"
  oi_execution_devices :: "string list"
  oi_runtime_version :: string
  oi_graph_id :: string
  oi_iterations :: u32
  oi_tolerance :: u64

datatype probe_observations =
    Obs_Empty
  | Obs_Level_Zero level_zero_observation
  | Obs_Enumerate open_vino_enumerate_observation
  | Obs_Infer open_vino_infer_observation

record probe_report =
  pr_schema_version :: u32
  pr_probe :: probe_kind
  pr_mode :: probe_mode
  pr_outcome :: probe_outcome
  pr_observations :: probe_observations
  pr_error_code :: "probe_error_code option"

record raw_probe_report =
  rp_schema_version :: u32
  rp_probe :: probe_kind
  rp_mode :: probe_mode
  rp_outcome :: probe_outcome
  rp_observations :: json
  rp_error_code :: "probe_error_code option"

record protocol_error =
  pt_code :: string
  pt_message :: string

record probe_serde =
  ser_parse :: "string \<Rightarrow> (raw_json \<times> bool) option"
  ser_report :: "json \<Rightarrow> raw_probe_report option"
  ser_level_zero :: "json \<Rightarrow> level_zero_observation option"
  ser_enumerate :: "json \<Rightarrow> open_vino_enumerate_observation option"
  ser_infer :: "json \<Rightarrow> open_vino_infer_observation option"

definition MAX_PROBE_STDOUT :: nat where "MAX_PROBE_STDOUT = 65536"
definition MAX_OBSERVATIONS :: nat where "MAX_OBSERVATIONS = 64"
definition MAX_OBSERVATION_STRING :: nat where "MAX_OBSERVATION_STRING = 256"
definition PROBE_SCHEMA_VERSION :: u32 where "PROBE_SCHEMA_VERSION = 1"

definition probe_invalid :: "string \<Rightarrow> protocol_error" where
  "probe_invalid m = \<lparr>pt_code = ''PROBE_OUTPUT_INVALID'', pt_message = m\<rparr>"

definition unsupported_schema :: "u64 \<Rightarrow> protocol_error" where
  "unsupported_schema v = \<lparr>pt_code = ''PROBE_SCHEMA_UNSUPPORTED'',
     pt_message = ''unsupported probe schema version '' @ show_u64 v\<rparr>"

section \<open>Observations\<close>

definition numbered :: "string \<Rightarrow> string \<Rightarrow> bool" where
  "numbered p v = (case strip_prefix (p @ ''.'') v of
       None \<Rightarrow> False | Some sfx \<Rightarrow> sfx \<noteq> [] \<and> all_digits sfx)"

definition is_device_name :: "string \<Rightarrow> bool" where
  "is_device_name v = list_ex (\<lambda>p. v = p \<or> numbered p v) [''CPU'', ''GPU'', ''NPU'']"

definition is_npu_name :: "string \<Rightarrow> bool" where
  "is_npu_name v = (v = ''NPU'' \<or> numbered ''NPU'' v)"

definition validate_device_list :: "string list \<Rightarrow> bool \<Rightarrow> (protocol_error, unit) result" where
  "validate_device_list devices npu_only = first_error
     [ensure (devices \<noteq> [] \<and> length devices \<le> MAX_OBSERVATIONS)
        (probe_invalid ''OpenVINO device count is invalid''),
      check_each (\<lambda>d. ensure (length d \<le> MAX_OBSERVATION_STRING \<and> is_device_name d
                         \<and> (npu_only \<longrightarrow> is_npu_name d))
                       (probe_invalid ''OpenVINO device name is invalid'')) devices,
      ensure (increasing_pairs devices)
        (probe_invalid ''OpenVINO devices must be sorted and unique'')]"

definition validate_runtime_version :: "string \<Rightarrow> (protocol_error, unit) result" where
  "validate_runtime_version v =
     ensure (v \<noteq> [] \<and> length v \<le> MAX_OBSERVATION_STRING
             \<and> list_all (\<lambda>c. is_alnum c \<or> c \<in> set ''.+-_'') v)
       (probe_invalid ''OpenVINO runtime version is invalid'')"

definition device_key :: "level_zero_device \<Rightarrow> string \<times> string \<times> u32" where
  "device_key d = (lz_vendor_id d, lz_device_id d, lz_driver_version d)"

definition validate_level_zero :: "level_zero_observation \<Rightarrow> (protocol_error, unit) result" where
  "validate_level_zero obs = first_error
     [ensure (lz_vpu_devices obs \<noteq> [] \<and> length (lz_vpu_devices obs) \<le> MAX_OBSERVATIONS)
        (probe_invalid ''VPU device count is invalid''),
      check_each (\<lambda>d. ensure (is_lower_hex_quad (lz_vendor_id d) \<and> is_lower_hex_quad (lz_device_id d))
                       (probe_invalid ''VPU PCI identifier is invalid'')) (lz_vpu_devices obs),
      ensure (increasing_pairs (map device_key (lz_vpu_devices obs)))
        (probe_invalid ''VPU observations must be sorted and unique'')]"

definition validate_openvino_enumerate ::
  "open_vino_enumerate_observation \<Rightarrow> (protocol_error, unit) result" where
  "validate_openvino_enumerate obs = first_error
     [validate_device_list (oe_available_devices obs) False,
      ensure (list_ex is_npu_name (oe_available_devices obs))
        (probe_invalid ''passing OpenVINO enumeration has no NPU''),
      validate_runtime_version (oe_runtime_version obs)]"

definition TOLERANCE :: u64 where "TOLERANCE = 0x3F50624DD2F1A9FC"

definition validate_openvino_infer ::
  "open_vino_infer_observation \<Rightarrow> (protocol_error, unit) result" where
  "validate_openvino_infer obs = first_error
     [validate_device_list (oi_available_devices obs) False,
      ensure (list_ex is_npu_name (oi_available_devices obs))
        (probe_invalid ''passing OpenVINO inference has no available NPU''),
      validate_device_list (oi_execution_devices obs) True,
      validate_runtime_version (oi_runtime_version obs),
      ensure (oi_graph_id obs = ''intel-npu-stack-neutral-v1'' \<and> oi_iterations obs = 8
              \<and> oi_tolerance obs = TOLERANCE)
        (probe_invalid ''OpenVINO inference constants are invalid'')]"

definition error_code_valid :: "probe_kind \<Rightarrow> probe_mode \<Rightarrow> probe_error_code \<Rightarrow> bool" where
  "error_code_valid probe mode c = (case probe of
       Level_Zero \<Rightarrow> c \<in> {Level_Zero_Permission_Denied, Level_Zero_Dependency_Unavailable,
          Level_Zero_No_Vpu, Level_Zero_Enumeration_Failed, Level_Zero_Internal_Failure}
     | Open_Vino \<Rightarrow>
         if mode = Enumerate
         then c \<in> {Open_Vino_No_Npu, Open_Vino_Enumeration_Failed, Open_Vino_Internal_Failure}
         else c \<in> {Open_Vino_No_Npu, Open_Vino_Enumeration_Failed, Open_Vino_Compile_Failed,
            Open_Vino_Wrong_Device, Open_Vino_Inference_Failed, Open_Vino_Output_Invalid,
            Open_Vino_Internal_Failure})"

definition validate_error_code ::
  "probe_kind \<Rightarrow> probe_mode \<Rightarrow> probe_error_code \<Rightarrow> (protocol_error, unit) result" where
  "validate_error_code probe mode c =
     ensure (error_code_valid probe mode c)
       (probe_invalid ''probe error code does not match probe mode'')"

section \<open>Reports\<close>

definition deserialize_observation :: "'a option \<Rightarrow> (protocol_error, 'a) result" where
  "deserialize_observation x = ok_or (probe_invalid ''probe observations are invalid'') x"

definition parse_success_observations ::
  "probe_serde \<Rightarrow> probe_kind \<Rightarrow> probe_mode \<Rightarrow> json \<Rightarrow> (protocol_error, probe_observations) result"
where
  "parse_success_observations ser probe mode value = (case (probe, mode) of
       (Level_Zero, Enumerate) \<Rightarrow>
         and_then (deserialize_observation (ser_level_zero ser value)) (\<lambda>obs.
         and_then (validate_level_zero obs) (\<lambda>_. Inr (Obs_Level_Zero obs)))
     | (Open_Vino, Enumerate) \<Rightarrow>
         and_then (deserialize_observation (ser_enumerate ser value)) (\<lambda>obs.
         and_then (validate_openvino_enumerate obs) (\<lambda>_. Inr (Obs_Enumerate obs)))
     | (Open_Vino, Infer) \<Rightarrow>
         and_then (deserialize_observation (ser_infer ser value)) (\<lambda>obs.
         and_then (validate_openvino_infer obs) (\<lambda>_. Inr (Obs_Infer obs)))
     | (Level_Zero, Infer) \<Rightarrow> Inl (probe_invalid ''Level Zero infer mode is invalid''))"

definition TOP_LEVEL_KEYS :: "string list" where
  "TOP_LEVEL_KEYS =
     [''schema_version'', ''probe'', ''mode'', ''outcome'', ''observations'', ''error_code'']"

definition as_object :: "json \<Rightarrow> (string, json) bmap option" where
  "as_object v = (case v of Object m \<Rightarrow> Some m | _ \<Rightarrow> None)"

definition as_u64 :: "json \<Rightarrow> u64 option" where
  "as_u64 v = (case v of Number (Pos_Int n) \<Rightarrow> Some n | _ \<Rightarrow> None)"

definition strict_document :: "probe_serde \<Rightarrow> string \<Rightarrow> (protocol_error, json) result" where
  "strict_document ser text =
     and_then (ok_or (probe_invalid ''probe output is not strict JSON'')
        (case ser_parse ser text of None \<Rightarrow> None
           | Some (raw, at_end) \<Rightarrow> map_option (\<lambda>v. (v, at_end)) (strict_value raw))) (\<lambda>(v, at_end).
     if at_end then Inr v else Inl (probe_invalid ''probe output has trailing data''))"

definition probe_bytes :: "bytes \<Rightarrow> (protocol_error, string) result" where
  "probe_bytes b = and_then (first_error
     [ensure (b \<noteq> []) (probe_invalid ''probe output is empty''),
      ensure (length b \<le> MAX_PROBE_STDOUT) (probe_invalid ''probe output exceeds 65536 bytes''),
      ensure (\<not> starts_with [CHR 0xEF, CHR 0xBB, CHR 0xBF] b)
        (probe_invalid ''probe output starts with a byte-order mark''),
      ensure (utf8_valid b) (probe_invalid ''probe output is not UTF-8'')]) (\<lambda>_. Inr b)"

definition probe_shape :: "json \<Rightarrow> (protocol_error, unit) result" where
  "probe_shape value =
     and_then (ok_or (probe_invalid ''probe report must be an object'') (as_object value)) (\<lambda>obj.
     if length obj \<noteq> length TOP_LEVEL_KEYS
        \<or> list_ex (\<lambda>k. bm_get obj k = None) TOP_LEVEL_KEYS
     then Inl (probe_invalid ''probe report top-level keys are invalid'')
     else and_then (ok_or (probe_invalid ''probe schema version is missing or invalid'')
            (Option.bind (bm_get obj ''schema_version'') as_u64)) (\<lambda>v.
          ensure (v = ucast PROBE_SCHEMA_VERSION) (unsupported_schema v)))"

definition probe_identity ::
  "probe_kind \<Rightarrow> probe_mode \<Rightarrow> raw_probe_report \<Rightarrow> (protocol_error, unit) result" where
  "probe_identity expected_probe expected_mode raw =
     ensure (\<not> (rp_schema_version raw \<noteq> PROBE_SCHEMA_VERSION \<or> rp_probe raw \<noteq> expected_probe
              \<or> rp_mode raw \<noteq> expected_mode
              \<or> (rp_probe raw = Level_Zero \<and> rp_mode raw \<noteq> Enumerate)))
       (probe_invalid ''probe identity or mode is invalid'')"

definition probe_outcome_observations ::
  "probe_serde \<Rightarrow> raw_probe_report \<Rightarrow> (protocol_error, probe_observations) result" where
  "probe_outcome_observations ser raw = (case rp_outcome raw of
       Outcome_Fail \<Rightarrow>
         if as_object (rp_observations raw) \<noteq> Some []
         then Inl (probe_invalid ''failed probe observations must be empty'')
         else and_then (ok_or (probe_invalid ''failed probe has no error code'')
                (rp_error_code raw)) (\<lambda>c.
              and_then (validate_error_code (rp_probe raw) (rp_mode raw) c) (\<lambda>_. Inr Obs_Empty))
     | Outcome_Pass \<Rightarrow>
         if rp_error_code raw \<noteq> None
         then Inl (probe_invalid ''passing probe must not have an error code'')
         else parse_success_observations ser (rp_probe raw) (rp_mode raw) (rp_observations raw))"

definition parse_probe_output :: "probe_serde \<Rightarrow> bytes \<Rightarrow> probe_kind \<Rightarrow> probe_mode
    \<Rightarrow> (protocol_error, probe_report) result" where
  "parse_probe_output ser b expected_probe expected_mode =
     and_then (probe_bytes b) (\<lambda>text.
     and_then (strict_document ser text) (\<lambda>value.
     and_then (probe_shape value) (\<lambda>_.
     and_then (ok_or (probe_invalid ''probe report shape is invalid'') (ser_report ser value)) (\<lambda>raw.
     and_then (probe_identity expected_probe expected_mode raw) (\<lambda>_.
     and_then (probe_outcome_observations ser raw) (\<lambda>obs.
     Inr \<lparr>pr_schema_version = rp_schema_version raw, pr_probe = rp_probe raw,
          pr_mode = rp_mode raw, pr_outcome = rp_outcome raw, pr_observations = obs,
          pr_error_code = rp_error_code raw\<rparr>))))))"

section \<open>What an accepted report is\<close>

definition device_list_ok :: "string list \<Rightarrow> bool" where
  "device_list_ok ds = (length ds \<in> {1..64} \<and> sorted_wrt (<) ds
     \<and> (\<forall>d \<in> set ds. is_device_name d \<and> length d \<le> 256))"

definition version_text_ok :: "string \<Rightarrow> bool" where
  "version_text_ok v = (is_package_name v \<and> length v \<le> 256)"

definition observations_ok :: "probe_kind \<Rightarrow> probe_mode \<Rightarrow> probe_observations \<Rightarrow> bool" where
  "observations_ok probe mode obs = (case obs of
       Obs_Empty \<Rightarrow> False
     | Obs_Level_Zero ob \<Rightarrow> probe = Level_Zero \<and> mode = Enumerate
         \<and> length (lz_vpu_devices ob) \<in> {1..64}
         \<and> sorted_wrt (<) (map device_key (lz_vpu_devices ob))
         \<and> (\<forall>d \<in> set (lz_vpu_devices ob).
              is_lower_hex_quad (lz_vendor_id d) \<and> is_lower_hex_quad (lz_device_id d))
     | Obs_Enumerate ob \<Rightarrow> probe = Open_Vino \<and> mode = Enumerate
         \<and> device_list_ok (oe_available_devices ob)
         \<and> (\<exists>d \<in> set (oe_available_devices ob). is_npu_name d)
         \<and> version_text_ok (oe_runtime_version ob)
     | Obs_Infer ob \<Rightarrow> probe = Open_Vino \<and> mode = Infer
         \<and> device_list_ok (oi_available_devices ob)
         \<and> (\<exists>d \<in> set (oi_available_devices ob). is_npu_name d)
         \<and> device_list_ok (oi_execution_devices ob)
         \<and> (\<forall>d \<in> set (oi_execution_devices ob). is_npu_name d)
         \<and> version_text_ok (oi_runtime_version ob)
         \<and> oi_graph_id ob = ''intel-npu-stack-neutral-v1'' \<and> oi_iterations ob = 8
         \<and> oi_tolerance ob = TOLERANCE)"

definition report_ok :: "probe_kind \<Rightarrow> probe_mode \<Rightarrow> probe_report \<Rightarrow> bool" where
  "report_ok probe mode r =
     (pr_schema_version r = 1 \<and> pr_probe r = probe \<and> pr_mode r = mode
      \<and> (case pr_outcome r of
           Outcome_Fail \<Rightarrow> pr_observations r = Obs_Empty
             \<and> (\<exists>c. pr_error_code r = Some c \<and> error_code_valid probe mode c)
         | Outcome_Pass \<Rightarrow> pr_error_code r = None
             \<and> observations_ok probe mode (pr_observations r)))"

lemmas probe_limits = MAX_OBSERVATIONS_def MAX_OBSERVATION_STRING_def MAX_PROBE_STDOUT_def

lemma validate_device_list_Inr:
  "validate_device_list ds npu_only = Inr () \<longleftrightarrow>
     device_list_ok ds \<and> (npu_only \<longrightarrow> (\<forall>d \<in> set ds. is_npu_name d))"
  by (auto simp: validate_device_list_def device_list_ok_def increasing_pairs_iff probe_limits
      Suc_le_eq)

lemma validate_runtime_version_Inr:
  "validate_runtime_version v = Inr () \<longleftrightarrow> version_text_ok v"
  by (auto simp: validate_runtime_version_def version_text_ok_def is_package_name_def probe_limits)

lemma validate_level_zero_Inr:
  "validate_level_zero ob = Inr () \<longleftrightarrow> observations_ok Level_Zero Enumerate (Obs_Level_Zero ob)"
  by (auto simp: validate_level_zero_def observations_ok_def increasing_pairs_iff probe_limits
      Suc_le_eq)

lemma validate_enumerate_Inr:
  "validate_openvino_enumerate ob = Inr () \<longleftrightarrow>
     observations_ok Open_Vino Enumerate (Obs_Enumerate ob)"
  by (auto simp: validate_openvino_enumerate_def observations_ok_def validate_device_list_Inr
      validate_runtime_version_Inr list_ex_iff)

lemma validate_infer_Inr:
  "validate_openvino_infer ob = Inr () \<longleftrightarrow> observations_ok Open_Vino Infer (Obs_Infer ob)"
  by (auto simp: validate_openvino_infer_def observations_ok_def validate_device_list_Inr
      validate_runtime_version_Inr list_ex_iff)

lemma success_observations_ok:
  "parse_success_observations ser probe mode value = Inr obs \<Longrightarrow> observations_ok probe mode obs"
  by (auto simp: parse_success_observations_def validate_level_zero_Inr validate_enumerate_Inr
      validate_infer_Inr split: probe_kind.splits probe_mode.splits)

lemma outcome_observations_ok:
  assumes "probe_outcome_observations ser raw = Inr obs"
  shows "case rp_outcome raw of
     Outcome_Fail \<Rightarrow> obs = Obs_Empty \<and> (\<exists>c. rp_error_code raw = Some c
        \<and> error_code_valid (rp_probe raw) (rp_mode raw) c)
   | Outcome_Pass \<Rightarrow> rp_error_code raw = None \<and> observations_ok (rp_probe raw) (rp_mode raw) obs"
  using assms success_observations_ok
  by (auto simp: probe_outcome_observations_def validate_error_code_def
      split: probe_outcome.splits if_splits)

lemma parse_probe_output_ok:
  assumes "parse_probe_output ser b probe mode = Inr r"
  shows "report_ok probe mode r"
proof -
  from assms obtain raw obs where raw: "probe_identity probe mode raw = Inr ()"
    and obs: "probe_outcome_observations ser raw = Inr obs"
    and r: "r = \<lparr>pr_schema_version = rp_schema_version raw, pr_probe = rp_probe raw,
          pr_mode = rp_mode raw, pr_outcome = rp_outcome raw, pr_observations = obs,
          pr_error_code = rp_error_code raw\<rparr>"
    by (auto simp: parse_probe_output_def)
  from raw have "rp_schema_version raw = 1" "rp_probe raw = probe" "rp_mode raw = mode"
    by (auto simp: probe_identity_def PROBE_SCHEMA_VERSION_def)
  with outcome_observations_ok [OF obs] r show ?thesis
    by (auto simp: report_ok_def split: probe_outcome.splits)
qed

lemma probe_bytes_Inr:
  "probe_bytes b = Inr t \<longleftrightarrow> t = b \<and> b \<noteq> [] \<and> length b \<le> 65536 \<and> utf8_valid b
     \<and> \<not> starts_with [CHR 0xEF, CHR 0xBB, CHR 0xBF] b"
  by (auto simp: probe_bytes_def probe_limits)

lemma strict_document_Inr:
  "strict_document ser text = Inr v \<longleftrightarrow>
     (\<exists>raw. ser_parse ser text = Some (raw, True) \<and> duplicate_free raw \<and> v = denote raw)"
  by (auto simp: strict_document_def strict_value_spec split: option.splits if_splits)

end
