(* ===== verification/Inspect.thy ===== *)
theory Inspect
  imports Package Device Protocol
begin

text \<open>
  \<open>crates/stack-runtime/src/inspect.rs\<close>: the composition of package, platform, device, activity
  and probe evidence into the checks of \<open>status\<close> and \<open>doctor\<close>. The three inspector traits are
  fields of the record \<open>runtime_inspector\<close>; the locale \<open>inspectors\<close> states what the composition
  relies on and is interpreted on the production inspectors of the source. Each effect runs in
  the source's order; \<open>expect\<close> on the error code of a failed report is \<open>failed_code\<close>.
\<close>

record runtime_paths =
  rt_root :: string
  rt_level_zero_helper :: string
  rt_openvino_helper :: string
  rt_rpm :: string

definition system_paths :: runtime_paths where
  "system_paths = \<lparr>rt_root = ''/'',
     rt_level_zero_helper = ''/usr/libexec/intel-npu-stack/intel-npu-level-zero-probe'',
     rt_openvino_helper = ''/usr/libexec/intel-npu-stack/intel-npu-openvino-probe'',
     rt_rpm = ''/usr/bin/rpm''\<rparr>"

record inspection_result =
  ir_checks :: "diagnostic_check list"
  ir_reboot_required :: bool
  ir_relogin_required :: bool

record 'e runtime_inspector =
  in_paths :: runtime_paths
  in_runner :: "'e runner"
  in_serde :: probe_serde
  in_is_file :: "string \<Rightarrow> 'e \<Rightarrow> bool \<times> 'e"
  in_packages :: "profile \<Rightarrow> ('e, package_inspection) effect"
  in_devices :: "string \<Rightarrow> bool \<Rightarrow> diagnostic_command \<Rightarrow> ('e, device_inspection) effect"
  in_activity :: "string \<Rightarrow> ('e, busy_counter_snapshot) effect"

definition LEVEL_ZERO_TIMEOUT :: duration where "LEVEL_ZERO_TIMEOUT = from_secs 10"
definition OPENVINO_ENUMERATE_TIMEOUT :: duration where
  "OPENVINO_ENUMERATE_TIMEOUT = from_secs 15"
definition OPENVINO_INFER_TIMEOUT :: duration where "OPENVINO_INFER_TIMEOUT = from_secs 120"

section \<open>Checks\<close>

definition failed_check :: "string \<Rightarrow> string \<Rightarrow> string \<Rightarrow> diagnostic_check" where
  "failed_check i sm code = mk_check i Fail sm Required (error_details code)"

definition level_zero_summary :: string where
  "level_zero_summary = ''Level Zero exposes an Intel VPU''"
definition openvino_summary :: string where
  "openvino_summary = ''OpenVINO exposes an NPU device''"
definition inference_summary :: string where
  "inference_summary = ''Direct NPU inference completed correctly''"
definition firmware_summary :: string where
  "firmware_summary = ''Intel NPU firmware matches the selected profile''"
definition kernel_summary :: string where
  "kernel_summary = ''Intel NPU kernel module is loaded''"

definition kernel_check :: "platform_facts \<Rightarrow> diagnostic_check" where
  "kernel_check facts =
     (if pf_intel_vpu_loaded facts
      then mk_check ''kernel.module'' Pass kernel_summary Required (details [(''loaded'', Bool True)])
      else failed_check ''kernel.module'' kernel_summary ''KERNEL_MODULE_MISSING'')"

definition firmware_check :: "diagnostic_check list \<Rightarrow> activation_state \<Rightarrow> diagnostic_check" where
  "firmware_check package_checks activation =
     (case find (\<lambda>c. dc_id c = ''package.npu_firmware'') package_checks of
        None \<Rightarrow> failed_check ''firmware.installed'' firmware_summary ''PACKAGE_NOT_INSTALLED''
      | Some provider \<Rightarrow>
          if dc_status provider \<noteq> Pass
          then mk_check ''firmware.installed'' (dc_status provider) firmware_summary Required
                 (dc_details provider)
          else if activation = Unknown
          then mk_check ''firmware.installed'' Blocked firmware_summary Required
                 (error_details ''ACTIVATION_STATE_UNKNOWN'')
          else mk_check ''firmware.installed'' Pass firmware_summary Required
                 (dc_details provider))"

definition openvino_infer_failure :: "string \<Rightarrow> bool \<Rightarrow> diagnostic_check list" where
  "openvino_infer_failure code discovery_passed =
     [(if discovery_passed
       then mk_check ''runtime.openvino'' Pass openvino_summary Required []
       else failed_check ''runtime.openvino'' openvino_summary code),
      failed_check ''runtime.inference'' inference_summary code]"

definition probe_error_code :: "probe_error_code \<Rightarrow> string" where
  "probe_error_code c = (case c of
       Level_Zero_Permission_Denied \<Rightarrow> ''LEVEL_ZERO_PERMISSION_DENIED''
     | Level_Zero_Dependency_Unavailable \<Rightarrow> ''LEVEL_ZERO_DEPENDENCY_UNAVAILABLE''
     | Level_Zero_No_Vpu \<Rightarrow> ''LEVEL_ZERO_NO_VPU''
     | Level_Zero_Enumeration_Failed \<Rightarrow> ''LEVEL_ZERO_ENUMERATION_FAILED''
     | Level_Zero_Internal_Failure \<Rightarrow> ''LEVEL_ZERO_INTERNAL_FAILURE''
     | Open_Vino_No_Npu \<Rightarrow> ''OPENVINO_NO_NPU''
     | Open_Vino_Enumeration_Failed \<Rightarrow> ''OPENVINO_ENUMERATION_FAILED''
     | Open_Vino_Compile_Failed \<Rightarrow> ''OPENVINO_COMPILE_FAILED''
     | Open_Vino_Wrong_Device \<Rightarrow> ''OPENVINO_WRONG_DEVICE''
     | Open_Vino_Inference_Failed \<Rightarrow> ''OPENVINO_INFERENCE_FAILED''
     | Open_Vino_Output_Invalid \<Rightarrow> ''OPENVINO_OUTPUT_INVALID''
     | Open_Vino_Internal_Failure \<Rightarrow> ''OPENVINO_INTERNAL_FAILURE'')"

definition failed_code :: "probe_report \<Rightarrow> string" where
  "failed_code r = (case pr_error_code r of
       Some c \<Rightarrow> probe_error_code c | None \<Rightarrow> ''PANIC'')"

section \<open>Probes\<close>

record probe_failure =
  fl_code :: string
  fl_unsafe :: bool

definition ordinary :: "string \<Rightarrow> probe_failure" where
  "ordinary code = \<lparr>fl_code = code, fl_unsafe = False\<rparr>"

definition from_process :: "process_error \<Rightarrow> probe_failure" where
  "from_process e = (case e of
       Timeout \<Rightarrow> ordinary ''PROBE_TIMEOUT''
     | Spawn \<Rightarrow> ordinary ''PROBE_PROCESS_FAILED''
     | _ \<Rightarrow> \<lparr>fl_code = ''PROBE_PROCESS_FAILED'', fl_unsafe = True\<rparr>)"

definition mode_argument :: "probe_mode \<Rightarrow> string" where
  "mode_argument mode = (case mode of Enumerate \<Rightarrow> ''enumerate'' | Infer \<Rightarrow> ''infer'')"

definition probe_request :: "string \<Rightarrow> probe_mode \<Rightarrow> duration \<Rightarrow> process_request" where
  "probe_request executable mode timeout = \<lparr>rq_executable = executable,
     rq_args = [mode_argument mode], rq_timeout = timeout, rq_stdout_limit = 65536,
     rq_stderr_limit = 16384, rq_environment = [(''ZE_INTEL_NPU_CACHE_SIZE'', ''0'')]\<rparr>"

definition probe_report_of :: "probe_serde \<Rightarrow> probe_kind \<Rightarrow> probe_mode \<Rightarrow> process_result
    \<Rightarrow> (probe_failure, probe_report) result" where
  "probe_report_of ser probe mode res =
     and_then (map_err from_process res) (\<lambda>po.
       if po_stdout_overflow po \<or> po_stderr_overflow po
       then Inl (ordinary ''PROBE_OUTPUT_TOO_LARGE'')
       else if po_termination po \<noteq> Exit 0 then Inl (ordinary ''PROBE_PROCESS_FAILED'')
       else map_err (\<lambda>e. ordinary (pt_code e)) (parse_probe_output ser (po_stdout po) probe mode))"

definition valid_executable_path :: "'e runtime_inspector \<Rightarrow> string \<Rightarrow> ('e, bool) effect" where
  "valid_executable_path ins path =
     (if \<not> is_absolute path then State_Monad.return False else observe (in_is_file ins path))"

definition run_probe :: "'e runtime_inspector \<Rightarrow> string \<Rightarrow> probe_kind \<Rightarrow> probe_mode \<Rightarrow> duration
    \<Rightarrow> ('e, (probe_failure, probe_report) result) effect" where
  "run_probe ins executable probe mode timeout = do {
     present \<leftarrow> valid_executable_path ins executable;
     if \<not> present then State_Monad.return (Inl (ordinary ''PROBE_EXECUTABLE_MISSING''))
     else do {
       res \<leftarrow> run_process (in_runner ins) (probe_request executable mode timeout);
       State_Monad.return (probe_report_of (in_serde ins) probe mode res)
     }
   }"

definition vpu_matches :: "profile \<Rightarrow> level_zero_observation \<Rightarrow> bool" where
  "vpu_matches p obs = list_ex (\<lambda>d. list_ex (\<lambda>x. vendor x = lz_vendor_id d \<and> device x = lz_device_id d)
     (p_hardware p)) (lz_vpu_devices obs)"

definition level_zero_details :: "level_zero_observation \<Rightarrow> (string, json) bmap" where
  "level_zero_details obs = details
     [(''count'', json_nat (length (lz_vpu_devices obs))),
      (''driver_versions'', Array (map (\<lambda>d. Number (Pos_Int (ucast (lz_driver_version d))))
         (lz_vpu_devices obs))),
      (''pci_ids'', Array (map String (remdups_adj (sort
         (map (\<lambda>d. lz_vendor_id d @ '':'' @ lz_device_id d) (lz_vpu_devices obs))))))]"

definition level_zero_check ::
  "profile \<Rightarrow> (probe_failure, probe_report) result \<Rightarrow> diagnostic_check \<times> bool" where
  "level_zero_check p probe = (case probe of
       Inl failure \<Rightarrow>
         (failed_check ''runtime.level_zero'' level_zero_summary (fl_code failure), fl_unsafe failure)
     | Inr report \<Rightarrow>
         (if pr_outcome report = Outcome_Fail
          then failed_check ''runtime.level_zero'' level_zero_summary (failed_code report)
          else case pr_observations report of
            Obs_Level_Zero obs \<Rightarrow>
              if \<not> vpu_matches p obs
              then failed_check ''runtime.level_zero'' level_zero_summary ''LEVEL_ZERO_NO_VPU''
              else mk_check ''runtime.level_zero'' Pass level_zero_summary Required
                     (level_zero_details obs)
          | _ \<Rightarrow> failed_check ''runtime.level_zero'' level_zero_summary ''PROBE_OUTPUT_INVALID'',
          False))"

definition run_level_zero :: "'e runtime_inspector \<Rightarrow> profile \<Rightarrow> ('e, diagnostic_check \<times> bool) effect"
where
  "run_level_zero ins p = do {
     probe \<leftarrow> run_probe ins (rt_level_zero_helper (in_paths ins)) Level_Zero Enumerate
                LEVEL_ZERO_TIMEOUT;
     State_Monad.return (level_zero_check p probe)
   }"

definition openvino_enumerate_check :: "(probe_failure, probe_report) result \<Rightarrow> diagnostic_check"
where
  "openvino_enumerate_check probe = (case probe of
       Inl failure \<Rightarrow> failed_check ''runtime.openvino'' openvino_summary (fl_code failure)
     | Inr report \<Rightarrow>
         if pr_outcome report = Outcome_Fail
         then failed_check ''runtime.openvino'' openvino_summary (failed_code report)
         else (case pr_observations report of
           Obs_Enumerate obs \<Rightarrow> mk_check ''runtime.openvino'' Pass openvino_summary Required
             (details [(''available_devices'', Array (map String (oe_available_devices obs))),
                       (''runtime_version'', String (oe_runtime_version obs))])
         | _ \<Rightarrow> failed_check ''runtime.openvino'' openvino_summary ''PROBE_OUTPUT_INVALID''))"

definition run_openvino_enumerate :: "'e runtime_inspector \<Rightarrow> ('e, diagnostic_check) effect" where
  "run_openvino_enumerate ins = do {
     probe \<leftarrow> run_probe ins (rt_openvino_helper (in_paths ins)) Open_Vino Enumerate
                OPENVINO_ENUMERATE_TIMEOUT;
     State_Monad.return (openvino_enumerate_check probe)
   }"

definition openvino_infer_checks ::
  "(probe_failure, probe_report) result \<Rightarrow> diagnostic_check list" where
  "openvino_infer_checks probe = (case probe of
       Inl failure \<Rightarrow> openvino_infer_failure (fl_code failure) False
     | Inr report \<Rightarrow>
         if pr_outcome report = Outcome_Fail
         then openvino_infer_failure (failed_code report)
                (pr_error_code report \<in> {Some Open_Vino_Compile_Failed, Some Open_Vino_Wrong_Device,
                   Some Open_Vino_Inference_Failed, Some Open_Vino_Output_Invalid})
         else (case pr_observations report of
           Obs_Infer obs \<Rightarrow>
             [mk_check ''runtime.openvino'' Pass openvino_summary Required
                (details [(''available_devices'', Array (map String (oi_available_devices obs))),
                          (''runtime_version'', String (oi_runtime_version obs))]),
              mk_check ''runtime.inference'' Pass inference_summary Required
                (details [(''execution_devices'', Array (map String (oi_execution_devices obs))),
                          (''graph_id'', String (oi_graph_id obs)),
                          (''iterations'', Number (Pos_Int (ucast (oi_iterations obs)))),
                          (''tolerance'', Number (Float (oi_tolerance obs)))])]
         | _ \<Rightarrow> openvino_infer_failure ''PROBE_OUTPUT_INVALID'' False))"

definition run_openvino_infer :: "'e runtime_inspector \<Rightarrow> ('e, diagnostic_check list) effect" where
  "run_openvino_infer ins = do {
     probe \<leftarrow> run_probe ins (rt_openvino_helper (in_paths ins)) Open_Vino Infer
                OPENVINO_INFER_TIMEOUT;
     State_Monad.return (openvino_infer_checks probe)
   }"

section \<open>The inspections\<close>

definition finish :: "inspection_result \<Rightarrow> inspection_result" where
  "finish r = r\<lparr>ir_checks := sort_key dc_id (ir_checks r)\<rparr>"

definition preflight_result :: "profile \<Rightarrow> platform_facts \<Rightarrow> package_inspection \<Rightarrow> inspection_result"
where
  "preflight_result p facts pk =
     (let activation = inspect_activation p (pi_packages pk) (Some (pf_boot_time_epoch facts)) in
      finish \<lparr>ir_checks =
           mk_check ''platform.profile'' Pass ''Compatible platform profile is selected'' Required []
           # pi_checks pk
           @ [kernel_check facts, firmware_check (pi_checks pk) (ai_state activation)],
         ir_reboot_required = ai_reboot_required activation,
         ir_relogin_required = ai_relogin_required activation\<rparr>)"

definition inspect_preflight ::
  "'e runtime_inspector \<Rightarrow> profile \<Rightarrow> platform_facts \<Rightarrow> ('e, inspection_result) effect" where
  "inspect_preflight ins p facts = do {
     pk \<leftarrow> in_packages ins p;
     State_Monad.return (preflight_result p facts pk)
   }"

definition add_checks :: "diagnostic_check list \<Rightarrow> inspection_result \<Rightarrow> inspection_result" where
  "add_checks cs r = r\<lparr>ir_checks := ir_checks r @ cs\<rparr>"

definition inspect_common :: "'e runtime_inspector \<Rightarrow> profile \<Rightarrow> platform_facts \<Rightarrow> diagnostic_command
    \<Rightarrow> ('e, inspection_result) effect" where
  "inspect_common ins p facts command = do {
     r \<leftarrow> inspect_preflight ins p facts;
     d \<leftarrow> in_devices ins (rt_root (in_paths ins)) (pf_effective_root facts) command;
     State_Monad.return (add_checks (di_checks d) r)
   }"

definition inspect_status ::
  "'e runtime_inspector \<Rightarrow> profile \<Rightarrow> platform_facts \<Rightarrow> ('e, inspection_result) effect" where
  "inspect_status ins p facts = do {
     r \<leftarrow> inspect_common ins p facts Status;
     (level_zero, unsafe_to_continue) \<leftarrow> run_level_zero ins p;
     openvino \<leftarrow> (if unsafe_to_continue
       then State_Monad.return
              (failed_check ''runtime.openvino'' openvino_summary ''PROBE_PROCESS_FAILED'')
       else run_openvino_enumerate ins);
     State_Monad.return (finish (add_checks [level_zero, openvino] r))
   }"

definition inspect_doctor ::
  "'e runtime_inspector \<Rightarrow> profile \<Rightarrow> platform_facts \<Rightarrow> ('e, inspection_result) effect" where
  "inspect_doctor ins p facts = do {
     r \<leftarrow> inspect_common ins p facts Doctor;
     (level_zero, unsafe_to_continue) \<leftarrow> run_level_zero ins p;
     before \<leftarrow> in_activity ins (rt_root (in_paths ins));
     inference \<leftarrow> (if unsafe_to_continue
       then State_Monad.return (openvino_infer_failure ''PROBE_PROCESS_FAILED'' False)
       else run_openvino_infer ins);
     after \<leftarrow> in_activity ins (rt_root (in_paths ins));
     State_Monad.return
       (finish (add_checks (level_zero # inference @ [evaluate_activity before after]) r))
   }"

section \<open>The production inspector\<close>

record 'e production =
  pd_paths :: runtime_paths
  pd_runner :: "'e runner"
  pd_serde :: probe_serde
  pd_files :: "'e file_ops"
  pd_sha256 :: "bytes \<Rightarrow> string"
  pd_is_file :: "string \<Rightarrow> 'e \<Rightarrow> bool \<times> 'e"
  pd_device_view :: "'e \<Rightarrow> device_view \<times> 'e"
  pd_fs_view :: "'e \<Rightarrow> fs_view \<times> 'e"

definition production_rpm :: "'e production \<Rightarrow> 'e rpm_inspector" where
  "production_rpm pd = \<lparr>ri_rpm = rt_rpm (pd_paths pd), ri_root = rt_root (pd_paths pd),
     ri_runner = pd_runner pd, ri_files = pd_files pd, ri_sha256 = pd_sha256 pd\<rparr>"

definition filesystem_devices ::
  "'e production \<Rightarrow> string \<Rightarrow> bool \<Rightarrow> diagnostic_command \<Rightarrow> ('e, device_inspection) effect" where
  "filesystem_devices pd root effective_root command = do {
     dv \<leftarrow> observe (pd_device_view pd);
     State_Monad.return (inspect_devices dv root effective_root command)
   }"

definition sysfs_activity :: "'e production \<Rightarrow> string \<Rightarrow> ('e, busy_counter_snapshot) effect" where
  "sysfs_activity pd root = do {
     fs \<leftarrow> observe (pd_fs_view pd);
     State_Monad.return (read_busy_counters fs root)
   }"

definition production_inspector :: "'e production \<Rightarrow> 'e runtime_inspector" where
  "production_inspector pd = \<lparr>in_paths = pd_paths pd, in_runner = pd_runner pd,
     in_serde = pd_serde pd, in_is_file = pd_is_file pd,
     in_packages = inspect_packages (production_rpm pd),
     in_devices = filesystem_devices pd, in_activity = sysfs_activity pd\<rparr>"

end
