(* ===== verification/Matching.thy ===== *)
theory Matching
  imports Platform
begin

text \<open>
  \<open>crates/stack-core/src/matching.rs\<close>: the choice of one profile for the detected platform
  under a channel policy.
\<close>

datatype channel = Stable | Experimental_Channel

record selection_policy =
  sp_channel :: channel
  sp_acknowledge_risk :: bool

datatype selection_error =
    No_Compatible_Profile
  | Risk_Acknowledgement_Required
  | Ambiguous_Profiles "string list"

definition status_allowed :: "profile_status \<Rightarrow> channel \<Rightarrow> bool" where
  "status_allowed status ch = (case ch of
       Stable \<Rightarrow> status = Qualified
     | Experimental_Channel \<Rightarrow> status = Qualified \<or> status = Experimental)"

definition kernel_matches :: "profile \<Rightarrow> kernel_version \<Rightarrow> bool" where
  "kernel_matches p actual = (case parse_release (kr_min (p_kernel p)) of
       Inl _ \<Rightarrow> False
     | Inr lo \<Rightarrow> (case parse_release (kr_max_exclusive (p_kernel p)) of
           Inl _ \<Rightarrow> False
         | Inr hi \<Rightarrow> lo \<le> actual \<and> actual < hi))"

definition platform_matches :: "profile \<Rightarrow> platform_facts \<Rightarrow> bool" where
  "platform_matches p facts =
     (ps_id (p_platform p) = pf_os_id facts
      \<and> ps_version_id (p_platform p) = pf_os_version_id facts
      \<and> ps_arch (p_platform p) = pf_arch facts
      \<and> list_ex (\<lambda>supported. list_ex (\<lambda>actual. actual = supported) (pf_pci_ids facts))
          (p_hardware p)
      \<and> kr_module (p_kernel p) = ''intel_vpu''
      \<and> pf_intel_vpu_loaded facts
      \<and> kernel_matches p (pf_kernel facts))"

definition select_profile ::
  "profile list \<Rightarrow> platform_facts \<Rightarrow> selection_policy \<Rightarrow> (selection_error, profile) result" where
  "select_profile profiles facts policy =
     (if sp_channel policy = Experimental_Channel \<and> \<not> sp_acknowledge_risk policy
      then Inl Risk_Acknowledgement_Required
      else (let matches = sort_key p_id
                  (filter (\<lambda>p. platform_matches p facts)
                    (filter (\<lambda>p. status_allowed (p_status p) (sp_channel policy)) profiles))
            in case matches of
                 [] \<Rightarrow> Inl No_Compatible_Profile
               | [p] \<Rightarrow> Inr p
               | _ \<Rightarrow> Inl (Ambiguous_Profiles (map p_id matches))))"

section \<open>Laws\<close>

definition selectable :: "selection_policy \<Rightarrow> platform_facts \<Rightarrow> profile \<Rightarrow> bool" where
  "selectable policy facts p =
     (status_allowed (p_status p) (sp_channel policy) \<and> platform_matches p facts)"

definition risk_refused :: "selection_policy \<Rightarrow> bool" where
  "risk_refused policy =
     (sp_channel policy = Experimental_Channel \<and> \<not> sp_acknowledge_risk policy)"

lemma select_profile_filter:
  "select_profile profiles facts policy =
     (if risk_refused policy then Inl Risk_Acknowledgement_Required
      else (let ms = sort_key p_id (filter (selectable policy facts) profiles) in
        case ms of [] \<Rightarrow> Inl No_Compatible_Profile | [p] \<Rightarrow> Inr p
                 | _ \<Rightarrow> Inl (Ambiguous_Profiles (map p_id ms))))"
proof -
  have "filter (\<lambda>p. platform_matches p facts)
          (filter (\<lambda>p. status_allowed (p_status p) (sp_channel policy)) profiles)
        = filter (selectable policy facts) profiles"
    by (simp add: selectable_def [abs_def])
  then show ?thesis by (simp add: select_profile_def risk_refused_def)
qed

lemma sort_key_single: "sort_key f xs = [x] \<longleftrightarrow> xs = [x]"
proof
  assume "sort_key f xs = [x]"
  then have "mset xs = mset [x]" by (metis mset_sort)
  then show "xs = [x]" by simp
qed simp

lemma select_profile_Inr:
  "select_profile profiles facts policy = Inr p \<longleftrightarrow>
     \<not> risk_refused policy \<and> filter (selectable policy facts) profiles = [p]"
proof -
  let ?ms = "sort_key p_id (filter (selectable policy facts) profiles)"
  have "(case ?ms of [] \<Rightarrow> Inl No_Compatible_Profile | [p] \<Rightarrow> Inr p
           | _ \<Rightarrow> Inl (Ambiguous_Profiles (map p_id ?ms))) = Inr p \<longleftrightarrow> ?ms = [p]"
    by (auto split: list.splits)
  then show ?thesis
    unfolding select_profile_filter Let_def by (auto simp: sort_key_single)
qed

lemma select_profile_Ambiguous:
  "select_profile profiles facts policy = Inl (Ambiguous_Profiles ids) \<longleftrightarrow>
     \<not> risk_refused policy \<and> length (filter (selectable policy facts) profiles) \<ge> 2
     \<and> ids = sort (map p_id (filter (selectable policy facts) profiles))"
proof -
  let ?fs = "filter (selectable policy facts) profiles"
  let ?ms = "sort_key p_id ?fs"
  have ids: "map p_id ?ms = sort (map p_id ?fs)"
    by (intro properties_for_sort [symmetric]) simp_all
  have len: "2 \<le> length ?fs \<longleftrightarrow> 2 \<le> length ?ms" by simp
  have "(case ?ms of [] \<Rightarrow> Inl No_Compatible_Profile | [p] \<Rightarrow> Inr p
           | _ \<Rightarrow> Inl (Ambiguous_Profiles (map p_id ?ms))) = Inl (Ambiguous_Profiles ids)
        \<longleftrightarrow> 2 \<le> length ?ms \<and> ids = map p_id ?ms"
    by (auto split: list.splits simp del: length_sort)
  then show ?thesis
    unfolding select_profile_filter Let_def ids [symmetric] len by auto
qed

lemma select_profile_None:
  "select_profile profiles facts policy = Inl No_Compatible_Profile \<longleftrightarrow>
     \<not> risk_refused policy \<and> (\<forall>p \<in> set profiles. \<not> selectable policy facts p)"
proof -
  let ?ms = "sort_key p_id (filter (selectable policy facts) profiles)"
  have "(case ?ms of [] \<Rightarrow> Inl No_Compatible_Profile | [p] \<Rightarrow> Inr p
           | _ \<Rightarrow> Inl (Ambiguous_Profiles (map p_id ?ms))) = Inl No_Compatible_Profile \<longleftrightarrow> ?ms = []"
    by (auto split: list.splits)
  also have "?ms = [] \<longleftrightarrow> filter (selectable policy facts) profiles = []"
    by (metis length_0_conv length_sort)
  finally show ?thesis
    unfolding select_profile_filter Let_def by (auto simp: filter_empty_conv)
qed

lemma sort_perm: "mset xs = mset ys \<Longrightarrow> sort xs = sort ys"
  by (metis properties_for_sort sorted_sort mset_sort)

lemma select_profile_cases:
  obtains (risk) "risk_refused policy"
      "select_profile profiles facts policy = Inl Risk_Acknowledgement_Required"
  | (none) "\<not> risk_refused policy" "filter (selectable policy facts) profiles = []"
      "select_profile profiles facts policy = Inl No_Compatible_Profile"
  | (one) p where "\<not> risk_refused policy" "filter (selectable policy facts) profiles = [p]"
      "select_profile profiles facts policy = Inr p"
  | (many) "\<not> risk_refused policy" "length (filter (selectable policy facts) profiles) \<ge> 2"
      "select_profile profiles facts policy =
         Inl (Ambiguous_Profiles (sort (map p_id (filter (selectable policy facts) profiles))))"
proof (cases "risk_refused policy")
  case True
  then show ?thesis using risk by (simp add: select_profile_filter)
next
  case False
  show ?thesis
  proof (cases "filter (selectable policy facts) profiles")
    case Nil
    then show ?thesis using none False by (simp add: select_profile_None filter_empty_conv)
  next
    case (Cons p ps)
    then show ?thesis using one many False
      by (cases ps) (simp_all add: select_profile_Inr select_profile_Ambiguous)
  qed
qed

end
