(* ===== verification/Samples.thy ===== *)
theory Samples
  imports Inspect Matching
begin

text \<open>
  Concrete values on which the properties of the library are evaluated: a valid experimental
  profile, the facts of a machine it admits, the root file system those facts are read from, and
  production inspectors over a file system and a process runner with no state.
\<close>

definition sample_digest :: string where
  "sample_digest = replicate 64 CHR ''a''"

definition sample_component :: "string \<Rightarrow> component_requirement" where
  "sample_component name = \<lparr>cr_version = ''1.2'', cr_source = ''https://example.org/src'',
     cr_sha256 = sample_digest,
     cr_provider = \<lparr>np_package = name, np_version = ''0:1.2-1.fc44'', np_activation = Reboot,
       np_files = [\<lparr>if_path = ''/usr/lib64/libze.so'', if_sha256 = sample_digest\<rparr>]\<rparr>,
     cr_license = \<lparr>lr_expression = ''MIT'', lr_redistribution = Allowed,
       lr_evidence_sha256 = sample_digest\<rparr>\<rparr>"

definition sample_profile :: profile where
  "sample_profile = \<lparr>p_schema_version = 1, p_id = ''fedora-44'', p_stack_release = ''1.0.0'',
     p_status = profile_status.Experimental, p_package_manager = Rpm,
     p_conflicts = [\<lparr>pc_package = ''old-npu'', pc_resolution = Remove\<rparr>],
     p_platform = \<lparr>ps_id = ''fedora'', ps_version_id = ''44'', ps_arch = ''x86_64''\<rparr>,
     p_hardware = [PciId ''8086'' ''7d1d''],
     p_kernel = \<lparr>kr_min = ''6.14.0'', kr_max_exclusive = ''6.20.0'', kr_module = ''intel_vpu''\<rparr>,
     p_components = map (\<lambda>n. (n, sample_component ''npu'')) REQUIRED_COMPONENTS,
     p_qualification = None\<rparr>"

definition sample_facts :: platform_facts where
  "sample_facts = \<lparr>pf_os_id = ''fedora'', pf_os_version_id = ''44'', pf_arch = ''x86_64'',
     pf_kernel = KernelVersion 6 15 2, pf_pci_ids = [PciId ''8086'' ''7d1d''],
     pf_intel_vpu_loaded = True, pf_accel_node_present = True, pf_effective_root = False,
     pf_boot_time_epoch = 1000\<rparr>"

text \<open>The root file system.\<close>

definition sample_files :: "(string \<times> string) list" where
  "sample_files =
     [(''/etc/os-release'', ''ID=fedora'' @ [nl] @ ''VERSION_ID=44'' @ [nl]),
      (''/proc/sys/kernel/osrelease'', ''6.15.2-200.fc44.x86_64'' @ [nl]),
      (''/proc/modules'', ''intel_vpu 1 0 - Live'' @ [nl]),
      (''/sys/bus/pci/devices/0000:00:0b.0/vendor'', ''0x8086'' @ [nl]),
      (''/sys/bus/pci/devices/0000:00:0b.0/device'', ''0x7D1D'' @ [nl]),
      (''/proc/self/status'', ''Uid:'' @ [tab] @ ''1000 1000 1000 1000'' @ [nl]),
      (''/proc/stat'', ''btime 1000'' @ [nl])]"

definition sample_dirs :: "(string \<times> (io_error, string) result list) list" where
  "sample_dirs = [(''/sys/bus/pci/devices'', [Inr ''0000:00:0b.0'']),
     (''/dev/accel'', [Inr ''accel0''])]"

definition sample_fs :: fs_view where
  "sample_fs = \<lparr>
     fs_read = (\<lambda>p. case map_of sample_files p of Some b \<Rightarrow> Inr b | None \<Rightarrow> Inl (Not_Found ''absent'')),
     fs_dir = (\<lambda>p. case map_of sample_dirs p of Some es \<Rightarrow> Inr es | None \<Rightarrow> Inl (Not_Found ''absent''))\<rparr>"

definition sample_devices :: device_view where
  "sample_devices = \<lparr>
     dv_dir = (\<lambda>p. if p = ''/dev/accel'' then Inr [Inr ''accel0''] else Inl (Not_Found ''absent'')),
     dv_kind = (\<lambda>_. Inr Kind_Char_Device), dv_open = (\<lambda>_. Opened)\<rparr>"

text \<open>A runner that answers every request with one output and leaves the environment alone.\<close>

definition answering :: "process_output \<Rightarrow> unit runner" where
  "answering po rq e = (Inr po, e)"

definition missing_package :: process_output where
  "missing_package = \<lparr>po_termination = Exit 1, po_stdout = not_installed_line ''npu'',
     po_stdout_overflow = False, po_stderr_overflow = False\<rparr>"

definition sample_file_ops :: "unit file_ops" where
  "sample_file_ops = \<lparr>fo_lstat = (\<lambda>_ e. (Inl (Not_Found ''absent''), e)),
     fo_open = (\<lambda>_ e. (Inl (Not_Found ''absent''), e)),
     fo_fstat = (\<lambda>_ e. (Inl (Not_Found ''absent''), e)),
     fo_read_all = (\<lambda>_ e. (Inl (Not_Found ''absent''), e))\<rparr>"

definition no_serde :: probe_serde where
  "no_serde = \<lparr>ser_parse = (\<lambda>_. None), ser_report = (\<lambda>_. None), ser_level_zero = (\<lambda>_. None),
     ser_enumerate = (\<lambda>_. None), ser_infer = (\<lambda>_. None)\<rparr>"

definition sample_production :: "unit production" where
  "sample_production = \<lparr>pd_paths = system_paths, pd_runner = answering missing_package,
     pd_serde = no_serde, pd_files = sample_file_ops, pd_sha256 = (\<lambda>_. sample_digest),
     pd_is_file = (\<lambda>_ e. (True, e)), pd_device_view = (\<lambda>e. (sample_devices, e)),
     pd_fs_view = (\<lambda>e. (sample_fs, e))\<rparr>"

definition sample_world :: "unit world" where
  "sample_world = \<lparr>env = (), log = []\<rparr>"

section \<open>The sample profile is valid\<close>

lemma graph_clean: "v \<noteq> [] \<Longrightarrow> list_all is_graph v \<Longrightarrow> clean_text v"
  by (simp add: clean_text_def trim_graph any_control_graph)

lemma sample_digest_ok: "is_sha256 sample_digest" "length sample_digest = 64"
  by (simp_all add: is_sha256_def sample_digest_def list_all_iff ascii_simps)

lemma sample_release:
  "release_grammar ''6.14.0'' (KernelVersion 6 14 0)" "release_grammar ''6.20.0'' (KernelVersion 6 20 0)"
proof -
  have "parse_release ''6.14.0'' = Inr (KernelVersion 6 14 0)"
    "parse_release ''6.20.0'' = Inr (KernelVersion 6 20 0)"
    by (simp_all add: parse_release_def trim_graph is_graph_def numeric_part_def
        numeric_component_def all_digits_def is_digit_def parse_u64_def parse_unsigned_def dec_def
        digit_val_def ok_or_def and_then_def)
  then show "release_grammar ''6.14.0'' (KernelVersion 6 14 0)"
    "release_grammar ''6.20.0'' (KernelVersion 6 20 0)"
    by (simp_all add: parse_release_iff)
qed

lemma sample_component_ok: "component_ok (sample_component ''npu'')"
  by (simp add: component_ok_def sample_component_def sample_digest_ok graph_clean is_graph_def
      is_https_source_def any_whitespace_def is_whitespace_def code_point_def seq_len_def Let_def
      is_package_name_def is_package_version_def ascii_simps file_ok_def is_approved_file_path_def
      APPROVED_FILE_PREFIXES_def starts_with_def ends_with_def any_control_graph)

lemma sample_profile_ok: "profile_ok sample_profile"
proof -
  have "\<forall>v \<in> set (component_scalars (n, sample_component ''npu'')). length v \<le> 64"
    if "n \<in> set REQUIRED_COMPONENTS" for n
    using that by (auto simp: component_scalars_def sample_component_def sample_digest_ok
        REQUIRED_COMPONENTS_def)
  then have "\<forall>n \<in> set REQUIRED_COMPONENTS.
      \<forall>v \<in> set (component_scalars (n, sample_component ''npu'')). length v \<le> 4096"
    by fastforce
  then have "resources_ok sample_profile"
    by (simp add: resources_ok_def sample_profile_def profile_scalars_def short_scalar_def)
  moreover have "platform_ok sample_profile"
    by (simp add: platform_ok_def sample_profile_def graph_clean is_graph_def)
  moreover have "hardware_ok sample_profile"
    by (simp add: hardware_ok_def sample_profile_def is_lower_hex_quad_def ascii_simps)
  moreover have "conflicts_ok (p_conflicts sample_profile)"
    by (simp add: conflicts_ok_def sample_profile_def is_package_name_def ascii_simps)
  moreover have "kernel_ok (p_kernel sample_profile)"
    unfolding kernel_ok_def
    by (intro conjI exI [of _ "KernelVersion 6 14 0"] exI [of _ "KernelVersion 6 20 0"])
      (simp_all add: sample_profile_def sample_release version_less_iff)
  moreover have "qualification_ok sample_profile"
    by (simp add: qualification_ok_def sample_profile_def)
  ultimately show ?thesis
    by (simp add: profile_ok_def sample_profile_def bm_keys_def bm_values_def comp_def
        sample_component_ok)
qed

lemma sample_components_wf: "bm_wf (p_components sample_profile)"
  using required_components_sorted by (simp add: bm_wf_def sample_profile_def comp_def)

lemma sample_matches: "platform_matches sample_profile sample_facts"
  using sample_release [folded parse_release_iff]
  by (simp add: platform_matches_def kernel_matches_def sample_profile_def sample_facts_def
      less_eq_kernel_version_def version_less_iff version_key_def)

lemma sample_selectable:
  "selectable \<lparr>sp_channel = Experimental_Channel, sp_acknowledge_risk = True\<rparr> sample_facts sample_profile"
  using sample_matches by (simp add: selectable_def status_allowed_def) (simp add: sample_profile_def)

end
