(* ===== verification/Manifest.thy ===== *)
theory Manifest
  imports Profile
begin

text \<open>
  \<open>crates/stack-install/src/lib.rs\<close> (the error type) and \<open>manifest.rs\<close>: the release manifest.
  Decoding JSON is \<open>serde_json\<close>: \<open>decode\<close> returns the document or nothing. The digest of the
  profile bytes is \<open>sha256\<close>, the TOML decoder of the profile is \<open>from_str\<close>.
\<close>

section \<open>Errors\<close>

record install_error =
  ie_exit_code :: u8
  ie_code :: string
  ie_message :: string

definition install_err :: "u8 \<Rightarrow> string \<Rightarrow> string \<Rightarrow> install_error" where
  "install_err x c m = \<lparr>ie_exit_code = x, ie_code = c, ie_message = m\<rparr>"

definition integrity :: "string \<Rightarrow> install_error" where
  "integrity m = install_err 20 ''INSTALL_INTEGRITY_FAILED'' m"

definition metadata_error :: "string \<Rightarrow> install_error" where
  "metadata_error m = install_err 20 ''INSTALL_METADATA_INVALID'' m"

definition unavailable :: install_error where
  "unavailable = install_err 10 ''INSTALL_CAPABILITY_UNAVAILABLE''
     ''the release does not provide the requested optional capability''"

section \<open>Data\<close>

datatype package_role = Role_Runtime | Role_Python | Role_Devel | Role_Profile

record release_package =
  rp_name :: string
  rp_nevr :: string
  rp_arch :: string
  rp_filename :: string
  rp_sha256 :: string
  rp_role :: package_role

record release_repository =
  rr_id :: string
  rr_base_url :: string
  rr_repomd_sha256 :: string

record manifest_document =
  mf_schema_version :: u32
  mf_stack_release :: string
  mf_test_only :: bool
  mf_profile_sha256 :: string
  mf_repository :: release_repository
  mf_packages :: "release_package list"

section \<open>Grammars\<close>

definition MAX_METADATA_BYTES :: nat where "MAX_METADATA_BYTES = 1048576"
definition MAX_PACKAGES :: nat where "MAX_PACKAGES = 128"

definition repo_identifier :: "string \<Rightarrow> bool" where
  "repo_identifier v = (v \<noteq> [] \<and> length v \<le> 128 \<and> is_alnum (hd v)
     \<and> list_all (\<lambda>c. is_alnum c \<or> c \<in> set ''-_.+'') v)"

definition no_leading_zero :: "string \<Rightarrow> bool" where
  "no_leading_zero v = (length v = 1 \<or> \<not> starts_with ''0'' v)"

definition decimal_u32 :: "string \<Rightarrow> bool" where
  "decimal_u32 v = (v \<noteq> [] \<and> all_digits v \<and> parse_u32 v \<noteq> None \<and> no_leading_zero v)"

definition release_version :: "string \<Rightarrow> bool" where
  "release_version v = (let parts = split_on CHR ''.'' v in
     length parts = 3 \<and> list_all decimal_u32 parts)"

definition host_label :: "string \<Rightarrow> bool" where
  "host_label l = (l \<noteq> [] \<and> length l \<le> 63 \<and> is_alnum (hd l) \<and> is_alnum (last l)
     \<and> list_all (\<lambda>c. is_alnum c \<or> c = CHR ''-'') l)"

definition url_segment :: "string \<Rightarrow> bool" where
  "url_segment s = (repo_identifier s \<and> s \<noteq> ''.'' \<and> s \<noteq> ''..''
     \<and> s \<notin> {''latest'', ''current'', ''stable'', ''experimental''})"

definition repository_url :: "string \<Rightarrow> string \<Rightarrow> bool" where
  "repository_url url version =
     (if length url > 2048 then False
      else case strip_prefix ''https://'' url of
        None \<Rightarrow> False
      | Some rest \<Rightarrow> (case split_once CHR ''/'' rest of
          None \<Rightarrow> False
        | Some (host, path) \<Rightarrow>
            if length host > 253 \<or> CHR ''.'' \<notin> set host
               \<or> \<not> list_all host_label (split_on CHR ''.'' host)
            then False
            else (case strip_suffix ''/'' path of
                None \<Rightarrow> False
              | Some path \<Rightarrow>
                  (let segments = split_on CHR ''/'' path in
                   (version \<in> set segments \<or> (CHR ''v'' # version) \<in> set segments)
                   \<and> list_all url_segment segments))))"

definition rpm_scalar :: "string \<Rightarrow> bool" where
  "rpm_scalar v = (v \<noteq> [] \<and> list_all (\<lambda>c. is_alnum c \<or> c \<in> set ''._+~^'') v)"

definition rpm_arch :: "string \<Rightarrow> bool" where
  "rpm_arch a = (a = ''x86_64'' \<or> a = ''noarch'')"

definition rpm_filename :: "string \<Rightarrow> string \<Rightarrow> string \<Rightarrow> string \<Rightarrow> string" where
  "rpm_filename name version release arch =
     name @ ''-'' @ version @ ''-'' @ release @ ''.'' @ arch @ ''.rpm''"

definition validate_package :: "release_package \<Rightarrow> (install_error, unit) result" where
  "validate_package k =
     (if \<not> repo_identifier (rp_name k) \<or> \<not> is_sha256 (rp_sha256 k) \<or> \<not> rpm_arch (rp_arch k)
         \<or> length (rp_nevr k) > 256
      then Inl (metadata_error ''invalid RPM package identity'')
      else case split_once CHR '':'' (rp_nevr k) of
        None \<Rightarrow> Inl (metadata_error ''RPM identity requires an explicit epoch'')
      | Some (epoch, vr) \<Rightarrow> (case split_once CHR ''-'' vr of
          None \<Rightarrow> Inl (metadata_error ''RPM identity requires version and release'')
        | Some (version, release) \<Rightarrow>
            ensure (\<not> (epoch = [] \<or> \<not> all_digits epoch \<or> parse_u32 epoch = None
                     \<or> (length epoch > 1 \<and> starts_with ''0'' epoch)
                     \<or> \<not> rpm_scalar version \<or> \<not> rpm_scalar release
                     \<or> \<not> ends_with ''.fc44'' release
                     \<or> rp_filename k \<noteq> rpm_filename (rp_name k) version release (rp_arch k)))
              (metadata_error ''RPM NEVR, filename or Fedora release mismatch'')))"

section \<open>The manifest\<close>

text \<open>The loop over the packages, with the two sets it fills.\<close>

fun check_packages :: "string set \<Rightarrow> string set \<Rightarrow> release_package list
    \<Rightarrow> (install_error, unit) result" where
  "check_packages names filenames [] = Inr ()"
| "check_packages names filenames (k # ks) =
     and_then (validate_package k) (\<lambda>_.
       if rp_name k \<in> names \<or> rp_filename k \<in> filenames
       then Inl (metadata_error ''duplicate release package identity'')
       else check_packages (insert (rp_name k) names) (insert (rp_filename k) filenames) ks)"

definition required_tool :: "manifest_document \<Rightarrow> string \<Rightarrow> (install_error, unit) result" where
  "required_tool d name =
     ensure (list_ex (\<lambda>k. rp_name k = name \<and> rp_role k = Role_Runtime) (mf_packages d))
       (metadata_error ''required runtime tools or metapackage is absent'')"

definition validate_manifest :: "manifest_document \<Rightarrow> (install_error, unit) result" where
  "validate_manifest d = first_error
     [ensure (mf_schema_version d = 1 \<and> release_version (mf_stack_release d)
        \<and> is_sha256 (mf_profile_sha256 d) \<and> repo_identifier (rr_id (mf_repository d))
        \<and> is_sha256 (rr_repomd_sha256 (mf_repository d))
        \<and> repository_url (rr_base_url (mf_repository d)) (mf_stack_release d))
        (metadata_error ''invalid release or repository identity''),
      ensure (mf_packages d \<noteq> [] \<and> length (mf_packages d) \<le> MAX_PACKAGES)
        (metadata_error ''release package count is out of range''),
      check_packages {} {} (mf_packages d),
      check_each (required_tool d) [''intel-npu-stack'', ''intel-npu-stack-tools'']]"

definition parse_manifest :: "(bytes \<Rightarrow> manifest_document option) \<Rightarrow> bytes
    \<Rightarrow> (install_error, manifest_document) result" where
  "parse_manifest decode b =
     (if length b > MAX_METADATA_BYTES
      then Inl (metadata_error ''release metadata exceeds its byte limit'')
      else and_then (ok_or (metadata_error ''release metadata is not strict schema-one JSON'')
             (decode b)) (\<lambda>d.
           and_then (validate_manifest d) (\<lambda>_. Inr d)))"

definition is_fedora_44 :: "profile \<Rightarrow> bool" where
  "is_fedora_44 p = (p_package_manager p = Rpm \<and> ps_id (p_platform p) = ''fedora''
     \<and> ps_version_id (p_platform p) = ''44'' \<and> ps_arch (p_platform p) = ''x86_64'')"

definition bind_component :: "manifest_document \<Rightarrow> string \<times> component_requirement
    \<Rightarrow> (install_error, unit) result" where
  "bind_component d e = (case e of (capability, c) \<Rightarrow>
     (case find (\<lambda>k. rp_name k = np_package (cr_provider c)) (mf_packages d) of
        None \<Rightarrow> Inl (metadata_error ''profile component is absent from release packages'')
      | Some k \<Rightarrow>
          ensure (\<not> (rp_role k \<noteq> Role_Runtime \<or> rp_nevr k \<noteq> np_version (cr_provider c)
                   \<or> rp_sha256 k \<noteq> cr_sha256 c
                   \<or> lr_redistribution (cr_license c) = Forbidden
                   \<or> (lr_redistribution (cr_license c) = External_Only
                      \<and> (capability \<noteq> ''level_zero_loader'' \<or> rp_name k \<noteq> ''oneapi-level-zero''))))
            (metadata_error ''profile component identity or redistribution mismatch'')))"

definition bind_profile :: "(bytes \<Rightarrow> string) \<Rightarrow> (string \<Rightarrow> (string, profile) result)
    \<Rightarrow> manifest_document \<Rightarrow> bytes \<Rightarrow> (install_error, profile) result" where
  "bind_profile sha256 from_str d b =
     (if length b > MAX_METADATA_BYTES \<or> sha256 b \<noteq> mf_profile_sha256 d
      then Inl (metadata_error ''profile bytes do not match release metadata'')
      else if \<not> utf8_valid b then Inl (metadata_error ''profile is not UTF-8'')
      else and_then (map_err (\<lambda>_. metadata_error ''profile validation failed'')
                       (parse_toml from_str b)) (\<lambda>p.
        if p_stack_release p \<noteq> mf_stack_release d \<or> \<not> is_fedora_44 p
        then Inl (metadata_error ''profile does not match this Fedora release'')
        else and_then (check_each (bind_component d) (p_components p)) (\<lambda>_. Inr p)))"

definition role_selected :: "bool \<Rightarrow> bool \<Rightarrow> package_role \<Rightarrow> bool" where
  "role_selected with_python with_devel role = (case role of
       Role_Runtime \<Rightarrow> True | Role_Profile \<Rightarrow> True
     | Role_Python \<Rightarrow> with_python | Role_Devel \<Rightarrow> with_devel)"

definition selected_packages :: "manifest_document \<Rightarrow> bool \<Rightarrow> bool
    \<Rightarrow> (install_error, release_package list) result" where
  "selected_packages d with_python with_devel =
     and_then (check_each (\<lambda>(requested, role).
         ensure (\<not> (requested \<and> \<not> list_ex (\<lambda>k. rp_role k = role) (mf_packages d))) unavailable)
         [(with_python, Role_Python), (with_devel, Role_Devel)]) (\<lambda>_.
       Inr (sort_key rp_name
         (filter (\<lambda>k. role_selected with_python with_devel (rp_role k)) (mf_packages d))))"

section \<open>What a valid manifest is\<close>

definition evr_parts :: "string \<Rightarrow> (string \<times> string \<times> string) option" where
  "evr_parts s = (case split_once CHR '':'' s of
       None \<Rightarrow> None
     | Some (epoch, vr) \<Rightarrow> map_option (\<lambda>(v, r). (epoch, v, r)) (split_once CHR ''-'' vr))"

definition package_ok :: "release_package \<Rightarrow> bool" where
  "package_ok k = (repo_identifier (rp_name k) \<and> is_sha256 (rp_sha256 k) \<and> rpm_arch (rp_arch k)
     \<and> length (rp_nevr k) \<le> 256
     \<and> (\<exists>epoch v r. rp_nevr k = epoch @ '':'' @ v @ ''-'' @ r \<and> decimal_u32 epoch
          \<and> rpm_scalar v \<and> rpm_scalar r \<and> ends_with ''.fc44'' r
          \<and> rp_filename k = rpm_filename (rp_name k) v r (rp_arch k)))"

definition manifest_ok :: "manifest_document \<Rightarrow> bool" where
  "manifest_ok d = (mf_schema_version d = 1 \<and> release_version (mf_stack_release d)
     \<and> is_sha256 (mf_profile_sha256 d) \<and> repo_identifier (rr_id (mf_repository d))
     \<and> is_sha256 (rr_repomd_sha256 (mf_repository d))
     \<and> repository_url (rr_base_url (mf_repository d)) (mf_stack_release d)
     \<and> length (mf_packages d) \<in> {1..128}
     \<and> (\<forall>k \<in> set (mf_packages d). package_ok k)
     \<and> distinct (map rp_name (mf_packages d)) \<and> distinct (map rp_filename (mf_packages d))
     \<and> (\<forall>n \<in> {''intel-npu-stack'', ''intel-npu-stack-tools''}.
          \<exists>k \<in> set (mf_packages d). rp_name k = n \<and> rp_role k = Role_Runtime))"

lemma digit_not_colon [simp]: "\<not> is_digit CHR '':''"
  by (simp add: is_digit_def)

lemma rpm_scalar_no_dash: "rpm_scalar v \<Longrightarrow> CHR ''-'' \<notin> set v \<and> CHR '':'' \<notin> set v"
  by (auto simp: rpm_scalar_def list_all_iff ascii_simps)

lemma decimal_no_colon: "decimal_u32 e \<Longrightarrow> CHR '':'' \<notin> set e \<and> CHR ''-'' \<notin> set e"
  using digits_no_sep by (auto simp: decimal_u32_def)

lemma epoch_ok_iff:
  "epoch \<noteq> [] \<and> all_digits epoch \<and> parse_u32 epoch \<noteq> None \<and> \<not> (length epoch > 1 \<and> starts_with ''0'' epoch)
     \<longleftrightarrow> decimal_u32 epoch"
  by (cases epoch) (auto simp: decimal_u32_def no_leading_zero_def)

lemma validate_package_Inr: "validate_package k = Inr () \<longleftrightarrow> package_ok k"
proof
  assume "validate_package k = Inr ()"
  then obtain epoch vr v r where s: "split_once CHR '':'' (rp_nevr k) = Some (epoch, vr)"
      "split_once CHR ''-'' vr = Some (v, r)"
    and ok: "epoch \<noteq> []" "all_digits epoch" "parse_u32 epoch \<noteq> None"
      "\<not> (length epoch > 1 \<and> starts_with ''0'' epoch)"
      "repo_identifier (rp_name k)" "is_sha256 (rp_sha256 k)" "rpm_arch (rp_arch k)"
      "length (rp_nevr k) \<le> 256" "rpm_scalar v" "rpm_scalar r" "ends_with ''.fc44'' r"
      "rp_filename k = rpm_filename (rp_name k) v r (rp_arch k)"
    by (auto simp: validate_package_def not_less split: if_splits option.splits)
  have "decimal_u32 epoch" using ok epoch_ok_iff by blast
  moreover from s have "rp_nevr k = epoch @ '':'' @ v @ ''-'' @ r"
    by (simp add: split_once_Some)
  ultimately show "package_ok k"
    unfolding package_ok_def using ok by (intro conjI exI [of _ epoch] exI [of _ v] exI [of _ r])
next
  assume "package_ok k"
  then obtain epoch v r where k: "rp_nevr k = epoch @ '':'' @ v @ ''-'' @ r" "decimal_u32 epoch"
      "rpm_scalar v" "rpm_scalar r" "ends_with ''.fc44'' r"
      "rp_filename k = rpm_filename (rp_name k) v r (rp_arch k)"
    and ok: "repo_identifier (rp_name k)" "is_sha256 (rp_sha256 k)" "rpm_arch (rp_arch k)"
      "length (rp_nevr k) \<le> 256"
    unfolding package_ok_def by blast
  have "split_once CHR '':'' (rp_nevr k) = Some (epoch, v @ ''-'' @ r)"
    using k decimal_no_colon by (simp add: split_once_Some)
  moreover have "split_once CHR ''-'' (v @ ''-'' @ r) = Some (v, r)"
    using k rpm_scalar_no_dash by (simp add: split_once_Some)
  moreover have "epoch \<noteq> [] \<and> all_digits epoch \<and> parse_u32 epoch \<noteq> None
      \<and> \<not> (length epoch > 1 \<and> starts_with ''0'' epoch)"
    using k epoch_ok_iff by blast
  ultimately show "validate_package k = Inr ()"
    using k ok by (simp add: validate_package_def not_less)
qed

lemma check_packages_Inr:
  "check_packages names filenames ks = Inr () \<longleftrightarrow>
     (\<forall>k \<in> set ks. package_ok k \<and> rp_name k \<notin> names \<and> rp_filename k \<notin> filenames)
     \<and> distinct (map rp_name ks) \<and> distinct (map rp_filename ks)"
proof (induction ks arbitrary: names filenames)
  case (Cons k ks)
  show ?case
    by (simp add: validate_package_Inr Cons.IH) (auto simp: image_iff)
qed simp

lemma required_tool_Inr:
  "required_tool d n = Inr () \<longleftrightarrow> (\<exists>k \<in> set (mf_packages d). rp_name k = n \<and> rp_role k = Role_Runtime)"
  by (simp add: required_tool_def list_ex_iff)

lemma validate_manifest_Inr: "validate_manifest d = Inr () \<longleftrightarrow> manifest_ok d"
  unfolding validate_manifest_def manifest_ok_def
  by (auto simp: check_packages_Inr required_tool_Inr MAX_PACKAGES_def Suc_le_eq simp del: insert_iff)

lemma parse_manifest_Inr:
  "parse_manifest decode b = Inr d \<longleftrightarrow> length b \<le> 1048576 \<and> decode b = Some d \<and> manifest_ok d"
  by (auto simp: parse_manifest_def validate_manifest_Inr MAX_METADATA_BYTES_def not_less)

lemma selected_packages_Inr:
  "selected_packages d py dv = Inr ks \<longleftrightarrow>
     (py \<longrightarrow> (\<exists>k \<in> set (mf_packages d). rp_role k = Role_Python))
     \<and> (dv \<longrightarrow> (\<exists>k \<in> set (mf_packages d). rp_role k = Role_Devel))
     \<and> ks = sort_key rp_name (filter (\<lambda>k. role_selected py dv (rp_role k)) (mf_packages d))"
  by (auto simp: selected_packages_def list_ex_iff)

lemma selected_packages_Inl: "selected_packages d py dv = Inl e \<Longrightarrow> e = unavailable"
  by (auto simp: selected_packages_def and_then_Inl check_each_def first_error.simps ensure_def
      split: if_splits sum.splits)

end
