(* ===== verification/Policy.thy ===== *)
theory Policy
  imports Manifest Matching
begin

text \<open>
  \<open>crates/stack-install/src/policy.rs\<close>: the bootstrap options and the choice of the profile to
  install. The source finds the selected profile in the slice by pointer; here its position is
  that of the element the two filters of \<open>select_profile\<close> keep.
\<close>

record install_options =
  io_dry_run :: bool
  io_yes :: bool
  io_channel :: channel
  io_accept_experimental_risk :: bool
  io_with_python :: bool
  io_with_devel :: bool

definition default_options :: install_options where
  "default_options = \<lparr>io_dry_run = False, io_yes = False, io_channel = Stable,
     io_accept_experimental_risk = False, io_with_python = False, io_with_devel = False\<rparr>"

definition parse_channel :: "string \<Rightarrow> (string, channel) result" where
  "parse_channel v =
     (if v = ''stable'' then Inr Stable
      else if v = ''experimental'' then Inr Experimental_Channel
      else Inl ''channel must be stable or experimental'')"

definition unsupported :: install_error where
  "unsupported = install_err 10 ''INSTALL_PROFILE_UNSUPPORTED''
     ''exactly one compatible profile admitted by this channel is required''"

definition root_refused :: install_error where
  "root_refused = install_err 2 ''INSTALL_ROOT_REFUSED''
     ''run the installer as a normal user; it requests privilege only for the approved native transaction''"

definition risk_mismatch :: install_error where
  "risk_mismatch = install_err 2 ''INSTALL_CHANNEL_RISK_MISMATCH''
     ''experimental requires --accept-experimental-risk; stable rejects that flag''"

definition validate_installable :: "profile \<Rightarrow> (install_error, unit) result" where
  "validate_installable p =
     and_then (map_err (\<lambda>_. metadata_error ''profile validation failed'') (validate p)) (\<lambda>_.
       ensure (is_fedora_44 p) (metadata_error ''profile is outside the Fedora installer boundary''))"

definition selected_position ::
  "profile list \<Rightarrow> platform_facts \<Rightarrow> selection_policy \<Rightarrow> nat option" where
  "selected_position profiles facts policy =
     find (\<lambda>i. status_allowed (p_status (profiles ! i)) (sp_channel policy)
             \<and> platform_matches (profiles ! i) facts) [0..<length profiles]"

definition policy_of :: "install_options \<Rightarrow> selection_policy" where
  "policy_of opts = \<lparr>sp_channel = io_channel opts,
     sp_acknowledge_risk = io_accept_experimental_risk opts\<rparr>"

definition validate_request ::
  "install_options \<Rightarrow> platform_facts \<Rightarrow> profile list \<Rightarrow> (install_error, nat) result" where
  "validate_request opts facts profiles =
     (if pf_effective_root facts then Inl root_refused
      else if (io_channel opts = Experimental_Channel) \<noteq> io_accept_experimental_risk opts
      then Inl risk_mismatch
      else if pf_os_id facts \<noteq> ''fedora'' \<or> pf_os_version_id facts \<noteq> ''44''
           \<or> pf_arch facts \<noteq> ''x86_64''
      then Inl unsupported
      else and_then (check_each validate_installable profiles) (\<lambda>_.
           and_then (map_err (\<lambda>_. unsupported)
                       (select_profile profiles facts (policy_of opts))) (\<lambda>_.
           ok_or unsupported (selected_position profiles facts (policy_of opts)))))"

section \<open>Laws\<close>

lemma filter_single_index:
  "filter P xs = [x] \<longleftrightarrow> (\<exists>i < length xs. xs ! i = x \<and> P x \<and> (\<forall>j < length xs. P (xs ! j) \<longrightarrow> j = i))"
proof
  assume f: "filter P xs = [x]"
  then obtain us vs where xs: "xs = us @ x # vs" "\<forall>u \<in> set us. \<not> P u" "P x" "filter P vs = []"
    by (auto simp: filter_eq_Cons_iff)
  have "j = length us" if "j < length xs" "P (xs ! j)" for j
  proof (rule ccontr)
    assume "j \<noteq> length us"
    then have "xs ! j \<in> set us \<union> set vs" using that(1) xs(1)
      by (auto simp: nth_append nth_Cons')
    with that(2) xs show False by (auto simp: filter_empty_conv)
  qed
  then show "\<exists>i < length xs. xs ! i = x \<and> P x \<and> (\<forall>j < length xs. P (xs ! j) \<longrightarrow> j = i)"
    using xs by (intro exI [of _ "length us"]) auto
next
  assume "\<exists>i < length xs. xs ! i = x \<and> P x \<and> (\<forall>j < length xs. P (xs ! j) \<longrightarrow> j = i)"
  then obtain i where i: "i < length xs" "xs ! i = x" "P x"
    and u: "\<And>j. j < length xs \<Longrightarrow> P (xs ! j) \<Longrightarrow> j = i" by blast
  have xs: "xs = take i xs @ x # drop (Suc i) xs" using id_take_nth_drop [OF i(1)] i(2) by simp
  have "\<not> P y" if y: "y \<in> set (take i xs)" for y
  proof
    from y obtain j where j: "j < i" "y = xs ! j" by (auto simp: in_set_conv_nth)
    assume "P y"
    with u [of j] j i(1) show False by simp
  qed
  moreover have "\<not> P y" if y: "y \<in> set (drop (Suc i) xs)" for y
  proof
    from y obtain j where j: "j < length xs - Suc i" "y = xs ! (Suc i + j)"
      by (auto simp: in_set_conv_nth)
    have "Suc i + j < length xs" using j(1) by arith
    moreover assume "P y"
    ultimately have "Suc i + j = i" using j(2) by (intro u) simp_all
    then show False by simp
  qed
  ultimately show "filter P xs = [x]"
    using i(3) by (subst xs) (simp add: filter_empty_conv)
qed

lemma find_unique_index:
  assumes "i < n" "P i" "\<And>j. j < n \<Longrightarrow> P j \<Longrightarrow> j = i"
  shows "find P [0..<n] = Some i"
proof (cases "find P [0..<n]")
  case None
  then have "\<not> P i" using assms(1) by (simp add: find_None_iff)
  with assms(2) show ?thesis by simp
next
  case (Some k)
  then have "k < n" "P k" by (auto simp: find_Some_iff)
  then have "k = i" by (rule assms(3))
  with Some show ?thesis by simp
qed

text \<open>The position of the one profile the policy admits on this platform.\<close>

definition only_selectable :: "selection_policy \<Rightarrow> platform_facts \<Rightarrow> profile list \<Rightarrow> nat \<Rightarrow> bool" where
  "only_selectable policy facts ps i =
     (i < length ps \<and> (\<forall>j < length ps. selectable policy facts (ps ! j) \<longleftrightarrow> j = i))"

lemma selected_position_only:
  "only_selectable policy facts ps i \<Longrightarrow> selected_position ps facts policy = Some i"
  unfolding selected_position_def only_selectable_def selectable_def
  by (rule find_unique_index) auto

lemma select_profile_only:
  "(\<exists>p. select_profile ps facts policy = Inr p) \<longleftrightarrow>
     \<not> risk_refused policy \<and> (\<exists>i. only_selectable policy facts ps i)"
  by (auto simp: select_profile_Inr filter_single_index only_selectable_def)

lemma only_selectable_unique:
  "only_selectable policy facts ps i \<Longrightarrow> only_selectable policy facts ps j \<Longrightarrow> i = j"
  by (auto simp: only_selectable_def)

lemma validate_installable_Inr:
  "validate_installable p = Inr () \<longleftrightarrow> profile_ok p \<and> is_fedora_44 p"
  by (auto simp: validate_installable_def validate_iff)

definition request_ok :: "install_options \<Rightarrow> platform_facts \<Rightarrow> profile list \<Rightarrow> bool" where
  "request_ok opts facts ps =
     (\<not> pf_effective_root facts
      \<and> (io_channel opts = Experimental_Channel \<longleftrightarrow> io_accept_experimental_risk opts)
      \<and> pf_os_id facts = ''fedora'' \<and> pf_os_version_id facts = ''44'' \<and> pf_arch facts = ''x86_64''
      \<and> (\<forall>p \<in> set ps. profile_ok p \<and> is_fedora_44 p))"

lemma validate_request_Inr:
  "validate_request opts facts ps = Inr i \<longleftrightarrow>
     request_ok opts facts ps \<and> only_selectable (policy_of opts) facts ps i"
proof -
  have risk: "\<not> risk_refused (policy_of opts)"
    if "io_channel opts = Experimental_Channel \<longleftrightarrow> io_accept_experimental_risk opts"
    using that by (auto simp: risk_refused_def policy_of_def)
  have "validate_request opts facts ps = Inr i \<longleftrightarrow> request_ok opts facts ps
      \<and> (\<exists>p. select_profile ps facts (policy_of opts) = Inr p)
      \<and> selected_position ps facts (policy_of opts) = Some i"
    by (auto simp: validate_request_def request_ok_def validate_installable_Inr)
  also have "\<dots> \<longleftrightarrow> request_ok opts facts ps \<and> only_selectable (policy_of opts) facts ps i"
  proof
    assume l: "request_ok opts facts ps \<and> (\<exists>p. select_profile ps facts (policy_of opts) = Inr p)
      \<and> selected_position ps facts (policy_of opts) = Some i"
    then obtain j where j: "only_selectable (policy_of opts) facts ps j"
      by (auto simp: select_profile_only)
    with l selected_position_only [OF j] show "request_ok opts facts ps
      \<and> only_selectable (policy_of opts) facts ps i" by simp
  next
    assume r: "request_ok opts facts ps \<and> only_selectable (policy_of opts) facts ps i"
    then have "\<not> risk_refused (policy_of opts)" using risk by (simp add: request_ok_def)
    with r show "request_ok opts facts ps \<and> (\<exists>p. select_profile ps facts (policy_of opts) = Inr p)
      \<and> selected_position ps facts (policy_of opts) = Some i"
      unfolding select_profile_only using selected_position_only by blast
  qed
  finally show ?thesis .
qed

end
