(* ===== verification/Platform_Properties.thy ===== *)
theory Platform_Properties
  imports Samples Policy
begin

text \<open>
  The properties of the crates \<open>stack-schema\<close>, \<open>stack-platform\<close> and \<open>stack-core\<close>: the languages the
  parsers accept, the round trips, the choice of a profile and the verdict of a report.
\<close>

section \<open>Kernel releases\<close>

text \<open>A kernel release is accepted exactly when it is three dotted decimal components, each
below \<open>2 ^ 64\<close>, with an optional nonempty suffix free of white space after the first dash; the
version is those three numbers, and every other string is refused with one error value.\<close>

theorem kernel_release_exact:
  "(parse_release s = Inr v \<longleftrightarrow> release_grammar s v)
   \<and> (parse_release s = Inl e \<longleftrightarrow> (\<nexists>w. release_grammar s w) \<and> e = invalid_kernel s)"
  using parse_release_Inl [of s] by (cases "parse_release s") (auto simp flip: parse_release_iff)

text \<open>A distribution suffix: a dash and visible ASCII characters.\<close>

definition distribution_suffix :: "string \<Rightarrow> bool" where
  "distribution_suffix t =
     (t = [] \<or> (\<exists>u. t = CHR ''-'' # u \<and> u \<noteq> [] \<and> list_all is_graph u))"

text \<open>Parsing inverts printing: the dotted form of a version, followed by any distribution
suffix, is read back as that version.\<close>

theorem kernel_release_roundtrip:
  "distribution_suffix t \<Longrightarrow> parse_release (render_version v @ t) = Inr v"
proof -
  assume t: "distribution_suffix t"
  then have "list_all is_graph (render_version v @ t)"
    using render_graph [of v] by (auto simp: distribution_suffix_def is_graph_def)
  then have "trim (render_version v @ t) = render_version v @ t" by (rule trim_graph)
  moreover have "numeric_part (render_version v @ t) = Some (render_version v)"
    using t render_no_dash [of v] split_once_None [THEN iffD2, OF render_no_dash [of v]]
    by (auto simp: distribution_suffix_def numeric_part_def any_whitespace_graph)
  ultimately show ?thesis
    using render_components [of v] unfolding parse_release_iff release_grammar_def by simp
qed

theorem kernel_release_roundtrip_witness:
  "parse_release (render_version (KernelVersion 6 15 2) @ ''-200.fc44.x86_64'')
     = Inr (KernelVersion 6 15 2)"
  by (rule kernel_release_roundtrip) (simp add: distribution_suffix_def is_graph_def)

section \<open>Profiles\<close>

text \<open>C3. A profile document is accepted exactly when it is at most one mebibyte, the decoder
accepts it and the decoded profile is well formed: schema version 1, all scalars bounded, clean
platform fields, lower-case PCI identifiers, strictly sorted conflicts, a nonempty kernel interval
of \<open>intel_vpu\<close>, exactly the six required components, each with a sound provider and licence, and
evidence when it is qualified. Nothing but the decoded profile is returned.\<close>

theorem profile_document_exact:
  "parse_toml from_str input = Inr p \<longleftrightarrow>
     length input \<le> MAX_PROFILE_BYTES \<and> from_str input = Inr p \<and> profile_ok p"
  by (rule parse_toml_Inr)

section \<open>Choosing a profile\<close>

lemma select_profile_Risk:
  "select_profile ps facts policy = Inl Risk_Acknowledgement_Required \<longleftrightarrow> risk_refused policy"
  by (rule select_profile_cases [of policy ps facts]) simp_all

text \<open>C31. The outcome of the selection is decided by the policy and by how many profiles are
selectable: an unacknowledged experimental channel is refused before anything else, no selectable
profile and more than one are different errors, the second naming every candidate in order, and a
profile is returned exactly when it is the only selectable one.\<close>

theorem selection_classified:
  "(select_profile ps facts policy = Inl Risk_Acknowledgement_Required \<longleftrightarrow> risk_refused policy)
   \<and> (select_profile ps facts policy = Inl No_Compatible_Profile \<longleftrightarrow>
       \<not> risk_refused policy \<and> filter (selectable policy facts) ps = [])
   \<and> (select_profile ps facts policy = Inl (Ambiguous_Profiles ids) \<longleftrightarrow>
       \<not> risk_refused policy \<and> 2 \<le> length (filter (selectable policy facts) ps)
       \<and> ids = sort (map p_id (filter (selectable policy facts) ps)))
   \<and> (select_profile ps facts policy = Inr p \<longleftrightarrow> \<not> risk_refused policy
       \<and> (\<exists>i. only_selectable policy facts ps i \<and> p = ps ! i))"
proof (intro conjI)
  have only: "filter (selectable policy facts) ps = [p] \<longleftrightarrow>
      (\<exists>i. only_selectable policy facts ps i \<and> p = ps ! i)"
    unfolding filter_single_index only_selectable_def by blast
  show "select_profile ps facts policy = Inr p \<longleftrightarrow> \<not> risk_refused policy
      \<and> (\<exists>i. only_selectable policy facts ps i \<and> p = ps ! i)"
    unfolding select_profile_Inr only ..
  show "select_profile ps facts policy = Inl Risk_Acknowledgement_Required \<longleftrightarrow> risk_refused policy"
    by (rule select_profile_Risk)
  show "select_profile ps facts policy = Inl No_Compatible_Profile \<longleftrightarrow>
      \<not> risk_refused policy \<and> filter (selectable policy facts) ps = []"
    unfolding select_profile_None by (simp add: filter_empty_conv)
qed (rule select_profile_Ambiguous)

text \<open>A selected profile belongs to the list, matches the platform and contains the running
kernel in its half-open interval; on the stable channel it is qualified, and on the experimental
one it is qualified or experimental. Candidates, deprecated and unsupported profiles are never
selected.\<close>

theorem selected_profile_fits:
  assumes "select_profile ps facts policy = Inr p"
  shows "p \<in> set ps \<and> platform_matches p facts
    \<and> p_status p \<in> (if sp_channel policy = Stable then {Qualified}
        else {Qualified, profile_status.Experimental})
    \<and> (\<exists>lo hi. release_grammar (kr_min (p_kernel p)) lo
         \<and> release_grammar (kr_max_exclusive (p_kernel p)) hi
         \<and> lo \<le> pf_kernel facts \<and> pf_kernel facts < hi)"
proof -
  from assms have "filter (selectable policy facts) ps = [p]" by (simp add: select_profile_Inr)
  then have "p \<in> set (filter (selectable policy facts) ps)" by simp
  then have p: "p \<in> set ps" "status_allowed (p_status p) (sp_channel policy)"
      "platform_matches p facts"
    by (auto simp: selectable_def)
  then have "\<exists>lo hi. release_grammar (kr_min (p_kernel p)) lo
      \<and> release_grammar (kr_max_exclusive (p_kernel p)) hi
      \<and> lo \<le> pf_kernel facts \<and> pf_kernel facts < hi"
    by (auto simp: platform_matches_def kernel_matches_def simp flip: parse_release_iff
        split: sum.splits)
  with p show ?thesis by (auto simp: status_allowed_def split: channel.splits)
qed

abbreviation risky :: selection_policy where
  "risky \<equiv> \<lparr>sp_channel = Experimental_Channel, sp_acknowledge_risk = True\<rparr>"

lemma sample_selected: "select_profile [sample_profile] sample_facts risky = Inr sample_profile"
  using sample_selectable by (simp add: select_profile_Inr risk_refused_def)

theorem selected_profile_fits_witness:
  "platform_matches sample_profile sample_facts"
  using selected_profile_fits [OF sample_selected] by simp

lemma single_perm: "mset [p] = mset qs \<Longrightarrow> qs = [p]"
  by simp

text \<open>C32. The selection does not depend on the order in which the profiles were loaded, errors
included.\<close>

theorem selection_order_independent:
  assumes "mset ps = mset qs"
  shows "select_profile ps facts policy = select_profile qs facts policy"
proof -
  let ?f = "filter (selectable policy facts)"
  have m: "mset (?f ps) = mset (?f qs)" using assms by simp
  then have ids: "sort (map p_id (?f ps)) = sort (map p_id (?f qs))"
    by (intro sort_perm) simp
  from m have len: "length (?f ps) = length (?f qs)" by (rule mset_eq_length)
  show ?thesis
  proof (cases rule: select_profile_cases [of policy ps facts])
    case risk
    then show ?thesis using select_profile_Risk [of qs facts policy] by simp
  next
    case none
    with len have "?f qs = []" by simp
    with none show ?thesis
      using select_profile_None [of qs facts policy] by (simp add: filter_empty_conv)
  next
    case (one p)
    have "?f qs = [p]" by (rule single_perm) (use m one in \<open>simp only:\<close>)
    with one show ?thesis using select_profile_Inr [of qs facts policy p] by simp
  next
    case many
    with len have "select_profile qs facts policy =
        Inl (Ambiguous_Profiles (sort (map p_id (?f qs))))"
      by (simp add: select_profile_Ambiguous)
    with many ids show ?thesis by simp
  qed
qed

theorem selection_order_independent_witness:
  "select_profile [sample_profile, sample_profile\<lparr>p_id := ''other''\<rparr>] sample_facts risky
     = select_profile [sample_profile\<lparr>p_id := ''other''\<rparr>, sample_profile] sample_facts risky"
  by (rule selection_order_independent) simp

section \<open>Platform facts\<close>

text \<open>One line of an \<open>os-release\<close> document, written with a quoted value.\<close>

definition os_line :: "string \<times> string \<Rightarrow> string" where
  "os_line kv = fst kv @ CHR ''='' # quote_value (snd kv)"

definition os_assignment :: "string \<times> string \<Rightarrow> bool" where
  "os_assignment kv = (assignment_key (fst kv) \<and> nl \<notin> set (snd kv))"

lemma assignment_key_chars:
  assumes "assignment_key k"
  shows "k \<noteq> []" "CHR ''='' \<notin> set k" "nl \<notin> set k" "hd k \<noteq> CHR ''#''"
proof -
  have "c \<noteq> CHR ''='' \<and> c \<noteq> nl \<and> c \<noteq> CHR ''#''"
    if "is_upper c \<or> is_digit c \<or> c = CHR ''_''" for c
    using that by (auto simp: ascii_simps)
  with assms show "k \<noteq> []" "CHR ''='' \<notin> set k" "nl \<notin> set k" "hd k \<noteq> CHR ''#''"
    unfolding assignment_key_def list_all_iff by (cases k; fastforce)+
qed

lemma os_line_facts:
  assumes "os_assignment kv"
  shows "os_line kv \<noteq> []" "hd (os_line kv) \<noteq> CHR ''#''" "nl \<notin> set (os_line kv)"
    "last (os_line kv) = dquote"
  using assms assignment_key_chars [of "fst kv"]
  by (auto simp: os_line_def os_assignment_def quote_value_nl quote_value_last)

lemma str_lines_document:
  "\<forall>kv \<in> set kvs. os_assignment kv \<Longrightarrow>
   str_lines (concat (map (\<lambda>kv. os_line kv @ [nl]) kvs)) = map os_line kvs"
proof (induction kvs)
  case (Cons kv kvs)
  then have "os_assignment kv" by simp
  from os_line_facts [OF this] Cons show ?case
    by (simp add: str_lines_app)
qed simp

lemma parse_lines_document:
  "\<forall>kv \<in> set kvs. os_assignment kv \<Longrightarrow> distinct (map fst kvs) \<Longrightarrow>
   \<forall>kv \<in> set kvs. bm_get m (fst kv) = None \<Longrightarrow>
   parse_lines i (map os_line kvs) m = Inr (bm_collect kvs m)"
proof (induction kvs arbitrary: i m)
  case (Cons kv kvs)
  then have a: "os_assignment kv" by simp
  then have k: "assignment_key (fst kv)" by (simp add: os_assignment_def)
  have "parse_line (i + 1) (os_line kv) m = Inr (bm_insert (fst kv) (snd kv) m)"
    unfolding os_line_def using Cons.prems k assignment_key_chars [OF k]
    by (intro parse_line_assignment) auto
  moreover have "fst kv' \<noteq> fst kv" if "kv' \<in> set kvs" for kv'
  proof
    assume "fst kv' = fst kv"
    with imageI [OF that, of fst] have "fst kv \<in> fst ` set kvs" by simp
    with Cons.prems(2) show False by simp
  qed
  then have "parse_lines (i + 1) (map os_line kvs) (bm_insert (fst kv) (snd kv) m)
      = Inr (bm_collect kvs (bm_insert (fst kv) (snd kv) m))"
    using Cons.prems by (intro Cons.IH) simp_all
  ultimately show ?case
    using parse_lines_plain [OF os_line_facts(1,2) [OF a]]
    by (simp add: bm_collect_Cons)
qed simp

lemma map_of_rev_distinct:
  assumes "distinct (map fst kvs)"
  shows "map_of (rev kvs) = map_of kvs"
proof
  fix k
  have "map_of (rev kvs) k = Some v \<longleftrightarrow> map_of kvs k = Some v" for v
    using assms map_of_eq_Some_iff [of "rev kvs" k v] map_of_eq_Some_iff [of kvs k v]
    by (simp add: rev_map [symmetric])
  then show "map_of (rev kvs) k = map_of kvs k" by (metis not_Some_eq)
qed

text \<open>C39. The \<open>os-release\<close> parser inverts the writer: a document of assignments with distinct keys
and double-quoted values, whatever characters but a newline the values contain, is read back as its
\<open>ID\<close> and \<open>VERSION_ID\<close>.\<close>

theorem os_release_roundtrip:
  assumes "\<forall>kv \<in> set kvs. os_assignment kv" "distinct (map fst kvs)"
    and "map_of kvs ''ID'' = Some i" "i \<noteq> []" "map_of kvs ''VERSION_ID'' = Some v" "v \<noteq> []"
  shows "parse_os_release (concat (map (\<lambda>kv. os_line kv @ [nl]) kvs))
    = Inr \<lparr>or_id = i, or_version_id = v\<rparr>"
proof -
  have "parse_lines 0 (str_lines (concat (map (\<lambda>kv. os_line kv @ [nl]) kvs))) []
      = Inr (bm_of_list kvs)"
    unfolding str_lines_document [OF assms(1)] bm_of_list_def
    by (intro parse_lines_document assms ballI) simp
  moreover have "bm_get (bm_of_list kvs) k = map_of kvs k" for k
    using assms(2) by (simp add: bm_of_list_get map_of_rev_distinct)
  ultimately show ?thesis
    using assms(3-6) by (simp add: parse_os_release_def required_value_def ok_or_def)
qed

theorem os_release_roundtrip_witness:
  "parse_os_release (concat (map (\<lambda>kv. os_line kv @ [nl])
     [(''ID'', ''fedora''), (''NAME'', ''a\"$ b''), (''VERSION_ID'', ''44'')]))
   = Inr \<lparr>or_id = ''fedora'', or_version_id = ''44''\<rparr>"
  by (rule os_release_roundtrip) (simp_all add: os_assignment_def assignment_key_def ascii_simps)

text \<open>A PCI identifier read from sysfs is normalised to four lower-case hexadecimal digits;
normalising again changes nothing, and the form sysfs prints (a \<open>0x\<close> prefix and a newline) of the
result is read back as the result.\<close>

theorem pci_identifier_normal_form:
  assumes "normalize_pci_id raw = Inr v"
  shows "is_lower_hex_quad v \<and> normalize_pci_id v = Inr v
    \<and> normalize_pci_id (''0x'' @ v @ [nl]) = Inr v"
proof -
  from assms have q: "is_lower_hex_quad v" by (rule normalize_pci_id_quad)
  then have "list_all is_hexdigit v" "ascii_lowercase v = v" "length v = 4"
    using ascii_lowercase_fixed [of v] lower_hex_hexdigit
    by (auto simp: is_lower_hex_quad_def list_all_iff)
  then show ?thesis
    using q quad_trim [OF q] quad_no_0x [OF q] by (simp add: normalize_pci_id_def Let_def)
qed

theorem pci_identifier_normal_form_witness:
  "normalize_pci_id (''0x'' @ ''7d1d'' @ [nl]) = Inr ''7d1d''"
proof -
  have "to_lower CHR ''D'' = CHR ''d''" by code_simp
  then have "normalize_pci_id ''0X7D1d'' = Inr ''7d1d''"
    by (simp add: normalize_pci_id_def trim_graph is_graph_def ascii_lowercase_def lower_hex_fixed
        ascii_simps)
  from pci_identifier_normal_form [OF this] show ?thesis by simp
qed

lemma detect_platform_steps:
  assumes "detect_platform fs root arch = Inr facts"
  obtains doc os release ids status stat where
    "arch \<noteq> []" "trim arch = arch" "pf_arch facts = arch"
    "read_fact fs root ''etc/os-release'' = Inr doc" "parse_os_release doc = Inr os"
    "pf_os_id facts = or_id os" "pf_os_version_id facts = or_version_id os"
    "read_fact fs root ''proc/sys/kernel/osrelease'' = Inr release"
    "parse_release (trim_end release) = Inr (pf_kernel facts)"
    "read_pci_ids fs (path_join root ''sys/bus/pci/devices'') = Inr ids"
    "pf_pci_ids facts = remdups_adj (sort ids)"
    "read_bounded fs root ''proc/self/status'' ''PLATFORM_PROCESS_INVALID'' = Inr status"
    "parse_effective_root status = Inr (pf_effective_root facts)"
    "read_bounded fs root ''proc/stat'' ''PLATFORM_BOOT_TIME_INVALID'' = Inr stat"
    "parse_boot_time stat = Inr (pf_boot_time_epoch facts)"
  using assms by (auto simp: detect_platform_def and_then_Inr map_err_Inr split: if_splits)

text \<open>Detected facts are what the root file system says and are normalised: the kernel is the
parsed running release, the effective user and the boot time are parsed from their \<open>proc\<close> files,
the distribution fields are those of the \<open>os-release\<close> document and not empty, the architecture is
clean, and the PCI identifiers are strictly sorted lower-case quads, one for each device that was
read.\<close>

theorem detected_facts_normal:
  assumes "detect_platform fs root arch = Inr facts"
  shows "pf_arch facts = arch \<and> trim arch = arch \<and> arch \<noteq> []
    \<and> pf_os_id facts \<noteq> [] \<and> pf_os_version_id facts \<noteq> []
    \<and> (\<exists>release. read_fact fs root ''proc/sys/kernel/osrelease'' = Inr release
         \<and> release_grammar (trim_end release) (pf_kernel facts))
    \<and> (\<exists>ids. read_pci_ids fs (path_join root ''sys/bus/pci/devices'') = Inr ids
         \<and> sorted_wrt (<) (pf_pci_ids facts) \<and> set (pf_pci_ids facts) = set ids
         \<and> list_all (\<lambda>h. is_lower_hex_quad (vendor h) \<and> is_lower_hex_quad (device h))
             (pf_pci_ids facts))
    \<and> (\<exists>status. read_bounded fs root ''proc/self/status'' ''PLATFORM_PROCESS_INVALID'' = Inr status
         \<and> parse_effective_root status = Inr (pf_effective_root facts))
    \<and> (\<exists>stat. read_bounded fs root ''proc/stat'' ''PLATFORM_BOOT_TIME_INVALID'' = Inr stat
         \<and> parse_boot_time stat = Inr (pf_boot_time_epoch facts))"
proof -
  from assms obtain doc os release ids status stat where d:
    "arch \<noteq> []" "trim arch = arch" "pf_arch facts = arch"
    "read_fact fs root ''etc/os-release'' = Inr doc" "parse_os_release doc = Inr os"
    "pf_os_id facts = or_id os" "pf_os_version_id facts = or_version_id os"
    "read_fact fs root ''proc/sys/kernel/osrelease'' = Inr release"
    "parse_release (trim_end release) = Inr (pf_kernel facts)"
    "read_pci_ids fs (path_join root ''sys/bus/pci/devices'') = Inr ids"
    "pf_pci_ids facts = remdups_adj (sort ids)"
    "read_bounded fs root ''proc/self/status'' ''PLATFORM_PROCESS_INVALID'' = Inr status"
    "parse_effective_root status = Inr (pf_effective_root facts)"
    "read_bounded fs root ''proc/stat'' ''PLATFORM_BOOT_TIME_INVALID'' = Inr stat"
    "parse_boot_time stat = Inr (pf_boot_time_epoch facts)"
    by (rule detect_platform_steps)
  have "list_all (\<lambda>h. is_lower_hex_quad (vendor h) \<and> is_lower_hex_quad (device h)) ids"
    using read_pci_ids_quads [OF d(10)] by (simp add: list_all_iff)
  then show ?thesis
    using d(1-3,6-15) parse_os_release_nonempty [OF d(5)] sort_dedup_strict [of ids]
    by (simp add: parse_release_iff list_all_iff)
qed

lemmas sample_fs_eval = sample_fs_def sample_files_def sample_dirs_def path_join_def
  starts_with_def ends_with_def

lemmas text_eval = str_lines_def chomp_def strip_suffix_def starts_with_def ascii_simps
  is_graph_def split_ascii_whitespace_def any_whitespace_graph trim_end_graph_nl trim_end_graph

lemma sample_os_release:
  "parse_os_release (''ID=fedora'' @ [nl] @ ''VERSION_ID=44'' @ [nl])
     = Inr \<lparr>or_id = ''fedora'', or_version_id = ''44''\<rparr>"
  by (simp add: text_eval parse_os_release_def parse_line_def assignment_key_def
      parse_value_def required_value_def ok_or_def)

lemma sample_status:
  "parse_effective_root (''Uid:'' @ [tab] @ ''1000 1000 1000 1000'' @ [nl]) = Inr False"
  by (simp add: text_eval parse_effective_root_def map_filter_simps all_digits_def parse_u32_def
      parse_unsigned_def dec_def digit_val_def ok_or_def)

lemma sample_stat: "parse_boot_time (''btime 1000'' @ [nl]) = Inr 1000"
  by (simp add: text_eval parse_boot_time_def btime_row_def map_filter_simps all_digits_def
      parse_u64_def parse_unsigned_def dec_def digit_val_def ok_or_def)

lemma sample_ids:
  "read_pci_ids sample_fs ''/sys/bus/pci/devices'' = Inr [PciId ''8086'' ''7d1d'']"
proof -
  have low: "to_lower CHR ''D'' = CHR ''d''" by code_simp
  have trim: "trim (''0x8086'' @ [nl]) = ''0x8086''" "trim (''0x7D1D'' @ [nl]) = ''0x7D1D''"
    by (simp_all add: trim_def seq_len_def is_whitespace_def code_point_def)
  have ids: "normalize_pci_id (''0x8086'' @ [nl]) = Inr ''8086''"
    "normalize_pci_id (''0x7D1D'' @ [nl]) = Inr ''7d1d''"
    unfolding normalize_pci_id_def trim
    by (simp_all add: ascii_lowercase_def lower_hex_fixed low ascii_simps)
  show ?thesis using ids
    by (simp add: read_pci_ids_def read_pci_id_def sample_fs_eval read_to_string_def
        utf8_valid_ascii is_ascii_def pci_io_def)
qed

lemma sample_release_running:
  "parse_release ''6.15.2-200.fc44.x86_64'' = Inr (KernelVersion 6 15 2)"
  by (simp add: parse_release_def trim_graph is_graph_def numeric_part_def any_whitespace_graph
      numeric_component_def all_digits_def is_digit_def parse_u64_def parse_unsigned_def dec_def
      digit_val_def ok_or_def and_then_def)

lemma sample_detected: "detect_platform sample_fs ''/'' ''x86_64'' = Inr sample_facts"
proof -
  have "read_pci_ids sample_fs (path_join ''/'' ''sys/bus/pci/devices'') = Inr [PciId ''8086'' ''7d1d'']"
    using sample_ids by (simp add: path_join_def starts_with_def ends_with_def)
  moreover have "has_accel_node sample_fs (path_join ''/'' ''dev/accel'') = Inr True"
    by (simp add: has_accel_node_def sample_fs_eval accel_name_def all_digits_def ascii_simps)
  moreover have "trim_end (''6.15.2-200.fc44.x86_64'' @ [nl]) = ''6.15.2-200.fc44.x86_64''"
    by (rule trim_end_graph_nl) (simp add: is_graph_def)
  moreover have "read_fact sample_fs ''/'' ''etc/os-release''
      = Inr (''ID=fedora'' @ [nl] @ ''VERSION_ID=44'' @ [nl])"
    "read_fact sample_fs ''/'' ''proc/sys/kernel/osrelease'' = Inr (''6.15.2-200.fc44.x86_64'' @ [nl])"
    "read_fact sample_fs ''/'' ''proc/modules'' = Inr (''intel_vpu 1 0 - Live'' @ [nl])"
    by (simp_all add: read_fact_def read_to_string_def sample_fs_eval utf8_valid_ascii is_ascii_def)
  moreover have "read_bounded sample_fs ''/'' ''proc/self/status'' c
      = Inr (''Uid:'' @ [tab] @ ''1000 1000 1000 1000'' @ [nl])"
    "read_bounded sample_fs ''/'' ''proc/stat'' c = Inr (''btime 1000'' @ [nl])" for c
    by (simp_all add: read_bounded_def sample_fs_eval utf8_valid_ascii is_ascii_def FACT_LIMIT_def)
  moreover have "list_ex module_line (str_lines (''intel_vpu 1 0 - Live'' @ [nl]))"
    by (simp add: text_eval module_line_def)
  moreover have "trim ''x86_64'' = ''x86_64''" by (simp add: trim_graph is_graph_def)
  ultimately show ?thesis
    by (simp only: detect_platform_def sample_os_release sample_status sample_stat
        sample_release_running and_then_simps map_err_simps) (simp add: sample_facts_def)
qed

theorem detected_facts_normal_witness:
  "sorted_wrt (<) (pf_pci_ids sample_facts) \<and> pf_os_id sample_facts \<noteq> []"
  using detected_facts_normal [OF sample_detected]
  by (elim conjE exE) (intro conjI; assumption)

section \<open>The verdict of a report\<close>

text \<open>Finalising a report sorts its checks, drops repeated PCI identifiers and sets the
overall status; doing it again changes nothing. The process then exits with 1 exactly when some
required check failed or was blocked, and the report is \<open>passed\<close> exactly when every check,
optional ones included, passed.\<close>

theorem finalized_verdict:
  "finalize (finalize r) = finalize r
   \<and> mset (dr_checks (finalize r)) = mset (dr_checks r)
   \<and> sorted (map dc_id (dr_checks (finalize r)))
   \<and> exit_code (finalize r) = (if list_ex required_bad (dr_checks r) then 1 else 0)
   \<and> (dr_overall (finalize r) = Overall_Passed \<longleftrightarrow> list_all (\<lambda>c. dc_status c = Pass) (dr_checks r))"
proof -
  have "exit_code (finalize r) = (if \<exists>c \<in> set (dr_checks r). required_bad c then 1 else 0)"
    by (rule exit_code_aggregate) simp
  then show ?thesis
    by (simp add: finalize_idem aggregate_passed list_ex_iff list_all_iff)
qed

end
