(* ===== verification/Inspect_Laws.thy ===== *)
theory Inspect_Laws
  imports Inspect
begin

text \<open>
  What \<open>status\<close> and \<open>doctor\<close> report whatever the system answers. The locale \<open>inspectors\<close> is the
  contract of the three inspector traits; its lemmas are about the composition of
  \<open>inspect.rs\<close>. The interpretation \<open>production\<close> proves the contract of the package, device and
  activity models.
\<close>

section \<open>Identifiers\<close>

lemma map_sort_key: "map f (sort_key f xs) = sort (map f xs)"
  by (rule properties_for_sort [symmetric]) simp_all

lemma sort_eqI: "mset xs = mset ys \<Longrightarrow> sorted ys \<Longrightarrow> sort xs = ys"
  by (rule properties_for_sort) simp_all

definition PREFLIGHT_IDS :: "string list" where
  "PREFLIGHT_IDS = [''firmware.installed'', ''kernel.module'']
     @ map package_id REQUIRED_COMPONENTS @ [''platform.profile'']"

definition STATUS_IDS :: "string list" where
  "STATUS_IDS = [''device.access'', ''device.node''] @ PREFLIGHT_IDS
     @ [''runtime.level_zero'', ''runtime.openvino'']"

definition DOCTOR_IDS :: "string list" where
  "DOCTOR_IDS = [''device.access'', ''device.node''] @ PREFLIGHT_IDS
     @ [''runtime.activity'', ''runtime.inference'', ''runtime.level_zero'', ''runtime.openvino'']"

lemma sorted_ids: "sorted PREFLIGHT_IDS" "sorted STATUS_IDS" "sorted DOCTOR_IDS"
  unfolding PREFLIGHT_IDS_def STATUS_IDS_def DOCTOR_IDS_def REQUIRED_COMPONENTS_def package_id_def
  by simp_all

lemma required_keys:
  assumes "bm_wf m" "set (bm_keys m) = set REQUIRED_COMPONENTS"
  shows "map fst m = REQUIRED_COMPONENTS"
proof -
  have "sorted_wrt (<) (map fst m)" using assms(1) by (simp add: bm_wf_def)
  with required_components_sorted show ?thesis
    using assms(2) unfolding bm_keys_def strict_sorted_iff
    by (intro sorted_distinct_set_unique) auto
qed

definition supported_profile :: "profile \<Rightarrow> bool" where
  "supported_profile p = (bm_wf (p_components p) \<and> profile_ok p)"

lemma package_ids_of_supported:
  assumes "supported_profile p" "package_checks_shape (p_components p) cs"
  shows "map dc_id cs = map package_id REQUIRED_COMPONENTS"
proof -
  have "map fst (p_components p) = REQUIRED_COMPONENTS"
    using assms(1) required_keys by (auto simp: supported_profile_def profile_ok_def)
  then have "map package_id (map fst (p_components p)) = map package_id REQUIRED_COMPONENTS"
    by (rule arg_cong)
  with package_checks_ids [OF assms(2)] show ?thesis by (simp add: comp_def)
qed

section \<open>The checks one by one\<close>

lemma failed_check_simps [simp]:
  "dc_id (failed_check i sm c) = i" "dc_status (failed_check i sm c) = Fail"
  "dc_requirement (failed_check i sm c) = Required"
  by (simp_all add: failed_check_def)

lemma kernel_check_id [simp]:
  "dc_id (kernel_check f) = ''kernel.module''" "dc_requirement (kernel_check f) = Required"
  by (simp_all add: kernel_check_def)

lemma firmware_check_id [simp]:
  "dc_id (firmware_check cs a) = ''firmware.installed''"
  "dc_requirement (firmware_check cs a) = Required"
  by (simp_all add: firmware_check_def split: option.split)

lemma level_zero_check_id [simp]:
  "dc_id (fst (level_zero_check p r)) = ''runtime.level_zero''"
  "dc_requirement (fst (level_zero_check p r)) = Required"
  by (simp_all add: level_zero_check_def split: sum.split probe_observations.split)

lemma enumerate_check_id [simp]:
  "dc_id (openvino_enumerate_check r) = ''runtime.openvino''"
  "dc_requirement (openvino_enumerate_check r) = Required"
  by (simp_all add: openvino_enumerate_check_def split: sum.split probe_observations.split)

definition infer_shape :: "diagnostic_check list \<Rightarrow> bool" where
  "infer_shape cs = (map dc_id cs = [''runtime.openvino'', ''runtime.inference'']
     \<and> list_all (\<lambda>c. dc_requirement c = Required) cs)"

lemma infer_checks_shape [simp]:
  "infer_shape (openvino_infer_failure code b)" "infer_shape (openvino_infer_checks r)"
proof -
  show *: "infer_shape (openvino_infer_failure code b)" for code b
    by (simp add: infer_shape_def openvino_infer_failure_def)
  show "infer_shape (openvino_infer_checks r)"
  proof (cases r)
    case (Inr report)
    then show ?thesis
      by (cases "pr_observations report")
        (simp_all add: openvino_infer_checks_def *, simp add: infer_shape_def)
  qed (simp add: openvino_infer_checks_def *)
qed

lemma firmware_check_Pass:
  "dc_status (firmware_check cs a) = Pass \<longleftrightarrow>
     (\<exists>c. find (\<lambda>c. dc_id c = ''package.npu_firmware'') cs = Some c \<and> dc_status c = Pass) \<and> a = Ready"
  by (cases a) (auto simp: firmware_check_def split: option.split)

lemma level_zero_Pass:
  assumes "dc_status (fst (level_zero_check p probe)) = Pass"
  shows "\<exists>report obs. probe = Inr report \<and> pr_outcome report = Outcome_Pass
     \<and> pr_observations report = Obs_Level_Zero obs \<and> vpu_matches p obs"
proof (cases probe)
  case (Inl f)
  with assms show ?thesis by (simp add: level_zero_check_def)
next
  case (Inr report)
  with assms show ?thesis
    by (cases "pr_outcome report"; cases "pr_observations report")
      (auto simp: level_zero_check_def split: if_splits)
qed

lemma probe_report_of_Inr:
  "probe_report_of ser probe mode res = Inr r \<longleftrightarrow>
     (\<exists>po. res = Inr po \<and> \<not> po_stdout_overflow po \<and> \<not> po_stderr_overflow po
        \<and> po_termination po = Exit 0 \<and> parse_probe_output ser (po_stdout po) probe mode = Inr r)"
  by (auto simp: probe_report_of_def)

lemma failed_code_known:
  "report_ok probe mode r \<Longrightarrow> pr_outcome r = Outcome_Fail \<Longrightarrow>
   \<exists>c. pr_error_code r = Some c \<and> failed_code r = probe_error_code c"
  by (auto simp: report_ok_def failed_code_def)

lemma probe_error_code_inj: "inj probe_error_code"
  by (rule injI) (auto simp: probe_error_code_def split: probe_error_code.splits)

lemma finish_ids:
  "mset (map dc_id (ir_checks r)) = mset ids \<Longrightarrow> sorted ids \<Longrightarrow>
   map dc_id (ir_checks (finish r)) = ids"
  by (simp add: finish_def map_sort_key sort_eqI)

section \<open>The contract of the inspectors\<close>

definition device_shape :: "device_inspection \<Rightarrow> bool" where
  "device_shape d = (map dc_id (di_checks d) = [''device.node'', ''device.access''])"

definition device_required :: "device_inspection \<Rightarrow> bool" where
  "device_required d = list_all (\<lambda>c. dc_requirement c = Required) (di_checks d)"

definition access_refused :: "device_inspection \<Rightarrow> bool" where
  "access_refused d = (\<exists>c \<in> set (di_checks d). dc_id c = ''device.access'' \<and> dc_status c \<noteq> Pass
     \<and> required_bad c)"

locale inspectors =
  fixes ins :: "'e runtime_inspector"
    and query :: "process_request \<Rightarrow> bool"
  assumes packages_shape: "bm_wf (p_components p) \<Longrightarrow>
      pred_state (\<lambda>r. package_checks_shape (p_components p) (pi_checks r)) (in_packages ins p)"
    and packages_run: "only_runs query (in_packages ins p)"
    and devices_shape: "pred_state device_shape (in_devices ins root er cmd)"
    and devices_required: "pred_state device_required (in_devices ins root er Doctor)"
    and devices_root: "pred_state access_refused (in_devices ins root True Doctor)"
    and devices_run: "only_runs (\<lambda>_. False) (in_devices ins root er cmd)"
    and activity_run: "only_runs (\<lambda>_. False) (in_activity ins root)"
begin

definition level_zero_request :: process_request where
  "level_zero_request =
     probe_request (rt_level_zero_helper (in_paths ins)) Enumerate LEVEL_ZERO_TIMEOUT"

definition helper_request :: "probe_mode \<Rightarrow> process_request" where
  "helper_request mode = probe_request (rt_openvino_helper (in_paths ins)) mode
     (case mode of Enumerate \<Rightarrow> OPENVINO_ENUMERATE_TIMEOUT | Infer \<Rightarrow> OPENVINO_INFER_TIMEOUT)"

definition allowed :: "probe_mode \<Rightarrow> process_request \<Rightarrow> bool" where
  "allowed mode rq = (query rq \<or> rq = level_zero_request \<or> rq = helper_request mode)"

lemma only_runs_probe:
  "R (probe_request x mode t) \<Longrightarrow> only_runs R (run_probe ins x probe mode t)"
  by (auto simp: run_probe_def valid_executable_path_def)

lemma only_runs_preflight: "only_runs query (inspect_preflight ins p facts)"
  by (auto simp: inspect_preflight_def intro!: packages_run)

lemma only_runs_common: "only_runs query (inspect_common ins p facts cmd)"
  by (auto simp: inspect_common_def intro!: only_runs_preflight
      intro: only_runs_weaken [OF devices_run])

lemma only_runs_level_zero: "only_runs (allowed mode) (run_level_zero ins p)"
  by (auto simp: run_level_zero_def allowed_def level_zero_request_def intro!: only_runs_probe)

lemma status_runs: "only_runs (allowed Enumerate) (inspect_status ins p facts)"
  by (auto simp: inspect_status_def run_openvino_enumerate_def allowed_def helper_request_def
      intro!: only_runs_probe only_runs_level_zero only_runs_weaken [OF only_runs_common])

lemma doctor_runs: "only_runs (allowed Infer) (inspect_doctor ins p facts)"
  by (auto simp: inspect_doctor_def run_openvino_infer_def allowed_def helper_request_def
      intro!: only_runs_probe only_runs_level_zero only_runs_weaken [OF only_runs_common]
        only_runs_weaken [OF activity_run])

text \<open>The checks common to both commands.\<close>

definition common_shape :: "(diagnostic_check list \<Rightarrow> bool) \<Rightarrow> inspection_result \<Rightarrow> bool" where
  "common_shape Q r = (\<exists>cs ds. ir_checks r = cs @ ds \<and> map dc_id cs = PREFLIGHT_IDS
     \<and> list_all (\<lambda>c. dc_requirement c = Required) cs
     \<and> map dc_id ds = [''device.node'', ''device.access''] \<and> Q ds)"

lemma common_shapeI:
  "ir_checks r = cs @ ds \<Longrightarrow> map dc_id cs = PREFLIGHT_IDS \<Longrightarrow>
   list_all (\<lambda>c. dc_requirement c = Required) cs \<Longrightarrow>
   map dc_id ds = [''device.node'', ''device.access''] \<Longrightarrow> Q ds \<Longrightarrow> common_shape Q r"
  unfolding common_shape_def by (intro exI [of _ cs] exI [of _ ds] conjI)

lemma preflight_shape:
  assumes "supported_profile p" "package_checks_shape (p_components p) (pi_checks pk)"
  shows "map dc_id (ir_checks (preflight_result p facts pk)) = PREFLIGHT_IDS"
    and "list_all (\<lambda>c. dc_requirement c = Required) (ir_checks (preflight_result p facts pk))"
proof -
  have ids: "map dc_id (pi_checks pk) = map package_id REQUIRED_COMPONENTS"
    using assms by (rule package_ids_of_supported)
  have mids: "image_mset dc_id (mset (pi_checks pk)) = mset (map package_id REQUIRED_COMPONENTS)"
    using arg_cong [OF ids, of mset] by simp
  show "map dc_id (ir_checks (preflight_result p facts pk)) = PREFLIGHT_IDS"
    unfolding preflight_result_def Let_def
    by (rule finish_ids [OF _ sorted_ids(1)])
      (simp add: mids PREFLIGHT_IDS_def)
  have "list_all (\<lambda>c. dc_requirement c = Required) (pi_checks pk)"
    using assms(2) unfolding package_checks_shape_def
    by (induction rule: list_all2_induct) (auto simp: provider_shape_def)
  then show "list_all (\<lambda>c. dc_requirement c = Required) (ir_checks (preflight_result p facts pk))"
    by (simp add: preflight_result_def Let_def finish_def list_all_iff del: sort_key_simps)
qed

lemma common_result:
  assumes p: "supported_profile p"
    and Q: "pred_state (\<lambda>d. Q (di_checks d))
       (in_devices ins (rt_root (in_paths ins)) (pf_effective_root facts) cmd)"
  shows "pred_state (common_shape Q) (inspect_common ins p facts cmd)"
proof -
  have "bm_wf (p_components p)" using p by (simp add: supported_profile_def)
  note pk = packages_shape [OF this]
  note d = pred_both [OF devices_shape Q]
  show ?thesis
    unfolding inspect_common_def inspect_preflight_def bind_assoc bind_left_identity
    by (rule pred_bind [OF pk], rule pred_bind [OF d], unfold pred_return,
        rule common_shapeI [OF _ preflight_shape])
      (use p in \<open>auto simp: add_checks_def device_shape_def\<close>)
qed

lemma status_ids:
  assumes "supported_profile p"
  shows "pred_state (\<lambda>r. map dc_id (ir_checks r) = STATUS_IDS) (inspect_status ins p facts)"
proof -
  have fin: "map dc_id (ir_checks (finish (add_checks [lz, ov] r))) = STATUS_IDS"
    if "common_shape (\<lambda>_. True) r" "dc_id lz = ''runtime.level_zero''"
      "dc_id ov = ''runtime.openvino''" for r lz ov
  proof (rule finish_ids [OF _ sorted_ids(2)])
    from that(1) obtain cs ds where r: "ir_checks r = cs @ ds" "map dc_id cs = PREFLIGHT_IDS"
        "map dc_id ds = [''device.node'', ''device.access'']"
      by (auto simp: common_shape_def)
    have "map dc_id (ir_checks (add_checks [lz, ov] r)) = PREFLIGHT_IDS
        @ [''device.node'', ''device.access''] @ [''runtime.level_zero'', ''runtime.openvino'']"
      by (simp add: add_checks_def r that)
    then show "mset (map dc_id (ir_checks (add_checks [lz, ov] r))) = mset STATUS_IDS"
      by (simp only: STATUS_IDS_def mset_append) simp
  qed
  have lz: "pred_state (\<lambda>x. dc_id (fst x) = ''runtime.level_zero'') (run_level_zero ins p)"
    unfolding run_level_zero_def by (rule pred_bind_any) simp
  have ov: "pred_state (\<lambda>x. dc_id x = ''runtime.openvino'') (run_openvino_enumerate ins)"
    unfolding run_openvino_enumerate_def by (rule pred_bind_any) simp
  show ?thesis
    unfolding inspect_status_def
    by (rule pred_bind [OF common_result [OF assms, where Q = "\<lambda>_. True"]])
      (auto intro!: pred_bind [OF lz] pred_bind [OF ov] fin)
qed

text \<open>The result of \<open>doctor\<close>: its checks, all but one required.\<close>

definition doctor_shape :: "(diagnostic_check list \<Rightarrow> bool) \<Rightarrow> inspection_result \<Rightarrow> bool" where
  "doctor_shape Q r = (map dc_id (ir_checks r) = DOCTOR_IDS
     \<and> (\<exists>ds. set ds \<subseteq> set (ir_checks r) \<and> Q ds
          \<and> (list_all (\<lambda>c. dc_requirement c = Required) ds \<longrightarrow>
             (\<forall>c \<in> set (ir_checks r). dc_requirement c = Optional \<longrightarrow> dc_id c = ''runtime.activity''))))"

lemma doctor_finish:
  assumes "common_shape Q r" "dc_id lz = ''runtime.level_zero''" "dc_requirement lz = Required"
    "infer_shape ifs"
  shows "doctor_shape Q (finish (add_checks (lz # ifs @ [evaluate_activity b a]) r))"
proof -
  let ?r = "add_checks (lz # ifs @ [evaluate_activity b a]) r"
  from assms(1) obtain cs ds where r: "ir_checks r = cs @ ds" "map dc_id cs = PREFLIGHT_IDS"
      "list_all (\<lambda>c. dc_requirement c = Required) cs"
      "map dc_id ds = [''device.node'', ''device.access'']" "Q ds"
    by (auto simp: common_shape_def)
  have ifs: "map dc_id ifs = [''runtime.openvino'', ''runtime.inference'']"
      "list_all (\<lambda>c. dc_requirement c = Required) ifs"
    using assms(4) by (auto simp: infer_shape_def)
  have ids: "map dc_id (ir_checks (finish ?r)) = DOCTOR_IDS"
  proof (rule finish_ids [OF _ sorted_ids(3)])
    have "map dc_id (ir_checks ?r) = PREFLIGHT_IDS @ [''device.node'', ''device.access'']
        @ [''runtime.level_zero'', ''runtime.openvino'', ''runtime.inference'', ''runtime.activity'']"
      by (simp add: add_checks_def r ifs assms evaluate_activity_shape)
    then show "mset (map dc_id (ir_checks ?r)) = mset DOCTOR_IDS"
      by (simp only: DOCTOR_IDS_def mset_append) simp
  qed
  have members: "set (ir_checks (finish ?r)) = set cs \<union> set ds \<union> {lz} \<union> set ifs
      \<union> {evaluate_activity b a}"
    by (auto simp: finish_def add_checks_def r)
  have "list_all (\<lambda>c. dc_requirement c = Required) ds \<longrightarrow>
      (\<forall>c \<in> set (ir_checks (finish ?r)). dc_requirement c = Optional \<longrightarrow> dc_id c = ''runtime.activity'')"
    unfolding members using r(3) ifs(2) assms(3)
    by (auto simp: list_all_iff evaluate_activity_shape)
  then show ?thesis
    unfolding doctor_shape_def using ids members r(5) by (intro conjI exI [of _ ds]) auto
qed

lemma doctor_result:
  assumes "supported_profile p"
    and "pred_state (\<lambda>d. Q (di_checks d))
       (in_devices ins (rt_root (in_paths ins)) (pf_effective_root facts) Doctor)"
  shows "pred_state (doctor_shape Q) (inspect_doctor ins p facts)"
proof -
  have lz: "pred_state (\<lambda>x. dc_id (fst x) = ''runtime.level_zero''
      \<and> dc_requirement (fst x) = Required) (run_level_zero ins p)"
    unfolding run_level_zero_def by (rule pred_bind_any) simp
  have ifs: "pred_state infer_shape (run_openvino_infer ins)"
    unfolding run_openvino_infer_def by (rule pred_bind_any) simp
  show ?thesis
    unfolding inspect_doctor_def
    by (rule pred_bind [OF common_result [OF assms]], rule pred_bind [OF lz], clarify,
        rule pred_bind_any, rule pred_bind [where Q = infer_shape])
      (auto intro: ifs intro!: pred_bind_any doctor_finish)
qed

lemma doctor_ids:
  assumes "supported_profile p"
  shows "pred_state (\<lambda>r. map dc_id (ir_checks r) = DOCTOR_IDS
     \<and> (\<forall>c \<in> set (ir_checks r). dc_requirement c = Optional \<longrightarrow> dc_id c = ''runtime.activity''))
     (inspect_doctor ins p facts)"
proof -
  have "pred_state (\<lambda>d. list_all (\<lambda>c. dc_requirement c = Required) (di_checks d))
     (in_devices ins (rt_root (in_paths ins)) (pf_effective_root facts) Doctor)"
    using devices_required by (simp add: device_required_def [abs_def])
  from doctor_result [OF assms this] show ?thesis
    by (rule pred_weaken) (auto simp: doctor_shape_def)
qed

lemma doctor_root:
  assumes "supported_profile p" "pf_effective_root facts"
  shows "pred_state (\<lambda>r. aggregate (ir_checks r) \<in> {Overall_Failed, Overall_Blocked})
     (inspect_doctor ins p facts)"
proof -
  have "pred_state (\<lambda>d. \<exists>c \<in> set (di_checks d). required_bad c)
     (in_devices ins (rt_root (in_paths ins)) (pf_effective_root facts) Doctor)"
    using assms(2) by (auto intro!: pred_weaken [OF devices_root] simp: access_refused_def)
  from doctor_result [OF assms(1) this] show ?thesis
    unfolding aggregate_bad
    by (rule pred_weaken) (auto simp: doctor_shape_def)
qed

end

section \<open>The production inspectors keep the contract\<close>

lemma inspect_devices_required:
  "device_required (inspect_devices dv root er Doctor)"
  by (simp add: device_required_def inspect_devices_def missing_inspection_def
      failed_inspection_def access_check_def Let_def
      split: sum.split io_error.split option.split prod.split)

lemma inspect_devices_refused: "access_refused (inspect_devices dv root True Doctor)"
  by (simp add: access_refused_def inspect_devices_def missing_inspection_def
      failed_inspection_def access_check_def Let_def required_bad_def
      split: sum.split io_error.split option.split prod.split)

lemma production_simps [simp]:
  "in_packages (production_inspector pd) = inspect_packages (production_rpm pd)"
  "in_devices (production_inspector pd) = filesystem_devices pd"
  "in_activity (production_inspector pd) = sysfs_activity pd"
  "in_paths (production_inspector pd) = pd_paths pd"
  "in_runner (production_inspector pd) = pd_runner pd"
  "in_serde (production_inspector pd) = pd_serde pd"
  by (simp_all add: production_inspector_def)

interpretation production: inspectors "production_inspector pd" "rpm_query (production_rpm pd)"
  for pd
proof
  show "bm_wf (p_components p) \<Longrightarrow> pred_state (\<lambda>r. package_checks_shape (p_components p) (pi_checks r))
      (in_packages (production_inspector pd) p)" for p
    by (simp add: inspect_packages_shape)
  show "pred_state device_shape (in_devices (production_inspector pd) root er cmd)" for root er cmd
    by (auto simp: filesystem_devices_def device_shape_def inspect_devices_ids intro!: pred_bind_any)
  show "pred_state device_required (in_devices (production_inspector pd) root er Doctor)" for root er
    by (auto simp: filesystem_devices_def inspect_devices_required intro!: pred_bind_any)
  show "pred_state access_refused (in_devices (production_inspector pd) root True Doctor)" for root
    by (auto simp: filesystem_devices_def inspect_devices_refused intro!: pred_bind_any)
qed (auto simp: filesystem_devices_def sysfs_activity_def intro!: only_runs_packages)

end
