(* ===== verification/Runtime_Properties.thy ===== *)
theory Runtime_Properties
  imports Samples Inspect_Laws
begin

text \<open>
  The properties of the crate \<open>stack-runtime\<close>: what is believed of a probe, what a child process can
  do to its supervisor, what the package, device, activity and activation checks establish, and
  which checks and which processes the two diagnostic commands consist of.
\<close>

section \<open>Probe reports\<close>

text \<open>C38. The strict JSON visitor accepts a document exactly when no object of it repeats a key
and every float of it is finite; the value is then the one the document denotes, in which every
object is an ordered map.\<close>

theorem strict_json_exact:
  "(strict_value r = Some v \<longleftrightarrow> duplicate_free r \<and> v = denote r) \<and> json_wf (denote r)"
  by (auto simp: strict_value_spec denote_wf)

text \<open>C12. A probe report is believed only if the output is nonempty UTF-8 of at most 64 KiB
without a byte order mark, is one strict JSON document, and the report has the requested probe and
mode and observations in their normal form: bounded, strictly sorted device lists with an NPU, and
for inference the fixed graph, iteration count and tolerance; a failing report carries no
observation and an error code its probe and mode can give.\<close>

theorem probe_report_believed:
  assumes "parse_probe_output ser b probe mode = Inr r"
  shows "report_ok probe mode r \<and> b \<noteq> [] \<and> length b \<le> 65536 \<and> utf8_valid b
    \<and> \<not> starts_with [CHR 0xEF, CHR 0xBB, CHR 0xBF] b
    \<and> (\<exists>raw. ser_parse ser b = Some (raw, True) \<and> duplicate_free raw)"
  using parse_probe_output_ok [OF assms] assms
  by (auto simp: parse_probe_output_def probe_bytes_Inr strict_document_Inr)

text \<open>A serde that reads any document as a passing inference on one NPU.\<close>

definition sample_inference :: open_vino_infer_observation where
  "sample_inference = \<lparr>oi_available_devices = [''CPU'', ''NPU''], oi_execution_devices = [''NPU''],
     oi_runtime_version = ''2026.1'', oi_graph_id = ''intel-npu-stack-neutral-v1'',
     oi_iterations = 8, oi_tolerance = TOLERANCE\<rparr>"

definition sample_serde :: probe_serde where
  "sample_serde = no_serde\<lparr>
     ser_parse := (\<lambda>_. Some (Raw_Object (map (\<lambda>k. (k, Raw_U64 1)) TOP_LEVEL_KEYS), True)),
     ser_report := (\<lambda>_. Some \<lparr>rp_schema_version = 1, rp_probe = Open_Vino, rp_mode = Infer,
       rp_outcome = Outcome_Pass, rp_observations = Object [], rp_error_code = None\<rparr>),
     ser_infer := (\<lambda>_. Some sample_inference)\<rparr>"

lemma sample_probe_accepted:
  "\<exists>r. parse_probe_output sample_serde ''{}'' Open_Vino Infer = Inr r
     \<and> pr_observations r = Obs_Infer sample_inference"
proof -
  have bytes: "probe_bytes ''{}'' = Inr ''{}''"
    by (simp add: probe_bytes_Inr utf8_valid_ascii is_ascii_def starts_with_def)
  have doc: "strict_document sample_serde ''{}''
      = Inr (denote (Raw_Object (map (\<lambda>k. (k, Raw_U64 1)) TOP_LEVEL_KEYS)))"
    by (simp add: strict_document_Inr sample_serde_def TOP_LEVEL_KEYS_def)
  have shape: "probe_shape (denote (Raw_Object (map (\<lambda>k. (k, Raw_U64 1)) TOP_LEVEL_KEYS))) = Inr ()"
    by (simp add: probe_shape_def as_object_def as_u64_def TOP_LEVEL_KEYS_def bm_of_list_def
        PROBE_SCHEMA_VERSION_def)
  have "observations_ok Open_Vino Infer (Obs_Infer sample_inference)"
    by (simp add: observations_ok_def sample_inference_def device_list_ok_def is_device_name_def
        is_npu_name_def numbered_def version_text_ok_def is_package_name_def ascii_simps)
  then have "validate_openvino_infer sample_inference = Inr ()"
    by (simp add: validate_infer_Inr)
  with bytes doc shape show ?thesis
    by (simp add: parse_probe_output_def sample_serde_def probe_identity_def
        PROBE_SCHEMA_VERSION_def probe_outcome_observations_def parse_success_observations_def
        deserialize_observation_def ok_or_def)
qed

theorem probe_report_believed_witness:
  "\<exists>r. pr_observations r = Obs_Infer sample_inference \<and> report_ok Open_Vino Infer r"
  using sample_probe_accepted probe_report_believed by blast

section \<open>Child processes\<close>

text \<open>The reader keeps exactly the first \<open>limit\<close> bytes of what the child writes, reports an
overflow exactly when there was more, and fails exactly when a read failed before the end of the
stream; how the stream was cut into reads does not matter.\<close>

theorem reader_keeps_prefix:
  "reader_thread limit reads =
     (if pipe_fails reads then Inl Pipe_Io
      else Inr \<lparr>co_bytes = take limit (pipe_data reads),
                co_overflow = (limit < length (pipe_data reads))\<rparr>)"
  by (rule reader_thread_spec)

text \<open>C9. The supervising loop ends whatever the child does, with the child reaped unless waiting
for it after the kill fails: a run that is not a timeout ends with the status the child exited
with, seen by the loop and without a kill; a timeout was preceded by a kill; and a child that never
exits is always killed.\<close>

theorem supervision_ends_reaped:
  "lifecycle_ok timeout c (supervise timeout c n now)
   \<and> ((\<forall>k. ch_try_wait c k = Running) \<longrightarrow> Killed \<in> set (snd (supervise timeout c n now)))"
  using supervise_result supervise_never_exits by blast

definition sleeping_child :: child where
  "sleeping_child = \<lparr>ch_stdout_pipe = True, ch_stderr_pipe = True, ch_stdout_thread = True,
     ch_stderr_thread = True, ch_stdout_joins = True, ch_stderr_joins = True,
     ch_stdout_reads = [], ch_stderr_reads = [], ch_try_wait = (\<lambda>_. Running),
     ch_delay = (\<lambda>_. 0), ch_recheck = (\<lambda>_. 0), ch_wait_after_kill = Some Status_Signal\<rparr>"

theorem supervision_ends_reaped_witness:
  "Killed \<in> set (snd (supervise (from_secs 10) sleeping_child 0 0))"
  using supervision_ends_reaped [of "from_secs 10" sleeping_child 0 0]
  by (simp add: sleeping_child_def)

text \<open>The elapsed time at which the loop polls the child for the \<open>n\<close>-th time.\<close>

fun turn_clock :: "duration \<Rightarrow> child \<Rightarrow> nat \<Rightarrow> duration" where
  "turn_clock timeout c 0 = ch_delay c 0"
| "turn_clock timeout c (Suc n) = next_turn timeout c n (turn_clock timeout c n)"

lemma supervise_exit_turn:
  assumes "supervise timeout c n now = (Inr (st, False), tr)" "now = turn_clock timeout c n"
    "\<forall>k < n. ch_try_wait c k = Running \<and> turn_clock timeout c k < timeout"
  shows "\<exists>m. ch_try_wait c m = Exited st
    \<and> (\<forall>k < m. ch_try_wait c k = Running \<and> turn_clock timeout c k < timeout)"
  using assms
proof (induction timeout c n now rule: supervise.induct)
  case (1 timeout c n now)
  show ?case
  proof (cases "ch_try_wait c n")
    case (Exited st')
    with 1(2) have "st' = st" by (simp add: supervise.simps [of timeout c n])
    with Exited 1(4) show ?thesis by blast
  next
    case Wait_Error
    with 1(2) show ?thesis by (simp add: supervise.simps [of timeout c n])
  next
    case Running
    have now: "\<not> now \<ge> timeout"
      using 1(2) Running by (auto simp: supervise.simps [of timeout c n] split: option.splits)
    show ?thesis
    proof (rule 1(1) [OF Running now])
      show "supervise timeout c (n + 1) (next_turn timeout c n now) = (Inr (st, False), tr)"
        using 1(2) Running now by (simp add: supervise.simps [of timeout c n])
      show "next_turn timeout c n now = turn_clock timeout c (n + 1)"
        using 1(3) by simp
      show "\<forall>k < n + 1. ch_try_wait c k = Running \<and> turn_clock timeout c k < timeout"
        using 1(3,4) Running now by (simp add: less_Suc_eq)
    qed
  qed
qed

text \<open>C4. A process result is believed only from a child started from an absolute path that was seen
to exit by itself and was not killed: some poll of the supervisor found it exited, every earlier poll
had found it running before the limit (so at most one poll comes after the limit, and an exit seen by
that one is still accepted). The termination is that exit status; the output is at most the limit and is
the first bytes the child wrote, both overflow flags say exactly whether something was cut, and no read
failed.\<close>

theorem process_output_faithful:
  assumes "system_runner spawn rq e = (Inr po, e')"
  shows "is_absolute (rq_executable rq)
    \<and> (\<exists>c st. spawn (spawn_of rq) e = (Some c, e')
         \<and> snd (supervise (rq_timeout rq) c 0 (ch_delay c 0)) = [Waited st]
         \<and> (\<exists>n. ch_try_wait c n = Exited st \<and> (\<forall>k < n. ch_try_wait c k = Running
               \<and> turn_clock (rq_timeout rq) c k < rq_timeout rq))
         \<and> classify_termination st = Inr (po_termination po)
         \<and> po_stdout po = take (rq_stdout_limit rq) (pipe_data (ch_stdout_reads c))
         \<and> length (po_stdout po) \<le> rq_stdout_limit rq
         \<and> po_stdout_overflow po = (rq_stdout_limit rq < length (pipe_data (ch_stdout_reads c)))
         \<and> po_stderr_overflow po = (rq_stderr_limit rq < length (pipe_data (ch_stderr_reads c)))
         \<and> \<not> pipe_fails (ch_stdout_reads c) \<and> \<not> pipe_fails (ch_stderr_reads c))"
proof -
  from assms obtain c where c: "is_absolute (rq_executable rq)" "spawn (spawn_of rq) e = (Some c, e')"
    and f: "finish_run rq c (fst (supervise (rq_timeout rq) c 0 (ch_delay c 0))) = Inr po"
    by (rule system_runner_Inr)
  from finish_run_Inr [OF f] obtain st where st:
    "fst (supervise (rq_timeout rq) c 0 (ch_delay c 0)) = Inr (st, False)"
    "classify_termination st = Inr (po_termination po)"
    "po_stdout po = take (rq_stdout_limit rq) (pipe_data (ch_stdout_reads c))"
    "po_stdout_overflow po = (rq_stdout_limit rq < length (pipe_data (ch_stdout_reads c)))"
    "po_stderr_overflow po = (rq_stderr_limit rq < length (pipe_data (ch_stderr_reads c)))"
    "\<not> pipe_fails (ch_stdout_reads c)" "\<not> pipe_fails (ch_stderr_reads c)"
    by auto
  have "snd (supervise (rq_timeout rq) c 0 (ch_delay c 0)) = [Waited st]"
    using supervise_result [of "rq_timeout rq" c 0 "ch_delay c 0"] st(1)
    by (auto simp: lifecycle_ok_def split: prod.splits)
  moreover have "length (po_stdout po) \<le> rq_stdout_limit rq"
    using assms by (rule sys.stdout_bounded)
  moreover have "\<exists>n. ch_try_wait c n = Exited st \<and> (\<forall>k < n. ch_try_wait c k = Running
      \<and> turn_clock (rq_timeout rq) c k < rq_timeout rq)"
    by (rule supervise_exit_turn [of _ _ 0 "ch_delay c 0" _ "snd (supervise (rq_timeout rq) c 0 (ch_delay c 0))"])
      (simp_all add: st(1) [symmetric])
  ultimately show ?thesis using c st by blast
qed

text \<open>A child that writes two chunks and exits.\<close>

definition sample_child :: child where
  "sample_child = sleeping_child\<lparr>ch_stdout_reads := [Read ''ab'', Read ''cd'', Read []],
     ch_try_wait := (\<lambda>_. Exited (Status_Code 0))\<rparr>"

definition sample_request :: process_request where
  "sample_request = \<lparr>rq_executable = ''/usr/bin/rpm'', rq_args = [], rq_timeout = from_secs 10,
     rq_stdout_limit = 3, rq_stderr_limit = 16, rq_environment = []\<rparr>"

lemma sample_run:
  "system_runner (\<lambda>_ e. (Some sample_child, e)) sample_request () =
     (Inr \<lparr>po_termination = Exit 0, po_stdout = ''abc'', po_stdout_overflow = True,
           po_stderr_overflow = False\<rparr>, ())"
proof -
  have "supervise (from_secs 10) sample_child 0 (ch_delay sample_child 0)
      = (Inr (Status_Code 0, False), [Waited (Status_Code 0)])"
    by (rule supervise_exited) (simp add: sample_child_def)
  then show ?thesis
    by (simp add: system_runner_def system_run_def sample_request_def is_absolute_def
        finish_run_def join_readers_def reader_thread_spec sample_child_def sleeping_child_def
        classify_termination_def starts_with_def)
qed

theorem process_output_faithful_witness:
  "is_absolute (rq_executable sample_request)
   \<and> ''abc'' = take 3 (pipe_data (ch_stdout_reads sample_child))"
  using process_output_faithful [OF sample_run]
  by (elim conjE) (intro conjI, assumption, simp add: sample_child_def)

section \<open>Devices, activity and activation\<close>

text \<open>The two device checks pass together exactly when the caller is not root, the directory
could be listed whole, and some accelerator entry of a supported type could be opened for reading
and writing.\<close>

theorem device_checks_exact:
  "device_inspection_pass (inspect_devices dv root er cmd) \<longleftrightarrow> \<not> er \<and>
     (\<exists>entries. dv_dir dv (path_join root ''dev/accel'') = Inr entries \<and> list_all is_ok entries
        \<and> (\<exists>name \<in> set (map projr entries). usable_node dv (path_join root ''dev/accel'') name
             \<and> dv_open dv (path_join (path_join root ''dev/accel'') name) = Opened))"
  by (rule inspect_devices_pass)

text \<open>C37. The activity check passes exactly when both snapshots are readable and over the same
counters, no counter went back, and the counters together advanced by a positive amount below
\<open>2 ^ 64\<close>: the 128-bit sum of the program neither wraps nor loses anything. Otherwise it only
warns, and it is never required.\<close>

theorem activity_check_exact:
  "(dc_status (evaluate_activity before after) = Pass \<longleftrightarrow>
      (\<exists>b a n. before = Counters b \<and> after = Counters a \<and> activity_observed b a n))
   \<and> dc_status (evaluate_activity before after) \<in> {Pass, Warn}
   \<and> dc_requirement (evaluate_activity before after) = Optional
   \<and> (activity_delta before after = Inr d \<longleftrightarrow>
        (\<exists>b a. before = Counters b \<and> after = Counters a \<and> activity_observed b a (unat d)))"
  by (intro conjI evaluate_activity_Pass evaluate_activity_shape activity_delta_Inr)

text \<open>The installed version of a component's provider is the profile's.\<close>

definition provider_current :: "(string, installed_package) bmap \<Rightarrow> component_requirement \<Rightarrow> bool" where
  "provider_current packages c = (\<exists>k. bm_get packages (np_package (cr_provider c)) = Some k
     \<and> ip_version k = np_version (cr_provider c))"

definition installed_after :: "(string, installed_package) bmap \<Rightarrow> u64 \<Rightarrow> component_requirement \<Rightarrow> bool" where
  "installed_after packages boot c = (\<exists>k. bm_get packages (np_package (cr_provider c)) = Some k
     \<and> boot < ip_install_time k)"

text \<open>The activation state is known exactly when no provider needs a reboot, or the boot time
is known and every provider that needs one is installed at the profile's version; a reboot is then
required exactly when one of these was installed after the boot, and a new login never is.\<close>

theorem activation_exact:
  "inspect_activation p packages boot_time =
     (if reboot_providers p = [] then activation_ready False
      else case boot_time of None \<Rightarrow> activation_unknown
        | Some boot \<Rightarrow>
            if list_all (provider_current packages) (reboot_providers p)
            then activation_ready (list_ex (installed_after packages boot) (reboot_providers p))
            else activation_unknown)"
  by (simp add: inspect_activation_def list_all_iff list_ex_iff
      scan_reboot_spec [folded provider_current_def installed_after_def] split: option.split)

section \<open>Packages\<close>

text \<open>C11. On a system that does not change under the inspection, the package check of a component
passes exactly when its provider is installed at the exact version, every critical file of it is
owned by it and has the recorded digest, and none of the profile's conflicting packages is
installed; the caches, the batching of queries and the sorting of the checks change nothing. The
packages reported are exactly the installed ones among those asked for.\<close>

theorem package_inspection_at_rest:
  assumes "quiet insp e" "p_package_manager p = Rpm" "bm_wf (p_components p)"
  shows "inspection_at_rest insp e p (fst (run_state (inspect_packages insp p) \<lparr>env = e, log = evs\<rparr>))"
proof -
  obtain r where r: "yields e (inspect_packages insp p) r" "inspection_at_rest insp e p r"
    using packages_at_rest [OF assms] by blast
  from yields_run [OF r(1), of "\<lparr>env = e, log = evs\<rparr>"] r(2) show ?thesis by simp
qed

theorem package_inspection_at_rest_witness:
  "inspection_at_rest (production_rpm sample_production) () sample_profile
     (fst (run_state (inspect_packages (production_rpm sample_production) sample_profile)
       \<lparr>env = (), log = []\<rparr>))"
  by (rule package_inspection_at_rest)
    (simp_all add: quiet_def sample_components_wf, simp add: sample_profile_def)

section \<open>The diagnostic commands\<close>

text \<open>What evidence of the VPU a run of the Level Zero helper is: the complete output of a helper
run that ended with code 0 is a believed report whose devices include one of the profile's.\<close>

definition level_zero_evidence :: "probe_serde \<Rightarrow> profile \<Rightarrow> process_result \<Rightarrow> bool" where
  "level_zero_evidence ser p res = (\<exists>po report obs. res = Inr po
     \<and> po_termination po = Exit 0 \<and> \<not> po_stdout_overflow po \<and> \<not> po_stderr_overflow po
     \<and> parse_probe_output ser (po_stdout po) Level_Zero Enumerate = Inr report
     \<and> report_ok Level_Zero Enumerate report
     \<and> pr_outcome report = Outcome_Pass \<and> pr_observations report = Obs_Level_Zero obs
     \<and> vpu_matches p obs)"

text \<open>C13. The Level Zero check passes only if the helper at its absolute path was run and its
result is evidence of one of the profile's devices: nothing else that happens to the helper, its
output or its report lets the check pass.\<close>

theorem level_zero_pass_has_evidence:
  assumes "run_state (run_level_zero ins p) w = ((c, stop), w')" "dc_status c = Pass"
  shows "is_absolute (rt_level_zero_helper (in_paths ins))
    \<and> (\<exists>res. level_zero_evidence (in_serde ins) p res
         \<and> log w' = log w @ [Ran (probe_request (rt_level_zero_helper (in_paths ins)) Enumerate
              LEVEL_ZERO_TIMEOUT) res])"
proof -
  let ?rq = "probe_request (rt_level_zero_helper (in_paths ins)) Enumerate LEVEL_ZERO_TIMEOUT"
  from assms(1) obtain probe where
    run: "run_state (run_probe ins (rt_level_zero_helper (in_paths ins)) Level_Zero Enumerate
        LEVEL_ZERO_TIMEOUT) w = (probe, w')" and c: "(c, stop) = level_zero_check p probe"
    by (auto simp: run_level_zero_def split: prod.splits)
  from c assms(2) have "dc_status (fst (level_zero_check p probe)) = Pass" by (metis fst_conv)
  from level_zero_Pass [OF this] obtain report obs where r: "probe = Inr report"
    "pr_outcome report = Outcome_Pass" "pr_observations report = Obs_Level_Zero obs"
    "vpu_matches p obs" by blast
  with run obtain w1 res where w1: "is_absolute (rt_level_zero_helper (in_paths ins))"
    "run_state (run_process (in_runner ins) ?rq) w1 = (res, w')" "log w1 = log w"
    "probe_report_of (in_serde ins) Level_Zero Enumerate res = Inr report"
    by (auto simp: run_probe_def valid_executable_path_def observe_run split: prod.splits if_splits)
  from w1(4) r have "level_zero_evidence (in_serde ins) p res"
    using parse_probe_output_ok unfolding probe_report_of_Inr level_zero_evidence_def by blast
  with w1(1,2,3) show ?thesis
    by (auto simp: run_process_run)
qed

text \<open>An inspector whose helper reports the sample profile's device.\<close>

definition sample_vpu :: level_zero_observation where
  "sample_vpu = \<lparr>lz_vpu_devices =
     [\<lparr>lz_vendor_id = ''8086'', lz_device_id = ''7d1d'', lz_driver_version = 1\<rparr>]\<rparr>"

definition vpu_serde :: probe_serde where
  "vpu_serde = sample_serde\<lparr>
     ser_report := (\<lambda>_. Some \<lparr>rp_schema_version = 1, rp_probe = Level_Zero, rp_mode = Enumerate,
       rp_outcome = Outcome_Pass, rp_observations = Object [], rp_error_code = None\<rparr>),
     ser_level_zero := (\<lambda>_. Some sample_vpu)\<rparr>"

definition vpu_production :: "unit production" where
  "vpu_production = sample_production\<lparr>pd_serde := vpu_serde,
     pd_runner := answering \<lparr>po_termination = Exit 0, po_stdout = ''{}'',
       po_stdout_overflow = False, po_stderr_overflow = False\<rparr>\<rparr>"

lemma vpu_probe_accepted:
  "parse_probe_output vpu_serde ''{}'' Level_Zero Enumerate = Inr
     \<lparr>pr_schema_version = 1, pr_probe = Level_Zero, pr_mode = Enumerate, pr_outcome = Outcome_Pass,
      pr_observations = Obs_Level_Zero sample_vpu, pr_error_code = None\<rparr>"
proof -
  have bytes: "probe_bytes ''{}'' = Inr ''{}''"
    by (simp add: probe_bytes_Inr utf8_valid_ascii is_ascii_def starts_with_def)
  have doc: "strict_document vpu_serde ''{}''
      = Inr (denote (Raw_Object (map (\<lambda>k. (k, Raw_U64 1)) TOP_LEVEL_KEYS)))"
    by (simp add: strict_document_Inr vpu_serde_def sample_serde_def TOP_LEVEL_KEYS_def)
  have shape: "probe_shape (denote (Raw_Object (map (\<lambda>k. (k, Raw_U64 1)) TOP_LEVEL_KEYS))) = Inr ()"
    by (simp add: probe_shape_def as_object_def as_u64_def TOP_LEVEL_KEYS_def bm_of_list_def
        PROBE_SCHEMA_VERSION_def)
  have "observations_ok Level_Zero Enumerate (Obs_Level_Zero sample_vpu)"
    by (simp add: observations_ok_def sample_vpu_def is_lower_hex_quad_def ascii_simps)
  then have "validate_level_zero sample_vpu = Inr ()"
    by (simp add: validate_level_zero_Inr)
  with bytes doc shape show ?thesis
    by (simp add: parse_probe_output_def vpu_serde_def probe_identity_def PROBE_SCHEMA_VERSION_def
        probe_outcome_observations_def parse_success_observations_def deserialize_observation_def
        ok_or_def)
qed

lemma vpu_fields:
  "pd_paths vpu_production = system_paths" "pd_serde vpu_production = vpu_serde"
  "in_is_file (production_inspector vpu_production) = (\<lambda>_ e. (True, e))"
  "pd_runner vpu_production = answering \<lparr>po_termination = Exit 0, po_stdout = ''{}'',
     po_stdout_overflow = False, po_stderr_overflow = False\<rparr>"
  by (simp_all add: vpu_production_def sample_production_def production_inspector_def)

lemma vpu_run:
  "\<exists>c w'. run_state (run_level_zero (production_inspector vpu_production) sample_profile) sample_world
      = ((c, False), w') \<and> dc_status c = Pass"
proof -
  let ?r = "\<lparr>pr_schema_version = 1, pr_probe = Level_Zero, pr_mode = Enumerate,
    pr_outcome = Outcome_Pass, pr_observations = Obs_Level_Zero sample_vpu, pr_error_code = None\<rparr>"
  have abs: "is_absolute (rt_level_zero_helper system_paths)"
    by (simp add: is_absolute_def system_paths_def starts_with_def)
  have vpu: "vpu_matches sample_profile sample_vpu"
    by (simp add: vpu_matches_def sample_profile_def sample_vpu_def)
  have "\<exists>w'. run_state (run_probe (production_inspector vpu_production)
      (rt_level_zero_helper system_paths) Level_Zero Enumerate LEVEL_ZERO_TIMEOUT) sample_world
      = (Inr ?r, w')"
    by (simp add: run_probe_def valid_executable_path_def abs vpu_fields observe_def
        run_process_def answering_def probe_report_of_def vpu_probe_accepted)
  moreover have "level_zero_check sample_profile (Inr ?r)
      = (mk_check ''runtime.level_zero'' Pass level_zero_summary Required (level_zero_details sample_vpu),
         False)"
    by (simp add: level_zero_check_def vpu)
  ultimately show ?thesis
    by (auto simp: run_level_zero_def vpu_fields)
qed

theorem level_zero_pass_has_evidence_witness:
  "\<exists>res. level_zero_evidence vpu_serde sample_profile res"
proof -
  obtain c w' where "run_state (run_level_zero (production_inspector vpu_production) sample_profile)
      sample_world = ((c, False), w')" "dc_status c = Pass"
    using vpu_run by blast
  from level_zero_pass_has_evidence [OF this] show ?thesis
    by (auto simp: vpu_production_def)
qed

text \<open>C29. For every valid profile \<open>status\<close> reports the same twelve checks and \<open>doctor\<close> the same
fourteen, once each and in order, whatever the machine, the processes and the files do; and the
only check \<open>doctor\<close> does not require is the activity of the device.\<close>

theorem diagnostic_checks_fixed:
  assumes "supported_profile p"
  shows "map dc_id (ir_checks (fst (run_state (inspect_status (production_inspector pd) p facts) w)))
      = STATUS_IDS
    \<and> map dc_id (ir_checks (fst (run_state (inspect_doctor (production_inspector pd) p facts) w)))
      = DOCTOR_IDS
    \<and> list_all (\<lambda>c. dc_requirement c = Required \<or> dc_id c = ''runtime.activity'')
        (ir_checks (fst (run_state (inspect_doctor (production_inspector pd) p facts) w)))"
proof -
  let ?s = "fst (run_state (inspect_status (production_inspector pd) p facts) w)"
  let ?d = "fst (run_state (inspect_doctor (production_inspector pd) p facts) w)"
  have s: "map dc_id (ir_checks ?s) = STATUS_IDS"
    by (rule pred_stateD [OF production.status_ids [OF assms] prod.collapse [symmetric]])
  have d: "map dc_id (ir_checks ?d) = DOCTOR_IDS
      \<and> (\<forall>c \<in> set (ir_checks ?d). dc_requirement c = Optional \<longrightarrow> dc_id c = ''runtime.activity'')"
    by (rule pred_stateD [OF production.doctor_ids [OF assms] prod.collapse [symmetric]])
  have "list_all (\<lambda>c. dc_requirement c = Required \<or> dc_id c = ''runtime.activity'') (ir_checks ?d)"
    unfolding list_all_iff
  proof
    fix c assume "c \<in> set (ir_checks ?d)"
    with d show "dc_requirement c = Required \<or> dc_id c = ''runtime.activity''"
      by (cases "dc_requirement c") simp_all
  qed
  with s d show ?thesis by (intro conjI) (elim conjE, assumption)+
qed

lemma sample_supported: "supported_profile sample_profile"
  by (simp add: supported_profile_def sample_components_wf sample_profile_ok)

theorem diagnostic_checks_fixed_witness:
  "map dc_id (ir_checks (fst (run_state
     (inspect_doctor (production_inspector sample_production) sample_profile sample_facts)
     sample_world))) = DOCTOR_IDS"
  using diagnostic_checks_fixed [OF sample_supported, of sample_production sample_facts sample_world]
  by (elim conjE)

text \<open>Run as root, \<open>doctor\<close> never succeeds: the overall status of its checks is failed or
blocked, so that the exit code of the report is 1.\<close>

theorem doctor_refuses_root:
  assumes "supported_profile p" "pf_effective_root facts"
  shows "aggregate (ir_checks (fst (run_state (inspect_doctor (production_inspector pd) p facts) w)))
    \<in> {Overall_Failed, Overall_Blocked}"
  by (rule pred_stateD [OF production.doctor_root [OF assms] prod.collapse [symmetric]])

theorem doctor_refuses_root_witness:
  "aggregate (ir_checks (fst (run_state (inspect_doctor (production_inspector sample_production)
     sample_profile (sample_facts\<lparr>pf_effective_root := True\<rparr>)) sample_world)))
   \<in> {Overall_Failed, Overall_Blocked}"
  by (rule doctor_refuses_root [OF sample_supported]) simp

text \<open>C30. The diagnostic commands start no process but read-only \<open>rpm\<close> queries of the configured
database and the two helpers, each with its fixed arguments, environment, time limit and output
limits; \<open>status\<close> never asks for an inference. Nothing privileged is run.\<close>

theorem diagnostic_processes_bounded:
  fixes pd :: "'e production"
  shows "(\<exists>rqs. log (snd (run_state (inspect_status (production_inspector pd) p facts) w)) = log w @ rqs
      \<and> list_all (ran (\<lambda>rq. rpm_query (production_rpm pd) rq
          \<or> rq = probe_request (rt_level_zero_helper (pd_paths pd)) Enumerate (from_secs 10)
          \<or> rq = probe_request (rt_openvino_helper (pd_paths pd)) Enumerate (from_secs 15))) rqs)
   \<and> (\<exists>rqs. log (snd (run_state (inspect_doctor (production_inspector pd) p facts) w)) = log w @ rqs
      \<and> list_all (ran (\<lambda>rq. rpm_query (production_rpm pd) rq
          \<or> rq = probe_request (rt_level_zero_helper (pd_paths pd)) Enumerate (from_secs 10)
          \<or> rq = probe_request (rt_openvino_helper (pd_paths pd)) Infer (from_secs 120))) rqs)"
proof (intro conjI)
  note requests = production.allowed_def production.level_zero_request_def
    production.helper_request_def LEVEL_ZERO_TIMEOUT_def OPENVINO_ENUMERATE_TIMEOUT_def
    OPENVINO_INFER_TIMEOUT_def
  have status: "production.allowed TYPE('e) pd Enumerate = (\<lambda>rq. rpm_query (production_rpm pd) rq
      \<or> rq = probe_request (rt_level_zero_helper (pd_paths pd)) Enumerate (from_secs 10)
      \<or> rq = probe_request (rt_openvino_helper (pd_paths pd)) Enumerate (from_secs 15))"
    by (rule ext) (simp add: requests)
  have doctor: "production.allowed TYPE('e) pd Infer = (\<lambda>rq. rpm_query (production_rpm pd) rq
      \<or> rq = probe_request (rt_level_zero_helper (pd_paths pd)) Enumerate (from_secs 10)
      \<or> rq = probe_request (rt_openvino_helper (pd_paths pd)) Infer (from_secs 120))"
    by (rule ext) (simp add: requests)
  show "\<exists>rqs. log (snd (run_state (inspect_status (production_inspector pd) p facts) w)) = log w @ rqs
      \<and> list_all (ran (\<lambda>rq. rpm_query (production_rpm pd) rq
          \<or> rq = probe_request (rt_level_zero_helper (pd_paths pd)) Enumerate (from_secs 10)
          \<or> rq = probe_request (rt_openvino_helper (pd_paths pd)) Enumerate (from_secs 15))) rqs"
    using production.status_runs [of pd p facts, unfolded only_does_def status] by (rule spec)
  show "\<exists>rqs. log (snd (run_state (inspect_doctor (production_inspector pd) p facts) w)) = log w @ rqs
      \<and> list_all (ran (\<lambda>rq. rpm_query (production_rpm pd) rq
          \<or> rq = probe_request (rt_level_zero_helper (pd_paths pd)) Enumerate (from_secs 10)
          \<or> rq = probe_request (rt_openvino_helper (pd_paths pd)) Infer (from_secs 120))) rqs"
    using production.doctor_runs [of pd p facts, unfolded only_does_def doctor] by (rule spec)
qed

end
