(* ===== verification/Inventory.thy ===== *)
theory Inventory
  imports Manifest Process
begin

text \<open>
  \<open>crates/stack-install/src/inventory.rs\<close>: the observation of the native package database, its
  fingerprint, and the comparison of versions that RPM's own interpreter performs. The records
  of a query are one line each, four fields separated by a bar.
\<close>

datatype installed_rpm =
  Installed_Rpm (rpm_name: string) (rpm_evr: string) (rpm_arch: string) (rpm_install_time: u64)

definition rpm_key :: "installed_rpm \<Rightarrow> string \<times> string \<times> string \<times> u64" where
  "rpm_key k = (rpm_name k, rpm_evr k, rpm_arch k, rpm_install_time k)"

instantiation installed_rpm :: linorder
begin

definition less_eq_installed_rpm :: "installed_rpm \<Rightarrow> installed_rpm \<Rightarrow> bool" where
  "less_eq_installed_rpm a b = (rpm_key a \<le> rpm_key b)"

definition less_installed_rpm :: "installed_rpm \<Rightarrow> installed_rpm \<Rightarrow> bool" where
  "less_installed_rpm a b = (rpm_key a < rpm_key b)"

instance
  by standard
    (auto simp: less_eq_installed_rpm_def less_installed_rpm_def rpm_key_def installed_rpm.expand)

end

record native_inventory =
  ni_packages :: "installed_rpm list"
  ni_fingerprint :: string

datatype version_ordering = Less | Equal | Greater

definition MAX_INVENTORY_BYTES :: nat where "MAX_INVENTORY_BYTES = 8388608"

definition INVENTORY_FORMAT :: string where
  "INVENTORY_FORMAT =
     ''%{NAME}|%{EPOCHNUM}:%{VERSION}-%{RELEASE}|%{ARCH}|%{INSTALLTIME}'' @ [nl]"

definition observation_error :: install_error where
  "observation_error = install_err 30 ''INSTALL_RPM_OBSERVATION_FAILED''
     ''native RPM package state or version ordering could not be verified''"

definition state_changed :: install_error where
  "state_changed = install_err 30 ''INSTALL_STATE_CHANGED''
     ''installed packages changed after planning''"

section \<open>Grammars\<close>

definition inventory_name :: "string \<Rightarrow> bool" where
  "inventory_name v = (v \<noteq> [] \<and> length v \<le> 128 \<and> list_all (\<lambda>c. is_alnum c \<or> c \<in> set ''-_.+'') v)"

definition valid_evr :: "string \<Rightarrow> bool" where
  "valid_evr v =
     (if length v > 256 then False
      else case split_once CHR '':'' v of
        None \<Rightarrow> False
      | Some (epoch, vr) \<Rightarrow> (case split_once CHR ''-'' vr of
          None \<Rightarrow> False
        | Some (version, release) \<Rightarrow>
            epoch \<noteq> [] \<and> all_digits epoch \<and> parse_u32 epoch \<noteq> None
            \<and> no_leading_zero epoch \<and> rpm_scalar version \<and> rpm_scalar release))"

definition inventory_arch :: "string \<Rightarrow> string \<Rightarrow> bool" where
  "inventory_arch name arch = (arch \<noteq> [] \<and> length arch \<le> 32
     \<and> (list_all (\<lambda>c. is_alnum c \<or> c = CHR ''_'') arch
        \<or> (name = ''gpg-pubkey'' \<and> arch = ''(none)'')))"

section \<open>Parsing a query\<close>

type_synonym identity = "string \<times> string \<times> string"

definition parse_record :: "identity set \<Rightarrow> string \<Rightarrow> installed_rpm option" where
  "parse_record seen line = (case split_on CHR ''|'' line of
       [name, evr, arch, time] \<Rightarrow>
         if \<not> inventory_name name \<or> \<not> valid_evr evr \<or> \<not> inventory_arch name arch
            \<or> time = [] \<or> \<not> all_digits time \<or> (name, evr, arch) \<in> seen
         then None
         else map_option (Installed_Rpm name evr arch) (parse_u64 time)
     | _ \<Rightarrow> None)"

definition identity_of :: "installed_rpm \<Rightarrow> identity" where
  "identity_of k = (rpm_name k, rpm_evr k, rpm_arch k)"

text \<open>The loop over the lines: the set of identities, and the count of the records so far.\<close>

fun parse_records :: "identity set \<Rightarrow> nat \<Rightarrow> string list \<Rightarrow> installed_rpm list option" where
  "parse_records seen n [] = Some []"
| "parse_records seen n (line # rest) = (case parse_record seen line of
       None \<Rightarrow> None
     | Some k \<Rightarrow> if n + 1 > 100000 then None
                 else map_option ((#) k) (parse_records (insert (identity_of k) seen) (n + 1) rest))"

definition render_record :: "installed_rpm \<Rightarrow> string" where
  "render_record k = join_on ''|'' [rpm_name k, rpm_evr k, rpm_arch k,
     show_u64 (rpm_install_time k)] @ [nl]"

definition inventory_of :: "(bytes \<Rightarrow> string) \<Rightarrow> installed_rpm list \<Rightarrow> native_inventory" where
  "inventory_of sha256 ks = (let packages = sort ks in
     \<lparr>ni_packages = packages, ni_fingerprint = sha256 (concat (map render_record packages))\<rparr>)"

definition parse_query :: "(bytes \<Rightarrow> string) \<Rightarrow> bytes \<Rightarrow> (install_error, native_inventory) result" where
  "parse_query sha256 b =
     (if b = [] \<or> length b > MAX_INVENTORY_BYTES \<or> \<not> ends_with [nl] b \<or> \<not> utf8_valid b
      then Inl observation_error
      else ok_or observation_error
        (Option.bind (strip_suffix [nl] b) (\<lambda>text.
         map_option (inventory_of sha256) (parse_records {} 0 (split_on nl text)))))"

section \<open>Queries\<close>

definition native_rpm_request :: "string list \<Rightarrow> nat \<Rightarrow> process_request" where
  "native_rpm_request args limit = \<lparr>rq_executable = ''/usr/bin/rpm'',
     rq_args = [''--macros'', ''/usr/lib/rpm/macros'', ''--noplugins''] @ args,
     rq_timeout = from_secs 10, rq_stdout_limit = limit, rq_stderr_limit = 16384,
     rq_environment = []\<rparr>"

definition accept_rpm_output :: "process_result \<Rightarrow> (install_error, bytes) result" where
  "accept_rpm_output res =
     and_then (map_err (\<lambda>_. observation_error) res) (\<lambda>po.
       if po_termination po \<noteq> Exit 0 \<or> po_stdout_overflow po \<or> po_stderr_overflow po
       then Inl observation_error else Inr (po_stdout po))"

definition native_rpm :: "'e runner \<Rightarrow> string list \<Rightarrow> nat \<Rightarrow> ('e, (install_error, bytes) result) effect"
where
  "native_rpm runner args limit = do {
     res \<leftarrow> run_process runner (native_rpm_request args limit);
     pure (accept_rpm_output res)
   }"

definition inventory_args :: "string list" where
  "inventory_args = [''--dbpath'', ''/usr/lib/sysimage/rpm'', ''-qa'', ''--qf'', INVENTORY_FORMAT]"

definition query_inventory :: "(bytes \<Rightarrow> string) \<Rightarrow> 'e runner
    \<Rightarrow> ('e, (install_error, native_inventory) result) effect" where
  "query_inventory sha256 runner =
     attempt (native_rpm runner inventory_args MAX_INVENTORY_BYTES)
       (\<lambda>out. pure (parse_query sha256 out))"

definition verify_unchanged :: "(bytes \<Rightarrow> string) \<Rightarrow> 'e runner \<Rightarrow> native_inventory
    \<Rightarrow> ('e, (install_error, unit) result) effect" where
  "verify_unchanged sha256 runner iv =
     attempt (query_inventory sha256 runner) (\<lambda>now.
       pure (ensure (ni_fingerprint now = ni_fingerprint iv) state_changed))"

definition compare_expression :: "string \<Rightarrow> string \<Rightarrow> string" where
  "compare_expression left right =
     ''%{lua: local a=rpm.ver('' @ [dquote] @ left @ [dquote] @ ''); local b=rpm.ver('' @ [dquote]
     @ right @ [dquote] @ ''); if a < b then print(-1) elseif a > b then print(1) else print(0) end}''"

definition ordering_of :: "bytes \<Rightarrow> version_ordering option" where
  "ordering_of out =
     (if out = ''-1'' @ [nl] then Some Less
      else if out = ''0'' @ [nl] then Some Equal
      else if out = ''1'' @ [nl] then Some Greater else None)"

definition compare_rpm_versions :: "'e runner \<Rightarrow> string \<Rightarrow> string
    \<Rightarrow> ('e, (install_error, version_ordering) result) effect" where
  "compare_rpm_versions runner left right =
     (if \<not> valid_evr left \<or> \<not> valid_evr right then pure (Inl observation_error)
      else attempt (native_rpm runner [''--eval'', compare_expression left right] 16) (\<lambda>out.
        pure (ok_or observation_error (ordering_of out))))"

section \<open>Laws\<close>

definition rpm_ok :: "installed_rpm \<Rightarrow> bool" where
  "rpm_ok k = (inventory_name (rpm_name k) \<and> valid_evr (rpm_evr k)
     \<and> inventory_arch (rpm_name k) (rpm_arch k))"

definition bar_free :: "string \<Rightarrow> bool" where
  "bar_free s = (list_all is_graph s \<and> CHR ''|'' \<notin> set s)"

lemma bar_not_class [simp]:
  "\<not> is_alnum CHR ''|''" "\<not> is_digit CHR ''|''"
  by (simp_all add: ascii_simps)

lemma bar_freeI: "list_all P v \<Longrightarrow> (\<And>c. P c \<Longrightarrow> is_graph c \<and> c \<noteq> CHR ''|'') \<Longrightarrow> bar_free v"
  unfolding bar_free_def list_all_iff by blast

lemma alnum_not_bar: "is_alnum c \<Longrightarrow> is_graph c \<and> c \<noteq> CHR ''|''"
  using is_alnum_graph bar_not_class(1) by blast

lemma name_bar_free: "inventory_name v \<Longrightarrow> bar_free v"
  unfolding inventory_name_def
  by (elim conjE, erule bar_freeI) (use alnum_not_bar in \<open>auto simp: is_graph_def\<close>)

lemma scalar_bar_free: "rpm_scalar v \<Longrightarrow> bar_free v"
  unfolding rpm_scalar_def
  by (elim conjE, erule bar_freeI) (use alnum_not_bar in \<open>auto simp: is_graph_def\<close>)

lemma digits_bar_free: "all_digits v \<Longrightarrow> bar_free v"
  by (auto simp: all_digits_def bar_free_def list_all_iff dest: is_digit_graph)

lemma bar_free_simps [simp]: "bar_free []" "bar_free (c # s) \<longleftrightarrow> is_graph c \<and> c \<noteq> CHR ''|'' \<and> bar_free s"
  "bar_free (a @ b) \<longleftrightarrow> bar_free a \<and> bar_free b"
  by (auto simp: bar_free_def)

lemma valid_evr_iff:
  "valid_evr s \<longleftrightarrow> length s \<le> 256 \<and> (\<exists>epoch v r. s = epoch @ '':'' @ v @ ''-'' @ r
     \<and> decimal_u32 epoch \<and> rpm_scalar v \<and> rpm_scalar r)"
proof
  assume "valid_evr s"
  then show "length s \<le> 256 \<and> (\<exists>epoch v r. s = epoch @ '':'' @ v @ ''-'' @ r
     \<and> decimal_u32 epoch \<and> rpm_scalar v \<and> rpm_scalar r)"
    by (fastforce simp: valid_evr_def decimal_u32_def split_once_Some
        split: if_splits option.splits)
next
  assume "length s \<le> 256 \<and> (\<exists>epoch v r. s = epoch @ '':'' @ v @ ''-'' @ r
     \<and> decimal_u32 epoch \<and> rpm_scalar v \<and> rpm_scalar r)"
  then obtain epoch v r where s: "length s \<le> 256" "s = epoch @ '':'' @ v @ ''-'' @ r"
      "decimal_u32 epoch" "rpm_scalar v" "rpm_scalar r" by blast
  have "split_once CHR '':'' s = Some (epoch, v @ ''-'' @ r)"
    using s decimal_no_colon by (simp add: split_once_Some)
  moreover have "split_once CHR ''-'' (v @ ''-'' @ r) = Some (v, r)"
    using s rpm_scalar_no_dash by (simp add: split_once_Some)
  ultimately show "valid_evr s" using s by (simp add: valid_evr_def decimal_u32_def)
qed

lemma evr_bar_free: "valid_evr v \<Longrightarrow> bar_free v"
proof -
  assume "valid_evr v"
  then obtain e a b where "v = e @ '':'' @ a @ ''-'' @ b" "decimal_u32 e" "rpm_scalar a" "rpm_scalar b"
    by (auto simp: valid_evr_iff)
  then show ?thesis
    by (simp add: scalar_bar_free digits_bar_free decimal_u32_def is_graph_def)
qed

lemma arch_bar_free: "inventory_arch n a \<Longrightarrow> bar_free a"
proof -
  have "list_all (\<lambda>c. is_alnum c \<or> c = CHR ''_'') a \<Longrightarrow> bar_free a"
    by (erule bar_freeI) (use alnum_not_bar in \<open>auto simp: is_graph_def\<close>)
  moreover have "bar_free ''(none)''" by (simp add: is_graph_def)
  ultimately show "inventory_arch n a \<Longrightarrow> bar_free a"
    unfolding inventory_arch_def by blast
qed

lemma record_line_bar_free:
  assumes "rpm_ok k"
  shows "\<forall>f \<in> {rpm_name k, rpm_evr k, rpm_arch k, show_u64 (rpm_install_time k)}. bar_free f"
  using assms by (auto simp: rpm_ok_def name_bar_free evr_bar_free arch_bar_free digits_bar_free)

definition record_line :: "installed_rpm \<Rightarrow> string" where
  "record_line k = join_on ''|'' [rpm_name k, rpm_evr k, rpm_arch k, show_u64 (rpm_install_time k)]"

lemma render_record_line: "render_record k = record_line k @ [nl]"
  by (simp add: render_record_def record_line_def)

lemma split_record_line:
  assumes "rpm_ok k"
  shows "split_on CHR ''|'' (record_line k)
     = [rpm_name k, rpm_evr k, rpm_arch k, show_u64 (rpm_install_time k)]"
  unfolding record_line_def
  by (rule split_on_join) (use record_line_bar_free [OF assms] in \<open>auto simp: bar_free_def\<close>)

lemma parse_record_line:
  assumes "rpm_ok k" "identity_of k \<notin> seen"
  shows "parse_record seen (record_line k) = Some k"
  using assms unfolding parse_record_def split_record_line [OF assms(1)]
  by (simp add: rpm_ok_def identity_of_def)

lemma parse_record_Some:
  "parse_record seen line = Some k \<Longrightarrow> rpm_ok k \<and> identity_of k \<notin> seen"
  by (auto simp: parse_record_def rpm_ok_def identity_of_def split: list.splits if_splits)

lemma parse_records_lines:
  assumes "list_all rpm_ok ks" "distinct (map identity_of ks)"
    "identity_of ` set ks \<inter> seen = {}" "n + length ks \<le> 100000"
  shows "parse_records seen n (map record_line ks) = Some ks"
  using assms
proof (induction ks arbitrary: seen n)
  case (Cons k ks)
  then have "parse_records (insert (identity_of k) seen) (n + 1) (map record_line ks) = Some ks"
    by (intro Cons.IH) auto
  with Cons.prems show ?case by (simp add: parse_record_line)
qed simp

lemma parse_records_Some:
  "parse_records seen n lines = Some ks \<Longrightarrow> list_all rpm_ok ks \<and> distinct (map identity_of ks)
     \<and> identity_of ` set ks \<inter> seen = {} \<and> (n \<le> 100000 \<longrightarrow> n + length ks \<le> 100000)"
proof (induction lines arbitrary: seen n ks)
  case (Cons line lines)
  then obtain k ks' where k: "parse_record seen line = Some k" and n: "n + 1 \<le> 100000"
    and ks': "parse_records (insert (identity_of k) seen) (n + 1) lines = Some ks'"
    and ks: "ks = k # ks'"
    by (auto split: option.splits if_splits)
  from Cons.IH [OF ks'] parse_record_Some [OF k] n show ?case by (auto simp: ks)
qed simp

lemma record_line_graph: "rpm_ok k \<Longrightarrow> list_all is_graph (record_line k)"
  using record_line_bar_free [of k] by (auto simp: record_line_def bar_free_def is_graph_def)

lemma record_line_not_Nil [simp]: "record_line k \<noteq> []"
  by (simp add: record_line_def)

lemma graph_no_nl: "list_all is_graph s \<Longrightarrow> nl \<notin> set s"
  by (auto simp: list_all_iff is_graph_def)

definition render_inventory :: "installed_rpm list \<Rightarrow> bytes" where
  "render_inventory ks = concat (map render_record ks)"

lemma render_inventory_lines:
  "ks \<noteq> [] \<Longrightarrow> render_inventory ks = join_on [nl] (map record_line ks) @ [nl]"
proof (induction ks)
  case (Cons k ks)
  then show ?case
    by (cases ks) (simp_all add: render_inventory_def render_record_line)
qed simp

lemma parse_query_render:
  assumes ks: "ks \<noteq> []" "list_all rpm_ok ks" "distinct (map identity_of ks)" "length ks \<le> 100000"
    and size: "length (render_inventory ks) \<le> MAX_INVENTORY_BYTES"
  shows "parse_query sha256 (render_inventory ks) = Inr (inventory_of sha256 ks)"
proof -
  let ?text = "join_on [nl] (map record_line ks)"
  have "split_on nl ?text = map record_line ks"
    by (rule split_on_join) (use ks in \<open>auto simp: list_all_iff dest!: record_line_graph graph_no_nl\<close>)
  moreover have "parse_records {} 0 (map record_line ks) = Some ks"
    using ks by (intro parse_records_lines) auto
  moreover have "utf8_valid (?text @ [nl])"
  proof (rule utf8_valid_ascii)
    have "is_ascii (join_on [nl] ls)" if "\<forall>l \<in> set ls. list_all is_graph l" for ls
      using that
    proof (induction ls)
      case (Cons l ls)
      then show ?case
        by (cases ls) (auto simp: is_ascii_def dest: graph_ascii)
    qed (simp add: is_ascii_def)
    moreover have "\<forall>l \<in> set (map record_line ks). list_all is_graph l"
      using ks(2) record_line_graph by (auto simp only: list_all_iff [of rpm_ok] set_map)
    ultimately have "is_ascii ?text" by blast
    then show "is_ascii (?text @ [nl])" by (simp add: is_ascii_def)
  qed
  ultimately show ?thesis
    using size unfolding render_inventory_lines [OF ks(1)]
    by (simp add: parse_query_def ends_with_iff not_less)
qed

lemma parse_query_Inr:
  assumes "parse_query sha256 b = Inr iv"
  shows "\<exists>ks. iv = inventory_of sha256 ks \<and> list_all rpm_ok ks \<and> distinct (map identity_of ks)
     \<and> length ks \<le> 100000"
  using assms
  by (auto simp: parse_query_def Option.bind_eq_Some_conv split: if_splits dest!: parse_records_Some)

lemma inventory_of_perm: "mset ks = mset ls \<Longrightarrow> inventory_of sha256 ks = inventory_of sha256 ls"
proof -
  assume "mset ks = mset ls"
  then have "sort ks = sort ls" by (metis properties_for_sort sorted_sort mset_sort)
  then show ?thesis by (simp add: inventory_of_def)
qed

lemma sort_eq_mset: "sort xs = sort ys \<longleftrightarrow> mset xs = mset ys"
  by (metis mset_sort properties_for_sort sorted_sort)

lemma split_render:
  "list_all rpm_ok ks \<Longrightarrow> split_inclusive nl (render_inventory ks) = map render_record ks"
proof (induction ks)
  case (Cons k ks)
  then have "rpm_ok k" by simp
  then have "nl \<notin> set (record_line k)" by (intro graph_no_nl record_line_graph)
  from split_inclusive_app [OF this, of "render_inventory ks"] Cons show ?case
    by (simp add: render_inventory_def render_record_line)
qed (simp add: render_inventory_def)

lemma render_inj:
  assumes "list_all rpm_ok ks" "list_all rpm_ok ls" "render_inventory ks = render_inventory ls"
  shows "ks = ls"
proof -
  from split_render [OF assms(1)] split_render [OF assms(2)] assms(3)
  have "map render_record ks = map render_record ls" by simp
  moreover have "inj_on render_record (set ks \<union> set ls)"
  proof (rule inj_onI)
    fix k l
    assume "k \<in> set ks \<union> set ls" "l \<in> set ks \<union> set ls" and eq: "render_record k = render_record l"
    then have ok: "rpm_ok k" "rpm_ok l" using assms(1,2) by (auto simp: list_all_iff)
    from eq have line: "record_line k = record_line l" by (simp add: render_record_line)
    have fresh: "identity_of x \<notin> {}" for x by (rule notI) (erule emptyE)
    have "Some k = Some l"
      using parse_record_line [OF ok(1) fresh] parse_record_line [OF ok(2) fresh]
      unfolding line by (rule trans [OF sym])
    then show "k = l" by (rule option.inject [THEN iffD1])
  qed
  ultimately show ?thesis by (rule map_inj_on)
qed

text \<open>Equal fingerprints mean equal package sets when the digest does not collide on them.\<close>

definition no_collision :: "(bytes \<Rightarrow> string) \<Rightarrow> bytes \<Rightarrow> bytes \<Rightarrow> bool" where
  "no_collision sha256 a b = (sha256 a = sha256 b \<longrightarrow> a = b)"

lemma fingerprint_determines:
  assumes "no_collision sha256 (render_inventory (sort ks)) (render_inventory (sort ls))"
    and "list_all rpm_ok ks" "list_all rpm_ok ls"
    and "ni_fingerprint (inventory_of sha256 ks) = ni_fingerprint (inventory_of sha256 ls)"
  shows "inventory_of sha256 ks = inventory_of sha256 ls"
proof -
  have "render_inventory (sort ks) = render_inventory (sort ls)"
    using assms(1,4) by (simp add: inventory_of_def Let_def render_inventory_def no_collision_def)
  then have "sort ks = sort ls"
    by (rule render_inj [rotated 2]) (use assms in \<open>simp_all add: list_all_iff\<close>)
  then show ?thesis by (simp add: inventory_of_def)
qed

text \<open>Over any bounded runner, output that is accepted is all the child wrote.\<close>

context bounded_runner
begin

lemma accepted_output_complete:
  assumes "run rq e = (res, e')" "accept_rpm_output res = Inr out"
  shows "out = written_out rq e \<and> length (written_out rq e) \<le> rq_stdout_limit rq"
proof -
  from assms(2) obtain po where po: "res = Inr po" "\<not> po_stdout_overflow po" "out = po_stdout po"
    by (auto simp: accept_rpm_output_def split: if_splits)
  with assms(1) have r: "run rq e = (Inr po, e')" by simp
  from stdout_complete [OF r po(2)] stdout_bounded [OF r] po(3) show ?thesis by simp
qed

lemma native_rpm_complete:
  assumes "run_state (native_rpm run args limit) w = (Inr out, w')"
  shows "out = written_out (native_rpm_request args limit) (env w) \<and> length out \<le> limit"
proof -
  from assms obtain res e where r: "run (native_rpm_request args limit) (env w) = (res, e)"
    and a: "accept_rpm_output res = Inr out"
    by (auto simp: native_rpm_def run_process_def split: prod.splits)
  from accepted_output_complete [OF r a] show ?thesis by (auto simp: native_rpm_request_def)
qed

end

end
