(* ===== verification/Install_Properties.thy ===== *)
theory Install_Properties
  imports Samples Policy Inventory
begin

text \<open>
  The properties of the crate \<open>stack-install\<close>: the release metadata that is accepted, the requests
  that are admitted, and the inventory of installed packages.
\<close>

section \<open>Release metadata\<close>

text \<open>C33. A release manifest is accepted exactly when it is at most one mebibyte, the decoder
accepts it and it is sound: schema version 1, three decimal release
components without leading zeros, a repository URL of that release, between 1 and 128 packages with distinct names and file names, each
with a Fedora 44 name-epoch-version-release that determines its file name, and the two mandatory
runtime packages.\<close>

theorem manifest_document_exact:
  "parse_manifest decode b = Inr d \<longleftrightarrow> length b \<le> 1048576 \<and> decode b = Some d \<and> manifest_ok d"
  by (rule parse_manifest_Inr)

text \<open>A requested optional role for which the release has no package.\<close>

definition missing_role :: "manifest_document \<Rightarrow> bool \<Rightarrow> bool \<Rightarrow> bool" where
  "missing_role d py dv =
     (py \<and> \<not> list_ex (\<lambda>k. rp_role k = Role_Python) (mf_packages d)
      \<or> dv \<and> \<not> list_ex (\<lambda>k. rp_role k = Role_Devel) (mf_packages d))"

text \<open>The package selection contains, in order of name, exactly the runtime packages and the
profile and those of the requested optional roles; it fails, with one error, exactly when a
requested role has no package at all.\<close>

theorem package_selection_exact:
  "(selected_packages d py dv = Inr ks \<longleftrightarrow> \<not> missing_role d py dv
      \<and> ks = sort_key rp_name (filter (\<lambda>k. role_selected py dv (rp_role k)) (mf_packages d)))
   \<and> (selected_packages d py dv = Inl e \<longleftrightarrow> missing_role d py dv \<and> e = unavailable)"
proof -
  have ok: "selected_packages d py dv = Inr ks \<longleftrightarrow> \<not> missing_role d py dv
      \<and> ks = sort_key rp_name (filter (\<lambda>k. role_selected py dv (rp_role k)) (mf_packages d))" for ks
    by (auto simp: selected_packages_Inr missing_role_def list_ex_iff)
  then show ?thesis
    using selected_packages_Inl [of d py dv] by (cases "selected_packages d py dv") auto
qed

section \<open>Requests\<close>

text \<open>C34. A request is admitted, with the position of a profile, exactly when the caller is not
root, the experimental channel and the acceptance of its risk go together, the machine runs Fedora
44 on x86-64, every profile of the release is valid and for Fedora 44, and that position is the
only one whose profile the channel and the platform admit.\<close>

theorem install_request_exact:
  "validate_request opts facts ps = Inr i \<longleftrightarrow>
     request_ok opts facts ps \<and> only_selectable (policy_of opts) facts ps i"
  by (rule validate_request_Inr)

section \<open>The installed packages\<close>

text \<open>C36. The inventory parser inverts \<open>rpm\<close>'s query format, and the order in which \<open>rpm\<close> lists
the packages does not matter: any listing of the same packages gives the same inventory and so the
same fingerprint.\<close>

theorem inventory_roundtrip:
  assumes "mset ks = mset ls" "ks \<noteq> []" "list_all rpm_ok ls" "distinct (map identity_of ls)"
    "length ls \<le> 100000" "length (render_inventory ks) \<le> MAX_INVENTORY_BYTES"
  shows "parse_query sha256 (render_inventory ks) = Inr (inventory_of sha256 ls)"
proof -
  have "list_all rpm_ok ks"
    using assms(1,3) mset_eq_setD by (metis list_all_iff)
  moreover have "distinct (map identity_of ks)"
    using assms(1,4) by (metis mset_eq_imp_distinct_iff mset_map)
  moreover have "length ks \<le> 100000" using assms(1,5) mset_eq_length by metis
  ultimately have "parse_query sha256 (render_inventory ks) = Inr (inventory_of sha256 ks)"
    using assms(2,6) by (intro parse_query_render)
  then show ?thesis using inventory_of_perm [OF assms(1)] by simp
qed

definition sample_rpm :: "string \<Rightarrow> installed_rpm" where
  "sample_rpm n = Installed_Rpm n ''0:1.2-1.fc44'' ''x86_64'' 7"

lemma sample_rpm_ok: "rpm_ok (sample_rpm ''npu'')" "rpm_ok (sample_rpm ''gpu'')"
proof -
  have evr: "valid_evr ''0:1.2-1.fc44''"
    by (simp add: valid_evr_def all_digits_def parse_u32_def parse_unsigned_def dec_def digit_val_def
        no_leading_zero_def rpm_scalar_def ascii_simps)
  show "rpm_ok (sample_rpm ''npu'')" "rpm_ok (sample_rpm ''gpu'')"
    by (simp_all add: rpm_ok_def sample_rpm_def evr inventory_name_def inventory_arch_def ascii_simps)
qed

lemma sample_lines:
  "render_inventory [sample_rpm ''npu'', sample_rpm ''gpu''] =
     ''npu|0:1.2-1.fc44|x86_64|7'' @ [nl] @ ''gpu|0:1.2-1.fc44|x86_64|7'' @ [nl]"
proof -
  have "show_nat 7 = ''7''" by code_simp
  then show ?thesis
    by (simp add: render_inventory_def render_record_def sample_rpm_def show_u64_def)
qed

theorem inventory_roundtrip_witness:
  "parse_query (\<lambda>_. sample_digest) (''npu|0:1.2-1.fc44|x86_64|7'' @ [nl] @ ''gpu|0:1.2-1.fc44|x86_64|7'' @ [nl])
     = Inr (inventory_of (\<lambda>_. sample_digest) [sample_rpm ''gpu'', sample_rpm ''npu''])"
  unfolding sample_lines [symmetric]
  by (rule inventory_roundtrip)
    (simp_all add: sample_rpm_ok sample_lines identity_of_def MAX_INVENTORY_BYTES_def,
     simp add: sample_rpm_def)

end
