(* ===== verification/Host.thy ===== *)
theory Host
  imports Platform Manifest Process
begin

text \<open>
  What the installer (\<open>crates/stack-install\<close>) uses of its host besides the process runner: the
  calls of \<open>std::fs\<close> and \<open>tempfile\<close>, each a function of the environment that may answer
  differently at every call, and the path functions of \<open>std::path\<close>. A private directory of
  \<open>tempfile\<close> is removed when its owner is dropped: \<open>with_temp\<close> is a function that owns one for its
  whole body, \<open>owning\<close> a stretch of code that hands the directory on in a value it returns, and
  drops it on an early return. The ghost log records the directories made and removed, so that
  \<open>live\<close> says which are left.
\<close>

section \<open>Paths\<close>

datatype path_component = Root_Dir | Cur_Dir | Parent_Dir | Normal string

text \<open>\<open>Path::components\<close>: repeated and trailing slashes and inner dots are dropped.\<close>

definition path_components :: "string \<Rightarrow> path_component list" where
  "path_components p = (let parts = split_on CHR ''/'' p in
     (if is_absolute p then [Root_Dir] else if hd parts = ''.'' then [Cur_Dir] else [])
     @ map (\<lambda>c. if c = ''..'' then Parent_Dir else Normal c)
         (filter (\<lambda>c. c \<noteq> [] \<and> c \<noteq> ''.'') parts))"

definition same_path :: "string \<Rightarrow> string \<Rightarrow> bool" where
  "same_path a b = (path_components a = path_components b)"

definition path_file_name :: "string \<Rightarrow> string option" where
  "path_file_name p = (let cs = path_components p in
     if cs = [] then None else (case last cs of Normal c \<Rightarrow> Some c | _ \<Rightarrow> None))"

definition component_text :: "path_component \<Rightarrow> string" where
  "component_text c = (case c of Root_Dir \<Rightarrow> [] | Cur_Dir \<Rightarrow> ''.'' | Parent_Dir \<Rightarrow> ''..''
     | Normal s \<Rightarrow> s)"

definition path_text :: "path_component list \<Rightarrow> string" where
  "path_text cs = (if cs = [Root_Dir] then ''/'' else join_on ''/'' (map component_text cs))"

text \<open>\<open>Path::parent\<close>, as the path its components spell.\<close>

definition path_parent :: "string \<Rightarrow> string option" where
  "path_parent p = (let cs = path_components p in
     if cs = [] \<or> last cs = Root_Dir then None else Some (path_text (butlast cs)))"

section \<open>The file system\<close>

datatype entry_kind = Regular_File | Directory | Symlink | Special_File

record file_meta =
  fm_kind :: entry_kind
  fm_len :: nat

datatype read_failure = Cannot_Open io_error | Cannot_Read

record dir_entry =
  de_name :: string
  de_kind :: "(io_error, entry_kind) result"
  de_len :: "(io_error, nat) result"

text \<open>
  \<open>h_read\<close> opens a file and reads it to the end, or its first bytes where the code has a
  \<open>take\<close>; how \<open>read\<close> cuts the bytes into buffers does not matter to a hash or a vector.
  \<open>h_temp\<close> makes a directory of mode 0700 below \<open>/tmp\<close> whose name starts with the prefix.
\<close>

record 'e host =
  h_runner :: "'e runner"
  h_sha256 :: "bytes \<Rightarrow> string"
  h_lstat :: "string \<Rightarrow> 'e \<Rightarrow> (io_error, file_meta) result \<times> 'e"
  h_read :: "string \<Rightarrow> nat option \<Rightarrow> 'e \<Rightarrow> (read_failure, bytes) result \<times> 'e"
  h_write :: "string \<Rightarrow> bytes \<Rightarrow> 'e \<Rightarrow> (io_error, unit) result \<times> 'e"
  h_copy :: "string \<Rightarrow> string \<Rightarrow> nat option \<Rightarrow> 'e \<Rightarrow> (io_error, nat) result \<times> 'e"
  h_create_dir :: "string \<Rightarrow> 'e \<Rightarrow> (io_error, unit) result \<times> 'e"
  h_create_dir_all :: "string \<Rightarrow> 'e \<Rightarrow> (io_error, unit) result \<times> 'e"
  h_chmod :: "string \<Rightarrow> nat \<Rightarrow> 'e \<Rightarrow> (io_error, unit) result \<times> 'e"
  h_read_link :: "string \<Rightarrow> 'e \<Rightarrow> (io_error, string) result \<times> 'e"
  h_canonicalize :: "string \<Rightarrow> 'e \<Rightarrow> (io_error, string) result \<times> 'e"
  h_read_dir :: "string \<Rightarrow> 'e \<Rightarrow> (io_error, (io_error, dir_entry) result list) result \<times> 'e"
  h_temp :: "string \<Rightarrow> 'e \<Rightarrow> (io_error, string) result \<times> 'e"
  h_remove :: "string \<Rightarrow> 'e \<Rightarrow> 'e"

definition emit :: "event \<Rightarrow> ('e, unit) effect" where
  "emit ev = State (\<lambda>w. ((), w\<lparr>log := log w @ [ev]\<rparr>))"

definition lstat :: "'e host \<Rightarrow> string \<Rightarrow> ('e, (io_error, file_meta) result) effect" where
  "lstat host p = attempt (observe (h_lstat host p)) (\<lambda>m. do {
     emit (Saw p (fm_kind m = Regular_File) (fm_len m));
     pure (Inr m)
   })"

definition read_file :: "'e host \<Rightarrow> string \<Rightarrow> nat option \<Rightarrow> ('e, (read_failure, bytes) result) effect"
where
  "read_file host p n = attempt (observe (h_read host p n)) (\<lambda>b. do {
     emit (Was_Read p b);
     pure (Inr b)
   })"

definition write_file :: "'e host \<Rightarrow> string \<Rightarrow> bytes \<Rightarrow> ('e, (io_error, unit) result) effect" where
  "write_file host p b = do { emit (Wrote p b); observe (h_write host p b) }"

definition copy_file :: "'e host \<Rightarrow> string \<Rightarrow> string \<Rightarrow> nat option \<Rightarrow> ('e, (io_error, nat) result) effect"
where
  "copy_file host src dst n = do { emit (Copied src dst); observe (h_copy host src dst n) }"

definition create_dir :: "'e host \<Rightarrow> string \<Rightarrow> ('e, (io_error, unit) result) effect" where
  "create_dir host p = do { emit (Made_Dir p); observe (h_create_dir host p) }"

definition make_temp :: "'e host \<Rightarrow> string \<Rightarrow> ('e, (io_error, string) result) effect" where
  "make_temp host pre = attempt (observe (h_temp host pre)) (\<lambda>d. do {
     emit (Made_Temp d);
     pure (Inr d)
   })"

definition remove_temp :: "'e host \<Rightarrow> string \<Rightarrow> ('e, unit) effect" where
  "remove_temp host d = do { observe (\<lambda>e. ((), h_remove host d e)); emit (Removed d) }"

definition with_temp :: "'e host \<Rightarrow> string \<Rightarrow> 'x \<Rightarrow> (string \<Rightarrow> ('e, ('x, 'a) result) effect)
    \<Rightarrow> ('e, ('x, 'a) result) effect" where
  "with_temp host pre err body =
     attempt (with_err (\<lambda>_. err) (make_temp host pre)) (\<lambda>d. do {
       r \<leftarrow> body d;
       remove_temp host d;
       pure r
     })"

definition owning :: "'e host \<Rightarrow> string \<Rightarrow> ('e, ('x, 'a) result) effect
    \<Rightarrow> ('e, ('x, 'a) result) effect" where
  "owning host d m = do {
     r \<leftarrow> m;
     (case r of
        Inl e \<Rightarrow> do { remove_temp host d; pure (Inl e) }
      | Inr a \<Rightarrow> pure (Inr a))
   }"

section \<open>Files and processes the installer checks\<close>

definition regular_within :: "nat \<Rightarrow> file_meta \<Rightarrow> bool" where
  "regular_within limit m = (fm_kind m = Regular_File \<and> fm_len m \<le> limit)"

text \<open>A process whose complete output counts only if it ended with exit code 0 within its limits.\<close>

definition complete_output :: "'x \<Rightarrow> process_output \<Rightarrow> ('x, bytes) result" where
  "complete_output err po =
     (if po_termination po \<noteq> Exit 0 \<or> po_stdout_overflow po \<or> po_stderr_overflow po
      then Inl err else Inr (po_stdout po))"

definition run_complete :: "'e host \<Rightarrow> process_request \<Rightarrow> 'x \<Rightarrow> 'x \<Rightarrow> ('e, ('x, bytes) result) effect"
where
  "run_complete host rq failed rejected =
     attempt (with_err (\<lambda>_. failed) (run_process (h_runner host) rq)) (\<lambda>po.
       pure (complete_output rejected po))"

definition utf8_text :: "'x \<Rightarrow> bytes \<Rightarrow> ('x, string) result" where
  "utf8_text err b = (if utf8_valid b then Inr b else Inl err)"

lemma utf8_text_Inr [simp]: "utf8_text err b = Inr s \<longleftrightarrow> s = b \<and> utf8_valid b"
  by (auto simp: utf8_text_def)

lemma complete_output_Inr: "complete_output err po = Inr out \<longleftrightarrow>
   po_termination po = Exit 0 \<and> \<not> po_stdout_overflow po \<and> \<not> po_stderr_overflow po
   \<and> out = po_stdout po"
  by (auto simp: complete_output_def)

section \<open>Laws\<close>

lemma run_state_emit [effect_simps]: "run_state (emit ev) w = ((), w\<lparr>log := log w @ [ev]\<rparr>)"
  by (simp add: emit_def)

lemma only_does_emit: "E ev \<Longrightarrow> only_does E (emit ev)"
  by (simp add: only_does_def emit_def)

lemma run_complete_Inr:
  "run_state (run_complete host rq failed rejected) w = (Inr out, w') \<longleftrightarrow>
     (\<exists>po. run_state (run_process (h_runner host) rq) w = (Inr po, w')
        \<and> complete_output rejected po = Inr out)"
  by (auto simp: run_complete_def attempt_Inr with_err_Inr)

text \<open>What the helpers do, given what events are allowed.\<close>

lemma only_does_lstat: "(\<And>k n. E (Saw p k n)) \<Longrightarrow> only_does E (lstat host p)"
  unfolding lstat_def by (intro only_runs_attempt only_runs_bind only_does_emit) auto

lemma only_does_read: "(\<And>b. E (Was_Read p b)) \<Longrightarrow> only_does E (read_file host p n)"
  unfolding read_file_def by (intro only_runs_attempt only_runs_bind only_does_emit) auto

lemma only_does_write: "E (Wrote p b) \<Longrightarrow> only_does E (write_file host p b)"
  unfolding write_file_def by (intro only_runs_bind only_does_emit) auto

lemma only_does_copy: "E (Copied src dst) \<Longrightarrow> only_does E (copy_file host src dst n)"
  unfolding copy_file_def by (intro only_runs_bind only_does_emit) auto

lemma only_does_create_dir: "E (Made_Dir p) \<Longrightarrow> only_does E (create_dir host p)"
  unfolding create_dir_def by (intro only_runs_bind only_does_emit) auto

lemma only_does_run_complete: "(\<And>r. E (Ran rq r)) \<Longrightarrow> only_does E (run_complete host rq failed rejected)"
  unfolding run_complete_def
  by (intro only_runs_attempt only_runs_with_err only_does_process) auto

lemma only_does_remove_temp: "E (Removed d) \<Longrightarrow> only_does E (remove_temp host d)"
  unfolding remove_temp_def by (intro only_runs_bind only_does_emit) auto

lemma only_does_make_temp: "(\<And>d. E (Made_Temp d)) \<Longrightarrow> only_does E (make_temp host pre)"
  unfolding make_temp_def by (intro only_runs_attempt only_runs_bind only_does_emit) auto

lemma only_does_with_temp:
  "(\<And>d. E (Made_Temp d) \<and> E (Removed d)) \<Longrightarrow> (\<And>d. only_does E (body d)) \<Longrightarrow>
   only_does E (with_temp host pre err body)"
  unfolding with_temp_def
  by (intro only_runs_attempt only_runs_with_err only_runs_bind only_does_make_temp
      only_does_remove_temp only_runs_pure) auto

lemma only_does_owning: "E (Removed d) \<Longrightarrow> only_does E m \<Longrightarrow> only_does E (owning host d m)"
  unfolding owning_def
  by (intro only_runs_bind) (auto intro!: only_runs_bind only_does_remove_temp split: sum.split)

lemma with_temp_Inr:
  assumes "run_state (with_temp host pre err body) w = (Inr a, w')"
  shows "\<exists>d u v. run_state (make_temp host pre) w = (Inr d, u) \<and> run_state (body d) u = (Inr a, v)"
proof -
  from assms obtain d u where d: "run_state (make_temp host pre) w = (Inr d, u)"
    and b: "run_state (do { r \<leftarrow> body d; remove_temp host d; pure r }) u = (Inr a, w')"
    unfolding with_temp_def attempt_Inr with_err_Inr by blast
  obtain r v where v: "run_state (body d) u = (r, v)" by (cases "run_state (body d) u") blast
  with b have "r = Inr a" by (simp split: prod.splits)
  with d v show ?thesis by blast
qed

lemma owning_Inr:
  "run_state (owning host d m) w = (Inr a, w') \<longleftrightarrow> run_state m w = (Inr a, w')"
  by (auto simp: owning_def split: prod.splits sum.splits)

section \<open>Private directories that are left\<close>

definition live_step :: "event \<Rightarrow> string multiset \<Rightarrow> string multiset" where
  "live_step ev ds = (case ev of Made_Temp d \<Rightarrow> add_mset d ds | Removed d \<Rightarrow> ds - {#d#} | _ \<Rightarrow> ds)"

definition live :: "event list \<Rightarrow> string multiset" where
  "live evs = fold live_step evs {#}"

lemma live_snoc [simp]: "live (evs @ [ev]) = live_step ev (live evs)"
  by (simp add: live_def)

text \<open>
  Given the directories \<open>k\<close>, the computation gives them up and leaves those of \<open>h\<close> of its result.
\<close>

definition accounts :: "string multiset \<Rightarrow> ('a \<Rightarrow> string multiset) \<Rightarrow> ('e, 'a) effect \<Rightarrow> bool" where
  "accounts k h m = (\<forall>w r w'. run_state m w = (r, w') \<and> k \<subseteq># live (log w) \<longrightarrow>
     live (log w') = live (log w) - k + h r)"

abbreviation tidy :: "('e, 'a) effect \<Rightarrow> bool" where
  "tidy \<equiv> accounts {#} (\<lambda>_. {#})"

lemma accountsD: "accounts k h m \<Longrightarrow> run_state m w = (r, w') \<Longrightarrow> k \<subseteq># live (log w) \<Longrightarrow>
   live (log w') = live (log w) - k + h r"
  by (simp add: accounts_def)

lemma accounts_frame:
  assumes "accounts k h m" shows "accounts (k + j) (\<lambda>r. h r + j) m"
  unfolding accounts_def
proof (intro allI impI, elim conjE)
  fix w r w'
  assume r: "run_state m w = (r, w')" and s: "k + j \<subseteq># live (log w)"
  then have "k \<subseteq># live (log w)" by (meson mset_subset_eq_add_left subset_mset.order_trans)
  from accountsD [OF assms r this] s
  show "live (log w') = live (log w) - (k + j) + (h r + j)"
    by (auto simp: subset_mset.le_iff_add union_ac)
qed

lemma accounts_keep: "tidy m \<Longrightarrow> accounts k (\<lambda>_. k) m"
  using accounts_frame [of "{#}" "\<lambda>_. {#}" m k] by simp

lemma accounts_bind:
  assumes m: "accounts k h m" and f: "\<And>a. accounts (h a) g (f a)"
  shows "accounts k g (State_Monad.bind m f)"
  unfolding accounts_def
proof (intro allI impI, elim conjE)
  fix w r w'
  assume r: "run_state (State_Monad.bind m f) w = (r, w')" and s: "k \<subseteq># live (log w)"
  obtain a u where u: "run_state m w = (a, u)" by fastforce
  with r have "run_state (f a) u = (r, w')" by simp
  moreover have l: "live (log u) = live (log w) - k + h a" by (rule accountsD [OF m u s])
  ultimately show "live (log w') = live (log w) - k + g r"
    using accountsD [OF f] by fastforce
qed

lemma accounts_return: "k = h x \<Longrightarrow> accounts k h (State_Monad.return x)"
  by (auto simp: accounts_def)

lemma accounts_pure: "k = h r \<Longrightarrow> accounts k h (pure r)"
  by (auto simp: accounts_def)

lemma accounts_attempt:
  assumes "accounts k h m" and "\<And>a. accounts (h (Inr a)) g (f a)" and "\<And>e. h (Inl e) = g (Inl e)"
  shows "accounts k g (attempt m f)"
  unfolding attempt_def
  by (rule accounts_bind [OF assms(1)])
    (use assms(2,3) in \<open>auto split: sum.split intro!: accounts_return\<close>)

lemma tidy_quiet:
  assumes "only_does (\<lambda>ev. live_step ev = (\<lambda>ds. ds)) m" shows "tidy m"
  unfolding accounts_def
proof (intro allI impI)
  fix w r w'
  assume "run_state m w = (r, w') \<and> {#} \<subseteq># live (log w)"
  then obtain evs where w': "log w' = log w @ evs"
    and q: "list_all (\<lambda>ev. live_step ev = (\<lambda>ds. ds)) evs"
    using assms unfolding only_does_def by (metis snd_conv)
  from q have "live (log w @ evs) = live (log w)"
    by (induction evs rule: rev_induct) (simp_all add: append_assoc [symmetric] del: append_assoc)
  then show "live (log w') = live (log w) - {#} + {#}" by (simp add: w')
qed

lemma live_step_quiet [simp]:
  "live_step (Ran rq r) = (\<lambda>ds. ds)" "live_step (Privileged argv) = (\<lambda>ds. ds)"
  "live_step (Started x args) = (\<lambda>ds. ds)" "live_step (Wrote p b) = (\<lambda>ds. ds)"
  "live_step (Made_Dir p) = (\<lambda>ds. ds)" "live_step (Copied p q) = (\<lambda>ds. ds)"
  "live_step (Renamed p q) = (\<lambda>ds. ds)"
  "live_step (Saw p k n) = (\<lambda>ds. ds)" "live_step (Was_Read p b) = (\<lambda>ds. ds)"
  "live_step (Displayed t) = (\<lambda>ds. ds)" "live_step (Answered t) = (\<lambda>ds. ds)"
  by (auto simp: live_step_def)

lemma tidy_observe [simp]: "tidy (observe f)"
  by (rule tidy_quiet) simp

lemma tidy_run_process [simp]: "tidy (run_process runner rq)"
  by (rule tidy_quiet) (simp add: only_does_process)

lemma tidy_run_privileged [simp]: "tidy (run_privileged executor argv)"
  by (rule tidy_quiet) (simp add: only_does_privileged)

lemma tidy_lstat [simp]: "tidy (lstat host p)"
  by (rule tidy_quiet) (simp add: only_does_lstat)

lemma tidy_read_file [simp]: "tidy (read_file host p n)"
  by (rule tidy_quiet) (simp add: only_does_read)

lemma tidy_write_file [simp]: "tidy (write_file host p b)"
  by (rule tidy_quiet) (simp add: only_does_write)

lemma tidy_copy_file [simp]: "tidy (copy_file host src dst n)"
  by (rule tidy_quiet) (simp add: only_does_copy)

lemma tidy_create_dir [simp]: "tidy (create_dir host p)"
  by (rule tidy_quiet) (simp add: only_does_create_dir)

lemma tidy_run_complete [simp]: "tidy (run_complete host rq failed rejected)"
  by (rule tidy_quiet) (simp add: only_does_run_complete)

lemma tidy_pure [simp]: "tidy (pure r)" "tidy (State_Monad.return x)"
  by (simp_all add: accounts_pure accounts_return)

lemma tidy_attempt: "tidy m \<Longrightarrow> (\<And>a. tidy (f a)) \<Longrightarrow> tidy (attempt m f)"
  by (rule accounts_attempt) (assumption | simp)+

lemma accounts_with_err:
  assumes "accounts k h m" and "\<And>e. h (Inl e) = g (Inl (x e))" and "\<And>a. h (Inr a) = g (Inr a)"
  shows "accounts k g (with_err x m)"
  unfolding with_err_def
  by (rule accounts_bind [OF assms(1)])
    (use assms(2,3) in \<open>auto simp: map_err_def split: sum.split intro!: accounts_pure\<close>)

lemma tidy_with_err: "tidy m \<Longrightarrow> tidy (with_err x m)"
  by (rule accounts_with_err) (assumption | simp)+

lemma tidy_each: "(\<And>x. tidy (f x)) \<Longrightarrow> tidy (each_attempt f xs)"
  by (induction xs) (auto intro: tidy_attempt)

lemma tidy_collect: "(\<And>x. tidy (f x)) \<Longrightarrow> tidy (collect_attempt f xs)"
  by (induction xs) (auto intro!: tidy_attempt)

text \<open>What a result holds when only success holds a directory.\<close>

definition held :: "('a \<Rightarrow> string multiset) \<Rightarrow> ('x, 'a) result \<Rightarrow> string multiset" where
  "held h r = (case r of Inl _ \<Rightarrow> {#} | Inr a \<Rightarrow> h a)"

lemma held_simps [simp]: "held h (Inl e) = {#}" "held h (Inr a) = h a"
  by (simp_all add: held_def)

lemma emit_made: "accounts {#} (\<lambda>_. {#d#}) (emit (Made_Temp d))"
  by (simp add: accounts_def run_state_emit live_step_def)

lemma emit_removed: "accounts {#d#} (\<lambda>_. {#}) (emit (Removed d))"
  by (simp add: accounts_def run_state_emit live_step_def)

lemma make_temp_accounts: "accounts {#} (held (\<lambda>d. {#d#})) (make_temp host pre)"
  unfolding make_temp_def
  by (rule accounts_attempt [OF tidy_observe], rule accounts_bind [OF emit_made])
    (simp_all add: accounts_pure)

lemma make_temp_then:
  assumes "\<And>d. accounts {#d#} h (f d)" and "\<And>e. h (Inl e) = {#}"
  shows "accounts {#} h (attempt (with_err x (make_temp host pre)) f)"
proof (rule accounts_attempt)
  show "accounts {#} (held (\<lambda>d. {#d#})) (with_err x (make_temp host pre))"
    by (rule accounts_with_err [OF make_temp_accounts]) simp_all
qed (simp_all add: assms)

lemma remove_temp_accounts: "accounts {#d#} (\<lambda>_. {#}) (remove_temp host d)"
  unfolding remove_temp_def
  by (rule accounts_bind [OF accounts_keep [OF tidy_observe] emit_removed])

lemma with_temp_accounts:
  assumes body: "\<And>d. accounts {#} h (body d)" and err: "\<And>e. h (Inl e) = {#}"
  shows "accounts {#} h (with_temp host pre err body)"
  unfolding with_temp_def
proof (rule make_temp_then)
  show "accounts {#d#} h (do { r \<leftarrow> body d; remove_temp host d; pure r })" for d
  proof (rule accounts_bind)
    show "accounts {#d#} (\<lambda>r. h r + {#d#}) (body d)"
      using accounts_frame [OF body, of "{#d#}" d] by simp
    show "accounts (h r + {#d#}) h (do { remove_temp host d; pure r })" for r
      using accounts_frame [OF remove_temp_accounts, of d "h r" host]
      by (intro accounts_bind accounts_pure) (simp_all add: add.commute)
  qed
qed (simp add: err)

lemma tidy_with_temp: "(\<And>d. tidy (body d)) \<Longrightarrow> tidy (with_temp host pre err body)"
  by (rule with_temp_accounts) simp_all

lemma owning_accounts:
  assumes m: "accounts k h m"
    and err: "\<And>e. h (Inl e) = g (Inl e)" and ok: "\<And>a. add_mset d (h (Inr a)) = g (Inr a)"
  shows "accounts (add_mset d k) g (owning host d m)"
  unfolding owning_def
proof (rule accounts_bind)
  show "accounts (add_mset d k) (\<lambda>r. h r + {#d#}) m"
    using accounts_frame [OF m, of "{#d#}"] by simp
  show "accounts (h r + {#d#}) g (case r of
        Inl e \<Rightarrow> do { remove_temp host d; pure (Inl e) } | Inr a \<Rightarrow> pure (Inr a))" for r
  proof (cases r)
    case (Inl e)
    then show ?thesis
      using accounts_frame [OF remove_temp_accounts, of d "h r" host] err
      by (auto intro!: accounts_bind accounts_pure simp: add.commute)
  next
    case (Inr a)
    then show ?thesis using ok by (auto intro!: accounts_pure)
  qed
qed

lemmas tidy_intros = tidy_attempt tidy_with_err tidy_each tidy_collect tidy_with_temp

section \<open>Steps that leave the system as it is\<close>

text \<open>
  The processes that only read the system, apart from private directories: downloads, GnuPG, RPM
  queries, verifications and evaluations, and \<open>rpmkeys\<close> checking a package or importing a key into
  a database that is named on its command line.
\<close>

definition harmless_request :: "process_request \<Rightarrow> bool" where
  "harmless_request rq =
     (rq_executable rq = ''/usr/bin/curl''
      \<or> rq_executable rq = ''/usr/bin/gpg'' \<and> ''--homedir'' \<in> set (rq_args rq)
      \<or> rq_executable rq = ''/usr/bin/rpm''
          \<and> set (rq_args rq) \<inter> {''-qa'', ''-qp'', ''-qf'', ''-Vf'', ''--eval''} \<noteq> {}
      \<or> rq_executable rq = ''/usr/bin/rpmkeys''
          \<and> (''--checksig'' \<in> set (rq_args rq)
             \<or> ''--dbpath'' \<in> set (rq_args rq) \<and> ''/usr/lib/sysimage/rpm'' \<notin> set (rq_args rq)))"

definition unprivileged :: "event \<Rightarrow> bool" where
  "unprivileged ev = (case ev of
       Ran rq _ \<Rightarrow> harmless_request rq
     | Privileged argv \<Rightarrow> False
     | Started x args \<Rightarrow> x = ''/usr/bin/dnf5'' \<and> ''--downloadonly'' \<in> set args
     | _ \<Rightarrow> True)"

lemma unprivileged_simps [simp]:
  "unprivileged (Ran rq r) = harmless_request rq" "\<not> unprivileged (Privileged argv)"
  "unprivileged (Started x args) \<longleftrightarrow> x = ''/usr/bin/dnf5'' \<and> ''--downloadonly'' \<in> set args"
  "unprivileged (Made_Temp d)" "unprivileged (Removed d)" "unprivileged (Wrote p b)"
  "unprivileged (Made_Dir p)" "unprivileged (Copied p q)" "unprivileged (Renamed p q)" "unprivileged (Saw p k n)"
  "unprivileged (Was_Read p b)" "unprivileged (Displayed t)" "unprivileged (Answered t)"
  by (simp_all add: unprivileged_def)

abbreviation harmless :: "('e, 'a) effect \<Rightarrow> bool" where
  "harmless \<equiv> only_does unprivileged"

lemma harmless_host [simp]:
  "harmless (lstat host p)" "harmless (read_file host p n)"
  "harmless (write_file host p b)" "harmless (copy_file host src dst n)"
  "harmless (create_dir host p)" "harmless (remove_temp host d)" "harmless (make_temp host pre)"
  by (simp_all add: only_does_write only_does_copy only_does_create_dir only_does_remove_temp
      only_does_make_temp only_does_lstat only_does_read)

lemma harmless_with_temp: "(\<And>d. harmless (body d)) \<Longrightarrow> harmless (with_temp host pre err body)"
  by (rule only_does_with_temp) simp_all

lemma harmless_owning: "harmless m \<Longrightarrow> harmless (owning host d m)"
  by (rule only_does_owning) simp_all

lemma harmless_run: "harmless_request rq \<Longrightarrow> harmless (run_complete host rq failed rejected)"
  by (rule only_does_run_complete) simp

lemmas harmless_intros = only_runs_attempt only_runs_with_err only_runs_each only_runs_collect
  harmless_with_temp harmless_owning harmless_run


section \<open>The traces of the helpers\<close>

named_theorems leaves_rules "what a successful step leaves in the log"

lemmas [leaves_rules] = leaves_pure leaves_with_err leaves_process

lemma leaves_lstat [leaves_rules]:
  "leaves (\<lambda>m evs. evs = [Saw p (fm_kind m = Regular_File) (fm_len m)]) (lstat host p)"
  by (auto simp: leaves_def lstat_def attempt_Inr run_state_emit observe_run)

lemma leaves_read [leaves_rules]: "leaves (\<lambda>b evs. evs = [Was_Read p b]) (read_file host p n)"
  by (auto simp: leaves_def read_file_def attempt_Inr run_state_emit observe_run)

lemma leaves_write [leaves_rules]: "leaves (\<lambda>_ evs. evs = [Wrote p b]) (write_file host p b)"
  by (auto simp: leaves_def write_file_def run_state_emit observe_run split: prod.splits)

lemma leaves_copy [leaves_rules]: "leaves (\<lambda>_ evs. evs = [Copied p q]) (copy_file host p q n)"
  by (auto simp: leaves_def copy_file_def run_state_emit observe_run split: prod.splits)

lemma leaves_create_dir [leaves_rules]: "leaves (\<lambda>_ evs. evs = [Made_Dir p]) (create_dir host p)"
  by (auto simp: leaves_def create_dir_def run_state_emit observe_run split: prod.splits)

lemma leaves_observe [leaves_rules]: "leaves (\<lambda>_ evs. evs = []) (observe f)"
  by (auto simp: leaves_def observe_run)

lemma leaves_run_complete [leaves_rules]:
  "leaves (\<lambda>out evs. \<exists>po. evs = [Ran rq (Inr po)] \<and> complete_output () po = Inr out)
     (run_complete host rq failed rejected)"
  by (auto simp: leaves_def run_complete_Inr run_process_run complete_output_Inr)

lemma leaves_make_temp [leaves_rules]: "leaves (\<lambda>d evs. evs = [Made_Temp d]) (make_temp host pre)"
  by (auto simp: leaves_def make_temp_def attempt_Inr run_state_emit observe_run)

lemma leaves_with_temp:
  assumes "\<And>d. leaves (P d) (body d)"
  shows "leaves (\<lambda>a evs. \<exists>d es. evs = Made_Temp d # es @ [Removed d] \<and> P d a es)
     (with_temp host pre err body)"
  unfolding leaves_def
proof (intro allI impI)
  fix w a w'
  assume "run_state (with_temp host pre err body) w = (Inr a, w')"
  then obtain d u where d: "run_state (make_temp host pre) w = (Inr d, u)"
    and b: "run_state (do { r \<leftarrow> body d; remove_temp host d; pure r }) u = (Inr a, w')"
    unfolding with_temp_def attempt_Inr with_err_Inr by blast
  obtain r v where v: "run_state (body d) u = (r, v)" by (cases "run_state (body d) u") blast
  with b have r: "r = Inr a" and w': "log w' = log v @ [Removed d]"
    by (auto simp: remove_temp_def observe_run run_state_emit split: prod.splits)
  obtain es where "log v = log u @ es" "P d a es" using leavesD [OF assms] v r by blast
  moreover have "log u = log w @ [Made_Temp d]" using leavesD [OF leaves_make_temp d] by simp
  ultimately show "\<exists>evs. log w' = log w @ evs
      \<and> (\<exists>d es. evs = Made_Temp d # es @ [Removed d] \<and> P d a es)"
    using w' by (intro exI [of _ "Made_Temp d # es @ [Removed d]"]) auto
qed

lemma leaves_owning: "leaves P m \<Longrightarrow> leaves P (owning host d m)"
  by (simp add: leaves_def owning_Inr)

lemma leaves_each_exact:
  assumes "\<And>x. leaves (\<lambda>_ evs. evs = g x) (f x)"
  shows "leaves (\<lambda>_ evs. evs = concat (map g xs)) (each_attempt f xs)"
proof (rule leaves_weaken [OF leaves_each [OF assms]])
  fix evs
  assume "\<exists>ess. evs = concat ess \<and> list_all2 (\<lambda>x es. \<exists>u. es = g x) xs ess"
  then obtain ess where "evs = concat ess" "list_all2 (\<lambda>x es. es = g x) xs ess" by auto
  moreover from this(2) have "ess = map g xs" by (induction) auto
  ultimately show "evs = concat (map g xs)" by simp
qed

text \<open>The first step of a trace, by the shape of what it leaves.\<close>

named_theorems followed_simps "the first step of a trace"

lemma followed_when [followed_simps]:
  "followed (\<lambda>a evs. R a \<and> evs = []) Q b evs \<longleftrightarrow> (\<exists>a. R a \<and> Q a b evs)"
  by (auto simp: followed_def)

lemma followed_exact [followed_simps]:
  "followed (\<lambda>a evs. evs = E a) Q b evs \<longleftrightarrow> (\<exists>a es. evs = E a @ es \<and> Q a b es)"
  by (auto simp: followed_def)

lemma followed_some [followed_simps]:
  "followed (\<lambda>a evs. \<exists>x. evs = [E x] \<and> R a x) Q b evs
     \<longleftrightarrow> (\<exists>a x es. evs = E x # es \<and> R a x \<and> Q a b es)" (is "?l \<longleftrightarrow> ?r")
proof
  assume ?l
  then obtain a x es where "evs = [E x] @ es" "R a x" "Q a b es" unfolding followed_def by blast
  then show ?r by (intro exI [of _ a] exI [of _ x] exI [of _ es]) simp
next
  assume ?r
  then obtain a x es where "evs = [E x] @ es" "R a x" "Q a b es" by auto
  then show ?l unfolding followed_def by blast
qed

end
