(* ===== verification/Signature.thy ===== *)
theory Signature
  imports Host
begin

text \<open>
  \<open>crates/stack-install/src/signature.rs\<close>: the detached signature of the release metadata. GnuPG is
  run through the process runner in a private directory; its machine status decides.
\<close>

record release_trust =
  rt_sha256 :: string
  rt_primary_fingerprint :: string
  rt_keyring :: bytes

definition upper_hex :: "char \<Rightarrow> bool" where
  "upper_hex c = (is_hexdigit c \<and> \<not> is_lower c)"

definition fingerprint :: "string \<Rightarrow> bool" where
  "fingerprint v = (length v = 40 \<and> list_all upper_hex v)"

section \<open>The machine status\<close>

definition signature_invalid :: install_error where
  "signature_invalid = integrity ''signature does not satisfy the pinned release-key policy''"

text \<open>What the loop over the lines carries: the signatures begun, and the keys it has seen.\<close>

record signature_state =
  sg_starts :: nat
  sg_good_key :: "string option"
  sg_valid_key :: "string option"

definition ignored_record :: "string \<Rightarrow> bool" where
  "ignored_record f = (f \<in> {''KEY_CONSIDERED'', ''SIG_ID'', ''TRUST_UNDEFINED'', ''TRUST_NEVER'',
     ''TRUST_MARGINAL'', ''TRUST_FULLY'', ''TRUST_ULTIMATE''})"

definition good_key_id :: "string \<Rightarrow> bool" where
  "good_key_id f = (length f = 16 \<and> list_all upper_hex f)"

definition valid_signature :: "string \<Rightarrow> string list \<Rightarrow> bool" where
  "valid_signature expected_primary parts =
     (fingerprint (parts ! 1) \<and> parts ! 10 = expected_primary \<and> parts ! 5 = ''4''
      \<and> parts ! 6 = ''0'' \<and> parts ! 8 \<in> {''8'', ''9'', ''10''} \<and> parts ! 9 = ''00'')"

definition status_record :: "string \<Rightarrow> signature_state \<Rightarrow> string list \<Rightarrow> signature_state option" where
  "status_record expected_primary s parts = (case parts of
       [] \<Rightarrow> None
     | f # _ \<Rightarrow>
         if f = ''NEWSIG'' then Some (s\<lparr>sg_starts := sg_starts s + 1\<rparr>)
         else if f = ''GOODSIG'' \<and> length parts \<ge> 3 \<and> sg_good_key s = None
         then (if \<not> good_key_id (parts ! 1) then None
               else Some (s\<lparr>sg_good_key := Some (parts ! 1)\<rparr>))
         else if f = ''VALIDSIG'' \<and> length parts = 11 \<and> sg_valid_key s = None
         then (if \<not> valid_signature expected_primary parts then None
               else Some (s\<lparr>sg_valid_key := Some (parts ! 1)\<rparr>))
         else if ignored_record f then Some s
         else None)"

definition STATUS_PREFIX :: string where "STATUS_PREFIX = ''[GNUPG:] ''"

fun status_lines :: "string \<Rightarrow> signature_state \<Rightarrow> string list \<Rightarrow> signature_state option" where
  "status_lines expected_primary s [] = Some s"
| "status_lines expected_primary s (line # rest) =
     (case strip_prefix STATUS_PREFIX line of
        None \<Rightarrow> None
      | Some record_text \<Rightarrow>
          (case status_record expected_primary s (split_ascii_whitespace record_text) of
             None \<Rightarrow> None
           | Some s' \<Rightarrow> status_lines expected_primary s' rest))"

definition fresh_status :: signature_state where
  "fresh_status = \<lparr>sg_starts = 0, sg_good_key = None, sg_valid_key = None\<rparr>"

definition accepted_status :: "signature_state \<Rightarrow> bool" where
  "accepted_status s = (case (sg_starts s, sg_good_key s, sg_valid_key s) of
       (Suc 0, Some short, Some full) \<Rightarrow> ends_with short full | _ \<Rightarrow> False)"

definition verify_signature_status :: "int \<Rightarrow> bytes \<Rightarrow> string \<Rightarrow> (install_error, unit) result" where
  "verify_signature_status exit_code status expected_primary =
     (if exit_code \<noteq> 0 \<or> length status > 65536 \<or> \<not> fingerprint expected_primary
      then Inl signature_invalid
      else if \<not> utf8_valid status then Inl signature_invalid
      else case status_lines expected_primary fresh_status (str_lines status) of
        None \<Rightarrow> Inl signature_invalid
      | Some s \<Rightarrow> ensure (accepted_status s) signature_invalid)"

section \<open>Verification\<close>

definition gpg_request :: "string list \<Rightarrow> process_request" where
  "gpg_request args = \<lparr>rq_executable = ''/usr/bin/gpg'', rq_args = args, rq_timeout = from_secs 10,
     rq_stdout_limit = 65536, rq_stderr_limit = 65536, rq_environment = []\<rparr>"

definition gpg_import_args :: "string \<Rightarrow> string list" where
  "gpg_import_args directory = [''--no-options'', ''--batch'', ''--no-auto-key-retrieve'', ''--homedir'',
     directory, ''--import'', path_join directory ''public-key'']"

definition gpg_verify_args :: "string \<Rightarrow> string list" where
  "gpg_verify_args directory = [''--no-options'', ''--batch'', ''--no-auto-key-retrieve'',
     ''--no-auto-key-import'', ''--homedir'', directory, ''--status-fd'', ''1'', ''--verify'',
     path_join directory ''release.sig'', path_join directory ''release.json'']"

definition trust_inputs_ok :: "(bytes \<Rightarrow> string) \<Rightarrow> bytes \<Rightarrow> bytes \<Rightarrow> release_trust \<Rightarrow> bool" where
  "trust_inputs_ok sha256 b sig trust =
     (\<not> (b = [] \<or> length b > 1048576 \<or> sig = [] \<or> length sig > 65536
         \<or> rt_keyring trust = [] \<or> length (rt_keyring trust) > 1048576
         \<or> \<not> fingerprint (rt_primary_fingerprint trust)
         \<or> length (rt_sha256 trust) \<noteq> 64 \<or> \<not> list_all is_lower_hex (rt_sha256 trust)
         \<or> sha256 b \<noteq> rt_sha256 trust))"

definition verify_in :: "'e host \<Rightarrow> bytes \<Rightarrow> bytes \<Rightarrow> release_trust \<Rightarrow> string
    \<Rightarrow> ('e, (install_error, unit) result) effect" where
  "verify_in host b sig trust directory =
     attempt (each_attempt (\<lambda>e.
         with_err (\<lambda>_. integrity ''cannot stage verification input'')
           (write_file host (fst e) (snd e)))
       [(path_join directory ''release.json'', b), (path_join directory ''release.sig'', sig),
        (path_join directory ''public-key'', rt_keyring trust)]) (\<lambda>_.
     attempt (run_complete host (gpg_request (gpg_import_args directory))
       (integrity ''signature verification process failed'')
       (integrity ''pinned release key could not be imported'')) (\<lambda>_.
     attempt (run_complete host (gpg_request (gpg_verify_args directory))
       (integrity ''signature verification process failed'')
       (integrity ''signature verification failed or exceeded output limits'')) (\<lambda>out.
     pure (verify_signature_status 0 out (rt_primary_fingerprint trust)))))"

definition verify_detached :: "'e host \<Rightarrow> bytes \<Rightarrow> bytes \<Rightarrow> release_trust
    \<Rightarrow> ('e, (install_error, unit) result) effect" where
  "verify_detached host b sig trust =
     (if \<not> trust_inputs_ok (h_sha256 host) b sig trust
      then pure (Inl (integrity ''metadata size, digest or trust identity is invalid''))
      else with_temp host ''intel-npu-signature-''
             (integrity ''cannot create private verification directory'')
             (verify_in host b sig trust))"

section \<open>The policy\<close>

text \<open>The records of a status, each line without its prefix and cut into fields.\<close>

definition status_records :: "bytes \<Rightarrow> string list list option" where
  "status_records status =
     (if list_all (starts_with STATUS_PREFIX) (str_lines status)
      then Some (map (\<lambda>l. split_ascii_whitespace (drop 9 l)) (str_lines status)) else None)"

definition tagged :: "string \<Rightarrow> string list list \<Rightarrow> string list list" where
  "tagged tag records = filter (\<lambda>r. r \<noteq> [] \<and> hd r = tag) records"

text \<open>
  One signature, one good and one valid record of it, by the pinned primary key: a version 4
  signature of no other class than a binary document, SHA-256 or better, and nothing else but
  remarks on trust.
\<close>

definition policy_records :: "string \<Rightarrow> string list list \<Rightarrow> bool" where
  "policy_records primary records =
     (list_all (\<lambda>r. r \<noteq> [] \<and> (hd r \<in> {''NEWSIG'', ''GOODSIG'', ''VALIDSIG''} \<or> ignored_record (hd r)))
        records
      \<and> length (tagged ''NEWSIG'' records) = 1
      \<and> (\<exists>good valid. tagged ''GOODSIG'' records = [good] \<and> tagged ''VALIDSIG'' records = [valid]
           \<and> length good \<ge> 3 \<and> good_key_id (good ! 1)
           \<and> length valid = 11 \<and> valid_signature primary valid
           \<and> ends_with (good ! 1) (valid ! 1)))"

fun status_fold :: "string \<Rightarrow> signature_state \<Rightarrow> string list list \<Rightarrow> signature_state option" where
  "status_fold primary s [] = Some s"
| "status_fold primary s (r # rs) = (case status_record primary s r of
       None \<Rightarrow> None | Some s' \<Rightarrow> status_fold primary s' rs)"

lemma strip_status: "strip_prefix STATUS_PREFIX l = Some r \<Longrightarrow> drop 9 l = r"
  by (simp add: STATUS_PREFIX_def)

lemma status_lines_fold:
  "status_lines primary s lines =
     (if list_all (starts_with STATUS_PREFIX) lines
      then status_fold primary s (map (\<lambda>l. split_ascii_whitespace (drop 9 l)) lines) else None)"
proof (induction lines arbitrary: s)
  case (Cons l lines)
  show ?case
  proof (cases "strip_prefix STATUS_PREFIX l")
    case None
    then show ?thesis by (simp add: starts_with_def del: not_None_eq)
  next
    case (Some r)
    then show ?thesis
      by (simp add: starts_with_def strip_status [OF Some] Cons.IH del: strip_prefix_Some
          split: option.split)
  qed
qed simp

text \<open>How one of the two keys is filled: by at most one record, and only when it is empty.\<close>

definition slot :: "(string list \<Rightarrow> bool) \<Rightarrow> string option \<Rightarrow> string list list \<Rightarrow> string option \<Rightarrow> bool"
where
  "slot P cur rs now \<longleftrightarrow> rs = [] \<and> now = cur
     \<or> cur = None \<and> (\<exists>g. rs = [g] \<and> P g \<and> now = Some (g ! 1))"

definition good_record :: "string list \<Rightarrow> bool" where
  "good_record g = (length g \<ge> 3 \<and> good_key_id (g ! 1))"

definition valid_record :: "string \<Rightarrow> string list \<Rightarrow> bool" where
  "valid_record primary g = (length g = 11 \<and> valid_signature primary g)"

definition known_record :: "string list \<Rightarrow> bool" where
  "known_record r = (r \<noteq> [] \<and> (hd r \<in> {''NEWSIG'', ''GOODSIG'', ''VALIDSIG''} \<or> ignored_record (hd r)))"

lemma slot_Nil [simp]: "slot P cur [] now \<longleftrightarrow> now = cur"
  by (simp add: slot_def)

lemma slot_Cons: "slot P cur (r # rs) now \<longleftrightarrow> cur = None \<and> P r \<and> slot P (Some (r ! 1)) rs now"
  by (auto simp: slot_def)

lemma tagged_Cons: "r \<noteq> [] \<Longrightarrow>
  tagged t (r # rs) = (if hd r = t then r # tagged t rs else tagged t rs)"
  by (simp add: tagged_def)

lemma tagged_Nil [simp]: "tagged t [] = []"
  by (simp add: tagged_def)

lemma not_ignored [simp]:
  "\<not> ignored_record ''NEWSIG''" "\<not> ignored_record ''GOODSIG''" "\<not> ignored_record ''VALIDSIG''"
  by (simp_all add: ignored_record_def)

lemma status_record_cases:
  "status_record primary s r =
     (if r = [] then None
      else if hd r = ''NEWSIG'' then Some (s\<lparr>sg_starts := sg_starts s + 1\<rparr>)
      else if hd r = ''GOODSIG'' then
        (if sg_good_key s = None \<and> good_record r then Some (s\<lparr>sg_good_key := Some (r ! 1)\<rparr>) else None)
      else if hd r = ''VALIDSIG'' then
        (if sg_valid_key s = None \<and> valid_record primary r
         then Some (s\<lparr>sg_valid_key := Some (r ! 1)\<rparr>) else None)
      else if ignored_record (hd r) then Some s else None)"
  by (cases r) (simp_all add: status_record_def good_record_def valid_record_def)

lemma status_fold_Some:
  "status_fold primary s rs = Some s' \<longleftrightarrow>
     list_all known_record rs
     \<and> sg_starts s' = sg_starts s + length (tagged ''NEWSIG'' rs)
     \<and> slot good_record (sg_good_key s) (tagged ''GOODSIG'' rs) (sg_good_key s')
     \<and> slot (valid_record primary) (sg_valid_key s) (tagged ''VALIDSIG'' rs) (sg_valid_key s')"
proof (induction rs arbitrary: s)
  case Nil
  show ?case by (cases s; cases s') auto
next
  case (Cons r rs)
  consider "r = []" | "r \<noteq> []" "hd r = ''NEWSIG''" | "r \<noteq> []" "hd r = ''GOODSIG''"
    | "r \<noteq> []" "hd r = ''VALIDSIG''"
    | "r \<noteq> []" "hd r \<noteq> ''NEWSIG''" "hd r \<noteq> ''GOODSIG''" "hd r \<noteq> ''VALIDSIG''" by blast
  then show ?case
    by cases (simp_all add: status_record_cases known_record_def tagged_Cons slot_Cons Cons.IH)
qed

lemma accepted_status_iff:
  "accepted_status s \<longleftrightarrow> sg_starts s = 1
     \<and> (\<exists>short full. sg_good_key s = Some short \<and> sg_valid_key s = Some full \<and> ends_with short full)"
  by (auto simp: accepted_status_def split: nat.split option.split)

lemma policy_records_alt:
  "policy_records primary rs \<longleftrightarrow> list_all known_record rs \<and> length (tagged ''NEWSIG'' rs) = 1
     \<and> (\<exists>good valid. tagged ''GOODSIG'' rs = [good] \<and> tagged ''VALIDSIG'' rs = [valid]
          \<and> good_record good \<and> valid_record primary valid \<and> ends_with (good ! 1) (valid ! 1))"
  unfolding policy_records_def known_record_def [abs_def] good_record_def valid_record_def by simp

lemma status_accepted:
  "(\<exists>s. status_fold primary fresh_status rs = Some s \<and> accepted_status s) \<longleftrightarrow> policy_records primary rs"
proof
  assume "\<exists>s. status_fold primary fresh_status rs = Some s \<and> accepted_status s"
  then show "policy_records primary rs"
    unfolding status_fold_Some accepted_status_iff policy_records_alt
    by (auto simp: fresh_status_def slot_def)
next
  assume "policy_records primary rs"
  then obtain g v where rs: "list_all known_record rs" "length (tagged ''NEWSIG'' rs) = 1"
      "tagged ''GOODSIG'' rs = [g]" "tagged ''VALIDSIG'' rs = [v]" "good_record g"
      "valid_record primary v" "ends_with (g ! 1) (v ! 1)"
    unfolding policy_records_alt by blast
  let ?s = "\<lparr>sg_starts = 1, sg_good_key = Some (g ! 1), sg_valid_key = Some (v ! 1)\<rparr>"
  have "status_fold primary fresh_status rs = Some ?s"
    unfolding status_fold_Some using rs by (simp add: fresh_status_def slot_Cons)
  moreover have "accepted_status ?s" using rs by (simp add: accepted_status_iff)
  ultimately show "\<exists>s. status_fold primary fresh_status rs = Some s \<and> accepted_status s" by blast
qed

definition status_policy :: "bytes \<Rightarrow> string \<Rightarrow> bool" where
  "status_policy status primary = (length status \<le> 65536 \<and> fingerprint primary \<and> utf8_valid status
     \<and> (case status_records status of None \<Rightarrow> False | Some rs \<Rightarrow> policy_records primary rs))"

lemma verify_signature_status_Inr:
  "verify_signature_status code status primary = Inr u \<longleftrightarrow> code = 0 \<and> status_policy status primary"
proof -
  have "(\<exists>s. status_lines primary fresh_status (str_lines status) = Some s \<and> accepted_status s)
      \<longleftrightarrow> (case status_records status of None \<Rightarrow> False | Some rs \<Rightarrow> policy_records primary rs)"
    by (simp add: status_lines_fold status_records_def status_accepted)
  then show ?thesis
    by (auto simp: verify_signature_status_def status_policy_def not_less split: option.split)
qed

lemma verify_signature_status_Inl:
  "verify_signature_status code status primary = Inl e \<Longrightarrow> e = signature_invalid"
  by (auto simp: verify_signature_status_def split: if_splits option.splits)

section \<open>What a verified signature is\<close>

text \<open>
  What a successful verification in \<open>d\<close> has done: the inputs were staged, the pinned key was imported
  into that directory, and GnuPG's complete status for exactly these files satisfies the policy.
\<close>

definition detached_trace :: "bytes \<Rightarrow> bytes \<Rightarrow> release_trust \<Rightarrow> string \<Rightarrow> event list \<Rightarrow> bool" where
  "detached_trace b sig trust d es \<longleftrightarrow>
     (\<exists>imported verified. es =
        [Wrote (path_join d ''release.json'') b, Wrote (path_join d ''release.sig'') sig,
         Wrote (path_join d ''public-key'') (rt_keyring trust),
         Ran (gpg_request (gpg_import_args d)) (Inr imported),
         Ran (gpg_request (gpg_verify_args d)) (Inr verified)]
      \<and> complete_output () imported = Inr (po_stdout imported)
      \<and> complete_output () verified = Inr (po_stdout verified)
      \<and> status_policy (po_stdout verified) (rt_primary_fingerprint trust))"

lemma verify_in_leaves: "leaves (\<lambda>u es. detached_trace b sig trust d es) (verify_in host b sig trust d)"
  unfolding verify_in_def
  by (rule leaves_weaken, (rule leaves_attempt leaves_each_exact leaves_rules)+)
    (auto simp: detached_trace_def followed_simps verify_signature_status_Inr complete_output_Inr)

lemma verify_detached_leaves:
  "leaves (\<lambda>u evs. trust_inputs_ok (h_sha256 host) b sig trust
       \<and> (\<exists>d es. evs = Made_Temp d # es @ [Removed d] \<and> detached_trace b sig trust d es))
     (verify_detached host b sig trust)"
  unfolding verify_detached_def
  by (auto intro: leaves_weaken [OF leaves_with_temp [OF verify_in_leaves]]
      leaves_weaken [OF leaves_pure])

lemma verify_in_tidy: "tidy (verify_in host b sig trust d)"
  unfolding verify_in_def by (intro tidy_intros) simp_all

lemma verify_detached_tidy: "tidy (verify_detached host b sig trust)"
  by (simp add: verify_detached_def tidy_with_temp verify_in_tidy)

lemma verify_detached_harmless: "harmless (verify_detached host b sig trust)"
proof -
  have "harmless (verify_in host b sig trust d)" for d
    unfolding verify_in_def
    by (intro harmless_intros only_runs_pure)
      (auto simp: harmless_request_def gpg_request_def gpg_import_args_def gpg_verify_args_def
)
  then show ?thesis by (simp add: verify_detached_def harmless_with_temp)
qed

end
