(* ===== verification/Native_Rpm.thy ===== *)
theory Native_Rpm
  imports Signature Inventory
begin

text \<open>
  \<open>crates/stack-install/src/fedora_rpm.rs\<close> and \<open>project_rpm.rs\<close>: the verification of one RPM file
  against a checksum, a signature and the identity RPM reads from it, under Fedora's pinned key or
  under the project's key in a private key database.
\<close>

section \<open>Any native RPM\<close>

definition MAX_RPM_BYTES :: nat where "MAX_RPM_BYTES = 2 * 1024 * 1024 * 1024"

definition FEDORA_SIGNATURE :: string where
  "FEDORA_SIGNATURE = ''Header OpenPGP V4 RSA/SHA256 signature, key fingerprint: 36f612dcf27f7d1a48a835e4dbfcf71c6d9f90a6: OK''"

definition rpm_invalid :: install_error where
  "rpm_invalid = integrity ''RPM content, native identity or pinned signature verification failed''"

definition rpm_filename_byte :: "char \<Rightarrow> bool" where
  "rpm_filename_byte c = (is_alnum c \<or> c \<in> set ''-_.+~^'')"

definition IDENTITY_FORMAT :: string where
  "IDENTITY_FORMAT = ''%{NAME}|%{EPOCHNUM}:%{VERSION}-%{RELEASE}|%{ARCH}|0'' @ [nl]"

definition verify_hash :: "'e host \<Rightarrow> string \<Rightarrow> string \<Rightarrow> ('e, (install_error, unit) result) effect" where
  "verify_hash host path expected =
     attempt (with_err (\<lambda>_. rpm_invalid) (read_file host path (Some (MAX_RPM_BYTES + 1)))) (\<lambda>b.
     pure (ensure (\<not> (length b > MAX_RPM_BYTES \<or> h_sha256 host b \<noteq> expected)) rpm_invalid))"

definition native_argv :: "string list \<Rightarrow> string \<Rightarrow> string option \<Rightarrow> string list" where
  "native_argv args path database =
     [''--macros'', ''/usr/lib/rpm/macros'', ''--noplugins'']
     @ (case database of None \<Rightarrow> [] | Some d \<Rightarrow> [''--dbpath'', d]) @ args @ [path]"

definition native_request :: "string \<Rightarrow> string list \<Rightarrow> string \<Rightarrow> string option \<Rightarrow> process_request" where
  "native_request executable args path database = \<lparr>rq_executable = executable,
     rq_args = native_argv args path database, rq_timeout = from_secs 120,
     rq_stdout_limit = 16384, rq_stderr_limit = 16384, rq_environment = []\<rparr>"

definition native :: "'e host \<Rightarrow> string \<Rightarrow> string list \<Rightarrow> string \<Rightarrow> string option
    \<Rightarrow> ('e, (install_error, bytes) result) effect" where
  "native host executable args path database =
     run_complete host (native_request executable args path database) rpm_invalid rpm_invalid"

definition signature_report :: "string \<Rightarrow> string \<Rightarrow> string" where
  "signature_report snapshot signature =
     snapshot @ '':'' @ [nl] @ ''    '' @ signature @ [nl]
     @ ''    Header SHA256 digest: OK'' @ [nl] @ ''    Payload SHA256 digest: OK'' @ [nl]"

definition admissible_rpm_file :: "file_meta \<Rightarrow> string \<Rightarrow> bool" where
  "admissible_rpm_file m filename =
     (\<not> (fm_kind m \<noteq> Regular_File \<or> fm_len m > MAX_RPM_BYTES \<or> \<not> ends_with ''.rpm'' filename
         \<or> length filename > 512 \<or> \<not> list_all rpm_filename_byte filename))"

definition package_of_identity :: "string \<Rightarrow> string \<Rightarrow> native_inventory
    \<Rightarrow> (install_error, release_package) result" where
  "package_of_identity filename sha inventory = (case ni_packages inventory of
       [identity] \<Rightarrow>
         if \<not> (rpm_arch identity = ''x86_64'' \<or> rpm_arch identity = ''noarch'') then Inl rpm_invalid
         else (case split_once CHR '':'' (rpm_evr identity) of
            None \<Rightarrow> Inl rpm_invalid
          | Some (_, vr) \<Rightarrow>
              if filename \<noteq> rpm_name identity @ ''-'' @ vr @ ''.'' @ rpm_arch identity @ ''.rpm''
              then Inl rpm_invalid
              else Inr \<lparr>rp_name = rpm_name identity, rp_nevr = rpm_evr identity,
                     rp_arch = rpm_arch identity, rp_filename = filename, rp_sha256 = sha,
                     rp_role = Role_Runtime\<rparr>)
     | _ \<Rightarrow> Inl rpm_invalid)"

text \<open>What happens in the private directory, on the copy of the file.\<close>

definition verify_snapshot :: "'e host \<Rightarrow> string \<Rightarrow> file_meta \<Rightarrow> string \<Rightarrow> string \<Rightarrow> string option
    \<Rightarrow> string list \<Rightarrow> string \<Rightarrow> ('e, (install_error, release_package) result) effect" where
  "verify_snapshot host path m filename expected_sha256 database allowed_signatures private =
     (let snapshot = path_join private filename in
      attempt (with_err (\<lambda>_. rpm_invalid)
        (copy_file host path snapshot (Some (MAX_RPM_BYTES + 1)))) (\<lambda>copied.
      attempt (pure (ensure (copied = fm_len m) rpm_invalid)) (\<lambda>_.
      attempt (verify_hash host snapshot expected_sha256) (\<lambda>_.
      attempt (native host ''/usr/bin/rpmkeys'' [''--checksig'', ''--verbose''] snapshot database) (\<lambda>out.
      attempt (pure (utf8_text rpm_invalid out)) (\<lambda>text_out.
      attempt (pure (ensure (list_ex (\<lambda>s. text_out = signature_report snapshot s) allowed_signatures)
        rpm_invalid)) (\<lambda>_.
      attempt (native host ''/usr/bin/rpm'' [''-qp'', ''--qf'', IDENTITY_FORMAT] snapshot database) (\<lambda>out.
      attempt (pure (parse_query (h_sha256 host) out)) (\<lambda>inventory.
      attempt (pure (package_of_identity filename expected_sha256 inventory)) (\<lambda>package.
      attempt (verify_hash host snapshot expected_sha256) (\<lambda>_.
      pure (Inr package))))))))))))"

definition verify_native_rpm :: "'e host \<Rightarrow> string \<Rightarrow> string \<Rightarrow> string option \<Rightarrow> string list
    \<Rightarrow> ('e, (install_error, release_package) result) effect" where
  "verify_native_rpm host path expected_sha256 database allowed_signatures =
     (if \<not> is_sha256 expected_sha256 then pure (Inl rpm_invalid)
      else attempt (with_err (\<lambda>_. rpm_invalid) (lstat host path)) (\<lambda>m.
           attempt (pure (ok_or rpm_invalid (path_file_name path))) (\<lambda>filename.
           attempt (pure (ensure (admissible_rpm_file m filename) rpm_invalid)) (\<lambda>_.
           with_temp host ''intel-npu-rpm-snapshot-'' rpm_invalid
             (verify_snapshot host path m filename expected_sha256 database allowed_signatures)))))"

text \<open>\<open>FedoraRpm\<close>, the package a Fedora signature authenticates.\<close>

datatype fedora_rpm = Fedora_Rpm (fr_package: release_package)

definition fedora_verify :: "'e host \<Rightarrow> string \<Rightarrow> string \<Rightarrow> ('e, (install_error, fedora_rpm) result) effect"
where
  "fedora_verify host path expected_sha256 =
     attempt (verify_native_rpm host path expected_sha256 None [FEDORA_SIGNATURE]) (\<lambda>package.
     pure (Inr (Fedora_Rpm package)))"

section \<open>Project packages\<close>

record project_trust =
  pt_directory :: string
  pt_primary :: string

definition project_invalid :: install_error where
  "project_invalid = integrity
     ''project RPM signature, release identity or private pinned trust is invalid''"

definition key_database :: "project_trust \<Rightarrow> string" where
  "key_database t = path_join (pt_directory t) ''rpmdb''"

definition trust_request :: "project_trust \<Rightarrow> string \<Rightarrow> string list \<Rightarrow> process_request" where
  "trust_request t executable args = \<lparr>rq_executable = executable,
     rq_args = [''--macros'', ''/usr/lib/rpm/macros'', ''--noplugins'', ''--dbpath'', key_database t] @ args,
     rq_timeout = from_secs 10, rq_stdout_limit = 65536, rq_stderr_limit = 65536,
     rq_environment = []\<rparr>"

definition trust_run :: "'e host \<Rightarrow> project_trust \<Rightarrow> string \<Rightarrow> string list
    \<Rightarrow> ('e, (install_error, bytes) result) effect" where
  "trust_run host t executable args =
     run_complete host (trust_request t executable args) project_invalid project_invalid"

definition KEY_BEGIN :: string where "KEY_BEGIN = ''-----BEGIN PGP PUBLIC KEY BLOCK-----'' @ [nl]"
definition KEY_END :: string where "KEY_END = ''-----END PGP PUBLIC KEY BLOCK-----''"

definition armored_key_ok :: "bytes \<Rightarrow> string \<Rightarrow> bool" where
  "armored_key_ok key primary = (utf8_valid key
     \<and> \<not> (key = [] \<or> length key > 1048576 \<or> \<not> fingerprint primary
          \<or> \<not> starts_with KEY_BEGIN key \<or> \<not> ends_with KEY_END (trim_end key)))"

definition import_key :: "'e host \<Rightarrow> bytes \<Rightarrow> project_trust
    \<Rightarrow> ('e, (install_error, project_trust) result) effect" where
  "import_key host key t =
     attempt (with_err (\<lambda>_. project_invalid) (create_dir host (key_database t))) (\<lambda>_.
     let file = path_join (pt_directory t) ''public.asc'' in
     attempt (with_err (\<lambda>_. project_invalid) (write_file host file key)) (\<lambda>_.
     attempt (trust_run host t ''/usr/bin/rpmkeys'' [''--import'', file]) (\<lambda>_.
     attempt (trust_run host t ''/usr/bin/rpm'' [''-qa'', ''--qf'', ''%{VERSION}'' @ [nl]]) (\<lambda>identity.
     pure (if identity \<noteq> pt_primary t @ [nl] then Inl project_invalid else Inr t)))))"

text \<open>The trust owns its directory from its creation on.\<close>

definition from_armored_key :: "'e host \<Rightarrow> bytes \<Rightarrow> string
    \<Rightarrow> ('e, (install_error, project_trust) result) effect" where
  "from_armored_key host key primary =
     (if \<not> armored_key_ok key primary then pure (Inl project_invalid)
      else attempt (with_err (\<lambda>_. project_invalid) (make_temp host ''intel-npu-rpm-trust-'')) (\<lambda>d.
           owning host d
             (import_key host key \<lparr>pt_directory = d, pt_primary = ascii_lowercase primary\<rparr>)))"

definition project_signatures :: "string \<Rightarrow> string list" where
  "project_signatures primary =
     map (\<lambda>algorithm. ''Header OpenPGP V4 '' @ algorithm @ '' signature, key fingerprint: '' @ primary @ '': OK'')
       [''RSA/SHA256'', ''RSA/SHA384'', ''RSA/SHA512'', ''EdDSA/SHA512'']"

definition same_identity :: "release_package \<Rightarrow> release_package \<Rightarrow> bool" where
  "same_identity a b = (rp_name a = rp_name b \<and> rp_nevr a = rp_nevr b \<and> rp_arch a = rp_arch b
     \<and> rp_filename a = rp_filename b)"

text \<open>\<open>ProjectRpm::verify\<close>, with the package the value holds.\<close>

definition project_verify :: "'e host \<Rightarrow> string \<Rightarrow> release_package \<Rightarrow> project_trust
    \<Rightarrow> ('e, (install_error, release_package) result) effect" where
  "project_verify host path expected trust =
     attempt (pure (validate_package expected)) (\<lambda>_.
     attempt (verify_native_rpm host path (rp_sha256 expected) (Some (key_database trust))
       (project_signatures (pt_primary trust))) (\<lambda>identity.
     pure (if \<not> same_identity identity expected then Inl project_invalid else Inr expected)))"


section \<open>What a verified RPM is\<close>

text \<open>The identity of any native package, whose file name follows from it.\<close>

definition native_package :: "release_package \<Rightarrow> bool" where
  "native_package p \<longleftrightarrow> inventory_name (rp_name p) \<and> valid_evr (rp_nevr p) \<and> Manifest.rpm_arch (rp_arch p)
     \<and> is_sha256 (rp_sha256 p) \<and> rp_role p = Role_Runtime
     \<and> (\<exists>epoch vr. rp_nevr p = epoch @ '':'' @ vr \<and> CHR '':'' \<notin> set epoch
          \<and> rp_filename p = rp_name p @ ''-'' @ vr @ ''.'' @ rp_arch p @ ''.rpm'')"

text \<open>
  The trace of a verification in the directory \<open>d\<close>: the file was copied there, the copy has the
  expected digest before and after RPM looks at it, \<open>rpmkeys\<close> printed exactly the report of an
  allowed signature and of good digests, and the package is the identity \<open>rpm\<close> printed.
\<close>

definition snapshot_trace :: "(bytes \<Rightarrow> string) \<Rightarrow> string \<Rightarrow> string \<Rightarrow> string \<Rightarrow> string option
    \<Rightarrow> string list \<Rightarrow> string \<Rightarrow> release_package \<Rightarrow> event list \<Rightarrow> bool" where
  "snapshot_trace sha256 path filename sha database allowed d p evs \<longleftrightarrow>
     (\<exists>snap before checked named after signature iv. snap = path_join d filename \<and> evs =
        [Copied path snap, Was_Read snap before,
         Ran (native_request ''/usr/bin/rpmkeys'' [''--checksig'', ''--verbose''] snap database)
           (Inr checked),
         Ran (native_request ''/usr/bin/rpm'' [''-qp'', ''--qf'', IDENTITY_FORMAT] snap database)
           (Inr named),
         Was_Read snap after]
      \<and> sha256 before = sha \<and> sha256 after = sha \<and> length before \<le> MAX_RPM_BYTES
      \<and> complete_output () checked = Inr (signature_report snap signature) \<and> signature \<in> set allowed
      \<and> complete_output () named = Inr (po_stdout named)
      \<and> parse_query sha256 (po_stdout named) = Inr iv
      \<and> package_of_identity filename sha iv = Inr p)"

definition rpm_trace :: "(bytes \<Rightarrow> string) \<Rightarrow> string \<Rightarrow> string \<Rightarrow> string option \<Rightarrow> string list
    \<Rightarrow> release_package \<Rightarrow> event list \<Rightarrow> bool" where
  "rpm_trace sha256 path sha database allowed p evs \<longleftrightarrow>
     (\<exists>n d es. evs = Saw path True n # Made_Temp d # es @ [Removed d]
        \<and> snapshot_trace sha256 path (rp_filename p) sha database allowed d p es)"

lemma package_of_identity_Inr:
  "package_of_identity filename sha iv = Inr p \<longleftrightarrow> (\<exists>k epoch vr. ni_packages iv = [k]
     \<and> Manifest.rpm_arch (rpm_arch k) \<and> split_once CHR '':'' (rpm_evr k) = Some (epoch, vr)
     \<and> filename = rpm_name k @ ''-'' @ vr @ ''.'' @ rpm_arch k @ ''.rpm''
     \<and> p = \<lparr>rp_name = rpm_name k, rp_nevr = rpm_evr k, rp_arch = rpm_arch k, rp_filename = filename,
            rp_sha256 = sha, rp_role = Role_Runtime\<rparr>)"
  by (auto simp: package_of_identity_def Manifest.rpm_arch_def split: list.split option.split)

lemma parse_query_packages:
  "parse_query sha256 b = Inr iv \<Longrightarrow> list_all rpm_ok (ni_packages iv)
     \<and> distinct (map identity_of (ni_packages iv)) \<and> sorted (ni_packages iv)"
proof -
  assume "parse_query sha256 b = Inr iv"
  then obtain ks where ks: "iv = inventory_of sha256 ks" "list_all rpm_ok ks"
      "distinct (map identity_of ks)"
    using parse_query_Inr by blast
  have "mset (map identity_of (sort ks)) = mset (map identity_of ks)" by simp
  then have "distinct (map identity_of (sort ks))" using ks(3) mset_eq_imp_distinct_iff by blast
  with ks show ?thesis by (simp add: inventory_of_def Let_def list_all_iff)
qed

lemma identity_native:
  assumes "package_of_identity filename sha iv = Inr p" "parse_query sha256 b = Inr iv" "is_sha256 sha"
  shows "native_package p \<and> rp_sha256 p = sha \<and> rp_filename p = filename"
proof -
  from assms(1) obtain k epoch vr where k: "ni_packages iv = [k]" "Manifest.rpm_arch (rpm_arch k)"
      "split_once CHR '':'' (rpm_evr k) = Some (epoch, vr)"
      "filename = rpm_name k @ ''-'' @ vr @ ''.'' @ rpm_arch k @ ''.rpm''"
      "p = \<lparr>rp_name = rpm_name k, rp_nevr = rpm_evr k, rp_arch = rpm_arch k,
            rp_filename = filename, rp_sha256 = sha, rp_role = Role_Runtime\<rparr>"
    unfolding package_of_identity_Inr by blast
  have "rpm_ok k" using parse_query_packages [OF assms(2)] k(1) by simp
  moreover have "rpm_evr k = epoch @ '':'' @ vr \<and> CHR '':'' \<notin> set epoch"
    using k(3) by (simp add: split_once_Some)
  ultimately show ?thesis using k assms(3) unfolding native_package_def rpm_ok_def by auto
qed

lemma verify_hash_leaves [leaves_rules]:
  "leaves (\<lambda>_ evs. \<exists>b. evs = [Was_Read p b] \<and> length b \<le> MAX_RPM_BYTES \<and> h_sha256 host b = sha)
     (verify_hash host p sha)"
  unfolding verify_hash_def
  by (rule leaves_weaken, (rule leaves_attempt leaves_rules)+)
    (simp only: followed_simps, auto simp: not_less)

lemma native_leaves [leaves_rules]:
  "leaves (\<lambda>out evs. \<exists>po. evs = [Ran (native_request x args p db) (Inr po)]
       \<and> complete_output () po = Inr out) (native host x args p db)"
  unfolding native_def by (rule leaves_run_complete)

lemma verify_snapshot_leaves:
  "leaves (\<lambda>p evs. snapshot_trace (h_sha256 host) path filename sha db allowed d p evs)
     (verify_snapshot host path m filename sha db allowed d)"
  unfolding verify_snapshot_def Let_def
  by (rule leaves_weaken, (rule leaves_attempt leaves_rules)+)
    (simp only: followed_simps, auto simp: list_ex_iff complete_output_Inr snapshot_trace_def)

lemma verify_native_rpm_leaves:
  "leaves (\<lambda>p evs. rpm_trace (h_sha256 host) path sha db allowed p evs \<and> native_package p
       \<and> rp_sha256 p = sha \<and> path_file_name path = Some (rp_filename p))
     (verify_native_rpm host path sha db allowed)"
proof (cases "is_sha256 sha")
  case True
  have filename: "native_package p \<and> rp_sha256 p = sha \<and> rp_filename p = f"
    if "snapshot_trace (h_sha256 host) path f sha db allowed d p es" for f d p es
    using that identity_native True unfolding snapshot_trace_def by blast
  show ?thesis
    unfolding verify_native_rpm_def
    by (simp only: True not_True_eq_False if_False,
        rule leaves_weaken, (rule leaves_attempt leaves_with_temp verify_snapshot_leaves leaves_rules)+,
        simp only: followed_simps, elim exE conjE, frule filename)
      (auto simp: admissible_rpm_file_def rpm_trace_def)
qed (simp add: verify_native_rpm_def leaves_def)


lemma fedora_verify_leaves:
  "leaves (\<lambda>f evs. rpm_trace (h_sha256 host) path sha None [FEDORA_SIGNATURE] (fr_package f) evs
       \<and> native_package (fr_package f) \<and> rp_sha256 (fr_package f) = sha
       \<and> path_file_name path = Some (rp_filename (fr_package f)))
     (fedora_verify host path sha)"
  unfolding fedora_verify_def
  by (rule leaves_weaken, (rule leaves_attempt verify_native_rpm_leaves leaves_rules)+)
    (auto simp: followed_def)

text \<open>A project package is the expected one, and its file has its digest and its signature.\<close>

lemma project_verify_leaves:
  "leaves (\<lambda>p evs. p = expected \<and> package_ok expected
       \<and> (\<exists>q. same_identity q expected \<and> rpm_trace (h_sha256 host) path (rp_sha256 expected)
            (Some (key_database t)) (project_signatures (pt_primary t)) q evs))
     (project_verify host path expected t)"
  unfolding project_verify_def
  by (rule leaves_weaken, (rule leaves_attempt verify_native_rpm_leaves leaves_rules)+)
    (auto simp: followed_def validate_package_Inr split: if_splits)

section \<open>Directories and processes\<close>

lemma verify_hash_tidy [simp]: "tidy (verify_hash host p sha)"
  unfolding verify_hash_def by (intro tidy_intros) simp_all

lemma native_tidy [simp]: "tidy (native host x args p db)"
  by (simp add: native_def)

lemma verify_native_rpm_tidy [simp]: "tidy (verify_native_rpm host path sha db allowed)"
proof -
  have "tidy (verify_snapshot host path m f sha db allowed d)" for m f d
    unfolding verify_snapshot_def Let_def by (intro tidy_intros) simp_all
  then show ?thesis
    unfolding verify_native_rpm_def
    by (cases "is_sha256 sha") (simp_all, intro tidy_intros, simp_all)
qed

lemma fedora_verify_tidy [simp]: "tidy (fedora_verify host path sha)"
  unfolding fedora_verify_def by (intro tidy_intros) simp_all

lemma project_verify_tidy [simp]: "tidy (project_verify host path expected t)"
  unfolding project_verify_def by (intro tidy_intros) simp_all

lemma from_armored_key_accounts:
  "accounts {#} (held (\<lambda>t. {#pt_directory t#})) (from_armored_key host key primary)"
proof (cases "armored_key_ok key primary")
  case True
  have import_tidy: "tidy (import_key host key t)" for t
    unfolding import_key_def Let_def trust_run_def by (intro tidy_intros) simp_all
  have import_id: "run_state (import_key host key t) w = (Inr t', w') \<Longrightarrow> t' = t" for t t' w w'
    by (auto simp: import_key_def attempt_Inr Let_def split: if_splits)
  have "accounts {#d#} (held (\<lambda>t. {#pt_directory t#}))
      (owning host d (import_key host key \<lparr>pt_directory = d, pt_primary = q\<rparr>))" for d q
  proof -
    have "accounts {#d#} (\<lambda>r. case r of Inl _ \<Rightarrow> {#} | Inr (_ :: project_trust) \<Rightarrow> {#d#})
        (owning host d (import_key host key \<lparr>pt_directory = d, pt_primary = q\<rparr>))"
      by (rule owning_accounts [OF import_tidy]) simp_all
    then show ?thesis
      by (fastforce simp: accounts_def held_def owning_Inr dest: import_id split: sum.splits)
  qed
  then show ?thesis
    unfolding from_armored_key_def
    by (simp add: True make_temp_then)
qed (simp add: from_armored_key_def accounts_pure)

lemma path_join_last: "rel \<noteq> [] \<Longrightarrow> last (path_join d rel) = last rel"
  by (simp add: path_join_def)

lemma harmless_native [simp]:
  "harmless (native host ''/usr/bin/rpmkeys'' [''--checksig'', ''--verbose''] p db)"
  "harmless (native host ''/usr/bin/rpm'' [''-qp'', ''--qf'', IDENTITY_FORMAT] p db)"
  by (simp_all add: native_def harmless_run harmless_request_def native_request_def native_argv_def)

lemma harmless_hash [simp]: "harmless (verify_hash host p sha)"
  unfolding verify_hash_def by (intro harmless_intros) simp_all

lemma verify_native_rpm_harmless [simp]: "harmless (verify_native_rpm host path sha db allowed)"
proof -
  have "harmless (verify_snapshot host path m f sha db allowed d)" for m f d
    unfolding verify_snapshot_def Let_def by (intro harmless_intros) simp_all
  then show ?thesis
    unfolding verify_native_rpm_def
    by (cases "is_sha256 sha") (simp_all, intro harmless_intros, simp_all)
qed

lemma fedora_verify_harmless [simp]: "harmless (fedora_verify host path sha)"
  unfolding fedora_verify_def by (intro harmless_intros) simp_all

lemma project_verify_harmless [simp]: "harmless (project_verify host path expected t)"
  unfolding project_verify_def by (intro harmless_intros) simp_all

lemma trust_database_private:
  "''/usr/lib/sysimage/rpm'' \<noteq> key_database t"
  "''/usr/lib/sysimage/rpm'' \<noteq> path_join d ''public.asc''"
  unfolding key_database_def
  by (rule notI, drule arg_cong [where f = last], simp add: path_join_last)+

lemma from_armored_key_harmless [simp]: "harmless (from_armored_key host key primary)"
proof -
  have "harmless (trust_run host t ''/usr/bin/rpmkeys'' [''--import'', path_join d ''public.asc''])"
    "harmless (trust_run host t ''/usr/bin/rpm'' [''-qa'', ''--qf'', v])" for t d v
    using trust_database_private
    by (simp_all add: trust_run_def harmless_run harmless_request_def trust_request_def)
  then have "harmless (import_key host key t)" for t
    unfolding import_key_def Let_def by (intro harmless_intros) simp_all
  then show ?thesis
    unfolding from_armored_key_def
    by (cases "armored_key_ok key primary") (simp_all, intro harmless_intros, simp_all)
qed

end
