(* ===== verification/Native_Plan.thy ===== *)
theory Native_Plan
  imports Native_Rpm
begin

text \<open>
  \<open>crates/stack-install/src/fedora.rs\<close>: the plan. DNF's stored transaction is bound, row by row, to
  the packages that were asked for and to the observed inventory. Decoding the transaction is
  \<open>serde_json\<close>: \<open>decode\<close> gives the document or nothing, with a missing path as \<open>None\<close> and an explicit
  null refused. The maps and sets of names and paths of the loops are arguments of the recursions.
\<close>

record stored_rpm =
  sr_nevra :: string
  sr_action :: string
  sr_reason :: string
  sr_repo_id :: string
  sr_package_path :: "string option"

record stored_transaction =
  st_version :: string
  st_rpms :: "stored_rpm list"

datatype rpm_authority = By_Project | By_Fedora

record bound_rpm =
  br_native :: stored_rpm
  br_sha256 :: string
  br_replaces :: "string option"
  br_expected :: release_package
  br_authority :: rpm_authority

record native_plan =
  pl_packages :: "bound_rpm list"
  pl_transaction_sha256 :: "string option"
  pl_inventory_fingerprint :: "string option"

definition transaction_error :: install_error where
  "transaction_error = install_err 30 ''INSTALL_TRANSACTION_INVALID''
     ''native transaction does not match the supported exact installation plan''"

definition without_zero_epoch :: "string \<Rightarrow> string" where
  "without_zero_epoch evr = (case strip_prefix ''0:'' evr of None \<Rightarrow> evr | Some rest \<Rightarrow> rest)"

definition native_identity :: "string \<Rightarrow> string \<Rightarrow> string \<Rightarrow> string" where
  "native_identity name evr arch = name @ ''-'' @ without_zero_epoch evr @ ''.'' @ arch"

definition package_identity :: "release_package \<Rightarrow> string" where
  "package_identity p = native_identity (rp_name p) (rp_nevr p) (rp_arch p)"

definition safe_package_path :: "string \<Rightarrow> bool" where
  "safe_package_path path = (case strip_prefix ''./packages/'' path of
       None \<Rightarrow> False
     | Some filename \<Rightarrow> length filename \<le> 512 \<and> ends_with ''.rpm'' filename
         \<and> is_alnum (hd filename) \<and> list_all rpm_filename_byte filename)"

section \<open>A first installation\<close>

fun distinct_inputs :: "string set \<Rightarrow> release_package list \<Rightarrow> (install_error, unit) result" where
  "distinct_inputs names [] = Inr ()"
| "distinct_inputs names (p # ps) =
     and_then (validate_package p) (\<lambda>_.
       if rp_name p \<in> names then Inl transaction_error
       else distinct_inputs (insert (rp_name p) names) ps)"

fun install_rows :: "release_package list \<Rightarrow> string set \<Rightarrow> string option set \<Rightarrow> stored_rpm list
    \<Rightarrow> (install_error, bound_rpm list) result" where
  "install_rows expected identities paths [] = Inr []"
| "install_rows expected identities paths (row # rows) =
     (if sr_action row \<noteq> ''Install'' \<or> sr_reason row \<noteq> ''User''
         \<or> sr_repo_id row \<noteq> ''@stored_transaction(@commandline)''
         \<or> \<not> (case sr_package_path row of None \<Rightarrow> False | Some p \<Rightarrow> safe_package_path p)
         \<or> sr_nevra row \<in> identities \<or> sr_package_path row \<in> paths
      then Inl transaction_error
      else case find (\<lambda>p. sr_nevra row = package_identity p) expected of
        None \<Rightarrow> Inl transaction_error
      | Some p \<Rightarrow>
          and_then (install_rows expected (insert (sr_nevra row) identities)
              (insert (sr_package_path row) paths) rows) (\<lambda>bound.
            Inr (\<lparr>br_native = row, br_sha256 = rp_sha256 p, br_replaces = None, br_expected = p,
                  br_authority = By_Project\<rparr> # bound)))"

definition by_nevra :: "bound_rpm list \<Rightarrow> bound_rpm list" where
  "by_nevra = sort_key (\<lambda>b. sr_nevra (br_native b))"

definition parse_install :: "(bytes \<Rightarrow> string) \<Rightarrow> (bytes \<Rightarrow> stored_transaction option) \<Rightarrow> bytes
    \<Rightarrow> release_package list \<Rightarrow> (install_error, native_plan) result" where
  "parse_install sha256 decode b expected =
     (if length b > 1048576 \<or> expected = [] \<or> length expected > 128 then Inl transaction_error
      else and_then (ok_or transaction_error (decode b)) (\<lambda>document.
        if st_version document \<noteq> ''1.0'' \<or> length (st_rpms document) \<noteq> length expected
        then Inl transaction_error
        else and_then (distinct_inputs {} expected) (\<lambda>_.
             and_then (install_rows expected {} {} (st_rpms document)) (\<lambda>packages.
             Inr \<lparr>pl_packages = by_nevra packages, pl_transaction_sha256 = Some (sha256 b),
                  pl_inventory_fingerprint = None\<rparr>))))"

section \<open>An update of the observed packages\<close>

type_synonym incoming = "(string, release_package \<times> string option) bmap"

fun plan_inputs :: "'e runner \<Rightarrow> native_inventory \<Rightarrow> string set \<Rightarrow> incoming \<Rightarrow> string set
    \<Rightarrow> release_package list \<Rightarrow> ('e, (install_error, incoming \<times> string set) result) effect" where
  "plan_inputs runner iv names incoming replacements [] = pure (Inr (incoming, replacements))"
| "plan_inputs runner iv names incoming replacements (p # ps) =
     (if rp_name p \<in> names then pure (Inl transaction_error)
      else case filter (\<lambda>old. rpm_name old = rp_name p \<and> rpm_arch old = rp_arch p) (ni_packages iv) of
        [] \<Rightarrow> plan_inputs runner iv (insert (rp_name p) names)
               (bm_insert (package_identity p) (p, None) incoming) replacements ps
      | [old] \<Rightarrow>
          if rpm_evr old = rp_nevr p
          then plan_inputs runner iv (insert (rp_name p) names) incoming replacements ps
          else attempt (compare_rpm_versions runner (rpm_evr old) (rp_nevr p)) (\<lambda>ordering.
            if ordering \<noteq> Less then pure (Inl transaction_error)
            else let identity = native_identity (rpm_name old) (rpm_evr old) (rpm_arch old) in
              plan_inputs runner iv (insert (rp_name p) names)
                (bm_insert (package_identity p) (p, Some identity) incoming)
                (insert identity replacements) ps)
      | _ \<Rightarrow> pure (Inl transaction_error))"

definition authority_of :: "release_package list \<Rightarrow> release_package \<Rightarrow> rpm_authority" where
  "authority_of project_inputs p =
     (if list_ex (\<lambda>q. rp_name q = rp_name p) project_inputs then By_Project else By_Fedora)"

definition row_accepted :: "string list \<Rightarrow> string set \<Rightarrow> stored_rpm \<Rightarrow> string \<Rightarrow> release_package
    \<Rightarrow> string option \<Rightarrow> bool" where
  "row_accepted repositories paths row path p replaces =
     (\<not> (sr_action row \<noteq> (if replaces \<noteq> None then ''Upgrade'' else ''Install'')
         \<or> sr_repo_id row \<notin> set repositories \<or> \<not> safe_package_path path
         \<or> path \<noteq> ''./packages/'' @ rp_filename p \<or> path \<in> paths))"

fun plan_rows :: "release_package list \<Rightarrow> string list \<Rightarrow> incoming \<Rightarrow> string set \<Rightarrow> string set
    \<Rightarrow> stored_rpm list \<Rightarrow> (install_error, bound_rpm list \<times> incoming \<times> string set) result" where
  "plan_rows project_inputs repositories incoming replacements paths [] =
     Inr ([], incoming, replacements)"
| "plan_rows project_inputs repositories incoming replacements paths (row # rows) =
     (if sr_reason row \<noteq> ''User'' \<and> sr_reason row \<noteq> ''Dependency'' then Inl transaction_error
      else if sr_action row = ''Replaced'' then
        (if sr_repo_id row \<noteq> ''@System'' \<or> sr_package_path row \<noteq> None
            \<or> sr_nevra row \<notin> replacements
         then Inl transaction_error
         else plan_rows project_inputs repositories incoming (replacements - {sr_nevra row}) paths rows)
      else case bm_get incoming (sr_nevra row) of
        None \<Rightarrow> Inl transaction_error
      | Some (p, replaces) \<Rightarrow> (case sr_package_path row of
          None \<Rightarrow> Inl transaction_error
        | Some path \<Rightarrow>
            if \<not> row_accepted repositories paths row path p replaces then Inl transaction_error
            else and_then (plan_rows project_inputs repositories
                (bm_remove (sr_nevra row) incoming) replacements (insert path paths) rows)
              (\<lambda>(bound, rest). Inr (\<lparr>br_native = row, br_sha256 = rp_sha256 p, br_replaces = replaces,
                 br_expected = p, br_authority = authority_of project_inputs p\<rparr> # bound, rest))))"

definition plan_repositories :: "string \<Rightarrow> string list" where
  "plan_repositories repository_id = map (\<lambda>id. ''@stored_transaction('' @ id @ '')'')
     [''@commandline'', ''fedora'', ''updates'', repository_id]"

definition plan_repository_id :: "string \<Rightarrow> bool" where
  "plan_repository_id v = (\<not> (v = [] \<or> length v > 128
     \<or> \<not> list_all (\<lambda>c. is_alnum c \<or> c \<in> set ''-_.'') v))"

text \<open>The part of \<open>parse_inputs\<close> after the inputs are compared with the inventory.\<close>

definition bind_rows :: "(bytes \<Rightarrow> string) \<Rightarrow> (bytes \<Rightarrow> stored_transaction option) \<Rightarrow> bytes option
    \<Rightarrow> release_package list \<Rightarrow> string \<Rightarrow> string \<Rightarrow> incoming \<Rightarrow> string set
    \<Rightarrow> (install_error, native_plan) result" where
  "bind_rows sha256 decode b project_inputs repository_id inventory_fingerprint incoming replacements =
     (case b of
        None \<Rightarrow> (if incoming = []
                  then Inr \<lparr>pl_packages = [], pl_transaction_sha256 = None,
                         pl_inventory_fingerprint = Some inventory_fingerprint\<rparr>
                  else Inl transaction_error)
      | Some b \<Rightarrow>
          if incoming = [] \<or> length b > 8388608 then Inl transaction_error
          else and_then (ok_or transaction_error (decode b)) (\<lambda>document.
            if st_version document \<noteq> ''1.0''
               \<or> length (st_rpms document) \<noteq> length incoming + card replacements
            then Inl transaction_error
            else and_then (plan_rows project_inputs (plan_repositories repository_id) incoming
                replacements {} (st_rpms document)) (\<lambda>(packages, incoming, replacements).
              if incoming \<noteq> [] \<or> replacements \<noteq> {} then Inl transaction_error
              else Inr \<lparr>pl_packages = by_nevra packages, pl_transaction_sha256 = Some (sha256 b),
                     pl_inventory_fingerprint = Some inventory_fingerprint\<rparr>)))"

definition parse_inputs :: "'e host \<Rightarrow> (bytes \<Rightarrow> stored_transaction option) \<Rightarrow> bytes option
    \<Rightarrow> release_package list \<Rightarrow> release_package list \<Rightarrow> native_inventory \<Rightarrow> string
    \<Rightarrow> ('e, (install_error, native_plan) result) effect" where
  "parse_inputs host decode b expected project_inputs iv repository_id =
     (if expected = [] \<or> \<not> plan_repository_id repository_id then pure (Inl transaction_error)
      else attempt (plan_inputs (h_runner host) iv {} [] {} expected) (\<lambda>(incoming, replacements).
        pure (bind_rows (h_sha256 host) decode b project_inputs repository_id (ni_fingerprint iv)
          incoming replacements)))"

definition parse_with_dependencies :: "'e host \<Rightarrow> (bytes \<Rightarrow> stored_transaction option) \<Rightarrow> bytes option
    \<Rightarrow> release_package list \<Rightarrow> fedora_rpm list \<Rightarrow> native_inventory \<Rightarrow> string
    \<Rightarrow> ('e, (install_error, native_plan) result) effect" where
  "parse_with_dependencies host decode b expected dependencies iv repository_id =
     (if length expected > 128 \<or> length expected + length dependencies > 4096
      then pure (Inl transaction_error)
      else attempt (pure (check_each validate_package expected)) (\<lambda>_.
        parse_inputs host decode b (expected @ map fr_package dependencies) expected iv repository_id))"

definition parse_update :: "'e host \<Rightarrow> (bytes \<Rightarrow> stored_transaction option) \<Rightarrow> bytes option
    \<Rightarrow> release_package list \<Rightarrow> native_inventory \<Rightarrow> string
    \<Rightarrow> ('e, (install_error, native_plan) result) effect" where
  "parse_update host decode b expected iv repository_id =
     (if expected = [] then pure (Inl transaction_error)
      else parse_with_dependencies host decode b expected [] iv repository_id)"

section \<open>Checking the stored files\<close>

definition plan_empty :: "native_plan \<Rightarrow> bool" where
  "plan_empty plan = (pl_packages plan = [])"

definition content_invalid :: install_error where
  "content_invalid = integrity ''stored transaction RPM content is invalid''"

definition transaction_changed :: install_error where
  "transaction_changed = install_err 30 ''INSTALL_TRANSACTION_CHANGED''
     ''stored native transaction no longer matches the observed plan''"

definition check_directory :: "'e host \<Rightarrow> install_error \<Rightarrow> string
    \<Rightarrow> ('e, (install_error, unit) result) effect" where
  "check_directory host err directory =
     attempt (with_err (\<lambda>_. err) (lstat host directory)) (\<lambda>m.
     pure (ensure (fm_kind m = Directory) err))"

definition verify_package :: "'e host \<Rightarrow> string \<Rightarrow> bound_rpm \<Rightarrow> ('e, (install_error, unit) result) effect"
where
  "verify_package host root b =
     attempt (pure (ok_or content_invalid (sr_package_path (br_native b)))) (\<lambda>rel.
     let path = path_join root rel in
     attempt (with_err (\<lambda>_. content_invalid) (lstat host path)) (\<lambda>m.
     attempt (pure (ensure (regular_within MAX_RPM_BYTES m) content_invalid)) (\<lambda>_.
     attempt (with_err (\<lambda>_. content_invalid) (read_file host path (Some (MAX_RPM_BYTES + 1)))) (\<lambda>content.
     pure (ensure (length content = fm_len m \<and> h_sha256 host content = br_sha256 b) content_invalid)))))"

definition verify_packages :: "'e host \<Rightarrow> native_plan \<Rightarrow> string \<Rightarrow> ('e, (install_error, unit) result) effect"
where
  "verify_packages host plan root =
     (if plan_empty plan then pure (Inr ())
      else attempt (each_attempt (check_directory host content_invalid)
             [root, path_join root ''packages'']) (\<lambda>_.
           each_attempt (verify_package host root) (pl_packages plan)))"

definition verify_authority :: "'e host \<Rightarrow> string \<Rightarrow> project_trust \<Rightarrow> bound_rpm
    \<Rightarrow> ('e, (install_error, unit) result) effect" where
  "verify_authority host root trust b =
     attempt (pure (ok_or transaction_error (sr_package_path (br_native b)))) (\<lambda>rel.
     let path = path_join root rel in
     (case br_authority b of
        By_Project \<Rightarrow> attempt (project_verify host path (br_expected b) trust) (\<lambda>_. pure (Inr ()))
      | By_Fedora \<Rightarrow> attempt (fedora_verify host path (br_sha256 b)) (\<lambda>verified.
          pure (ensure (fr_package verified = br_expected b) transaction_error))))"

definition verify_signatures :: "'e host \<Rightarrow> native_plan \<Rightarrow> string \<Rightarrow> project_trust
    \<Rightarrow> ('e, (install_error, unit) result) effect" where
  "verify_signatures host plan root trust =
     attempt (verify_packages host plan root) (\<lambda>_.
     each_attempt (verify_authority host root trust) (pl_packages plan))"

definition MAX_TRANSACTION_BYTES :: nat where "MAX_TRANSACTION_BYTES = 8388608"

definition verify_stored :: "'e host \<Rightarrow> native_plan \<Rightarrow> string \<Rightarrow> ('e, (install_error, unit) result) effect"
where
  "verify_stored host plan root =
     attempt (pure (ok_or transaction_changed (pl_inventory_fingerprint plan))) (\<lambda>observed.
     attempt (pure (ok_or transaction_changed (pl_transaction_sha256 plan))) (\<lambda>expected.
     attempt (check_directory host transaction_changed root) (\<lambda>_.
     let path = path_join root ''transaction.json'' in
     attempt (with_err (\<lambda>_. transaction_changed) (lstat host path)) (\<lambda>m.
     attempt (pure (ensure (regular_within MAX_TRANSACTION_BYTES m) transaction_changed)) (\<lambda>_.
     attempt (with_err (\<lambda>_. transaction_changed)
       (read_file host path (Some (MAX_TRANSACTION_BYTES + 1)))) (\<lambda>content.
     attempt (pure (ensure (length content = fm_len m \<and> h_sha256 host content = expected)
       transaction_changed)) (\<lambda>_.
     attempt (verify_packages host plan root) (\<lambda>_.
     attempt (query_inventory (h_sha256 host) (h_runner host)) (\<lambda>now.
     pure (ensure (ni_fingerprint now = observed) state_changed))))))))))"

section \<open>The preview\<close>

definition preview_line :: "bound_rpm \<Rightarrow> string" where
  "preview_line b = sr_action (br_native b) @ '' ''
     @ (case br_replaces b of None \<Rightarrow> [] | Some old \<Rightarrow> old @ '' -> '')
     @ sr_nevra (br_native b) @ '' sha256:'' @ br_sha256 b @ [nl]"

definition preview :: "native_plan \<Rightarrow> string" where
  "preview plan = (if plan_empty plan then ''No package changes.'' @ [nl]
                   else concat (map preview_line (pl_packages plan)))"

end
