(* ===== verification/Plan_Laws.thy ===== *)
theory Plan_Laws
  imports Native_Plan
begin

text \<open>
  What a native plan promises: native identities determine packages, and a plan covers exactly the
  packages that are not installed at their version, each bound to its digest, its authority and,
  for an upgrade, to the older version it replaces.
\<close>

section \<open>Native identities\<close>

definition identity_ok :: "string \<Rightarrow> string \<Rightarrow> string \<Rightarrow> bool" where
  "identity_ok name evr arch \<longleftrightarrow> valid_evr evr \<and> CHR ''.'' \<notin> set arch"

lemma last_occurrence_unique:
  assumes "a @ c # b = a' @ c # b'" "c \<notin> set b" "c \<notin> set b'"
  shows "a = a' \<and> b = b'"
proof -
  have "rsplit_once c (a @ c # b) = Some (a, b)"
    unfolding rsplit_once_Some using assms(2) by blast
  moreover have "rsplit_once c (a @ c # b) = Some (a', b')"
    unfolding assms(1) rsplit_once_Some using assms(3) by blast
  ultimately show ?thesis by simp
qed

text \<open>The version without the epoch when it is zero: a part that may hold the epoch, and the release.\<close>

lemma without_zero_epoch_parts:
  assumes "valid_evr evr"
  shows "\<exists>ev r. without_zero_epoch evr = ev @ ''-'' @ r \<and> CHR ''-'' \<notin> set ev \<and> CHR ''-'' \<notin> set r
     \<and> (evr = ev @ ''-'' @ r \<and> CHR '':'' \<in> set ev \<or> evr = ''0:'' @ ev @ ''-'' @ r \<and> CHR '':'' \<notin> set ev)"
proof -
  from assms obtain epoch v r where evr: "evr = epoch @ '':'' @ v @ ''-'' @ r" "decimal_u32 epoch"
      "rpm_scalar v" "rpm_scalar r"
    using valid_evr_iff by blast
  have sep: "CHR ''-'' \<notin> set epoch" "CHR ''-'' \<notin> set v" "CHR ''-'' \<notin> set r" "CHR '':'' \<notin> set v"
      "CHR '':'' \<notin> set epoch"
    using evr decimal_no_colon rpm_scalar_no_dash by blast+
  show ?thesis
  proof (cases "epoch = ''0''")
    case True
    with evr have "without_zero_epoch evr = v @ ''-'' @ r" by (simp add: without_zero_epoch_def)
    with True evr sep show ?thesis by (intro exI [of _ v] exI [of _ r]) simp
  next
    case False
    have "strip_prefix ''0:'' evr = None"
    proof (rule ccontr)
      assume "strip_prefix ''0:'' evr \<noteq> None"
      then obtain rest where "evr = CHR ''0'' # CHR '':'' # rest" by auto
      with evr sep have "\<exists>t. epoch = CHR ''0'' # t \<and> t = []"
        by (cases epoch; cases "tl epoch") auto
      with False show False by simp
    qed
    then have "without_zero_epoch evr = (epoch @ '':'' @ v) @ ''-'' @ r"
      by (simp add: without_zero_epoch_def evr)
    with evr sep show ?thesis by (intro exI [of _ "epoch @ '':'' @ v"] exI [of _ r]) simp
  qed
qed

lemma native_identity_inj:
  assumes ok: "identity_ok n e a" "identity_ok n' e' a'"
    and eq: "native_identity n e a = native_identity n' e' a'"
  shows "n = n' \<and> e = e' \<and> a = a'"
proof -
  from ok obtain ev r where e: "without_zero_epoch e = ev @ ''-'' @ r" "CHR ''-'' \<notin> set ev"
      "CHR ''-'' \<notin> set r" "e = ev @ ''-'' @ r \<and> CHR '':'' \<in> set ev \<or>
        e = ''0:'' @ ev @ ''-'' @ r \<and> CHR '':'' \<notin> set ev"
    unfolding identity_ok_def using without_zero_epoch_parts by blast
  from ok obtain ev' r' where e': "without_zero_epoch e' = ev' @ ''-'' @ r'" "CHR ''-'' \<notin> set ev'"
      "CHR ''-'' \<notin> set r'" "e' = ev' @ ''-'' @ r' \<and> CHR '':'' \<in> set ev' \<or>
        e' = ''0:'' @ ev' @ ''-'' @ r' \<and> CHR '':'' \<notin> set ev'"
    unfolding identity_ok_def using without_zero_epoch_parts by blast
  have dots: "CHR ''.'' \<notin> set a" "CHR ''.'' \<notin> set a'" using ok by (simp_all add: identity_ok_def)
  have "(n @ ''-'' @ ev @ ''-'' @ r) @ CHR ''.'' # a = (n' @ ''-'' @ ev' @ ''-'' @ r') @ CHR ''.'' # a'"
    using eq e(1) e'(1) by (simp add: native_identity_def)
  from last_occurrence_unique [OF this dots]
  have 1: "(n @ ''-'' @ ev) @ CHR ''-'' # r = (n' @ ''-'' @ ev') @ CHR ''-'' # r'" "a = a'" by simp_all
  from last_occurrence_unique [OF 1(1) e(3) e'(3)]
  have 2: "n @ CHR ''-'' # ev = n' @ CHR ''-'' # ev'" "r = r'" by simp_all
  from last_occurrence_unique [OF 2(1) e(2) e'(2)] have "n = n'" "ev = ev'" by simp_all
  with 1 2 e(4) e'(4) show ?thesis by auto
qed

lemma package_ok_identity: "package_ok p \<Longrightarrow> identity_ok (rp_name p) (rp_nevr p) (rp_arch p)"
proof -
  assume "package_ok p"
  then have "valid_evr (rp_nevr p)" "Manifest.rpm_arch (rp_arch p)"
    unfolding package_ok_def valid_evr_iff by blast+
  then show ?thesis by (auto simp: identity_ok_def Manifest.rpm_arch_def)
qed

lemma native_package_identity: "native_package p \<Longrightarrow> identity_ok (rp_name p) (rp_nevr p) (rp_arch p)"
  by (auto simp: native_package_def identity_ok_def Manifest.rpm_arch_def)

section \<open>The packages that are not there yet\<close>

definition installed_as :: "native_inventory \<Rightarrow> release_package \<Rightarrow> installed_rpm list" where
  "installed_as iv p =
     filter (\<lambda>old. rpm_name old = rp_name p \<and> rpm_arch old = rp_arch p) (ni_packages iv)"

definition outdated :: "native_inventory \<Rightarrow> release_package \<Rightarrow> bool" where
  "outdated iv p = list_all (\<lambda>old. rpm_evr old \<noteq> rp_nevr p) (installed_as iv p)"

text \<open>RPM itself printed that the first version is less than the second.\<close>

definition proved_older :: "event list \<Rightarrow> string \<Rightarrow> string \<Rightarrow> bool" where
  "proved_older evs old new \<longleftrightarrow> (\<exists>po. po_stdout po = ''-1'' @ [nl]
     \<and> complete_output () po = Inr (po_stdout po)
     \<and> Ran (native_rpm_request [''--eval'', compare_expression old new] 16) (Inr po) \<in> set evs)"

definition rpm_identity :: "installed_rpm \<Rightarrow> string" where
  "rpm_identity k = native_identity (rpm_name k) (rpm_evr k) (rpm_arch k)"

definition entry_ok :: "native_inventory \<Rightarrow> event list \<Rightarrow> release_package \<times> string option \<Rightarrow> bool" where
  "entry_ok iv evs e \<longleftrightarrow> (case snd e of
       None \<Rightarrow> installed_as iv (fst e) = []
     | Some old_identity \<Rightarrow> (\<exists>old. installed_as iv (fst e) = [old] \<and> old_identity = rpm_identity old
          \<and> proved_older evs (rpm_evr old) (rp_nevr (fst e))))"

lemma compare_leaves:
  "leaves (\<lambda>o' evs. \<exists>po. evs = [Ran (native_rpm_request [''--eval'', compare_expression l r] 16) (Inr po)]
       \<and> complete_output () po = Inr (po_stdout po) \<and> ordering_of (po_stdout po) = Some o')
     (compare_rpm_versions runner l r)"
  by (auto simp: leaves_def compare_rpm_versions_def native_rpm_def attempt_Inr run_process_run
      accept_rpm_output_def complete_output_Inr split: if_splits prod.splits)

lemma ordering_Less: "ordering_of out = Some Less \<longleftrightarrow> out = ''-1'' @ [nl]"
  by (auto simp: ordering_of_def)

lemma entry_ok_mono: "entry_ok iv evs e \<Longrightarrow> set evs \<subseteq> set evs' \<Longrightarrow> entry_ok iv evs' e"
  unfolding entry_ok_def proved_older_def by (auto split: option.splits)

definition incoming_entry :: "release_package \<times> string option \<Rightarrow> string \<times> release_package \<times> string option"
where
  "incoming_entry e = (package_identity (fst e), e)"

definition replaced_identities :: "(release_package \<times> string option) list \<Rightarrow> string set" where
  "replaced_identities entries = {i. Some i \<in> snd ` set entries}"

definition planned :: "native_inventory \<Rightarrow> string set \<Rightarrow> incoming \<Rightarrow> string set \<Rightarrow> release_package list
    \<Rightarrow> incoming \<times> string set \<Rightarrow> event list \<Rightarrow> bool" where
  "planned iv names incoming replacements ps out evs \<longleftrightarrow>
     distinct (map rp_name ps) \<and> rp_name ` set ps \<inter> names = {}
     \<and> (\<exists>entries. map fst entries = filter (outdated iv) ps \<and> list_all (entry_ok iv evs) entries
          \<and> fst out = bm_collect (map incoming_entry entries) incoming
          \<and> snd out = replacements \<union> replaced_identities entries)"

lemma planned_Nil [simp]:
  "planned iv names incoming replacements [] out evs \<longleftrightarrow> out = (incoming, replacements)"
  by (auto simp: planned_def replaced_identities_def prod_eq_iff)

lemma planned_Cons:
  assumes "planned iv (insert (rp_name p) names)
      (if outdated iv p then bm_insert (package_identity p) (p, r) incoming else incoming)
      (if outdated iv p then replacements \<union> (case r of None \<Rightarrow> {} | Some i \<Rightarrow> {i}) else replacements)
      ps out evs"
    and "rp_name p \<notin> names" and "outdated iv p \<Longrightarrow> entry_ok iv (pre @ evs) (p, r)"
  shows "planned iv names incoming replacements (p # ps) out (pre @ evs)"
proof -
  from assms(1) obtain entries where e: "map fst entries = filter (outdated iv) ps"
      "list_all (entry_ok iv evs) entries"
      "fst out = bm_collect (map incoming_entry entries)
         (if outdated iv p then bm_insert (package_identity p) (p, r) incoming else incoming)"
      "snd out = (if outdated iv p then replacements \<union> (case r of None \<Rightarrow> {} | Some i \<Rightarrow> {i})
         else replacements) \<union> replaced_identities entries"
    unfolding planned_def by blast
  have ok: "list_all (entry_ok iv (pre @ evs)) entries"
    using e(2) by (rule list.pred_mono_strong) (erule entry_ok_mono, simp)
  let ?all = "(if outdated iv p then [(p, r)] else []) @ entries"
  have "map fst ?all = filter (outdated iv) (p # ps)" using e(1) by simp
  moreover have "list_all (entry_ok iv (pre @ evs)) ?all" using ok assms(3) by simp
  moreover have "fst out = bm_collect (map incoming_entry ?all) incoming"
    using e(3) by (simp add: incoming_entry_def)
  moreover have "snd out = replacements \<union> replaced_identities ?all"
    using e(4) by (auto simp: replaced_identities_def split: option.splits)
  moreover have "distinct (map rp_name (p # ps))" "rp_name ` set (p # ps) \<inter> names = {}"
    using assms(1,2) unfolding planned_def by auto
  ultimately show ?thesis unfolding planned_def by blast
qed

lemma plan_inputs_leaves:
  "leaves (planned iv names incoming replacements ps)
     (plan_inputs runner iv names incoming replacements ps)"
proof (induction ps arbitrary: names incoming replacements)
  case Nil
  show ?case by (auto simp: leaves_def)
next
  case (Cons p ps)
  show ?case
  proof (cases "rp_name p \<in> names")
    case True
    then show ?thesis by (simp add: leaves_def)
  next
    case False
    consider "installed_as iv p = []" | old where "installed_as iv p = [old]"
      | a b c where "installed_as iv p = a # b # c"
      by (cases "installed_as iv p" rule: increasing_pairs.cases) blast+
    then show ?thesis
    proof cases
      case 1
      then have "outdated iv p" "entry_ok iv ([] @ evs) (p, None)" for evs
        by (simp_all add: outdated_def entry_ok_def)
      with planned_Cons [where r = None and pre = "[]"] False 1 show ?thesis
        by (simp add: installed_as_def) (rule leaves_weaken [OF Cons.IH], force)
    next
      case (2 old)
      show ?thesis
      proof (cases "rpm_evr old = rp_nevr p")
        case True
        then have "\<not> outdated iv p" using 2 by (simp add: outdated_def)
        with planned_Cons [where r = None and pre = "[]"] False 2 True show ?thesis
          by (simp add: installed_as_def) (rule leaves_weaken [OF Cons.IH], force)
      next
        case ne: False
        then have out: "outdated iv p" using 2 by (simp add: outdated_def)
        let ?rest = "plan_inputs runner iv (insert (rp_name p) names)
          (bm_insert (package_identity p) (p, Some (rpm_identity old)) incoming)
          (insert (rpm_identity old) replacements) ps"
        let ?P = "planned iv (insert (rp_name p) names)
          (bm_insert (package_identity p) (p, Some (rpm_identity old)) incoming)
          (insert (rpm_identity old) replacements) ps"
        have step: "plan_inputs runner iv names incoming replacements (p # ps) =
            attempt (compare_rpm_versions runner (rpm_evr old) (rp_nevr p))
              (\<lambda>o'. if o' \<noteq> Less then pure (Inl transaction_error) else ?rest)"
          using 2 False ne by (simp add: installed_as_def rpm_identity_def Let_def cong: if_cong)
        have "leaves (\<lambda>out evs. o' = Less \<and> ?P out evs)
            (if o' \<noteq> Less then pure (Inl transaction_error) else ?rest)" for o'
          using Cons.IH by (cases "o' = Less") (simp_all add: leaves_def)
        from leaves_attempt [OF compare_leaves this]
        show ?thesis unfolding step
        proof (rule leaves_weaken, simp only: followed_simps, elim exE conjE)
          fix out evs o' po es
          assume evs: "evs = Ran (native_rpm_request [''--eval'',
                compare_expression (rpm_evr old) (rp_nevr p)] 16) (Inr po) # es"
            and less: "complete_output () po = Inr (po_stdout po)" "ordering_of (po_stdout po) = Some o'"
              "o' = Less"
            and rest: "?P out es"
          let ?pre = "[Ran (native_rpm_request [''--eval'',
                compare_expression (rpm_evr old) (rp_nevr p)] 16) (Inr po)]"
          have "proved_older (?pre @ es) (rpm_evr old) (rp_nevr p)"
            unfolding proved_older_def using less by (intro exI [of _ po]) (simp add: ordering_Less)
          then have entry: "entry_ok iv (?pre @ es) (p, Some (rpm_identity old))"
            using 2 by (simp add: entry_ok_def)
          have "planned iv names incoming replacements (p # ps) out (?pre @ es)"
            by (rule planned_Cons [where r = "Some (rpm_identity old)"]) (use rest out entry False in simp_all)
          then show "planned iv names incoming replacements (p # ps) out evs" by (simp add: evs)
        qed
      qed
    next
      case 3
      then show ?thesis using False by (simp add: installed_as_def leaves_def)
    qed
  qed
qed


section \<open>The rows of the stored transaction\<close>

definition bound_entry :: "bound_rpm \<Rightarrow> string \<times> release_package \<times> string option" where
  "bound_entry b = (sr_nevra (br_native b), br_expected b, br_replaces b)"

text \<open>A row is bound to its package: action, repository, path, digest and authority are determined.\<close>

definition bound_ok :: "release_package list \<Rightarrow> string list \<Rightarrow> bound_rpm \<Rightarrow> bool" where
  "bound_ok project_inputs repositories b \<longleftrightarrow>
     br_sha256 b = rp_sha256 (br_expected b)
     \<and> br_authority b = authority_of project_inputs (br_expected b)
     \<and> (\<exists>path. sr_package_path (br_native b) = Some path
          \<and> row_accepted repositories {} (br_native b) path (br_expected b) (br_replaces b))"

lemma bm_remove_mset: "bm_get m k = Some v \<Longrightarrow> mset m = add_mset (k, v) (mset (bm_remove k m))"
  by (induction m) (auto split: if_splits)

lemma row_accepted_mono: "row_accepted rs paths row path p r \<Longrightarrow> row_accepted rs {} row path p r"
  by (auto simp: row_accepted_def)

lemma plan_rows_Inr:
  assumes "plan_rows project_inputs repositories incoming replacements paths rows
     = Inr (bound, incoming', replacements')"
  shows "mset incoming = mset (map bound_entry bound) + mset incoming'
     \<and> list_all (bound_ok project_inputs repositories) bound
     \<and> replacements = replacements' \<union> sr_nevra ` {row \<in> set rows. sr_action row = ''Replaced''}
     \<and> map br_native bound = filter (\<lambda>row. sr_action row \<noteq> ''Replaced'') rows"
  using assms
proof (induction rows arbitrary: incoming replacements paths bound)
  case (Cons row rows)
  show ?case
  proof (cases "sr_action row = ''Replaced''")
    case True
    with Cons.prems have "sr_nevra row \<in> replacements" and
      rest: "plan_rows project_inputs repositories incoming (replacements - {sr_nevra row}) paths rows
        = Inr (bound, incoming', replacements')"
      by (auto split: if_splits)
    with Cons.IH [OF rest] True show ?thesis by auto
  next
    case False
    then obtain p replaces path rest where
      get: "bm_get incoming (sr_nevra row) = Some (p, replaces)"
      and path: "sr_package_path row = Some path" "row_accepted repositories paths row path p replaces"
      and rest: "plan_rows project_inputs repositories (bm_remove (sr_nevra row) incoming) replacements
          (insert path paths) rows = Inr (rest, incoming', replacements')"
      and bound: "bound = \<lparr>br_native = row, br_sha256 = rp_sha256 p, br_replaces = replaces,
          br_expected = p, br_authority = authority_of project_inputs p\<rparr> # rest"
      using Cons.prems by (auto split: if_splits option.splits)
    from Cons.IH [OF rest] bm_remove_mset [OF get] path row_accepted_mono [OF path(2)] False
    show ?thesis unfolding bound
      by (auto simp: bound_entry_def bound_ok_def)
  qed
qed simp

section \<open>A plan covers what is missing, and nothing else\<close>

lemma bm_insert_mset:
  "bm_get m k = None \<Longrightarrow> mset (bm_insert k v m) = add_mset (k, v) (mset m)"
  by (induction k v m rule: bm_insert.induct) (auto split: if_splits)

lemma bm_collect_mset:
  "distinct (map fst kvs) \<Longrightarrow> fst ` set kvs \<inter> fst ` set m = {} \<Longrightarrow>
   mset (bm_collect kvs m) = mset kvs + mset m"
proof (induction kvs m rule: bm_collect.induct)
  case (2 k v kvs m)
  then have "bm_get m k = None" by (auto simp: bm_get_None)
  with 2 show ?case by (simp add: bm_insert_keys bm_insert_mset)
qed simp

definition identifiable :: "release_package \<Rightarrow> bool" where
  "identifiable p \<longleftrightarrow> identity_ok (rp_name p) (rp_nevr p) (rp_arch p)"

lemma identities_distinct:
  assumes "distinct (map rp_name ps)" "list_all identifiable ps"
  shows "distinct (map package_identity ps)"
proof -
  have "inj_on package_identity (set ps)"
  proof (rule inj_onI)
    fix p q
    assume p: "p \<in> set ps" and q: "q \<in> set ps" and eq: "package_identity p = package_identity q"
    then have "rp_name p = rp_name q"
      using native_identity_inj assms(2) unfolding package_identity_def identifiable_def list_all_iff
      by blast
    with p q assms(1) show "p = q" by (auto simp: distinct_map dest: inj_onD)
  qed
  with assms(1) show ?thesis by (simp add: distinct_map)
qed

text \<open>
  The packages of the plan are those of the inputs that are not installed at their version, each
  bound by its row; the rows that remain name the older versions that are replaced.
\<close>

definition plan_covers :: "native_inventory \<Rightarrow> release_package list \<Rightarrow> release_package list \<Rightarrow> string
    \<Rightarrow> event list \<Rightarrow> native_plan \<Rightarrow> bool" where
  "plan_covers iv inputs project_inputs repository_id evs plan \<longleftrightarrow>
     mset (map br_expected (pl_packages plan)) = mset (filter (outdated iv) inputs)
     \<and> sorted (map (\<lambda>b. sr_nevra (br_native b)) (pl_packages plan))
     \<and> list_all (\<lambda>b. bound_ok project_inputs (plan_repositories repository_id) b
          \<and> sr_nevra (br_native b) = package_identity (br_expected b)
          \<and> entry_ok iv evs (br_expected b, br_replaces b)) (pl_packages plan)
     \<and> pl_inventory_fingerprint plan = Some (ni_fingerprint iv)"

lemma bind_rows_Inr:
  assumes "planned iv {} [] {} inputs (incoming, replacements) evs" "list_all identifiable inputs"
    and "bind_rows sha256 decode b project_inputs repository_id (ni_fingerprint iv) incoming replacements
      = Inr plan"
  shows "plan_covers iv inputs project_inputs repository_id evs plan
     \<and> pl_transaction_sha256 plan = map_option sha256 b"
proof -
  from assms(1) obtain entries where e: "distinct (map rp_name inputs)"
      "map fst entries = filter (outdated iv) inputs" "list_all (entry_ok iv evs) entries"
      "incoming = bm_collect (map incoming_entry entries) []"
    unfolding planned_def by auto
  have "distinct (map package_identity (map fst entries))"
    unfolding e(2) by (rule identities_distinct)
      (use e(1) assms(2) in \<open>auto simp: distinct_map_filter list_all_iff\<close>)
  then have d: "distinct (map fst (map incoming_entry entries))"
    by (simp add: incoming_entry_def comp_def)
  have inc: "mset incoming = mset (map incoming_entry entries)"
    unfolding e(4) using d by (simp add: bm_collect_mset)
  show ?thesis
  proof (cases b)
    case None
    with assms(3) have plan: "plan = \<lparr>pl_packages = [], pl_transaction_sha256 = None,
        pl_inventory_fingerprint = Some (ni_fingerprint iv)\<rparr>" and "incoming = []"
      by (auto simp: bind_rows_def split: if_splits)
    with inc have "entries = []" by simp
    with e(2) have "filter (outdated iv) inputs = []" by simp
    with None show ?thesis by (simp add: plan plan_covers_def)
  next
    case (Some bytes)
    with assms(3) obtain document :: stored_transaction and packages where
      rows: "plan_rows project_inputs (plan_repositories repository_id) incoming replacements {}
        (st_rpms document) = Inr (packages, [], {})"
      and plan: "plan = \<lparr>pl_packages = by_nevra packages, pl_transaction_sha256 = Some (sha256 bytes),
        pl_inventory_fingerprint = Some (ni_fingerprint iv)\<rparr>"
      by (auto simp: bind_rows_def split: if_splits intro: that)
    from plan_rows_Inr [OF rows]
    have bound: "mset incoming = mset (map bound_entry packages)"
      and ok: "list_all (bound_ok project_inputs (plan_repositories repository_id)) packages"
      by simp_all
    from bound inc have same: "mset (map bound_entry packages) = mset (map incoming_entry entries)"
      by simp
    then have "mset (map (\<lambda>t. fst (snd t)) (map bound_entry packages))
        = mset (map (\<lambda>t. fst (snd t)) (map incoming_entry entries))"
      by (metis mset_map)
    then have covered: "mset (map br_expected packages) = mset (filter (outdated iv) inputs)"
      unfolding e(2) [symmetric] by (simp add: bound_entry_def incoming_entry_def comp_def)
    have each: "sr_nevra (br_native x) = package_identity (br_expected x)
        \<and> entry_ok iv evs (br_expected x, br_replaces x)" if "x \<in> set packages" for x
    proof -
      have "bound_entry x \<in> set (map incoming_entry entries)"
        using that mset_eq_setD [OF same] by auto
      then show ?thesis using e(3)
        by (auto simp: bound_entry_def incoming_entry_def list_all_iff)
    qed
    have "set (by_nevra packages) = set packages" by (simp add: by_nevra_def)
    moreover have "mset (map br_expected (by_nevra packages)) = mset (map br_expected packages)"
      by (metis by_nevra_def mset_map mset_sort)
    moreover have "sorted (map (\<lambda>b. sr_nevra (br_native b)) (by_nevra packages))"
      by (simp add: by_nevra_def)
    ultimately show ?thesis using covered each ok Some
      by (simp add: plan plan_covers_def list_all_iff)
  qed
qed

lemma parse_inputs_leaves:
  assumes "list_all identifiable inputs"
  shows "leaves (\<lambda>plan evs. plan_covers iv inputs project_inputs repository_id evs plan
       \<and> pl_transaction_sha256 plan = map_option (h_sha256 host) b)
     (parse_inputs host decode b inputs project_inputs iv repository_id)"
proof (cases "inputs = [] \<or> \<not> plan_repository_id repository_id")
  case True
  then show ?thesis by (simp add: parse_inputs_def leaves_def)
next
  case False
  show ?thesis
    unfolding parse_inputs_def leaves_def
  proof (intro allI impI)
    fix w plan w'
    assume "run_state (if inputs = [] \<or> \<not> plan_repository_id repository_id
        then pure (Inl transaction_error)
        else attempt (plan_inputs (h_runner host) iv {} [] {} inputs) (\<lambda>(incoming, replacements).
          pure (bind_rows (h_sha256 host) decode b project_inputs repository_id (ni_fingerprint iv)
            incoming replacements))) w = (Inr plan, w')"
    then obtain incoming replacements where
      run: "run_state (plan_inputs (h_runner host) iv {} [] {} inputs) w
          = (Inr (incoming, replacements), w')"
      and bind: "bind_rows (h_sha256 host) decode b project_inputs repository_id (ni_fingerprint iv)
            incoming replacements = Inr plan"
      using False by (auto simp: attempt_Inr)
    from leavesD [OF plan_inputs_leaves run] bind_rows_Inr [OF _ assms bind]
    show "\<exists>evs. log w' = log w @ evs \<and> plan_covers iv inputs project_inputs repository_id evs plan
        \<and> pl_transaction_sha256 plan = map_option (h_sha256 host) b"
      by blast
  qed
qed

lemma parse_with_dependencies_leaves:
  assumes "list_all (\<lambda>f. native_package (fr_package f)) dependencies"
  shows "leaves (\<lambda>plan evs. plan_covers iv (expected @ map fr_package dependencies) expected
         repository_id evs plan
       \<and> pl_transaction_sha256 plan = map_option (h_sha256 host) b \<and> list_all package_ok expected)
     (parse_with_dependencies host decode b expected dependencies iv repository_id)"
proof (cases "check_each validate_package expected = Inr ()")
  case True
  then have ok: "list_all package_ok expected" by (simp add: validate_package_Inr list_all_iff)
  then have "list_all identifiable (expected @ map fr_package dependencies)"
    using assms
    by (auto simp: list_all_iff identifiable_def package_ok_identity native_package_identity)
  from parse_inputs_leaves [OF this] ok show ?thesis
    unfolding parse_with_dependencies_def leaves_def
    by (auto simp: attempt_Inr split: if_splits) blast
next
  case False
  then show ?thesis
    by (auto simp: parse_with_dependencies_def leaves_def attempt_Inr)
qed

end
