(* ===== verification/Stored_Laws.thy ===== *)
theory Stored_Laws
  imports Plan_Laws
begin

text \<open>
  What the checks of a stored plan have seen when they succeed: the bytes of the transaction and of
  every package, the signatures under the authority each package came from, and the inventory. And
  that these checks leave no private directory behind and change nothing.
\<close>

section \<open>Traces of the checks\<close>

definition bound_path :: "string \<Rightarrow> bound_rpm \<Rightarrow> string" where
  "bound_path root b = path_join root (case sr_package_path (br_native b) of None \<Rightarrow> [] | Some p \<Rightarrow> p)"

definition content_checked :: "(bytes \<Rightarrow> string) \<Rightarrow> string \<Rightarrow> bound_rpm \<Rightarrow> event list \<Rightarrow> bool" where
  "content_checked sha256 root b es \<longleftrightarrow> (\<exists>content. es =
       [Saw (bound_path root b) True (length content), Was_Read (bound_path root b) content]
     \<and> sha256 content = br_sha256 b \<and> sr_package_path (br_native b) \<noteq> None)"

definition signature_checked :: "(bytes \<Rightarrow> string) \<Rightarrow> string \<Rightarrow> project_trust \<Rightarrow> bound_rpm
    \<Rightarrow> event list \<Rightarrow> bool" where
  "signature_checked sha256 root trust b es \<longleftrightarrow> (case br_authority b of
       By_Project \<Rightarrow> package_ok (br_expected b) \<and> (\<exists>q. same_identity q (br_expected b)
         \<and> rpm_trace sha256 (bound_path root b) (rp_sha256 (br_expected b))
             (Some (key_database trust)) (project_signatures (pt_primary trust)) q es)
     | By_Fedora \<Rightarrow> native_package (br_expected b)
         \<and> rpm_trace sha256 (bound_path root b) (br_sha256 b) None [FEDORA_SIGNATURE] (br_expected b) es)"

lemma check_directory_leaves:
  "leaves (\<lambda>_ evs. \<exists>n. evs = [Saw d False n]) (check_directory host err d)"
  unfolding check_directory_def
  by (rule leaves_weaken, (rule leaves_attempt leaves_rules)+) (simp only: followed_simps, auto)

lemma verify_package_leaves:
  "leaves (\<lambda>_ evs. content_checked (h_sha256 host) root b evs) (verify_package host root b)"
  unfolding verify_package_def Let_def
  by (rule leaves_weaken, (rule leaves_attempt leaves_rules)+)
    (simp only: followed_simps, auto simp: content_checked_def bound_path_def regular_within_def)

lemma verify_authority_leaves:
  "leaves (\<lambda>_ evs. signature_checked (h_sha256 host) root trust b evs)
     (verify_authority host root trust b)"
proof (cases "br_authority b")
  case By_Project
  show ?thesis
    unfolding verify_authority_def Let_def By_Project rpm_authority.case
    by (rule leaves_weaken, (rule leaves_attempt project_verify_leaves leaves_rules)+)
      (simp only: followed_simps, auto simp: followed_def signature_checked_def By_Project bound_path_def)
next
  case By_Fedora
  show ?thesis
    unfolding verify_authority_def Let_def By_Fedora rpm_authority.case
    by (rule leaves_weaken, (rule leaves_attempt fedora_verify_leaves leaves_rules)+)
      (simp only: followed_simps, auto simp: followed_def signature_checked_def By_Fedora bound_path_def)
qed

definition contents_checked :: "(bytes \<Rightarrow> string) \<Rightarrow> string \<Rightarrow> native_plan \<Rightarrow> event list \<Rightarrow> bool" where
  "contents_checked sha256 root plan evs \<longleftrightarrow> pl_packages plan = [] \<and> evs = []
     \<or> (\<exists>m n ess. evs = [Saw root False m, Saw (path_join root ''packages'') False n] @ concat ess
          \<and> list_all2 (content_checked sha256 root) (pl_packages plan) ess)"

definition signatures_checked :: "(bytes \<Rightarrow> string) \<Rightarrow> string \<Rightarrow> project_trust \<Rightarrow> native_plan
    \<Rightarrow> event list \<Rightarrow> bool" where
  "signatures_checked sha256 root trust plan evs \<longleftrightarrow> (\<exists>before ess. evs = before @ concat ess
     \<and> contents_checked sha256 root plan before
     \<and> list_all2 (signature_checked sha256 root trust) (pl_packages plan) ess)"

lemma verify_packages_leaves:
  "leaves (\<lambda>_ evs. contents_checked (h_sha256 host) root plan evs) (verify_packages host plan root)"
proof (cases "plan_empty plan")
  case True
  then show ?thesis
    by (simp add: verify_packages_def leaves_def contents_checked_def plan_empty_def)
next
  case False
  show ?thesis
    unfolding verify_packages_def
    by (simp only: False if_False, rule leaves_weaken,
        (rule leaves_attempt leaves_each check_directory_leaves verify_package_leaves)+)
      (fastforce simp: followed_def contents_checked_def list_all2_Cons1)
qed

lemma verify_signatures_leaves:
  "leaves (\<lambda>_ evs. signatures_checked (h_sha256 host) root trust plan evs)
     (verify_signatures host plan root trust)"
  unfolding verify_signatures_def
  by (rule leaves_weaken, (rule leaves_attempt leaves_each verify_packages_leaves verify_authority_leaves)+)
    (auto simp: followed_def signatures_checked_def)

text \<open>The inventory as one complete query gives it.\<close>

definition observed_inventory :: "(bytes \<Rightarrow> string) \<Rightarrow> native_inventory \<Rightarrow> event list \<Rightarrow> bool" where
  "observed_inventory sha256 iv es \<longleftrightarrow> (\<exists>po.
     es = [Ran (native_rpm_request inventory_args MAX_INVENTORY_BYTES) (Inr po)]
     \<and> complete_output () po = Inr (po_stdout po) \<and> parse_query sha256 (po_stdout po) = Inr iv)"

lemma query_inventory_leaves [leaves_rules]:
  "leaves (observed_inventory sha256) (query_inventory sha256 runner)"
  by (auto simp: leaves_def query_inventory_def native_rpm_def attempt_Inr run_process_run
      accept_rpm_output_def complete_output_Inr observed_inventory_def split: if_splits prod.splits)

text \<open>
  The transaction is read, with the digest of the plan, the packages are checked, and then the
  inventory has the fingerprint it had when the plan was made.
\<close>

definition stored_checked :: "(bytes \<Rightarrow> string) \<Rightarrow> string \<Rightarrow> native_plan \<Rightarrow> event list \<Rightarrow> bool" where
  "stored_checked sha256 root plan evs \<longleftrightarrow> (\<exists>n content contents last now.
     evs = [Saw root False n, Saw (path_join root ''transaction.json'') True (length content),
            Was_Read (path_join root ''transaction.json'') content] @ contents @ last
     \<and> Some (sha256 content) = pl_transaction_sha256 plan
     \<and> contents_checked sha256 root plan contents
     \<and> observed_inventory sha256 now last
     \<and> Some (ni_fingerprint now) = pl_inventory_fingerprint plan)"

lemma verify_stored_leaves:
  "leaves (\<lambda>_ evs. stored_checked (h_sha256 host) root plan evs) (verify_stored host plan root)"
  unfolding verify_stored_def Let_def
  by (rule leaves_weaken,
      (rule leaves_attempt check_directory_leaves verify_packages_leaves leaves_rules)+)
    (simp only: followed_simps, auto simp: followed_def stored_checked_def regular_within_def,
      blast)

section \<open>Directories and processes\<close>

lemma compare_tidy [simp]: "tidy (compare_rpm_versions runner l r)"
  and query_inventory_tidy [simp]: "tidy (query_inventory sha256 runner)"
proof -
  have native: "tidy (native_rpm runner args limit)" for args limit
    unfolding native_rpm_def by (intro accounts_bind [where h = "\<lambda>_. {#}"]) simp_all
  show "tidy (compare_rpm_versions runner l r)"
    unfolding compare_rpm_versions_def by (auto intro: tidy_attempt native)
  show "tidy (query_inventory sha256 runner)"
    unfolding query_inventory_def by (intro tidy_attempt native) simp
qed

lemma plan_inputs_tidy [simp]: "tidy (plan_inputs runner iv names incoming replacements ps)"
  by (induction ps arbitrary: names incoming replacements)
    (auto simp: Let_def intro!: tidy_attempt split: list.split)

lemma parse_with_dependencies_tidy [simp]:
  "tidy (parse_with_dependencies host decode b expected dependencies iv repository_id)"
  unfolding parse_with_dependencies_def parse_inputs_def
  by (auto intro!: tidy_attempt split: prod.split)

lemma verify_package_tidy [simp]: "tidy (verify_package host root b)"
  unfolding verify_package_def Let_def by (intro tidy_intros) simp_all

lemma check_directory_tidy [simp]: "tidy (check_directory host err d)"
  unfolding check_directory_def by (intro tidy_intros) simp_all

lemma verify_packages_tidy [simp]: "tidy (verify_packages host plan root)"
  unfolding verify_packages_def by (auto intro!: tidy_intros)

lemma verify_signatures_tidy [simp]: "tidy (verify_signatures host plan root trust)"
proof -
  have "tidy (verify_authority host root trust b)" for b
    unfolding verify_authority_def Let_def by (auto intro!: tidy_intros split: rpm_authority.split)
  then show ?thesis unfolding verify_signatures_def by (intro tidy_intros) simp_all
qed

lemma verify_stored_tidy [simp]: "tidy (verify_stored host plan root)"
  unfolding verify_stored_def Let_def by (intro tidy_intros) simp_all

lemma inventory_request_harmless [simp]:
  "harmless_request (native_rpm_request inventory_args n)"
  "harmless_request (native_rpm_request [''--eval'', e] n)"
  by (simp_all add: harmless_request_def native_rpm_request_def inventory_args_def)

lemma compare_harmless [simp]: "harmless (compare_rpm_versions runner l r)"
  and query_inventory_harmless [simp]: "harmless (query_inventory sha256 runner)"
  unfolding compare_rpm_versions_def query_inventory_def native_rpm_def
  by (auto intro!: only_runs_attempt only_runs_bind only_does_process)

lemma plan_inputs_harmless [simp]: "harmless (plan_inputs runner iv names incoming replacements ps)"
  by (induction ps arbitrary: names incoming replacements)
    (auto simp: Let_def intro!: only_runs_attempt split: list.split)

lemma parse_with_dependencies_harmless [simp]:
  "harmless (parse_with_dependencies host decode b expected dependencies iv repository_id)"
  unfolding parse_with_dependencies_def parse_inputs_def
  by (auto intro!: only_runs_attempt split: prod.split)

lemma verify_packages_harmless [simp]: "harmless (verify_packages host plan root)"
proof -
  have "harmless (verify_package host root b)" for b
    unfolding verify_package_def Let_def by (intro harmless_intros) simp_all
  moreover have "harmless (check_directory host err d)" for err d
    unfolding check_directory_def by (intro harmless_intros) simp_all
  ultimately show ?thesis unfolding verify_packages_def by (auto intro!: harmless_intros)
qed

lemma verify_signatures_harmless [simp]: "harmless (verify_signatures host plan root trust)"
proof -
  have "harmless (verify_authority host root trust b)" for b
    unfolding verify_authority_def Let_def by (auto intro!: harmless_intros split: rpm_authority.split)
  then show ?thesis unfolding verify_signatures_def by (intro harmless_intros) simp_all
qed

lemma verify_stored_harmless [simp]: "harmless (verify_stored host plan root)"
proof -
  have "harmless (check_directory host err d)" for err d
    unfolding check_directory_def by (intro harmless_intros) simp_all
  then show ?thesis unfolding verify_stored_def Let_def by (intro harmless_intros) simp_all
qed

end
