(* ===== verification/Fedora_Sources.thy ===== *)
theory Fedora_Sources
  imports Stored_Laws
begin

text \<open>
  \<open>crates/stack-install/src/prepare.rs\<close>, the first part: the bounded digests of files, and the
  verification of the Fedora repository configuration of the system.
\<close>

section \<open>Bound files\<close>

definition MAX_REPOSITORY_BYTES :: nat where "MAX_REPOSITORY_BYTES = 1048576"
definition MAX_BOUND_BYTES :: nat where "MAX_BOUND_BYTES = 8 * MAX_REPOSITORY_BYTES"
definition MAX_REPODATA_BYTES :: nat where "MAX_REPODATA_BYTES = 256 * 1024 * 1024"

definition bound_mismatch :: install_error where
  "bound_mismatch = integrity ''bound installer inputs no longer match their recorded content''"

definition digest_file_with_limit :: "'e host \<Rightarrow> string \<Rightarrow> nat \<Rightarrow> ('e, (install_error, string) result) effect"
where
  "digest_file_with_limit host path limit =
     attempt (with_err (\<lambda>_. bound_mismatch) (read_file host path (Some (limit + 1)))) (\<lambda>b.
     pure (if length b > limit then Inl bound_mismatch else Inr (h_sha256 host b)))"

definition digest_file :: "'e host \<Rightarrow> string \<Rightarrow> ('e, (install_error, string) result) effect" where
  "digest_file host path = digest_file_with_limit host path MAX_BOUND_BYTES"

definition verify_symlinks :: "'e host \<Rightarrow> (string \<times> string) list
    \<Rightarrow> ('e, (install_error, unit) result) effect" where
  "verify_symlinks host symlinks = each_attempt (\<lambda>e.
     attempt (with_err (\<lambda>_. bound_mismatch) (observe (h_read_link host (fst e)))) (\<lambda>target.
     pure (ensure (same_path target (snd e)) bound_mismatch))) symlinks"

definition set_private :: "'e host \<Rightarrow> string \<Rightarrow> ('e, (io_error, unit) result) effect" where
  "set_private host path = observe (h_chmod host path 384)"

definition macro_arguments :: "string list" where
  "macro_arguments = [''--macros'', ''/usr/lib/rpm/macros'', ''--noplugins'', ''--dbpath'',
     ''/usr/lib/sysimage/rpm'']"

section \<open>The Fedora repository files\<close>

record fedora_repository =
  fy_name :: string
  fy_metalink :: string

record fedora_sources =
  fa_releasever :: string
  fa_gpgkey :: string
  fa_repositories :: "(string, fedora_repository) bmap"
  fa_digests :: "(string \<times> string) list"
  fa_symlinks :: "(string \<times> string) list"

definition FEDORA_KEY_TEMPLATE :: string where
  "FEDORA_KEY_TEMPLATE = ''file:///etc/pki/rpm-gpg/RPM-GPG-KEY-fedora-$releasever-$basearch''"

definition sources_unverified :: install_error where
  "sources_unverified = metadata_error ''Fedora repository configuration is not a verified system file''"

definition sources_invalid :: install_error where
  "sources_invalid = metadata_error ''unexpected Fedora repository configuration content''"

text \<open>\<open>str::replace\<close> of a pattern that is not empty.\<close>

function replace_sub :: "'a list \<Rightarrow> 'a list \<Rightarrow> 'a list \<Rightarrow> 'a list" where
  "replace_sub p r [] = []"
| "replace_sub p r (c # cs) =
     (if p \<noteq> [] \<and> starts_with p (c # cs) then r @ replace_sub p r (drop (length p) (c # cs))
      else c # replace_sub p r cs)"
  by pat_completeness auto

termination
  by (relation "measure (\<lambda>(p, r, s). length s)") (auto simp: neq_Nil_conv)

type_synonym stanza = "string \<times> (string \<times> string) list"

definition REPOSITORY_KEYS :: "string list" where
  "REPOSITORY_KEYS = [''name'', ''metalink'', ''enabled'', ''countme'', ''metadata_expire'',
     ''repo_gpgcheck'', ''type'', ''gpgcheck'', ''gpgkey'', ''skip_if_unavailable'']"

definition stanza_header :: "string \<Rightarrow> string option" where
  "stanza_header line = Option.bind (strip_prefix ''['' line) (strip_suffix '']'')"

definition stanza_id_ok :: "string \<Rightarrow> bool" where
  "stanza_id_ok i = (i \<in> {''fedora'', ''updates''} \<or> starts_with ''fedora-'' i
     \<or> starts_with ''updates-'' i)"

definition directive_ok :: "stanza \<Rightarrow> string \<Rightarrow> string \<Rightarrow> bool" where
  "directive_ok s key v =
     (\<not> (\<not> list_all (\<lambda>e. fst e \<noteq> key) (snd s) \<or> key \<notin> set REPOSITORY_KEYS \<or> v = []
         \<or> list_ex (\<lambda>c. c \<in> {nl, cr, CHR ''['', CHR '']''}) v \<or> list_ex is_ascii_control v))"

text \<open>The loop over the lines; the identifiers seen and the stanzas so far, the last one open.\<close>

fun stanza_lines :: "string set \<Rightarrow> stanza list \<Rightarrow> string list \<Rightarrow> stanza list option" where
  "stanza_lines seen stanzas [] = Some stanzas"
| "stanza_lines seen stanzas (line # rest) =
     (if line = [] \<or> starts_with ''#'' line then stanza_lines seen stanzas rest
      else case stanza_header line of
        Some i \<Rightarrow> if i \<in> seen \<or> \<not> stanza_id_ok i then None
                  else stanza_lines (insert i seen) (stanzas @ [(i, [])]) rest
      | None \<Rightarrow> (case split_once CHR ''='' line of
          None \<Rightarrow> None
        | Some (key, v) \<Rightarrow>
            if stanzas = [] then None
            else let s = last stanzas in
              if \<not> directive_ok s key v then None
              else stanza_lines seen (butlast stanzas @ [(fst s, snd s @ [(key, v)])]) rest))"

definition directive :: "stanza \<Rightarrow> string \<Rightarrow> string option" where
  "directive s key = map_option snd (find (\<lambda>e. fst e = key) (snd s))"

definition substitute :: "string \<Rightarrow> string \<Rightarrow> (install_error, string) result" where
  "substitute releasever t =
     (let s = replace_sub ''$basearch'' ''x86_64'' (replace_sub ''$releasever'' releasever t)
      in if CHR ''$'' \<in> set s then Inl sources_invalid else Inr s)"

definition pinned_metalink :: "string \<Rightarrow> string \<Rightarrow> string" where
  "pinned_metalink releasever i = ''https://mirrors.fedoraproject.org/metalink?repo=''
     @ (if i = ''fedora'' then ''fedora-'' @ releasever else ''updates-released-f'' @ releasever)
     @ ''&arch=x86_64''"

definition base_directives_ok :: "stanza \<Rightarrow> bool" where
  "base_directives_ok s = (directive s ''enabled'' = Some ''1'' \<and> directive s ''gpgcheck'' = Some ''1''
     \<and> directive s ''repo_gpgcheck'' = Some ''0'' \<and> directive s ''skip_if_unavailable'' = Some ''False''
     \<and> directive s ''gpgkey'' = Some FEDORA_KEY_TEMPLATE)"

fun parse_stanzas :: "string \<Rightarrow> string \<Rightarrow> bool \<Rightarrow> (string, fedora_repository) bmap \<Rightarrow> stanza list
    \<Rightarrow> (install_error, bool \<times> (string, fedora_repository) bmap) result" where
  "parse_stanzas releasever expected_id found repositories [] = Inr (found, repositories)"
| "parse_stanzas releasever expected_id found repositories (s # rest) =
     (if fst s \<notin> {''fedora'', ''updates''} then
        (if directive s ''enabled'' \<noteq> Some ''0'' then Inl sources_invalid
         else parse_stanzas releasever expected_id found repositories rest)
      else if \<not> base_directives_ok s then Inl sources_invalid
      else and_then (ok_or sources_invalid (directive s ''metalink'')) (\<lambda>metalink.
           and_then (substitute releasever metalink) (\<lambda>metalink.
           if metalink \<noteq> pinned_metalink releasever (fst s) \<or> fst s \<noteq> expected_id \<or> found
           then Inl sources_invalid
           else and_then (ok_or sources_invalid (directive s ''name'')) (\<lambda>name.
                and_then (substitute releasever name) (\<lambda>name.
                parse_stanzas releasever expected_id True
                  (bm_insert (fst s) \<lparr>fy_name = name, fy_metalink = metalink\<rparr> repositories) rest)))))"

definition parse_repository :: "'e host \<Rightarrow> string \<Rightarrow> (string, fedora_repository) bmap \<Rightarrow> string \<Rightarrow> string
    \<Rightarrow> ('e, (install_error, bool \<times> (string, fedora_repository) bmap) result) effect" where
  "parse_repository host releasever repositories file expected_id =
     attempt (with_err (\<lambda>_. sources_invalid) (read_file host file None)) (\<lambda>b.
     pure (and_then (utf8_text sources_invalid b) (\<lambda>t.
           and_then (ok_or sources_invalid (stanza_lines {} [] (str_lines t))) (\<lambda>stanzas.
           parse_stanzas releasever expected_id False repositories stanzas))))"

section \<open>Verifying the sources\<close>

text \<open>A file, or a link beside it to a file of the same directory: the file, and the link if any.\<close>

definition resolve_source :: "'e host \<Rightarrow> string
    \<Rightarrow> ('e, (install_error, string \<times> (string \<times> string) list) result) effect" where
  "resolve_source host file =
     attempt (with_err (\<lambda>_. sources_unverified) (lstat host file)) (\<lambda>m.
     if fm_kind m = Symlink then
       attempt (pure (ok_or sources_unverified (path_parent file))) (\<lambda>parent.
       attempt (with_err (\<lambda>_. sources_unverified) (observe (h_read_link host file))) (\<lambda>target.
       attempt (pure (ensure (\<not> is_absolute target) sources_unverified)) (\<lambda>_.
       attempt (with_err (\<lambda>_. sources_unverified)
         (observe (h_canonicalize host (path_join parent target)))) (\<lambda>canonical. do {
       home \<leftarrow> observe (h_canonicalize host parent);
       pure (if (case (path_parent canonical, home) of
                   (Some a, Inr b) \<Rightarrow> same_path a b
                 | (None, Inl _) \<Rightarrow> True
                 | _ \<Rightarrow> False)
             then Inr (canonical, [(file, target)]) else Inl sources_unverified)
       }))))
     else pure (Inr (file, [])))"

definition bind_source :: "'e host \<Rightarrow> string
    \<Rightarrow> ('e, (install_error, (string \<times> string) \<times> (string \<times> string) list) result) effect" where
  "bind_source host file =
     attempt (resolve_source host file) (\<lambda>(resolved, links).
     attempt (with_err (\<lambda>_. sources_unverified) (lstat host resolved)) (\<lambda>m.
     attempt (pure (ensure (regular_within MAX_REPOSITORY_BYTES m) sources_unverified)) (\<lambda>_.
     attempt (digest_file host resolved) (\<lambda>d.
     pure (Inr ((resolved, d), links))))))"

definition source_request :: "string \<Rightarrow> string list \<Rightarrow> process_request" where
  "source_request probe files = \<lparr>rq_executable = ''/usr/bin/rpm'',
     rq_args = macro_arguments @ [probe] @ files, rq_timeout = from_secs 10, rq_stdout_limit = 4096,
     rq_stderr_limit = 4096, rq_environment = []\<rparr>"

definition probe_sources :: "'e host \<Rightarrow> string list \<Rightarrow> string \<times> bool
    \<Rightarrow> ('e, (install_error, unit) result) effect" where
  "probe_sources host files probe =
     attempt (run_complete host (source_request (fst probe) files) sources_unverified sources_unverified)
       (\<lambda>out. pure (ensure ((out = []) = snd probe) sources_unverified))"

definition source_files :: "string \<Rightarrow> string \<Rightarrow> string \<Rightarrow> string list" where
  "source_files etc releasever basearch =
     [path_join etc ''yum.repos.d/fedora.repo'', path_join etc ''yum.repos.d/fedora-updates.repo'',
      path_join etc (''pki/rpm-gpg/RPM-GPG-KEY-fedora-'' @ releasever @ ''-'' @ basearch)]"

definition release_admissible :: "string \<Rightarrow> string \<Rightarrow> string \<Rightarrow> bool" where
  "release_admissible etc releasever basearch =
     (\<not> (\<not> all_digits releasever \<or> releasever = [] \<or> length releasever > 4
         \<or> basearch \<noteq> ''x86_64'' \<or> \<not> is_absolute etc))"

definition verify_sources_at :: "'e host \<Rightarrow> string \<Rightarrow> string \<Rightarrow> string
    \<Rightarrow> ('e, (install_error, fedora_sources) result) effect" where
  "verify_sources_at host etc releasever basearch =
     (if \<not> release_admissible etc releasever basearch then pure (Inl sources_unverified)
      else let files = source_files etc releasever basearch in
        attempt (collect_attempt (bind_source host) files) (\<lambda>bound.
        attempt (each_attempt (probe_sources host files) [(''-qf'', False), (''-Vf'', True)]) (\<lambda>_.
        attempt (parse_repository host releasever [] (files ! 0) ''fedora'') (\<lambda>(base, repositories).
        attempt (parse_repository host releasever repositories (files ! 1) ''updates'')
          (\<lambda>(updates, repositories).
        pure (if \<not> base \<or> \<not> updates then Inl sources_unverified
              else Inr \<lparr>fa_releasever = releasever,
                     fa_gpgkey = replace_sub ''$basearch'' basearch
                       (replace_sub ''$releasever'' releasever FEDORA_KEY_TEMPLATE),
                     fa_repositories = repositories, fa_digests = map fst bound,
                     fa_symlinks = concat (map snd bound)\<rparr>))))))"

definition repository_ids :: "fedora_sources \<Rightarrow> string list" where
  "repository_ids s = bm_keys (fa_repositories s)"

end
