(* ===== verification/Dnf.thy ===== *)
theory Dnf
  imports Native_Plan
begin

text \<open>
  \<open>crates/stack-install/src/dnf.rs\<close>: the download-only run of DNF. The child writes to two files and
  is polled; what the system does with it is a \<open>native_child\<close>: the result of the n-th \<open>try_wait\<close>, the
  sizes of the two files then, the time that passes in the n-th turn beyond the sleep, and what
  \<open>wait\<close> returns after a kill. Times are nanoseconds and do not run backwards.
\<close>

record planning_request =
  pq_configuration :: string
  pq_transaction :: string
  pq_packages :: "release_package list"

datatype planning_directory = Native_Directory string | Adopted_Directory string

definition planning_path :: "planning_directory \<Rightarrow> string" where
  "planning_path d = (case d of Native_Directory p \<Rightarrow> p | Adopted_Directory p \<Rightarrow> p)"

record planning_output =
  po_directory :: planning_directory

definition diagnostics :: "planning_output \<Rightarrow> string" where
  "diagnostics out = planning_path (po_directory out)"

definition adopt :: "string \<Rightarrow> planning_output" where
  "adopt path = \<lparr>po_directory = Adopted_Directory path\<rparr>"

record planning_failure =
  pf_error :: install_error
  pf_status :: "int option"
  pf_diagnostics :: "string option"

record spawn_request =
  sp_executable :: string
  sp_args :: "string list"
  sp_directory :: string
  sp_environment :: "(string \<times> string) list"
  sp_stdout :: string
  sp_stderr :: string

record native_child =
  nc_try_wait :: "nat \<Rightarrow> wait_result"
  nc_sizes :: "nat \<Rightarrow> nat option \<times> nat option"
  nc_delay :: "nat \<Rightarrow> duration"
  nc_wait_after_kill :: "exit_status option"

record 'e native_ops =
  no_create_new :: "string \<Rightarrow> 'e \<Rightarrow> (io_error, unit) result \<times> 'e"
  no_spawn :: "spawn_request \<Rightarrow> 'e \<Rightarrow> native_child option \<times> 'e"

section \<open>The command line\<close>

definition planning_invalid :: "string \<Rightarrow> install_error" where
  "planning_invalid detail = integrity detail"

definition normalized_path :: "string \<Rightarrow> bool" where
  "normalized_path p = (\<not> (\<not> is_absolute p
     \<or> list_ex (\<lambda>c. c = Parent_Dir \<or> c = Cur_Dir) (path_components p)))"

fun distinct_packages :: "string set \<Rightarrow> release_package list \<Rightarrow> (install_error, unit) result" where
  "distinct_packages names [] = Inr ()"
| "distinct_packages names (p # ps) =
     and_then (validate_package p) (\<lambda>_.
       if rp_name p \<in> names then Inl (planning_invalid ''planning package list contains duplicates'')
       else distinct_packages (insert (rp_name p) names) ps)"

definition planning_args :: "planning_request \<Rightarrow> string \<Rightarrow> string list" where
  "planning_args q workspace =
     [''--no-plugins'', ''--config='' @ pq_configuration q,
      ''--setopt=cachedir='' @ path_join workspace ''cache'',
      ''--setopt=reposdir='' @ path_join workspace ''repos'',
      ''--setopt=gpgcheck=True'', ''--setopt=localpkg_gpgcheck=True'',
      ''--setopt=install_weak_deps=False'', ''--assumeyes'', ''install'', ''--downloadonly'',
      ''--store='' @ pq_transaction q, ''--no-allow-downgrade'']
     @ map package_identity (pq_packages q)"

text \<open>The output must not exist: only the error \<open>NotFound\<close> will do.\<close>

definition must_be_missing :: "'e host \<Rightarrow> string \<Rightarrow> install_error
    \<Rightarrow> ('e, (install_error, unit) result) effect" where
  "must_be_missing host path err = do {
     r \<leftarrow> lstat host path;
     pure (case r of Inl (Not_Found _) \<Rightarrow> Inr () | _ \<Rightarrow> Inl err)
   }"

definition planning_arguments :: "'e host \<Rightarrow> planning_request \<Rightarrow> string
    \<Rightarrow> ('e, (install_error, string list) result) effect" where
  "planning_arguments host q workspace =
     attempt (pure (check_each (\<lambda>p. ensure (normalized_path p)
         (planning_invalid ''planning paths must be absolute and normalized''))
       [pq_configuration q, pq_transaction q])) (\<lambda>_.
     attempt (with_err (\<lambda>_. planning_invalid ''planning configuration is missing'')
       (lstat host (pq_configuration q))) (\<lambda>m.
     attempt (pure (ensure (regular_within 1048576 m)
       (planning_invalid ''planning configuration is not one bounded regular file''))) (\<lambda>_.
     attempt (with_err (\<lambda>_. planning_invalid ''planning configuration is missing'')
       (observe (h_canonicalize host (pq_configuration q)))) (\<lambda>canonical.
     attempt (pure (ensure (same_path canonical (pq_configuration q))
       (planning_invalid ''planning configuration path is not canonical''))) (\<lambda>_.
     attempt (must_be_missing host (pq_transaction q)
       (planning_invalid ''planning transaction output already exists'')) (\<lambda>_.
     attempt (pure (ok_or (planning_invalid ''planning transaction path has no parent'')
       (path_parent (pq_transaction q)))) (\<lambda>parent.
     attempt (with_err (\<lambda>_. planning_invalid ''planning transaction parent is missing'')
       (observe (h_canonicalize host parent))) (\<lambda>canonical.
     attempt (pure (ensure (same_path canonical parent)
       (planning_invalid ''planning transaction parent is not canonical''))) (\<lambda>_.
     attempt (pure (ensure (pq_packages q \<noteq> [] \<and> length (pq_packages q) \<le> 128)
       (planning_invalid ''planning package list is empty or oversized''))) (\<lambda>_.
     attempt (pure (distinct_packages {} (pq_packages q))) (\<lambda>_.
     pure (Inr (planning_args q workspace)))))))))))))"

section \<open>The run\<close>

definition native_failure :: "string \<Rightarrow> int option \<Rightarrow> string option \<Rightarrow> planning_failure" where
  "native_failure code status directory = \<lparr>
     pf_error = install_err 30 code ''native planning failed; inspect the retained diagnostics'',
     pf_status = status, pf_diagnostics = directory\<rparr>"

definition exit_success :: "exit_status \<Rightarrow> bool" where
  "exit_success st = (st = Status_Code 0)"

definition exit_code_of :: "exit_status \<Rightarrow> int option" where
  "exit_code_of st = (case st of Status_Code n \<Rightarrow> Some n | _ \<Rightarrow> None)"

text \<open>What one turn of the loop decides from the state, the sizes and the clock.\<close>

definition turn_error :: "duration \<Rightarrow> nat \<Rightarrow> wait_result \<Rightarrow> nat option \<times> nat option \<Rightarrow> duration
    \<Rightarrow> string option" where
  "turn_error timeout output_limit status sizes elapsed =
     (if fst sizes = None \<or> snd sizes = None \<or> status = Wait_Error
      then Some ''INSTALL_NATIVE_IO_FAILED''
      else if (case fst sizes of Some n \<Rightarrow> n > output_limit | None \<Rightarrow> False)
           \<or> (case snd sizes of Some n \<Rightarrow> n > output_limit | None \<Rightarrow> False)
      then Some ''INSTALL_NATIVE_OUTPUT_LIMIT''
      else if (case status of Exited st \<Rightarrow> \<not> exit_success st | _ \<Rightarrow> False)
      then Some ''INSTALL_NATIVE_FAILED''
      else if status = Running \<and> elapsed \<ge> timeout then Some ''INSTALL_NATIVE_TIMEOUT''
      else None)"

type_synonym watched = "(string \<times> int option, unit) result \<times> child_event list"

function watch :: "duration \<Rightarrow> nat \<Rightarrow> native_child \<Rightarrow> nat \<Rightarrow> duration \<Rightarrow> watched" where
  "watch timeout output_limit c n elapsed =
     (let status = nc_try_wait c n in
      case turn_error timeout output_limit status (nc_sizes c n) elapsed of
        Some code \<Rightarrow> (case status of
            Exited st \<Rightarrow> (Inl (code, exit_code_of st), [Waited st])
          | _ \<Rightarrow> (case nc_wait_after_kill c of
                Some st \<Rightarrow> (Inl (code, exit_code_of st), [Killed, Waited st])
              | None \<Rightarrow> (Inl (code, None), [Killed, Wait_Failed])))
      | None \<Rightarrow> (case status of
            Exited st \<Rightarrow> (Inr (), [Waited st])
          | _ \<Rightarrow> watch timeout output_limit c (n + 1) (elapsed + from_millis 10 + nc_delay c n)))"
  by pat_completeness auto

termination
  by (relation "measure (\<lambda>(timeout, output_limit, c, n, elapsed). timeout - elapsed)")
    (auto simp: turn_error_def from_millis_def split: if_splits wait_result.splits)

declare watch.simps [simp del]

definition spawn_request_of :: "string \<Rightarrow> string list \<Rightarrow> string \<Rightarrow> spawn_request" where
  "spawn_request_of executable args directory = \<lparr>sp_executable = executable, sp_args = args,
     sp_directory = directory,
     sp_environment = [(''PATH'', ''/usr/bin:/bin''), (''LC_ALL'', ''C''),
       (''HOME'', path_join directory ''home''), (''XDG_CONFIG_HOME'', path_join directory ''config'')],
     sp_stdout = path_join directory ''stdout.log'', sp_stderr = path_join directory ''stderr.log''\<rparr>"

definition create_new :: "'e native_ops \<Rightarrow> string \<Rightarrow> ('e, (io_error, unit) result) effect" where
  "create_new ops p = do { emit (Wrote p []); observe (no_create_new ops p) }"

definition prepare_workspace :: "'e host \<Rightarrow> 'e native_ops \<Rightarrow> string
    \<Rightarrow> ('e, (io_error, unit) result) effect" where
  "prepare_workspace host ops directory =
     attempt (each_attempt (\<lambda>child. create_dir host (path_join directory child))
       [''home'', ''repos'', ''cache'', ''config'']) (\<lambda>_.
     each_attempt (\<lambda>name. create_new ops (path_join directory name)) [''stdout.log'', ''stderr.log''])"

definition spawn_native :: "'e native_ops \<Rightarrow> spawn_request \<Rightarrow> ('e, native_child option) effect" where
  "spawn_native ops q = do {
     emit (Started (sp_executable q) (sp_args q));
     observe (no_spawn ops q)
   }"

text \<open>A failure keeps the directory: it is handed to the caller in the diagnostics.\<close>

definition run_in :: "'e host \<Rightarrow> 'e native_ops \<Rightarrow> string \<Rightarrow> string list \<Rightarrow> string \<Rightarrow> duration \<Rightarrow> nat
    \<Rightarrow> ('e, (planning_failure, planning_output) result) effect" where
  "run_in host ops executable args directory timeout output_limit =
     attempt (with_err (\<lambda>_. native_failure ''INSTALL_NATIVE_IO_FAILED'' None (Some directory))
       (prepare_workspace host ops directory)) (\<lambda>_. do {
     child \<leftarrow> spawn_native ops (spawn_request_of executable args directory);
     pure (case child of
         None \<Rightarrow> Inl (native_failure ''INSTALL_NATIVE_SPAWN_FAILED'' None (Some directory))
       | Some c \<Rightarrow> (case fst (watch timeout output_limit c 0 0) of
             Inl (code, exit) \<Rightarrow> Inl (native_failure code exit (Some directory))
           | Inr _ \<Rightarrow> Inr \<lparr>po_directory = Native_Directory directory\<rparr>))
   })"

definition refuse_planning :: "install_error \<Rightarrow> planning_failure" where
  "refuse_planning e = \<lparr>pf_error = e, pf_status = None, pf_diagnostics = None\<rparr>"

text \<open>The workspace belongs to the function until the run takes it.\<close>

definition plan_downloads :: "'e host \<Rightarrow> 'e native_ops \<Rightarrow> planning_request
    \<Rightarrow> ('e, (planning_failure, planning_output) result) effect" where
  "plan_downloads host ops q =
     attempt (with_err (\<lambda>_. native_failure ''INSTALL_NATIVE_IO_FAILED'' None None)
       (make_temp host ''intel-npu-dnf-'')) (\<lambda>directory.
     attempt (owning host directory
       (with_err refuse_planning (planning_arguments host q directory))) (\<lambda>args.
     run_in host ops ''/usr/bin/dnf5'' args directory (from_secs 1800) (64 * 1048576)))"


section \<open>How the run ends\<close>

definition elapsed_at :: "native_child \<Rightarrow> nat \<Rightarrow> duration" where
  "elapsed_at c n = (\<Sum>k<n. from_millis 10 + nc_delay c k)"

text \<open>The child is still running, and nothing is wrong.\<close>

definition goes_on :: "duration \<Rightarrow> nat \<Rightarrow> native_child \<Rightarrow> nat \<Rightarrow> bool" where
  "goes_on timeout limit c n \<longleftrightarrow> nc_try_wait c n = Running
     \<and> turn_error timeout limit Running (nc_sizes c n) (elapsed_at c n) = None"

definition within_limit :: "nat \<Rightarrow> native_child \<Rightarrow> nat \<Rightarrow> bool" where
  "within_limit limit c n \<longleftrightarrow> (\<exists>a b. nc_sizes c n = (Some a, Some b) \<and> a \<le> limit \<and> b \<le> limit)"

text \<open>The outcome of the turn that does not go on.\<close>

definition stops_with :: "duration \<Rightarrow> nat \<Rightarrow> native_child \<Rightarrow> nat \<Rightarrow> watched \<Rightarrow> bool" where
  "stops_with timeout limit c n r \<longleftrightarrow>
     (case nc_try_wait c n of
        Exited st \<Rightarrow> snd r = [Waited st]
          \<and> (fst r = Inr () \<longleftrightarrow> exit_success st \<and> within_limit limit c n)
          \<and> (\<forall>e. fst r = Inl e \<longrightarrow> snd e = exit_code_of st)
      | _ \<Rightarrow> fst r \<noteq> Inr () \<and> hd (snd r) = Killed
          \<and> (nc_try_wait c n = Wait_Error \<or> \<not> within_limit limit c n \<or> timeout \<le> elapsed_at c n))"

lemma elapsed_at_Suc: "elapsed_at c (Suc n) = elapsed_at c n + from_millis 10 + nc_delay c n"
  by (simp add: elapsed_at_def)

lemma elapsed_at_least: "n * from_millis 10 \<le> elapsed_at c n"
  by (induction n) (simp_all add: elapsed_at_def)

lemma turn_error_None:
  "turn_error timeout limit status sizes elapsed = None \<longleftrightarrow>
     (\<exists>a b. sizes = (Some a, Some b) \<and> a \<le> limit \<and> b \<le> limit) \<and> status \<noteq> Wait_Error
     \<and> (\<forall>st. status = Exited st \<longrightarrow> exit_success st) \<and> (status = Running \<longrightarrow> elapsed < timeout)"
  by (cases sizes; cases status) (auto simp: turn_error_def split: option.splits)

lemma watch_stops:
  "\<exists>m \<ge> n. (\<forall>k. n \<le> k \<and> k < m \<longrightarrow> goes_on timeout limit c k)
     \<and> stops_with timeout limit c m (watch timeout limit c n (elapsed_at c n))"
proof (induction "timeout - elapsed_at c n" arbitrary: n rule: less_induct)
  case less
  show ?case
  proof (cases "goes_on timeout limit c n")
    case True
    then have lt: "elapsed_at c n < timeout" by (simp add: goes_on_def turn_error_None)
    then have "timeout - elapsed_at c (Suc n) < timeout - elapsed_at c n"
      by (simp add: elapsed_at_Suc from_millis_def)
    from less [OF this] obtain m where m: "Suc n \<le> m"
      "\<forall>k. Suc n \<le> k \<and> k < m \<longrightarrow> goes_on timeout limit c k"
      "stops_with timeout limit c m (watch timeout limit c (Suc n) (elapsed_at c (Suc n)))" by blast
    have "watch timeout limit c n (elapsed_at c n) = watch timeout limit c (Suc n) (elapsed_at c (Suc n))"
      using True by (subst watch.simps) (simp add: goes_on_def elapsed_at_Suc)
    moreover have "goes_on timeout limit c k" if "n \<le> k" "k < m" for k
      using m(2) True that by (cases "k = n") auto
    ultimately show ?thesis using m by (intro exI [of _ m]) simp
  next
    case False
    have "stops_with timeout limit c n (watch timeout limit c n (elapsed_at c n))"
    proof (cases "turn_error timeout limit (nc_try_wait c n) (nc_sizes c n) (elapsed_at c n)")
      case None
      then obtain st where st: "nc_try_wait c n = Exited st"
        using False by (cases "nc_try_wait c n") (auto simp: goes_on_def turn_error_None)
      with None have "watch timeout limit c n (elapsed_at c n) = (Inr (), [Waited st])"
        by (subst watch.simps) (simp add: Let_def)
      with None st show ?thesis by (auto simp: stops_with_def turn_error_None within_limit_def)
    next
      case (Some code)
      show ?thesis
      proof (cases "nc_try_wait c n")
        case (Exited st)
        with Some have "watch timeout limit c n (elapsed_at c n)
            = (Inl (code, exit_code_of st), [Waited st])"
          by (subst watch.simps) (simp add: Let_def)
        moreover have "\<not> (exit_success st \<and> within_limit limit c n)"
          using Some Exited turn_error_None [of timeout limit "Exited st" "nc_sizes c n" "elapsed_at c n"]
          unfolding within_limit_def by auto
        ultimately show ?thesis using Exited by (simp add: stops_with_def)
      next
        case Running
        with Some have "\<exists>e. watch timeout limit c n (elapsed_at c n) = (Inl (code, e),
            [Killed, case nc_wait_after_kill c of Some st \<Rightarrow> Waited st | None \<Rightarrow> Wait_Failed])"
          by (subst watch.simps) (simp add: Let_def split: option.split)
        moreover have "\<not> within_limit limit c n \<or> timeout \<le> elapsed_at c n"
          using Some Running turn_error_None [of timeout limit Running "nc_sizes c n" "elapsed_at c n"]
          unfolding within_limit_def by (simp add: not_less)
        ultimately show ?thesis using Running by (auto simp: stops_with_def)
      next
        case Wait_Error
        with Some have "\<exists>e. watch timeout limit c n (elapsed_at c n) = (Inl (code, e),
            [Killed, case nc_wait_after_kill c of Some st \<Rightarrow> Waited st | None \<Rightarrow> Wait_Failed])"
          by (subst watch.simps) (simp add: Let_def split: option.split)
        then show ?thesis using Wait_Error by (auto simp: stops_with_def)
      qed
    qed
    then show ?thesis by auto
  qed
qed

text \<open>The turns are bounded by the timeout.\<close>

lemma goes_on_bounded: "goes_on timeout limit c k \<Longrightarrow> k * from_millis 10 < timeout"
  using elapsed_at_least [of k c] by (simp add: goes_on_def turn_error_None)

section \<open>What planning asks for\<close>

lemma planning_args_download [simp]: "''--downloadonly'' \<in> set (planning_args q d)"
  by (simp add: planning_args_def)

lemma planning_arguments_Inr:
  "run_state (planning_arguments host q d) w = (Inr args, w') \<Longrightarrow>
     args = planning_args q d \<and> normalized_path (pq_configuration q)
     \<and> normalized_path (pq_transaction q)"
  by (auto simp: planning_arguments_def attempt_Inr)

lemma planning_arguments_tidy [simp]: "tidy (planning_arguments host q d)"
  and planning_arguments_harmless [simp]: "harmless (planning_arguments host q d)"
proof -
  have "tidy (must_be_missing host p err)" "harmless (must_be_missing host p err)" for p err
    unfolding must_be_missing_def
    by (auto intro!: only_runs_bind accounts_bind [where h = "\<lambda>_. {#}"])
  then show "tidy (planning_arguments host q d)" "harmless (planning_arguments host q d)"
    unfolding planning_arguments_def by (auto intro!: tidy_intros harmless_intros)
qed

lemma create_new_leaves_rules [simp]: "tidy (create_new ops p)" "harmless (create_new ops p)"
  by (auto simp: create_new_def intro!: tidy_quiet only_runs_bind only_does_emit)

lemma prepare_workspace_rules [simp]:
  "tidy (prepare_workspace host ops d)" "harmless (prepare_workspace host ops d)"
  unfolding prepare_workspace_def by (intro tidy_intros harmless_intros; simp)+

lemma spawn_native_rules [simp]: "tidy (spawn_native ops q)"
  "harmless (spawn_native ops (spawn_request_of ''/usr/bin/dnf5'' (planning_args p w) d))"
  by (auto simp: spawn_native_def spawn_request_of_def intro!: tidy_quiet only_runs_bind only_does_emit)

definition planning_holds :: "(planning_failure, planning_output) result \<Rightarrow> string multiset" where
  "planning_holds r = (case r of
       Inl f \<Rightarrow> (case pf_diagnostics f of None \<Rightarrow> {#} | Some d \<Rightarrow> {#d#})
     | Inr out \<Rightarrow> {#diagnostics out#})"

lemma run_in_accounts:
  "accounts {#d#} planning_holds (run_in host ops x args d timeout limit)"
  unfolding run_in_def
proof (rule accounts_attempt)
  show "accounts {#d#} (\<lambda>r. case r of Inl f \<Rightarrow> planning_holds (Inl f) | Inr _ \<Rightarrow> {#d#})
      (with_err (\<lambda>_. native_failure ''INSTALL_NATIVE_IO_FAILED'' None (Some d))
        (prepare_workspace host ops d))"
    by (rule accounts_with_err [OF accounts_keep [OF prepare_workspace_rules(1)]])
      (simp_all add: planning_holds_def native_failure_def)
  show "accounts (case (Inr u :: (planning_failure, unit) result) of
        Inl f \<Rightarrow> planning_holds (Inl f) | Inr _ \<Rightarrow> {#d#}) planning_holds (do {
     child \<leftarrow> spawn_native ops (spawn_request_of x args d);
     pure (case child of
         None \<Rightarrow> Inl (native_failure ''INSTALL_NATIVE_SPAWN_FAILED'' None (Some d))
       | Some c \<Rightarrow> (case fst (watch timeout limit c 0 0) of
             Inl (code, exit) \<Rightarrow> Inl (native_failure code exit (Some d))
           | Inr _ \<Rightarrow> Inr \<lparr>po_directory = Native_Directory d\<rparr>))
     })" for u
    unfolding sum.case
    by (rule accounts_bind [OF accounts_keep [OF spawn_native_rules(1)]], rule accounts_pure)
      (auto simp: planning_holds_def native_failure_def diagnostics_def planning_path_def
        split: option.split sum.split)
qed simp

text \<open>A failed plan keeps its workspace exactly when its diagnostics name it.\<close>

lemma plan_downloads_accounts: "accounts {#} planning_holds (plan_downloads host ops q)"
proof -
  have owned: "accounts {#d#} (\<lambda>r. case r of Inl f \<Rightarrow> planning_holds (Inl f) | Inr _ \<Rightarrow> {#d#})
      (owning host d (with_err refuse_planning (planning_arguments host q d)))" for d
  proof -
    have "accounts {#} (held (\<lambda>_. {#}))
        (with_err refuse_planning (planning_arguments host q d))"
      using tidy_with_err [OF planning_arguments_tidy]
      by (simp add: accounts_def held_def split: sum.split)
    from owning_accounts [OF this]
    have o: "accounts {#d#} (\<lambda>r. case r of Inl _ \<Rightarrow> {#} | Inr _ \<Rightarrow> {#d#})
        (owning host d (with_err refuse_planning (planning_arguments host q d)))"
      by simp
    have refused: "run_state (owning host d (with_err refuse_planning (planning_arguments host q d))) w
        = (Inl f, w') \<Longrightarrow> pf_diagnostics f = None" for w f w'
      by (auto simp: owning_def with_err_Inl refuse_planning_def split: prod.splits sum.splits)
    show ?thesis
      using o by (fastforce simp: accounts_def planning_holds_def dest: refused split: sum.splits)
  qed
  have f: "accounts {#d#} planning_holds (attempt
      (owning host d (with_err refuse_planning (planning_arguments host q d))) (\<lambda>args.
      run_in host ops ''/usr/bin/dnf5'' args d (from_secs 1800) (64 * 1048576)))" for d
    by (rule accounts_attempt [OF owned]) (simp_all add: run_in_accounts)
  have t: "accounts {#} (\<lambda>r. case r of Inl f \<Rightarrow> planning_holds (Inl f) | Inr d \<Rightarrow> {#d#})
      (with_err (\<lambda>_. native_failure ''INSTALL_NATIVE_IO_FAILED'' None None)
        (make_temp host ''intel-npu-dnf-''))"
    by (rule accounts_with_err [OF make_temp_accounts])
      (simp_all add: planning_holds_def native_failure_def)
  show ?thesis
    unfolding plan_downloads_def by (rule accounts_attempt [OF t]) (use f in simp_all)
qed

lemma only_does_attempt_value:
  assumes m: "only_does E m" and f: "\<And>a w w'. run_state m w = (Inr a, w') \<Longrightarrow> only_does E (f a)"
  shows "only_does E (attempt m f)"
  unfolding only_does_def
proof
  fix w
  obtain r u where u: "run_state m w = (r, u)" by (cases "run_state m w") blast
  from m u obtain evs where evs: "log u = log w @ evs" "list_all E evs"
    unfolding only_does_def by (metis snd_conv)
  show "\<exists>evs. log (snd (run_state (attempt m f) w)) = log w @ evs \<and> list_all E evs"
  proof (cases r)
    case (Inl e)
    with u evs show ?thesis by (simp add: run_state_attempt)
  next
    case (Inr a)
    with u f have "only_does E (f a)" by blast
    then obtain evs' where "log (snd (run_state (f a) u)) = log u @ evs'" "list_all E evs'"
      unfolding only_does_def by blast
    with u Inr evs show ?thesis by (intro exI [of _ "evs @ evs'"]) (simp add: run_state_attempt)
  qed
qed

lemma plan_downloads_harmless: "harmless (plan_downloads host ops q)"
proof -
  have r: "harmless (run_in host ops ''/usr/bin/dnf5'' (planning_args q d) d timeout limit)"
    for d timeout limit
    unfolding run_in_def
    by (intro only_runs_attempt only_runs_with_err only_runs_bind) simp_all
  have "harmless (attempt (owning host d (with_err refuse_planning (planning_arguments host q d)))
      (\<lambda>args. run_in host ops ''/usr/bin/dnf5'' args d (from_secs 1800) (64 * 1048576)))" for d
    by (rule only_does_attempt_value)
      (use r in \<open>auto simp: owning_Inr with_err_Inr intro!: harmless_owning only_runs_with_err
        dest!: planning_arguments_Inr\<close>)
  note run = this
  show ?thesis
    unfolding plan_downloads_def
    by (rule only_runs_attempt [OF only_runs_with_err run]) simp
qed

end
