(* ===== verification/Review.thy ===== *)
theory Review
  imports Native_Plan Policy
begin

text \<open>
  \<open>crates/stack-install/src/review.rs\<close>: the review of a plan. The output and the terminal are a
  \<open>console\<close>; a plan is reviewed by reference, so that a reference is an address with the plan that
  is there, and a receipt holds the reference.
\<close>

record 'e console =
  cs_display :: "string \<Rightarrow> 'e \<Rightarrow> (io_error, unit) result \<times> 'e"
  cs_response :: "'e \<Rightarrow> (io_error, string) result \<times> 'e"

text \<open>
  The production prompt: the controlling terminal, opened anew whatever the standard input is. Of
  what is typed at most 65 bytes are read, up to and with the first end of line.
\<close>

record 'e terminal =
  ty_open :: "'e \<Rightarrow> (io_error, unit) result \<times> 'e"
  ty_is_terminal :: "'e \<Rightarrow> bool \<times> 'e"
  ty_write :: "string \<Rightarrow> 'e \<Rightarrow> (io_error, unit) result \<times> 'e"
  ty_typed :: "'e \<Rightarrow> (io_error, bytes) result \<times> 'e"

definition first_line :: "bytes \<Rightarrow> bytes" where
  "first_line b = (let l = takeWhile (\<lambda>c. c \<noteq> nl) b in if length l < length b then l @ [nl] else l)"

definition CONFIRM_PROMPT :: string where
  "CONFIRM_PROMPT = ''Apply this exact transaction? Type yes to continue: ''"

definition terminal_response :: "'e terminal \<Rightarrow> 'e \<Rightarrow> (io_error, string) result \<times> 'e" where
  "terminal_response ty e = (case ty_open ty e of
       (Inl x, e) \<Rightarrow> (Inl x, e)
     | (Inr _, e) \<Rightarrow> (case ty_is_terminal ty e of
         (False, e) \<Rightarrow> (Inl (Io_Other ''controlling terminal unavailable''), e)
       | (True, e) \<Rightarrow> (case ty_write ty CONFIRM_PROMPT e of
           (Inl x, e) \<Rightarrow> (Inl x, e)
         | (Inr _, e) \<Rightarrow> (case ty_typed ty e of
             (Inl x, e) \<Rightarrow> (Inl x, e)
           | (Inr b, e) \<Rightarrow> (let line = first_line (take 65 b) in
               (if utf8_valid line then Inr line
                else Inl (Io_Other ''stream did not contain valid UTF-8''), e))))))"

record plan_ref =
  pf_address :: nat
  pf_plan :: native_plan

datatype plan_review = Dry_Run | No_Changes | Approved plan_ref

definition output_failed :: install_error where
  "output_failed = install_err 30 ''INSTALL_OUTPUT_FAILED''
     ''could not display the exact native transaction''"

definition confirmation_error :: install_error where
  "confirmation_error = install_err 2 ''INSTALL_CONFIRMATION_REQUIRED''
     ''installation requires a complete yes response on the controlling terminal or explicit --yes''"

text \<open>\<open>write_all\<close> and \<open>flush\<close> of one text.\<close>

definition display :: "'e console \<Rightarrow> string \<Rightarrow> ('e, (io_error, unit) result) effect" where
  "display cs t = attempt (observe (cs_display cs t)) (\<lambda>_. do {
     emit (Displayed t);
     pure (Inr ())
   })"

definition read_response :: "'e console \<Rightarrow> ('e, (io_error, string) result) effect" where
  "read_response cs = attempt (observe (cs_response cs)) (\<lambda>t. do {
     emit (Answered t);
     pure (Inr t)
   })"

definition confirmed :: "string \<Rightarrow> bool" where
  "confirmed response = (case strip_suffix [nl] response of
       None \<Rightarrow> False
     | Some line \<Rightarrow> \<not> (length response > 64 \<or> nl \<in> set line
         \<or> \<not> eq_ignore_ascii_case (trim line) ''yes''))"

definition review_plan :: "'e console \<Rightarrow> plan_ref \<Rightarrow> install_options
    \<Rightarrow> ('e, (install_error, plan_review) result) effect" where
  "review_plan cs r opts =
     attempt (with_err (\<lambda>_. output_failed) (display cs (preview (pf_plan r)))) (\<lambda>_.
     if io_dry_run opts then pure (Inr Dry_Run)
     else if plan_empty (pf_plan r) then pure (Inr No_Changes)
     else attempt
       (if io_yes opts then pure (Inr ())
        else attempt (with_err (\<lambda>_. confirmation_error) (read_response cs)) (\<lambda>response.
          pure (ensure (confirmed response) confirmation_error))) (\<lambda>_.
       pure (Inr (Approved r))))"

section \<open>What an approval is\<close>

text \<open>
  The events of a review and its outcome: the preview was shown; nothing else for a dry run or an
  empty plan; an approval of a plan that is not empty, by the option or by the answer.
\<close>

definition review_trace :: "plan_ref \<Rightarrow> install_options \<Rightarrow> plan_review \<Rightarrow> event list \<Rightarrow> bool" where
  "review_trace r opts v evs \<longleftrightarrow> (\<exists>answer. evs = Displayed (preview (pf_plan r)) # answer
     \<and> (case v of
          Dry_Run \<Rightarrow> io_dry_run opts \<and> answer = []
        | No_Changes \<Rightarrow> \<not> io_dry_run opts \<and> plan_empty (pf_plan r) \<and> answer = []
        | Approved a \<Rightarrow> a = r \<and> \<not> io_dry_run opts \<and> \<not> plan_empty (pf_plan r)
            \<and> (io_yes opts \<and> answer = []
               \<or> \<not> io_yes opts \<and> (\<exists>t. answer = [Answered t] \<and> confirmed t))))"

lemma display_leaves [leaves_rules]: "leaves (\<lambda>_ evs. evs = [Displayed t]) (display cs t)"
  by (auto simp: leaves_def display_def attempt_Inr run_state_emit observe_run)

lemma read_response_leaves [leaves_rules]: "leaves (\<lambda>t evs. evs = [Answered t]) (read_response cs)"
  by (auto simp: leaves_def read_response_def attempt_Inr run_state_emit observe_run)

lemma review_leaves: "leaves (review_trace r opts) (review_plan cs r opts)"
proof -
  have "leaves (\<lambda>v evs. review_trace r opts v (Displayed (preview (pf_plan r)) # evs))
      (if io_dry_run opts then pure (Inr Dry_Run)
       else if plan_empty (pf_plan r) then pure (Inr No_Changes)
       else attempt
         (if io_yes opts then pure (Inr ())
          else attempt (with_err (\<lambda>_. confirmation_error) (read_response cs)) (\<lambda>response.
            pure (ensure (confirmed response) confirmation_error))) (\<lambda>_.
         pure (Inr (Approved r))))" (is "leaves ?T ?m")
  proof (cases "io_dry_run opts \<or> plan_empty (pf_plan r) \<or> io_yes opts")
    case True
    then show ?thesis by (auto simp: leaves_def review_trace_def run_state_attempt)
  next
    case False
    then have m: "?m = attempt (attempt (with_err (\<lambda>_. confirmation_error) (read_response cs)) (\<lambda>response.
            pure (ensure (confirmed response) confirmation_error))) (\<lambda>_. pure (Inr (Approved r)))"
      by simp
    show ?thesis unfolding m
      by (rule leaves_weaken, (rule leaves_attempt leaves_rules)+)
        (use False in \<open>auto simp: followed_def review_trace_def\<close>)
  qed
  from leaves_attempt [OF leaves_with_err [OF display_leaves] this]
  show ?thesis unfolding review_plan_def
    by (rule leaves_weaken) (auto simp: followed_def)
qed

lemma review_tidy [simp]: "tidy (review_plan cs r opts)"
  and review_harmless [simp]: "harmless (review_plan cs r opts)"
proof -
  have t: "tidy (display cs t)" "tidy (read_response cs)" for t
    by (auto simp: display_def read_response_def intro!: tidy_quiet only_runs_attempt only_runs_bind
        only_does_emit)
  have h: "harmless (display cs t)" "harmless (read_response cs)" for t
    by (auto simp: display_def read_response_def intro!: only_runs_attempt only_runs_bind
        only_does_emit)
  show "tidy (review_plan cs r opts)"
    unfolding review_plan_def by (auto intro!: tidy_intros t)
  show "harmless (review_plan cs r opts)"
    unfolding review_plan_def by (auto intro!: harmless_intros h)
qed

end
