(* ===== verification/Transport.thy ===== *)
theory Transport
  imports Signature Process
begin

text \<open>
  \<open>crates/stack-install/src/transport.rs\<close>: the release is downloaded with \<open>curl\<close> into a private
  directory, its metadata is checked against the pinned digest and the detached signature, and the
  profile is bound to it. The decoders of the two documents are \<open>serde_json\<close> and \<open>toml\<close>.
\<close>

record release_location =
  rl_version :: string
  rl_base_url :: string
  rl_metadata_sha256 :: string
  rl_primary_fingerprint :: string
  rl_keyring :: bytes

record verified_release =
  vr_manifest :: manifest_document
  vr_profile :: profile

record decoders =
  dc_manifest :: "bytes \<Rightarrow> manifest_document option"
  dc_profile :: "string \<Rightarrow> (string, profile) result"

definition download_request :: "string \<Rightarrow> string \<Rightarrow> nat \<Rightarrow> string \<Rightarrow> process_request" where
  "download_request base filename limit path = \<lparr>rq_executable = ''/usr/bin/curl'',
     rq_args = [''--disable'', ''--fail'', ''--location'', ''--proto'', ''=https'', ''--proto-redir'',
       ''=https'', ''--connect-timeout'', ''15'', ''--max-time'', ''60'', ''--max-filesize'',
       show_nat limit, ''--output'', path, ''--'', base @ filename],
     rq_timeout = from_secs 65, rq_stdout_limit = 4096, rq_stderr_limit = 16384,
     rq_environment = []\<rparr>"

definition download_read_error :: "read_failure \<Rightarrow> install_error" where
  "download_read_error e = (case e of
       Cannot_Open _ \<Rightarrow> integrity ''cannot open downloaded metadata''
     | Cannot_Read \<Rightarrow> integrity ''cannot read downloaded metadata'')"

definition download :: "'e host \<Rightarrow> string \<Rightarrow> string \<Rightarrow> nat \<Rightarrow> string
    \<Rightarrow> ('e, (install_error, bytes) result) effect" where
  "download host base filename limit directory =
     (let path = path_join directory filename in
      attempt (run_complete host (download_request base filename limit path)
        (integrity ''metadata download process failed'')
        (integrity ''metadata download did not complete within limits'')) (\<lambda>_.
      attempt (with_err (\<lambda>_. integrity ''downloaded metadata file is missing'') (lstat host path)) (\<lambda>m.
      attempt (pure (ensure (regular_within limit m)
        (integrity ''downloaded metadata is not a bounded regular file''))) (\<lambda>_.
      attempt (with_err download_read_error (read_file host path (Some (limit + 1)))) (\<lambda>content.
      pure (if length content > limit
            then Inl (integrity ''downloaded metadata grew beyond its byte limit'')
            else Inr content))))))"

definition location_ok :: "release_location \<Rightarrow> bool" where
  "location_ok l = (\<not> (\<not> release_version (rl_version l)
     \<or> \<not> repository_url (rl_base_url l) (rl_version l)
     \<or> \<not> is_sha256 (rl_metadata_sha256 l) \<or> \<not> fingerprint (rl_primary_fingerprint l)
     \<or> rl_keyring l = [] \<or> length (rl_keyring l) > 1048576))"

definition location_trust :: "release_location \<Rightarrow> release_trust" where
  "location_trust l = \<lparr>rt_sha256 = rl_metadata_sha256 l,
     rt_primary_fingerprint = rl_primary_fingerprint l, rt_keyring = rl_keyring l\<rparr>"

definition fetch_in :: "'e host \<Rightarrow> decoders \<Rightarrow> release_location \<Rightarrow> string
    \<Rightarrow> ('e, (install_error, verified_release) result) effect" where
  "fetch_in host dc l directory =
     attempt (download host (rl_base_url l) ''release.json'' 1048576 directory) (\<lambda>metadata.
     attempt (pure (ensure (h_sha256 host metadata = rl_metadata_sha256 l)
       (integrity ''downloaded release metadata checksum mismatch''))) (\<lambda>_.
     attempt (download host (rl_base_url l) ''release.json.sig'' 65536 directory) (\<lambda>signature.
     attempt (verify_detached host metadata signature (location_trust l)) (\<lambda>_.
     attempt (pure (parse_manifest (dc_manifest dc) metadata)) (\<lambda>manifest.
     attempt (pure (ensure (mf_stack_release manifest = rl_version l)
       (integrity ''authenticated metadata names a different release''))) (\<lambda>_.
     attempt (download host (rl_base_url l) ''profile.toml'' 1048576 directory) (\<lambda>content.
     attempt (pure (bind_profile (h_sha256 host) (dc_profile dc) manifest content)) (\<lambda>profile.
     pure (Inr \<lparr>vr_manifest = manifest, vr_profile = profile\<rparr>)))))))))"

definition fetch_release :: "'e host \<Rightarrow> decoders \<Rightarrow> release_location
    \<Rightarrow> ('e, (install_error, verified_release) result) effect" where
  "fetch_release host dc l =
     (if \<not> location_ok l then pure (Inl (integrity ''invalid independently pinned release location''))
      else with_temp host ''intel-npu-release-''
             (integrity ''cannot create private metadata download directory'')
             (fetch_in host dc l))"

section \<open>What a fetched release is\<close>

text \<open>One download: \<open>curl\<close> succeeded, and the file is regular, within its limit, and read whole.\<close>

definition downloaded :: "string \<Rightarrow> string \<Rightarrow> nat \<Rightarrow> string \<Rightarrow> bytes \<Rightarrow> event list \<Rightarrow> bool" where
  "downloaded base filename limit directory content es \<longleftrightarrow> (\<exists>po n path.
     path = path_join directory filename
     \<and> es = [Ran (download_request base filename limit path) (Inr po), Saw path True n,
             Was_Read path content]
     \<and> complete_output () po = Inr (po_stdout po) \<and> n \<le> limit \<and> length content \<le> limit)"

definition fetch_trace :: "(bytes \<Rightarrow> string) \<Rightarrow> decoders \<Rightarrow> release_location \<Rightarrow> string
    \<Rightarrow> verified_release \<Rightarrow> event list \<Rightarrow> bool" where
  "fetch_trace sha256 dc l d r evs \<longleftrightarrow>
     (\<exists>metadata signature content es1 es2 es3 es4 s.
        evs = es1 @ es2 @ (Made_Temp s # es3 @ [Removed s]) @ es4
      \<and> downloaded (rl_base_url l) ''release.json'' 1048576 d metadata es1
      \<and> sha256 metadata = rl_metadata_sha256 l
      \<and> downloaded (rl_base_url l) ''release.json.sig'' 65536 d signature es2
      \<and> detached_trace metadata signature (location_trust l) s es3
      \<and> parse_manifest (dc_manifest dc) metadata = Inr (vr_manifest r)
      \<and> mf_stack_release (vr_manifest r) = rl_version l
      \<and> downloaded (rl_base_url l) ''profile.toml'' 1048576 d content es4
      \<and> bind_profile sha256 (dc_profile dc) (vr_manifest r) content = Inr (vr_profile r))"

definition release_trace :: "(bytes \<Rightarrow> string) \<Rightarrow> decoders \<Rightarrow> release_location \<Rightarrow> verified_release
    \<Rightarrow> event list \<Rightarrow> bool" where
  "release_trace sha256 dc l r evs \<longleftrightarrow>
     (\<exists>d es. evs = Made_Temp d # es @ [Removed d] \<and> fetch_trace sha256 dc l d r es)"

lemma download_leaves [leaves_rules]:
  "leaves (downloaded base filename limit d) (download host base filename limit d)"
  unfolding download_def Let_def
  by (rule leaves_weaken, (rule leaves_attempt leaves_rules)+)
    (simp only: followed_simps, auto simp: downloaded_def regular_within_def complete_output_Inr
      split: if_splits)

lemma fetch_in_leaves: "leaves (fetch_trace (h_sha256 host) dc l d) (fetch_in host dc l d)"
  unfolding fetch_in_def
  by (rule leaves_weaken, (rule leaves_attempt verify_detached_leaves leaves_rules)+,
    simp only: followed_simps followed_def append_Nil2 ensure_Inr sum.inject, elim exE conjE,
    hypsubst, unfold fetch_trace_def, intro exI conjI, rule refl, assumption, simp, assumption, assumption,
    simp_all)

lemma fetch_release_leaves:
  "leaves (\<lambda>r evs. location_ok l \<and> release_trace (h_sha256 host) dc l r evs) (fetch_release host dc l)"
  unfolding fetch_release_def release_trace_def
  using leaves_with_temp [OF fetch_in_leaves]
  by (cases "location_ok l") (simp_all add: leaves_def)

lemma download_tidy [simp]: "tidy (download host base filename limit d)"
  unfolding download_def Let_def by (intro tidy_intros) simp_all

lemma download_harmless [simp]: "harmless (download host base filename limit d)"
  unfolding download_def Let_def
  by (intro harmless_intros) (simp_all add: harmless_request_def download_request_def)

lemma fetch_release_tidy [simp]: "tidy (fetch_release host dc l)"
  unfolding fetch_release_def fetch_in_def
  by (auto intro!: tidy_intros verify_detached_tidy)

lemma fetch_release_harmless [simp]: "harmless (fetch_release host dc l)"
  unfolding fetch_release_def fetch_in_def
  by (auto intro!: harmless_intros verify_detached_harmless)

end
