(* ===== verification/Prepare.thy ===== *)
theory Prepare
  imports Fedora_Sources Dnf Review Transport Strict_Json
begin

text \<open>
  \<open>crates/stack-install/src/prepare.rs\<close>, the preparation and the replay: the private tree, the
  planning run, the plan bound to verified packages, the snapshot of the repository metadata, and
  the privileged steps. The untyped decoding of the transaction is \<open>serde_json\<close>: \<open>to_value\<close>. The
  planner is a parameter; \<open>Dnf.plan_downloads\<close> is the production one. A prepared transaction lies
  at an address, so that its plan can be told from an equal plan elsewhere.
\<close>

datatype replay_status = Replay_Exit int | Replay_Signal

type_synonym 'e executor = "string list \<Rightarrow> 'e \<Rightarrow> (io_error, replay_status) result \<times> 'e"
text \<open>The production executor: the status of the command, with the streams of the terminal.\<close>

definition replay_status_of :: "exit_status \<Rightarrow> replay_status" where
  "replay_status_of st = (if exit_success st then Replay_Exit 0
     else case exit_code_of st of Some code \<Rightarrow> Replay_Exit code | None \<Rightarrow> Replay_Signal)"

definition system_executor :: "(string \<Rightarrow> string list \<Rightarrow> 'e \<Rightarrow> (io_error, exit_status) result \<times> 'e)
    \<Rightarrow> 'e executor" where
  "system_executor status argv e = (case status (hd argv) (tl argv) e of
       (Inl x, e) \<Rightarrow> (Inl x, e)
     | (Inr st, e) \<Rightarrow> (Inr (replay_status_of st), e))"

type_synonym 'e planner = "planning_request \<Rightarrow> ('e, (planning_failure, planning_output) result) effect"

record replay_failure =
  rf_error :: install_error
  rf_status :: "int option"

record prepare_failure =
  pe_error :: install_error
  pe_diagnostics :: "string option"

record prepare_input =
  pi_manifest :: manifest_document
  pi_project_key :: bytes
  pi_primary_fingerprint :: string
  pi_packages :: "release_package list"
  pi_fedora :: "fedora_sources option"

type_synonym bound_file = "string \<times> string \<times> nat"

record prepared_parts =
  pp_trust :: project_trust
  pp_planning :: planning_output
  pp_primary_fingerprint :: string
  pp_plan :: native_plan
  pp_bound :: "bound_file list"
  pp_symlinks :: "(string \<times> string) list"

record prepared_transaction =
  pt_address :: nat
  pt_tree :: string
  pt_parts :: prepared_parts

definition plan_of :: "prepared_transaction \<Rightarrow> plan_ref" where
  "plan_of t = \<lparr>pf_address = pt_address t, pf_plan = pp_plan (pt_parts t)\<rparr>"

section \<open>The configurations\<close>

definition render_invalid :: install_error where
  "render_invalid = metadata_error ''release repository identity cannot be rendered''"

definition config_scalar :: "string \<Rightarrow> (install_error, unit) result" where
  "config_scalar v = ensure (\<not> (v = []
     \<or> list_ex (\<lambda>c. is_ascii_control c \<or> c \<in> {CHR ''['', CHR '']'', CHR ''$''}) v)) render_invalid"

definition project_stanza :: "prepare_input \<Rightarrow> string \<Rightarrow> string \<Rightarrow> string" where
  "project_stanza input tree url = (let repository = mf_repository (pi_manifest input) in
     ''['' @ rr_id repository @ '']'' @ [nl]
     @ ''name=Intel NPU Stack '' @ mf_stack_release (pi_manifest input) @ '' repository'' @ [nl]
     @ ''baseurl='' @ url @ [nl] @ ''gpgkey=file://'' @ tree @ ''/public.asc'' @ [nl]
     @ ''enabled=1'' @ [nl] @ ''gpgcheck=1'' @ [nl] @ ''repo_gpgcheck=1'' @ [nl] @ ''cost=100'' @ [nl])"

definition fedora_stanza :: "fedora_sources \<Rightarrow> string \<Rightarrow> bool \<Rightarrow> string \<times> fedora_repository \<Rightarrow> string"
where
  "fedora_stanza fedora tree planning e =
     ''['' @ fst e @ '']'' @ [nl] @ ''name='' @ fy_name (snd e) @ [nl]
     @ (if planning then ''metalink='' @ fy_metalink (snd e)
        else ''baseurl=file://'' @ tree @ ''/replay-repos/'' @ fst e @ ''/'') @ [nl]
     @ ''gpgkey='' @ fa_gpgkey fedora @ [nl]
     @ ''enabled=1'' @ [nl] @ ''gpgcheck=1'' @ [nl] @ ''repo_gpgcheck=0'' @ [nl]
     @ ''skip_if_unavailable=False'' @ [nl]"

definition render_config :: "prepare_input \<Rightarrow> string \<Rightarrow> bool \<Rightarrow> (install_error, string) result" where
  "render_config input tree planning = (let repository = mf_repository (pi_manifest input) in
     and_then (config_scalar (rr_id repository)) (\<lambda>_.
     and_then (config_scalar (rr_base_url repository)) (\<lambda>_.
     Inr (''[main]'' @ [nl]
       @ project_stanza input tree (if planning then rr_base_url repository
           else ''file://'' @ tree @ ''/replay-repos/'' @ rr_id repository @ ''/'')
       @ (case pi_fedora input of None \<Rightarrow> []
          | Some fedora \<Rightarrow> concat (map (fedora_stanza fedora tree planning) (fa_repositories fedora)))))))"

section \<open>The dependencies of the transaction\<close>

text \<open>Indexing a \<open>Value\<close>: null for what is not there.\<close>

definition json_field :: "json \<Rightarrow> string \<Rightarrow> json" where
  "json_field v key = (case v of
       Object m \<Rightarrow> (case bm_get m key of Some x \<Rightarrow> x | None \<Rightarrow> Null) | _ \<Rightarrow> Null)"

definition json_str :: "json \<Rightarrow> string option" where
  "json_str v = (case v of String s \<Rightarrow> Some s | _ \<Rightarrow> None)"

definition json_array :: "json \<Rightarrow> json list option" where
  "json_array v = (case v of Array vs \<Rightarrow> Some vs | _ \<Rightarrow> None)"

definition row_invalid :: install_error where
  "row_invalid = integrity ''the stored native transaction holds an unusable row''"

text \<open>What a row is: one to skip, or the file name of a package to verify as a Fedora package.\<close>

definition classify_row :: "prepare_input \<Rightarrow> json \<Rightarrow> (install_error, string option) result" where
  "classify_row input row =
     (if json_str (json_field row ''action'') = Some ''Replaced'' then Inr None
      else and_then (ok_or row_invalid
             (Option.bind (json_str (json_field row ''repo_id'')) (\<lambda>i.
              Option.bind (strip_prefix ''@stored_transaction('' i) (strip_suffix '')'')))) (\<lambda>repository.
           and_then (ok_or row_invalid (json_str (json_field row ''nevra''))) (\<lambda>nevra.
           let project = list_ex (\<lambda>p. nevra = package_identity p) (pi_packages input);
               known = repository \<in> {''fedora'', ''updates'', rr_id (mf_repository (pi_manifest input))}
           in if project then
                (if repository \<noteq> ''@commandline'' \<and> \<not> known then Inl row_invalid else Inr None)
              else if \<not> known \<or> repository = ''@commandline'' then Inl row_invalid
              else and_then (ok_or row_invalid
                     (Option.bind (json_str (json_field row ''package_path''))
                       (strip_prefix ''./packages/''))) (\<lambda>filename.
                   if CHR ''/'' \<in> set filename \<or> \<not> ends_with ''.rpm'' filename
                      \<or> length filename > 512 \<or> \<not> list_all rpm_filename_byte filename
                   then Inl row_invalid else Inr (Some filename)))))"

fun verify_rows :: "'e host \<Rightarrow> prepare_input \<Rightarrow> string \<Rightarrow> json list
    \<Rightarrow> ('e, (install_error, fedora_rpm list) result) effect" where
  "verify_rows host input store [] = pure (Inr [])"
| "verify_rows host input store (row # rows) =
     attempt (pure (classify_row input row)) (\<lambda>c. case c of
         None \<Rightarrow> verify_rows host input store rows
       | Some filename \<Rightarrow>
           let package = path_join (path_join store ''packages'') filename in
           attempt (digest_file host package) (\<lambda>d.
           attempt (fedora_verify host package d) (\<lambda>verified.
           attempt (verify_rows host input store rows) (\<lambda>rest.
           pure (Inr (verified # rest))))))"

definition discover_dependencies :: "'e host \<Rightarrow> (bytes \<Rightarrow> json option) \<Rightarrow> bytes \<Rightarrow> prepare_input
    \<Rightarrow> string \<Rightarrow> ('e, (install_error, fedora_rpm list) result) effect" where
  "discover_dependencies host to_value b input store =
     (if length b > MAX_TRANSACTION_BYTES then pure (Inl row_invalid)
      else attempt (pure (ok_or row_invalid (to_value b))) (\<lambda>document.
           attempt (pure (ok_or row_invalid (json_array (json_field document ''rpms'')))) (\<lambda>rows.
           verify_rows host input store rows)))"

section \<open>The snapshot of the metadata\<close>

definition cache_invalid :: install_error where
  "cache_invalid = integrity ''the native planning cache is unusable''"

definition cache_unexpected :: install_error where
  "cache_unexpected = integrity ''the native planning cache holds an unexpected repository''"

text \<open>The loop over the entries of the cache directory: each is the cache of one repository.\<close>

fun cache_entries :: "string list \<Rightarrow> string \<Rightarrow> (string, string) bmap \<Rightarrow> (io_error, dir_entry) result list
    \<Rightarrow> (install_error, (string, string) bmap) result" where
  "cache_entries expected cache ids [] = Inr ids"
| "cache_entries expected cache ids (r # rs) =
     (case r of
        Inl _ \<Rightarrow> Inl cache_invalid
      | Inr entry \<Rightarrow>
          if \<not> utf8_valid (de_name entry) then Inl cache_invalid
          else case rsplit_once CHR ''-'' (de_name entry) of
            None \<Rightarrow> Inl cache_invalid
          | Some (_, hash) \<Rightarrow> (case find (\<lambda>i. starts_with (i @ ''-'') (de_name entry)) expected of
              None \<Rightarrow> Inl cache_unexpected
            | Some matched \<Rightarrow>
                if length hash \<noteq> 16 \<or> \<not> list_all is_hexdigit hash then Inl cache_unexpected
                else (case de_kind entry of
                    Inl _ \<Rightarrow> Inl cache_invalid
                  | Inr kind \<Rightarrow>
                      if kind \<noteq> Directory \<or> bm_get ids matched \<noteq> None then Inl cache_unexpected
                      else cache_entries expected cache
                             (bm_insert matched (path_join cache (de_name entry)) ids) rs)))"

definition snapshot_entry :: "'e host \<Rightarrow> string \<Rightarrow> string \<Rightarrow> (io_error, dir_entry) result
    \<Rightarrow> ('e, (install_error, bound_file) result) effect" where
  "snapshot_entry host repodata snapshot r =
     attempt (pure (map_err (\<lambda>_. cache_invalid) r)) (\<lambda>entry.
     attempt (pure (map_err (\<lambda>_. cache_invalid) (de_kind entry))) (\<lambda>kind.
     attempt (pure (ensure (kind = Regular_File)
       (integrity ''cached repository metadata holds an unsafe entry''))) (\<lambda>_.
     attempt (pure (map_err (\<lambda>_. cache_invalid) (de_len entry))) (\<lambda>len.
     attempt (pure (ensure (len \<le> MAX_REPODATA_BYTES) cache_invalid)) (\<lambda>_.
     let target = path_join snapshot (de_name entry) in
     attempt (with_err (\<lambda>_. cache_invalid)
       (copy_file host (path_join repodata (de_name entry)) target None)) (\<lambda>_.
     attempt (with_err (\<lambda>_. cache_invalid) (set_private host target)) (\<lambda>_.
     attempt (digest_file_with_limit host target MAX_REPODATA_BYTES) (\<lambda>d.
     pure (Inr (target, d, MAX_REPODATA_BYTES))))))))))"

definition regular_or :: "'e host \<Rightarrow> string \<Rightarrow> install_error
    \<Rightarrow> ('e, (install_error, unit) result) effect" where
  "regular_or host path err =
     attempt (with_err (\<lambda>_. cache_invalid) (lstat host path)) (\<lambda>m.
     pure (ensure (fm_kind m = Regular_File) err))"

definition create_dir_all :: "'e host \<Rightarrow> string \<Rightarrow> ('e, (io_error, unit) result) effect" where
  "create_dir_all host p = do { emit (Made_Dir p); observe (h_create_dir_all host p) }"

definition check_release_metadata :: "'e host \<Rightarrow> string \<Rightarrow> string \<Rightarrow> string
    \<Rightarrow> ('e, (install_error, unit) result) effect" where
  "check_release_metadata host release_repomd d repodata =
     attempt (pure (ensure (d = release_repomd)
       (integrity ''cached project repository metadata does not match the release''))) (\<lambda>_.
     regular_or host (path_join repodata ''repomd.xml.asc'')
       (integrity ''the signed project repository metadata signature is missing''))"

definition snapshot_repository :: "'e host \<Rightarrow> (string, string) bmap \<Rightarrow> string \<Rightarrow> string \<Rightarrow> string
    \<Rightarrow> string \<Rightarrow> ('e, (install_error, bound_file list) result) effect" where
  "snapshot_repository host cache_ids repository_id release_repomd tree i =
     attempt (pure (ok_or (integrity ''the native planning cache is missing a repository'')
       (bm_get cache_ids i))) (\<lambda>cached.
     let repodata = path_join cached ''repodata''; repomd = path_join repodata ''repomd.xml'' in
     attempt (regular_or host repomd (integrity ''cached repository metadata is missing'')) (\<lambda>_.
     attempt (digest_file host repomd) (\<lambda>d.
     attempt (if i = repository_id then check_release_metadata host release_repomd d repodata
              else pure (Inr ())) (\<lambda>_.
     let snapshot = path_join (path_join (path_join tree ''replay-repos'') i) ''repodata'' in
     attempt (with_err (\<lambda>_. cache_invalid) (create_dir_all host snapshot)) (\<lambda>_.
     attempt (with_err (\<lambda>_. cache_invalid) (observe (h_read_dir host repodata))) (\<lambda>entries.
     collect_attempt (snapshot_entry host repodata snapshot) entries))))))"

definition bind_cache_and_snapshot :: "'e host \<Rightarrow> planning_output \<Rightarrow> string list \<Rightarrow> string \<Rightarrow> string
    \<Rightarrow> string \<Rightarrow> ('e, (install_error, bound_file list) result) effect" where
  "bind_cache_and_snapshot host planning expected repository_id release_repomd tree =
     (let cache = path_join (diagnostics planning) ''cache'' in
      attempt (check_directory host cache_invalid cache) (\<lambda>_.
      attempt (with_err (\<lambda>_. cache_invalid) (observe (h_read_dir host cache))) (\<lambda>entries.
      attempt (pure (cache_entries expected cache [] entries)) (\<lambda>cache_ids.
      attempt (collect_attempt
        (snapshot_repository host cache_ids repository_id release_repomd tree) expected) (\<lambda>bound.
      pure (Inr (concat bound)))))))"

end
