(* ===== verification/Transaction.thy ===== *)
theory Transaction
  imports Prepare
begin

text \<open>
  \<open>crates/stack-install/src/prepare.rs\<close>, the composition and the replay. Values own private
  directories: the project trust from \<open>from_armored_key\<close> on, the planning workspace from the plan
  on, and both until the prepared parts are returned; an early return drops the later one first.
\<close>

section \<open>Composition\<close>

definition tree_io :: install_error where
  "tree_io = integrity ''the private preparation tree could not be written''"

definition sources_changed :: install_error where
  "sources_changed = metadata_error ''Fedora repository configuration changed after verification''"

definition check_sources :: "'e host \<Rightarrow> fedora_sources \<Rightarrow> string
    \<Rightarrow> ('e, (install_error, string list) result) effect" where
  "check_sources host fedora repository_id =
     attempt (verify_symlinks host (fa_symlinks fedora)) (\<lambda>_.
     attempt (each_attempt (\<lambda>e. attempt (digest_file host (fst e)) (\<lambda>d.
         pure (ensure (d = snd e) sources_changed))) (fa_digests fedora)) (\<lambda>_.
     let ids = repository_ids fedora in
     pure (if list_ex (\<lambda>i. i = repository_id) ids
           then Inl (metadata_error ''the release repository identity collides with a Fedora repository'')
           else Inr ids)))"

definition write_private :: "'e host \<Rightarrow> string \<Rightarrow> bytes \<Rightarrow> ('e, (install_error, unit) result) effect" where
  "write_private host path content =
     attempt (with_err (\<lambda>_. tree_io) (write_file host path content)) (\<lambda>_.
     with_err (\<lambda>_. tree_io) (set_private host path))"

definition bind_file :: "'e host \<Rightarrow> string \<Rightarrow> ('e, (install_error, bound_file) result) effect" where
  "bind_file host path = attempt (digest_file host path) (\<lambda>d. pure (Inr (path, d, MAX_BOUND_BYTES)))"

definition source_bounds :: "prepare_input \<Rightarrow> bound_file list" where
  "source_bounds input = (case pi_fedora input of None \<Rightarrow> []
     | Some fedora \<Rightarrow> map (\<lambda>e. (fst e, snd e, MAX_REPOSITORY_BYTES)) (fa_digests fedora))"

text \<open>The stored transaction, if DNF wrote one.\<close>

definition read_transaction :: "'e host \<Rightarrow> string \<Rightarrow> ('e, (install_error, bytes option) result) effect" where
  "read_transaction host store = do {
     r \<leftarrow> read_file host (path_join store ''transaction.json'') None;
     pure (case r of
         Inr b \<Rightarrow> Inr (Some b)
       | Inl (Cannot_Open (Not_Found _)) \<Rightarrow> Inr None
       | Inl _ \<Rightarrow> Inl (integrity ''the stored native transaction is unreadable''))
   }"

record transaction_codec =
  tc_stored :: "bytes \<Rightarrow> stored_transaction option"
  tc_value :: "bytes \<Rightarrow> json option"

text \<open>What follows the planning run, which owns its workspace.\<close>

definition compose_planned :: "'e host \<Rightarrow> transaction_codec \<Rightarrow> prepare_input \<Rightarrow> string \<Rightarrow> string list
    \<Rightarrow> project_trust \<Rightarrow> native_inventory \<Rightarrow> planning_output
    \<Rightarrow> ('e, (install_error, prepared_parts) result) effect" where
  "compose_planned host tc input tree expected_repositories trust inventory planning =
     (let repository = mf_repository (pi_manifest input); store = path_join tree ''store'' in
      attempt (bind_file host (path_join tree ''public.asc'')) (\<lambda>public_bound.
      attempt (bind_file host (path_join tree ''planning.ini'')) (\<lambda>planning_bound.
      attempt (read_transaction host store) (\<lambda>b.
      attempt (case b of Some content \<Rightarrow> discover_dependencies host (tc_value tc) content input store
                | None \<Rightarrow> pure (Inr [])) (\<lambda>dependencies.
      attempt (parse_with_dependencies host (tc_stored tc) b (pi_packages input) dependencies inventory
        (rr_id repository)) (\<lambda>plan.
      attempt (verify_signatures host plan store trust) (\<lambda>_.
      attempt (bind_cache_and_snapshot host planning expected_repositories (rr_id repository)
        (rr_repomd_sha256 repository) tree) (\<lambda>snapshot.
      attempt (pure (render_config input tree False)) (\<lambda>config.
      attempt (write_private host (path_join tree ''replay.ini'') config) (\<lambda>_.
      attempt (bind_file host (path_join tree ''replay.ini'')) (\<lambda>replay_bound.
      pure (Inr \<lparr>pp_trust = trust, pp_planning = planning,
        pp_primary_fingerprint = ascii_lowercase (pi_primary_fingerprint input), pp_plan = plan,
        pp_bound = [public_bound, planning_bound] @ source_bounds input @ snapshot @ [replay_bound],
        pp_symlinks = (case pi_fedora input of None \<Rightarrow> [] | Some fedora \<Rightarrow> fa_symlinks fedora)\<rparr>))))))))))))"

definition compose_trusted :: "'e host \<Rightarrow> transaction_codec \<Rightarrow> 'e planner \<Rightarrow> prepare_input \<Rightarrow> string
    \<Rightarrow> string list \<Rightarrow> project_trust \<Rightarrow> ('e, (install_error, prepared_parts) result) effect" where
  "compose_trusted host tc planner input tree expected_repositories trust =
     attempt (each_attempt (\<lambda>child. with_err (\<lambda>_. tree_io) (create_dir host (path_join tree child)))
       [''repos'', ''replay-repos'']) (\<lambda>_.
     attempt (write_private host (path_join tree ''public.asc'') (pi_project_key input)) (\<lambda>_.
     attempt (pure (render_config input tree True)) (\<lambda>config.
     attempt (write_private host (path_join tree ''planning.ini'') config) (\<lambda>_.
     attempt (query_inventory (h_sha256 host) (h_runner host)) (\<lambda>inventory.
     attempt (with_err pf_error (planner \<lparr>pq_configuration = path_join tree ''planning.ini'',
         pq_transaction = path_join tree ''store'', pq_packages = pi_packages input\<rparr>)) (\<lambda>planning.
     owning host (diagnostics planning)
       (compose_planned host tc input tree expected_repositories trust inventory planning)))))))"

definition compose :: "'e host \<Rightarrow> transaction_codec \<Rightarrow> 'e planner \<Rightarrow> prepare_input \<Rightarrow> string
    \<Rightarrow> ('e, (install_error, prepared_parts) result) effect" where
  "compose host tc planner input tree =
     (let repository_id = rr_id (mf_repository (pi_manifest input)) in
      attempt (pure (ensure (pi_packages input \<noteq> [] \<and> length (pi_packages input) \<le> 128)
        (metadata_error ''invalid release selection''))) (\<lambda>_.
      attempt (case pi_fedora input of None \<Rightarrow> pure (Inr [])
               | Some fedora \<Rightarrow> check_sources host fedora repository_id) (\<lambda>ids.
      attempt (from_armored_key host (pi_project_key input) (pi_primary_fingerprint input)) (\<lambda>trust.
      owning host (pt_directory trust)
        (compose_trusted host tc planner input tree (repository_id # ids) trust)))))"

text \<open>\<open>at\<close> is the address where the caller keeps the transaction; a failure keeps the tree.\<close>

definition prepare_with :: "'e host \<Rightarrow> transaction_codec \<Rightarrow> 'e planner \<Rightarrow> prepare_input \<Rightarrow> nat
    \<Rightarrow> ('e, (prepare_failure, prepared_transaction) result) effect" where
  "prepare_with host tc planner input at =
     attempt (with_err (\<lambda>_. \<lparr>pe_error = integrity ''cannot create the private preparation tree'',
         pe_diagnostics = None\<rparr>) (make_temp host ''intel-npu-prepare-'')) (\<lambda>tree.
     attempt (with_err (\<lambda>e. \<lparr>pe_error = e, pe_diagnostics = Some tree\<rparr>)
       (compose host tc planner input tree)) (\<lambda>parts.
     pure (Inr \<lparr>pt_address = at, pt_tree = tree, pt_parts = parts\<rparr>)))"

definition prepare :: "'e host \<Rightarrow> 'e native_ops \<Rightarrow> transaction_codec \<Rightarrow> prepare_input \<Rightarrow> nat
    \<Rightarrow> ('e, (prepare_failure, prepared_transaction) result) effect" where
  "prepare host ops tc input at = prepare_with host tc (plan_downloads host ops) input at"

section \<open>Replay\<close>

definition verify_bound_file :: "'e host \<Rightarrow> bound_file \<Rightarrow> ('e, (install_error, unit) result) effect" where
  "verify_bound_file host f = (case f of (path, expected, limit) \<Rightarrow>
     attempt (with_err (\<lambda>_. bound_mismatch) (lstat host path)) (\<lambda>m.
     attempt (pure (ensure (regular_within limit m) bound_mismatch)) (\<lambda>_.
     attempt (digest_file_with_limit host path limit) (\<lambda>d.
     pure (ensure (d = expected) bound_mismatch)))))"

definition store_of :: "prepared_transaction \<Rightarrow> string" where
  "store_of t = path_join (pt_tree t) ''store''"

definition verify_bound :: "'e host \<Rightarrow> prepared_transaction \<Rightarrow> ('e, (install_error, unit) result) effect"
where
  "verify_bound host t =
     attempt (verify_symlinks host (pp_symlinks (pt_parts t))) (\<lambda>_.
     attempt (each_attempt (verify_bound_file host) (pp_bound (pt_parts t))) (\<lambda>_.
     attempt (verify_stored host (pp_plan (pt_parts t)) (store_of t)) (\<lambda>_.
     attempt (verify_signatures host (pp_plan (pt_parts t)) (store_of t) (pp_trust (pt_parts t))) (\<lambda>_.
     pure (Inr ())))))"

definition key_import_argv :: "prepared_transaction \<Rightarrow> string list" where
  "key_import_argv t = [''/usr/bin/sudo'', ''--set-home'', ''--'', ''/usr/bin/rpmkeys'', ''--import'',
     pt_tree t @ ''/public.asc'']"

definition replay_argv :: "prepared_transaction \<Rightarrow> string list" where
  "replay_argv t = [''/usr/bin/sudo'', ''--set-home'', ''--'', ''/usr/bin/dnf5'', ''--no-plugins'',
     ''--config='' @ pt_tree t @ ''/replay.ini'', ''--setopt=reposdir='' @ pt_tree t @ ''/repos'',
     ''--setopt=localpkg_gpgcheck=True'', ''--setopt=install_weak_deps=False'', ''--assumeyes'',
     ''replay'', pt_tree t @ ''/store'']"

definition replay_steps :: "prepared_transaction \<Rightarrow> string list list" where
  "replay_steps t = [key_import_argv t, replay_argv t]"

definition imported_key_request :: process_request where
  "imported_key_request = \<lparr>rq_executable = ''/usr/bin/rpm'',
     rq_args = macro_arguments @ [''-qa'', ''gpg-pubkey'', ''--qf'', ''%{VERSION}'' @ [nl]],
     rq_timeout = from_secs 10, rq_stdout_limit = 65536, rq_stderr_limit = 65536, rq_environment = []\<rparr>"

definition verify_imported_key :: "'e host \<Rightarrow> prepared_transaction
    \<Rightarrow> ('e, (install_error, unit) result) effect" where
  "verify_imported_key host t =
     attempt (run_complete host imported_key_request bound_mismatch bound_mismatch) (\<lambda>out.
     attempt (pure (utf8_text bound_mismatch out)) (\<lambda>listing.
     pure (ensure (list_ex (\<lambda>line. line = pp_primary_fingerprint (pt_parts t)) (str_lines listing))
       bound_mismatch)))"

definition refused :: "install_error \<Rightarrow> replay_failure" where
  "refused e = \<lparr>rf_error = e, rf_status = None\<rparr>"

definition receipt_mismatch :: install_error where
  "receipt_mismatch = install_err 30 ''INSTALL_PLAN_RECEIPT_MISMATCH''
     ''the approval receipt belongs to a different prepared transaction''"

definition nothing_to_replay :: install_error where
  "nothing_to_replay = install_err 30 ''INSTALL_NOTHING_TO_REPLAY''
     ''an exact no-op has no native transaction to replay''"

definition import_failed :: "int option \<Rightarrow> replay_failure" where
  "import_failed status = \<lparr>rf_error = install_err 30 ''INSTALL_KEY_IMPORT_FAILED''
     ''the release public key could not be installed into the native database'', rf_status = status\<rparr>"

definition replay_failed :: "int option \<Rightarrow> replay_failure" where
  "replay_failed status = \<lparr>rf_error = install_err 30 ''INSTALL_REPLAY_FAILED''
     ''the native replay did not complete; native output was preserved'', rf_status = status\<rparr>"

definition replay_unstarted :: replay_failure where
  "replay_unstarted = refused (install_err 30 ''INSTALL_REPLAY_SPAWN_FAILED''
     ''the privileged native replay could not be started'')"

definition import_verdict :: "(io_error, replay_status) result \<Rightarrow> (replay_failure, unit) result" where
  "import_verdict r = (case r of
       Inr (Replay_Exit code) \<Rightarrow> if code = 0 then Inr () else Inl (import_failed (Some code))
     | Inr Replay_Signal \<Rightarrow> Inl (import_failed None)
     | Inl _ \<Rightarrow> Inl (import_failed None))"

definition replay_verdict :: "(io_error, replay_status) result \<Rightarrow> (replay_failure, unit) result" where
  "replay_verdict r = (case r of
       Inr (Replay_Exit code) \<Rightarrow> if code = 0 then Inr () else Inl (replay_failed (Some code))
     | Inr Replay_Signal \<Rightarrow> Inl (replay_failed None)
     | Inl _ \<Rightarrow> Inl replay_unstarted)"

definition run_step :: "'e executor \<Rightarrow> string list \<Rightarrow> ((io_error, replay_status) result
    \<Rightarrow> (replay_failure, unit) result) \<Rightarrow> ('e, (replay_failure, unit) result) effect" where
  "run_step executor argv verdict = do { r \<leftarrow> run_privileged executor argv; pure (verdict r) }"

definition execute_replay :: "'e host \<Rightarrow> 'e executor \<Rightarrow> prepared_transaction \<Rightarrow> plan_ref
    \<Rightarrow> ('e, (replay_failure, unit) result) effect" where
  "execute_replay host executor t approval =
     (if pf_address approval \<noteq> pt_address t then pure (Inl (refused receipt_mismatch))
      else if plan_empty (pp_plan (pt_parts t)) then pure (Inl (refused nothing_to_replay))
      else attempt (with_err refused (verify_bound host t)) (\<lambda>_.
           attempt (run_step executor (key_import_argv t) import_verdict) (\<lambda>_.
           attempt (with_err (\<lambda>_. import_failed None) (verify_imported_key host t)) (\<lambda>_.
           run_step executor (replay_argv t) replay_verdict))))"

end
