(* ===== verification/Replay_Laws.thy ===== *)
theory Replay_Laws
  imports Transaction
begin

text \<open>
  What a replay promises: the privileged steps are those displayed, in order, each only after every
  bound file, every stored byte, every signature and the inventory were checked again. And what a
  preparation leaves: its private directories, and a plan that covers exactly what is missing.
\<close>

section \<open>The checks before a replay\<close>

definition bound_checked :: "(bytes \<Rightarrow> string) \<Rightarrow> bound_file \<Rightarrow> event list \<Rightarrow> bool" where
  "bound_checked sha256 f es \<longleftrightarrow> (case f of (path, expected, limit) \<Rightarrow>
     \<exists>n b. es = [Saw path True n, Was_Read path b] \<and> n \<le> limit \<and> length b \<le> limit
       \<and> sha256 b = expected)"

definition replay_checked :: "(bytes \<Rightarrow> string) \<Rightarrow> prepared_transaction \<Rightarrow> event list \<Rightarrow> bool" where
  "replay_checked sha256 t evs \<longleftrightarrow> (\<exists>ess stored signed. evs = concat ess @ stored @ signed
     \<and> list_all2 (bound_checked sha256) (pp_bound (pt_parts t)) ess
     \<and> stored_checked sha256 (store_of t) (pp_plan (pt_parts t)) stored
     \<and> signatures_checked sha256 (store_of t) (pp_trust (pt_parts t)) (pp_plan (pt_parts t)) signed)"

lemma digest_leaves:
  "leaves (\<lambda>d evs. \<exists>b. evs = [Was_Read path b] \<and> (length b \<le> limit \<and> d = h_sha256 host b))
     (digest_file_with_limit host path limit)"
  unfolding digest_file_with_limit_def
  by (rule leaves_weaken, (rule leaves_attempt leaves_rules)+)
    (simp only: followed_simps, auto split: if_splits)

lemma verify_symlinks_leaves: "leaves (\<lambda>_ evs. evs = []) (verify_symlinks host links)"
proof -
  have "leaves (\<lambda>_ evs. evs = []) (attempt (with_err (\<lambda>_. bound_mismatch)
      (observe (h_read_link host p))) (\<lambda>target. pure (ensure (same_path target q) bound_mismatch)))" for p q
    by (rule leaves_weaken, (rule leaves_attempt leaves_rules)+) (auto simp: followed_def)
  from leaves_each_exact [where g = "\<lambda>_. []", OF this] show ?thesis
    unfolding verify_symlinks_def by (rule leaves_weaken) simp
qed

lemma verify_bound_file_leaves:
  "leaves (\<lambda>_ evs. bound_checked (h_sha256 host) f evs) (verify_bound_file host f)"
proof (cases f)
  case (fields path expected limit)
  show ?thesis
    unfolding verify_bound_file_def fields prod.case
    by (rule leaves_weaken, (rule leaves_attempt digest_leaves leaves_rules)+)
      (simp only: followed_simps, auto simp: bound_checked_def regular_within_def)
qed

lemma verify_bound_leaves:
  "leaves (\<lambda>_ evs. replay_checked (h_sha256 host) t evs) (verify_bound host t)"
  unfolding verify_bound_def
  by (rule leaves_weaken, (rule leaves_attempt verify_symlinks_leaves leaves_each verify_bound_file_leaves
      verify_stored_leaves verify_signatures_leaves leaves_pure)+)
    (auto simp: followed_def replay_checked_def)

lemma digest_rules [simp]:
  "tidy (digest_file_with_limit host p n)" "harmless (digest_file_with_limit host p n)"
  "tidy (digest_file host p)" "harmless (digest_file host p)"
  unfolding digest_file_def digest_file_with_limit_def by (intro tidy_intros harmless_intros; simp)+

lemma verify_symlinks_rules [simp]:
  "tidy (verify_symlinks host links)" "harmless (verify_symlinks host links)"
  unfolding verify_symlinks_def by (intro tidy_intros harmless_intros; simp)+

lemma verify_bound_rules [simp]: "tidy (verify_bound host t)" "harmless (verify_bound host t)"
proof -
  have "tidy (verify_bound_file host f)" "harmless (verify_bound_file host f)" for f
    unfolding verify_bound_file_def
    by (cases f; auto intro!: tidy_intros harmless_intros)+
  then show "tidy (verify_bound host t)" "harmless (verify_bound host t)"
    unfolding verify_bound_def by (intro tidy_intros harmless_intros; simp)+
qed

section \<open>The privileged steps\<close>

definition privileged :: "event list \<Rightarrow> string list list" where
  "privileged evs = concat (map (\<lambda>ev. case ev of Privileged argv \<Rightarrow> [argv] | _ \<Rightarrow> []) evs)"

lemma privileged_simps [simp]:
  "privileged [] = []" "privileged (a @ b) = privileged a @ privileged b"
  "privileged (Privileged argv # evs) = argv # privileged evs"
  "privileged (Ran rq res # evs) = privileged evs"
  by (simp_all add: privileged_def)

lemma unprivileged_none: "list_all unprivileged evs \<Longrightarrow> privileged evs = []"
  by (induction evs) (auto simp: privileged_def unprivileged_def split: event.splits)

text \<open>
  The run of a replay, whatever its outcome: nothing privileged at all, or the checks of the
  approved plan, then the import, and then nothing privileged but, after the key was found in the
  native database, the replay.
\<close>

definition replay_run :: "(bytes \<Rightarrow> string) \<Rightarrow> prepared_transaction \<Rightarrow> plan_ref \<Rightarrow> event list \<Rightarrow> bool" where
  "replay_run sha256 t approval evs \<longleftrightarrow> privileged evs = []
     \<or> (\<exists>checks rest. evs = checks @ Privileged (key_import_argv t) # rest
          \<and> pf_address approval = pt_address t \<and> pl_packages (pp_plan (pt_parts t)) \<noteq> []
          \<and> replay_checked sha256 t checks \<and> privileged checks = []
          \<and> (privileged rest = []
             \<or> (\<exists>po. rest = [Ran imported_key_request (Inr po), Privileged (replay_argv t)]
                  \<and> pp_primary_fingerprint (pt_parts t) \<in> set (str_lines (po_stdout po)))))"

lemma run_step_run:
  "run_state (run_step executor argv verdict) w = (r, w') \<Longrightarrow> log w' = log w @ [Privileged argv]
     \<and> (\<exists>a. r = verdict a)"
  by (auto simp: run_step_def run_privileged_def split: prod.splits)

lemma imported_key_leaves:
  "leaves (\<lambda>_ evs. \<exists>po. evs = [Ran imported_key_request (Inr po)]
       \<and> (complete_output () po = Inr (po_stdout po)
          \<and> pp_primary_fingerprint (pt_parts t) \<in> set (str_lines (po_stdout po))))
     (verify_imported_key host t)"
  unfolding verify_imported_key_def
  by (rule leaves_weaken, (rule leaves_attempt leaves_rules)+)
    (simp only: followed_simps, auto simp: list_ex_iff complete_output_Inr)

lemma imported_key_rules [simp]: "tidy (verify_imported_key host t)" "harmless (verify_imported_key host t)"
  unfolding verify_imported_key_def
  by (intro tidy_intros harmless_intros; simp add: harmless_request_def imported_key_request_def)+

lemma harmlessD:
  assumes "harmless m" "run_state m w = (r, w')"
  shows "\<exists>evs. log w' = log w @ evs \<and> privileged evs = []"
  using assms unprivileged_none unfolding only_does_def by (metis snd_conv)

lemma leaves_harmless:
  assumes "leaves P m" "harmless m" "run_state m w = (Inr a, w')"
  shows "\<exists>evs. log w' = log w @ evs \<and> P a evs \<and> privileged evs = []"
  using leavesD [OF assms(1,3)] harmlessD [OF assms(2,3)] by auto

lemma execute_replay_run:
  assumes "run_state (execute_replay host executor t approval) w = (r, w')"
  shows "\<exists>evs. log w' = log w @ evs \<and> replay_run (h_sha256 host) t approval evs
     \<and> (r = Inr () \<longrightarrow> privileged evs = replay_steps t)"
proof (cases "pf_address approval \<noteq> pt_address t \<or> plan_empty (pp_plan (pt_parts t))")
  case True
  with assms show ?thesis
    by (intro exI [of _ "[]"]) (auto simp: execute_replay_def replay_run_def split: if_splits)
next
  case False
  let ?import = "run_step executor (key_import_argv t) import_verdict"
  let ?key = "with_err (\<lambda>_. import_failed None) (verify_imported_key host t)"
  let ?replay = "run_step executor (replay_argv t) replay_verdict"
  obtain b u where b: "run_state (with_err refused (verify_bound host t)) w = (b, u)"
    by (cases "run_state (with_err refused (verify_bound host t)) w") blast
  have run: "run_state (attempt (with_err refused (verify_bound host t)) (\<lambda>_.
      attempt ?import (\<lambda>_. attempt ?key (\<lambda>_. ?replay)))) w = (r, w')"
    using assms False by (simp add: execute_replay_def)
  show ?thesis
  proof (cases b)
    case (Inl e)
    with run b have "r = Inl e" "w' = u" by (auto simp: run_state_attempt)
    moreover obtain evs where "log u = log w @ evs" "privileged evs = []"
      using harmlessD [OF only_runs_with_err [OF verify_bound_rules(2)] b] by blast
    ultimately show ?thesis by (intro exI [of _ evs]) (simp add: replay_run_def)
  next
    case (Inr ok)
    with b obtain checks where checks: "log u = log w @ checks" "replay_checked (h_sha256 host) t checks"
        "privileged checks = []"
      using leaves_harmless [OF leaves_with_err [OF verify_bound_leaves]
          only_runs_with_err [OF verify_bound_rules(2)]] by blast
    obtain i v where i: "run_state ?import u = (i, v)" by (cases "run_state ?import u") blast
    have v: "log v = log u @ [Privileged (key_import_argv t)]" using run_step_run [OF i] by simp
    have rest: "run_state (case i of Inl e \<Rightarrow> pure (Inl e) | Inr _ \<Rightarrow> attempt ?key (\<lambda>_. ?replay)) v = (r, w')"
      using run b Inr i by (auto simp: run_state_attempt split: sum.splits)
    have "\<exists>rest. log w' = log v @ rest \<and> (privileged rest = [] \<and> r \<noteq> Inr ()
        \<or> (\<exists>po. rest = [Ran imported_key_request (Inr po), Privileged (replay_argv t)]
             \<and> pp_primary_fingerprint (pt_parts t) \<in> set (str_lines (po_stdout po))))"
    proof (cases i)
      case (Inl e)
      with rest have "r = Inl e" "w' = v" by simp_all
      then show ?thesis by (intro exI [of _ "[]"]) simp
    next
      case imported: (Inr ok)
      obtain k x where k: "run_state ?key v = (k, x)" by (cases "run_state ?key v") blast
      show ?thesis
      proof (cases k)
        case (Inl e)
        then have r: "r = Inl e" "w' = x" using rest imported k by (simp_all add: run_state_attempt)
        obtain evs where "log x = log v @ evs" "privileged evs = []"
          using harmlessD [OF only_runs_with_err [OF imported_key_rules(2)] k] by blast
        with r show ?thesis by (intro exI [of _ evs]) simp
      next
        case (Inr ok)
        with k obtain po where x: "log x = log v @ [Ran imported_key_request (Inr po)]"
            "pp_primary_fingerprint (pt_parts t) \<in> set (str_lines (po_stdout po))"
          using leavesD [OF leaves_with_err [OF imported_key_leaves]] by blast
        have "run_state ?replay x = (r, w')"
          using rest imported k Inr by (simp add: run_state_attempt)
        from run_step_run [OF this] x show ?thesis
          by (intro exI [of _ "[Ran imported_key_request (Inr po), Privileged (replay_argv t)]"]) auto
      qed
    qed
    then obtain rest where rest: "log w' = log v @ rest" and rest_ok: "privileged rest = [] \<and> r \<noteq> Inr ()
        \<or> (\<exists>po. rest = [Ran imported_key_request (Inr po), Privileged (replay_argv t)]
             \<and> pp_primary_fingerprint (pt_parts t) \<in> set (str_lines (po_stdout po)))" by blast
    let ?evs = "checks @ Privileged (key_import_argv t) # rest"
    have "replay_run (h_sha256 host) t approval ?evs"
      unfolding replay_run_def using checks False rest_ok by (auto simp: plan_empty_def)
    moreover have "r = Inr () \<longrightarrow> privileged ?evs = replay_steps t"
      using checks rest_ok by (auto simp: replay_steps_def privileged_def)
    ultimately show ?thesis using rest v checks by (intro exI [of _ ?evs]) simp
  qed
qed


section \<open>What a preparation keeps\<close>

text \<open>As \<open>accounts\<close>, for a result that does not name all the directories it leaves.\<close>

definition keeps :: "string multiset \<Rightarrow> ('a \<Rightarrow> string multiset \<Rightarrow> bool) \<Rightarrow> ('e, 'a) effect \<Rightarrow> bool" where
  "keeps k H m \<longleftrightarrow> (\<forall>w r w'. run_state m w = (r, w') \<and> k \<subseteq># live (log w) \<longrightarrow>
     (\<exists>x. H r x \<and> live (log w') = live (log w) - k + x))"

lemma keepsD: "keeps k H m \<Longrightarrow> run_state m w = (r, w') \<Longrightarrow> k \<subseteq># live (log w) \<Longrightarrow>
   \<exists>x. H r x \<and> live (log w') = live (log w) - k + x"
  by (simp add: keeps_def)

lemma accounts_keeps: "accounts k h m \<Longrightarrow> (\<And>r. H r (h r)) \<Longrightarrow> keeps k H m"
  unfolding accounts_def keeps_def by blast

lemma keeps_attempt:
  assumes m: "keeps k H m" and f: "\<And>a x. H (Inr a) x \<Longrightarrow> keeps x G (f a)"
    and e: "\<And>e x. H (Inl e) x \<Longrightarrow> G (Inl e) x"
  shows "keeps k G (attempt m f)"
  unfolding keeps_def
proof (intro allI impI, elim conjE)
  fix w r w'
  assume run: "run_state (attempt m f) w = (r, w')" and k: "k \<subseteq># live (log w)"
  obtain b u where b: "run_state m w = (b, u)" by (cases "run_state m w") blast
  from keepsD [OF m b k] obtain x where x: "H b x" "live (log u) = live (log w) - k + x" by blast
  show "\<exists>x. G r x \<and> live (log w') = live (log w) - k + x"
  proof (cases b)
    case (Inl e)
    with run b have "r = Inl e" "w' = u" by (simp_all add: run_state_attempt)
    with x Inl assms(3) show ?thesis by blast
  next
    case (Inr a)
    with run b have "run_state (f a) u = (r, w')" by (simp add: run_state_attempt)
    moreover have "x \<subseteq># live (log u)" by (simp add: x)
    ultimately obtain y where "G r y" "live (log w') = live (log u) - x + y"
      using keepsD [OF f] x Inr by blast
    with x show ?thesis by auto
  qed
qed

lemma keeps_tidy_then: "tidy m \<Longrightarrow> (\<And>a. keeps k G (f a)) \<Longrightarrow> (\<And>e. G (Inl e) k) \<Longrightarrow> keeps k G (attempt m f)"
  by (rule keeps_attempt [where H = "\<lambda>_ x. x = k"])
    (auto intro: accounts_keeps accounts_keep)

lemma keeps_with_err:
  assumes "keeps k H m" and "\<And>e x. H (Inl e) x \<Longrightarrow> G (Inl (g e)) x" and "\<And>a x. H (Inr a) x \<Longrightarrow> G (Inr a) x"
  shows "keeps k G (with_err g m)"
  using assms unfolding keeps_def
  by (auto simp: with_err_def map_err_def split: prod.splits sum.splits) blast+

lemma keeps_owning:
  assumes m: "keeps k H m" and "\<And>e x. H (Inl e) x \<Longrightarrow> G (Inl e) x"
    and "\<And>a x. H (Inr a) x \<Longrightarrow> G (Inr a) (add_mset d x)"
  shows "keeps (add_mset d k) G (owning host d m)"
  unfolding keeps_def
proof (intro allI impI, elim conjE)
  fix w r w'
  assume run: "run_state (owning host d m) w = (r, w')" and k: "add_mset d k \<subseteq># live (log w)"
  obtain b u where b: "run_state m w = (b, u)" by (cases "run_state m w") blast
  have k': "k \<subseteq># live (log w)" using k by (metis add_mset_add_single mset_subset_eq_add_left subset_mset.order_trans)
  obtain j where j: "live (log w) = add_mset d k + j" using k by (auto simp: subset_mset.le_iff_add)
  from keepsD [OF m b k'] obtain x where x: "H b x" "live (log u) = live (log w) - k + x" by blast
  show "\<exists>x. G r x \<and> live (log w') = live (log w) - add_mset d k + x"
  proof (cases b)
    case (Inl e)
    with run b have "r = Inl e" "run_state (remove_temp host d) u = ((), w')"
      by (auto simp: owning_def split: prod.splits)
    moreover have "{#d#} \<subseteq># live (log u)" by (simp add: x j)
    ultimately have "live (log w') = live (log u) - {#d#}"
      using accountsD [OF remove_temp_accounts] by fastforce
    with x Inl assms(2) \<open>r = Inl e\<close> show ?thesis by (intro exI [of _ x]) (simp add: j)
  next
    case (Inr a)
    with run b have "r = Inr a" "w' = u" by (simp_all add: owning_def)
    with x Inr assms(3) show ?thesis by (intro exI [of _ "add_mset d x"]) (simp add: j)
  qed
qed

lemma keeps_result:
  assumes "accounts k h m" and "\<And>w a w'. run_state m w = (Inr a, w') \<Longrightarrow> H (Inr a) (h (Inr a))"
    and "\<And>e. H (Inl e) (h (Inl e))"
  shows "keeps k H m"
  unfolding keeps_def
proof (intro allI impI, elim conjE)
  fix w r w'
  assume "run_state m w = (r, w')" "k \<subseteq># live (log w)"
  with accountsD [OF assms(1) this] assms(2,3) show "\<exists>x. H r x \<and> live (log w') = live (log w) - k + x"
    by (cases r) blast+
qed

lemma small_steps [simp]:
  "tidy (set_private host p)" "harmless (set_private host p)"
  "tidy (write_private host p b)" "harmless (write_private host p b)"
  "tidy (bind_file host p)" "harmless (bind_file host p)"
  "tidy (read_transaction host p)" "harmless (read_transaction host p)"
  "tidy (regular_or host p err)" "harmless (regular_or host p err)"
  "tidy (create_dir_all host p)" "harmless (create_dir_all host p)"
proof -
  show s: "tidy (set_private host p)" "harmless (set_private host p)" by (simp_all add: set_private_def)
  show "tidy (write_private host p b)" "harmless (write_private host p b)"
    unfolding write_private_def by (intro tidy_intros harmless_intros; simp add: s)+
  show "tidy (bind_file host p)" "harmless (bind_file host p)"
    unfolding bind_file_def by (intro tidy_intros harmless_intros; simp)+
  show "tidy (read_transaction host p)" "harmless (read_transaction host p)"
    unfolding read_transaction_def
    by (auto intro!: only_runs_bind accounts_bind [where h = "\<lambda>_. {#}"])
  show "tidy (regular_or host p err)" "harmless (regular_or host p err)"
    unfolding regular_or_def by (intro tidy_intros harmless_intros; simp)+
  show "tidy (create_dir_all host p)" "harmless (create_dir_all host p)"
    by (auto simp: create_dir_all_def intro!: tidy_quiet only_runs_bind only_does_emit)
qed

lemma snapshot_rules [simp]:
  "tidy (bind_cache_and_snapshot host planning expected rid repomd tree)"
  "harmless (bind_cache_and_snapshot host planning expected rid repomd tree)"
proof -
  have e: "tidy (snapshot_entry host a b r)" "harmless (snapshot_entry host a b r)" for a b r
    unfolding snapshot_entry_def Let_def by (intro tidy_intros harmless_intros; simp)+
  have c: "tidy (check_release_metadata host a b d)" "harmless (check_release_metadata host a b d)" for a b d
    unfolding check_release_metadata_def by (intro tidy_intros harmless_intros; simp)+
  have r: "tidy (snapshot_repository host ids rid repomd tree i)"
    "harmless (snapshot_repository host ids rid repomd tree i)" for ids i
    unfolding snapshot_repository_def Let_def
    by (intro tidy_intros harmless_intros; simp add: e c)+
  have d: "harmless (check_directory host err x)" for err x
    unfolding check_directory_def by (intro harmless_intros) simp_all
  show "tidy (bind_cache_and_snapshot host planning expected rid repomd tree)"
    "harmless (bind_cache_and_snapshot host planning expected rid repomd tree)"
    unfolding bind_cache_and_snapshot_def Let_def
    by (intro tidy_intros harmless_intros; simp add: r d)+
qed

lemma discover_rules [simp]:
  "tidy (discover_dependencies host to_value b input store)"
  "harmless (discover_dependencies host to_value b input store)"
proof -
  have "tidy (verify_rows host input store rows)" for rows
    by (induction rows) (auto simp: Let_def intro!: tidy_attempt split: option.split)
  moreover have "harmless (verify_rows host input store rows)" for rows
    by (induction rows) (auto simp: Let_def intro!: only_runs_attempt split: option.split)
  ultimately show "tidy (discover_dependencies host to_value b input store)"
    "harmless (discover_dependencies host to_value b input store)"
    unfolding discover_dependencies_def by (auto intro!: tidy_attempt only_runs_attempt)
qed

lemma compose_planned_rules [simp]:
  "tidy (compose_planned host tc input tree repos trust iv planning)"
  "harmless (compose_planned host tc input tree repos trust iv planning)"
  unfolding compose_planned_def Let_def
  by (intro tidy_intros harmless_intros; simp split: option.split)+

lemma compose_planned_parts:
  "run_state (compose_planned host tc input tree repos trust iv planning) w = (Inr parts, w') \<Longrightarrow>
     pp_trust parts = trust \<and> pp_planning parts = planning"
  by (auto simp: compose_planned_def Let_def attempt_Inr)

definition lost :: "string multiset \<Rightarrow> bool" where
  "lost x \<longleftrightarrow> x = {#} \<or> (\<exists>d. x = {#d#})"

definition parts_hold :: "project_trust \<Rightarrow> (install_error, prepared_parts) result \<Rightarrow> string multiset \<Rightarrow> bool"
where
  "parts_hold trust r x \<longleftrightarrow> (case r of Inl _ \<Rightarrow> lost x
     | Inr parts \<Rightarrow> pp_trust parts = trust \<and> x = {#diagnostics (pp_planning parts)#})"

lemma compose_trusted_keeps:
  assumes planner: "\<And>q. accounts {#} planning_holds (planner q)"
  shows "keeps {#} (parts_hold trust) (compose_trusted host tc planner input tree repos trust)"
proof -
  have planned: "keeps {#diagnostics planning#} (parts_hold trust) (owning host (diagnostics planning)
      (compose_planned host tc input tree repos trust iv planning))" for planning iv
  proof (rule keeps_owning)
    show "keeps {#} (\<lambda>r x. x = {#} \<and> (case r of Inl _ \<Rightarrow> True
          | Inr parts \<Rightarrow> pp_trust parts = trust \<and> pp_planning parts = planning))
        (compose_planned host tc input tree repos trust iv planning)"
      by (rule keeps_result [OF compose_planned_rules(1)]) (auto dest: compose_planned_parts)
  qed (auto simp: parts_hold_def lost_def)
  have plan: "keeps {#} (\<lambda>r x. case r of Inl _ \<Rightarrow> lost x | Inr planning \<Rightarrow> x = {#diagnostics planning#})
      (with_err pf_error (planner q))" for q
    by (rule keeps_with_err [OF accounts_keeps [OF planner, where H = "\<lambda>r x. x = planning_holds r"]])
      (auto simp: planning_holds_def lost_def split: option.split)
  show ?thesis
    unfolding compose_trusted_def
    apply (rule keeps_tidy_then, intro tidy_each tidy_with_err tidy_create_dir)
     apply (rule keeps_tidy_then, simp)
      apply (rule keeps_tidy_then, simp)
       apply (rule keeps_tidy_then, simp)
        apply (rule keeps_tidy_then, simp)
         apply (rule keeps_attempt [OF plan])
          apply (auto simp: parts_hold_def lost_def intro: planned)
    done
qed

lemma compose_keeps:
  assumes planner: "\<And>q. accounts {#} planning_holds (planner q)"
  shows "keeps {#} (\<lambda>r x. case r of Inl _ \<Rightarrow> lost x
       | Inr parts \<Rightarrow> x = {#pt_directory (pp_trust parts), diagnostics (pp_planning parts)#})
     (compose host tc planner input tree)"
proof -
  have owned: "keeps {#pt_directory trust#} (\<lambda>r x. case r of Inl _ \<Rightarrow> lost x
       | Inr parts \<Rightarrow> x = {#pt_directory (pp_trust parts), diagnostics (pp_planning parts)#})
     (owning host (pt_directory trust) (compose_trusted host tc planner input tree repos trust))"
    for trust repos
    by (rule keeps_owning [OF compose_trusted_keeps [OF planner]]) (auto simp: parts_hold_def)
  have trust: "keeps {#} (\<lambda>r x. x = held (\<lambda>t. {#pt_directory t#}) r)
      (from_armored_key host key primary)" for key primary
    by (rule accounts_keeps [OF from_armored_key_accounts]) simp
  have sources: "tidy (check_sources host f i)" for f i
    unfolding check_sources_def Let_def by (intro tidy_intros) simp_all
  have "tidy (case pi_fedora input of None \<Rightarrow> pure (Inr [])
      | Some fedora \<Rightarrow> check_sources host fedora i)" for i
    by (simp add: sources split: option.split)
  then show ?thesis
    unfolding compose_def Let_def
    apply (intro keeps_tidy_then [OF tidy_pure(1)])
     apply (rule keeps_tidy_then, assumption)
      apply (rule keeps_attempt [OF trust])
       apply (auto simp: lost_def intro: owned)
    done
qed

text \<open>
  A prepared transaction holds its tree, its trust and its workspace; a failure holds the tree it
  names, and at most one more directory, the workspace of a failed planning run.
\<close>

definition preparation_holds :: "(prepare_failure, prepared_transaction) result \<Rightarrow> string multiset
    \<Rightarrow> bool" where
  "preparation_holds r x \<longleftrightarrow> (case r of
       Inl f \<Rightarrow> (case pe_diagnostics f of None \<Rightarrow> x = {#}
                | Some tree \<Rightarrow> x = {#tree#} \<or> (\<exists>workspace. x = {#tree, workspace#}))
     | Inr t \<Rightarrow> x = {#pt_tree t, pt_directory (pp_trust (pt_parts t)),
                     diagnostics (pp_planning (pt_parts t))#})"

lemma keeps_frame:
  assumes "keeps k H m" shows "keeps (k + j) (\<lambda>r y. \<exists>x. y = x + j \<and> H r x) m"
  unfolding keeps_def
proof (intro allI impI, elim conjE)
  fix w r w'
  assume r: "run_state m w = (r, w')" and s: "k + j \<subseteq># live (log w)"
  then have "k \<subseteq># live (log w)" by (meson mset_subset_eq_add_left subset_mset.order_trans)
  from keepsD [OF assms r this] obtain x where "H r x" "live (log w') = live (log w) - k + x" by blast
  with s show "\<exists>y. (\<exists>x. y = x + j \<and> H r x) \<and> live (log w') = live (log w) - (k + j) + y"
    by (intro exI [of _ "x + j"]) (auto simp: subset_mset.le_iff_add union_ac)
qed

lemma prepare_keeps:
  assumes planner: "\<And>q. accounts {#} planning_holds (planner q)"
  shows "keeps {#} preparation_holds (prepare_with host tc planner input at)"
  unfolding prepare_with_def
proof (rule keeps_attempt)
  show "keeps {#} (\<lambda>r x. case r of Inl f \<Rightarrow> pe_diagnostics f = None \<and> x = {#} | Inr tree \<Rightarrow> x = {#tree#})
      (with_err (\<lambda>_. \<lparr>pe_error = integrity ''cannot create the private preparation tree'',
         pe_diagnostics = None\<rparr>) (make_temp host ''intel-npu-prepare-''))"
    by (rule keeps_with_err [OF accounts_keeps [OF make_temp_accounts,
          where H = "\<lambda>r x. x = held (\<lambda>d. {#d#}) r"]]) simp_all
  fix tree x
  assume "case (Inr tree :: (prepare_failure, string) result) of
      Inl f \<Rightarrow> pe_diagnostics f = None \<and> x = {#} | Inr tree \<Rightarrow> x = {#tree#}"
  then have x: "x = {#tree#}" by simp
  have "keeps ({#} + {#tree#}) (\<lambda>r y. case r of
       Inl f \<Rightarrow> pe_diagnostics f = Some tree \<and> (y = {#tree#} \<or> (\<exists>d. y = {#tree, d#}))
     | Inr parts \<Rightarrow> y = {#tree, pt_directory (pp_trust parts), diagnostics (pp_planning parts)#})
     (with_err (\<lambda>e. \<lparr>pe_error = e, pe_diagnostics = Some tree\<rparr>) (compose host tc planner input tree))"
    by (rule keeps_with_err [OF keeps_frame [OF compose_keeps [OF planner], of "{#tree#}"]])
      (auto simp: lost_def add_mset_commute)
  then show "keeps x preparation_holds (attempt
      (with_err (\<lambda>e. \<lparr>pe_error = e, pe_diagnostics = Some tree\<rparr>) (compose host tc planner input tree))
      (\<lambda>parts. pure (Inr \<lparr>pt_address = at, pt_tree = tree, pt_parts = parts\<rparr>)))"
    unfolding x
    by (simp, elim keeps_attempt)
      (auto simp: preparation_holds_def keeps_def)
qed (auto simp: preparation_holds_def)

end
