(* ===== verification/Lifecycle.thy ===== *)
theory Lifecycle
  imports Manifest Inventory
begin

text \<open>
  \<open>crates/stack-install/src/lifecycle.rs\<close>: the check of the installed packages after the native
  transaction, and the activation work it leaves.
\<close>

record lifecycle_report =
  lr_verified :: "string list"
  lr_pending_reboot :: "string list"
  lr_pending_relogin :: "string list"

definition verify_failed :: "string \<Rightarrow> install_error" where
  "verify_failed m = install_err 21 ''INSTALL_VERIFY_FAILED'' m"

definition entries_of :: "native_inventory \<Rightarrow> string \<Rightarrow> installed_rpm list" where
  "entries_of iv name = filter (\<lambda>k. rpm_name k = name) (ni_packages iv)"

definition exact_entry :: "native_inventory \<Rightarrow> release_package \<Rightarrow> installed_rpm option" where
  "exact_entry iv p =
     find (\<lambda>k. rpm_evr k = rp_nevr p \<and> rpm_arch k = rp_arch p) (entries_of iv (rp_name p))"

definition untouched :: "native_inventory \<Rightarrow> installed_rpm \<Rightarrow> bool" where
  "untouched before matched = list_ex (\<lambda>k. rpm_name k = rpm_name matched \<and> rpm_evr k = rpm_evr matched
     \<and> rpm_arch k = rpm_arch matched \<and> rpm_install_time k = rpm_install_time matched)
     (ni_packages before)"

text \<open>The loop over the selection, with the sets the code fills: the names verified and those changed.\<close>

fun verify_selected :: "native_inventory \<Rightarrow> native_inventory \<Rightarrow> release_package list \<Rightarrow> string list
    \<Rightarrow> string set \<Rightarrow> (install_error, string list \<times> string set) result" where
  "verify_selected before after [] verified changed = Inr (verified, changed)"
| "verify_selected before after (p # ps) verified changed =
     (let entries = entries_of after (rp_name p) in
      case exact_entry after p of
        None \<Rightarrow> Inl (verify_failed
          ''an expected release package is missing, at the wrong version, or duplicated'')
      | Some matched \<Rightarrow>
          if list_ex (\<lambda>k. rpm_evr k \<noteq> rp_nevr p) entries
          then Inl (verify_failed
            ''an expected release package is missing, at the wrong version, or duplicated'')
          else verify_selected before after ps (verified @ [rp_name p])
                 (if untouched before matched then changed else insert (rpm_name matched) changed))"

definition snapshot :: "string \<Rightarrow> native_inventory \<Rightarrow> (string \<times> string \<times> u64) list" where
  "snapshot name iv = map (\<lambda>k. (rpm_evr k, rpm_arch k, rpm_install_time k)) (entries_of iv name)"

definition verify_outside :: "native_inventory \<Rightarrow> native_inventory \<Rightarrow> string set \<Rightarrow> release_package
    \<Rightarrow> (install_error, unit) result" where
  "verify_outside before after selected_names p =
     (if rp_name p \<in> selected_names then Inr ()
      else ensure (snapshot (rp_name p) before = snapshot (rp_name p) after)
        (verify_failed ''a release package outside the selection changed during the transaction''))"

definition pending :: "activation_requirement \<Rightarrow> string set \<Rightarrow> profile \<Rightarrow> string list" where
  "pending a changed p = map fst (filter (\<lambda>e. np_package (cr_provider (snd e)) \<in> changed
     \<and> np_activation (cr_provider (snd e)) = a) (p_components p))"

definition verify_installation :: "manifest_document \<Rightarrow> bool \<Rightarrow> bool \<Rightarrow> profile \<Rightarrow> native_inventory
    \<Rightarrow> native_inventory \<Rightarrow> (install_error, lifecycle_report) result" where
  "verify_installation d with_python with_devel p before after =
     and_then (selected_packages d with_python with_devel) (\<lambda>selected.
     and_then (verify_selected before after selected [] {}) (\<lambda>(verified, changed).
     and_then (check_each (verify_outside before after (set (map rp_name selected)))
       (mf_packages d)) (\<lambda>_.
     Inr \<lparr>lr_verified = verified, lr_pending_reboot = pending Reboot changed p,
          lr_pending_relogin = pending Relogin changed p\<rparr>)))"

section \<open>What a verified installation is\<close>

text \<open>The package is installed at its exact identity and its name at no other version.\<close>

definition installed_exactly :: "native_inventory \<Rightarrow> release_package \<Rightarrow> bool" where
  "installed_exactly iv p =
     ((\<exists>k \<in> set (ni_packages iv). rpm_name k = rp_name p \<and> rpm_evr k = rp_nevr p
         \<and> rpm_arch k = rp_arch p)
      \<and> (\<forall>k \<in> set (ni_packages iv). rpm_name k = rp_name p \<longrightarrow> rpm_evr k = rp_nevr p))"

text \<open>The first installed record of the package is not one of the records of before.\<close>

definition newly_installed :: "native_inventory \<Rightarrow> native_inventory \<Rightarrow> release_package \<Rightarrow> bool" where
  "newly_installed before after p =
     (\<exists>k. exact_entry after p = Some k \<and> k \<notin> set (ni_packages before))"

definition changed_names :: "native_inventory \<Rightarrow> native_inventory \<Rightarrow> release_package list \<Rightarrow> string set" where
  "changed_names before after ps = rp_name ` {p \<in> set ps. newly_installed before after p}"

lemma untouched_iff: "untouched before k \<longleftrightarrow> k \<in> set (ni_packages before)"
proof -
  have "rpm_name j = rpm_name k \<and> rpm_evr j = rpm_evr k \<and> rpm_arch j = rpm_arch k
      \<and> rpm_install_time j = rpm_install_time k \<longleftrightarrow> j = k" for j
    by (cases j; cases k) auto
  then show ?thesis by (auto simp: untouched_def list_ex_iff)
qed

lemma exact_entry_Some:
  "exact_entry iv p = Some k \<Longrightarrow> k \<in> set (ni_packages iv) \<and> rpm_name k = rp_name p
     \<and> rpm_evr k = rp_nevr p \<and> rpm_arch k = rp_arch p"
  by (auto simp: exact_entry_def entries_of_def find_Some_iff dest!: nth_mem)

lemma exact_entry_None:
  "exact_entry iv p = None \<longleftrightarrow> \<not> (\<exists>k \<in> set (ni_packages iv). rpm_name k = rp_name p
     \<and> rpm_evr k = rp_nevr p \<and> rpm_arch k = rp_arch p)"
  by (auto simp: exact_entry_def entries_of_def find_None_iff)

lemma installed_exactly_iff:
  "installed_exactly iv p \<longleftrightarrow> exact_entry iv p \<noteq> None
     \<and> \<not> list_ex (\<lambda>k. rpm_evr k \<noteq> rp_nevr p) (entries_of iv (rp_name p))"
  by (auto simp: installed_exactly_def exact_entry_None list_ex_iff entries_of_def)

lemma verify_selected_Inr:
  "verify_selected before after ps verified changed = Inr r \<longleftrightarrow>
     list_all (installed_exactly after) ps
     \<and> r = (verified @ map rp_name ps, changed \<union> changed_names before after ps)"
proof (induction ps arbitrary: verified changed)
  case (Cons p ps)
  show ?case
  proof (cases "exact_entry after p")
    case None
    then show ?thesis by (simp add: installed_exactly_iff)
  next
    case (Some k)
    have name: "rpm_name k = rp_name p" using exact_entry_Some [OF Some] by simp
    have "(if untouched before k then changed else insert (rpm_name k) changed)
        \<union> changed_names before after ps = changed \<union> changed_names before after (p # ps)"
      using Some name by (auto simp: untouched_iff changed_names_def newly_installed_def)
    with Some Cons show ?thesis
      by (auto simp: installed_exactly_iff Let_def)
  qed
qed (auto simp: changed_names_def)

lemma verify_installation_Inr:
  "verify_installation d py dv p before after = Inr r \<longleftrightarrow>
     (\<exists>selected. selected_packages d py dv = Inr selected
        \<and> list_all (installed_exactly after) selected
        \<and> (\<forall>k \<in> set (mf_packages d). rp_name k \<notin> rp_name ` set selected \<longrightarrow>
             snapshot (rp_name k) before = snapshot (rp_name k) after)
        \<and> r = \<lparr>lr_verified = map rp_name selected,
               lr_pending_reboot = pending Reboot (changed_names before after selected) p,
               lr_pending_relogin = pending Relogin (changed_names before after selected) p\<rparr>)"
  by (auto simp: verify_installation_def verify_selected_Inr verify_outside_def check_each_Inr
      split: prod.splits if_splits)

end
