(* ===== verification/Installer.thy ===== *)
theory Installer
  imports Replay_Laws Lifecycle
begin

text \<open>
  \<open>crates/stack-install/src/main.rs\<close> and \<open>trust.rs\<close>: the installer from its parsed options to its
  exit code. What it is given is a \<open>program\<close>: the host, the answers of the system to the reads of
  the platform detection, standard output with the terminal, standard error, the decoders of the
  documents, and the bytes of \<open>trust/release-public.asc\<close>, which the build includes.
\<close>

record 'e program =
  pg_host :: "'e host"
  pg_native :: "'e native_ops"
  pg_facts :: "'e \<Rightarrow> fs_view \<times> 'e"
  pg_arch :: string
  pg_console :: "'e console"
  pg_stderr :: "string \<Rightarrow> 'e \<Rightarrow> (io_error, unit) result \<times> 'e"
  pg_executor :: "'e executor"
  pg_decoders :: decoders
  pg_codec :: transaction_codec
  pg_keyring :: bytes

section \<open>The compiled-in trust\<close>

definition VERSION :: string where "VERSION = ''0.1.1''"

definition BASE_URL :: string where
  "BASE_URL = ''https://archledger.github.io/intel-npu-stack/0.1.1/''"

definition METADATA_SHA256 :: string where
  "METADATA_SHA256 = ''0000000000000000000000000000000000000000000000000000000000000000''"

definition PRIMARY_FINGERPRINT :: string where
  "PRIMARY_FINGERPRINT = ''1085FBE578732D1CF0C50417A8FE2F718B8763D8''"

definition pinned_location :: "bytes \<Rightarrow> release_location" where
  "pinned_location keyring = \<lparr>rl_version = VERSION, rl_base_url = BASE_URL,
     rl_metadata_sha256 = METADATA_SHA256, rl_primary_fingerprint = PRIMARY_FINGERPRINT,
     rl_keyring = keyring\<rparr>"

section \<open>Output whose failure is ignored\<close>

definition say :: "'e program \<Rightarrow> string \<Rightarrow> ('e, unit) effect" where
  "say p line = do { _ \<leftarrow> display (pg_console p) (line @ [nl]); State_Monad.return () }"

definition warn :: "'e program \<Rightarrow> string \<Rightarrow> ('e, unit) effect" where
  "warn p line = do { _ \<leftarrow> observe (pg_stderr p (line @ [nl])); State_Monad.return () }"

fun say_each :: "'e program \<Rightarrow> string list \<Rightarrow> ('e, unit) effect" where
  "say_each p [] = State_Monad.return ()"
| "say_each p (line # rest) = do { say p line; say_each p rest }"

definition display_privileged_steps :: "'e program \<Rightarrow> prepared_transaction \<Rightarrow> ('e, unit) effect" where
  "display_privileged_steps p t = do {
     say p ''The following privileged steps will now run; the native tools may ask for your password on this terminal:'';
     say_each p (map (\<lambda>step. ''  '' @ join_on '' '' step) (replay_steps t))
   }"

definition report_diagnostics :: "'e program \<Rightarrow> string option \<Rightarrow> ('e, unit) effect" where
  "report_diagnostics p d = (case d of
       None \<Rightarrow> State_Monad.return ()
     | Some path \<Rightarrow> warn p (''intel-npu-stack-install: retained diagnostics in '' @ path))"

section \<open>The directories of a prepared transaction\<close>

text \<open>The drop of a prepared transaction, and the move that keeps its tree and drops the rest.\<close>

definition drop_prepared :: "'e host \<Rightarrow> prepared_transaction \<Rightarrow> ('e, unit) effect" where
  "drop_prepared host t = do {
     remove_temp host (pt_tree t);
     remove_temp host (pt_directory (pp_trust (pt_parts t)));
     remove_temp host (diagnostics (pp_planning (pt_parts t)))
   }"

definition preserve :: "'e host \<Rightarrow> prepared_transaction \<Rightarrow> ('e, string) effect" where
  "preserve host t = do {
     remove_temp host (pt_directory (pp_trust (pt_parts t)));
     remove_temp host (diagnostics (pp_planning (pt_parts t)));
     State_Monad.return (pt_tree t)
   }"

section \<open>The installation\<close>

definition discovery_failed :: install_error where
  "discovery_failed = install_err 30 ''INSTALL_PLATFORM_DISCOVERY_FAILED''
     ''native platform facts could not be discovered''"

definition discover :: "'e program \<Rightarrow> ('e, (install_error, platform_facts) result) effect" where
  "discover p = with_err (\<lambda>_. discovery_failed) (observe (\<lambda>e. case pg_facts p e of
      (fs, e') \<Rightarrow> (detect_platform fs ''/'' (pg_arch p), e')))"

definition show_int :: "int \<Rightarrow> string" where
  "show_int i = (if i < 0 then CHR ''-'' # show_nat (nat (- i)) else show_nat (nat i))"

text \<open>An \<open>Option<i32>\<close> as its debug output.\<close>

definition status_text :: "int option \<Rightarrow> string" where
  "status_text s = (case s of None \<Rightarrow> ''None'' | Some code \<Rightarrow> ''Some('' @ show_int code @ '')'')"

definition report_lines :: "lifecycle_report \<Rightarrow> string list" where
  "report_lines r =
     [''Native replay complete; verified '' @ show_nat (length (lr_verified r)) @ '' release package(s).'']
     @ (if lr_pending_reboot r = [] then [] else [''Reboot required before these components become active: ''
          @ join_on '', '' (lr_pending_reboot r) @ ''.''])
     @ (if lr_pending_relogin r = [] then [] else [''Relogin required before these components become active: ''
          @ join_on '', '' (lr_pending_relogin r) @ ''.''])"

definition verify_after :: "'e program \<Rightarrow> install_options \<Rightarrow> verified_release \<Rightarrow> native_inventory
    \<Rightarrow> ('e, (install_error, u8) result) effect" where
  "verify_after p opts release before =
     attempt (query_inventory (h_sha256 (pg_host p)) (h_runner (pg_host p))) (\<lambda>after.
     attempt (pure (verify_installation (vr_manifest release) (io_with_python opts) (io_with_devel opts)
       (vr_profile release) before after)) (\<lambda>report. do {
     say_each p (report_lines report);
     pure (Inr 0)
   }))"

definition install_reviewed :: "'e program \<Rightarrow> install_options \<Rightarrow> verified_release \<Rightarrow> native_inventory
    \<Rightarrow> prepared_transaction \<Rightarrow> plan_review \<Rightarrow> ('e, (install_error, u8) result) effect" where
  "install_reviewed p opts release before t review = (case review of
       Dry_Run \<Rightarrow> do {
         say p ''Dry run complete; nothing was installed.'';
         drop_prepared (pg_host p) t;
         pure (Inr 0)
       }
     | No_Changes \<Rightarrow> do {
         say p ''Nothing to install; the exact profile is already present.'';
         drop_prepared (pg_host p) t;
         pure (Inr 0)
       }
     | Approved receipt \<Rightarrow> do {
         display_privileged_steps p t;
         r \<leftarrow> execute_replay (pg_host p) (pg_executor p) t receipt;
         (case r of
            Inr _ \<Rightarrow> do {
              verdict \<leftarrow> verify_after p opts release before;
              drop_prepared (pg_host p) t;
              pure verdict
            }
          | Inl failure \<Rightarrow> do {
              retained \<leftarrow> preserve (pg_host p) t;
              warn p (''intel-npu-stack-install: native exit '' @ status_text (rf_status failure)
                @ ''; retained '' @ retained);
              pure (Inl (rf_error failure))
            })
       })"

definition install_prepared :: "'e program \<Rightarrow> install_options \<Rightarrow> verified_release \<Rightarrow> native_inventory
    \<Rightarrow> prepared_transaction \<Rightarrow> ('e, (install_error, u8) result) effect" where
  "install_prepared p opts release before t = do {
     r \<leftarrow> review_plan (pg_console p) (plan_of t) opts;
     (case r of
        Inl e \<Rightarrow> do { drop_prepared (pg_host p) t; pure (Inl e) }
      | Inr review \<Rightarrow> install_reviewed p opts release before t review)
   }"

definition prepare_reported :: "'e program \<Rightarrow> prepare_input
    \<Rightarrow> ('e, (install_error, prepared_transaction) result) effect" where
  "prepare_reported p input = do {
     r \<leftarrow> prepare (pg_host p) (pg_native p) (pg_codec p) input 0;
     (case r of
        Inl failure \<Rightarrow> do {
          report_diagnostics p (pe_diagnostics failure);
          pure (Inl (pe_error failure))
        }
      | Inr t \<Rightarrow> pure (Inr t))
   }"

definition install_input :: "'e program \<Rightarrow> verified_release \<Rightarrow> release_package list \<Rightarrow> fedora_sources
    \<Rightarrow> prepare_input" where
  "install_input p release packages fedora = \<lparr>pi_manifest = vr_manifest release,
     pi_project_key = pg_keyring p, pi_primary_fingerprint = PRIMARY_FINGERPRINT,
     pi_packages = packages, pi_fedora = Some fedora\<rparr>"

definition install :: "'e program \<Rightarrow> install_options \<Rightarrow> ('e, (install_error, u8) result) effect" where
  "install p opts =
     attempt (fetch_release (pg_host p) (pg_decoders p) (pinned_location (pg_keyring p))) (\<lambda>release.
     attempt (discover p) (\<lambda>facts.
     attempt (pure (validate_request opts facts [vr_profile release])) (\<lambda>_.
     attempt (pure (selected_packages (vr_manifest release) (io_with_python opts) (io_with_devel opts)))
       (\<lambda>packages.
     attempt (verify_sources_at (pg_host p) ''/etc'' ''44'' ''x86_64'') (\<lambda>fedora.
     attempt (query_inventory (h_sha256 (pg_host p)) (h_runner (pg_host p))) (\<lambda>before.
     attempt (prepare_reported p (install_input p release packages fedora)) (\<lambda>t.
     install_prepared p opts release before t)))))))"

definition main :: "'e program \<Rightarrow> install_options \<Rightarrow> ('e, u8) effect" where
  "main p opts = do {
     r \<leftarrow> install p opts;
     (case r of
        Inr code \<Rightarrow> State_Monad.return code
      | Inl e \<Rightarrow> do {
          warn p (''intel-npu-stack-install: '' @ ie_message e @ '' ['' @ ie_code e @ '']'');
          State_Monad.return (ie_exit_code e)
        })
   }"

end
