(* ===== verification/Install_Laws.thy ===== *)
theory Install_Laws
  imports Installer
begin

text \<open>
  What a program that installs the pinned release promises: nothing privileged happens before the
  approval of a plan that comes from the release, was verified and was shown; a success was verified
  against the inventory; and what private directories are left. The locale \<open>release_program\<close> is the
  contract of such a program; the interpretation \<open>installer\<close> gives it for \<open>main.rs\<close>.
\<close>

section \<open>Steps before the approval\<close>

lemma sources_rules [simp]:
  "tidy (verify_sources_at host etc releasever basearch)"
  "harmless (verify_sources_at host etc releasever basearch)"
proof -
  have b: "tidy (bind_source host f)" "harmless (bind_source host f)" for f
    unfolding bind_source_def resolve_source_def
    by (auto intro!: tidy_intros harmless_intros only_runs_bind accounts_bind [where h = "\<lambda>_. {#}"])
  have p: "tidy (parse_repository host rv rs f i)" "harmless (parse_repository host rv rs f i)"
    for rv rs f i
    unfolding parse_repository_def by (intro tidy_intros harmless_intros; simp)+
  have r: "harmless_request (source_request q files)" if "q \<in> {''-qf'', ''-Vf''}" for q files
    using that by (auto simp: harmless_request_def source_request_def)
  have "tidy (probe_sources host files q)" for q files
    unfolding probe_sources_def by (intro tidy_intros) simp_all
  with b p show "tidy (verify_sources_at host etc releasever basearch)"
    unfolding verify_sources_at_def Let_def by (auto intro!: tidy_intros)
  have "harmless (probe_sources host files (''-qf'', False))"
    "harmless (probe_sources host files (''-Vf'', True))" for files
    unfolding probe_sources_def by (auto intro!: harmless_intros r)
  with b p show "harmless (verify_sources_at host etc releasever basearch)"
    unfolding verify_sources_at_def Let_def by (auto intro!: harmless_intros)
qed

lemma prepare_harmless [simp]: "harmless (prepare host ops tc input at)"
proof -
  have sources: "harmless (check_sources host f i)" for f i
    unfolding check_sources_def Let_def by (intro harmless_intros) simp_all
  have trusted: "harmless (compose_trusted host tc (plan_downloads host ops) input tree repos trust)"
    for tree repos trust
    unfolding compose_trusted_def
    by (intro harmless_intros) (simp_all add: plan_downloads_harmless)
  have "harmless (compose host tc (plan_downloads host ops) input tree)" for tree
    unfolding compose_def Let_def
    by (auto intro!: harmless_intros sources trusted split: option.split)
  then show ?thesis
    unfolding prepare_def prepare_with_def by (intro harmless_intros) simp_all
qed

lemma output_rules [simp]:
  "tidy (say p line)" "harmless (say p line)" "tidy (warn p line)" "harmless (warn p line)"
  "tidy (say_each p ls)" "harmless (say_each p ls)"
  "tidy (display_privileged_steps p t)" "harmless (display_privileged_steps p t)"
  "tidy (report_diagnostics p d)" "harmless (report_diagnostics p d)"
  "tidy (discover p)" "harmless (discover p)"
  "tidy (verify_after p opts release before)" "harmless (verify_after p opts release before)"
proof -
  have d: "tidy (display cs t)" "harmless (display cs t)" for cs :: "'a console" and t
    unfolding display_def
    by (auto intro!: tidy_quiet only_runs_attempt only_runs_bind only_does_emit)
  show s: "tidy (say p line)" "harmless (say p line)" for line
    unfolding say_def by (auto intro!: accounts_bind [where h = "\<lambda>_. {#}"] only_runs_bind d)
  show w: "tidy (warn p line)" "harmless (warn p line)" for line
    unfolding warn_def by (auto intro!: accounts_bind [where h = "\<lambda>_. {#}"] only_runs_bind)
  show e: "tidy (say_each p ls)" for ls
    by (induction ls) (auto intro!: accounts_bind [where h = "\<lambda>_. {#}"] s)
  show f: "harmless (say_each p ls)" for ls
    by (induction ls) (auto intro!: only_runs_bind s)
  show "tidy (display_privileged_steps p t)" "harmless (display_privileged_steps p t)"
    unfolding display_privileged_steps_def
    by (auto intro!: accounts_bind [where h = "\<lambda>_. {#}"] only_runs_bind s e f)
  show "tidy (report_diagnostics p d)" "harmless (report_diagnostics p d)"
    unfolding report_diagnostics_def by (auto intro!: w split: option.split)
  show "tidy (discover p)" "harmless (discover p)"
    unfolding discover_def by (auto intro!: tidy_intros harmless_intros)
  show "tidy (verify_after p opts release before)" "harmless (verify_after p opts release before)"
    unfolding verify_after_def
    by (auto intro!: tidy_intros harmless_intros accounts_bind [where h = "\<lambda>_. {#}"] only_runs_bind e f)
qed

lemma drop_rules [simp]: "harmless (drop_prepared host t)" "harmless (preserve host t)"
  unfolding drop_prepared_def preserve_def by (auto intro!: only_runs_bind)

section \<open>What happened somewhere in a trace\<close>

definition seen :: "(event list \<Rightarrow> bool) \<Rightarrow> event list \<Rightarrow> bool" where
  "seen P evs \<longleftrightarrow> (\<exists>a es b. evs = a @ es @ b \<and> P es)"

lemma seen_here: "P es \<Longrightarrow> seen P es"
  unfolding seen_def by (intro exI [of _ "[]"] exI [of _ es]) simp

lemma seen_later: "seen P es \<Longrightarrow> seen P (pre @ es)"
  unfolding seen_def by (metis append_assoc)

lemma seen_before: "seen P es \<Longrightarrow> seen P (es @ post)"
  unfolding seen_def by (metis append_assoc)

lemma seen_weaken: "seen P es \<Longrightarrow> (\<And>xs. P xs \<Longrightarrow> Q xs) \<Longrightarrow> seen Q es"
  unfolding seen_def by blast

lemma leaves_any: "harmless m \<Longrightarrow> leaves (\<lambda>_ _. True) m"
  unfolding leaves_def by (auto dest: harmlessD)

lemma leaves_given:
  assumes "leaves P m" "\<And>a xs. P a xs \<Longrightarrow> leaves (Q a) (f a)"
    and "\<And>a b xs ys. P a xs \<Longrightarrow> Q a b ys \<Longrightarrow> R b (xs @ ys)"
  shows "leaves R (attempt m f)"
  unfolding leaves_def
proof (intro allI impI)
  fix w b w'
  assume "run_state (attempt m f) w = (Inr b, w')"
  then obtain a u where a: "run_state m w = (Inr a, u)" "run_state (f a) u = (Inr b, w')"
    by (auto simp: attempt_Inr)
  from leavesD [OF assms(1) a(1)] obtain xs where x: "log u = log w @ xs" "P a xs" by blast
  from leavesD [OF assms(2) [OF x(2)] a(2)] obtain ys where "log w' = log u @ ys" "Q a b ys" by blast
  with x assms(3) show "\<exists>evs. log w' = log w @ evs \<and> R b evs"
    by (intro exI [of _ "xs @ ys"]) simp
qed

lemma leaves_step:
  "leaves P m \<Longrightarrow> (\<And>a. leaves (Q a) (f a)) \<Longrightarrow> (\<And>a b xs ys. P a xs \<Longrightarrow> Q a b ys \<Longrightarrow> R b (xs @ ys)) \<Longrightarrow>
   leaves R (attempt m f)"
  by (rule leaves_given)

text \<open>A step that only adds to the log, before the steps that count.\<close>

lemma leaves_skip:
  assumes "harmless m" "\<And>a. leaves Q (f a)" "\<And>b xs ys. Q b ys \<Longrightarrow> Q b (xs @ ys)"
  shows "leaves Q (attempt m f)"
  by (rule leaves_step [OF leaves_any [OF assms(1)] assms(2)]) (rule assms(3))

section \<open>What a prepared transaction is\<close>

text \<open>
  A dependency of the plan: the package whose digest and signature by the Fedora key were checked.
\<close>

definition fedora_checked :: "(bytes \<Rightarrow> string) \<Rightarrow> release_package \<Rightarrow> event list \<Rightarrow> bool" where
  "fedora_checked sha256 p es \<longleftrightarrow>
     (\<exists>path. rpm_trace sha256 path (rp_sha256 p) None [FEDORA_SIGNATURE] p es)"

definition fedora_seen :: "(bytes \<Rightarrow> string) \<Rightarrow> event list \<Rightarrow> release_package \<Rightarrow> bool" where
  "fedora_seen sha256 evs p \<longleftrightarrow> native_package p
     \<and> seen (fedora_checked sha256 p) evs"

text \<open>
  The plan covers the selected packages and the dependencies, against an inventory that was
  observed, and every signature was checked.
\<close>

definition parts_ok :: "(bytes \<Rightarrow> string) \<Rightarrow> prepare_input \<Rightarrow> string \<Rightarrow> prepared_parts \<Rightarrow> event list \<Rightarrow> bool"
where
  "parts_ok sha256 input tree parts evs \<longleftrightarrow> (\<exists>inventory dependencies. list_all package_ok (pi_packages input)
     \<and> seen (observed_inventory sha256 inventory) evs
     \<and> list_all (fedora_seen sha256 evs) dependencies
     \<and> plan_covers inventory (pi_packages input @ dependencies) (pi_packages input)
         (rr_id (mf_repository (pi_manifest input))) evs (pp_plan parts)
     \<and> seen (signatures_checked sha256 (path_join tree ''store'') (pp_trust parts) (pp_plan parts)) evs)"

lemma fedora_seen_mono: "fedora_seen sha256 es p \<Longrightarrow> fedora_seen sha256 (pre @ es @ post) p"
  unfolding fedora_seen_def by (blast intro: seen_later seen_before)

lemma fedora_grow:
  "list_all (fedora_seen sha256 ys) ps \<Longrightarrow> list_all (fedora_seen sha256 (xs @ ys)) ps"
  by (erule list.pred_mono_strong) (use fedora_seen_mono [where post = "[]"] in simp)

lemma plan_covers_mono: "plan_covers iv inputs project rid es plan \<Longrightarrow> set es \<subseteq> set evs
   \<Longrightarrow> plan_covers iv inputs project rid evs plan"
  unfolding plan_covers_def by (auto elim!: list.pred_mono_strong entry_ok_mono)

lemma parts_ok_mono:
  assumes "parts_ok sha256 input tree parts es"
  shows "parts_ok sha256 input tree parts (pre @ es @ post)"
proof -
  from assms obtain inventory dependencies where p: "list_all package_ok (pi_packages input)"
      "seen (observed_inventory sha256 inventory) es" "list_all (fedora_seen sha256 es) dependencies"
      "plan_covers inventory (pi_packages input @ dependencies) (pi_packages input)
         (rr_id (mf_repository (pi_manifest input))) es (pp_plan parts)"
      "seen (signatures_checked sha256 (path_join tree ''store'') (pp_trust parts) (pp_plan parts)) es"
    unfolding parts_ok_def by blast
  have "list_all (fedora_seen sha256 (pre @ es @ post)) dependencies"
    using p(3) by (rule list.pred_mono_strong) (rule fedora_seen_mono)
  moreover have "plan_covers inventory (pi_packages input @ dependencies) (pi_packages input)
         (rr_id (mf_repository (pi_manifest input))) (pre @ es @ post) (pp_plan parts)"
    using p(4) by (rule plan_covers_mono) auto
  ultimately show ?thesis
    unfolding parts_ok_def using p(1) seen_later [OF seen_before [OF p(2)]]
      seen_later [OF seen_before [OF p(5)]] by blast
qed

lemma verify_rows_leaves:
  "leaves (\<lambda>fs evs. list_all (fedora_seen (h_sha256 host) evs) (map fr_package fs))
     (verify_rows host input store rows)"
proof (induction rows)
  case (Cons row rows)
  have one: "leaves (\<lambda>fs evs. list_all (fedora_seen (h_sha256 host) evs) (map fr_package fs))
      (attempt (fedora_verify host package d) (\<lambda>verified. attempt (verify_rows host input store rows)
        (\<lambda>rest. pure (Inr (verified # rest)))))" for package d
  proof (rule leaves_step [OF fedora_verify_leaves])
    fix verified
    show "leaves (\<lambda>fs evs. \<exists>rest. fs = verified # rest
          \<and> list_all (fedora_seen (h_sha256 host) evs) (map fr_package rest))
        (attempt (verify_rows host input store rows) (\<lambda>rest. pure (Inr (verified # rest))))"
      by (rule leaves_step [OF Cons.IH leaves_pure]) auto
  next
    fix verified fs xs ys
    assume x: "rpm_trace (h_sha256 host) package d None [FEDORA_SIGNATURE] (fr_package verified) xs
        \<and> native_package (fr_package verified) \<and> rp_sha256 (fr_package verified) = d
        \<and> path_file_name package = Some (rp_filename (fr_package verified))"
      and y: "\<exists>rest. fs = verified # rest
          \<and> list_all (fedora_seen (h_sha256 host) ys) (map fr_package rest)"
    from x have "fedora_checked (h_sha256 host) (fr_package verified) xs"
      unfolding fedora_checked_def by auto
    with x have "fedora_seen (h_sha256 host) (xs @ ys) (fr_package verified)"
      unfolding fedora_seen_def by (intro conjI seen_before seen_here) simp_all
    with y show "list_all (fedora_seen (h_sha256 host) (xs @ ys)) (map fr_package fs)"
      by (auto intro: fedora_grow)
  qed
  show ?case
    unfolding verify_rows.simps Let_def
  proof (rule leaves_skip [OF only_runs_pure])
    fix c
    show "leaves (\<lambda>fs evs. list_all (fedora_seen (h_sha256 host) evs) (map fr_package fs))
        (case c of None \<Rightarrow> verify_rows host input store rows
         | Some filename \<Rightarrow> attempt (digest_file host (path_join (path_join store ''packages'') filename))
             (\<lambda>d. attempt (fedora_verify host (path_join (path_join store ''packages'') filename) d)
               (\<lambda>verified. attempt (verify_rows host input store rows)
                 (\<lambda>rest. pure (Inr (verified # rest))))))"
      by (cases c) (auto intro!: Cons.IH leaves_skip [OF _ one] fedora_grow)
  qed (rule fedora_grow)
qed (simp add: leaves_def)

lemma discover_leaves:
  "leaves (\<lambda>fs evs. list_all (fedora_seen (h_sha256 host) evs) (map fr_package fs))
     (discover_dependencies host to_value b input store)"
  unfolding discover_dependencies_def
  by (cases "length b > MAX_TRANSACTION_BYTES")
    (simp add: leaves_def, simp, intro leaves_skip only_runs_pure verify_rows_leaves fedora_grow)

lemma leaves_pure_val: "(\<And>a. r = Inr a \<Longrightarrow> P a []) \<Longrightarrow> leaves P (pure r)"
  by (simp add: leaves_def)

lemma compose_planned_leaves:
  "leaves (\<lambda>parts evs. pp_trust parts = trust \<and> (\<exists>dependencies. list_all package_ok (pi_packages input)
       \<and> list_all (fedora_seen (h_sha256 host) evs) dependencies
       \<and> plan_covers inventory (pi_packages input @ dependencies) (pi_packages input)
           (rr_id (mf_repository (pi_manifest input))) evs (pp_plan parts)
       \<and> seen (signatures_checked (h_sha256 host) (path_join tree ''store'') trust (pp_plan parts)) evs))
     (compose_planned host tc input tree repos trust inventory planning)" (is "leaves ?R _")
proof -
  let ?store = "path_join tree ''store''" and ?id = "rr_id (mf_repository (pi_manifest input))"
  let ?signed = "\<lambda>plan evs. seen (signatures_checked (h_sha256 host) ?store trust plan) evs"
  define rest where "rest = (\<lambda>plan public_bound planning_bound.
      attempt (bind_cache_and_snapshot host planning repos ?id
        (rr_repomd_sha256 (mf_repository (pi_manifest input))) tree) (\<lambda>snapshot.
      attempt (pure (render_config input tree False)) (\<lambda>config.
      attempt (write_private host (path_join tree ''replay.ini'') config) (\<lambda>_.
      attempt (bind_file host (path_join tree ''replay.ini'')) (\<lambda>replay_bound.
      pure (Inr \<lparr>pp_trust = trust, pp_planning = planning,
        pp_primary_fingerprint = ascii_lowercase (pi_primary_fingerprint input), pp_plan = plan,
        pp_bound = [public_bound, planning_bound] @ source_bounds input @ snapshot @ [replay_bound],
        pp_symlinks = (case pi_fedora input of None \<Rightarrow> [] | Some fedora \<Rightarrow> fa_symlinks fedora)\<rparr>))))))"
  have rest: "leaves (\<lambda>parts _. pp_plan parts = plan \<and> pp_trust parts = trust) (rest plan u v)"
    for plan u v
    unfolding rest_def by (intro leaves_skip leaves_pure_val) auto
  have signed: "leaves (\<lambda>parts evs. pp_plan parts = plan \<and> pp_trust parts = trust \<and> ?signed plan evs)
      (attempt (verify_signatures host plan ?store trust) (\<lambda>_. rest plan u v))" for plan u v
    by (rule leaves_step [OF verify_signatures_leaves rest]) (auto intro: seen_before seen_here)
  define covered where "covered = (\<lambda>deps plan evs. plan_covers inventory (pi_packages input @ deps)
      (pi_packages input) ?id evs plan)"
  have plan: "leaves (\<lambda>parts evs. pp_trust parts = trust \<and> list_all package_ok (pi_packages input)
        \<and> covered (map fr_package deps) (pp_plan parts) evs \<and> ?signed (pp_plan parts) evs)
      (attempt (parse_with_dependencies host (tc_stored tc) b (pi_packages input) deps inventory ?id)
        (\<lambda>plan. attempt (verify_signatures host plan ?store trust) (\<lambda>_. rest plan u v)))"
    if "list_all (\<lambda>f. native_package (fr_package f)) deps" for b deps u v
    by (rule leaves_step [OF parse_with_dependencies_leaves [OF that] signed])
      (auto simp: covered_def intro: plan_covers_mono seen_later)
  have deps: "leaves (\<lambda>fs evs. list_all (fedora_seen (h_sha256 host) evs) (map fr_package fs))
      (case b of Some content \<Rightarrow> discover_dependencies host (tc_value tc) content input ?store
        | None \<Rightarrow> pure (Inr []))" for b
    by (cases b) (auto intro: discover_leaves leaves_pure_val)
  have all: "leaves ?R (attempt (case b of Some content \<Rightarrow> discover_dependencies host (tc_value tc) content input ?store
        | None \<Rightarrow> pure (Inr [])) (\<lambda>deps.
      attempt (parse_with_dependencies host (tc_stored tc) b (pi_packages input) deps inventory ?id)
        (\<lambda>plan. attempt (verify_signatures host plan ?store trust) (\<lambda>_. rest plan u v))))" for b u v
  proof (rule leaves_given [OF deps])
    fix deps xs
    assume "list_all (fedora_seen (h_sha256 host) xs) (map fr_package deps)"
    then have "list_all (\<lambda>f. native_package (fr_package f)) deps"
      by (simp add: list_all_iff fedora_seen_def)
    then show "leaves (\<lambda>parts evs. pp_trust parts = trust \<and> list_all package_ok (pi_packages input)
        \<and> covered (map fr_package deps) (pp_plan parts) evs \<and> ?signed (pp_plan parts) evs)
      (attempt (parse_with_dependencies host (tc_stored tc) b (pi_packages input) deps inventory ?id)
        (\<lambda>plan. attempt (verify_signatures host plan ?store trust) (\<lambda>_. rest plan u v)))"
      by (rule plan)
  next
    fix deps and parts :: prepared_parts and xs ys
    assume d: "list_all (fedora_seen (h_sha256 host) xs) (map fr_package deps)"
      and p: "pp_trust parts = trust \<and> list_all package_ok (pi_packages input)
        \<and> covered (map fr_package deps) (pp_plan parts) ys \<and> ?signed (pp_plan parts) ys"
    have "list_all (fedora_seen (h_sha256 host) (xs @ ys)) (map fr_package deps)"
      using d by (rule list.pred_mono_strong) (use fedora_seen_mono [where pre = "[]"] in simp)
    moreover have "covered (map fr_package deps) (pp_plan parts) (xs @ ys)"
      using p unfolding covered_def by (auto intro: plan_covers_mono)
    ultimately show "?R parts (xs @ ys)"
      using p seen_later unfolding covered_def by blast
  qed
  have grow: "?R parts (xs @ ys)" if "?R parts ys" for parts :: prepared_parts and xs ys
  proof -
    from that obtain deps where d: "pp_trust parts = trust" "list_all package_ok (pi_packages input)"
        "list_all (fedora_seen (h_sha256 host) ys) deps" "covered deps (pp_plan parts) ys"
        "?signed (pp_plan parts) ys" unfolding covered_def by blast
    moreover have "covered deps (pp_plan parts) (xs @ ys)"
      using d(4) unfolding covered_def by (rule plan_covers_mono) simp
    ultimately show ?thesis
      using fedora_grow [OF d(3)] seen_later [OF d(5)] unfolding covered_def by blast
  qed
  show ?thesis
    unfolding compose_planned_def Let_def
    apply (rule leaves_skip, simp)
     apply (rule leaves_skip, simp)
      apply (rule leaves_skip, simp)
       apply (rule all [unfolded rest_def])
      apply (rule grow, assumption)+
    done
qed

lemma parts_ok_later: "parts_ok sha256 input tree parts ys \<Longrightarrow> parts_ok sha256 input tree parts (xs @ ys)"
  using parts_ok_mono [where post = "[]"] by simp

lemma compose_trusted_leaves:
  "leaves (parts_ok (h_sha256 host) input tree)
     (compose_trusted host tc (plan_downloads host ops) input tree repos trust)"
proof -
  have planning: "leaves (\<lambda>parts evs. \<exists>deps. list_all package_ok (pi_packages input)
       \<and> list_all (fedora_seen (h_sha256 host) evs) deps
       \<and> plan_covers inventory (pi_packages input @ deps) (pi_packages input)
           (rr_id (mf_repository (pi_manifest input))) evs (pp_plan parts)
       \<and> seen (signatures_checked (h_sha256 host) (path_join tree ''store'') (pp_trust parts)
           (pp_plan parts)) evs)
      (attempt (with_err pf_error (plan_downloads host ops q)) (\<lambda>planning.
        owning host (diagnostics planning)
          (compose_planned host tc input tree repos trust inventory planning)))"
    (is "leaves (?P inventory) _") for inventory q
  proof (rule leaves_step [OF leaves_any [OF only_runs_with_err [OF plan_downloads_harmless]]
        leaves_owning [OF compose_planned_leaves]])
    fix parts :: prepared_parts and xs ys
    assume "pp_trust parts = trust \<and> (\<exists>deps. list_all package_ok (pi_packages input)
       \<and> list_all (fedora_seen (h_sha256 host) ys) deps
       \<and> plan_covers inventory (pi_packages input @ deps) (pi_packages input)
           (rr_id (mf_repository (pi_manifest input))) ys (pp_plan parts)
       \<and> seen (signatures_checked (h_sha256 host) (path_join tree ''store'') trust (pp_plan parts)) ys)"
    then obtain deps where d: "pp_trust parts = trust" "list_all package_ok (pi_packages input)"
       "list_all (fedora_seen (h_sha256 host) ys) deps"
       "plan_covers inventory (pi_packages input @ deps) (pi_packages input)
           (rr_id (mf_repository (pi_manifest input))) ys (pp_plan parts)"
       "seen (signatures_checked (h_sha256 host) (path_join tree ''store'') trust (pp_plan parts)) ys"
      by blast
    have "plan_covers inventory (pi_packages input @ deps) (pi_packages input)
           (rr_id (mf_repository (pi_manifest input))) (xs @ ys) (pp_plan parts)"
      using d(4) by (rule plan_covers_mono) simp
    with d fedora_grow [OF d(3)] seen_later [OF d(5)] show "?P inventory parts (xs @ ys)" by auto
  qed
  have observed: "leaves (parts_ok (h_sha256 host) input tree)
      (attempt (query_inventory (h_sha256 host) (h_runner host)) (\<lambda>inventory.
        attempt (with_err pf_error (plan_downloads host ops q)) (\<lambda>planning.
        owning host (diagnostics planning)
          (compose_planned host tc input tree repos trust inventory planning))))" for q
  proof (rule leaves_step [OF query_inventory_leaves planning])
    fix inventory and parts :: prepared_parts and xs ys
    assume "observed_inventory (h_sha256 host) inventory xs" and "?P inventory parts ys"
    then obtain deps where d: "seen (observed_inventory (h_sha256 host) inventory) (xs @ ys)"
       "list_all package_ok (pi_packages input)" "list_all (fedora_seen (h_sha256 host) ys) deps"
       "plan_covers inventory (pi_packages input @ deps) (pi_packages input)
           (rr_id (mf_repository (pi_manifest input))) ys (pp_plan parts)"
       "seen (signatures_checked (h_sha256 host) (path_join tree ''store'') (pp_trust parts)
          (pp_plan parts)) ys"
      using seen_before [OF seen_here] by blast
    have "plan_covers inventory (pi_packages input @ deps) (pi_packages input)
           (rr_id (mf_repository (pi_manifest input))) (xs @ ys) (pp_plan parts)"
      using d(4) by (rule plan_covers_mono) simp
    with d(1,2) fedora_grow [OF d(3)] seen_later [OF d(5)]
    show "parts_ok (h_sha256 host) input tree parts (xs @ ys)"
      unfolding parts_ok_def by blast
  qed
  show ?thesis
    unfolding compose_trusted_def
    apply (rule leaves_skip, intro harmless_intros, simp)
     apply (rule leaves_skip, simp)
      apply (rule leaves_skip, simp)
       apply (rule leaves_skip, simp)
        apply (rule observed)
       apply (erule parts_ok_later)+
    done
qed

lemma check_sources_harmless [simp]: "harmless (check_sources host f i)"
  unfolding check_sources_def Let_def by (intro harmless_intros) simp_all

lemma prepare_leaves:
  "leaves (\<lambda>t evs. pt_address t = at \<and> parts_ok (h_sha256 host) input (pt_tree t) (pt_parts t) evs)
     (prepare host ops tc input at)"
proof -
  have composed: "leaves (parts_ok (h_sha256 host) input tree)
      (compose host tc (plan_downloads host ops) input tree)" for tree
    unfolding compose_def Let_def
    apply (rule leaves_skip, simp)
     apply (rule leaves_skip, simp split: option.split)
      apply (rule leaves_skip, simp)
       apply (rule leaves_owning [OF compose_trusted_leaves])
      apply (erule parts_ok_later)+
    done
  have last: "leaves (\<lambda>t evs. pt_address t = at \<and> parts_ok (h_sha256 host) input (pt_tree t) (pt_parts t) evs)
      (attempt (with_err (\<lambda>e. \<lparr>pe_error = e, pe_diagnostics = Some tree\<rparr>)
        (compose host tc (plan_downloads host ops) input tree))
      (\<lambda>parts. pure (Inr \<lparr>pt_address = at, pt_tree = tree, pt_parts = parts\<rparr>)))" for tree
    by (rule leaves_step [OF leaves_with_err [OF composed] leaves_pure]) auto
  show ?thesis
    unfolding prepare_def prepare_with_def
    by (rule leaves_skip [OF _ last]) (auto intro!: harmless_intros intro: parts_ok_later)
qed

section \<open>Privileged only after approval\<close>

text \<open>A run, whatever its outcome, has nothing privileged or satisfies \<open>S\<close>.\<close>

definition guards :: "(('x, 'a) result \<Rightarrow> event list \<Rightarrow> bool) \<Rightarrow> ('e, ('x, 'a) result) effect \<Rightarrow> bool" where
  "guards S m \<longleftrightarrow> (\<forall>w r w'. run_state m w = (r, w') \<longrightarrow>
     (\<exists>evs. log w' = log w @ evs \<and> (privileged evs = [] \<or> S r evs)))"

lemma guardsD: "guards S m \<Longrightarrow> run_state m w = (r, w') \<Longrightarrow>
   \<exists>evs. log w' = log w @ evs \<and> (privileged evs = [] \<or> S r evs)"
  by (simp add: guards_def)

lemma guards_attempt:
  assumes m: "leaves P m" "harmless m" and f: "\<And>a. guards (S a) (f a)"
    and step: "\<And>a b xs ys. P a xs \<Longrightarrow> list_all unprivileged xs \<Longrightarrow> S a b ys \<Longrightarrow> R b (xs @ ys)"
  shows "guards R (attempt m f)"
  unfolding guards_def
proof (intro allI impI)
  fix w r w'
  assume run: "run_state (attempt m f) w = (r, w')"
  obtain b u where b: "run_state m w = (b, u)" by (cases "run_state m w") blast
  obtain xs where x: "log u = log w @ xs" "list_all unprivileged xs"
    using m(2) b unfolding only_does_def by (metis snd_conv)
  show "\<exists>evs. log w' = log w @ evs \<and> (privileged evs = [] \<or> R r evs)"
  proof (cases b)
    case (Inl e)
    with run b have "w' = u" by (simp add: run_state_attempt)
    with x show ?thesis using unprivileged_none by blast
  next
    case (Inr a)
    with run b have fa: "run_state (f a) u = (r, w')" by (simp add: run_state_attempt)
    from guardsD [OF f this] obtain ys where y: "log w' = log u @ ys" "privileged ys = [] \<or> S a r ys"
      by blast
    have "P a xs" using leavesD [OF m(1)] b Inr x(1) by fastforce
    with step x(2) y(2) unprivileged_none [OF x(2)] have "privileged (xs @ ys) = [] \<or> R r (xs @ ys)"
      by auto
    with x y show ?thesis by (intro exI [of _ "xs @ ys"]) simp
  qed
qed

lemma guards_harmless: "harmless m \<Longrightarrow> guards S m"
  unfolding guards_def by (auto dest: harmlessD)

text \<open>The verdict of the run after the replay.\<close>

definition verified_after :: "'e program \<Rightarrow> install_options \<Rightarrow> verified_release \<Rightarrow> native_inventory
    \<Rightarrow> event list \<Rightarrow> bool" where
  "verified_after p opts release before evs \<longleftrightarrow> (\<exists>after report.
     seen (observed_inventory (h_sha256 (pg_host p)) after) evs
     \<and> verify_installation (vr_manifest release) (io_with_python opts) (io_with_devel opts)
         (vr_profile release) before after = Inr report)"

definition replayed :: "'e program \<Rightarrow> install_options \<Rightarrow> verified_release \<Rightarrow> native_inventory
    \<Rightarrow> prepared_transaction \<Rightarrow> (install_error, u8) result \<Rightarrow> event list \<Rightarrow> bool" where
  "replayed p opts release before t r evs \<longleftrightarrow> (\<exists>shown replay rest. evs = shown @ replay @ rest
     \<and> list_all unprivileged shown \<and> list_all unprivileged rest
     \<and> replay_run (h_sha256 (pg_host p)) t (plan_of t) replay
     \<and> (\<forall>code. r = Inr code \<longrightarrow> code = 0 \<and> privileged replay = replay_steps t
          \<and> verified_after p opts release before rest))"

definition approved_install :: "'e program \<Rightarrow> install_options \<Rightarrow> verified_release \<Rightarrow> native_inventory
    \<Rightarrow> prepared_transaction \<Rightarrow> (install_error, u8) result \<Rightarrow> event list \<Rightarrow> bool" where
  "approved_install p opts release before t r evs \<longleftrightarrow> (\<exists>review rest. evs = review @ rest
     \<and> list_all unprivileged review
     \<and> review_trace (plan_of t) opts (Approved (plan_of t)) review
     \<and> replayed p opts release before t r rest)"

text \<open>
  A run that changes the system: the release was fetched from its pinned location, the request is
  admitted by its profile for facts that \<open>facts_ok\<close> admits, the plan was prepared from its selected
  packages, and then approved.
\<close>

definition release_run :: "(verified_release \<Rightarrow> platform_facts \<Rightarrow> bool) \<Rightarrow> 'e program
    \<Rightarrow> install_options \<Rightarrow> (install_error, u8) result \<Rightarrow> event list \<Rightarrow> bool"
where
  "release_run facts_ok p opts r evs \<longleftrightarrow> (\<exists>release facts packages fedora before t fetched checked preparing rest.
     evs = fetched @ checked @ preparing @ rest
     \<and> list_all unprivileged (fetched @ checked @ preparing)
     \<and> release_trace (h_sha256 (pg_host p)) (pg_decoders p) (pinned_location (pg_keyring p)) release fetched
     \<and> facts_ok release facts \<and> request_ok opts facts [vr_profile release]
     \<and> (\<exists>i. only_selectable (policy_of opts) facts [vr_profile release] i)
     \<and> selected_packages (vr_manifest release) (io_with_python opts) (io_with_devel opts) = Inr packages
     \<and> seen (observed_inventory (h_sha256 (pg_host p)) before) checked
     \<and> parts_ok (h_sha256 (pg_host p)) (install_input p release packages fedora) (pt_tree t)
         (pt_parts t) preparing
     \<and> approved_install p opts release before t r rest)"

lemma run_only:
  assumes "only_does E m" "run_state m w = (r, w')"
  shows "\<exists>evs. log w' = log w @ evs \<and> list_all E evs"
  using assms unfolding only_does_def by (metis snd_conv)

section \<open>The directories that are left\<close>

definition owned :: "prepared_transaction \<Rightarrow> string multiset" where
  "owned t = {#pt_tree t, pt_directory (pp_trust (pt_parts t)), diagnostics (pp_planning (pt_parts t))#}"

lemma remove_one: "accounts (add_mset d k) (\<lambda>_. k) (remove_temp host d)"
proof -
  have "add_mset d k = {#d#} + k" by simp
  then show ?thesis using accounts_frame [OF remove_temp_accounts, of d k host] by (simp only: add_0)
qed

lemma drop_prepared_accounts: "accounts (owned t) (\<lambda>_. {#}) (drop_prepared host t)"
  unfolding drop_prepared_def owned_def
  by (rule accounts_bind [OF remove_one accounts_bind [OF remove_one remove_one]])

lemma preserve_accounts: "accounts (owned t) (\<lambda>_. {#pt_tree t#}) (preserve host t)"
proof -
  have "owned t = {#pt_directory (pp_trust (pt_parts t)), diagnostics (pp_planning (pt_parts t)), pt_tree t#}"
    by (simp add: owned_def add_mset_commute)
  then show ?thesis
    unfolding preserve_def
    by (simp only:) (rule accounts_bind [OF remove_one accounts_bind [OF remove_one accounts_return]], rule refl)
qed

text \<open>What a run of the installer leaves: nothing, or after a failure at most two directories.\<close>

definition leftover :: "(install_error, u8) result \<Rightarrow> string multiset \<Rightarrow> bool" where
  "leftover r x \<longleftrightarrow> (case r of Inr _ \<Rightarrow> x = {#} | Inl _ \<Rightarrow> size x \<le> 2)"

text \<open>What a preparation holds.\<close>

definition preparing_holds :: "(install_error, prepared_transaction) result \<Rightarrow> string multiset \<Rightarrow> bool" where
  "preparing_holds r x \<longleftrightarrow> (case r of Inl _ \<Rightarrow> size x \<le> 2 | Inr t \<Rightarrow> x = owned t)"

lemma keeps_bind:
  assumes m: "accounts k h m" and f: "\<And>a. keeps (h a) G (f a)"
  shows "keeps k G (State_Monad.bind m f)"
  unfolding keeps_def
proof (intro allI impI, elim conjE)
  fix w r w'
  assume run: "run_state (State_Monad.bind m f) w = (r, w')" and k: "k \<subseteq># live (log w)"
  obtain a u where u: "run_state m w = (a, u)" by (cases "run_state m w") blast
  with run have "run_state (f a) u = (r, w')" by simp
  moreover have l: "live (log u) = live (log w) - k + h a" by (rule accountsD [OF m u k])
  ultimately obtain x where "G r x" "live (log w') = live (log u) - h a + x"
    using keepsD [OF f, of a u r w'] by auto
  with l show "\<exists>x. G r x \<and> live (log w') = live (log w) - k + x" by auto
qed

lemma keeps_pure: "G r k \<Longrightarrow> keeps k G (pure r)"
  unfolding keeps_def by auto

lemma accounts_execute: "tidy (execute_replay host executor t approval)"
  unfolding execute_replay_def run_step_def
  by (auto intro!: tidy_attempt tidy_with_err accounts_bind [where h = "\<lambda>_. {#}"])

section \<open>A preparation and a verification that are reported\<close>

lemma reported_preparation:
  fixes report :: "string option \<Rightarrow> ('e, unit) effect"
  assumes report: "\<And>d. harmless (report d)" "\<And>d. tidy (report d)"
    and m: "m = do {
      r \<leftarrow> prepare (pg_host p) (pg_native p) (pg_codec p) input 0;
      (case r of
         Inl failure \<Rightarrow> do { report (pe_diagnostics failure); pure (Inl (pe_error failure)) }
       | Inr t \<Rightarrow> pure (Inr t))
    }"
  shows "harmless m"
    "leaves (\<lambda>t evs. parts_ok (h_sha256 (pg_host p)) input (pt_tree t) (pt_parts t) evs) m"
    "keeps {#} preparing_holds m"
proof -
  let ?prepare = "prepare (pg_host p) (pg_native p) (pg_codec p) input 0"
  show "harmless m"
    unfolding m by (auto intro!: only_runs_bind report split: sum.split)
  show "leaves (\<lambda>t evs. parts_ok (h_sha256 (pg_host p)) input (pt_tree t) (pt_parts t) evs) m"
    using prepare_leaves [of 0 "pg_host p" input "pg_native p" "pg_codec p"]
    unfolding leaves_def m
    by (fastforce split: prod.splits sum.splits)
  show "keeps {#} preparing_holds m"
    unfolding keeps_def
  proof (intro allI impI, elim conjE)
    fix w r w'
    assume run: "run_state m w = (r, w')" and k: "{#} \<subseteq># live (log w)"
    obtain v u where u: "run_state ?prepare w = (v, u)" by (cases "run_state ?prepare w") blast
    have kept: "keeps {#} preparation_holds ?prepare"
      unfolding prepare_def by (rule prepare_keeps [OF plan_downloads_accounts])
    from keepsD [OF this u k] obtain x where x: "preparation_holds v x"
        "live (log u) = live (log w) - {#} + x" by blast
    show "\<exists>x. preparing_holds r x \<and> live (log w') = live (log w) - {#} + x"
    proof (cases v)
      case (Inl f)
      obtain q where q: "run_state (report (pe_diagnostics f)) u = ((), q)"
        by (cases "run_state (report (pe_diagnostics f)) u") auto
      have "live (log q) = live (log u)"
        using accountsD [OF report(2) q] by simp
      moreover have "r = Inl (pe_error f)" "w' = q"
        using run u q Inl by (simp_all add: m)
      moreover have "size x \<le> 2"
        using x Inl by (auto simp: preparation_holds_def split: option.splits)
      ultimately show ?thesis using x by (intro exI [of _ x]) (simp add: preparing_holds_def)
    next
      case (Inr t)
      with run u have "r = Inr t" "w' = u" by (simp_all add: m)
      with x Inr show ?thesis
        by (intro exI [of _ x]) (simp add: preparation_holds_def preparing_holds_def owned_def)
    qed
  qed
qed

lemma reported_verification:
  assumes m: "m = attempt (query_inventory (h_sha256 (pg_host p)) (h_runner (pg_host p))) (\<lambda>after.
     attempt (pure (verify_installation (vr_manifest release) (io_with_python opts) (io_with_devel opts)
       (vr_profile release) before after)) (\<lambda>report. do { say_each p (f report); pure (Inr 0) }))"
  shows "leaves (\<lambda>code evs. code = 0 \<and> verified_after p opts release before evs) m"
    "harmless m" "tidy m"
proof -
  have say: "leaves (\<lambda>code _. code = 0) (do { say_each p ls; pure (Inr 0) })" for ls
    using leaves_any [of "do { say_each p ls; pure (Inr 0) }"]
    by (fastforce simp: leaves_def intro!: only_runs_bind split: prod.splits)
  have judged: "leaves (\<lambda>code evs. code = 0 \<and> (\<exists>report. verify_installation (vr_manifest release)
        (io_with_python opts) (io_with_devel opts) (vr_profile release) before after = Inr report))
      (attempt (pure (verify_installation (vr_manifest release) (io_with_python opts)
        (io_with_devel opts) (vr_profile release) before after)) (\<lambda>report. do {
      say_each p (f report);
      pure (Inr 0)
    }))" for after
    by (rule leaves_step [OF leaves_pure say]) auto
  show "leaves (\<lambda>code evs. code = 0 \<and> verified_after p opts release before evs) m"
    unfolding m
    by (rule leaves_step [OF query_inventory_leaves judged])
      (unfold verified_after_def, blast intro: seen_before seen_here)
  show "harmless m" "tidy m"
    unfolding m by (auto intro!: tidy_intros harmless_intros
      accounts_bind [where h = "\<lambda>_. {#}"] only_runs_bind)
qed

section \<open>Programs that install a release\<close>

text \<open>
  The contract of a program that installs the pinned release: where its platform facts come from,
  what its own steps do, and in which order it composes them with the checks of the crate.
\<close>

locale release_program =
  fixes p :: "'e program" and opts :: install_options
    and facts_ok :: "verified_release \<Rightarrow> platform_facts \<Rightarrow> bool"
    and find_facts :: "verified_release \<Rightarrow> ('e, (install_error, platform_facts) result) effect"
    and prepared_from :: "prepare_input \<Rightarrow> ('e, (install_error, prepared_transaction) result) effect"
    and show_steps :: "prepared_transaction \<Rightarrow> ('e, unit) effect"
    and judge :: "verified_release \<Rightarrow> native_inventory \<Rightarrow> ('e, (install_error, u8) result) effect"
    and show_failure :: "replay_failure \<Rightarrow> string \<Rightarrow> ('e, unit) effect"
    and reviewed :: "verified_release \<Rightarrow> native_inventory \<Rightarrow> prepared_transaction \<Rightarrow> plan_review
      \<Rightarrow> ('e, (install_error, u8) result) effect"
    and after_review :: "verified_release \<Rightarrow> native_inventory \<Rightarrow> prepared_transaction
      \<Rightarrow> ('e, (install_error, u8) result) effect"
    and whole :: "('e, (install_error, u8) result) effect"
  assumes facts_found: "leaves (\<lambda>facts _. facts_ok release facts) (find_facts release)"
    and facts_quiet: "harmless (find_facts release)" "tidy (find_facts release)"
    and prepared_parts: "leaves (\<lambda>t evs. parts_ok (h_sha256 (pg_host p)) input (pt_tree t) (pt_parts t) evs)
      (prepared_from input)"
    and prepared_quiet: "harmless (prepared_from input)"
    and prepared_keeps: "keeps {#} preparing_holds (prepared_from input)"
    and steps_quiet: "harmless (show_steps t)" "tidy (show_steps t)"
    and judge_verified: "leaves (\<lambda>code evs. code = 0 \<and> verified_after p opts release before evs)
      (judge release before)"
    and judge_quiet: "harmless (judge release before)" "tidy (judge release before)"
    and failure_quiet: "harmless (show_failure failure d)" "tidy (show_failure failure d)"
    and unapproved: "\<forall>a. review \<noteq> Approved a \<Longrightarrow> \<exists>line. reviewed release before t review = do {
        say p line;
        drop_prepared (pg_host p) t;
        pure (Inr 0)
      }"
    and approved: "reviewed release before t (Approved a) = do {
        show_steps t;
        r \<leftarrow> execute_replay (pg_host p) (pg_executor p) t a;
        (case r of
           Inr _ \<Rightarrow> do {
             verdict \<leftarrow> judge release before;
             drop_prepared (pg_host p) t;
             pure verdict
           }
         | Inl failure \<Rightarrow> do {
             retained \<leftarrow> preserve (pg_host p) t;
             show_failure failure retained;
             pure (Inl (rf_error failure))
           })
      }"
    and after_review: "after_review release before t = do {
        r \<leftarrow> review_plan (pg_console p) (plan_of t) opts;
        (case r of
           Inl e \<Rightarrow> do { drop_prepared (pg_host p) t; pure (Inl e) }
         | Inr review \<Rightarrow> reviewed release before t review)
      }"
    and whole: "whole =
      attempt (fetch_release (pg_host p) (pg_decoders p) (pinned_location (pg_keyring p))) (\<lambda>release.
      attempt (find_facts release) (\<lambda>facts.
      attempt (pure (validate_request opts facts [vr_profile release])) (\<lambda>_.
      attempt (pure (selected_packages (vr_manifest release) (io_with_python opts) (io_with_devel opts)))
        (\<lambda>packages.
      attempt (verify_sources_at (pg_host p) ''/etc'' ''44'' ''x86_64'') (\<lambda>fedora.
      attempt (query_inventory (h_sha256 (pg_host p)) (h_runner (pg_host p))) (\<lambda>before.
      attempt (prepared_from (install_input p release packages fedora)) (\<lambda>t.
      after_review release before t)))))))"
begin

lemma approved_run:
  assumes "run_state (reviewed release before t (Approved (plan_of t))) w = (r, w')"
  shows "\<exists>evs. log w' = log w @ evs \<and> replayed p opts release before t r evs"
proof -
  let ?host = "pg_host p"
  obtain u1 where u1: "run_state (show_steps t) w = ((), u1)"
    by (cases "run_state (show_steps t) w") auto
  obtain x u2 where u2: "run_state (execute_replay ?host (pg_executor p) t (plan_of t)) u1 = (x, u2)"
    by (cases "run_state (execute_replay ?host (pg_executor p) t (plan_of t)) u1") blast
  obtain shown where shown: "log u1 = log w @ shown" "list_all unprivileged shown"
    using run_only [OF steps_quiet(1) u1] by blast
  obtain replay where replay: "log u2 = log u1 @ replay"
      "replay_run (h_sha256 ?host) t (plan_of t) replay" "x = Inr () \<longrightarrow> privileged replay = replay_steps t"
    using execute_replay_run [OF u2] by blast
  show ?thesis
  proof (cases x)
    case (Inr ok)
    obtain v u3 where u3: "run_state (judge release before) u2 = (v, u3)"
      by (cases "run_state (judge release before) u2") blast
    obtain u4 where u4: "run_state (drop_prepared ?host t) u3 = ((), u4)"
      by (cases "run_state (drop_prepared ?host t) u3") auto
    have w': "r = v" "w' = u4"
      using assms u1 u2 u3 u4 Inr by (simp_all add: approved)
    obtain vs where vs: "log u3 = log u2 @ vs" "list_all unprivileged vs"
      using run_only [OF judge_quiet(1) u3] by blast
    obtain ds where ds: "log u4 = log u3 @ ds" "list_all unprivileged ds"
      using run_only [OF drop_rules(1) u4] by blast
    have "\<forall>code. r = Inr code \<longrightarrow> code = 0 \<and> privileged replay = replay_steps t
        \<and> verified_after p opts release before (vs @ ds)"
    proof (intro allI impI)
      fix code
      assume "r = Inr code"
      with w' u3 have "run_state (judge release before) u2 = (Inr code, u3)" by simp
      from leavesD [OF judge_verified this] vs
      have "code = 0" "verified_after p opts release before vs" by auto
      with replay(3) Inr show "code = 0 \<and> privileged replay = replay_steps t
          \<and> verified_after p opts release before (vs @ ds)"
        unfolding verified_after_def by (auto intro: seen_before)
    qed
    then have "replayed p opts release before t r (shown @ replay @ vs @ ds)"
      unfolding replayed_def using shown(2) replay(2) vs(2) ds(2)
      by (intro exI [of _ shown] exI [of _ replay] exI [of _ "vs @ ds"]) simp
    with shown(1) replay(1) vs(1) ds(1) w' show ?thesis
      by (intro exI [of _ "shown @ replay @ vs @ ds"]) simp
  next
    case (Inl failure)
    obtain v u3 where u3: "run_state (preserve ?host t) u2 = (v, u3)"
      by (cases "run_state (preserve ?host t) u2") blast
    obtain u4 where u4: "run_state (show_failure failure v) u3 = ((), u4)"
      by (cases "run_state (show_failure failure v) u3") auto
    have w': "r = Inl (rf_error failure)" "w' = u4"
      using assms u1 u2 u3 u4 Inl by (simp_all add: approved)
    obtain vs where vs: "log u3 = log u2 @ vs" "list_all unprivileged vs"
      using run_only [OF drop_rules(2) u3] by blast
    obtain ds where ds: "log u4 = log u3 @ ds" "list_all unprivileged ds"
      using run_only [OF failure_quiet(1) u4] by blast
    have "replayed p opts release before t r (shown @ replay @ vs @ ds)"
      unfolding replayed_def using shown(2) replay(2) vs(2) ds(2) w'
      by (intro exI [of _ shown] exI [of _ replay] exI [of _ "vs @ ds"]) simp
    with shown(1) replay(1) vs(1) ds(1) w' show ?thesis
      by (intro exI [of _ "shown @ replay @ vs @ ds"]) simp
  qed
qed

lemma unapproved_rules:
  assumes "\<forall>a. review \<noteq> Approved a"
  shows "harmless (reviewed release before t review)"
    "keeps (owned t) leftover (reviewed release before t review)"
proof -
  from unapproved [OF assms] obtain line where r: "reviewed release before t review = do {
      say p line; drop_prepared (pg_host p) t; pure (Inr 0) }" by blast
  show "harmless (reviewed release before t review)"
    unfolding r by (auto intro!: only_runs_bind)
  show "keeps (owned t) leftover (reviewed release before t review)"
    unfolding r
    by (rule keeps_bind [OF accounts_keep keeps_bind [OF drop_prepared_accounts keeps_pure]])
      (simp_all add: leftover_def)
qed

lemma after_review_guards:
  "guards (approved_install p opts release before t) (after_review release before t)"
  unfolding guards_def
proof (intro allI impI)
  fix w r w'
  assume run: "run_state (after_review release before t) w = (r, w')"
  obtain v u where u: "run_state (review_plan (pg_console p) (plan_of t) opts) w = (v, u)"
    by (cases "run_state (review_plan (pg_console p) (plan_of t) opts) w") blast
  obtain xs where x: "log u = log w @ xs" "list_all unprivileged xs"
    using run_only [OF review_harmless u] by blast
  have quiet: "\<exists>evs. log w' = log w @ evs \<and> (privileged evs = []
      \<or> approved_install p opts release before t r evs)"
    if m: "harmless m" "run_state m u = (r, w')" for m :: "('e, (install_error, u8) result) effect"
  proof -
    obtain ys where "log w' = log u @ ys" "list_all unprivileged ys" using run_only [OF m] by blast
    with x show ?thesis using unprivileged_none [of "xs @ ys"] by (intro exI [of _ "xs @ ys"]) simp
  qed
  consider e where "v = Inl e" | a where "v = Inr (Approved a)"
    | review where "v = Inr review" "\<forall>a. review \<noteq> Approved a"
    by (cases v) auto
  then show "\<exists>evs. log w' = log w @ evs \<and> (privileged evs = []
      \<or> approved_install p opts release before t r evs)"
  proof cases
    case (2 a)
    with leavesD [OF review_leaves] u x
    have a: "a = plan_of t" and trace: "review_trace (plan_of t) opts (Approved (plan_of t)) xs"
      by (fastforce simp: review_trace_def)+
    have "run_state (reviewed release before t (Approved (plan_of t))) u = (r, w')"
      using run u 2 a by (simp add: after_review)
    from approved_run [OF this] obtain ys where "log w' = log u @ ys"
        "replayed p opts release before t r ys" by blast
    with x trace show ?thesis
      unfolding approved_install_def by (intro exI [of _ "xs @ ys"]) auto
  next
    case (1 e)
    with run u have "run_state (do { drop_prepared (pg_host p) t; pure (Inl e) }) u = (r, w')"
      by (simp add: after_review)
    then show ?thesis by (rule quiet [rotated]) (auto intro!: only_runs_bind)
  next
    case (3 review)
    with run u have "run_state (reviewed release before t review) u = (r, w')"
      by (simp add: after_review)
    then show ?thesis by (rule quiet [rotated, OF _ unapproved_rules(1) [OF 3(2)]])
  qed
qed

lemma guarded: "guards (release_run facts_ok p opts) whole"
proof -
  let ?sha = "h_sha256 (pg_host p)"
  define A where "A = (\<lambda>release packages fedora before r evs. \<exists>t preparing rest.
      evs = preparing @ rest \<and> list_all unprivileged preparing
      \<and> parts_ok ?sha (install_input p release packages fedora) (pt_tree t) (pt_parts t) preparing
      \<and> approved_install p opts release before t r rest)"
  have A: "guards (A release packages fedora before)
      (attempt (prepared_from (install_input p release packages fedora))
        (after_review release before))" for release packages fedora before
    by (rule guards_attempt [OF prepared_parts prepared_quiet after_review_guards])
      (unfold A_def, blast)
  define B where "B = (\<lambda>release packages fedora r evs. \<exists>before checked rest. evs = checked @ rest
      \<and> list_all unprivileged checked \<and> seen (observed_inventory ?sha before) checked
      \<and> A release packages fedora before r rest)"
  have B: "guards (B release packages fedora) (attempt (query_inventory ?sha (h_runner (pg_host p)))
      (\<lambda>before. attempt (prepared_from (install_input p release packages fedora))
        (after_review release before)))" for release packages fedora
    by (rule guards_attempt [OF query_inventory_leaves query_inventory_harmless A])
      (unfold B_def, blast intro: seen_here)
  define C where "C = (\<lambda>release packages r evs. \<exists>fedora. B release packages fedora r evs)"
  have C: "guards (C release packages) (attempt (verify_sources_at (pg_host p) ''/etc'' ''44'' ''x86_64'')
      (\<lambda>fedora. attempt (query_inventory ?sha (h_runner (pg_host p)))
      (\<lambda>before. attempt (prepared_from (install_input p release packages fedora))
        (after_review release before))))" for release packages
  proof (rule guards_attempt [OF leaves_any [OF sources_rules(2)] sources_rules(2) B])
    fix fedora r and xs ys :: "event list"
    assume "list_all unprivileged xs" "B release packages fedora r ys"
    then obtain before checked rest where "ys = checked @ rest" "list_all unprivileged checked"
        "seen (observed_inventory ?sha before) checked" "A release packages fedora before r rest"
      unfolding B_def by blast
    with \<open>list_all unprivileged xs\<close> show "C release packages r (xs @ ys)"
      unfolding C_def B_def
      by (intro exI [of _ fedora] exI [of _ before] exI [of _ "xs @ checked"] exI [of _ rest])
        (auto intro: seen_later)
  qed
  define D where "D = (\<lambda>release r evs. \<exists>facts packages i. facts_ok release facts
      \<and> request_ok opts facts [vr_profile release]
      \<and> only_selectable (policy_of opts) facts [vr_profile release] i
      \<and> selected_packages (vr_manifest release) (io_with_python opts) (io_with_devel opts) = Inr packages
      \<and> C release packages r evs)"
  let ?selected = "\<lambda>release. selected_packages (vr_manifest release) (io_with_python opts) (io_with_devel opts)"
  let ?last = "\<lambda>release packages. attempt (verify_sources_at (pg_host p) ''/etc'' ''44'' ''x86_64'')
      (\<lambda>fedora. attempt (query_inventory ?sha (h_runner (pg_host p)))
      (\<lambda>before. attempt (prepared_from (install_input p release packages fedora))
        (after_review release before)))"
  have found: "leaves (\<lambda>facts evs. facts_ok release facts) (find_facts release)" for release
    by (rule facts_found)
  have D: "guards (D release) (attempt (find_facts release) (\<lambda>facts.
      attempt (pure (validate_request opts facts [vr_profile release])) (\<lambda>_.
      attempt (pure (?selected release)) (?last release))))" for release
  proof (rule guards_attempt [OF found facts_quiet(1)])
    show "guards (\<lambda>r evs. \<exists>packages i. validate_request opts facts [vr_profile release] = Inr i
          \<and> ?selected release = Inr packages \<and> C release packages r evs)
        (attempt (pure (validate_request opts facts [vr_profile release])) (\<lambda>_.
        attempt (pure (?selected release)) (?last release)))" for facts
      by (rule guards_attempt [OF leaves_pure only_runs_pure
            guards_attempt [OF leaves_pure only_runs_pure C]]) auto
    fix facts r and xs ys :: "event list"
    assume "facts_ok release facts" and x: "list_all unprivileged xs"
      and "\<exists>packages i. validate_request opts facts [vr_profile release] = Inr i
          \<and> ?selected release = Inr packages \<and> C release packages r ys"
    then obtain packages i fedora before checked rest where f: "facts_ok release facts"
        "validate_request opts facts [vr_profile release] = Inr i" "?selected release = Inr packages"
        "ys = checked @ rest" "list_all unprivileged checked"
        "seen (observed_inventory ?sha before) checked" "A release packages fedora before r rest"
      unfolding C_def B_def by blast
    then have "C release packages r (xs @ ys)"
      unfolding C_def B_def using x
      by (intro exI [of _ fedora] exI [of _ before] exI [of _ "xs @ checked"] exI [of _ rest])
        (auto intro: seen_later)
    with f show "D release r (xs @ ys)"
      unfolding D_def by (auto simp: validate_request_Inr)
  qed
  show ?thesis
    unfolding whole
  proof (rule guards_attempt [OF fetch_release_leaves fetch_release_harmless D])
    fix release r and xs ys :: "event list"
    assume f: "location_ok (pinned_location (pg_keyring p))
        \<and> release_trace ?sha (pg_decoders p) (pinned_location (pg_keyring p)) release xs"
      and x: "list_all unprivileged xs" and "D release r ys"
    then obtain facts packages i fedora before checked t preparing rest where
      "facts_ok release facts" "request_ok opts facts [vr_profile release]"
      "only_selectable (policy_of opts) facts [vr_profile release] i"
      "?selected release = Inr packages" "ys = checked @ preparing @ rest"
      "list_all unprivileged checked" "seen (observed_inventory ?sha before) checked"
      "list_all unprivileged preparing"
      "parts_ok ?sha (install_input p release packages fedora) (pt_tree t) (pt_parts t) preparing"
      "approved_install p opts release before t r rest"
      unfolding D_def C_def B_def A_def by blast
    with f x show "release_run facts_ok p opts r (xs @ ys)"
      unfolding release_run_def
      by (intro exI [of _ release] exI [of _ facts] exI [of _ packages] exI [of _ fedora]
          exI [of _ before] exI [of _ t] exI [of _ xs] exI [of _ checked] exI [of _ preparing]
          exI [of _ rest]) auto
  qed
qed

lemma after_review_keeps: "keeps (owned t) leftover (after_review release before t)"
proof -
  have dropped: "keeps (owned t) leftover (do { drop_prepared (pg_host p) t; pure r })"
    if "leftover r {#}" for r
    by (rule keeps_bind [OF drop_prepared_accounts keeps_pure]) (rule that)
  have failed: "keeps (owned t) leftover (do { retained \<leftarrow> preserve (pg_host p) t;
      show_failure failure retained; pure (Inl e) })" for failure e
    by (rule keeps_bind [OF preserve_accounts keeps_bind [OF accounts_keep [OF failure_quiet(2)] keeps_pure]])
      (simp add: leftover_def)
  have verified: "keeps (owned t) leftover (do { verdict \<leftarrow> judge release before;
      drop_prepared (pg_host p) t; pure verdict })"
    by (rule keeps_bind [OF accounts_keep [OF judge_quiet(2)] dropped])
      (simp add: leftover_def split: sum.split)
  have "keeps (owned t) leftover (reviewed release before t (Approved a))" for a
    unfolding approved
    by (intro keeps_bind [OF accounts_keep] steps_quiet(2) accounts_execute)
      (auto intro: verified failed split: sum.split)
  then have "keeps (owned t) leftover (reviewed release before t review)" for review
    using unapproved_rules(2) by (cases review) auto
  then show ?thesis
    unfolding after_review
    by (intro keeps_bind [OF accounts_keep [OF review_tidy]])
      (auto intro: dropped simp: leftover_def split: sum.split)
qed

lemma kept: "keeps {#} leftover whole"
proof -
  have last: "keeps {#} leftover (attempt (prepared_from input) (after_review release before))"
    for input release before
    by (rule keeps_attempt [OF prepared_keeps])
      (auto simp: leftover_def preparing_holds_def intro: after_review_keeps)
  have e: "leftover (Inl e) {#}" for e by (simp add: leftover_def)
  show ?thesis
    unfolding whole
    apply (rule keeps_tidy_then [OF fetch_release_tidy])
     apply (rule keeps_tidy_then [OF facts_quiet(2)])
      apply (rule keeps_tidy_then [OF tidy_pure(1)])
       apply (rule keeps_tidy_then [OF tidy_pure(1)])
        apply (rule keeps_tidy_then [OF sources_rules(1)])
         apply (rule keeps_tidy_then [OF query_inventory_tidy])
          apply (rule last)
         apply (rule e)+
    done
qed

lemma after_review_zero: "leaves (\<lambda>code _. code = 0) (after_review release before t)"
  unfolding leaves_def
proof (intro allI impI)
  fix w code w'
  assume run: "run_state (after_review release before t) w = (Inr code, w')"
  obtain r u where u: "run_state (review_plan (pg_console p) (plan_of t) opts) w = (r, u)"
    by (cases "run_state (review_plan (pg_console p) (plan_of t) opts) w") blast
  have verified: "run_state (judge release before) x = (Inr c, x') \<Longrightarrow> c = 0" for x x' c
    using leavesD [OF judge_verified] by blast
  have "code = 0"
  proof (cases r)
    case (Inr review)
    show ?thesis
    proof (cases "\<exists>a. review = Approved a")
      case True
      with Inr run u show ?thesis
        by (auto simp: after_review approved dest: verified split: prod.splits sum.splits)
    next
      case False
      with unapproved obtain line where "reviewed release before t review = do {
          say p line; drop_prepared (pg_host p) t; pure (Inr 0) }" by blast
      with Inr run u show ?thesis by (auto simp: after_review split: prod.splits)
    qed
  qed (use run u in \<open>auto simp: after_review split: prod.splits\<close>)
  with guardsD [OF after_review_guards run]
  show "\<exists>evs. log w' = log w @ evs \<and> code = 0" by blast
qed

lemma zero: "leaves (\<lambda>code _. code = 0) whole"
  unfolding whole
  by (intro leaves_skip after_review_zero fetch_release_harmless facts_quiet(1) only_runs_pure
      sources_rules(2) query_inventory_harmless prepared_quiet) simp_all

end

section \<open>The installer\<close>

definition discovered :: "'e program \<Rightarrow> platform_facts \<Rightarrow> bool" where
  "discovered p facts \<longleftrightarrow> (\<exists>fs. detect_platform fs ''/'' (pg_arch p) = Inr facts)"

text \<open>A run of the installer that changes the system, for platform facts that were discovered.\<close>

definition install_run :: "'e program \<Rightarrow> install_options \<Rightarrow> (install_error, u8) result \<Rightarrow> event list \<Rightarrow> bool"
where
  "install_run p = release_run (\<lambda>_. discovered p) p"

lemma facts_leaves: "leaves (\<lambda>facts _. discovered p facts) (discover p)"
  by (auto simp: leaves_def discover_def with_err_Inr observe_run discovered_def split: prod.splits)

interpretation installer: release_program p opts "\<lambda>_. discovered p" "\<lambda>_. discover p"
  "prepare_reported p" "display_privileged_steps p" "verify_after p opts"
  "\<lambda>failure retained. warn p (''intel-npu-stack-install: native exit '' @ status_text (rf_status failure)
     @ ''; retained '' @ retained)"
  "install_reviewed p opts" "install_prepared p opts" "install p opts"
  for p opts
proof
  show "leaves (\<lambda>facts _. discovered p facts) (discover p)" by (rule facts_leaves)
  show "leaves (\<lambda>t evs. parts_ok (h_sha256 (pg_host p)) input (pt_tree t) (pt_parts t) evs)
        (prepare_reported p input)"
    "harmless (prepare_reported p input)" "keeps {#} preparing_holds (prepare_reported p input)" for input
    by (rule reported_preparation [OF output_rules(10,9) prepare_reported_def])+
  show "leaves (\<lambda>code evs. code = 0 \<and> verified_after p opts release before evs)
      (verify_after p opts release before)" for release before
    by (rule reported_verification [OF verify_after_def])
  show "\<exists>line. install_reviewed p opts release before t review = do {
      say p line; drop_prepared (pg_host p) t; pure (Inr 0) }"
    if "\<forall>a. review \<noteq> Approved a" for review release before t
    using that by (cases review) (auto simp: install_reviewed_def)
qed (simp_all only: output_rules install_reviewed_def plan_review.case install_prepared_def install_def)

lemmas install_guards = installer.guarded [folded install_run_def]
lemmas install_keeps = installer.kept
lemmas install_zero = installer.zero

end
