(* ===== verification/Error_Laws.thy ===== *)
theory Error_Laws
  imports Install_Laws
begin

text \<open>
  The errors of the installer: every failure is one of the listed pairs of exit code and error
  code, whichever step fails. The list is the code's: the table of \<open>docs/install-fedora.md\<close> differs from
  it in the rows of the Fedora sources, which fail with 20, and of the replay, whose own status is not
  the exit code.
\<close>

definition INSTALL_ERRORS :: "(u8 \<times> string) list" where
  "INSTALL_ERRORS = [(2, ''INSTALL_ROOT_REFUSED''), (2, ''INSTALL_CHANNEL_RISK_MISMATCH''),
     (2, ''INSTALL_CONFIRMATION_REQUIRED''), (10, ''INSTALL_PROFILE_UNSUPPORTED''),
     (10, ''INSTALL_CAPABILITY_UNAVAILABLE''), (20, ''INSTALL_INTEGRITY_FAILED''),
     (20, ''INSTALL_METADATA_INVALID''), (21, ''INSTALL_VERIFY_FAILED''),
     (30, ''INSTALL_PLATFORM_DISCOVERY_FAILED''), (30, ''INSTALL_RPM_OBSERVATION_FAILED''),
     (30, ''INSTALL_STATE_CHANGED''), (30, ''INSTALL_TRANSACTION_INVALID''),
     (30, ''INSTALL_TRANSACTION_CHANGED''), (30, ''INSTALL_OUTPUT_FAILED''),
     (30, ''INSTALL_NATIVE_IO_FAILED''), (30, ''INSTALL_NATIVE_SPAWN_FAILED''),
     (30, ''INSTALL_NATIVE_OUTPUT_LIMIT''), (30, ''INSTALL_NATIVE_TIMEOUT''),
     (30, ''INSTALL_NATIVE_FAILED''), (30, ''INSTALL_PLAN_RECEIPT_MISMATCH''),
     (30, ''INSTALL_NOTHING_TO_REPLAY''), (30, ''INSTALL_KEY_IMPORT_FAILED''),
     (30, ''INSTALL_REPLAY_FAILED''), (30, ''INSTALL_REPLAY_SPAWN_FAILED'')]"

definition listed :: "install_error \<Rightarrow> bool" where
  "listed e \<longleftrightarrow> (ie_exit_code e, ie_code e) \<in> set INSTALL_ERRORS"

text \<open>A result, and a computation, that fails only with the errors of \<open>E\<close>.\<close>

definition refuses :: "('x \<Rightarrow> bool) \<Rightarrow> ('x, 'a) result \<Rightarrow> bool" where
  "refuses E r \<longleftrightarrow> (\<forall>e. r = Inl e \<longrightarrow> E e)"

definition fails_with :: "('x \<Rightarrow> bool) \<Rightarrow> ('e, ('x, 'a) result) effect \<Rightarrow> bool" where
  "fails_with E m \<longleftrightarrow> (\<forall>w e w'. run_state m w = (Inl e, w') \<longrightarrow> E e)"

lemma refuses_simps [simp]: "refuses E (Inr a)" "refuses E (Inl e) \<longleftrightarrow> E e"
  "refuses E (ensure b e) \<longleftrightarrow> b \<or> E e" "refuses E (ok_or e x) \<longleftrightarrow> x \<noteq> None \<or> E e"
  "refuses E (utf8_text e t) \<longleftrightarrow> utf8_valid t \<or> E e"
  "refuses E (if b then r else s) \<longleftrightarrow> (b \<longrightarrow> refuses E r) \<and> (\<not> b \<longrightarrow> refuses E s)"
  by (auto simp: refuses_def ok_or_def utf8_text_def split: option.splits)

lemma refuses_and_then: "refuses E r \<Longrightarrow> (\<And>a. refuses E (f a)) \<Longrightarrow> refuses E (and_then r f)"
  unfolding refuses_def and_then_Inl by blast

lemma refuses_map_err: "(\<And>e. E (g e)) \<Longrightarrow> refuses E (map_err g r)"
  by (cases r) simp_all

lemma refuses_first_error: "(\<And>c. c \<in> set cs \<Longrightarrow> refuses E c) \<Longrightarrow> refuses E (first_error cs)"
  by (auto simp: refuses_def dest: first_error_Inl)

lemma refuses_check_each: "(\<And>x. refuses E (f x)) \<Longrightarrow> refuses E (check_each f xs)"
  by (auto simp: refuses_def dest: check_each_Inl)

lemma fails_pure [simp]: "fails_with E (pure r) \<longleftrightarrow> refuses E r"
  by (auto simp: fails_with_def refuses_def)

lemma fails_attempt: "fails_with E m \<Longrightarrow> (\<And>a. fails_with E (f a)) \<Longrightarrow> fails_with E (attempt m f)"
  unfolding fails_with_def attempt_Inl by metis

lemma fails_with_err: "fails_with D m \<Longrightarrow> (\<And>e. D e \<Longrightarrow> E (g e)) \<Longrightarrow> fails_with E (with_err g m)"
  unfolding fails_with_def with_err_Inl by metis

lemma fails_const: "(\<And>e. E (g e)) \<Longrightarrow> fails_with E (with_err g m)"
  unfolding fails_with_def with_err_Inl by metis

lemma fails_each: "(\<And>x. fails_with E (f x)) \<Longrightarrow> fails_with E (each_attempt f xs)"
  by (induction xs) (simp_all add: fails_attempt)

lemma fails_collect: "(\<And>x. fails_with E (f x)) \<Longrightarrow> fails_with E (collect_attempt f xs)"
  by (induction xs) (simp_all add: fails_attempt)

lemma fails_bind: "(\<And>a. fails_with E (f a)) \<Longrightarrow> fails_with E (State_Monad.bind m f)"
  unfolding fails_with_def by (simp split: prod.splits)

lemma fails_with_temp:
  assumes "E err" "\<And>d. fails_with E (body d)" shows "fails_with E (with_temp host pre err body)"
proof -
  have "fails_with E (do { r \<leftarrow> body d; remove_temp host d; pure r })" for d
    using assms(2) unfolding fails_with_def by (auto split: prod.splits)
  with assms(1) show ?thesis unfolding with_temp_def by (intro fails_attempt fails_const)
qed

lemma fails_owning: "fails_with E m \<Longrightarrow> fails_with E (owning host d m)"
  unfolding owning_def fails_with_def by (auto split: prod.splits sum.splits)

lemma fails_run_complete: "E a \<Longrightarrow> E b \<Longrightarrow> fails_with E (run_complete host rq a b)"
  unfolding run_complete_def
  by (intro fails_attempt fails_const) (simp_all add: complete_output_def)

lemmas fails_intros = fails_attempt fails_const fails_each fails_collect fails_with_temp fails_owning
  fails_run_complete refuses_and_then refuses_map_err refuses_check_each refuses_first_error

section \<open>The listed errors\<close>

lemma listed_err: "(x, c) \<in> set INSTALL_ERRORS \<Longrightarrow> listed (install_err x c m)"
  by (simp add: listed_def install_err_def)

lemma listed_constants [simp]:
  "listed (integrity m)" "listed (metadata_error m)" "listed unavailable" "listed observation_error"
  "listed state_changed" "listed unsupported" "listed root_refused" "listed risk_mismatch"
  "listed (verify_failed m)" "listed transaction_error" "listed transaction_changed"
  "listed output_failed" "listed confirmation_error" "listed discovery_failed"
  "listed signature_invalid" "listed rpm_invalid" "listed project_invalid" "listed content_invalid"
  "listed (download_read_error d)" "listed (planning_invalid m)" "listed bound_mismatch"
  "listed sources_unverified" "listed sources_invalid" "listed render_invalid" "listed row_invalid"
  "listed cache_invalid" "listed cache_unexpected" "listed tree_io" "listed sources_changed"
  "listed receipt_mismatch" "listed nothing_to_replay" "listed (rf_error (import_failed st))"
  "listed (rf_error (replay_failed st))" "listed (rf_error replay_unstarted)"
  by (simp_all add: listed_err INSTALL_ERRORS_def integrity_def metadata_error_def unavailable_def
      observation_error_def state_changed_def unsupported_def root_refused_def risk_mismatch_def
      verify_failed_def transaction_error_def transaction_changed_def output_failed_def
      confirmation_error_def discovery_failed_def receipt_mismatch_def nothing_to_replay_def
      import_failed_def replay_failed_def replay_unstarted_def refused_def signature_invalid_def
      rpm_invalid_def project_invalid_def content_invalid_def download_read_error_def
      planning_invalid_def bound_mismatch_def sources_unverified_def sources_invalid_def
      render_invalid_def row_invalid_def cache_invalid_def cache_unexpected_def tree_io_def
      sources_changed_def split: read_failure.split)

section \<open>The results\<close>

lemma package_refuses [simp]: "refuses listed (Manifest.validate_package k)"
  unfolding Manifest.validate_package_def by (simp split: option.split prod.split)

lemma packages_refuse [simp]: "refuses listed (check_packages names filenames ks)"
  by (induction ks arbitrary: names filenames) (auto intro!: refuses_and_then)

lemma manifest_refuses [simp]: "refuses listed (parse_manifest decode b)"
proof -
  have "refuses listed (required_tool d n)" for d n by (simp add: required_tool_def)
  then have "refuses listed (validate_manifest d)" for d
    unfolding validate_manifest_def by (auto intro!: refuses_first_error refuses_check_each)
  then show ?thesis unfolding parse_manifest_def by (auto intro!: refuses_and_then)
qed

lemma selection_refuses [simp]: "refuses listed (selected_packages d py dv)"
  by (auto simp: refuses_def dest: selected_packages_Inl)

lemma profile_refuses [simp]: "refuses listed (bind_profile sha256 decode d content)"
proof -
  have "refuses listed (bind_component d c)" for c
    unfolding bind_component_def by (simp split: prod.split option.split)
  then show ?thesis
    unfolding bind_profile_def by (auto simp: Let_def intro!: fails_intros)
qed

lemma request_refuses [simp]: "refuses listed (validate_request opts facts ps)"
proof -
  have "refuses listed (validate_installable p)" for p
    unfolding validate_installable_def by (auto intro!: fails_intros)
  then show ?thesis unfolding validate_request_def by (auto intro!: fails_intros)
qed

lemma installation_refuses [simp]:
  "refuses listed (verify_installation d py dv p before after)"
proof -
  have "refuses listed (verify_selected before after ps verified changed)" for ps verified changed
    by (induction ps arbitrary: verified changed) (auto simp: Let_def split: option.split)
  moreover have "refuses listed (verify_outside before after names q)" for names q
    by (simp add: verify_outside_def)
  ultimately show ?thesis
    unfolding verify_installation_def by (auto intro!: fails_intros split: prod.split)
qed

lemma render_refuses [simp]: "refuses listed (render_config input tree planning)"
  unfolding render_config_def config_scalar_def Let_def by (intro fails_intros) simp_all

section \<open>The computations\<close>

lemma native_rpm_fails [simp]: "fails_with listed (native_rpm runner args limit)"
proof -
  have "refuses listed (accept_rpm_output res)" for res
    unfolding accept_rpm_output_def by (intro fails_intros) simp_all
  then show ?thesis unfolding native_rpm_def by (intro fails_bind) simp
qed

lemma query_fails [simp]: "fails_with listed (query_inventory sha256 runner)"
  unfolding query_inventory_def by (intro fails_intros) (auto simp: parse_query_def)

lemma compare_fails [simp]: "fails_with listed (compare_rpm_versions runner l r)"
  unfolding compare_rpm_versions_def by (auto intro!: fails_intros)

lemma inventory_refuses [simp]: "refuses listed (parse_query sha256 b)"
  by (simp add: parse_query_def)

lemma signature_refuses [simp]: "refuses listed (verify_signature_status code status primary)"
  by (auto simp: refuses_def dest: verify_signature_status_Inl)

lemma detached_fails [simp]: "fails_with listed (verify_detached host b sig trust)"
  unfolding verify_detached_def verify_in_def by (auto intro!: fails_intros)

lemma fetch_fails [simp]: "fails_with listed (fetch_release host dc l)"
proof -
  have "fails_with listed (download host base filename limit d)" for base filename limit d
    unfolding download_def Let_def by (intro fails_intros) simp_all
  then show ?thesis unfolding fetch_release_def fetch_in_def by (auto intro!: fails_intros)
qed

lemma rpm_fails [simp]: "fails_with listed (verify_native_rpm host path sha database allowed)"
proof -
  have "fails_with listed (verify_hash host q e)" for q e
    unfolding verify_hash_def by (intro fails_intros) simp_all
  moreover have "refuses listed (package_of_identity f s iv)" for f s iv
    unfolding package_of_identity_def by (simp split: list.split option.split prod.split)
  ultimately have "fails_with listed (verify_snapshot host path m f sha database allowed d)" for m f d
    unfolding verify_snapshot_def native_def Let_def by (intro fails_intros) simp_all
  then show ?thesis unfolding verify_native_rpm_def by (auto intro!: fails_intros)
qed

lemma fedora_verify_fails [simp]: "fails_with listed (fedora_verify host path sha)"
  unfolding fedora_verify_def by (intro fails_intros) simp_all

lemma project_verify_fails [simp]: "fails_with listed (project_verify host path expected trust)"
  unfolding project_verify_def by (intro fails_intros) simp_all

lemma armored_key_fails [simp]: "fails_with listed (from_armored_key host key primary)"
  unfolding from_armored_key_def import_key_def trust_run_def Let_def by (auto intro!: fails_intros)

lemma plan_inputs_fails [simp]:
  "fails_with listed (plan_inputs runner iv names incoming replacements ps)"
  by (induction ps arbitrary: names incoming replacements)
    (auto simp: Let_def intro!: fails_intros split: list.split)

lemma rows_refuse [simp]:
  "refuses listed (plan_rows project_inputs repositories incoming replacements paths rows)"
  by (induction rows arbitrary: incoming replacements paths)
    (auto intro!: fails_intros split: option.split prod.split)

lemma parse_with_dependencies_fails [simp]:
  "fails_with listed (parse_with_dependencies host decode b expected dependencies iv rid)"
proof -
  have "refuses listed (bind_rows sha256 decode b inputs rid fp incoming replacements)"
    for sha256 inputs fp incoming replacements
    unfolding bind_rows_def by (auto intro!: fails_intros split: option.split prod.split)
  then have "fails_with listed (parse_inputs host decode b all inputs iv rid)" for all inputs
    unfolding parse_inputs_def by (auto intro!: fails_intros split: prod.split)
  then show ?thesis unfolding parse_with_dependencies_def by (auto intro!: fails_intros)
qed

lemma packages_fail [simp]:
  "fails_with listed (verify_packages host plan root)"
  "E err \<Longrightarrow> fails_with E (check_directory host err d)"
proof -
  show d: "E err \<Longrightarrow> fails_with E (check_directory host err d)" for E err d
    unfolding check_directory_def by (intro fails_intros) simp_all
  have "fails_with listed (verify_package host root b)" for b
    unfolding verify_package_def Let_def by (intro fails_intros) simp_all
  with d show "fails_with listed (verify_packages host plan root)"
    unfolding verify_packages_def by (auto intro!: fails_intros)
qed

lemma signatures_fail [simp]: "fails_with listed (verify_signatures host plan root trust)"
proof -
  have "fails_with listed (verify_authority host root trust b)" for b
    unfolding verify_authority_def Let_def by (auto intro!: fails_intros split: rpm_authority.split)
  then show ?thesis unfolding verify_signatures_def by (intro fails_intros) simp_all
qed

lemma stored_fails [simp]: "fails_with listed (verify_stored host plan root)"
  unfolding verify_stored_def Let_def by (intro fails_intros) simp_all

section \<open>Planning, preparation and replay\<close>

lemma native_failure_listed: "(30, code) \<in> set INSTALL_ERRORS \<Longrightarrow> listed (pf_error (native_failure code st d))"
  by (simp add: native_failure_def listed_err)

lemma watch_codes:
  "fst (watch timeout limit c n elapsed) = Inl (code, st) \<Longrightarrow> (30, code) \<in> set INSTALL_ERRORS"
proof (induction timeout limit c n elapsed rule: watch.induct)
  case (1 timeout limit c n elapsed)
  have turn: "(30, k) \<in> set INSTALL_ERRORS"
    if "turn_error timeout limit (nc_try_wait c n) (nc_sizes c n) elapsed = Some k" for k
    using that by (auto simp: turn_error_def INSTALL_ERRORS_def split: if_splits)
  show ?case
    using 1 turn
    by (subst (asm) watch.simps) (auto simp: Let_def split: option.splits wait_result.splits)
qed

lemma plan_downloads_fails: "fails_with (\<lambda>f. listed (pf_error f)) (plan_downloads host ops q)"
proof -
  have native: "listed (pf_error (native_failure ''INSTALL_NATIVE_IO_FAILED'' st d))"
    "listed (pf_error (native_failure ''INSTALL_NATIVE_SPAWN_FAILED'' st d))" for st d
    by (rule native_failure_listed, simp add: INSTALL_ERRORS_def)+
  have distinct: "refuses listed (distinct_packages names ps)" for names ps
    by (induction ps arbitrary: names) (auto intro!: fails_intros)
  have missing: "E err \<Longrightarrow> fails_with E (must_be_missing host p err)" for E p err
    unfolding must_be_missing_def by (intro fails_bind) (simp split: sum.split io_error.split)
  have "fails_with listed (planning_arguments host q d)" for d
    unfolding planning_arguments_def by (auto intro!: fails_intros missing distinct)
  then have args: "fails_with (\<lambda>f. listed (pf_error f)) (with_err refuse_planning (planning_arguments host q d))"
    for d
    by (rule fails_with_err) (simp add: refuse_planning_def)
  have "refuses (\<lambda>f. listed (pf_error f)) (case child of
         None \<Rightarrow> Inl (native_failure ''INSTALL_NATIVE_SPAWN_FAILED'' None (Some d))
       | Some c \<Rightarrow> (case fst (watch timeout limit c 0 0) of
             Inl (code, exit) \<Rightarrow> Inl (native_failure code exit (Some d))
           | Inr _ \<Rightarrow> Inr \<lparr>po_directory = Native_Directory d\<rparr>))" for child timeout limit d
    using watch_codes native_failure_listed native
    by (auto split: option.split sum.split)
  then have "fails_with (\<lambda>f. listed (pf_error f)) (run_in host ops x as d timeout limit)"
    for x as d timeout limit
    unfolding run_in_def by (intro fails_intros fails_bind) (simp_all add: native)
  with args show ?thesis
    unfolding plan_downloads_def
    by (intro fails_attempt [OF fails_const] fails_attempt [OF fails_owning [OF args]]) (simp_all add: native)
qed

lemma digest_fails [simp]:
  "fails_with listed (digest_file_with_limit host p n)" "fails_with listed (digest_file host p)"
  "fails_with listed (verify_symlinks host links)"
  unfolding digest_file_def digest_file_with_limit_def verify_symlinks_def
  by (intro fails_intros; simp)+

text \<open>What a failed check of content or of metadata reports; the Fedora sources report nothing else.\<close>

definition content_error :: "install_error \<Rightarrow> bool" where
  "content_error e \<longleftrightarrow> ie_exit_code e = 20
     \<and> ie_code e \<in> {''INSTALL_INTEGRITY_FAILED'', ''INSTALL_METADATA_INVALID''}"

lemma content_errors [simp]: "content_error (integrity m)" "content_error (metadata_error m)"
  "content_error sources_unverified" "content_error sources_invalid" "content_error bound_mismatch"
  by (simp_all add: content_error_def integrity_def metadata_error_def install_err_def
      sources_unverified_def sources_invalid_def bound_mismatch_def)

lemma content_listed: "content_error e \<Longrightarrow> listed e"
  by (auto simp: content_error_def listed_def INSTALL_ERRORS_def)

lemma fails_mono: "fails_with D m \<Longrightarrow> (\<And>e. D e \<Longrightarrow> E e) \<Longrightarrow> fails_with E m"
  unfolding fails_with_def by blast

lemma sources_exit: "fails_with content_error (verify_sources_at host etc rv arch)"
proof -
  have "fails_with content_error (digest_file host p)" for p
    unfolding digest_file_def digest_file_with_limit_def by (intro fails_intros; simp)+
  then have "fails_with content_error (bind_source host f)" for f
    unfolding bind_source_def resolve_source_def
    by (auto intro!: fails_intros fails_bind split: option.split sum.split)
  moreover have "fails_with content_error (probe_sources host files q)" for files q
    unfolding probe_sources_def by (intro fails_intros) simp_all
  moreover have "refuses content_error (parse_stanzas rv i found rs ss)" for rv i found rs ss
    by (induction ss arbitrary: found rs) (auto simp: substitute_def Let_def intro!: fails_intros)
  then have "fails_with content_error (parse_repository host rv rs f i)" for rv rs f i
    unfolding parse_repository_def by (auto intro!: fails_intros)
  ultimately show ?thesis
    unfolding verify_sources_at_def Let_def by (auto intro!: fails_intros split: prod.split)
qed

lemma sources_fail [simp]: "fails_with listed (verify_sources_at host etc rv arch)"
  by (rule fails_mono [OF sources_exit content_listed])

lemma rows_fail: "fails_with listed (verify_rows host input store rows)"
proof (induction rows)
  case (Cons row rows)
  have "refuses listed (classify_row input row)"
    unfolding classify_row_def Let_def
    by (cases "json_str (json_field row ''action'') = Some ''Replaced''") (simp_all, intro fails_intros, simp_all,
      intro conjI impI fails_intros, simp_all)
  with Cons show ?case by (auto simp: Let_def intro!: fails_intros split: option.split)
qed simp

lemma discover_fails [simp]: "fails_with listed (discover_dependencies host to_value b input store)"
  unfolding discover_dependencies_def by (auto intro!: fails_intros rows_fail)

lemma write_fails [simp]:
  "fails_with listed (write_private host p b)" "fails_with listed (bind_file host p)"
  "fails_with listed (read_transaction host p)" "fails_with listed (check_sources host f i)"
  unfolding write_private_def bind_file_def read_transaction_def check_sources_def Let_def
  by (auto intro!: fails_intros fails_bind split: sum.split read_failure.split io_error.split)

lemma snapshot_fails [simp]:
  "fails_with listed (bind_cache_and_snapshot host planning expected rid repomd tree)"
proof -
  have e: "fails_with listed (snapshot_entry host a b r)" for a b r
    unfolding snapshot_entry_def Let_def by (intro fails_intros) (simp_all add: refuses_map_err)
  have o: "listed err \<Longrightarrow> fails_with listed (regular_or host p err)" for p err
    unfolding regular_or_def by (intro fails_intros) simp_all
  have m: "fails_with listed (check_release_metadata host a b d)" for a b d
    unfolding check_release_metadata_def by (intro fails_intros o) simp_all
  have r: "fails_with listed (snapshot_repository host ids rid repomd tree i)" for ids i
    unfolding snapshot_repository_def Let_def by (auto intro!: fails_intros e o m)
  have c: "refuses listed (cache_entries expected cache ids rs)" for cache ids rs
    by (induction rs arbitrary: ids) (auto split: sum.split option.split prod.split)
  show ?thesis
    unfolding bind_cache_and_snapshot_def Let_def by (intro fails_intros r) (simp_all add: c)
qed

lemma prepare_fails: "fails_with (\<lambda>f. listed (pe_error f)) (prepare host ops tc input at)"
proof -
  have planned: "fails_with listed (compose_planned host tc input tree repos trust iv planning)"
    for tree repos trust iv planning
    unfolding compose_planned_def Let_def
    by (intro fails_intros) (simp_all split: option.split)
  have plan: "fails_with listed (with_err pf_error (plan_downloads host ops q))" for q
    by (rule fails_with_err [OF plan_downloads_fails])
  have trusted: "fails_with listed (compose_trusted host tc (plan_downloads host ops) input tree repos trust)"
    for tree repos trust
    unfolding compose_trusted_def
    apply (rule fails_attempt, intro fails_each fails_const, simp)
    apply (rule fails_attempt, simp)
    apply (rule fails_attempt, simp)
    apply (rule fails_attempt, simp)
    apply (rule fails_attempt, simp)
    apply (rule fails_attempt [OF plan fails_owning [OF planned]])
    done
  have composed: "fails_with listed (compose host tc (plan_downloads host ops) input tree)" for tree
    unfolding compose_def Let_def
    by (auto intro!: fails_attempt fails_owning trusted split: option.split)
  have "fails_with (\<lambda>f. listed (pe_error f)) (with_err (\<lambda>e. \<lparr>pe_error = e, pe_diagnostics = Some tree\<rparr>)
      (compose host tc (plan_downloads host ops) input tree))" for tree
    by (rule fails_with_err [OF composed]) simp
  then show ?thesis
    unfolding prepare_def prepare_with_def by (intro fails_attempt [OF fails_const] fails_attempt) simp_all
qed

lemma review_fails [simp]: "fails_with listed (review_plan cs r opts)"
  unfolding review_plan_def by (auto intro!: fails_intros)

lemma replay_fails: "fails_with (\<lambda>f. listed (rf_error f)) (execute_replay host executor t approval)"
proof -
  have bound: "fails_with listed (verify_bound host t)"
  proof -
    have "fails_with listed (verify_bound_file host f)" for f
      unfolding verify_bound_file_def by (auto intro!: fails_intros split: prod.split)
    then show ?thesis unfolding verify_bound_def by (intro fails_intros) simp_all
  qed
  have "fails_with (\<lambda>f. listed (rf_error f)) (with_err refused (verify_bound host t))"
    by (rule fails_with_err [OF bound]) (simp add: refused_def)
  moreover have "refuses (\<lambda>f. listed (rf_error f)) (import_verdict v)"
    "refuses (\<lambda>f. listed (rf_error f)) (replay_verdict v)" for v
    unfolding import_verdict_def replay_verdict_def by (simp_all split: sum.split replay_status.split)
  then have "fails_with (\<lambda>f. listed (rf_error f)) (run_step executor argv import_verdict)"
    "fails_with (\<lambda>f. listed (rf_error f)) (run_step executor argv replay_verdict)" for argv
    unfolding run_step_def by (intro fails_bind; simp)+
  moreover have "fails_with (\<lambda>f. listed (rf_error f))
      (with_err (\<lambda>_. import_failed None) (verify_imported_key host t))"
    by (rule fails_const) simp
  ultimately show ?thesis
    unfolding execute_replay_def by (auto simp: refused_def intro!: fails_attempt)
qed

text \<open>A replay that kept the status of a native command exits with 30 all the same.\<close>

definition status_dropped :: "replay_failure \<Rightarrow> bool" where
  "status_dropped f \<longleftrightarrow> rf_status f = None \<or> ie_exit_code (rf_error f) = 30
     \<and> ie_code (rf_error f) \<in> {''INSTALL_KEY_IMPORT_FAILED'', ''INSTALL_REPLAY_FAILED''}"

lemma status_dropped_simps [simp]: "status_dropped (refused e)" "status_dropped (import_failed st)"
  "status_dropped (replay_failed st)" "status_dropped replay_unstarted"
  by (simp_all add: status_dropped_def refused_def import_failed_def replay_failed_def
      replay_unstarted_def install_err_def)

lemma replay_exit: "fails_with status_dropped (execute_replay host executor t approval)"
proof -
  have "refuses status_dropped (import_verdict v)" "refuses status_dropped (replay_verdict v)" for v
    unfolding import_verdict_def replay_verdict_def by (simp_all split: sum.split replay_status.split)
  then have "fails_with status_dropped (run_step executor argv import_verdict)"
    "fails_with status_dropped (run_step executor argv replay_verdict)" for argv
    unfolding run_step_def by (intro fails_bind; simp)+
  then show ?thesis
    unfolding execute_replay_def by (auto intro!: fails_attempt fails_const)
qed

section \<open>Programs that install a release\<close>

text \<open>The contract of a program whose own steps fail only with listed errors.\<close>

locale listed_program = release_program +
  assumes facts_listed: "fails_with listed (find_facts release)"
    and prepared_listed: "fails_with listed (prepared_from input)"
    and judge_listed: "fails_with listed (judge release before)"
begin

lemma after_review_fails: "fails_with listed (after_review release before t)"
  unfolding fails_with_def
proof (intro allI impI)
  fix w e w'
  assume run: "run_state (after_review release before t) w = (Inl e, w')"
  obtain r u where u: "run_state (review_plan (pg_console p) (plan_of t) opts) w = (r, u)"
    by (cases "run_state (review_plan (pg_console p) (plan_of t) opts) w") blast
  consider d where "r = Inl d" | a where "r = Inr (Approved a)"
    | review where "r = Inr review" "\<forall>a. review \<noteq> Approved a"
    by (cases r) auto
  then show "listed e"
  proof cases
    case (1 d)
    then have "listed d" using review_fails u unfolding fails_with_def by blast
    with run u 1 show ?thesis by (auto simp: after_review split: prod.splits)
  next
    case (2 a)
    with run u show ?thesis
      using judge_listed replay_fails unfolding fails_with_def
      by (auto simp: after_review approved split: prod.splits sum.splits) blast+
  next
    case (3 review)
    with unapproved obtain line where "reviewed release before t review = do {
        say p line; drop_prepared (pg_host p) t; pure (Inr 0) }" by blast
    with 3 run u show ?thesis by (auto simp: after_review split: prod.splits)
  qed
qed

lemma failures: "fails_with listed whole"
  unfolding whole
  by (intro fails_attempt facts_listed prepared_listed after_review_fails) simp_all

end

lemma reported_preparation_fails:
  fixes report :: "string option \<Rightarrow> ('e, unit) effect"
  assumes m: "m = do {
      r \<leftarrow> prepare (pg_host p) (pg_native p) (pg_codec p) input 0;
      (case r of
         Inl failure \<Rightarrow> do { report (pe_diagnostics failure); pure (Inl (pe_error failure)) }
       | Inr t \<Rightarrow> pure (Inr t))
    }"
  shows "fails_with listed m"
  using prepare_fails unfolding fails_with_def m
  by (auto split: prod.splits sum.splits) blast

interpretation installer_errors: listed_program p opts "\<lambda>_. discovered p" "\<lambda>_. discover p"
  "prepare_reported p" "display_privileged_steps p" "verify_after p opts"
  "\<lambda>failure retained. warn p (''intel-npu-stack-install: native exit '' @ status_text (rf_status failure)
     @ ''; retained '' @ retained)"
  "install_reviewed p opts" "install_prepared p opts" "install p opts"
  for p opts
proof
  show "fails_with listed (prepare_reported p input)" for input
    by (rule reported_preparation_fails [OF prepare_reported_def])
  show "fails_with listed (verify_after p opts release before)" for release before
    unfolding verify_after_def by (intro fails_attempt fails_bind) simp_all
  show "fails_with listed (discover p)"
    unfolding discover_def by (intro fails_intros) simp_all
qed

lemmas install_fails = installer_errors.failures

end
