(* ===== verification/Harness.thy ===== *)
theory Harness
  imports Error_Laws
begin

text \<open>
  \<open>crates/stack-install/examples/guest-harness.rs\<close>: the driver of the lifecycle tests in disposable
  virtual machines. It is the installer with the discovery of the platform replaced by fabricated
  facts, with its own texts, over the same \<open>program\<close> as \<open>Installer\<close>. It includes \<open>trust.rs\<close>, so
  the release is the pinned one. The contract \<open>release_program\<close> of \<open>Install_Laws\<close> gives what it
  promises.
\<close>

section \<open>The fabricated facts\<close>

definition minimum_invalid :: install_error where
  "minimum_invalid = install_err 10 ''INSTALL_PROFILE_UNSUPPORTED''
     ''profile kernel minimum is not a valid release''"

definition synthetic_facts :: "profile \<Rightarrow> (install_error, platform_facts) result" where
  "synthetic_facts p =
     and_then (map_err (\<lambda>_. minimum_invalid) (parse_release (kr_min (p_kernel p)))) (\<lambda>kernel.
     Inr \<lparr>pf_os_id = ''fedora'', pf_os_version_id = ''44'', pf_arch = ''x86_64'', pf_kernel = kernel,
       pf_pci_ids = [PciId ''8086'' ''643e''], pf_intel_vpu_loaded = True,
       pf_accel_node_present = True, pf_effective_root = False, pf_boot_time_epoch = 0\<rparr>)"

section \<open>The run\<close>

definition harness_report_lines :: "lifecycle_report \<Rightarrow> string list" where
  "harness_report_lines r =
     [''Native replay complete; verified '' @ show_nat (length (lr_verified r)) @ '' release package(s).'']
     @ map (\<lambda>capability. ''Reboot required before '' @ capability @ '' becomes active.'') (lr_pending_reboot r)
     @ map (\<lambda>capability. ''Relogin required before '' @ capability @ '' becomes active.'') (lr_pending_relogin r)"

definition harness_verify :: "'e program \<Rightarrow> install_options \<Rightarrow> verified_release \<Rightarrow> native_inventory
    \<Rightarrow> ('e, (install_error, u8) result) effect" where
  "harness_verify p opts release before =
     attempt (query_inventory (h_sha256 (pg_host p)) (h_runner (pg_host p))) (\<lambda>after.
     attempt (pure (verify_installation (vr_manifest release) (io_with_python opts) (io_with_devel opts)
       (vr_profile release) before after)) (\<lambda>report. do {
     say_each p (harness_report_lines report);
     pure (Inr 0)
   }))"

definition harness_steps :: "'e program \<Rightarrow> prepared_transaction \<Rightarrow> ('e, unit) effect" where
  "harness_steps p t = say_each p (map (\<lambda>step. ''  '' @ join_on '' '' step) (replay_steps t))"

definition harness_failure :: "'e program \<Rightarrow> replay_failure \<Rightarrow> string \<Rightarrow> ('e, unit) effect" where
  "harness_failure p failure retained =
     warn p (''guest-harness: native exit '' @ status_text (rf_status failure) @ ''; retained '' @ retained)"

definition harness_reviewed :: "'e program \<Rightarrow> install_options \<Rightarrow> verified_release \<Rightarrow> native_inventory
    \<Rightarrow> prepared_transaction \<Rightarrow> plan_review \<Rightarrow> ('e, (install_error, u8) result) effect" where
  "harness_reviewed p opts release before t review = (case review of
       Dry_Run \<Rightarrow> do {
         say p ''Dry run complete; nothing was installed.'';
         drop_prepared (pg_host p) t;
         pure (Inr 0)
       }
     | No_Changes \<Rightarrow> do {
         say p ''Nothing to install; the exact profile is already present.'';
         drop_prepared (pg_host p) t;
         pure (Inr 0)
       }
     | Approved receipt \<Rightarrow> do {
         harness_steps p t;
         r \<leftarrow> execute_replay (pg_host p) (pg_executor p) t receipt;
         (case r of
            Inr _ \<Rightarrow> do {
              verdict \<leftarrow> harness_verify p opts release before;
              drop_prepared (pg_host p) t;
              pure verdict
            }
          | Inl failure \<Rightarrow> do {
              retained \<leftarrow> preserve (pg_host p) t;
              harness_failure p failure retained;
              pure (Inl (rf_error failure))
            })
       })"

definition harness_prepared :: "'e program \<Rightarrow> install_options \<Rightarrow> verified_release \<Rightarrow> native_inventory
    \<Rightarrow> prepared_transaction \<Rightarrow> ('e, (install_error, u8) result) effect" where
  "harness_prepared p opts release before t = do {
     r \<leftarrow> review_plan (pg_console p) (plan_of t) opts;
     (case r of
        Inl e \<Rightarrow> do { drop_prepared (pg_host p) t; pure (Inl e) }
      | Inr review \<Rightarrow> harness_reviewed p opts release before t review)
   }"

definition harness_diagnostics :: "'e program \<Rightarrow> string option \<Rightarrow> ('e, unit) effect" where
  "harness_diagnostics p d = (case d of
       None \<Rightarrow> State_Monad.return ()
     | Some path \<Rightarrow> warn p (''guest-harness: retained diagnostics in '' @ path))"

definition harness_prepare :: "'e program \<Rightarrow> prepare_input
    \<Rightarrow> ('e, (install_error, prepared_transaction) result) effect" where
  "harness_prepare p input = do {
     r \<leftarrow> prepare (pg_host p) (pg_native p) (pg_codec p) input 0;
     (case r of
        Inl failure \<Rightarrow> do {
          harness_diagnostics p (pe_diagnostics failure);
          pure (Inl (pe_error failure))
        }
      | Inr t \<Rightarrow> pure (Inr t))
   }"

definition harness_run :: "'e program \<Rightarrow> install_options \<Rightarrow> ('e, (install_error, u8) result) effect" where
  "harness_run p opts =
     attempt (fetch_release (pg_host p) (pg_decoders p) (pinned_location (pg_keyring p))) (\<lambda>release.
     attempt (pure (synthetic_facts (vr_profile release))) (\<lambda>facts.
     attempt (pure (validate_request opts facts [vr_profile release])) (\<lambda>_.
     attempt (pure (selected_packages (vr_manifest release) (io_with_python opts) (io_with_devel opts)))
       (\<lambda>packages.
     attempt (verify_sources_at (pg_host p) ''/etc'' ''44'' ''x86_64'') (\<lambda>fedora.
     attempt (query_inventory (h_sha256 (pg_host p)) (h_runner (pg_host p))) (\<lambda>before.
     attempt (harness_prepare p (install_input p release packages fedora)) (\<lambda>t.
     harness_prepared p opts release before t)))))))"

definition harness_main :: "'e program \<Rightarrow> install_options \<Rightarrow> ('e, u8) effect" where
  "harness_main p opts = do {
     r \<leftarrow> harness_run p opts;
     (case r of
        Inr code \<Rightarrow> State_Monad.return code
      | Inl e \<Rightarrow> do {
          warn p (''guest-harness (test-only, synthetic platform facts): '' @ ie_message e @ '' [''
            @ ie_code e @ '']'');
          State_Monad.return (ie_exit_code e)
        })
   }"

section \<open>The facts fit the release\<close>

text \<open>
  The fabricated kernel is the profile's own minimum, which a valid profile admits; so such facts
  match the profile exactly when it supports the fabricated device.
\<close>

lemma synthetic_facts_fit:
  assumes "profile_ok p" "is_fedora_44 p"
  shows "\<exists>facts. synthetic_facts p = Inr facts \<and> kernel_matches p (pf_kernel facts)
    \<and> (platform_matches p facts \<longleftrightarrow> PciId ''8086'' ''643e'' \<in> set (p_hardware p))"
proof -
  from assms(1) have "kernel_ok (p_kernel p)" by (simp add: profile_ok_def)
  then obtain lo hi where k: "parse_release (kr_min (p_kernel p)) = Inr lo"
      "parse_release (kr_max_exclusive (p_kernel p)) = Inr hi" "lo < hi"
      "kr_module (p_kernel p) = ''intel_vpu''"
    unfolding kernel_ok_def by (metis parse_release_iff)
  from k(1) obtain facts where f: "synthetic_facts p = Inr facts" "pf_kernel facts = lo"
      "pf_pci_ids facts = [PciId ''8086'' ''643e'']" "pf_intel_vpu_loaded facts"
      "pf_os_id facts = ''fedora''" "pf_os_version_id facts = ''44''" "pf_arch facts = ''x86_64''"
    by (simp add: synthetic_facts_def)
  have "kernel_matches p lo" using k(1-3) by (simp add: kernel_matches_def)
  with f k(4) assms(2) show ?thesis
    by (intro exI [of _ facts]) (simp add: platform_matches_def is_fedora_44_def list_ex_iff)
qed

section \<open>The contract\<close>

text \<open>The facts of a run are fabricated from the profile of the release it fetched.\<close>

definition fabricated :: "verified_release \<Rightarrow> platform_facts \<Rightarrow> bool" where
  "fabricated release facts \<longleftrightarrow> synthetic_facts (vr_profile release) = Inr facts"

lemma harness_output [simp]:
  "harmless (harness_steps p t)" "tidy (harness_steps p t)"
  "harmless (harness_failure p failure d)" "tidy (harness_failure p failure d)"
  "harmless (harness_diagnostics p path)" "tidy (harness_diagnostics p path)"
  by (auto simp: harness_steps_def harness_failure_def harness_diagnostics_def split: option.split)

lemma synthetic_refuses: "refuses listed (synthetic_facts p)"
  unfolding synthetic_facts_def minimum_invalid_def
  by (intro fails_intros) (simp_all add: refuses_def listed_def install_err_def INSTALL_ERRORS_def)

interpretation harness: listed_program p opts fabricated "\<lambda>release. pure (synthetic_facts (vr_profile release))"
  "harness_prepare p" "harness_steps p" "harness_verify p opts" "harness_failure p"
  "harness_reviewed p opts" "harness_prepared p opts" "harness_run p opts"
  for p opts
proof
  show "leaves (\<lambda>facts _. fabricated release facts) (pure (synthetic_facts (vr_profile release)))" for release
    by (simp add: leaves_def fabricated_def)
  show "leaves (\<lambda>t evs. parts_ok (h_sha256 (pg_host p)) input (pt_tree t) (pt_parts t) evs)
        (harness_prepare p input)"
    "harmless (harness_prepare p input)" "keeps {#} preparing_holds (harness_prepare p input)" for input
    by (rule reported_preparation [OF harness_output(5,6) harness_prepare_def])+
  show "leaves (\<lambda>code evs. code = 0 \<and> verified_after p opts release before evs)
        (harness_verify p opts release before)"
    "harmless (harness_verify p opts release before)" "tidy (harness_verify p opts release before)"
    for release before
    by (rule reported_verification [OF harness_verify_def])+
  show "\<exists>line. harness_reviewed p opts release before t review = do {
      say p line; drop_prepared (pg_host p) t; pure (Inr 0) }"
    if "\<forall>a. review \<noteq> Approved a" for review release before t
    using that by (cases review) (auto simp: harness_reviewed_def)
  show "fails_with listed (harness_prepare p input)" for input
    by (rule reported_preparation_fails [OF harness_prepare_def])
  show "fails_with listed (harness_verify p opts release before)" for release before
    unfolding harness_verify_def by (intro fails_attempt fails_bind) simp_all
  show "fails_with listed (pure (synthetic_facts (vr_profile release)))" for release
    by (simp add: synthetic_refuses)
qed (simp_all only: harness_output tidy_pure only_runs_pure harness_reviewed_def plan_review.case
    harness_prepared_def harness_run_def)

lemma harness_exit:
  assumes run: "run_state (harness_run p opts) w = (r, w')"
  shows "case r of Inl e \<Rightarrow> listed e \<and> fst (run_state (harness_main p opts) w) = ie_exit_code e
    | Inr code \<Rightarrow> code = 0 \<and> fst (run_state (harness_main p opts) w) = 0"
proof (cases r)
  case (Inl e)
  with run harness.failures have "listed e" unfolding fails_with_def by blast
  with run Inl show ?thesis by (simp add: harness_main_def split: prod.split)
next
  case (Inr code)
  with run leavesD [OF harness.zero] have "code = 0" by blast
  with run Inr show ?thesis by (simp add: harness_main_def)
qed

section \<open>The platform is not read\<close>

lemma fields_without_facts:
  "pg_host (pg_facts_update f p) = pg_host p" "pg_native (pg_facts_update f p) = pg_native p"
  "pg_console (pg_facts_update f p) = pg_console p" "pg_executor (pg_facts_update f p) = pg_executor p"
  "pg_decoders (pg_facts_update f p) = pg_decoders p" "pg_codec (pg_facts_update f p) = pg_codec p"
  "pg_keyring (pg_facts_update f p) = pg_keyring p"
  by simp_all

lemma output_without_facts [simp]:
  "say (pg_facts_update f p) = say p" "warn (pg_facts_update f p) = warn p"
  "say_each (pg_facts_update f p) ls = say_each p ls"
proof -
  show s: "say (pg_facts_update f p) = say p" by (rule ext) (simp add: say_def)
  show "warn (pg_facts_update f p) = warn p" by (rule ext) (simp add: warn_def)
  show "say_each (pg_facts_update f p) ls = say_each p ls" by (induction ls) (simp_all add: s)
qed

lemma parts_without_facts [simp]:
  "harness_verify (pg_facts_update f p) = harness_verify p"
  "harness_steps (pg_facts_update f p) = harness_steps p"
  "harness_failure (pg_facts_update f p) = harness_failure p"
  "harness_diagnostics (pg_facts_update f p) = harness_diagnostics p"
  "install_input (pg_facts_update f p) = install_input p"
  by (intro ext, simp add: harness_verify_def harness_steps_def harness_failure_def
      harness_diagnostics_def install_input_def cong: option.case_cong)+

lemma run_without_facts: "harness_run (pg_facts_update f p) opts = harness_run p opts"
proof -
  have "harness_reviewed (pg_facts_update f p) = harness_reviewed p"
    by (intro ext) (simp only: harness_reviewed_def parts_without_facts output_without_facts fields_without_facts)
  moreover from this have "harness_prepared (pg_facts_update f p) = harness_prepared p"
    by (intro ext) (simp only: harness_prepared_def fields_without_facts)
  moreover have "harness_prepare (pg_facts_update f p) = harness_prepare p"
    by (intro ext) (simp only: harness_prepare_def parts_without_facts fields_without_facts)
  ultimately show ?thesis
    by (simp only: harness_run_def parts_without_facts fields_without_facts)
qed

end
