(* ===== verification/Sources_Laws.thy ===== *)
theory Sources_Laws
  imports Install_Laws
begin

text \<open>
  The Fedora repository configuration that the installer trusts: owned by packages and unmodified,
  with one enabled repository per file, at its pinned metalink, and every other one disabled.
\<close>

definition base_stanza :: "stanza \<Rightarrow> bool" where
  "base_stanza s \<longleftrightarrow> fst s \<in> {''fedora'', ''updates''}"

definition off_stanza :: "stanza \<Rightarrow> bool" where
  "off_stanza s \<longleftrightarrow> \<not> base_stanza s \<and> directive s ''enabled'' = Some ''0''"

text \<open>The one stanza of a file that is enabled, and the repository it describes.\<close>

definition describes :: "string \<Rightarrow> string \<Rightarrow> stanza \<Rightarrow> fedora_repository \<Rightarrow> bool" where
  "describes releasever i s r \<longleftrightarrow> fst s = i \<and> base_directives_ok s
     \<and> (\<exists>metalink name. directive s ''metalink'' = Some metalink
          \<and> substitute releasever metalink = Inr (pinned_metalink releasever i)
          \<and> directive s ''name'' = Some name \<and> substitute releasever name = Inr (fy_name r)
          \<and> fy_metalink r = pinned_metalink releasever i)"

lemma parse_stanzas_found:
  "parse_stanzas rv i True rs ss = Inr (f, rs') \<longleftrightarrow> list_all off_stanza ss \<and> f \<and> rs' = rs"
  by (induction ss) (auto simp: off_stanza_def base_stanza_def)

lemma describes_iff:
  "(\<exists>r. describes rv i s r \<and> P r) \<longleftrightarrow> fst s = i \<and> base_directives_ok s
     \<and> (\<exists>metalink name t. directive s ''metalink'' = Some metalink
          \<and> substitute rv metalink = Inr (pinned_metalink rv i) \<and> directive s ''name'' = Some name
          \<and> substitute rv name = Inr t
          \<and> P \<lparr>fy_name = t, fy_metalink = pinned_metalink rv i\<rparr>)" (is "?l \<longleftrightarrow> ?r")
proof
  assume ?l
  then obtain r where r: "describes rv i s r" "P r" by blast
  moreover from r(1) have "r = \<lparr>fy_name = fy_name r, fy_metalink = pinned_metalink rv i\<rparr>"
    by (cases r) (auto simp: describes_def)
  ultimately show ?r unfolding describes_def by metis
next
  assume ?r
  then obtain t where "describes rv i s \<lparr>fy_name = t, fy_metalink = pinned_metalink rv i\<rparr>"
      "P \<lparr>fy_name = t, fy_metalink = pinned_metalink rv i\<rparr>"
    by (auto simp: describes_def)
  then show ?l by blast
qed

lemma parse_base:
  assumes "base_stanza s"
  shows "parse_stanzas rv i False rs (s # ss) = Inr (f, rs') \<longleftrightarrow> list_all off_stanza ss \<and> f
     \<and> (\<exists>r. describes rv i s r \<and> rs' = bm_insert i r rs)"
proof -
  have "\<not> (fst s \<notin> {''fedora'', ''updates''})" using assms by (simp add: base_stanza_def)
  then show ?thesis
    unfolding describes_iff parse_stanzas.simps
    by (simp only: if_False) (auto simp: parse_stanzas_found Let_def)
qed

lemma parse_off:
  "\<not> base_stanza s \<Longrightarrow> parse_stanzas rv i f rs (s # ss) = Inr v \<longleftrightarrow>
     off_stanza s \<and> parse_stanzas rv i f rs ss = Inr v"
  by (simp add: base_stanza_def off_stanza_def)

lemma parse_stanzas_exact:
  "parse_stanzas rv i False rs ss = Inr (f, rs') \<longleftrightarrow>
     list_all off_stanza ss \<and> \<not> f \<and> rs' = rs
     \<or> f \<and> (\<exists>before s after r. ss = before @ s # after \<and> list_all off_stanza (before @ after)
          \<and> base_stanza s \<and> describes rv i s r \<and> rs' = bm_insert i r rs)"
proof (induction ss)
  case Nil
  show ?case by auto
next
  case (Cons s ss)
  show ?case
  proof (cases "base_stanza s")
    case False
    have shift: "(\<exists>before t after r. s # ss = before @ t # after \<and> list_all off_stanza (before @ after)
          \<and> base_stanza t \<and> describes rv i t r \<and> rs' = bm_insert i r rs)
        \<longleftrightarrow> off_stanza s \<and> (\<exists>before t after r. ss = before @ t # after
          \<and> list_all off_stanza (before @ after) \<and> base_stanza t \<and> describes rv i t r
          \<and> rs' = bm_insert i r rs)" (is "?l \<longleftrightarrow> off_stanza s \<and> ?r")
    proof
      assume ?l
      then obtain before t after r where l: "s # ss = before @ t # after"
          "list_all off_stanza (before @ after)" "base_stanza t" "describes rv i t r"
          "rs' = bm_insert i r rs" by blast
      with False obtain before' where b: "before = s # before'" by (cases before) auto
      with l have "ss = before' @ t # after" "list_all off_stanza (before' @ after)" "off_stanza s"
        by simp_all
      with l show "off_stanza s \<and> ?r" by blast
    next
      assume r: "off_stanza s \<and> ?r"
      then obtain before t after r where "ss = before @ t # after"
          "list_all off_stanza (before @ after)" "base_stanza t" "describes rv i t r"
          "rs' = bm_insert i r rs" by blast
      moreover from this r have "s # ss = (s # before) @ t # after"
          "list_all off_stanza ((s # before) @ after)" by simp_all
      ultimately show ?l by blast
    qed
    show ?thesis
      unfolding shift parse_off [OF False] Cons.IH by (simp only: list.pred_inject) blast
  next
    case True
    then have no_off: "\<not> off_stanza s" by (simp add: off_stanza_def)
    have here: "(\<exists>before t after r. s # ss = before @ t # after \<and> list_all off_stanza (before @ after)
          \<and> base_stanza t \<and> describes rv i t r \<and> rs' = bm_insert i r rs)
        \<longleftrightarrow> list_all off_stanza ss \<and> (\<exists>r. describes rv i s r \<and> rs' = bm_insert i r rs)" (is "?l \<longleftrightarrow> ?r")
    proof
      assume ?l
      then obtain before t after r where l: "s # ss = before @ t # after"
          "list_all off_stanza (before @ after)" "describes rv i t r" "rs' = bm_insert i r rs" by blast
      with True have "before = []" by (cases before) (auto simp: off_stanza_def)
      with l have "t = s" "after = ss" "list_all off_stanza ss" by simp_all
      with l show ?r by blast
    next
      assume r: ?r
      have "s # ss = [] @ s # ss" by simp
      with r True show ?l by (metis append_Nil)
    qed
    show ?thesis
      unfolding here parse_base [OF True] using no_off by (simp only: list.pred_inject) blast
  qed
qed

text \<open>The content of a repository file: one enabled repository, as its identifier demands.\<close>

definition repository_in :: "string \<Rightarrow> string \<Rightarrow> bytes \<Rightarrow> fedora_repository \<Rightarrow> bool" where
  "repository_in releasever i content r \<longleftrightarrow> (\<exists>before s after.
     stanza_lines {} [] (str_lines content) = Some (before @ s # after)
     \<and> list_all off_stanza (before @ after) \<and> base_stanza s \<and> describes releasever i s r)"

definition sources_ok :: "string \<Rightarrow> string \<Rightarrow> string \<Rightarrow> fedora_sources \<Rightarrow> event list \<Rightarrow> bool" where
  "sources_ok etc releasever basearch s evs \<longleftrightarrow>
     (\<exists>bound owners unmodified content updated r u files. files = source_files etc releasever basearch
        \<and> evs = bound @ [Ran (source_request ''-qf'' files) (Inr owners),
            Ran (source_request ''-Vf'' files) (Inr unmodified),
            Was_Read (files ! 0) content, Was_Read (files ! 1) updated]
        \<and> complete_output () owners = Inr (po_stdout owners) \<and> po_stdout owners \<noteq> []
        \<and> complete_output () unmodified = Inr []
        \<and> repository_in releasever ''fedora'' content r \<and> repository_in releasever ''updates'' updated u
        \<and> fa_repositories s = [(''fedora'', r), (''updates'', u)])"

lemma parse_repository_leaves:
  "leaves (\<lambda>v evs. \<exists>b. evs = [Was_Read file b]
       \<and> (fst v \<longrightarrow> (\<exists>r. repository_in rv i b r \<and> snd v = bm_insert i r rs)))
     (parse_repository host rv rs file i)"
  unfolding parse_repository_def
proof (rule leaves_step [OF leaves_with_err [OF leaves_read] leaves_pure])
  fix b v and xs ys :: "event list"
  assume x: "xs = [Was_Read file b]" and y: "and_then (utf8_text sources_invalid b) (\<lambda>t.
        and_then (ok_or sources_invalid (stanza_lines {} [] (str_lines t)))
          (parse_stanzas rv i False rs)) = Inr v \<and> ys = []"
  then obtain ss where ss: "stanza_lines {} [] (str_lines b) = Some ss"
      "parse_stanzas rv i False rs ss = Inr (fst v, snd v)" by auto
  have "fst v \<longrightarrow> (\<exists>r. repository_in rv i b r \<and> snd v = bm_insert i r rs)"
    using ss unfolding parse_stanzas_exact repository_in_def by blast
  with x y show "\<exists>b. xs @ ys = [Was_Read file b]
      \<and> (fst v \<longrightarrow> (\<exists>r. repository_in rv i b r \<and> snd v = bm_insert i r rs))" by simp
qed

lemma probe_leaves:
  "leaves (\<lambda>_ evs. \<exists>po. evs = [Ran (source_request (fst q) files) (Inr po)]
       \<and> complete_output () po = Inr (po_stdout po) \<and> (po_stdout po = [] \<longleftrightarrow> snd q))
     (probe_sources host files q)"
  unfolding probe_sources_def
  by (rule leaves_weaken, (rule leaves_attempt leaves_rules)+)
    (simp only: followed_simps, auto simp: complete_output_Inr)

lemma pair_names: "bm_insert ''updates'' u (bm_insert ''fedora'' r []) = [(''fedora'', r), (''updates'', u)]"
proof -
  have "''fedora'' < ''updates''" by code_simp
  then show ?thesis by (simp add: not_less_iff_gr_or_eq)
qed

lemma sources_leaves:
  "leaves (sources_ok etc rv arch) (verify_sources_at host etc rv arch)"
proof (cases "release_admissible etc rv arch")
  case True
  let ?files = "source_files etc rv arch"
  have bound: "harmless (collect_attempt (bind_source host) ?files)"
    unfolding bind_source_def resolve_source_def
    by (auto intro!: harmless_intros only_runs_bind)
  have files: "leaves (\<lambda>s evs. \<exists>content updated r u. evs = [Was_Read (?files ! 0) content, Was_Read (?files ! 1) updated]
        \<and> repository_in rv ''fedora'' content r \<and> repository_in rv ''updates'' updated u
        \<and> fa_repositories s = [(''fedora'', r), (''updates'', u)])
      (attempt (parse_repository host rv [] (?files ! 0) ''fedora'') (\<lambda>(base, repositories).
        attempt (parse_repository host rv repositories (?files ! 1) ''updates'')
          (\<lambda>(updates, repositories).
        pure (if \<not> base \<or> \<not> updates then Inl sources_unverified
              else Inr \<lparr>fa_releasever = rv, fa_gpgkey = key bound,
                     fa_repositories = repositories, fa_digests = map fst bound,
                     fa_symlinks = concat (map snd bound)\<rparr>))))" (is "leaves ?P _")
    for bound key
  proof (rule leaves_step [OF parse_repository_leaves])
    fix v
    show "leaves (\<lambda>s evs. fst v \<and> (\<exists>b r. evs = [Was_Read (?files ! 1) b]
          \<and> repository_in rv ''updates'' b r \<and> fa_repositories s = bm_insert ''updates'' r (snd v)))
        (case v of (base, repositories) \<Rightarrow>
        attempt (parse_repository host rv repositories (?files ! 1) ''updates'')
          (\<lambda>(updates, repositories).
        pure (if \<not> base \<or> \<not> updates then Inl sources_unverified
              else Inr \<lparr>fa_releasever = rv, fa_gpgkey = key bound,
                     fa_repositories = repositories, fa_digests = map fst bound,
                     fa_symlinks = concat (map snd bound)\<rparr>)))"
    proof -
      obtain base repositories where v: "v = (base, repositories)" by (cases v)
      show ?thesis
        unfolding v prod.case fst_conv snd_conv
        by (rule leaves_step [OF parse_repository_leaves], unfold case_prod_beta, rule leaves_pure)
          (auto split: if_splits)
    qed
  next
    fix v and s :: fedora_sources and xs ys
    assume x: "\<exists>b. xs = [Was_Read (?files ! 0) b]
        \<and> (fst v \<longrightarrow> (\<exists>r. repository_in rv ''fedora'' b r \<and> snd v = bm_insert ''fedora'' r []))"
      and y: "fst v \<and> (\<exists>b r. ys = [Was_Read (?files ! 1) b]
          \<and> repository_in rv ''updates'' b r \<and> fa_repositories s = bm_insert ''updates'' r (snd v))"
    from y obtain u b where u: "ys = [Was_Read (?files ! 1) b]" "repository_in rv ''updates'' b u"
        "fa_repositories s = bm_insert ''updates'' u (snd v)" by blast
    from x y obtain c r where c: "xs = [Was_Read (?files ! 0) c]" "repository_in rv ''fedora'' c r"
        "snd v = bm_insert ''fedora'' r []" by blast
    have "fa_repositories s = [(''fedora'', r), (''updates'', u)]"
      using u(3) unfolding c(3) pair_names .
    with u(1,2) c(1,2) show "?P s (xs @ ys)" by auto
  qed
  define rest where "rest = (\<lambda>bound. attempt (parse_repository host rv [] (?files ! 0) ''fedora'')
      (\<lambda>(base, repositories). attempt (parse_repository host rv repositories (?files ! 1) ''updates'')
          (\<lambda>(updates, repositories).
        pure (if \<not> base \<or> \<not> updates then Inl sources_unverified
              else Inr \<lparr>fa_releasever = rv,
                     fa_gpgkey = replace_sub ''$basearch'' arch
                       (replace_sub ''$releasever'' rv FEDORA_KEY_TEMPLATE),
                     fa_repositories = repositories, fa_digests = map fst bound,
                     fa_symlinks = concat (map snd bound)\<rparr>))))"
  have probes: "leaves (sources_ok etc rv arch)
      (attempt (each_attempt (probe_sources host ?files) [(''-qf'', False), (''-Vf'', True)])
        (\<lambda>_. rest bound))" for bound
  proof (rule leaves_step [OF leaves_each [OF probe_leaves]])
    show "leaves ?P (rest bound)"
      unfolding rest_def using files [where key = "\<lambda>_. replace_sub ''$basearch'' arch
          (replace_sub ''$releasever'' rv FEDORA_KEY_TEMPLATE)"] .
    fix s :: fedora_sources and xs ys
    assume x: "\<exists>ess. xs = concat ess \<and> list_all2 (\<lambda>q es. \<exists>u. \<exists>po.
          es = [Ran (source_request (fst q) ?files) (Inr po)]
          \<and> complete_output () po = Inr (po_stdout po) \<and> (po_stdout po = [] \<longleftrightarrow> snd q))
        [(''-qf'', False), (''-Vf'', True)] ess" and y: "?P s ys"
    from x obtain owners unmodified where p: "xs = [Ran (source_request ''-qf'' ?files) (Inr owners),
            Ran (source_request ''-Vf'' ?files) (Inr unmodified)]"
        "complete_output () owners = Inr (po_stdout owners)" "po_stdout owners \<noteq> []"
        "complete_output () unmodified = Inr (po_stdout unmodified)" "po_stdout unmodified = []"
      by (auto simp: list_all2_Cons1)
    from y obtain content updated r u where q: "ys = [Was_Read (?files ! 0) content, Was_Read (?files ! 1) updated]"
        "repository_in rv ''fedora'' content r" "repository_in rv ''updates'' updated u"
        "fa_repositories s = [(''fedora'', r), (''updates'', u)]" by blast
    show "sources_ok etc rv arch s (xs @ ys)"
      unfolding sources_ok_def using p q
      by (intro exI [of _ "[]"] exI [of _ owners] exI [of _ unmodified] exI [of _ content]
          exI [of _ updated] exI [of _ r] exI [of _ u] exI [of _ ?files]) simp
  qed
  have grow: "sources_ok etc rv arch s (xs @ ys)" if "sources_ok etc rv arch s ys" for s xs ys
    using that unfolding sources_ok_def by (metis append_assoc)
  show ?thesis
    unfolding verify_sources_at_def Let_def
    by (simp only: True not_True_eq_False if_False)
      (rule leaves_skip [OF bound probes [unfolded rest_def]], rule grow)
qed (simp add: verify_sources_at_def leaves_def)

end
