(* ===== verification/Transaction_Properties.thy ===== *)
theory Transaction_Properties
  imports Harness Sources_Laws
begin

text \<open>
  The properties of the installation transaction: what is downloaded and believed, what a plan
  contains, what runs with privilege and when, how a run ends and what it leaves behind. Each is a
  statement about every run, from every world and for every host.
\<close>

section \<open>The installer\<close>

text \<open>C1. Whatever the system answers, a run of the installer either starts no privileged command at
all, or it is such a run: the release was fetched from the pinned location and authenticated; the
facts of the platform and the only profile of the release admit the request; the plan was prepared
from exactly the selected packages, its dependencies verified as Fedora packages and every
signature checked; the preview of this plan was shown and it was approved by the option or the
terminal, and not in a dry run; then every bound file, byte, signature and the inventory were
checked again before the fixed key import, the key was found in the native database before the
fixed replay; and success was reported only after the installed packages were verified against
the release.\<close>

theorem installer_changes_only_approved:
  "\<exists>evs. log (snd (run_state (install p opts) w)) = log w @ evs
     \<and> (privileged evs = [] \<or> install_run p opts (fst (run_state (install p opts) w)) evs)"
  using guardsD [OF install_guards] by (metis prod.collapse)

text \<open>C2. A replay runs privileged commands only for the reference of its own plan, which is not
empty, and only after the bound files, the stored transaction, every package and signature and the
inventory were checked; the commands are the displayed ones, in order: the key import alone, or the
import and, after the release key was listed in the native database, the replay. It succeeds only
when both ran.\<close>

theorem replay_checked_before_privilege:
  "\<exists>evs. log (snd (run_state (execute_replay host executor t approval) w)) = log w @ evs
     \<and> replay_run (h_sha256 host) t approval evs
     \<and> (privileged evs = [] \<or> privileged evs = [key_import_argv t] \<or> privileged evs = replay_steps t)
     \<and> (case fst (run_state (execute_replay host executor t approval) w) of
          Inl f \<Rightarrow> (ie_exit_code (rf_error f), ie_code (rf_error f)) \<in> set INSTALL_ERRORS
        | Inr _ \<Rightarrow> privileged evs = replay_steps t)"
proof -
  obtain r w' where run: "run_state (execute_replay host executor t approval) w = (r, w')"
    by (cases "run_state (execute_replay host executor t approval) w") blast
  from execute_replay_run [OF run] obtain evs where evs: "log w' = log w @ evs"
      "replay_run (h_sha256 host) t approval evs" "r = Inr () \<longrightarrow> privileged evs = replay_steps t"
    by blast
  have "privileged evs = [] \<or> privileged evs = [key_import_argv t] \<or> privileged evs = replay_steps t"
    using evs(2) unfolding replay_run_def
    by (elim disjE exE conjE) (simp_all add: replay_steps_def)
  moreover have "case r of
        Inl f \<Rightarrow> (ie_exit_code (rf_error f), ie_code (rf_error f)) \<in> set INSTALL_ERRORS
      | Inr _ \<Rightarrow> privileged evs = replay_steps t"
    using evs(3) replay_fails [of host executor t approval] run
    by (cases r) (auto simp: fails_with_def listed_def)
  ultimately show ?thesis
    using evs(1,2) unfolding run fst_conv snd_conv by (intro exI [of _ evs] conjI)
qed

text \<open>C10. Every failure of the installer is one of the listed pairs of exit code and error code,
which is what the program exits with; otherwise it exits with zero. The list is that of the code, and two
of its rows are not those of the exit table of \<open>docs/install-fedora.md\<close>: a failed verification of the
Fedora sources exits with 20, where the document says 30; and a privileged command that fails with a
status of its own is a failure with exit code 30, where the document says that the status is reported
verbatim.\<close>

theorem installer_exit_table:
  "(case fst (run_state (install p opts) w) of
      Inl e \<Rightarrow> (ie_exit_code e, ie_code e) \<in> set INSTALL_ERRORS
        \<and> fst (run_state (main p opts) w) = ie_exit_code e
    | Inr code \<Rightarrow> code = 0 \<and> fst (run_state (main p opts) w) = 0)
   \<and> (case fst (run_state (verify_sources_at host etc releasever basearch) v) of
        Inl e \<Rightarrow> ie_exit_code e = 20 | Inr _ \<Rightarrow> True)
   \<and> (case fst (run_state (execute_replay host executor t approval) v) of
        Inl f \<Rightarrow> rf_status f = None \<or> ie_exit_code (rf_error f) = 30
          \<and> ie_code (rf_error f) \<in> {''INSTALL_KEY_IMPORT_FAILED'', ''INSTALL_REPLAY_FAILED''}
      | Inr _ \<Rightarrow> True)"
proof (intro conjI)
  obtain r w' where run: "run_state (install p opts) w = (r, w')"
    by (cases "run_state (install p opts) w") blast
  show "case fst (run_state (install p opts) w) of
      Inl e \<Rightarrow> (ie_exit_code e, ie_code e) \<in> set INSTALL_ERRORS
        \<and> fst (run_state (main p opts) w) = ie_exit_code e
    | Inr code \<Rightarrow> code = 0 \<and> fst (run_state (main p opts) w) = 0"
  proof (cases r)
    case (Inl e)
    with run install_fails have "listed e" unfolding fails_with_def by blast
    with run Inl show ?thesis by (simp add: main_def listed_def split: prod.split)
  next
    case (Inr code)
    with run leavesD [OF install_zero] have "code = 0" by blast
    with run Inr show ?thesis by (simp add: main_def)
  qed
  show "case fst (run_state (verify_sources_at host etc releasever basearch) v) of
      Inl e \<Rightarrow> ie_exit_code e = 20 | Inr _ \<Rightarrow> True"
    using sources_exit [of host etc releasever basearch]
    by (cases "run_state (verify_sources_at host etc releasever basearch) v")
      (auto simp: fails_with_def content_error_def split: sum.split)
  show "case fst (run_state (execute_replay host executor t approval) v) of
      Inl f \<Rightarrow> rf_status f = None \<or> ie_exit_code (rf_error f) = 30
        \<and> ie_code (rf_error f) \<in> {''INSTALL_KEY_IMPORT_FAILED'', ''INSTALL_REPLAY_FAILED''}
    | Inr _ \<Rightarrow> True"
  proof (cases "run_state (execute_replay host executor t approval) v")
    case (Pair r u)
    then have "r = Inl f \<Longrightarrow> status_dropped f" for f
      using replay_exit [of host executor t approval] unfolding fails_with_def by blast
    then show ?thesis unfolding Pair fst_conv status_dropped_def by (cases r) simp_all
  qed
qed

text \<open>C14. The installer removes every private directory it makes, with the trust database, the
snapshots and the download directories, when it succeeds; after a failure at most two are left, for
diagnosis.\<close>

theorem installer_directories:
  "\<exists>left. live (log (snd (run_state (install p opts) w))) = live (log w) + left
     \<and> (case fst (run_state (install p opts) w) of Inl _ \<Rightarrow> size left \<le> 2 | Inr _ \<Rightarrow> left = {#})"
proof -
  obtain r w' where run: "run_state (install p opts) w = (r, w')"
    by (cases "run_state (install p opts) w") blast
  from keepsD [OF install_keeps run] obtain left where "leftover r left"
      "live (log w') = live (log w) + left" by auto
  then show ?thesis by (intro exI [of _ left]) (simp add: run leftover_def)
qed

text \<open>C40. The driver of the virtual-machine tests changes the system under the conditions of the
installer, with the facts it fabricates from the profile of the authenticated release in place of
discovered ones; it never reads the platform, leaves the same directories, and fails with the same
pairs of exit code and error code.\<close>

theorem harness_changes_only_approved:
  "(\<exists>evs left. log (snd (run_state (harness_run p opts) w)) = log w @ evs
     \<and> (privileged evs = [] \<or> release_run fabricated p opts (fst (run_state (harness_run p opts) w)) evs)
     \<and> live (log w @ evs) = live (log w) + left \<and> leftover (fst (run_state (harness_run p opts) w)) left)
   \<and> (case fst (run_state (harness_run p opts) w) of
        Inl e \<Rightarrow> (ie_exit_code e, ie_code e) \<in> set INSTALL_ERRORS
          \<and> fst (run_state (harness_main p opts) w) = ie_exit_code e
      | Inr code \<Rightarrow> code = 0 \<and> fst (run_state (harness_main p opts) w) = 0)
   \<and> harness_run (pg_facts_update f p) opts = harness_run p opts"
proof -
  obtain r w' where run: "run_state (harness_run p opts) w = (r, w')"
    by (cases "run_state (harness_run p opts) w") blast
  from guardsD [OF harness.guarded run] obtain evs where e: "log w' = log w @ evs"
      "privileged evs = [] \<or> release_run fabricated p opts r evs" by blast
  from keepsD [OF harness.kept run] obtain left where l: "leftover r left"
      "live (log w') = live (log w) + left" by auto
  have "case r of Inl e \<Rightarrow> listed e \<and> fst (run_state (harness_main p opts) w) = ie_exit_code e
      | Inr code \<Rightarrow> code = 0 \<and> fst (run_state (harness_main p opts) w) = 0"
    by (rule harness_exit [OF run])
  with e l run_without_facts show ?thesis
    unfolding run fst_conv snd_conv listed_def by metis
qed

section \<open>What is believed\<close>

text \<open>C5. A release is returned only after its metadata was downloaded within its limits from the
pinned location, has the pinned digest and a detached signature that \<open>gpg\<close> verified with the pinned
key alone under the signature policy, names the pinned release, and binds the bytes of the profile;
a failure has a listed code.\<close>

theorem release_authenticated:
  "case run_state (fetch_release host dc l) w of
     (Inl e, _) \<Rightarrow> (ie_exit_code e, ie_code e) \<in> set INSTALL_ERRORS
   | (Inr r, w') \<Rightarrow> \<exists>evs. log w' = log w @ evs \<and> location_ok l
       \<and> release_trace (h_sha256 host) dc l r evs"
proof -
  obtain r w' where run: "run_state (fetch_release host dc l) w = (r, w')"
    by (cases "run_state (fetch_release host dc l) w") blast
  have "r = Inl e \<Longrightarrow> (ie_exit_code e, ie_code e) \<in> set INSTALL_ERRORS" for e
    using run fetch_fails [of host dc l] by (auto simp: fails_with_def listed_def)
  moreover have "r = Inr a \<Longrightarrow> \<exists>evs. log w' = log w @ evs \<and> location_ok l
       \<and> release_trace (h_sha256 host) dc l a evs" for a
    using run leavesD [OF fetch_release_leaves] by blast
  ultimately show ?thesis using run by (simp split: sum.split)
qed

text \<open>C7. The machine status of \<open>gpg\<close> is accepted exactly when the exit code is zero, the output is
bounded UTF-8, every line is a status record of a known kind, and there is exactly one new, one good
and one valid signature record, of one key, made by the pinned primary key with an accepted
signature version, class and digest. Everything else is the one signature error.\<close>

theorem signature_policy_exact:
  "verify_signature_status code status primary =
     (if code = 0 \<and> status_policy status primary then Inr () else Inl signature_invalid)"
  using verify_signature_status_Inr [of code status primary] verify_signature_status_Inl [of code status primary]
  by (cases "verify_signature_status code status primary") auto

text \<open>C6. An RPM is believed only by a private copy of it: the copy has the digest before and after
the native tools ran on it, \<open>rpmkeys\<close> printed exactly one of the allowed signatures, and \<open>rpm\<close>
named exactly one package, whose identity gives the file name.\<close>

theorem native_rpm_authentic:
  "case run_state (verify_native_rpm host path sha database allowed) w of
     (Inl e, _) \<Rightarrow> (ie_exit_code e, ie_code e) \<in> set INSTALL_ERRORS
   | (Inr k, w') \<Rightarrow> \<exists>evs. log w' = log w @ evs \<and> rpm_trace (h_sha256 host) path sha database allowed k evs
       \<and> native_package k \<and> rp_sha256 k = sha \<and> path_file_name path = Some (rp_filename k)"
proof -
  obtain r w' where run: "run_state (verify_native_rpm host path sha database allowed) w = (r, w')"
    by (cases "run_state (verify_native_rpm host path sha database allowed) w") blast
  have "r = Inl e \<Longrightarrow> (ie_exit_code e, ie_code e) \<in> set INSTALL_ERRORS" for e
    using run rpm_fails [of host path sha database allowed] by (auto simp: fails_with_def listed_def)
  moreover have "r = Inr a \<Longrightarrow> \<exists>evs. log w' = log w @ evs
       \<and> rpm_trace (h_sha256 host) path sha database allowed a evs
       \<and> native_package a \<and> rp_sha256 a = sha \<and> path_file_name path = Some (rp_filename a)" for a
    using run leavesD [OF verify_native_rpm_leaves] by blast
  ultimately show ?thesis using run by (simp split: sum.split)
qed

text \<open>C15. The Fedora repositories are believed only if the files are owned by packages and
\<open>rpm\<close> reports no modification of them, and each file enables exactly one repository, the one of its
name, signed packages required, at the pinned mirror list; every other stanza is disabled.\<close>

theorem fedora_sources_verified:
  "case run_state (verify_sources_at host etc releasever basearch) w of
     (Inl e, _) \<Rightarrow> (ie_exit_code e, ie_code e) \<in> set INSTALL_ERRORS
   | (Inr s, w') \<Rightarrow> \<exists>evs. log w' = log w @ evs \<and> sources_ok etc releasever basearch s evs"
proof -
  obtain r w' where run: "run_state (verify_sources_at host etc releasever basearch) w = (r, w')"
    by (cases "run_state (verify_sources_at host etc releasever basearch) w") blast
  have "r = Inl e \<Longrightarrow> (ie_exit_code e, ie_code e) \<in> set INSTALL_ERRORS" for e
    using run sources_fail [of host etc releasever basearch] by (auto simp: fails_with_def listed_def)
  moreover have "r = Inr a \<Longrightarrow> \<exists>evs. log w' = log w @ evs \<and> sources_ok etc releasever basearch a evs" for a
    using run leavesD [OF sources_leaves] by blast
  ultimately show ?thesis using run by (simp split: sum.split)
qed

section \<open>Plans\<close>

text \<open>C8. A prepared transaction is a plan of exactly the packages that the observed inventory lacks
or has at an older version, proved older by \<open>rpm\<close>, among the selected release packages and the
dependencies, each bound to its row, digest, file and authority; every dependency was verified as a
Fedora package and every signature of the plan was checked.\<close>

theorem preparation_verified:
  "case run_state (prepare host ops tc input at) w of
     (Inl f, _) \<Rightarrow> (ie_exit_code (pe_error f), ie_code (pe_error f)) \<in> set INSTALL_ERRORS
   | (Inr t, w') \<Rightarrow> \<exists>evs. log w' = log w @ evs \<and> pt_address t = at
       \<and> parts_ok (h_sha256 host) input (pt_tree t) (pt_parts t) evs"
proof -
  obtain r w' where run: "run_state (prepare host ops tc input at) w = (r, w')"
    by (cases "run_state (prepare host ops tc input at) w") blast
  have "r = Inl f \<Longrightarrow> (ie_exit_code (pe_error f), ie_code (pe_error f)) \<in> set INSTALL_ERRORS" for f
    using run prepare_fails [of host ops tc input at] by (auto simp: fails_with_def listed_def)
  moreover have "r = Inr t \<Longrightarrow> \<exists>evs. log w' = log w @ evs \<and> pt_address t = at
       \<and> parts_ok (h_sha256 host) input (pt_tree t) (pt_parts t) evs" for t
    using run leavesD [OF prepare_leaves] by blast
  ultimately show ?thesis using run by (simp split: sum.split)
qed

text \<open>The native identity of a package, from which the zero epoch is left out, determines its
name, version and architecture.\<close>

theorem native_identity_injective:
  "inj_on (\<lambda>(n, e, a). native_identity n e a) {(n, e, a). valid_evr e \<and> CHR ''.'' \<notin> set a}"
  by (rule inj_onI) (auto simp: identity_ok_def dest!: native_identity_inj [rotated 2])

text \<open>C18. The loop that watches the planning command goes on only while the child runs within its
output limit and its time, so that it ends after at most the time limit and one turn: with the exit
of the child, successful exactly if the exit is and the output is within the limit, or with the
child killed.\<close>

theorem planning_child_stopped:
  "\<exists>m. m * from_millis 10 < timeout + from_millis 10
     \<and> list_all (goes_on timeout limit c) [0..<m]
     \<and> stops_with timeout limit c m (watch timeout limit c 0 0)"
proof -
  have "elapsed_at c 0 = 0" by (simp add: elapsed_at_def)
  with watch_stops [of 0 timeout limit c] obtain m where m: "\<forall>k. 0 \<le> k \<and> k < m \<longrightarrow> goes_on timeout limit c k"
      "stops_with timeout limit c m (watch timeout limit c 0 0)" by auto
  have "m * from_millis 10 < timeout + from_millis 10"
  proof (cases m)
    case 0
    then show ?thesis by (simp add: from_millis_def)
  next
    case (Suc k)
    with m(1) goes_on_bounded [of timeout limit c k] show ?thesis by simp
  qed
  with m show ?thesis by (intro exI [of _ m]) (auto simp: list_all_iff)
qed

section \<open>Approval and verification\<close>

text \<open>C16. A review approves a plan only if it is not empty, its preview was shown first, the run is
not a dry run, and the option was given or the terminal answered yes; the receipt is for this plan.
It fails only if the preview could not be shown or the confirmation was not given.\<close>

theorem review_decides:
  "case run_state (review_plan cs r opts) w of
     (Inl e, _) \<Rightarrow> e \<in> {output_failed, confirmation_error}
   | (Inr v, w') \<Rightarrow> \<exists>evs. log w' = log w @ evs \<and> review_trace r opts v evs"
proof -
  obtain v w' where run: "run_state (review_plan cs r opts) w = (v, w')"
    by (cases "run_state (review_plan cs r opts) w") blast
  have "fails_with (\<lambda>e. e \<in> {output_failed, confirmation_error}) (review_plan cs r opts)"
    unfolding review_plan_def by (auto intro!: fails_intros)
  then have "v = Inl e \<Longrightarrow> e \<in> {output_failed, confirmation_error}" for e
    using run by (auto simp: fails_with_def)
  moreover have "v = Inr a \<Longrightarrow> \<exists>evs. log w' = log w @ evs \<and> review_trace r opts a evs" for a
    using run leavesD [OF review_leaves] by blast
  ultimately show ?thesis using run by (simp split: sum.split)
qed

text \<open>What the check of the selection does not see: a second record of the same name and version, of
another architecture, passes, although the message of the refusal says \<open>or duplicated\<close>.\<close>

lemma duplicate_accepted:
  assumes "rpm_name k = rp_name p" "rpm_evr k = rp_nevr p" "rpm_arch k = rp_arch p"
    and "rpm_name j = rp_name p" "rpm_evr j = rp_nevr p" "rpm_arch j \<noteq> rp_arch p"
    and "ni_packages after = [k, j]"
  shows "verify_selected before after [p] [] {} = Inr ([rp_name p], changed_names before after [p])"
  unfolding verify_selected_Inr using assms by (simp add: installed_exactly_def)

text \<open>C17. An installation is verified exactly when of every selected package a record with its exact
name, version and architecture is installed and no record of its name has another version, and the
installed records of every other release package are those of before; the report names the selected
packages, and the capabilities whose provider is newly installed by the activation it needs. (A second
record of the same name and version, for another architecture, is not refused.)\<close>

theorem installation_verified_exactly:
  "verify_installation d py dv p before after = Inr r \<longleftrightarrow>
     (\<exists>selected. selected_packages d py dv = Inr selected
        \<and> list_all (installed_exactly after) selected
        \<and> list_all (\<lambda>k. snapshot (rp_name k) before = snapshot (rp_name k) after)
            (filter (\<lambda>k. rp_name k \<notin> rp_name ` set selected) (mf_packages d))
        \<and> r = \<lparr>lr_verified = map rp_name selected,
               lr_pending_reboot = pending Reboot (changed_names before after selected) p,
               lr_pending_relogin = pending Relogin (changed_names before after selected) p\<rparr>)"
  unfolding verify_installation_Inr by (simp add: list_all_iff Ball_def imp_conjL)

end
