(* ===== verification/Cli.thy ===== *)
theory Cli
  imports Inspect_Laws Matching Host
begin

text \<open>
  \<open>crates/stack-cli\<close>: the diagnostic command line, from its arguments as \<open>clap\<close> parses them to the
  exit code. What it is given is a record \<open>cli\<close>: the reads of the platform detection, the directory
  and the files of the profiles, the \<open>toml\<close> decoder, the parts of the production inspector, the JSON
  text of a report as \<open>serde_json\<close> writes it, and the two output streams. One \<open>writeln!\<close> is one write.
\<close>

section \<open>Names of files\<close>

definition byte_at :: "bytes \<Rightarrow> nat \<Rightarrow> nat" where
  "byte_at s i = (if i < length s then of_char (s ! i) else 0)"

text \<open>The sequence at the head: whether it is a character, and how many bytes it takes if it is, or
the longest part of one that \<open>from_utf8_lossy\<close> replaces at once.\<close>

definition scan_char :: "bytes \<Rightarrow> bool \<times> nat" where
  "scan_char s = (let a = byte_at s 0; b = byte_at s 1 in
     if a < 128 then (True, 1)
     else if 194 \<le> a \<and> a \<le> 223 then (if cont_byte b then (True, 2) else (False, 1))
     else if 224 \<le> a \<and> a \<le> 239 then
       (if (if a = 224 then 160 \<le> b \<and> b \<le> 191 else if a = 237 then 128 \<le> b \<and> b \<le> 159
            else cont_byte b)
        then (if cont_byte (byte_at s 2) then (True, 3) else (False, 2)) else (False, 1))
     else if 240 \<le> a \<and> a \<le> 244 then
       (if (if a = 240 then 144 \<le> b \<and> b \<le> 191 else if a = 244 then 128 \<le> b \<and> b \<le> 143
            else cont_byte b)
        then (if cont_byte (byte_at s 2)
              then (if cont_byte (byte_at s 3) then (True, 4) else (False, 3)) else (False, 2))
        else (False, 1))
     else (False, 1))"

definition replacement :: string where
  "replacement = [CHR 0xEF, CHR 0xBF, CHR 0xBD]"

lemma scan_char_pos: "0 < snd (scan_char s)"
  by (simp add: scan_char_def Let_def)

lemma drop_scan_char: "s \<noteq> [] \<Longrightarrow> scan_char s = (ok, n) \<Longrightarrow> length (drop n s) < length s"
  using scan_char_pos [of s] by (cases s) auto

function to_string_lossy :: "bytes \<Rightarrow> string" where
  "to_string_lossy s = (if s = [] then [] else case scan_char s of
     (ok, n) \<Rightarrow> (if ok then take n s else replacement) @ to_string_lossy (drop n s))"
  by pat_completeness auto
termination
  by (relation "measure length") (auto simp del: length_drop intro: drop_scan_char [OF _ sym])

declare to_string_lossy.simps [simp del]

text \<open>\<open>Path::extension\<close>: what follows the last dot of the file name, unless that dot is its first byte.\<close>

definition name_extension :: "string \<Rightarrow> string option" where
  "name_extension name = (let after = takeWhile (\<lambda>c. c \<noteq> CHR ''.'') (rev name) in
     if length name \<le> length after + 1 then None else Some (rev after))"

definition path_extension :: "string \<Rightarrow> string option" where
  "path_extension p = Option.bind (path_file_name p) name_extension"

section \<open>Loading the profiles\<close>

type_synonym 'e writer = "string \<Rightarrow> 'e \<Rightarrow> (io_error, unit) result \<times> 'e"

record 'e cli =
  cl_facts :: "'e \<Rightarrow> fs_view \<times> 'e"
  cl_read_dir :: "string \<Rightarrow> 'e \<Rightarrow> (io_error, (io_error, dir_entry) result list) result \<times> 'e"
  cl_read_to :: "string \<Rightarrow> nat \<Rightarrow> 'e \<Rightarrow> (io_error, bytes) result \<times> 'e"
  cl_toml :: "string \<Rightarrow> (string, profile) result"
  cl_production :: "'e production"
  cl_json :: "diagnostic_report \<Rightarrow> string"
  cl_stdout :: "'e writer"
  cl_stderr :: "'e writer"

record app_context =
  ac_platform_root :: string
  ac_profile_dir :: string
  ac_arch :: string
  ac_runtime_paths :: runtime_paths

definition MAX_FILE_BYTES :: nat where "MAX_FILE_BYTES = 1048576"

text \<open>The loop over the entries: the display names and paths of the regular \<open>.toml\<close> files.\<close>

fun profile_candidates :: "string \<Rightarrow> (io_error, dir_entry) result list
    \<Rightarrow> (string, (string \<times> string) list) result" where
  "profile_candidates dir [] = Inr []"
| "profile_candidates dir (Inl e # _) = Inl (''cannot read profile entry: '' @ io_text e)"
| "profile_candidates dir (Inr d # rest) =
     (if path_extension (de_name d) \<noteq> Some ''toml'' then profile_candidates dir rest
      else let name = to_string_lossy (de_name d) in
        case de_kind d of
          Inl e \<Rightarrow> Inl (''cannot inspect profile '' @ name @ '': '' @ io_text e)
        | Inr k \<Rightarrow>
            if k = Symlink then Inl (''profile '' @ name @ '' is a symlink'')
            else if k \<noteq> Regular_File then profile_candidates dir rest
            else and_then (profile_candidates dir rest) (\<lambda>cs.
              Inr ((name, path_join dir (de_name d)) # cs)))"

text \<open>\<open>take(limit).read_to_string\<close> of an opened file.\<close>

definition read_text :: "'e cli \<Rightarrow> string \<Rightarrow> nat \<Rightarrow> ('e, (io_error, string) result) effect" where
  "read_text cl path limit =
     attempt (observe (cl_read_to cl path limit)) (\<lambda>b.
       pure (if utf8_valid (take limit b) then Inr (take limit b)
             else Inl (Io_Other ''stream did not contain valid UTF-8'')))"

definition load_profile :: "'e cli \<Rightarrow> string \<times> string \<Rightarrow> ('e, (string, profile) result) effect" where
  "load_profile cl c =
     attempt (with_err (\<lambda>e. ''cannot read profile '' @ fst c @ '': '' @ io_text e)
         (read_text cl (snd c) (MAX_FILE_BYTES + 1))) (\<lambda>input.
       pure (map_err (\<lambda>e. ''invalid profile '' @ fst c @ '': '' @ schema_error_text e)
         (parse_toml (cl_toml cl) input)))"

definition load_profiles :: "'e cli \<Rightarrow> string \<Rightarrow> ('e, (string, profile list) result) effect" where
  "load_profiles cl dir =
     attempt (with_err (\<lambda>e. ''cannot read profile directory: '' @ io_text e)
         (observe (cl_read_dir cl dir))) (\<lambda>entries.
     attempt (pure (profile_candidates dir entries)) (\<lambda>cs.
       collect_attempt (load_profile cl) (sort_key fst cs)))"

section \<open>The report\<close>

record options =
  op_command :: diagnostic_command
  op_json :: bool
  op_channel :: channel
  op_accept_experimental_risk :: bool

definition TOOL_VERSION :: string where "TOOL_VERSION = ''0.1.1''"

definition platform_summary_of :: "platform_facts \<Rightarrow> platform_summary" where
  "platform_summary_of facts = \<lparr>pls_os_id = pf_os_id facts,
     pls_os_version_id = pf_os_version_id facts, pls_arch = pf_arch facts,
     pls_kernel = render_version (pf_kernel facts),
     pls_pci_ids = map (\<lambda>x. vendor x @ '':'' @ device x) (pf_pci_ids facts)\<rparr>"

definition base_report :: "diagnostic_command \<Rightarrow> platform_facts \<Rightarrow> diagnostic_report" where
  "base_report command facts = \<lparr>dr_schema_version = 1, dr_tool_version = TOOL_VERSION,
     dr_command = command, dr_overall = Overall_Blocked, dr_profile = None,
     dr_platform = platform_summary_of facts, dr_reboot_required = False,
     dr_relogin_required = False, dr_checks = []\<rparr>"

definition profile_summary_of :: "profile \<Rightarrow> profile_summary" where
  "profile_summary_of p = \<lparr>sum_id = p_id p, sum_stack_release = p_stack_release p,
     sum_status = p_status p\<rparr>"

definition with_inspection ::
  "profile \<Rightarrow> inspection_result \<Rightarrow> diagnostic_report \<Rightarrow> diagnostic_report" where
  "with_inspection p r report = report\<lparr>dr_profile := Some (profile_summary_of p),
     dr_checks := ir_checks r, dr_reboot_required := ir_reboot_required r,
     dr_relogin_required := ir_relogin_required r\<rparr>"

definition no_profile_check :: diagnostic_check where
  "no_profile_check = mk_check ''platform.profile'' Fail
     ''Compatible platform profile is selected'' Required []"

definition experimental_refused :: string where
  "experimental_refused = ''experimental channel requires --accept-experimental-risk''"

definition inspect_command :: "'e runtime_inspector \<Rightarrow> diagnostic_command \<Rightarrow> profile \<Rightarrow> platform_facts
    \<Rightarrow> ('e, inspection_result) effect" where
  "inspect_command ins command p facts = (case command of
       Status \<Rightarrow> inspect_status ins p facts
     | Doctor \<Rightarrow> inspect_doctor ins p facts)"

definition cli_inspector :: "'e cli \<Rightarrow> app_context \<Rightarrow> 'e runtime_inspector" where
  "cli_inspector cl ctx =
     production_inspector ((cl_production cl)\<lparr>pd_paths := ac_runtime_paths ctx\<rparr>)"

text \<open>The first half of \<open>execute\<close>: the error it prints and exits 2 with, or the finished report.\<close>

definition diagnose :: "'e cli \<Rightarrow> app_context \<Rightarrow> options
    \<Rightarrow> ('e, (string, diagnostic_report) result) effect" where
  "diagnose cl ctx opts =
     (if op_channel opts = Stable \<and> op_accept_experimental_risk opts
      then pure (Inl ''--accept-experimental-risk is only valid with --channel experimental'')
      else if op_channel opts = Experimental_Channel \<and> \<not> op_accept_experimental_risk opts
      then pure (Inl experimental_refused)
      else
        attempt (with_err (\<lambda>e. pe_code e @ '': '' @ pe_message e) (observe (\<lambda>e.
            case cl_facts cl e of
              (fs, e') \<Rightarrow> (detect_platform fs (ac_platform_root ctx) (ac_arch ctx), e')))) (\<lambda>facts.
        attempt (load_profiles cl (ac_profile_dir ctx)) (\<lambda>profiles.
        (case select_profile profiles facts \<lparr>sp_channel = op_channel opts,
             sp_acknowledge_risk = op_accept_experimental_risk opts\<rparr> of
           Inr p \<Rightarrow> do {
             r \<leftarrow> inspect_command (cli_inspector cl ctx) (op_command opts) p facts;
             pure (Inr (finalize (with_inspection p r (base_report (op_command opts) facts))))
           }
         | Inl No_Compatible_Profile \<Rightarrow>
             pure (Inr (finalize ((base_report (op_command opts) facts)
               \<lparr>dr_checks := [no_profile_check]\<rparr>)))
         | Inl Risk_Acknowledgement_Required \<Rightarrow> pure (Inl experimental_refused)
         | Inl (Ambiguous_Profiles ids) \<Rightarrow>
             pure (Inl (''ambiguous compatible profiles: '' @ join_on '', '' ids))))))"

section \<open>Output\<close>

definition put :: "'e writer \<Rightarrow> string \<Rightarrow> ('e, (io_error, unit) result) effect" where
  "put out t = attempt (observe (out t)) (\<lambda>_. do { emit (Displayed t); pure (Inr ()) })"

definition command_name :: "diagnostic_command \<Rightarrow> string" where
  "command_name c = (case c of Status \<Rightarrow> ''status'' | Doctor \<Rightarrow> ''doctor'')"

definition overall_name :: "overall_status \<Rightarrow> string" where
  "overall_name s = (case s of Overall_Passed \<Rightarrow> ''passed'' | Overall_Degraded \<Rightarrow> ''degraded''
     | Overall_Failed \<Rightarrow> ''failed'' | Overall_Blocked \<Rightarrow> ''blocked'')"

definition check_name :: "check_status \<Rightarrow> string" where
  "check_name s = (case s of Pass \<Rightarrow> ''pass'' | Fail \<Rightarrow> ''fail'' | Warn \<Rightarrow> ''warn''
     | Blocked \<Rightarrow> ''blocked'')"

definition bool_text :: "bool \<Rightarrow> string" where
  "bool_text b = (if b then ''true'' else ''false'')"

definition human_lines :: "diagnostic_report \<Rightarrow> string list" where
  "human_lines r =
     [''command: '' @ command_name (dr_command r),
      ''overall: '' @ overall_name (dr_overall r),
      ''profile: '' @ (case dr_profile r of None \<Rightarrow> ''none'' | Some s \<Rightarrow> sum_id s),
      ''reboot required: '' @ bool_text (dr_reboot_required r),
      ''relogin required: '' @ bool_text (dr_relogin_required r)]
     @ map (\<lambda>c. dc_id c @ '' ['' @ check_name (dc_status c) @ '']: '' @ dc_summary c) (dr_checks r)"

definition write_human :: "'e writer \<Rightarrow> diagnostic_report \<Rightarrow> ('e, (io_error, unit) result) effect" where
  "write_human out r = each_attempt (\<lambda>l. put out (l @ [nl])) (human_lines r)"

definition write_json :: "'e writer \<Rightarrow> (diagnostic_report \<Rightarrow> string) \<Rightarrow> diagnostic_report
    \<Rightarrow> ('e, (io_error, unit) result) effect" where
  "write_json out json r = attempt (put out (json r)) (\<lambda>_. put out [nl])"

definition write_cli_error :: "'e cli \<Rightarrow> string \<Rightarrow> ('e, u8) effect" where
  "write_cli_error cl message = do {
     _ \<leftarrow> observe (cl_stderr cl (''error: '' @ message @ [nl]));
     State_Monad.return 2
   }"

definition execute :: "'e cli \<Rightarrow> app_context \<Rightarrow> options \<Rightarrow> ('e, u8) effect" where
  "execute cl ctx opts = do {
     d \<leftarrow> diagnose cl ctx opts;
     (case d of
        Inl message \<Rightarrow> write_cli_error cl message
      | Inr report \<Rightarrow> do {
          output \<leftarrow> (if op_json opts then write_json (cl_stdout cl) (cl_json cl) report
                    else write_human (cl_stdout cl) report);
          State_Monad.return (case output of Inr _ \<Rightarrow> exit_code report | Inl _ \<Rightarrow> 2)
        })
   }"

section \<open>The commands\<close>

record diagnostic_args =
  da_json :: bool
  da_channel :: channel
  da_accept_experimental_risk :: bool

datatype command = Cmd_Version | Cmd_Status diagnostic_args | Cmd_Doctor diagnostic_args

text \<open>A parse error of \<open>clap\<close>: its exit code, whether it goes to standard error, its text.\<close>

record parse_error =
  pa_exit_code :: "32 word"
  pa_use_stderr :: bool
  pa_rendered :: string

definition run_diagnostic :: "'e cli \<Rightarrow> app_context \<Rightarrow> diagnostic_command \<Rightarrow> diagnostic_args
    \<Rightarrow> ('e, u8) effect" where
  "run_diagnostic cl ctx c args = execute cl ctx \<lparr>op_command = c, op_json = da_json args,
     op_channel = da_channel args,
     op_accept_experimental_risk = da_accept_experimental_risk args\<rparr>"

definition run_cli :: "'e cli \<Rightarrow> app_context \<Rightarrow> ('a \<Rightarrow> (parse_error, command) result) \<Rightarrow> 'a
    \<Rightarrow> ('e, u8) effect" where
  "run_cli cl ctx try_parse_from args = (case try_parse_from args of
       Inl e \<Rightarrow> do {
         r \<leftarrow> (if pa_use_stderr e then observe (cl_stderr cl (pa_rendered e))
              else put (cl_stdout cl) (pa_rendered e));
         State_Monad.return (case r of Inr _ \<Rightarrow> ucast (pa_exit_code e) | Inl _ \<Rightarrow> 2)
       }
     | Inr Cmd_Version \<Rightarrow> do {
         r \<leftarrow> put (cl_stdout cl) (TOOL_VERSION @ [nl]);
         State_Monad.return (case r of Inr _ \<Rightarrow> 0 | Inl _ \<Rightarrow> 2)
       }
     | Inr (Cmd_Status a) \<Rightarrow> run_diagnostic cl ctx Status a
     | Inr (Cmd_Doctor a) \<Rightarrow> run_diagnostic cl ctx Doctor a)"

section \<open>The program\<close>

text \<open>
  \<open>main.rs\<close> puts a \<open>BufWriter\<close> before each stream. A sink is the stream below: it writes the whole
  of the bytes or fails, and then returns what it did not write. The buffers are dropped at the end
  of \<open>main\<close>, where the result of the last flush is ignored.
\<close>

type_synonym 'e sink = "bytes \<Rightarrow> 'e \<Rightarrow> ((io_error, unit) result \<times> bytes) \<times> 'e"

definition BUFFER :: nat where "BUFFER = 8192"

definition flush_buf :: "'e sink \<Rightarrow> bytes \<times> 'e \<Rightarrow> (io_error, unit) result \<times> (bytes \<times> 'e)" where
  "flush_buf out s = (case s of (b, e) \<Rightarrow>
     if b = [] then (Inr (), ([], e))
     else case out b e of
       ((Inr _, _), e') \<Rightarrow> (Inr (), ([], e'))
     | ((Inl x, rest), e') \<Rightarrow> (Inl x, (rest, e')))"

definition buffered_write :: "'e sink \<Rightarrow> bytes \<Rightarrow> bytes \<times> 'e
    \<Rightarrow> (io_error, unit) result \<times> (bytes \<times> 'e)" where
  "buffered_write out t s = (let spare = BUFFER - length (fst s) in
     if length t < spare then (Inr (), (fst s @ t, snd s))
     else case (if length t > spare then flush_buf out s else (Inr (), s)) of
       (Inl x, s') \<Rightarrow> (Inl x, s')
     | (Inr _, (b, e)) \<Rightarrow>
         if length t \<ge> BUFFER then (case out t e of ((r, _), e') \<Rightarrow> (r, (b, e')))
         else (Inr (), (b @ t, e)))"

type_synonym 'e buffers = "(bytes \<times> bytes) \<times> 'e"

definition over :: "('e \<Rightarrow> 'a \<times> 'e) \<Rightarrow> 'e buffers \<Rightarrow> 'a \<times> 'e buffers" where
  "over f s = (case f (snd s) of (a, e) \<Rightarrow> (a, (fst s, e)))"

definition buffered_stdout :: "'e sink \<Rightarrow> 'e buffers writer" where
  "buffered_stdout out t s = (case s of ((bo, be), e) \<Rightarrow>
     (case buffered_write out t (bo, e) of (r, (bo', e')) \<Rightarrow> (r, ((bo', be), e'))))"

definition buffered_stderr :: "'e sink \<Rightarrow> 'e buffers writer" where
  "buffered_stderr out t s = (case s of ((bo, be), e) \<Rightarrow>
     (case buffered_write out t (be, e) of (r, (be', e')) \<Rightarrow> (r, ((bo, be'), e'))))"

definition over_production :: "'e production \<Rightarrow> 'e buffers production" where
  "over_production pd = \<lparr>pd_paths = pd_paths pd, pd_runner = (\<lambda>rq. over (pd_runner pd rq)),
     pd_serde = pd_serde pd,
     pd_files = \<lparr>fo_lstat = (\<lambda>p. over (fo_lstat (pd_files pd) p)),
       fo_open = (\<lambda>p. over (fo_open (pd_files pd) p)),
       fo_fstat = (\<lambda>h. over (fo_fstat (pd_files pd) h)),
       fo_read_all = (\<lambda>h. over (fo_read_all (pd_files pd) h))\<rparr>,
     pd_sha256 = pd_sha256 pd, pd_is_file = (\<lambda>p. over (pd_is_file pd p)),
     pd_device_view = over (pd_device_view pd), pd_fs_view = over (pd_fs_view pd)\<rparr>"

text \<open>The system of \<open>cl\<close> with buffered streams in the place of its own.\<close>

definition buffered_cli :: "'e sink \<Rightarrow> 'e sink \<Rightarrow> 'e cli \<Rightarrow> 'e buffers cli" where
  "buffered_cli out err cl = \<lparr>cl_facts = over (cl_facts cl),
     cl_read_dir = (\<lambda>p. over (cl_read_dir cl p)),
     cl_read_to = (\<lambda>p n. over (cl_read_to cl p n)), cl_toml = cl_toml cl,
     cl_production = over_production (cl_production cl), cl_json = cl_json cl,
     cl_stdout = buffered_stdout out, cl_stderr = buffered_stderr err\<rparr>"

definition system_context :: "string \<Rightarrow> app_context" where
  "system_context arch = \<lparr>ac_platform_root = ''/'',
     ac_profile_dir = ''/usr/share/intel-npu-stack/profiles'', ac_arch = arch,
     ac_runtime_paths = system_paths\<rparr>"

text \<open>The buffer of standard error is dropped first.\<close>

definition cli_main :: "'e sink \<Rightarrow> 'e sink \<Rightarrow> 'e cli \<Rightarrow> string
    \<Rightarrow> ('a \<Rightarrow> (parse_error, command) result) \<Rightarrow> 'a \<Rightarrow> ('e, u8) effect" where
  "cli_main out err cl arch try_parse_from args = State (\<lambda>w.
     case run_state (run_cli (buffered_cli out err cl) (system_context arch) try_parse_from args)
         \<lparr>env = (([], []), env w), log = log w\<rparr> of
       (code, u) \<Rightarrow> (case env u of ((bo, be), e) \<Rightarrow>
         (case flush_buf err (be, e) of (_, (_, e1)) \<Rightarrow>
           (case flush_buf out (bo, e1) of (_, (_, e2)) \<Rightarrow>
             (code, w\<lparr>env := e2, log := log u\<rparr>)))))"

section \<open>The installed profiles\<close>

text \<open>
  What a listing offers: no entry failed, no name that ends in \<open>.toml\<close> is a link or of unknown kind,
  and the regular files among them are candidates.
\<close>

definition toml_entry :: "dir_entry \<Rightarrow> bool" where
  "toml_entry d = (path_extension (de_name d) = Some ''toml'')"

definition installed_files :: "string \<Rightarrow> (io_error, dir_entry) result list \<Rightarrow> (string \<times> string) list
    \<Rightarrow> bool" where
  "installed_files dir listing cs \<longleftrightarrow> (\<exists>ds. listing = map Inr ds
     \<and> (\<forall>d \<in> set ds. toml_entry d \<longrightarrow> (\<exists>k. de_kind d = Inr k \<and> k \<noteq> Symlink))
     \<and> cs = map (\<lambda>d. (to_string_lossy (de_name d), path_join dir (de_name d)))
         (filter (\<lambda>d. toml_entry d \<and> de_kind d = Inr Regular_File) ds))"

text \<open>
  The successful reads of the files, each at the environment the read before has left: the first
  mebibyte and one byte, as text, parses and is a valid profile.
\<close>

inductive profiles_read :: "'e cli \<Rightarrow> (string \<times> string) list \<Rightarrow> 'e \<Rightarrow> profile list \<Rightarrow> 'e \<Rightarrow> bool"
  for cl :: "'e cli" where
  none: "profiles_read cl [] e [] e"
| one: "profiles_read cl (c # cs) e (p # ps) v"
  if "cl_read_to cl (snd c) 1048577 e = (Inr b, u)" "utf8_valid (take 1048577 b)"
    "parse_toml (cl_toml cl) (take 1048577 b) = Inr p" "profiles_read cl cs u ps v"

definition installed_profiles :: "'e cli \<Rightarrow> string \<Rightarrow> 'e \<Rightarrow> profile list \<Rightarrow> 'e \<Rightarrow> bool" where
  "installed_profiles cl dir e ps v \<longleftrightarrow> (\<exists>listing cs u. cl_read_dir cl dir e = (Inr listing, u)
     \<and> installed_files dir listing cs \<and> profiles_read cl (sort_key fst cs) u ps v)"

lemma installed_files_simps:
  "installed_files dir [] cs \<longleftrightarrow> cs = []"
  "installed_files dir (Inl e # rest) cs \<longleftrightarrow> False"
  "installed_files dir (Inr d # rest) cs \<longleftrightarrow>
     (if \<not> toml_entry d then installed_files dir rest cs
      else \<exists>k. de_kind d = Inr k \<and> k \<noteq> Symlink
        \<and> (if k = Regular_File then \<exists>cs'. cs = (to_string_lossy (de_name d), path_join dir (de_name d)) # cs'
             \<and> installed_files dir rest cs' else installed_files dir rest cs))"
proof -
  have "(Inr d # rest = map Inr ds) \<longleftrightarrow> (\<exists>ds'. ds = d # ds' \<and> rest = map Inr ds')" for ds
    by (auto simp: map_eq_Cons_conv Cons_eq_map_conv)
  then show "installed_files dir (Inr d # rest) cs \<longleftrightarrow>
     (if \<not> toml_entry d then installed_files dir rest cs
      else \<exists>k. de_kind d = Inr k \<and> k \<noteq> Symlink
        \<and> (if k = Regular_File then \<exists>cs'. cs = (to_string_lossy (de_name d), path_join dir (de_name d)) # cs'
             \<and> installed_files dir rest cs' else installed_files dir rest cs))"
    unfolding installed_files_def by (cases "de_kind d") auto
qed (auto simp: installed_files_def)

lemma profile_candidates_Inr: "profile_candidates dir listing = Inr cs \<longleftrightarrow> installed_files dir listing cs"
proof (induction dir listing arbitrary: cs rule: profile_candidates.induct)
  case (3 dir d rest)
  then show ?case
    by (cases "de_kind d")
      (auto simp: installed_files_simps Let_def toml_entry_def)
qed (auto simp: installed_files_simps)

lemma load_profile_run:
  "run_state (load_profile cl c) w = (Inr p, w') \<longleftrightarrow>
     (\<exists>b u. cl_read_to cl (snd c) 1048577 (env w) = (Inr b, u) \<and> utf8_valid (take 1048577 b)
        \<and> parse_toml (cl_toml cl) (take 1048577 b) = Inr p \<and> w' = w\<lparr>env := u\<rparr>)"
  by (auto simp: load_profile_def read_text_def attempt_Inr with_err_Inr observe_run MAX_FILE_BYTES_def)

lemma profiles_run:
  "run_state (collect_attempt (load_profile cl) cs) w = (Inr ps, w') \<Longrightarrow>
   profiles_read cl cs (env w) ps (env w') \<and> w' = w\<lparr>env := env w'\<rparr>"
proof (induction cs arbitrary: w ps)
  case Nil
  then show ?case by (simp add: profiles_read.none)
next
  case (Cons c cs)
  then obtain p u qs where p: "run_state (load_profile cl c) w = (Inr p, u)"
    and qs: "run_state (collect_attempt (load_profile cl) cs) u = (Inr qs, w')" and "ps = p # qs"
    by (auto simp: attempt_Inr)
  with Cons.IH [OF qs] show ?case
    by (auto simp: load_profile_run intro: profiles_read.one)
qed

lemma load_profiles_run:
  assumes "run_state (load_profiles cl dir) w = (Inr ps, w')"
  shows "installed_profiles cl dir (env w) ps (env w') \<and> w' = w\<lparr>env := env w'\<rparr>"
proof -
  from assms obtain listing e cs where "cl_read_dir cl dir (env w) = (Inr listing, e)"
    "profile_candidates dir listing = Inr cs"
    and r: "run_state (collect_attempt (load_profile cl) (sort_key fst cs)) (w\<lparr>env := e\<rparr>) = (Inr ps, w')"
    by (auto simp: load_profiles_def attempt_Inr with_err_Inr observe_run)
  with profiles_run [OF r] show ?thesis
    by (auto simp: installed_profiles_def profile_candidates_Inr)
qed

section \<open>What a diagnosis is\<close>

definition shown_platform :: "platform_facts \<Rightarrow> platform_summary" where
  "shown_platform facts = (platform_summary_of facts)
     \<lparr>pls_pci_ids := remdups_adj (sort (pls_pci_ids (platform_summary_of facts)))\<rparr>"

definition maps_decoded :: "(string \<Rightarrow> (string, profile) result) \<Rightarrow> bool" where
  "maps_decoded toml = (\<forall>t p. toml t = Inr p \<longrightarrow> bm_wf (p_components p))"

definition policy_of :: "options \<Rightarrow> selection_policy" where
  "policy_of opts = \<lparr>sp_channel = op_channel opts,
     sp_acknowledge_risk = op_accept_experimental_risk opts\<rparr>"

text \<open>What a finished report says of the facts and the installed profiles.\<close>

definition diagnosed :: "options \<Rightarrow> platform_facts \<Rightarrow> profile list \<Rightarrow> diagnostic_report \<Rightarrow> bool" where
  "diagnosed opts facts ps report \<longleftrightarrow>
     op_accept_experimental_risk opts = (op_channel opts = Experimental_Channel)
     \<and> list_all supported_profile ps
     \<and> dr_command report = op_command opts
     \<and> dr_overall report = aggregate (dr_checks report)
     \<and> (case filter (selectable (policy_of opts) facts) ps of
          [] \<Rightarrow> dr_profile report = None \<and> dr_checks report = [no_profile_check]
        | [p] \<Rightarrow> dr_profile report = Some (profile_summary_of p)
            \<and> map dc_id (dr_checks report)
                = (case op_command opts of Status \<Rightarrow> STATUS_IDS | Doctor \<Rightarrow> DOCTOR_IDS)
            \<and> (op_command opts = Doctor \<and> pf_effective_root facts
                 \<longrightarrow> aggregate (dr_checks report) \<in> {Overall_Failed, Overall_Blocked})
        | _ \<Rightarrow> False)"

text \<open>
  A diagnosis, from the world it starts in to the one it ends in: the facts are those detected first,
  the profiles those then read from the directory, and the checks those the inspection of the one
  selectable profile then returned.
\<close>

definition diagnosis :: "'e cli \<Rightarrow> app_context \<Rightarrow> options \<Rightarrow> 'e world \<Rightarrow> diagnostic_report \<Rightarrow> 'e world
    \<Rightarrow> bool" where
  "diagnosis cl ctx opts w report u \<longleftrightarrow> (\<exists>fs e facts ps v.
     cl_facts cl (env w) = (fs, e) \<and> detect_platform fs (ac_platform_root ctx) (ac_arch ctx) = Inr facts
     \<and> installed_profiles cl (ac_profile_dir ctx) e ps v
     \<and> dr_platform report = shown_platform facts
     \<and> diagnosed opts facts ps report
     \<and> (case dr_profile report of
          None \<Rightarrow> u = w\<lparr>env := v\<rparr>
        | Some _ \<Rightarrow> (\<exists>p r. filter (selectable (policy_of opts) facts) ps = [p]
            \<and> run_state (inspect_command (cli_inspector cl ctx) (op_command opts) p facts) (w\<lparr>env := v\<rparr>) = (r, u)
            \<and> dr_checks report = ir_checks r \<and> dr_reboot_required report = ir_reboot_required r
            \<and> dr_relogin_required report = ir_relogin_required r)))"

text \<open>The texts that show a report.\<close>

definition report_texts :: "'e cli \<Rightarrow> options \<Rightarrow> diagnostic_report \<Rightarrow> string list" where
  "report_texts cl opts report =
     (if op_json opts then [cl_json cl report, [nl]] else map (\<lambda>l. l @ [nl]) (human_lines report))"

section \<open>Laws\<close>

lemma collect_attempt_all:
  assumes "run_state (collect_attempt f xs) w = (Inr ys, w')"
    and "\<And>x y u u'. run_state (f x) u = (Inr y, u') \<Longrightarrow> P y"
  shows "list_all P ys"
  using assms(1)
proof (induction xs arbitrary: ys w)
  case (Cons x xs)
  then show ?case using assms(2) by (auto simp: attempt_Inr)
qed simp

lemma load_profiles_supported:
  assumes "maps_decoded (cl_toml cl)" "run_state (load_profiles cl dir) w = (Inr ps, w')"
  shows "list_all supported_profile ps"
proof -
  obtain xs u where "run_state (collect_attempt (load_profile cl) xs) u = (Inr ps, w')"
    using assms(2) by (auto simp: load_profiles_def attempt_Inr)
  then show ?thesis
    by (rule collect_attempt_all)
      (use assms(1) in \<open>auto simp: load_profile_def attempt_Inr map_err_Inr parse_toml_Inr
        supported_profile_def maps_decoded_def\<close>)
qed

lemma only_does_put: "E (Displayed t) \<Longrightarrow> only_does E (put out t)"
  unfolding put_def by (intro only_runs_attempt only_runs_bind only_does_emit) auto

lemma leaves_put: "leaves (\<lambda>_ es. es = [Displayed t]) (put out t)"
  by (auto simp: leaves_def put_def attempt_Inr run_state_emit observe_run)

lemma leaves_report:
  "leaves (\<lambda>_ es. es = map Displayed (report_texts cl opts report))
     (if op_json opts then write_json (cl_stdout cl) (cl_json cl) report
      else write_human (cl_stdout cl) report)"
proof (cases "op_json opts")
  case True
  have "leaves (\<lambda>_ es. es = [Displayed (cl_json cl report), Displayed [nl]])
      (write_json (cl_stdout cl) (cl_json cl) report)"
    unfolding write_json_def
    by (rule leaves_weaken [OF leaves_attempt [OF leaves_put leaves_put]]) (auto simp: followed_def)
  with True show ?thesis by (simp add: report_texts_def)
next
  case False
  have "leaves (\<lambda>_ es. es = concat (map (\<lambda>l. [Displayed (l @ [nl])]) (human_lines report)))
      (write_human (cl_stdout cl) report)"
    unfolding write_human_def by (rule leaves_each_exact) (rule leaves_put)
  also have "(\<lambda>l. [Displayed (l @ [nl])]) = (\<lambda>x. [x]) \<circ> Displayed \<circ> (\<lambda>l. l @ [nl])" by auto
  finally show ?thesis using False by (simp add: report_texts_def comp_def)
qed

lemma inspect_command_ids:
  assumes "supported_profile p"
  shows "pred_state (\<lambda>r. map dc_id (ir_checks r)
       = (case command of Status \<Rightarrow> STATUS_IDS | Doctor \<Rightarrow> DOCTOR_IDS)
     \<and> (command = Doctor \<and> pf_effective_root facts
          \<longrightarrow> aggregate (ir_checks r) \<in> {Overall_Failed, Overall_Blocked}))
     (inspect_command (production_inspector pd) command p facts)"
proof (cases command)
  case Status
  then show ?thesis using production.status_ids [OF assms] by (simp add: inspect_command_def)
next
  case Doctor
  have "pred_state (\<lambda>r. map dc_id (ir_checks r) = DOCTOR_IDS
      \<and> (pf_effective_root facts \<longrightarrow> aggregate (ir_checks r) \<in> {Overall_Failed, Overall_Blocked}))
     (inspect_doctor (production_inspector pd) p facts)"
  proof (cases "pf_effective_root facts")
    case True
    from pred_both [OF production.doctor_ids [OF assms] production.doctor_root [OF assms True]]
    show ?thesis by (rule pred_weaken) auto
  next
    case False
    with production.doctor_ids [OF assms] show ?thesis by (auto elim!: pred_weaken)
  qed
  with Doctor show ?thesis by (simp add: inspect_command_def)
qed

lemma sorted_check_ids: "sort (map dc_id cs) = map dc_id cs \<Longrightarrow> sort_key dc_id cs = cs"
  by (metis sort_key_id_if_sorted sorted_sort)

lemma diagnosed_selected:
  assumes "op_accept_experimental_risk opts = (op_channel opts = Experimental_Channel)"
    and "list_all supported_profile ps"
    and "select_profile ps facts (policy_of opts) = Inr p"
    and "run_state (inspect_command (production_inspector pd) (op_command opts) p facts) w = (r, w')"
  shows "diagnosed opts facts ps
     (finalize (with_inspection p r (base_report (op_command opts) facts)))"
    and "filter (selectable (policy_of opts) facts) ps = [p]"
    and "sort_key dc_id (ir_checks r) = ir_checks r"
proof -
  from assms(3) show one: "filter (selectable (policy_of opts) facts) ps = [p]"
    by (simp add: select_profile_Inr)
  then have "p \<in> set ps" by (metis filter_is_subset list.set_intros(1) subsetD)
  with assms(2) have "supported_profile p" by (simp add: list_all_iff)
  from pred_stateD [OF inspect_command_ids [OF this] assms(4)]
  have ids: "map dc_id (ir_checks r)
        = (case op_command opts of Status \<Rightarrow> STATUS_IDS | Doctor \<Rightarrow> DOCTOR_IDS)"
    and root: "op_command opts = Doctor \<and> pf_effective_root facts
        \<longrightarrow> aggregate (ir_checks r) \<in> {Overall_Failed, Overall_Blocked}"
    by blast+
  have "sort (map dc_id (ir_checks r)) = map dc_id (ir_checks r)"
    unfolding ids using sorted_ids
    by (cases "op_command opts") (simp_all add: sorted_sort_id del: sort_key_simps)
  then show sorted: "sort_key dc_id (ir_checks r) = ir_checks r" by (rule sorted_check_ids)
  show "diagnosed opts facts ps (finalize (with_inspection p r (base_report (op_command opts) facts)))"
    using sorted assms(1,2) one ids root
    unfolding diagnosed_def by (simp add: with_inspection_def base_report_def)
qed

lemma diagnosed_none:
  assumes "op_accept_experimental_risk opts = (op_channel opts = Experimental_Channel)"
    and "list_all supported_profile ps"
    and "select_profile ps facts (policy_of opts) = Inl No_Compatible_Profile"
  shows "diagnosed opts facts ps
     (finalize ((base_report (op_command opts) facts)\<lparr>dr_checks := [no_profile_check]\<rparr>))"
  using assms by (simp add: diagnosed_def base_report_def select_profile_None filter_False)

lemma diagnose_Inr:
  assumes maps: "maps_decoded (cl_toml cl)"
    and run: "run_state (diagnose cl ctx opts) w = (Inr report, w')"
  shows "diagnosis cl ctx opts w report w'"
proof -
  have ack: "op_accept_experimental_risk opts = (op_channel opts = Experimental_Channel)"
    using run by (cases "op_channel opts") (auto simp: diagnose_def split: if_splits)
  with run obtain facts u ps v where
    facts: "run_state (observe (\<lambda>e. case cl_facts cl e of
        (fs, e') \<Rightarrow> (detect_platform fs (ac_platform_root ctx) (ac_arch ctx), e'))) w = (Inr facts, u)"
    and ps: "run_state (load_profiles cl (ac_profile_dir ctx)) u = (Inr ps, v)"
    and rest: "run_state (case select_profile ps facts (policy_of opts) of
           Inr p \<Rightarrow> do {
             r \<leftarrow> inspect_command (cli_inspector cl ctx) (op_command opts) p facts;
             pure (Inr (finalize (with_inspection p r (base_report (op_command opts) facts))))
           }
         | Inl No_Compatible_Profile \<Rightarrow>
             pure (Inr (finalize ((base_report (op_command opts) facts)
               \<lparr>dr_checks := [no_profile_check]\<rparr>)))
         | Inl Risk_Acknowledgement_Required \<Rightarrow> pure (Inl experimental_refused)
         | Inl (Ambiguous_Profiles ids) \<Rightarrow>
             pure (Inl (''ambiguous compatible profiles: '' @ join_on '', '' ids))) v
        = (Inr report, w')"
    by (cases "op_channel opts")
      (simp_all add: diagnose_def attempt_Inr with_err_Inr policy_of_def, blast+)
  have sup: "list_all supported_profile ps" by (rule load_profiles_supported [OF maps ps])
  from facts obtain fs e where fs: "cl_facts cl (env w) = (fs, e)"
      "detect_platform fs (ac_platform_root ctx) (ac_arch ctx) = Inr facts" "u = w\<lparr>env := e\<rparr>"
    by (auto simp: observe_run split: prod.splits)
  from load_profiles_run [OF ps] fs(3)
  have loaded: "installed_profiles cl (ac_profile_dir ctx) e ps (env v)" "v = w\<lparr>env := env v\<rparr>" by auto
  show ?thesis
  proof (cases "select_profile ps facts (policy_of opts)")
    case (Inl x)
    with rest have r: "report = finalize ((base_report (op_command opts) facts)\<lparr>dr_checks := [no_profile_check]\<rparr>)"
        "w' = v" "x = No_Compatible_Profile" by (cases x; simp)+
    have "diagnosed opts facts ps report"
      unfolding r(1) by (rule diagnosed_none [OF ack sup]) (use Inl r(3) in simp)
    moreover have "dr_platform report = shown_platform facts" "dr_profile report = None"
      by (simp_all add: r(1) base_report_def finalize_def Let_def shown_platform_def)
    ultimately show ?thesis
      unfolding diagnosis_def using fs(1,2) loaded r(2)
      by (intro exI [of _ fs] exI [of _ e] exI [of _ facts] exI [of _ ps] exI [of _ "env v"]) simp
  next
    case (Inr p)
    with rest obtain r where r: "run_state (inspect_command (cli_inspector cl ctx) (op_command opts) p facts) v = (r, w')"
        "report = finalize (with_inspection p r (base_report (op_command opts) facts))"
      by (auto split: prod.splits)
    note sel = diagnosed_selected [OF ack sup Inr r(1) [unfolded cli_inspector_def]]
    have "dr_platform report = shown_platform facts" "dr_profile report = Some (profile_summary_of p)"
        "dr_checks report = ir_checks r" "dr_reboot_required report = ir_reboot_required r"
        "dr_relogin_required report = ir_relogin_required r"
      by (simp_all add: r(2) with_inspection_def base_report_def sel(3) finalize_def Let_def shown_platform_def)
    moreover have "run_state (inspect_command (cli_inspector cl ctx) (op_command opts) p facts)
        (w\<lparr>env := env v\<rparr>) = (r, w')" using r(1) loaded(2) by simp
    ultimately show ?thesis
      unfolding diagnosis_def using fs(1,2) loaded(1) sel(1,2) [folded r(2)]
      by (intro exI [of _ fs] exI [of _ e] exI [of _ facts] exI [of _ ps] exI [of _ "env v"]) auto
  qed
qed

text \<open>The buffers hide the failure of a short output.\<close>

lemma buffered_put:
  assumes "length bo + length t < BUFFER"
  shows "run_state (put (buffered_stdout out) t) \<lparr>env = ((bo, be), e), log = l\<rparr>
     = (Inr (), \<lparr>env = ((bo @ t, be), e), log = l @ [Displayed t]\<rparr>)"
proof -
  have "length t < BUFFER - length bo" using assms by simp
  then show ?thesis
    by (simp add: put_def run_state_attempt observe_def buffered_stdout_def buffered_write_def emit_def)
qed

lemma buffered_lines:
  assumes "length bo + length (concat (map (\<lambda>t. t @ [nl]) ls)) < BUFFER"
  shows "fst (run_state (each_attempt (\<lambda>t. put (buffered_stdout out) (t @ [nl])) ls)
     \<lparr>env = ((bo, be), e), log = l\<rparr>) = Inr ()"
  using assms
proof (induction ls arbitrary: bo l)
  case (Cons t ls)
  then show ?case by (simp add: run_state_attempt buffered_put)
qed simp

end
