(* ===== verification/Cli_Properties.thy ===== *)
theory Cli_Properties
  imports Platform_Properties Cli
begin

text \<open>
  The properties of the diagnostic command line: what an exit code means, and what was shown.
\<close>

text \<open>C19. A run of \<open>status\<close> or \<open>doctor\<close> ends with exit code 2, or its output stream accepted the whole of a
report, the last texts it shows, and it ends with 0 or 1, with 1 exactly when a required check of that
report failed or was blocked. The report is of the facts that were detected first and of the profiles
that were then read from the profile directory of the context: one for each regular \<open>.toml\<close> file, all
valid. The experimental channel and the acknowledgement of its risk come together. If exactly one of them
is selectable on these facts, the report names it and its checks, the fixed ones of the command, are those
the inspection of that profile then returned, and \<open>doctor\<close> as root does not succeed; if none is, its only
check fails; with more than one there is no report. The streams are those the program is given:
\<open>main\<close> puts a buffer before them, whose last flush it does not check.\<close>

theorem diagnostic_exit_means:
  assumes maps: "maps_decoded (cl_toml cl)"
    and run: "run_state (execute cl ctx opts) w = (code, w')"
  shows "code = 2 \<or> (\<exists>report u. diagnosis cl ctx opts w report u
     \<and> code = (if \<exists>c \<in> set (dr_checks report). required_bad c then 1 else 0)
     \<and> log w' = log u @ map Displayed (report_texts cl opts report))"
proof -
  obtain d u where d: "run_state (diagnose cl ctx opts) w = (d, u)" by fastforce
  show ?thesis
  proof (cases d)
    case (Inl message)
    with run d show ?thesis by (auto simp: execute_def write_cli_error_def split: prod.splits)
  next
    case (Inr report)
    let ?out = "if op_json opts then write_json (cl_stdout cl) (cl_json cl) report
                else write_human (cl_stdout cl) report"
    obtain r v where r: "run_state ?out u = (r, v)" by fastforce
    with run d Inr have code: "code = (case r of Inr _ \<Rightarrow> exit_code report | Inl _ \<Rightarrow> 2)" "w' = v"
      by (simp_all add: execute_def split: if_splits)
    show ?thesis
    proof (cases r)
      case (Inl e)
      with code show ?thesis by simp
    next
      case shown: (Inr x)
      from diagnose_Inr [OF maps] d Inr have dg: "diagnosis cl ctx opts w report u" by blast
      from leavesD [OF leaves_report] r shown
      have "log w' = log u @ map Displayed (report_texts cl opts report)"
        unfolding code(2) by blast
      moreover have "dr_overall report = aggregate (dr_checks report)"
        using dg by (auto simp: diagnosis_def diagnosed_def)
      then have "code = (if \<exists>c \<in> set (dr_checks report). required_bad c then 1 else 0)"
        using code(1) shown by (simp add: exit_code_aggregate)
      ultimately show ?thesis using dg by blast
    qed
  qed
qed

text \<open>A system with the sample profile, which is experimental, asked on the stable channel.\<close>

definition sample_cli :: "unit cli" where
  "sample_cli = \<lparr>cl_facts = Pair sample_fs,
     cl_read_dir = (\<lambda>_ e. (Inr [Inr \<lparr>de_name = ''a.toml'', de_kind = Inr Regular_File, de_len = Inr 3\<rparr>], e)),
     cl_read_to = (\<lambda>_ _ e. (Inr ''abc'', e)), cl_toml = (\<lambda>_. Inr sample_profile),
     cl_production = sample_production, cl_json = (\<lambda>_. ''{}''),
     cl_stdout = (\<lambda>_ e. (Inr (), e)), cl_stderr = (\<lambda>_ e. (Inr (), e))\<rparr>"

definition sample_options :: options where
  "sample_options = \<lparr>op_command = Doctor, op_json = True, op_channel = Stable,
     op_accept_experimental_risk = False\<rparr>"

lemma sample_cli_fields [simp]:
  "cl_facts sample_cli e = (sample_fs, e)"
  "cl_read_dir sample_cli d e = (Inr [Inr \<lparr>de_name = ''a.toml'', de_kind = Inr Regular_File, de_len = Inr 3\<rparr>], e)"
  "cl_read_to sample_cli f n e = (Inr ''abc'', e)" "cl_toml sample_cli t = Inr sample_profile"
  "cl_json sample_cli r = ''{}''" "cl_stdout sample_cli t e = (Inr (), e)"
  by (simp_all add: sample_cli_def)

lemma sample_loaded:
  "run_state (load_profiles sample_cli dir) sample_world = (Inr [sample_profile], sample_world)"
proof -
  have "path_extension ''a.toml'' = Some ''toml''" by code_simp
  moreover have "parse_toml (cl_toml sample_cli) ''abc'' = Inr sample_profile"
    using sample_profile_ok by (simp add: parse_toml_Inr MAX_PROFILE_BYTES_def)
  moreover have "utf8_valid ''abc''" by (simp add: utf8_valid_ascii is_ascii_def)
  ultimately show ?thesis
    by (simp add: load_profiles_def load_profile_def read_text_def run_state_attempt with_err_def
        observe_def Let_def sample_world_def MAX_FILE_BYTES_def)
qed

lemma sample_diagnosed:
  "run_state (diagnose sample_cli (system_context ''x86_64'') sample_options) sample_world
     = (Inr (finalize ((base_report Doctor sample_facts)\<lparr>dr_checks := [no_profile_check]\<rparr>)), sample_world)"
proof -
  have "select_profile [sample_profile] sample_facts \<lparr>sp_channel = Stable, sp_acknowledge_risk = False\<rparr>
      = Inl No_Compatible_Profile"
    by (simp add: select_profile_None selectable_def status_allowed_def risk_refused_def)
      (simp add: sample_profile_def)
  with sample_loaded show ?thesis
    by (simp add: diagnose_def sample_options_def run_state_attempt with_err_def observe_def
        system_context_def sample_detected) (simp add: sample_world_def)
qed

lemma sample_put: "run_state (put (cl_stdout sample_cli) t) w = (Inr (), w\<lparr>log := log w @ [Displayed t]\<rparr>)"
  by (simp add: put_def run_state_attempt observe_def emit_def)

theorem diagnostic_exit_means_witness:
  "case run_state (execute sample_cli (system_context ''x86_64'') sample_options) sample_world of
     (code, w') \<Rightarrow> code = 1 \<and> (\<exists>report u.
        diagnosis sample_cli (system_context ''x86_64'') sample_options sample_world report u
        \<and> (\<exists>c \<in> set (dr_checks report). required_bad c)
        \<and> log w' = log u @ [Displayed ''{}'', Displayed [nl]])"
proof -
  have maps: "maps_decoded (cl_toml sample_cli)"
    by (simp add: maps_decoded_def sample_cli_def sample_components_wf)
  obtain code w' where run: "run_state (execute sample_cli (system_context ''x86_64'') sample_options)
      sample_world = (code, w')" by fastforce
  have "code = 1"
    using run sample_diagnosed
    by (simp add: execute_def write_json_def sample_put run_state_attempt)
      (simp add: sample_options_def exit_code_def finalize_def Let_def no_profile_check_def mk_check_def
        aggregate_def sample_put run_state_attempt write_json_def)
  then show ?thesis
    unfolding run prod.case using diagnostic_exit_means [OF maps run]
    by (auto simp: report_texts_def sample_options_def split: if_splits)
qed

text \<open>
  The production program buffers its streams and ignores the last flush: a short output that could
  not be written ends with the exit code of a success.
\<close>

lemma version_output_unchecked:
  assumes "try_parse_from args = Inr Cmd_Version"
  shows "fst (run_state (cli_main out err cl arch try_parse_from args) w) = 0"
proof -
  have "run_state (put (buffered_stdout out) (TOOL_VERSION @ [nl])) \<lparr>env = (([], []), env w), log = log w\<rparr>
    = (Inr (), \<lparr>env = (([] @ TOOL_VERSION @ [nl], []), env w), log = log w @ [Displayed (TOOL_VERSION @ [nl])]\<rparr>)"
    by (rule buffered_put) (simp add: TOOL_VERSION_def BUFFER_def)
  with assms show ?thesis
    by (simp add: cli_main_def run_cli_def buffered_cli_def split: prod.split)
qed

lemma short_report_unchecked:
  assumes "length (concat (map (\<lambda>l. l @ [nl]) (human_lines report))) < BUFFER"
  shows "fst (run_state (write_human (buffered_stdout out) report) \<lparr>env = (([], be), e), log = l\<rparr>) = Inr ()"
  unfolding write_human_def by (rule buffered_lines) (use assms in simp)

end
