(* ===== verification/Candidates.thy ===== *)
theory Candidates
  imports Cli
begin

text \<open>
  The developer tools for profiles: \<open>xtask/src/lib.rs\<close>, the validation of a directory of profiles;
  \<open>kernel_candidate.rs\<close>, a candidate for another kernel; and \<open>candidate_collection.rs\<close>, one
  observation of a candidate on a machine. The system is a record \<open>tools\<close>; \<open>tl_read\<close> opens a file
  and reads it to the end or to a limit, \<open>tl_create_new\<close> creates a file that must not exist, writes it
  and synchronises it.
\<close>

record 'e tools =
  tl_read_dir :: "string \<Rightarrow> 'e \<Rightarrow> (io_error, (io_error, dir_entry) result list) result \<times> 'e"
  tl_lstat :: "string \<Rightarrow> 'e \<Rightarrow> (io_error, file_meta) result \<times> 'e"
  tl_read :: "string \<Rightarrow> nat option \<Rightarrow> 'e \<Rightarrow> (io_error, bytes) result \<times> 'e"
  tl_create_new :: "string \<Rightarrow> bytes \<Rightarrow> 'e \<Rightarrow> (io_error, unit) result \<times> 'e"
  tl_facts :: "'e \<Rightarrow> fs_view \<times> 'e"
  tl_toml :: "string \<Rightarrow> (string, profile) result"
  tl_sha256 :: "bytes \<Rightarrow> string"
  tl_production :: "'e production"

definition tool_read :: "'e tools \<Rightarrow> string \<Rightarrow> nat option \<Rightarrow> ('e, (io_error, string) result) effect"
where
  "tool_read ts path limit = attempt (observe (tl_read ts path limit)) (\<lambda>b.
     (let b = (case limit of None \<Rightarrow> b | Some n \<Rightarrow> take n b) in
      pure (if utf8_valid b then Inr b
            else Inl (Io_Other ''stream did not contain valid UTF-8''))))"

section \<open>The validation of a directory\<close>

datatype validation_failure = Invalid_Profiles | Validation_Io string | Validation_Output string

definition validation_exit_code :: "validation_failure \<Rightarrow> u8" where
  "validation_exit_code f = (case f of Invalid_Profiles \<Rightarrow> 1 | Validation_Io _ \<Rightarrow> 2
     | Validation_Output _ \<Rightarrow> 2)"

datatype candidate_kind = Candidate_File | Candidate_Symlink

record candidate_file =
  cf_filename :: string
  cf_path :: string
  cf_kind :: candidate_kind

definition candidate_kind_of :: "entry_kind \<Rightarrow> candidate_kind option" where
  "candidate_kind_of k = (case k of Symlink \<Rightarrow> Some Candidate_Symlink
     | Regular_File \<Rightarrow> Some Candidate_File | _ \<Rightarrow> None)"

fun candidate_files :: "string \<Rightarrow> (io_error, dir_entry) result list
    \<Rightarrow> (validation_failure, candidate_file list) result" where
  "candidate_files dir [] = Inr []"
| "candidate_files dir (Inl e # _) = Inl (Validation_Io (io_text e))"
| "candidate_files dir (Inr d # rest) =
     (if \<not> utf8_valid (de_name d)
      then Inl (Validation_Io ''profile directory contains a non-UTF-8 filename'')
      else if path_extension (de_name d) \<noteq> Some ''toml'' then candidate_files dir rest
      else case de_kind d of
        Inl e \<Rightarrow> Inl (Validation_Io (io_text e))
      | Inr k \<Rightarrow> (case candidate_kind_of k of
          None \<Rightarrow> candidate_files dir rest
        | Some kind \<Rightarrow> and_then (candidate_files dir rest) (\<lambda>cs.
            Inr (\<lparr>cf_filename = de_name d, cf_path = path_join dir (de_name d),
                  cf_kind = kind\<rparr> # cs))))"

definition write_line :: "'e writer \<Rightarrow> string \<Rightarrow> ('e, (validation_failure, unit) result) effect" where
  "write_line out line = with_err (\<lambda>e. Validation_Output (io_text e)) (put out (line @ [nl]))"

text \<open>One candidate: the line that is written for it, and its identifier if it counts as valid.\<close>

definition candidate_verdict :: "(string, string) bmap \<Rightarrow> candidate_file
    \<Rightarrow> (schema_error, profile) result \<Rightarrow> string \<times> string option" where
  "candidate_verdict valid_ids c parsed = (case parsed of
       Inr p \<Rightarrow> (case bm_get valid_ids (p_id p) of
           Some first_filename \<Rightarrow>
             (''error '' @ cf_filename c @ '' DUPLICATE_PROFILE_ID profile id '' @ p_id p
                @ '' already appeared in '' @ first_filename, None)
         | None \<Rightarrow> (''ok '' @ cf_filename c @ '' '' @ p_id p, Some (p_id p)))
     | Inl e \<Rightarrow> (''error '' @ cf_filename c @ '' '' @ se_code e @ '' '' @ se_message e, None))"

text \<open>The loop, with the identifiers seen so far and the number of invalid candidates.\<close>

fun validate_each :: "'e tools \<Rightarrow> 'e writer \<Rightarrow> (string, string) bmap \<Rightarrow> nat \<Rightarrow> candidate_file list
    \<Rightarrow> ('e, (validation_failure, (string, string) bmap \<times> nat) result) effect" where
  "validate_each ts out ids bad [] = pure (Inr (ids, bad))"
| "validate_each ts out ids bad (c # cs) =
     (if cf_kind c = Candidate_Symlink
      then attempt (write_line out (''error '' @ cf_filename c
          @ '' PROFILE_SYMLINK_REJECTED profile is a symlink'')) (\<lambda>_.
        validate_each ts out ids (bad + 1) cs)
      else attempt (with_err (\<lambda>e. Validation_Io (io_text e)) (tool_read ts (cf_path c) None)) (\<lambda>input.
        (case candidate_verdict ids c (parse_toml (tl_toml ts) input) of
           (line, Some i) \<Rightarrow> attempt (write_line out line) (\<lambda>_.
             validate_each ts out (bm_insert i (cf_filename c) ids) bad cs)
         | (line, None) \<Rightarrow> attempt (write_line out line) (\<lambda>_.
             validate_each ts out ids (bad + 1) cs))))"

definition validate_candidates :: "'e tools \<Rightarrow> 'e writer \<Rightarrow> candidate_file list
    \<Rightarrow> ('e, (validation_failure, unit) result) effect" where
  "validate_candidates ts out cs =
     attempt (validate_each ts out [] 0 cs) (\<lambda>(ids, bad).
       if bad = 0
       then write_line out (''validated '' @ show_nat (length ids) @ '' profiles'')
       else attempt (write_line out (''validation failed: '' @ show_nat bad @ '' invalid ''
              @ (if bad = 1 then ''profile'' else ''profiles''))) (\<lambda>_. pure (Inl Invalid_Profiles)))"

definition validate_profiles_dir :: "'e tools \<Rightarrow> 'e writer \<Rightarrow> string
    \<Rightarrow> ('e, (validation_failure, unit) result) effect" where
  "validate_profiles_dir ts out path =
     attempt (with_err (\<lambda>e. Validation_Io (io_text e)) (observe (tl_read_dir ts path))) (\<lambda>entries.
     attempt (pure (candidate_files path entries)) (\<lambda>cs.
       validate_candidates ts out (sort_key cf_filename cs)))"

section \<open>A candidate for another kernel\<close>

definition count_line :: "string \<Rightarrow> string \<Rightarrow> nat" where
  "count_line old input = length (filter (\<lambda>l. l = old) (split_on nl input))"

definition replace_line :: "string \<times> string \<Rightarrow> string \<Rightarrow> string" where
  "replace_line r input = join_on [nl]
     (map (\<lambda>l. if l = fst r then snd r else l) (split_on nl input))"

fun replace_lines :: "(string \<times> string) list \<Rightarrow> string \<Rightarrow> (string, string) result" where
  "replace_lines [] input = Inr input"
| "replace_lines (r # rs) input =
     (if count_line (fst r) input \<noteq> 1
      then Inl ''candidate selector line is ambiguous or unexpectedly formatted''
      else replace_lines rs (replace_line r input))"

definition quoted_line :: "string \<Rightarrow> string \<Rightarrow> string" where
  "quoted_line key v = key @ '' = '' @ [dquote] @ v @ [dquote]"

definition candidate_id_ok :: "string \<Rightarrow> bool" where
  "candidate_id_ok i = (i \<noteq> [] \<and> list_all (\<lambda>c. is_alnum c \<or> c \<in> set ''-_.'') i)"

text \<open>The upper bound: the next patch release, if there is one.\<close>

definition next_patch :: "kernel_version \<Rightarrow> kernel_version option" where
  "next_patch k = (if patch k = - 1 then None
     else Some (KernelVersion (major k) (minor k) (patch k + 1)))"

definition selector_lines :: "profile \<Rightarrow> string \<Rightarrow> kernel_version \<Rightarrow> kernel_version
    \<Rightarrow> (string \<times> string) list" where
  "selector_lines p i k k' =
     [(quoted_line ''id'' (p_id p), quoted_line ''id'' i),
      (quoted_line ''min'' (kr_min (p_kernel p)), quoted_line ''min'' (render_version k)),
      (quoted_line ''max_exclusive'' (kr_max_exclusive (p_kernel p)),
       quoted_line ''max_exclusive'' (render_version k'))]"

text \<open>The candidate with the selectors of another.\<close>

definition with_selectors :: "profile \<Rightarrow> profile \<Rightarrow> profile" where
  "with_selectors q p = p\<lparr>p_id := p_id q, p_kernel := (p_kernel p)
     \<lparr>kr_min := kr_min (p_kernel q), kr_max_exclusive := kr_max_exclusive (p_kernel q)\<rparr>\<rparr>"

definition unqualified_candidate :: "profile \<Rightarrow> bool" where
  "unqualified_candidate p = (p_status p = Candidate \<and> p_qualification p = None)"

definition retarget :: "(string \<Rightarrow> (string, profile) result) \<Rightarrow> string \<Rightarrow> string \<Rightarrow> string
    \<Rightarrow> (string, string) result" where
  "retarget toml input i kernel_release =
     and_then (map_err schema_error_text (parse_toml toml input)) (\<lambda>original.
     if \<not> unqualified_candidate original
     then Inl ''kernel retargeting requires an unqualified candidate''
     else if i = p_id original \<or> \<not> candidate_id_ok i
     then Inl ''a distinct, filesystem-safe candidate id is required''
     else
       and_then (map_err schema_error_text (parse_release kernel_release)) (\<lambda>k.
       and_then (ok_or ''kernel patch overflow'' (next_patch k)) (\<lambda>k'.
       and_then (replace_lines (selector_lines original i k k') input) (\<lambda>output.
       and_then (map_err schema_error_text (parse_toml toml output)) (\<lambda>restored.
         if with_selectors original restored \<noteq> original
         then Inl ''kernel retargeting changed unrelated profile semantics''
         else Inr output)))))"

text \<open>A bounded, directly named profile.\<close>

definition read_profile :: "'e tools \<Rightarrow> string \<Rightarrow> ('e, (string, string) result) effect" where
  "read_profile ts path =
     attempt (with_err io_text (observe (tl_lstat ts path))) (\<lambda>m.
       if fm_kind m \<noteq> Regular_File then pure (Inl ''profile must be a regular file'')
       else attempt (with_err io_text (tool_read ts path (Some 1048577))) (\<lambda>t.
         pure (if length t > 1048576 then Inl ''profile exceeds byte limit'' else Inr t)))"

record retarget_record =
  rr_original_sha256 :: string
  rr_candidate_sha256 :: string
  rr_candidate_id :: string
  rr_kernel_release :: string
  rr_qualification_complete :: bool

definition generate_retargeted :: "'e tools \<Rightarrow> string \<Rightarrow> string \<Rightarrow> string \<Rightarrow> string
    \<Rightarrow> ('e, (string, retarget_record) result) effect" where
  "generate_retargeted ts candidate i kernel_release output =
     attempt (read_profile ts candidate) (\<lambda>input.
     attempt (pure (retarget (tl_toml ts) input i kernel_release)) (\<lambda>t.
     attempt (with_err io_text (do { emit (Wrote output t); observe (tl_create_new ts output t) })) (\<lambda>_.
       pure (Inr \<lparr>rr_original_sha256 = tl_sha256 ts input, rr_candidate_sha256 = tl_sha256 ts t,
         rr_candidate_id = i, rr_kernel_release = kernel_release,
         rr_qualification_complete = False\<rparr>))))"

section \<open>One observation of a candidate\<close>

datatype collection_mode = Preflight | Probe

record candidate_observation =
  co_schema_version :: u32
  co_mode :: collection_mode
  co_profile_sha256 :: string
  co_kernel_release :: string
  co_qualification_complete :: bool
  co_diagnostic :: diagnostic_report

definition preflight_ready :: "inspection_result \<Rightarrow> bool" where
  "preflight_ready r = (\<not> ir_reboot_required r \<and> \<not> ir_relogin_required r
     \<and> list_all (\<lambda>c. dc_requirement c \<noteq> Required \<or> dc_status c = Pass) (ir_checks r))"

definition not_probed :: "collection_mode \<Rightarrow> diagnostic_check" where
  "not_probed mode = mk_check ''qualification.probes'' Blocked ''Hardware probes were not executed''
     Required (details [(''error_code'', String
       (case mode of Preflight \<Rightarrow> ''PREFLIGHT_ONLY'' | Probe \<Rightarrow> ''PREFLIGHT_NOT_READY''))])"

definition collection_command :: "collection_mode \<Rightarrow> diagnostic_command" where
  "collection_command mode = (case mode of Preflight \<Rightarrow> Status | Probe \<Rightarrow> Doctor)"

text \<open>What is refused before anything is inspected.\<close>

definition collection_profile :: "(string \<Rightarrow> (string, profile) result) \<Rightarrow> string \<Rightarrow> platform_facts
    \<Rightarrow> string \<Rightarrow> (string, profile) result" where
  "collection_profile toml profile_text facts kernel_release =
     and_then (map_err schema_error_text (parse_toml toml profile_text)) (\<lambda>p.
     if \<not> unqualified_candidate p then Inl ''collection requires an unqualified candidate''
     else if pf_effective_root facts then Inl ''candidate collection requires a normal user''
     else if \<not> platform_matches p facts
     then Inl ''candidate does not match the observed platform''
     else and_then (map_err schema_error_text (parse_release kernel_release)) (\<lambda>k.
       if k \<noteq> pf_kernel facts
       then Inl ''kernel release is inconsistent with discovered facts'' else Inr p))"

definition collect :: "(string \<Rightarrow> (string, profile) result) \<Rightarrow> (bytes \<Rightarrow> string) \<Rightarrow> string
    \<Rightarrow> platform_facts \<Rightarrow> string \<Rightarrow> collection_mode \<Rightarrow> 'e runtime_inspector
    \<Rightarrow> ('e, (string, candidate_observation) result) effect" where
  "collect toml sha256 profile_text facts kernel_release mode ins =
     attempt (pure (collection_profile toml profile_text facts kernel_release)) (\<lambda>p. do {
       preflight \<leftarrow> inspect_preflight ins p facts;
       let ready = preflight_ready preflight;
       r \<leftarrow> (if mode = Probe \<and> ready then inspect_doctor ins p facts
            else State_Monad.return preflight);
       let r = (if mode = Preflight \<or> \<not> ready then add_checks [not_probed mode] r else r);
       pure (Inr \<lparr>co_schema_version = 1, co_mode = mode, co_profile_sha256 = sha256 profile_text,
         co_kernel_release = kernel_release, co_qualification_complete = False,
         co_diagnostic = finalize (with_inspection p r
           (base_report (collection_command mode) facts))\<rparr>)
     })"

definition host_production :: "'e tools \<Rightarrow> 'e production" where
  "host_production ts = (tl_production ts)\<lparr>pd_paths := system_paths\<rparr>"

definition collect_system :: "'e tools \<Rightarrow> string \<Rightarrow> string \<Rightarrow> string \<Rightarrow> collection_mode \<Rightarrow> bool
    \<Rightarrow> ('e, (string, candidate_observation) result) effect" where
  "collect_system ts arch profile expected_sha256 mode accept_hardware_probes =
     (if mode = Probe \<and> \<not> accept_hardware_probes
      then pure (Inl ''hardware probes require --accept-hardware-probes'')
      else if mode = Preflight \<and> accept_hardware_probes
      then pure (Inl ''preflight does not accept hardware probe acknowledgement'')
      else
        attempt (read_profile ts profile) (\<lambda>t.
        if tl_sha256 ts t \<noteq> expected_sha256 then pure (Inl ''profile digest mismatch'')
        else
          attempt (with_err (\<lambda>e. pe_code e @ '': '' @ pe_message e) (observe (\<lambda>e. case tl_facts ts e of
              (fs, e') \<Rightarrow> (detect_platform fs ''/'' arch, e')))) (\<lambda>facts.
          attempt (with_err io_text (tool_read ts ''/proc/sys/kernel/osrelease'' (Some 4097)))
            (\<lambda>kernel_release.
          if length kernel_release > 4096
          then pure (Inl ''kernel release exceeds byte limit'')
          else collect (tl_toml ts) (tl_sha256 ts) t facts (trim_end kernel_release) mode
                 (production_inspector (host_production ts))))))"

section \<open>Laws of retargeting\<close>

lemma split_replace_line:
  "nl \<notin> set (snd r) \<Longrightarrow> split_on nl (replace_line r s)
     = map (\<lambda>l. if l = fst r then snd r else l) (split_on nl s)"
  unfolding replace_line_def by (rule split_on_join) (auto dest: split_on_no_sep)

lemma filter_map_other:
  "old \<noteq> a \<Longrightarrow> old \<noteq> b \<Longrightarrow>
   length (filter (\<lambda>l. l = old) (map (\<lambda>l. if l = a then b else l) ls)) = length (filter (\<lambda>l. l = old) ls)"
  by (induction ls) auto

lemma count_replace_line:
  "nl \<notin> set (snd r) \<Longrightarrow> old \<noteq> fst r \<Longrightarrow> old \<noteq> snd r \<Longrightarrow>
   count_line old (replace_line r s) = count_line old s"
  unfolding count_line_def by (subst split_replace_line) (assumption, rule filter_map_other)

lemma quoted_line_key:
  "quoted_line ''id'' a \<noteq> quoted_line ''min'' b" "quoted_line ''id'' a \<noteq> quoted_line ''max_exclusive'' b"
  "quoted_line ''min'' a \<noteq> quoted_line ''id'' b" "quoted_line ''min'' a \<noteq> quoted_line ''max_exclusive'' b"
  "quoted_line ''max_exclusive'' a \<noteq> quoted_line ''id'' b"
  "quoted_line ''max_exclusive'' a \<noteq> quoted_line ''min'' b"
  by (simp_all add: quoted_line_def)

lemma candidate_id_no_nl: "candidate_id_ok i \<Longrightarrow> nl \<notin> set i"
  by (auto simp: candidate_id_ok_def list_all_iff ascii_simps)

lemma quoted_no_nl:
  "candidate_id_ok i \<Longrightarrow> nl \<notin> set (quoted_line ''id'' i)"
  "nl \<notin> set (quoted_line ''min'' (render_version k))"
  "nl \<notin> set (quoted_line ''max_exclusive'' (render_version k))"
  using candidate_id_no_nl [of i] render_graph [of k]
  by (auto simp: quoted_line_def list_all_iff is_graph_def)

text \<open>The lines of a document after a replacement of single lines.\<close>

definition substituted :: "(string \<times> string) list \<Rightarrow> string list \<Rightarrow> string list" where
  "substituted rs ls = map (\<lambda>l. case map_of rs l of None \<Rightarrow> l | Some l' \<Rightarrow> l') ls"

lemma replace_selector_lines:
  assumes "candidate_id_ok i"
  shows "replace_lines (selector_lines p i k k') s = Inr out \<longleftrightarrow>
     list_all (\<lambda>r. count_line (fst r) s = 1) (selector_lines p i k k')
     \<and> split_on nl out = substituted (selector_lines p i k k') (split_on nl s)"
proof -
  note keys = quoted_line_key quoted_no_nl(2,3)
    quoted_no_nl(1) [OF assms]
  define a where "a = (quoted_line ''id'' (p_id p), quoted_line ''id'' i)"
  define b where "b = (quoted_line ''min'' (kr_min (p_kernel p)), quoted_line ''min'' (render_version k))"
  define c where "c = (quoted_line ''max_exclusive'' (kr_max_exclusive (p_kernel p)),
    quoted_line ''max_exclusive'' (render_version k'))"
  have n: "nl \<notin> set (snd a)" "nl \<notin> set (snd b)" "nl \<notin> set (snd c)"
    and d: "fst b \<noteq> fst a" "fst b \<noteq> snd a" "fst c \<noteq> fst a" "fst c \<noteq> snd a" "fst c \<noteq> fst b" "fst c \<noteq> snd b"
    "snd a \<noteq> fst b" "snd a \<noteq> fst c" "snd b \<noteq> fst c"
    by (simp_all add: a_def b_def c_def keys)
  let ?out = "replace_line c (replace_line b (replace_line a s))"
  have ls: "split_on nl ?out = substituted [a, b, c] (split_on nl s)"
    using n d by (auto simp: split_replace_line substituted_def)
  have sel: "selector_lines p i k k' = [a, b, c]"
    by (simp add: selector_lines_def a_def b_def c_def)
  have "out = ?out \<longleftrightarrow> split_on nl out = split_on nl ?out" by (metis join_split_on)
  then show ?thesis
    unfolding sel ls [symmetric] using n d by (auto simp: count_replace_line)
qed

lemma next_patch_Some:
  "next_patch k = Some k' \<longleftrightarrow> unat (patch k) + 1 < 2 ^ 64
     \<and> k' = KernelVersion (major k) (minor k) (of_nat (unat (patch k) + 1))"
proof -
  have "patch k = - 1 \<longleftrightarrow> unat (patch k) = 2 ^ 64 - 1"
    by (simp add: word_unat_eq_iff unsigned_minus_1_eq_mask mask_eq_exp_minus_1)
  moreover have "unat (patch k) < 2 ^ 64" using unsigned_less [of "patch k"] by simp
  ultimately show ?thesis by (auto simp: next_patch_def)
qed

section \<open>Texts that are read\<close>

text \<open>A file read as text at an environment, and a profile that was named directly.\<close>

definition text_read :: "'e tools \<Rightarrow> string \<Rightarrow> nat option \<Rightarrow> 'e \<Rightarrow> string \<Rightarrow> 'e \<Rightarrow> bool" where
  "text_read ts path limit e t u \<longleftrightarrow> (\<exists>b. tl_read ts path limit e = (Inr b, u)
     \<and> t = (case limit of None \<Rightarrow> b | Some n \<Rightarrow> take n b) \<and> utf8_valid t)"

definition profile_read :: "'e tools \<Rightarrow> string \<Rightarrow> 'e \<Rightarrow> string \<Rightarrow> 'e \<Rightarrow> bool" where
  "profile_read ts path e t v \<longleftrightarrow> (\<exists>m u. tl_lstat ts path e = (Inr m, u) \<and> fm_kind m = Regular_File
     \<and> text_read ts path (Some 1048577) u t v \<and> length t \<le> 1048576)"

lemma tool_read_run:
  "run_state (tool_read ts path limit) w = (Inr t, w') \<longleftrightarrow>
     (\<exists>u. text_read ts path limit (env w) t u \<and> w' = w\<lparr>env := u\<rparr>)"
  by (auto simp: tool_read_def text_read_def attempt_Inr observe_run Let_def split: if_splits)

lemma read_profile_run:
  "run_state (read_profile ts path) w = (Inr t, w') \<longleftrightarrow>
     (\<exists>u. profile_read ts path (env w) t u \<and> w' = w\<lparr>env := u\<rparr>)"
  by (auto simp: read_profile_def profile_read_def attempt_Inr with_err_Inr observe_run tool_read_run)
    (auto split: if_splits simp: not_less tool_read_run attempt_Inr with_err_Inr)

section \<open>Laws of the directory validation\<close>

text \<open>
  The candidates of a listing: no entry failed, every name is UTF-8, the kind of every name that ends
  in \<open>.toml\<close> is known, and the files and links among these are the candidates.
\<close>

definition candidate_entry :: "dir_entry \<Rightarrow> bool" where
  "candidate_entry d = (toml_entry d \<and> de_kind d \<in> {Inr Symlink, Inr Regular_File})"

definition candidate_at :: "string \<Rightarrow> dir_entry \<Rightarrow> candidate_file" where
  "candidate_at dir d = \<lparr>cf_filename = de_name d, cf_path = path_join dir (de_name d),
     cf_kind = (if de_kind d = Inr Symlink then Candidate_Symlink else Candidate_File)\<rparr>"

definition listed_candidates :: "string \<Rightarrow> (io_error, dir_entry) result list \<Rightarrow> candidate_file list \<Rightarrow> bool"
where
  "listed_candidates dir listing cs \<longleftrightarrow> (\<exists>ds. listing = map Inr ds
     \<and> (\<forall>d \<in> set ds. utf8_valid (de_name d) \<and> (toml_entry d \<longrightarrow> is_ok (de_kind d)))
     \<and> cs = map (candidate_at dir) (filter candidate_entry ds))"

lemma listed_candidates_simps:
  "listed_candidates dir [] cs \<longleftrightarrow> cs = []"
  "listed_candidates dir (Inl e # rest) cs \<longleftrightarrow> False"
  "listed_candidates dir (Inr d # rest) cs \<longleftrightarrow> utf8_valid (de_name d) \<and> (toml_entry d \<longrightarrow> is_ok (de_kind d))
     \<and> (if candidate_entry d then \<exists>cs'. cs = candidate_at dir d # cs' \<and> listed_candidates dir rest cs'
        else listed_candidates dir rest cs)"
proof -
  have "(Inr d # rest = map Inr ds) \<longleftrightarrow> (\<exists>ds'. ds = d # ds' \<and> rest = map Inr ds')" for ds
    by (auto simp: map_eq_Cons_conv Cons_eq_map_conv)
  then show "listed_candidates dir (Inr d # rest) cs \<longleftrightarrow> utf8_valid (de_name d) \<and> (toml_entry d \<longrightarrow> is_ok (de_kind d))
     \<and> (if candidate_entry d then \<exists>cs'. cs = candidate_at dir d # cs' \<and> listed_candidates dir rest cs'
        else listed_candidates dir rest cs)"
    unfolding listed_candidates_def by auto
qed (auto simp: listed_candidates_def)

lemma candidate_kind_of_cases:
  "candidate_kind_of k = (if k = Symlink then Some Candidate_Symlink
     else if k = Regular_File then Some Candidate_File else None)"
  by (cases k) (simp_all add: candidate_kind_of_def)

lemma candidate_files_Inr: "candidate_files dir listing = Inr cs \<longleftrightarrow> listed_candidates dir listing cs"
proof (induction dir listing arbitrary: cs rule: candidate_files.induct)
  case (3 dir d rest)
  then show ?case
    by (cases "de_kind d")
      (auto simp: listed_candidates_simps toml_entry_def candidate_entry_def candidate_at_def
        candidate_kind_of_cases)
qed (auto simp: listed_candidates_simps)

text \<open>
  The judgement of candidates in turn, from the environment before to the one after, with the
  identifiers accepted so far: a link is refused unread; the text of a file is read; it is accepted if
  it parses with an identifier that is not taken; and one line is written for each.
\<close>

inductive judging :: "'e tools \<Rightarrow> 'e writer \<Rightarrow> string set \<Rightarrow> 'e \<Rightarrow> candidate_file list \<Rightarrow> profile option list
    \<Rightarrow> string list \<Rightarrow> 'e \<Rightarrow> bool"
  for ts :: "'e tools" and out :: "'e writer" where
  judged_all: "judging ts out ids e [] [] [] e"
| judged_link: "judging ts out ids e (c # cs) (None # vs) (l # ls) v"
  if "cf_kind c = Candidate_Symlink" "starts_with (''error '' @ cf_filename c @ '' '') l"
    "out (l @ [nl]) e = (Inr (), u)" "judging ts out ids u cs vs ls v"
| judged_bad: "judging ts out ids e (c # cs) (None # vs) (l # ls) v"
  if "cf_kind c = Candidate_File" "text_read ts (cf_path c) None e t x"
    "case parse_toml (tl_toml ts) t of Inl _ \<Rightarrow> True | Inr p \<Rightarrow> p_id p \<in> ids"
    "starts_with (''error '' @ cf_filename c @ '' '') l"
    "out (l @ [nl]) x = (Inr (), u)" "judging ts out ids u cs vs ls v"
| judged_ok: "judging ts out ids e (c # cs) (Some p # vs) (l # ls) v"
  if "cf_kind c = Candidate_File" "text_read ts (cf_path c) None e t x"
    "parse_toml (tl_toml ts) t = Inr p" "p_id p \<notin> ids" "l = ''ok '' @ cf_filename c @ '' '' @ p_id p"
    "out (l @ [nl]) x = (Inr (), u)" "judging ts out (insert (p_id p) ids) u cs vs ls v"

text \<open>The directory is read, and its candidates are judged in order of name.\<close>

definition directory_judged :: "'e tools \<Rightarrow> 'e writer \<Rightarrow> string \<Rightarrow> 'e \<Rightarrow> profile option list \<Rightarrow> string list
    \<Rightarrow> 'e \<Rightarrow> bool" where
  "directory_judged ts out dir e vs ls v \<longleftrightarrow> (\<exists>listing cs u. tl_read_dir ts dir e = (Inr listing, u)
     \<and> listed_candidates dir listing cs \<and> judging ts out {} u (sort_key cf_filename cs) vs ls v)"

lemma write_line_Inr:
  "run_state (write_line out l) w = (Inr (), w') \<Longrightarrow> log w' = log w @ [Displayed (l @ [nl])]"
  using leavesD [OF leaves_with_err [OF leaves_put]] unfolding write_line_def by fastforce

lemma write_line_run:
  "run_state (write_line out l) w = (Inr (), w') \<longleftrightarrow>
     (\<exists>u. out (l @ [nl]) (env w) = (Inr (), u) \<and> w' = \<lparr>env = u, log = log w @ [Displayed (l @ [nl])]\<rparr>)"
  by (auto simp: write_line_def with_err_Inr put_def attempt_Inr observe_run run_state_emit)

lemma candidate_verdict_cases:
  assumes "candidate_verdict ids c parsed = (line, v)"
  obtains (valid) p where "parsed = Inr p" "p_id p \<notin> fst ` set ids" "v = Some (p_id p)"
      "line = ''ok '' @ cf_filename c @ '' '' @ p_id p"
  | (invalid) "v = None" "case parsed of Inl e \<Rightarrow> True | Inr p \<Rightarrow> p_id p \<in> fst ` set ids"
      "starts_with (''error '' @ cf_filename c @ '' '') line"
proof (cases parsed)
  case (Inl e)
  with assms invalid show ?thesis by (auto simp: candidate_verdict_def starts_with_def)
next
  case (Inr p)
  show ?thesis
  proof (cases "p_id p \<in> fst ` set ids")
    case True
    then have "bm_get ids (p_id p) \<noteq> None" by (simp add: bm_get_None)
    with assms Inr True show ?thesis
      by (intro invalid) (auto simp: candidate_verdict_def starts_with_def)
  next
    case False
    then have "bm_get ids (p_id p) = None" by (simp add: bm_get_None)
    with assms Inr False show ?thesis by (intro valid) (auto simp: candidate_verdict_def)
  qed
qed

definition shown_lines :: "string list \<Rightarrow> event list" where
  "shown_lines ls = map (\<lambda>l. Displayed (l @ [nl])) ls"

text \<open>What the loop ends with.\<close>

definition each_judged :: "'e tools \<Rightarrow> 'e writer \<Rightarrow> (string, string) bmap \<Rightarrow> nat \<Rightarrow> candidate_file list
    \<Rightarrow> 'e world \<Rightarrow> (string, string) bmap \<Rightarrow> nat \<Rightarrow> 'e world \<Rightarrow> bool" where
  "each_judged ts out ids bad cs w ids' bad' w' \<longleftrightarrow> (\<exists>vs ls.
     judging ts out (fst ` set ids) (env w) cs vs ls (env w') \<and> bm_wf ids'
     \<and> bad' = bad + count_list vs None
     \<and> fst ` set ids' = fst ` set ids \<union> p_id ` {p. Some p \<in> set vs}
     \<and> log w' = log w @ shown_lines ls)"

lemma each_judged_bad:
  assumes "each_judged ts out ids (bad + 1) cs u ids' bad' w'"
    and "log u = log w @ [Displayed (l @ [nl])]"
    and "\<And>vs ls. judging ts out (fst ` set ids) (env u) cs vs ls (env w') \<Longrightarrow>
      judging ts out (fst ` set ids) (env w) (c # cs) (None # vs) (l # ls) (env w')"
  shows "each_judged ts out ids bad (c # cs) w ids' bad' w'"
proof -
  from assms(1) obtain vs ls where j: "judging ts out (fst ` set ids) (env u) cs vs ls (env w')"
    and r: "bm_wf ids'" "bad' = bad + 1 + count_list vs None"
      "fst ` set ids' = fst ` set ids \<union> p_id ` {p. Some p \<in> set vs}" "log w' = log u @ shown_lines ls"
    unfolding each_judged_def by blast
  show ?thesis
    unfolding each_judged_def using assms(3) [OF j] r assms(2)
    by (intro exI [of _ "None # vs"] exI [of _ "l # ls"]) (simp add: shown_lines_def)
qed

lemma validate_each_judged:
  assumes "run_state (validate_each ts out ids bad cs) w = (Inr (ids', bad'), w')" "bm_wf ids"
  shows "each_judged ts out ids bad cs w ids' bad' w'"
  using assms
proof (induction cs arbitrary: ids bad w)
  case Nil
  then show ?case
    unfolding each_judged_def
    by (intro exI [of _ "[]"]) (auto simp: shown_lines_def judging.judged_all)
next
  case (Cons c cs)
  show ?case
  proof (cases "cf_kind c")
    case Candidate_Symlink
    let ?l = "''error '' @ cf_filename c @ '' PROFILE_SYMLINK_REJECTED profile is a symlink''"
    from Cons.prems(1) Candidate_Symlink obtain x u where
      x: "out (?l @ [nl]) (env w) = (Inr (), x)" "u = \<lparr>env = x, log = log w @ [Displayed (?l @ [nl])]\<rparr>"
      and more: "run_state (validate_each ts out ids (bad + 1) cs) u = (Inr (ids', bad'), w')"
      by (auto simp: attempt_Inr write_line_run)
    have "starts_with (''error '' @ cf_filename c @ '' '') ?l" by (simp add: starts_with_def)
    with Cons.IH [OF more Cons.prems(2)] x Candidate_Symlink show ?thesis
      by - (erule each_judged_bad [where l = ?l], simp, rule judging.judged_link, assumption+, simp)
  next
    case Candidate_File
    with Cons.prems(1) obtain input u where
      read: "run_state (with_err (\<lambda>e. Validation_Io (io_text e)) (tool_read ts (cf_path c) None)) w
        = (Inr input, u)"
      and cont: "run_state (case candidate_verdict ids c (parse_toml (tl_toml ts) input) of
           (line, Some i) \<Rightarrow> attempt (write_line out line) (\<lambda>_.
             validate_each ts out (bm_insert i (cf_filename c) ids) bad cs)
         | (line, None) \<Rightarrow> attempt (write_line out line) (\<lambda>_.
             validate_each ts out ids (bad + 1) cs)) u = (Inr (ids', bad'), w')"
      by (simp only: validate_each.simps candidate_kind.distinct if_False attempt_Inr) blast
    from read obtain e where e: "text_read ts (cf_path c) None (env w) input e" "u = w\<lparr>env := e\<rparr>"
      by (auto simp: with_err_Inr tool_read_run)
    obtain line v where verdict: "candidate_verdict ids c (parse_toml (tl_toml ts) input) = (line, v)"
      by fastforce
    with cont have rest: "run_state (case v of
           Some i \<Rightarrow> attempt (write_line out line) (\<lambda>_.
             validate_each ts out (bm_insert i (cf_filename c) ids) bad cs)
         | None \<Rightarrow> attempt (write_line out line) (\<lambda>_. validate_each ts out ids (bad + 1) cs)) u
        = (Inr (ids', bad'), w')"
      by (cases v) simp_all
    from verdict show ?thesis
    proof (cases rule: candidate_verdict_cases)
      case (valid p)
      with rest e(2) obtain x y where x: "out (line @ [nl]) e = (Inr (), x)"
          "y = \<lparr>env = x, log = log w @ [Displayed (line @ [nl])]\<rparr>"
        and more: "run_state (validate_each ts out (bm_insert (p_id p) (cf_filename c) ids) bad cs) y
          = (Inr (ids', bad'), w')"
        by (auto simp: attempt_Inr write_line_run)
      from Cons.IH [OF more bm_insert_wf [OF Cons.prems(2)]] x(2) obtain vs ls where
        j: "judging ts out (insert (p_id p) (fst ` set ids)) x cs vs ls (env w')"
        and r: "bm_wf ids'" "bad' = bad + count_list vs None"
          "fst ` set ids' = insert (p_id p) (fst ` set ids) \<union> p_id ` {p. Some p \<in> set vs}"
          "log w' = log y @ shown_lines ls"
        unfolding each_judged_def bm_insert_keys by auto
      have "judging ts out (fst ` set ids) (env w) (c # cs) (Some p # vs) (line # ls) (env w')"
        by (rule judging.judged_ok [OF Candidate_File e(1) valid(1,2,4) x(1) j])
      then show ?thesis
        unfolding each_judged_def using r x(2)
        by (intro exI [of _ "Some p # vs"] exI [of _ "line # ls"]) (auto simp: shown_lines_def)
    next
      case invalid
      with rest e(2) obtain x y where x: "out (line @ [nl]) e = (Inr (), x)"
          "y = \<lparr>env = x, log = log w @ [Displayed (line @ [nl])]\<rparr>"
        and more: "run_state (validate_each ts out ids (bad + 1) cs) y = (Inr (ids', bad'), w')"
        by (auto simp: attempt_Inr write_line_run)
      show ?thesis
      proof (rule each_judged_bad [OF Cons.IH [OF more Cons.prems(2)], where l = line])
        show "log y = log w @ [Displayed (line @ [nl])]" by (simp add: x(2))
        show "judging ts out (fst ` set ids) (env w) (c # cs) (None # vs) (line # ls) (env w')"
          if "judging ts out (fst ` set ids) (env y) cs vs ls (env w')" for vs ls
          by (rule judging.judged_bad [where l = line and out = out, OF Candidate_File e(1) _ _ x(1)])
            (use invalid that x(2) in simp_all)
      qed
    qed
  qed
qed

lemma judging_distinct:
  "judging ts out ids e cs vs ls v \<Longrightarrow> vs = map Some ps \<Longrightarrow>
   distinct (map p_id ps) \<and> p_id ` set ps \<inter> ids = {}"
proof (induction arbitrary: ps rule: judging.induct)
  case (judged_ok c e t x p ids l u cs vs ls v)
  then obtain qs where "ps = p # qs" "vs = map Some qs" by (cases ps) simp_all
  with judged_ok show ?case by fastforce
qed auto

lemma all_Some: "None \<notin> set vs \<Longrightarrow> \<exists>ps. vs = map Some ps"
proof (induction vs)
  case (Cons v vs)
  then obtain ps where "vs = map Some ps" by auto
  moreover from Cons.prems obtain p where "v = Some p" by (cases v) auto
  ultimately show ?case by (intro exI [of _ "p # ps"]) simp
qed simp

lemma accepted_count:
  assumes "bm_wf ids" "fst ` set ids = p_id ` set ps" "distinct (map p_id ps)"
  shows "length ids = length ps"
proof -
  have "length ids = card (fst ` set ids)"
    using distinct_card [OF bm_wf_distinct [OF assms(1)]] by simp
  also have "\<dots> = length ps" using distinct_card [OF assms(3)] assms(2) by simp
  finally show ?thesis .
qed

section \<open>Laws of the collection\<close>

text \<open>
  A collection, from the world it starts in to the one it ends in. The profile is the text read first,
  with the expected digest; the facts are those detected next, of a normal user and a platform the
  profile matches; the kernel is the one then read, and it is that of the facts. The profile is an
  unqualified candidate. Its preflight then ran, with \<open>rpm\<close> queries alone. The helpers ran, and the
  report is of \<open>doctor\<close>, only in probe mode after a preflight without a pending reboot or relogin in
  which every required check passed; otherwise nothing more ran and the report says so.
\<close>

definition ready_to_probe :: "inspection_result \<Rightarrow> bool" where
  "ready_to_probe r \<longleftrightarrow> \<not> ir_reboot_required r \<and> \<not> ir_relogin_required r
     \<and> (\<forall>c \<in> set (ir_checks r). dc_requirement c = Required \<longrightarrow> dc_status c = Pass)"

definition candidate_admitted :: "'e tools \<Rightarrow> string \<Rightarrow> string \<Rightarrow> string \<Rightarrow> 'e \<Rightarrow> profile \<Rightarrow> platform_facts
    \<Rightarrow> string \<Rightarrow> 'e \<Rightarrow> bool" where
  "candidate_admitted ts arch profile sha e p facts k v \<longleftrightarrow> (\<exists>t x fs y.
     profile_read ts profile e t x \<and> tl_sha256 ts t = sha
     \<and> parse_toml (tl_toml ts) t = Inr p \<and> p_status p = Candidate \<and> p_qualification p = None
     \<and> tl_facts ts x = (fs, y) \<and> detect_platform fs ''/'' arch = Inr facts
     \<and> \<not> pf_effective_root facts \<and> platform_matches p facts
     \<and> text_read ts ''/proc/sys/kernel/osrelease'' (Some 4097) y k v \<and> length k \<le> 4096
     \<and> parse_release (trim_end k) = Inr (pf_kernel facts))"

definition observed_candidate :: "'e tools \<Rightarrow> collection_mode \<Rightarrow> profile \<Rightarrow> platform_facts \<Rightarrow> string \<Rightarrow> string
    \<Rightarrow> 'e world \<Rightarrow> candidate_observation \<Rightarrow> 'e world \<Rightarrow> bool" where
  "observed_candidate ts mode p facts sha k w ob w' \<longleftrightarrow> (let ins = production_inspector (host_production ts) in
     \<exists>pre u xs ys. run_state (inspect_preflight ins p facts) w = (pre, u)
     \<and> log u = log w @ xs \<and> list_all (ran (rpm_query (production_rpm (host_production ts)))) xs
     \<and> log w' = log u @ ys
     \<and> co_schema_version ob = 1 \<and> co_mode ob = mode \<and> co_profile_sha256 ob = sha
     \<and> co_kernel_release ob = k \<and> \<not> co_qualification_complete ob
     \<and> (if mode = Probe \<and> ready_to_probe pre
        then (\<exists>r. run_state (inspect_doctor ins p facts) u = (r, w')
          \<and> list_all (ran (production.allowed TYPE('e) (host_production ts) Infer)) ys
          \<and> co_diagnostic ob = finalize (with_inspection p r (base_report Doctor facts)))
        else w' = u \<and> not_probed mode \<in> set (dr_checks (co_diagnostic ob))
          \<and> exit_code (co_diagnostic ob) = 1
          \<and> co_diagnostic ob = finalize (with_inspection p (add_checks [not_probed mode] pre)
              (base_report (collection_command mode) facts))))"

definition collected :: "'e tools \<Rightarrow> string \<Rightarrow> string \<Rightarrow> string \<Rightarrow> collection_mode \<Rightarrow> 'e world
    \<Rightarrow> candidate_observation \<Rightarrow> 'e world \<Rightarrow> bool"
where
  "collected ts arch profile sha mode w ob w' \<longleftrightarrow> (\<exists>p facts k v.
     candidate_admitted ts arch profile sha (env w) p facts k v
     \<and> observed_candidate ts mode p facts sha (trim_end k) (w\<lparr>env := v\<rparr>) ob w')"

lemma preflight_ready_iff: "preflight_ready r \<longleftrightarrow> ready_to_probe r"
  by (auto simp: preflight_ready_def ready_to_probe_def list_all_iff)

lemma collection_profile_Inr:
  "collection_profile toml t facts k = Inr p \<longleftrightarrow> parse_toml toml t = Inr p
     \<and> p_status p = Candidate \<and> p_qualification p = None \<and> \<not> pf_effective_root facts
     \<and> platform_matches p facts \<and> parse_release k = Inr (pf_kernel facts)"
  by (auto simp: collection_profile_def unqualified_candidate_def split: if_splits)

lemma not_probed_exit:
  assumes "not_probed mode \<in> set (dr_checks report)" "dr_overall report = aggregate (dr_checks report)"
  shows "exit_code report = 1"
proof -
  have "required_bad (not_probed mode)" by (simp add: required_bad_def not_probed_def mk_check_def)
  with assms exit_code_aggregate [of report] show ?thesis by auto
qed

lemma collect_run:
  fixes ts :: "'e tools"
  assumes "run_state (collect toml sha256 t facts k mode (production_inspector (host_production ts))) w = (Inr ob, w')"
  shows "\<exists>p. collection_profile toml t facts k = Inr p
     \<and> observed_candidate ts mode p facts (sha256 t) k w ob w'"
proof -
  let ?pd = "host_production ts"
  let ?ins = "production_inspector ?pd"
  from assms obtain p where p: "collection_profile toml t facts k = Inr p"
    and run: "run_state (do {
       preflight \<leftarrow> inspect_preflight ?ins p facts;
       let ready = preflight_ready preflight;
       r \<leftarrow> (if mode = Probe \<and> ready then inspect_doctor ?ins p facts
            else State_Monad.return preflight);
       let r = (if mode = Preflight \<or> \<not> ready then add_checks [not_probed mode] r else r);
       pure (Inr \<lparr>co_schema_version = 1, co_mode = mode, co_profile_sha256 = sha256 t,
         co_kernel_release = k, co_qualification_complete = False,
         co_diagnostic = finalize (with_inspection p r
           (base_report (collection_command mode) facts))\<rparr>)
     } :: ('e, (string, candidate_observation) result) effect) w = (Inr ob, w')"
    unfolding collect_def attempt_Inr by auto
  obtain pre u where pre: "run_state (inspect_preflight ?ins p facts) w = (pre, u)" by fastforce
  with run have rest: "run_state (do {
       r \<leftarrow> (if mode = Probe \<and> preflight_ready pre then inspect_doctor ?ins p facts
            else State_Monad.return pre);
       let r = (if mode = Preflight \<or> \<not> preflight_ready pre then add_checks [not_probed mode] r else r);
       pure (Inr \<lparr>co_schema_version = 1, co_mode = mode, co_profile_sha256 = sha256 t,
         co_kernel_release = k, co_qualification_complete = False,
         co_diagnostic = finalize (with_inspection p r
           (base_report (collection_command mode) facts))\<rparr>)
     } :: ('e, (string, candidate_observation) result) effect) u = (Inr ob, w')"
    by (simp add: Let_def)
  obtain xs where xs: "log u = log w @ xs" "list_all (ran (rpm_query (production_rpm ?pd))) xs"
    by (rule only_doesE [OF production.only_runs_preflight pre])
  have "observed_candidate ts mode p facts (sha256 t) k w ob w'"
  proof (cases "mode = Probe \<and> preflight_ready pre")
    case True
    then have "\<not> (mode = Preflight \<or> \<not> preflight_ready pre)" by auto
    with rest True obtain r where r: "run_state (inspect_doctor ?ins p facts) u = (r, w')"
      and ob: "ob = \<lparr>co_schema_version = 1, co_mode = mode, co_profile_sha256 = sha256 t,
         co_kernel_release = k, co_qualification_complete = False,
         co_diagnostic = finalize (with_inspection p r (base_report (collection_command mode) facts))\<rparr>"
      by (simp only: if_True if_False Let_def) (auto split: prod.splits)
    obtain ys where "log w' = log u @ ys" "list_all (ran (production.allowed TYPE('e) ?pd Infer)) ys"
      by (rule only_doesE [OF production.doctor_runs r])
    with xs r ob True pre show ?thesis
      unfolding observed_candidate_def Let_def
      by (intro exI [of _ pre] exI [of _ u] exI [of _ xs] exI [of _ ys])
        (simp add: preflight_ready_iff collection_command_def)
  next
    case False
    then have no: "(mode = Probe \<and> ready_to_probe pre) = False" by (simp add: preflight_ready_iff)
    from False have "mode = Preflight \<or> \<not> preflight_ready pre" by (cases mode) auto
    with rest False have ob: "ob = \<lparr>co_schema_version = 1, co_mode = mode,
         co_profile_sha256 = sha256 t,
         co_kernel_release = k, co_qualification_complete = False,
         co_diagnostic = finalize (with_inspection p (add_checks [not_probed mode] pre)
           (base_report (collection_command mode) facts))\<rparr>" and w': "w' = u"
      by (simp_all only: if_True if_False) (simp_all add: Let_def)
    have member: "not_probed mode \<in> set (dr_checks (co_diagnostic ob))"
      by (simp add: ob with_inspection_def add_checks_def)
    moreover have "exit_code (co_diagnostic ob) = 1"
      by (rule not_probed_exit [OF member]) (simp add: ob)
    ultimately show ?thesis
      unfolding observed_candidate_def Let_def using xs pre w' no
      by (intro exI [of _ pre] exI [of _ u] exI [of _ xs] exI [of _ "[]::event list"] conjI)
        (simp_all only: no if_False, simp_all add: ob)
  qed
  with p show ?thesis by blast
qed

lemma collect_system_run:
  assumes "run_state (collect_system ts arch profile sha mode ack) w = (Inr ob, w')"
  shows "(mode = Probe \<longleftrightarrow> ack) \<and> collected ts arch profile sha mode w ob w'"
proof -
  have ack: "mode = Probe \<longleftrightarrow> ack"
    using assms by (cases mode; cases ack) (auto simp: collect_system_def)
  with assms obtain t x where t: "profile_read ts profile (env w) t x" "tl_sha256 ts t = sha"
    and more: "run_state (attempt (with_err (\<lambda>e. pe_code e @ '': '' @ pe_message e) (observe (\<lambda>e. case tl_facts ts e of
              (fs, e') \<Rightarrow> (detect_platform fs ''/'' arch, e')))) (\<lambda>facts.
          attempt (with_err io_text (tool_read ts ''/proc/sys/kernel/osrelease'' (Some 4097)))
            (\<lambda>kernel_release.
          if length kernel_release > 4096
          then pure (Inl ''kernel release exceeds byte limit'')
          else collect (tl_toml ts) (tl_sha256 ts) t facts (trim_end kernel_release) mode
                 (production_inspector (host_production ts))))) (w\<lparr>env := x\<rparr>) = (Inr ob, w')"
    by (cases mode) (auto simp: collect_system_def attempt_Inr read_profile_run split: if_splits)
  from more obtain fs y facts k v where f: "tl_facts ts x = (fs, y)" "detect_platform fs ''/'' arch = Inr facts"
      "text_read ts ''/proc/sys/kernel/osrelease'' (Some 4097) y k v" "length k \<le> 4096"
    and c: "run_state (collect (tl_toml ts) (tl_sha256 ts) t facts (trim_end k) mode
        (production_inspector (host_production ts))) (w\<lparr>env := v\<rparr>) = (Inr ob, w')"
    by (auto simp: attempt_Inr with_err_Inr observe_run tool_read_run not_less split: prod.splits if_splits)
  from collect_run [OF c] obtain p where p: "collection_profile (tl_toml ts) t facts (trim_end k) = Inr p"
    and o': "observed_candidate ts mode p facts (tl_sha256 ts t) (trim_end k) (w\<lparr>env := v\<rparr>) ob w'" by blast
  have "candidate_admitted ts arch profile sha (env w) p facts k v"
    unfolding candidate_admitted_def using t f p [unfolded collection_profile_Inr] by blast
  with o' t(2) have "collected ts arch profile sha mode w ob w'"
    unfolding collected_def by blast
  with ack show ?thesis by blast
qed

lemma silent_tool_read [simp]: "only_does E (tool_read ts p n)"
  by (auto simp: tool_read_def Let_def)

lemma silent_read_profile [simp]: "only_does E (read_profile ts p)"
  by (auto simp: read_profile_def)

lemma only_runs_collect_candidate:
  fixes pd :: "'e production"
  shows "only_runs (\<lambda>rq. rpm_query (production_rpm pd) rq
       \<or> mode = Probe \<and> production.allowed TYPE('e) pd Infer rq)
     (collect toml sha256 profile_text facts kernel_release mode (production_inspector pd))"
proof -
  let ?R = "\<lambda>rq. rpm_query (production_rpm pd) rq \<or> mode = Probe \<and> production.allowed TYPE('e) pd Infer rq"
  have doctor: "only_runs ?R (if mode = Probe \<and> ready
      then inspect_doctor (production_inspector pd) p facts else State_Monad.return r)" for p ready r
  proof (cases "mode = Probe \<and> ready")
    case True
    have "only_runs ?R (inspect_doctor (production_inspector pd) p facts)"
      by (rule only_runs_weaken [OF production.doctor_runs]) (use True in blast)
    with True show ?thesis by (simp only: if_True simp_thms)
  qed (simp only: if_False only_runs_return)
  have pre: "only_runs ?R (inspect_preflight (production_inspector pd) p facts)" for p
    by (rule only_runs_weaken [OF production.only_runs_preflight]) blast
  show ?thesis
    unfolding collect_def Let_def
    by (intro only_runs_attempt only_runs_pure only_runs_bind pre doctor)
qed

section \<open>The verdict on a directory\<close>

lemma candidate_files_io: "candidate_files dir es = Inl f \<Longrightarrow> f \<noteq> Invalid_Profiles"
  by (induction dir es rule: candidate_files.induct)
    (auto simp: and_then_Inl split: if_splits sum.splits option.splits)

definition no_verdict :: "('e, (validation_failure, 'a) result) effect \<Rightarrow> bool" where
  "no_verdict m = (\<forall>w w'. run_state m w \<noteq> (Inl Invalid_Profiles, w'))"

lemma no_verdict_intros:
  "no_verdict (pure (Inr a))"
  "no_verdict m \<Longrightarrow> (\<And>a. no_verdict (f a)) \<Longrightarrow> no_verdict (attempt m f)"
  "(\<And>e. g e \<noteq> Invalid_Profiles) \<Longrightarrow> no_verdict (with_err g n)"
  by (auto simp: no_verdict_def attempt_Inl with_err_Inl) metis

lemma write_line_io: "no_verdict (write_line out l)"
  unfolding write_line_def by (rule no_verdict_intros) simp

lemma validate_each_io: "no_verdict (validate_each ts out ids bad cs)"
proof (induction cs arbitrary: ids bad)
  case (Cons c cs)
  then show ?case
    by (auto intro!: no_verdict_intros write_line_io split: prod.split option.split)
qed (simp add: no_verdict_intros)

lemma validated_steps:
  assumes "run_state (validate_profiles_dir ts out dir) w = (r, w')" "r = Inr () \<or> r = Inl Invalid_Profiles"
  obtains vs ls v and ids :: "(string, string) bmap" where "directory_judged ts out dir (env w) vs ls (env v)"
    "bm_wf ids" "fst ` set ids = p_id ` {p. Some p \<in> set vs}" "log v = log w @ shown_lines ls"
    "run_state (if count_list vs None = 0
        then write_line out (''validated '' @ show_nat (length ids) @ '' profiles'')
        else attempt (write_line out (''validation failed: '' @ show_nat (count_list vs None) @ '' invalid ''
           @ (if count_list vs None = 1 then ''profile'' else ''profiles''))) (\<lambda>_. pure (Inl Invalid_Profiles))) v
      = (r, w')"
proof -
  obtain listing e cs where l: "tl_read_dir ts dir (env w) = (Inr listing, e)"
      "candidate_files dir listing = Inr cs"
    and vc: "run_state (validate_candidates ts out (sort_key cf_filename cs)) (w\<lparr>env := e\<rparr>) = (r, w')"
    using assms unfolding validate_profiles_dir_def
    by (auto simp: attempt_Inr attempt_Inl with_err_Inr with_err_Inl observe_run dest: candidate_files_io)
  from vc assms(2) obtain ids bad v where
    each: "run_state (validate_each ts out [] 0 (sort_key cf_filename cs)) (w\<lparr>env := e\<rparr>) = (Inr (ids, bad), v)"
    and rest: "run_state (if bad = 0
        then write_line out (''validated '' @ show_nat (length ids) @ '' profiles'')
        else attempt (write_line out (''validation failed: '' @ show_nat bad @ '' invalid ''
           @ (if bad = 1 then ''profile'' else ''profiles''))) (\<lambda>_. pure (Inl Invalid_Profiles))) v
      = (r, w')"
    unfolding validate_candidates_def
    using validate_each_io [of ts out "[]" 0 "sort_key cf_filename cs"]
    by (auto simp: no_verdict_def attempt_Inr attempt_Inl)
  from validate_each_judged [OF each] obtain vs ls where
    vs: "judging ts out {} e (sort_key cf_filename cs) vs ls (env v)" "bm_wf ids"
      "bad = count_list vs None" "fst ` set ids = p_id ` {p. Some p \<in> set vs}"
      "log v = log w @ shown_lines ls"
    unfolding each_judged_def by auto
  from l vs(1) have d: "directory_judged ts out dir (env w) vs ls (env v)"
    by (auto simp: directory_judged_def candidate_files_Inr)
  show thesis by (rule that [OF d vs(2,4,5) rest [unfolded vs(3)]])
qed

lemma validate_dir_Inr:
  assumes "run_state (validate_profiles_dir ts out dir) w = (Inr (), w')"
  shows "\<exists>ps ls. (\<exists>e. directory_judged ts out dir (env w) (map Some ps) ls e)
       \<and> distinct (map p_id ps)
       \<and> log w' = log w @ shown_lines (ls @ [''validated '' @ show_nat (length ps) @ '' profiles''])"
proof -
  obtain vs ls v and ids :: "(string, string) bmap" where
    d: "directory_judged ts out dir (env w) vs ls (env v)" "bm_wf ids"
      "fst ` set ids = p_id ` {p. Some p \<in> set vs}" "log v = log w @ shown_lines ls"
    and rest: "run_state (if count_list vs None = 0
        then write_line out (''validated '' @ show_nat (length ids) @ '' profiles'')
        else attempt (write_line out (''validation failed: '' @ show_nat (count_list vs None) @ '' invalid ''
           @ (if count_list vs None = 1 then ''profile'' else ''profiles''))) (\<lambda>_. pure (Inl Invalid_Profiles))) v
      = (Inr (), w')"
    by (rule validated_steps [OF assms disjI1 [OF refl]])
  have zero: "count_list vs None = 0"
    by (rule ccontr) (use rest in \<open>simp only: if_False attempt_Inr run_state_pure, simp\<close>)
  then have "None \<notin> set vs" by (simp add: count_list_0_iff)
  then obtain ps where ps: "vs = map Some ps" using all_Some by blast
  from d(1) obtain e cs where j: "judging ts out {} e cs vs ls (env v)"
    unfolding directory_judged_def by blast
  have dist: "distinct (map p_id ps)" using judging_distinct [OF j ps] by (rule conjunct1)
  have "{p. Some p \<in> set vs} = set ps" by (auto simp: ps)
  then have "fst ` set ids = p_id ` set ps" using d(3) by simp
  then have "length ids = length ps" by (rule accepted_count [OF d(2) _ dist])
  then have out: "run_state (write_line out (''validated '' @ show_nat (length ps) @ '' profiles'')) v = (Inr (), w')"
    using rest unfolding zero by simp
  have "log w' = log v @ [Displayed ((''validated '' @ show_nat (length ps) @ '' profiles'') @ [nl])]"
    by (rule write_line_Inr [OF out])
  with d(4) have "log w' = log w @ shown_lines (ls @ [''validated '' @ show_nat (length ps) @ '' profiles''])"
    by (simp only: shown_lines_def map_append list.map append_assoc)
  then show ?thesis
    by (intro exI [of _ ps] exI [of _ ls] conjI exI [of _ "env v"] d(1) [unfolded ps] dist)
qed

lemma validate_dir_Invalid:
  assumes "run_state (validate_profiles_dir ts out dir) w = (Inl Invalid_Profiles, w')"
  shows "\<exists>vs ls n. (\<exists>e. directory_judged ts out dir (env w) vs ls e) \<and> n = count_list vs None \<and> n \<noteq> 0
       \<and> log w' = log w @ shown_lines (ls @ [''validation failed: '' @ show_nat n @ '' invalid ''
           @ (if n = 1 then ''profile'' else ''profiles'')])"
proof -
  obtain vs ls v and ids :: "(string, string) bmap" where
    d: "directory_judged ts out dir (env w) vs ls (env v)" "bm_wf ids"
      "fst ` set ids = p_id ` {p. Some p \<in> set vs}" "log v = log w @ shown_lines ls"
    and rest: "run_state (if count_list vs None = 0
        then write_line out (''validated '' @ show_nat (length ids) @ '' profiles'')
        else attempt (write_line out (''validation failed: '' @ show_nat (count_list vs None) @ '' invalid ''
           @ (if count_list vs None = 1 then ''profile'' else ''profiles''))) (\<lambda>_. pure (Inl Invalid_Profiles))) v
      = (Inl Invalid_Profiles, w')"
    by (rule validated_steps [OF assms disjI2 [OF refl]])
  have n: "count_list vs None \<noteq> 0"
    using rest write_line_io by (auto simp: no_verdict_def split: if_splits)
  let ?m = "''validation failed: '' @ show_nat (count_list vs None) @ '' invalid ''
     @ (if count_list vs None = 1 then ''profile'' else ''profiles'')"
  from rest n write_line_io [of out ?m] have "\<exists>u. run_state (write_line out ?m) v = (Inr u, w')"
    by (auto simp: attempt_Inl no_verdict_def)
  then have "log w' = log v @ [Displayed (?m @ [nl])]" by (auto simp: write_line_run)
  with d n show ?thesis
    by (intro exI [of _ vs] exI [of _ ls] exI [of _ "count_list vs None"]) (auto simp: shown_lines_def)
qed

end
