(* ===== verification/Candidate_Properties.thy ===== *)
theory Candidate_Properties
  imports Samples Candidates
begin

text \<open>
  The properties of the developer tools for profiles: the validation of a directory, the candidate
  for another kernel, and the collection of one observation.
\<close>

text \<open>C35. The validation of a directory returns only after the listing of that directory was
read, and, in order of name, every entry that is a regular file or a symbolic link with a name ending
in \<open>.toml\<close> was judged and had one line written for it: a link is refused unread, and of a file the text
read at its path must be a valid profile whose identifier no accepted one has. It succeeds only if every
entry was accepted, so that the identifiers are distinct, and then it wrote the number of profiles; it
fails with \<open>InvalidProfiles\<close> only if some entry was refused, and then it wrote how many were.\<close>

theorem profile_directory_outcome:
  "case run_state (validate_profiles_dir ts out dir) w of
     (Inr _, w') \<Rightarrow> \<exists>ps ls. (\<exists>e. directory_judged ts out dir (env w) (map Some ps) ls e)
       \<and> distinct (map p_id ps)
       \<and> log w' = log w @ shown_lines (ls @ [''validated '' @ show_nat (length ps) @ '' profiles''])
   | (Inl f, w') \<Rightarrow> (case f of
       Invalid_Profiles \<Rightarrow> \<exists>vs ls n. (\<exists>e. directory_judged ts out dir (env w) vs ls e)
         \<and> n = count_list vs None \<and> n \<noteq> 0
         \<and> log w' = log w @ shown_lines (ls @ [''validation failed: '' @ show_nat n @ '' invalid ''
             @ (if n = 1 then ''profile'' else ''profiles'')])
     | _ \<Rightarrow> True)"
proof -
  obtain r w' where run: "run_state (validate_profiles_dir ts out dir) w = (r, w')" by fastforce
  show ?thesis
  proof (cases r)
    case (Inl f)
    show ?thesis
    proof (cases "f = Invalid_Profiles")
      case True
      with run Inl have "run_state (validate_profiles_dir ts out dir) w = (Inl Invalid_Profiles, w')"
        by simp
      from validate_dir_Invalid [OF this] show ?thesis
        unfolding run Inl True by simp
    next
      case False
      then show ?thesis by (cases f) (simp_all add: run Inl)
    qed
  next
    case (Inr u)
    with run have "run_state (validate_profiles_dir ts out dir) w = (Inr (), w')" by simp
    from validate_dir_Inr [OF this] show ?thesis unfolding run Inr prod.case sum.case .
  qed
qed

text \<open>C23. A profile document is retargeted to another kernel exactly when it is an unqualified
candidate, the new identifier is distinct and safe as a file name, the kernel release parses and its
patch can be increased without overflow, and each of the three selector lines occurs exactly once. The
result differs from the document in these three lines alone, its kernel range is the one patch, it
parses, and the parsed profile is the original one in everything but the three selectors.\<close>

theorem retarget_exact:
  "retarget toml input i kernel_release = Inr out \<longleftrightarrow>
     (\<exists>p q k k'. parse_toml toml input = Inr p \<and> unqualified_candidate p
        \<and> i \<noteq> p_id p \<and> candidate_id_ok i
        \<and> parse_release kernel_release = Inr k
        \<and> unat (patch k) + 1 < 2 ^ 64
        \<and> k' = KernelVersion (major k) (minor k) (of_nat (unat (patch k) + 1))
        \<and> list_all (\<lambda>r. count_line (fst r) input = 1) (selector_lines p i k k')
        \<and> split_on nl out = substituted (selector_lines p i k k') (split_on nl input)
        \<and> parse_toml toml out = Inr q \<and> with_selectors p q = p)"
  (is "?l \<longleftrightarrow> ?r")
proof
  assume ?l
  then obtain p k k' q where
    "parse_toml toml input = Inr p" "unqualified_candidate p" "i \<noteq> p_id p" and i: "candidate_id_ok i"
    and "parse_release kernel_release = Inr k" "next_patch k = Some k'"
    and lines: "replace_lines (selector_lines p i k k') input = Inr out"
    and "parse_toml toml out = Inr q" "with_selectors p q = p"
    by (auto simp: retarget_def split: if_splits)
  moreover note lines [unfolded replace_selector_lines [OF i]] next_patch_Some [of k k']
  ultimately show ?r by blast
next
  assume ?r
  then obtain p q k k' where h: "parse_toml toml input = Inr p" "unqualified_candidate p"
    "i \<noteq> p_id p" "candidate_id_ok i" "parse_release kernel_release = Inr k"
    "next_patch k = Some k'"
    "list_all (\<lambda>r. count_line (fst r) input = 1) (selector_lines p i k k')
      \<and> split_on nl out = substituted (selector_lines p i k k') (split_on nl input)"
    "parse_toml toml out = Inr q" "with_selectors p q = p"
    unfolding next_patch_Some by blast
  from h(7) have "replace_lines (selector_lines p i k k') input = Inr out"
    unfolding replace_selector_lines [OF h(4)] .
  with h show ?l by (simp add: retarget_def and_then_def map_err_def ok_or_def)
qed

text \<open>C22. A collection in preflight mode starts no process but read-only \<open>rpm\<close> queries, and one in probe
mode without the acknowledgement starts none. A collection that returns an observation had the
acknowledgement exactly if it is in probe mode. The profile was then the document read at the given path,
with the given digest, and an unqualified candidate; the facts were those detected next, of a user that
is not root and of a platform the profile matches; and the kernel release read after them was theirs. The
preflight inspection of this profile and these facts was run; the helpers ran only in probe mode and
after a preflight without a failed required check and without a pending reboot or relogin, and the report
is that of their run; otherwise nothing ran after the preflight, the report says that the probes were
not executed, and its exit code is 1. The observation never claims a qualification.\<close>

theorem collection_contained:
  fixes ts :: "'e tools"
  shows "only_runs (rpm_query (production_rpm (host_production ts)))
        (collect_system ts arch profile sha Preflight ack)
    \<and> only_runs (\<lambda>_. False) (collect_system ts arch profile sha Probe False)
    \<and> (case run_state (collect_system ts arch profile sha mode ack) w of
         (Inl _, _) \<Rightarrow> True
       | (Inr ob, w') \<Rightarrow> (mode = Probe \<longleftrightarrow> ack) \<and> collected ts arch profile sha mode w ob w')"
proof (intro conjI)
  let ?pd = "host_production ts"
  have "only_runs (\<lambda>rq. rpm_query (production_rpm ?pd) rq
        \<or> Preflight = Probe \<and> production.allowed TYPE('e) ?pd Infer rq)
      (collect toml sha256 t facts k Preflight (production_inspector ?pd))" for toml sha256 t facts k
    by (rule only_runs_collect_candidate)
  then have c: "only_runs (rpm_query (production_rpm ?pd))
      (collect toml sha256 t facts k Preflight (production_inspector ?pd))" for toml sha256 t facts k
    by simp
  have if_runs: "only_runs R a \<Longrightarrow> only_runs R b \<Longrightarrow> only_runs R (if P then a else b)"
    for R P and a b :: "('e, (string, candidate_observation) result) effect" by simp
  show "only_runs (rpm_query (production_rpm ?pd)) (collect_system ts arch profile sha Preflight ack)"
    unfolding collect_system_def
    by (intro if_runs only_runs_pure only_runs_attempt only_runs_with_err only_runs_observe
        silent_read_profile silent_tool_read c)
  show "only_runs (\<lambda>_. False) (collect_system ts arch profile sha Probe False)"
    by (simp add: collect_system_def)
  show "case run_state (collect_system ts arch profile sha mode ack) w of
      (Inl _, _) \<Rightarrow> True
    | (Inr ob, w') \<Rightarrow> (mode = Probe \<longleftrightarrow> ack) \<and> collected ts arch profile sha mode w ob w'"
    by (simp add: collect_system_run split: prod.splits sum.splits)
qed

end
