(* ===== verification/Source_Lock.thy ===== *)
theory Source_Lock
  imports Host
begin

text \<open>
  \<open>xtask/src/source_lock.rs\<close>: the lock of the sources a provider is built from, and the licence
  evidence in the repository it is bound to. The file system is a record \<open>repo_files\<close>; decoding the
  document is \<open>toml\<close>. Paths are compared by their components.
\<close>

section \<open>The document\<close>

datatype source_lock_status = Lock_Draft | Lock_Sealed
datatype source_kind = Git_Tag | Git_Annotated_Tag | Git_Commit
datatype source_redistribution = Source_Allowed | External_Only
datatype gitlink_disposition = Bundled | System | Disabled

record source_target =
  tg_distribution_id :: string
  tg_version_id :: string
  tg_architecture :: string
  tg_pci_vendor :: string
  tg_pci_device :: string

record system_package =
  sy_name :: string
  sy_nevr :: string

record source_gitlink =
  gl_path :: string
  gl_commit :: string
  gl_disposition :: gitlink_disposition
  gl_source :: "string option"
  gl_packages :: "system_package list"
  gl_build_option :: "string option"

record source_record =
  so_name :: string
  so_role :: string
  so_kind :: source_kind
  so_url :: string
  so_tag :: "string option"
  so_tag_object :: "string option"
  so_commit :: string
  so_archive_sha256 :: string
  so_license_expression :: string
  so_license_files :: "string list"
  so_license_evidence_sha256 :: string
  so_redistribution :: source_redistribution
  so_gitlinks :: "source_gitlink list"

record source_lock =
  sl_schema_version :: u32
  sl_status :: source_lock_status
  sl_profile_id :: string
  sl_target :: source_target
  sl_sources :: "source_record list"

record lock_error =
  le_code :: string
  le_message :: string

definition lock_err :: "string \<Rightarrow> string \<Rightarrow> lock_error" where
  "lock_err code message = \<lparr>le_code = code, le_message = message\<rparr>"

definition lock_exit_code :: "lock_error \<Rightarrow> u8" where
  "lock_exit_code e = (if le_code e = ''SOURCE_LOCK_IO'' then 2 else 1)"

definition lock_io :: "string \<Rightarrow> io_error \<Rightarrow> lock_error" where
  "lock_io ctx e = lock_err ''SOURCE_LOCK_IO'' (ctx @ '': '' @ io_text e)"

definition MAX_SOURCE_LOCK_BYTES :: nat where "MAX_SOURCE_LOCK_BYTES = 1048576"
definition MAX_SCALAR_BYTES :: nat where "MAX_SCALAR_BYTES = 4096"
definition MAX_SOURCES :: nat where "MAX_SOURCES = 256"
definition MAX_LICENSE_FILES :: nat where "MAX_LICENSE_FILES = 64"
definition MAX_GITLINKS :: nat where "MAX_GITLINKS = 256"

section \<open>Paths\<close>

instantiation path_component :: linorder
begin

definition component_key :: "path_component \<Rightarrow> nat \<times> string" where
  "component_key c = (case c of Root_Dir \<Rightarrow> (0, []) | Cur_Dir \<Rightarrow> (1, []) | Parent_Dir \<Rightarrow> (2, [])
     | Normal s \<Rightarrow> (3, s))"

definition less_path_component :: "path_component \<Rightarrow> path_component \<Rightarrow> bool" where
  "c < d = (fst (component_key c) < fst (component_key d)
     \<or> fst (component_key c) = fst (component_key d) \<and> snd (component_key c) < snd (component_key d))"

definition less_eq_path_component :: "path_component \<Rightarrow> path_component \<Rightarrow> bool" where
  "(c :: path_component) \<le> d = (c < d \<or> c = d)"

instance
proof
  have key: "component_key c = component_key d \<longleftrightarrow> c = d" for c d
    by (cases c; cases d) (simp_all add: component_key_def)
  fix c d e :: path_component
  show "c < d \<longleftrightarrow> c \<le> d \<and> \<not> d \<le> c"
    by (auto simp: less_path_component_def less_eq_path_component_def)
  show "c \<le> c" by (simp add: less_eq_path_component_def)
  show "c \<le> d \<Longrightarrow> d \<le> e \<Longrightarrow> c \<le> e"
    by (auto simp: less_path_component_def less_eq_path_component_def)
  show "c \<le> d \<Longrightarrow> d \<le> c \<Longrightarrow> c = d"
    by (auto simp: less_path_component_def less_eq_path_component_def)
  show "c \<le> d \<or> d \<le> c"
    using key [of c d] by (auto simp: less_path_component_def less_eq_path_component_def prod_eq_iff)
qed

end

definition path_starts_with :: "string \<Rightarrow> string \<Rightarrow> bool" where
  "path_starts_with p base = starts_with (path_components base) (path_components p)"

definition is_normal :: "path_component \<Rightarrow> bool" where
  "is_normal c = (case c of Normal _ \<Rightarrow> True | _ \<Rightarrow> False)"

definition relative_normal :: "string \<Rightarrow> bool" where
  "relative_normal p = (\<not> is_absolute p \<and> list_all is_normal (path_components p))"

text \<open>Whether the path comes after the one before it, if there is one.\<close>

definition path_after :: "string option \<Rightarrow> string \<Rightarrow> bool" where
  "path_after previous p = (case previous of None \<Rightarrow> True
     | Some q \<Rightarrow> path_components q < path_components p)"

definition name_after :: "string option \<Rightarrow> string \<Rightarrow> bool" where
  "name_after previous n = (case previous of None \<Rightarrow> True | Some q \<Rightarrow> q < n)"

section \<open>Scalars\<close>

definition scalar_ok :: "string \<Rightarrow> bool" where
  "scalar_ok v = (v \<noteq> [] \<and> length v \<le> MAX_SCALAR_BYTES \<and> \<not> any_control v)"

definition require_scalar :: "string \<Rightarrow> (lock_error, unit) result" where
  "require_scalar v = ensure (scalar_ok v) (lock_err ''SOURCE_LOCK_FIELD_INVALID''
     ''source-lock scalar is empty, oversized, or contains control characters'')"

definition is_source_identifier :: "string \<Rightarrow> bool" where
  "is_source_identifier v =
     (v \<noteq> [] \<and> list_all (\<lambda>c. is_lower c \<or> is_digit c \<or> c \<in> set ''-_'') v)"

definition is_system_package_name :: "string \<Rightarrow> bool" where
  "is_system_package_name v = (v \<noteq> [] \<and> length v \<le> MAX_SCALAR_BYTES
     \<and> list_all (\<lambda>c. is_lower c \<or> is_digit c \<or> c \<in> set ''-_.+'') v)"

definition is_nevr :: "string \<Rightarrow> bool" where
  "is_nevr v = (v \<noteq> [] \<and> length v \<le> MAX_SCALAR_BYTES \<and> CHR '':'' \<in> set v \<and> CHR ''-'' \<in> set v
     \<and> list_all (\<lambda>c. is_alnum c \<or> c \<in> set '':-_.+~^'') v)"

definition is_build_option :: "string \<Rightarrow> bool" where
  "is_build_option v = (case split_once CHR ''='' v of
       None \<Rightarrow> False
     | Some (n, setting) \<Rightarrow> (case n of [] \<Rightarrow> False | c # cs \<Rightarrow> is_alpha c \<or> c = CHR ''_'')
         \<and> length n \<le> MAX_SCALAR_BYTES
         \<and> list_all (\<lambda>c. is_alnum c \<or> c = CHR ''_'') (tl n) \<and> setting = ''OFF'')"

definition is_https_url :: "string \<Rightarrow> bool" where
  "is_https_url v = (starts_with ''https://'' v \<and> length v > length ''https://'' \<and> \<not> any_control v)"

definition lower_hex :: "nat \<Rightarrow> string \<Rightarrow> bool" where
  "lower_hex n v = (length v = n \<and> list_all is_lower_hex v)"

definition nonzero_sha256 :: "string \<Rightarrow> bool" where
  "nonzero_sha256 v = (lower_hex 64 v \<and> list_ex (\<lambda>c. c \<noteq> CHR ''0'') v)"

section \<open>Git identities and gitlinks\<close>

definition tag_invalid :: "string \<Rightarrow> lock_error" where
  "tag_invalid = lock_err ''SOURCE_LOCK_TAG_INVALID''"

definition tag_object_invalid :: "string \<Rightarrow> lock_error" where
  "tag_object_invalid = lock_err ''SOURCE_LOCK_TAG_OBJECT_INVALID''"

definition require_tag :: "string option \<Rightarrow> (lock_error, unit) result" where
  "require_tag tag = (case tag of
       None \<Rightarrow> Inl (tag_invalid ''a tagged source requires a tag name'')
     | Some t \<Rightarrow> and_then (require_scalar t) (\<lambda>_.
         ensure (\<not> (starts_with ''-'' t \<or> any_control t))
           (tag_invalid ''tag name is not safe for fixed-argument Git invocation'')))"

definition validate_git_identity :: "source_record \<Rightarrow> (lock_error, unit) result" where
  "validate_git_identity s = (case so_kind s of
       Git_Tag \<Rightarrow> and_then (require_tag (so_tag s)) (\<lambda>_.
         ensure (so_tag_object s = None)
           (tag_object_invalid ''a lightweight tag must not have a tag object''))
     | Git_Annotated_Tag \<Rightarrow> and_then (require_tag (so_tag s)) (\<lambda>_.
         ensure (case so_tag_object s of None \<Rightarrow> False | Some v \<Rightarrow> lower_hex 40 v)
           (tag_object_invalid ''an annotated tag requires its exact 40-digit tag object''))
     | Git_Commit \<Rightarrow> ensure (\<not> (so_tag s \<noteq> None \<or> so_tag_object s \<noteq> None))
           (tag_object_invalid ''a direct commit source must not declare tag fields''))"

fun system_packages_from :: "string option \<Rightarrow> system_package list \<Rightarrow> bool" where
  "system_packages_from previous [] = True"
| "system_packages_from previous (p # ps) =
     (if \<not> is_system_package_name (sy_name p) \<or> \<not> is_nevr (sy_nevr p)
         \<or> \<not> name_after previous (sy_name p) then False
      else system_packages_from (Some (sy_name p)) ps)"

definition valid_system_packages :: "system_package list \<Rightarrow> bool" where
  "valid_system_packages ps = (if ps = [] \<or> length ps > 16 then False else system_packages_from None ps)"

definition gitlink_invalid :: "string \<Rightarrow> lock_error" where
  "gitlink_invalid = lock_err ''SOURCE_LOCK_GITLINK_INVALID''"

definition disposition_ok :: "source_gitlink \<Rightarrow> bool" where
  "disposition_ok g = (case gl_disposition g of
       Bundled \<Rightarrow> (case gl_source g of None \<Rightarrow> False | Some s \<Rightarrow> is_source_identifier s)
         \<and> gl_packages g = [] \<and> gl_build_option g = None
     | System \<Rightarrow> gl_source g = None \<and> valid_system_packages (gl_packages g) \<and> gl_build_option g = None
     | Disabled \<Rightarrow> gl_source g = None \<and> gl_packages g = []
         \<and> (case gl_build_option g of None \<Rightarrow> False | Some o' \<Rightarrow> is_build_option o'))"

definition validate_gitlink_disposition :: "source_gitlink \<Rightarrow> (lock_error, unit) result" where
  "validate_gitlink_disposition g = ensure (disposition_ok g)
     (gitlink_invalid ''gitlink disposition fields are incomplete or ambiguous'')"

fun validate_gitlinks_from :: "string option \<Rightarrow> source_gitlink list \<Rightarrow> (lock_error, unit) result" where
  "validate_gitlinks_from previous [] = Inr ()"
| "validate_gitlinks_from previous (g # gs) =
     and_then (ensure (relative_normal (gl_path g) \<and> path_after previous (gl_path g))
       (gitlink_invalid ''gitlink paths must be sorted, unique, relative normal paths'')) (\<lambda>_.
     and_then (ensure (lower_hex 40 (gl_commit g)) (gitlink_invalid ''gitlink commit is invalid'')) (\<lambda>_.
     and_then (validate_gitlink_disposition g) (\<lambda>_.
       validate_gitlinks_from (Some (gl_path g)) gs)))"

definition lock_resource_limit :: "string \<Rightarrow> lock_error" where
  "lock_resource_limit = lock_err ''SOURCE_LOCK_RESOURCE_LIMIT''"

definition validate_gitlinks :: "source_gitlink list \<Rightarrow> (lock_error, unit) result" where
  "validate_gitlinks gs =
     (if length gs > MAX_GITLINKS
      then Inl (lock_resource_limit ''source record has more than 256 gitlinks'')
      else validate_gitlinks_from None gs)"

section \<open>Licence evidence\<close>

record 'e repo_files =
  rf_lstat :: "string \<Rightarrow> 'e \<Rightarrow> (io_error, file_meta) result \<times> 'e"
  rf_canonicalize :: "string \<Rightarrow> 'e \<Rightarrow> (io_error, string) result \<times> 'e"
  rf_is_file :: "string \<Rightarrow> 'e \<Rightarrow> bool \<times> 'e"
  rf_read :: "string \<Rightarrow> 'e \<Rightarrow> (io_error, bytes) result \<times> 'e"

definition license_path_invalid :: "string \<Rightarrow> lock_error" where
  "license_path_invalid = lock_err ''SOURCE_LOCK_LICENSE_PATH_INVALID''"

definition reject_symlink :: "'e repo_files \<Rightarrow> string \<Rightarrow> string
    \<Rightarrow> ('e, (lock_error, unit) result) effect" where
  "reject_symlink fs path label =
     attempt (with_err (lock_io ''inspect path'') (observe (rf_lstat fs path))) (\<lambda>m.
       pure (ensure (fm_kind m \<noteq> Symlink) (license_path_invalid (label @ '' must not be a symlink''))))"

text \<open>One evidence file: its bytes.\<close>

definition read_evidence :: "'e repo_files \<Rightarrow> string \<Rightarrow> string
    \<Rightarrow> ('e, (lock_error, bytes) result) effect" where
  "read_evidence fs root relative =
     attempt (reject_symlink fs (path_join root relative) ''license evidence'') (\<lambda>_.
     attempt (with_err (\<lambda>e. license_path_invalid (''cannot resolve license evidence: '' @ io_text e))
         (observe (rf_canonicalize fs (path_join root relative)))) (\<lambda>canonical.
     attempt (if \<not> path_starts_with canonical root then pure (Inr False)
              else do { f \<leftarrow> observe (rf_is_file fs canonical); pure (Inr f) }) (\<lambda>regular.
     attempt (pure (ensure regular (license_path_invalid
         ''license evidence must be a regular file inside the repository''))) (\<lambda>_.
       with_err (lock_io ''read license evidence'') (observe (rf_read fs canonical))))))"

text \<open>The loop: the path before, the paths seen, and the bytes given to the hash so far.\<close>

fun evidence_loop :: "'e repo_files \<Rightarrow> string \<Rightarrow> string option \<Rightarrow> path_component list set \<Rightarrow> bytes
    \<Rightarrow> string list \<Rightarrow> ('e, (lock_error, bytes) result) effect" where
  "evidence_loop fs root previous seen acc [] = pure (Inr acc)"
| "evidence_loop fs root previous seen acc (relative # rest) =
     attempt (pure (ensure (relative_normal relative \<and> path_after previous relative
         \<and> path_components relative \<notin> seen)
       (license_path_invalid ''license evidence paths must be sorted, unique, relative normal paths'')))
       (\<lambda>_.
     attempt (read_evidence fs root relative) (\<lambda>b.
       evidence_loop fs root (Some relative) (insert (path_components relative) seen) (acc @ b) rest))"

definition hash_license_evidence :: "'e repo_files \<Rightarrow> (bytes \<Rightarrow> string) \<Rightarrow> string list \<Rightarrow> string
    \<Rightarrow> ('e, (lock_error, string) result) effect" where
  "hash_license_evidence fs sha256 paths root =
     attempt (evidence_loop fs root None {} [] paths) (\<lambda>b. pure (Inr (sha256 b)))"

section \<open>The lock\<close>

definition source_scalars :: "source_record \<Rightarrow> string list" where
  "source_scalars s = [so_name s, so_role s, so_url s, so_commit s, so_archive_sha256 s,
     so_license_expression s, so_license_evidence_sha256 s]"

text \<open>What is checked before the evidence is read.\<close>

definition validate_source_fields :: "source_record \<Rightarrow> (lock_error, unit) result" where
  "validate_source_fields s =
     and_then (check_each require_scalar (source_scalars s)) (\<lambda>_.
     and_then (ensure (is_source_identifier (so_name s) \<and> is_source_identifier (so_role s))
       (lock_err ''SOURCE_LOCK_NAME_INVALID''
         ''source names and roles must use lowercase ASCII identifiers'')) (\<lambda>_.
     and_then (ensure (is_https_url (so_url s)) (lock_err ''SOURCE_LOCK_URL_INVALID''
         ''source URL must use HTTPS without control characters'')) (\<lambda>_.
     and_then (ensure (lower_hex 40 (so_commit s)) (lock_err ''SOURCE_LOCK_COMMIT_INVALID''
         ''Git commit must be exactly 40 lowercase hexadecimal digits'')) (\<lambda>_.
     and_then (validate_git_identity s) (\<lambda>_.
     and_then (ensure (nonzero_sha256 (so_archive_sha256 s))
       (lock_err ''SOURCE_LOCK_ARCHIVE_HASH_INVALID''
         ''archive SHA-256 must be nonzero lowercase hexadecimal'')) (\<lambda>_.
     and_then (ensure (so_license_files s \<noteq> [] \<and> length (so_license_files s) \<le> MAX_LICENSE_FILES)
       (license_path_invalid ''each source requires between 1 and 64 license evidence files'')) (\<lambda>_.
     ensure (nonzero_sha256 (so_license_evidence_sha256 s))
       (lock_err ''SOURCE_LOCK_LICENSE_EVIDENCE_INVALID''
         ''license evidence SHA-256 must be nonzero lowercase hexadecimal''))))))))"

definition validate_source :: "'e repo_files \<Rightarrow> (bytes \<Rightarrow> string) \<Rightarrow> string \<Rightarrow> source_record
    \<Rightarrow> ('e, (lock_error, unit) result) effect" where
  "validate_source fs sha256 root s =
     attempt (pure (validate_source_fields s)) (\<lambda>_.
     attempt (hash_license_evidence fs sha256 (so_license_files s) root) (\<lambda>actual.
     attempt (pure (ensure (actual = so_license_evidence_sha256 s)
       (lock_err ''SOURCE_LOCK_LICENSE_EVIDENCE_INVALID''
         (''license evidence digest mismatch for '' @ so_name s)))) (\<lambda>_.
       pure (validate_gitlinks (so_gitlinks s)))))"

fun validate_sources_from :: "'e repo_files \<Rightarrow> (bytes \<Rightarrow> string) \<Rightarrow> string \<Rightarrow> string option
    \<Rightarrow> source_record list \<Rightarrow> ('e, (lock_error, unit) result) effect" where
  "validate_sources_from fs sha256 root previous [] = pure (Inr ())"
| "validate_sources_from fs sha256 root previous (s # ss) =
     attempt (validate_source fs sha256 root s) (\<lambda>_.
     attempt (pure (ensure (name_after previous (so_name s))
       (lock_err ''SOURCE_LOCK_NAME_INVALID'' ''source names must be sorted and unique''))) (\<lambda>_.
       validate_sources_from fs sha256 root (Some (so_name s)) ss))"

definition lock_scalars :: "source_lock \<Rightarrow> string list" where
  "lock_scalars l = [sl_profile_id l, tg_distribution_id (sl_target l), tg_version_id (sl_target l),
     tg_architecture (sl_target l), tg_pci_vendor (sl_target l), tg_pci_device (sl_target l)]"

definition validate_lock_fields :: "source_lock \<Rightarrow> (lock_error, unit) result" where
  "validate_lock_fields l =
     and_then (ensure (sl_schema_version l = 1) (lock_err ''SOURCE_LOCK_SCHEMA_UNSUPPORTED''
       (''unsupported source-lock schema '' @ show_nat (unat (sl_schema_version l))))) (\<lambda>_.
     and_then (check_each require_scalar (lock_scalars l)) (\<lambda>_.
     and_then (ensure (lower_hex 4 (tg_pci_vendor (sl_target l))
         \<and> lower_hex 4 (tg_pci_device (sl_target l)))
       (lock_err ''SOURCE_LOCK_TARGET_INVALID''
         ''PCI vendor and device must be four lowercase hexadecimal digits'')) (\<lambda>_.
     and_then (ensure (length (sl_sources l) \<le> MAX_SOURCES)
       (lock_resource_limit ''source lock has more than 256 records'')) (\<lambda>_.
     ensure (\<not> (sl_status l = Lock_Sealed \<and> sl_sources l = []))
       (lock_err ''SOURCE_LOCK_EMPTY'' ''a sealed source lock must contain at least one record'')))))"

definition validate_lock :: "'e repo_files \<Rightarrow> (bytes \<Rightarrow> string) \<Rightarrow> source_lock \<Rightarrow> string
    \<Rightarrow> ('e, (lock_error, unit) result) effect" where
  "validate_lock fs sha256 l root =
     attempt (pure (validate_lock_fields l)) (\<lambda>_.
       validate_sources_from fs sha256 root None (sl_sources l))"

definition toml_invalid :: "string \<Rightarrow> lock_error" where
  "toml_invalid = lock_err ''SOURCE_LOCK_TOML_INVALID''"

definition parse_lock :: "(string \<Rightarrow> (string, source_lock) result) \<Rightarrow> bytes
    \<Rightarrow> (lock_error, source_lock) result" where
  "parse_lock toml b =
     and_then (ensure (length b \<le> MAX_SOURCE_LOCK_BYTES)
       (lock_resource_limit ''source lock exceeds 1048576 bytes'')) (\<lambda>_.
     and_then (ensure (utf8_valid b) (toml_invalid ''source lock is not UTF-8'')) (\<lambda>_.
       map_err (\<lambda>e. toml_invalid (''invalid source-lock TOML: '' @ e)) (toml b)))"

definition validate_source_lock :: "'e repo_files \<Rightarrow> (bytes \<Rightarrow> string)
    \<Rightarrow> (string \<Rightarrow> (string, source_lock) result) \<Rightarrow> string \<Rightarrow> string
    \<Rightarrow> ('e, (lock_error, source_lock) result) effect" where
  "validate_source_lock fs sha256 toml path repository_root =
     attempt (reject_symlink fs path ''source lock'') (\<lambda>_.
     attempt (with_err (lock_io ''canonicalize repository root'')
       (observe (rf_canonicalize fs repository_root))) (\<lambda>root.
     attempt (with_err (lock_io ''canonicalize source lock'')
       (observe (rf_canonicalize fs path))) (\<lambda>canonical.
     attempt (pure (ensure (path_starts_with canonical root) (lock_err ''SOURCE_LOCK_PATH_INVALID''
       ''source lock must be inside the repository root''))) (\<lambda>_.
     attempt (with_err (lock_io ''read source lock'') (observe (rf_read fs canonical))) (\<lambda>b.
     attempt (pure (parse_lock toml b)) (\<lambda>l.
     attempt (validate_lock fs sha256 l root) (\<lambda>_.
       pure (Inr l))))))))"

section \<open>What is accepted\<close>

definition tag_ok :: "string option \<Rightarrow> bool" where
  "tag_ok tag = (case tag of None \<Rightarrow> False | Some t \<Rightarrow> scalar_ok t \<and> \<not> starts_with ''-'' t)"

definition git_identity_ok :: "source_record \<Rightarrow> bool" where
  "git_identity_ok s = (case so_kind s of
       Git_Tag \<Rightarrow> tag_ok (so_tag s) \<and> so_tag_object s = None
     | Git_Annotated_Tag \<Rightarrow> tag_ok (so_tag s)
         \<and> (case so_tag_object s of None \<Rightarrow> False | Some v \<Rightarrow> lower_hex 40 v)
     | Git_Commit \<Rightarrow> so_tag s = None \<and> so_tag_object s = None)"

definition gitlinks_ok :: "source_gitlink list \<Rightarrow> bool" where
  "gitlinks_ok gs = (length gs \<le> MAX_GITLINKS
     \<and> list_all (\<lambda>g. relative_normal (gl_path g) \<and> lower_hex 40 (gl_commit g) \<and> disposition_ok g) gs
     \<and> sorted_wrt (<) (map (\<lambda>g. path_components (gl_path g)) gs))"

definition source_fields_ok :: "source_record \<Rightarrow> bool" where
  "source_fields_ok s = (list_all scalar_ok (source_scalars s)
     \<and> is_source_identifier (so_name s) \<and> is_source_identifier (so_role s)
     \<and> is_https_url (so_url s) \<and> lower_hex 40 (so_commit s) \<and> git_identity_ok s
     \<and> nonzero_sha256 (so_archive_sha256 s)
     \<and> so_license_files s \<noteq> [] \<and> length (so_license_files s) \<le> MAX_LICENSE_FILES
     \<and> nonzero_sha256 (so_license_evidence_sha256 s))"

text \<open>The evidence file at a path, in the environment \<open>e\<close>.\<close>

definition evidence_at :: "'e repo_files \<Rightarrow> 'e \<Rightarrow> string \<Rightarrow> string \<Rightarrow> bytes \<Rightarrow> bool" where
  "evidence_at fs e root relative b \<longleftrightarrow> relative_normal relative
     \<and> (\<exists>m canonical. fst (rf_lstat fs (path_join root relative) e) = Inr m \<and> fm_kind m \<noteq> Symlink
        \<and> fst (rf_canonicalize fs (path_join root relative) e) = Inr canonical
        \<and> path_starts_with canonical root \<and> fst (rf_is_file fs canonical e)
        \<and> fst (rf_read fs canonical e) = Inr b)"

definition evidence_ok :: "'e repo_files \<Rightarrow> 'e \<Rightarrow> string \<Rightarrow> string list \<Rightarrow> bytes list \<Rightarrow> bool" where
  "evidence_ok fs e root paths bs \<longleftrightarrow> sorted_wrt (<) (map path_components paths)
     \<and> list_all2 (evidence_at fs e root) paths bs"

definition source_ok :: "'e repo_files \<Rightarrow> (bytes \<Rightarrow> string) \<Rightarrow> 'e \<Rightarrow> string \<Rightarrow> source_record \<Rightarrow> bool" where
  "source_ok fs sha256 e root s \<longleftrightarrow> source_fields_ok s
     \<and> (\<exists>bs. evidence_ok fs e root (so_license_files s) bs
        \<and> sha256 (concat bs) = so_license_evidence_sha256 s)
     \<and> gitlinks_ok (so_gitlinks s)"

definition lock_ok :: "'e repo_files \<Rightarrow> (bytes \<Rightarrow> string) \<Rightarrow> 'e \<Rightarrow> string \<Rightarrow> source_lock \<Rightarrow> bool" where
  "lock_ok fs sha256 e root l \<longleftrightarrow> sl_schema_version l = 1 \<and> list_all scalar_ok (lock_scalars l)
     \<and> lower_hex 4 (tg_pci_vendor (sl_target l)) \<and> lower_hex 4 (tg_pci_device (sl_target l))
     \<and> length (sl_sources l) \<le> MAX_SOURCES \<and> \<not> (sl_status l = Lock_Sealed \<and> sl_sources l = [])
     \<and> list_all (source_ok fs sha256 e root) (sl_sources l)
     \<and> sorted_wrt (<) (map so_name (sl_sources l))"

section \<open>Laws\<close>

lemma require_scalar_Inr [simp]: "require_scalar v = Inr () \<longleftrightarrow> scalar_ok v"
  by (simp add: require_scalar_def)

lemma require_tag_Inr [simp]: "require_tag t = Inr () \<longleftrightarrow> tag_ok t"
  by (auto simp: require_tag_def tag_ok_def scalar_ok_def split: option.split)

lemma validate_git_identity_Inr: "validate_git_identity s = Inr () \<longleftrightarrow> git_identity_ok s"
  by (simp add: validate_git_identity_def git_identity_ok_def split: source_kind.split)

text \<open>A loop that compares each key with the one before it checks that they are sorted.\<close>

lemma sorted_wrt_head:
  "sorted_wrt (<) (x # xs) \<longleftrightarrow> (case xs of [] \<Rightarrow> True | y # _ \<Rightarrow> x < y) \<and> sorted_wrt (<) xs"
  for x :: "'a::linorder"
  by (cases xs) auto

lemma validate_gitlinks_from_Inr:
  "validate_gitlinks_from previous gs = Inr () \<longleftrightarrow>
     list_all (\<lambda>g. relative_normal (gl_path g) \<and> lower_hex 40 (gl_commit g) \<and> disposition_ok g) gs
     \<and> sorted_wrt (<) (map (\<lambda>g. path_components (gl_path g)) gs)
     \<and> (case gs of [] \<Rightarrow> True | g # _ \<Rightarrow> path_after previous (gl_path g))"
proof (induction gs arbitrary: previous)
  case (Cons g gs)
  have "sorted_wrt (<) (map (\<lambda>g. path_components (gl_path g)) (g # gs)) \<longleftrightarrow>
      (case gs of [] \<Rightarrow> True | h # _ \<Rightarrow> path_after (Some (gl_path g)) (gl_path h))
      \<and> sorted_wrt (<) (map (\<lambda>g. path_components (gl_path g)) gs)"
    unfolding list.map(2) sorted_wrt_head by (simp add: path_after_def split: list.split)
  then show ?case
    by (auto simp: Cons.IH validate_gitlink_disposition_def simp del: sorted_wrt.simps list.map)
qed simp

lemma validate_gitlinks_Inr: "validate_gitlinks gs = Inr () \<longleftrightarrow> gitlinks_ok gs"
  by (auto simp: validate_gitlinks_def gitlinks_ok_def validate_gitlinks_from_Inr path_after_def
      split: list.split)

lemma system_packages_from_iff:
  "system_packages_from previous ps \<longleftrightarrow>
     list_all (\<lambda>p. is_system_package_name (sy_name p) \<and> is_nevr (sy_nevr p)) ps
     \<and> sorted_wrt (<) (map sy_name ps)
     \<and> (case ps of [] \<Rightarrow> True | p # _ \<Rightarrow> name_after previous (sy_name p))"
proof (induction ps arbitrary: previous)
  case (Cons p ps)
  have "sorted_wrt (<) (map sy_name (p # ps)) \<longleftrightarrow>
      (case ps of [] \<Rightarrow> True | q # _ \<Rightarrow> name_after (Some (sy_name p)) (sy_name q))
      \<and> sorted_wrt (<) (map sy_name ps)"
    unfolding list.map(2) sorted_wrt_head by (simp add: name_after_def split: list.split)
  then show ?case
    by (auto simp: Cons.IH simp del: sorted_wrt.simps list.map)
qed simp

lemma validate_source_fields_Inr: "validate_source_fields s = Inr () \<longleftrightarrow> source_fields_ok s"
  by (simp add: validate_source_fields_def source_fields_ok_def validate_git_identity_Inr
      check_each_Inr list_all_iff)

lemma validate_lock_fields_Inr: "validate_lock_fields l = Inr () \<longleftrightarrow>
   sl_schema_version l = 1 \<and> list_all scalar_ok (lock_scalars l)
   \<and> lower_hex 4 (tg_pci_vendor (sl_target l)) \<and> lower_hex 4 (tg_pci_device (sl_target l))
   \<and> length (sl_sources l) \<le> MAX_SOURCES \<and> \<not> (sl_status l = Lock_Sealed \<and> sl_sources l = [])"
  by (simp add: validate_lock_fields_def check_each_Inr list_all_iff)

section \<open>Validation at rest\<close>

definition files_still :: "'e repo_files \<Rightarrow> 'e \<Rightarrow> bool" where
  "files_still fs e \<longleftrightarrow> (\<forall>p. snd (rf_lstat fs p e) = e) \<and> (\<forall>p. snd (rf_canonicalize fs p e) = e)
     \<and> (\<forall>p. snd (rf_is_file fs p e) = e) \<and> (\<forall>p. snd (rf_read fs p e) = e)"

lemma files_stillD [simp]:
  assumes "files_still fs e"
  shows "snd (rf_lstat fs p e) = e" "snd (rf_canonicalize fs p e) = e"
    "snd (rf_is_file fs p e) = e" "snd (rf_read fs p e) = e"
  using assms by (simp_all add: files_still_def)

lemma settles_reject_symlink: "files_still fs e \<Longrightarrow> settles e (reject_symlink fs p label)"
  unfolding reject_symlink_def by (intro settles_attempt settles_with_err settles_observe settles_pure) simp

lemma settles_read_evidence: "files_still fs e \<Longrightarrow> settles e (read_evidence fs root p)"
  unfolding read_evidence_def
  by (intro settles_attempt settles_with_err settles_observe settles_pure settles_reject_symlink
      settles_if settles_bind) simp_all

lemma settles_evidence_loop: "files_still fs e \<Longrightarrow> settles e (evidence_loop fs root q seen acc ps)"
  by (induction ps arbitrary: q seen acc) (auto intro: settles_read_evidence)

lemma settles_hash: "files_still fs e \<Longrightarrow> settles e (hash_license_evidence fs sha256 ps root)"
  unfolding hash_license_evidence_def by (intro settles_attempt settles_pure settles_evidence_loop)

lemma settles_validate_source: "files_still fs e \<Longrightarrow> settles e (validate_source fs sha256 root s)"
  unfolding validate_source_def by (intro settles_attempt settles_pure settles_hash)

lemma settles_validate_sources:
  "files_still fs e \<Longrightarrow> settles e (validate_sources_from fs sha256 root q ss)"
  by (induction ss arbitrary: q) (auto intro: settles_validate_source)

lemma settles_validate_lock: "files_still fs e \<Longrightarrow> settles e (validate_lock fs sha256 l root)"
  unfolding validate_lock_def by (intro settles_attempt settles_pure settles_validate_sources)

lemma settles_validate_source_lock:
  "files_still fs e \<Longrightarrow> settles e (validate_source_lock fs sha256 toml path root)"
  unfolding validate_source_lock_def
  by (intro settles_attempt settles_with_err settles_observe settles_pure settles_reject_symlink
      settles_validate_lock) simp_all

lemma value_reject_symlink:
  "files_still fs e \<Longrightarrow> value_at e (reject_symlink fs p label) = Inr () \<longleftrightarrow>
     (\<exists>m. fst (rf_lstat fs p e) = Inr m \<and> fm_kind m \<noteq> Symlink)"
  unfolding reject_symlink_def
  by (subst value_attempt) (auto intro!: settles_with_err settles_observe)

lemma value_read_evidence:
  assumes "files_still fs e"
  shows "relative_normal p \<and> value_at e (read_evidence fs root p) = Inr b \<longleftrightarrow> evidence_at fs e root p b"
proof -
  have regular: "value_at e (if \<not> path_starts_with c root then pure (Inr False)
      else do { f \<leftarrow> observe (rf_is_file fs c); pure (Inr f) })
      = (Inr (path_starts_with c root \<and> fst (rf_is_file fs c e)) :: (lock_error, bool) result)" for c
    by (simp add: value_bind_pure)
  have "value_at e (read_evidence fs root p) = Inr b \<longleftrightarrow>
      (\<exists>m c. fst (rf_lstat fs (path_join root p) e) = Inr m \<and> fm_kind m \<noteq> Symlink
        \<and> fst (rf_canonicalize fs (path_join root p) e) = Inr c
        \<and> path_starts_with c root \<and> fst (rf_is_file fs c e) \<and> fst (rf_read fs c e) = Inr b)"
    unfolding read_evidence_def using assms
    by (simp only: value_attempt settles_attempt settles_with_err settles_observe settles_pure
          settles_reject_symlink settles_if settles_bind files_stillD value_with_err value_observe
          value_pure regular)
      (auto simp: value_reject_symlink)
  then show ?thesis by (auto simp: evidence_at_def)
qed

lemma value_evidence_loop:
  assumes "files_still fs e"
    and "\<forall>x \<in> seen. \<exists>q. previous = Some q \<and> x \<le> path_components q"
  shows "value_at e (evidence_loop fs root previous seen acc ps) = Inr b \<longleftrightarrow>
     (\<exists>bs. evidence_ok fs e root ps bs \<and> b = acc @ concat bs)
     \<and> (case ps of [] \<Rightarrow> True | p # _ \<Rightarrow> path_after previous p)"
  using assms(2)
proof (induction ps arbitrary: previous seen acc)
  case Nil
  show ?case by (auto simp: evidence_ok_def)
next
  case (Cons p ps)
  note still = assms(1)
  let ?seen = "insert (path_components p) seen"
  have loop: "value_at e (evidence_loop fs root previous seen acc (p # ps)) = Inr b \<longleftrightarrow>
      path_after previous p \<and> path_components p \<notin> seen \<and>
      (\<exists>a. evidence_at fs e root p a
        \<and> value_at e (evidence_loop fs root (Some p) ?seen (acc @ a) ps) = Inr b)"
    unfolding evidence_loop.simps using still
    by (simp only: value_attempt settles_attempt settles_pure settles_read_evidence
          settles_evidence_loop value_pure)
      (auto simp: value_read_evidence [OF still, symmetric])
  show ?case
  proof (cases "path_after previous p")
    case False
    with loop show ?thesis by simp
  next
    case True
    with Cons.prems have fresh: "path_components p \<notin> seen"
      and seen: "\<forall>x \<in> ?seen. \<exists>q. Some p = Some q \<and> x \<le> path_components q"
      by (fastforce simp: path_after_def split: option.splits)+
    have "sorted_wrt (<) (map path_components (p # ps)) \<longleftrightarrow>
        (case ps of [] \<Rightarrow> True | q # _ \<Rightarrow> path_after (Some p) q)
        \<and> sorted_wrt (<) (map path_components ps)"
      unfolding list.map(2) sorted_wrt_head by (simp add: path_after_def split: list.split)
    then have "(\<exists>bs. evidence_ok fs e root (p # ps) bs \<and> b = acc @ concat bs) \<longleftrightarrow>
        (\<exists>a bs. evidence_at fs e root p a \<and> evidence_ok fs e root ps bs
          \<and> (case ps of [] \<Rightarrow> True | q # _ \<Rightarrow> path_after (Some p) q) \<and> b = (acc @ a) @ concat bs)"
      unfolding evidence_ok_def by (simp only: list_all2_Cons1) (fastforce simp del: list.map(2))
    with loop Cons.IH [OF seen] True fresh show ?thesis by auto
  qed
qed

lemma value_hash:
  assumes "files_still fs e"
  shows "value_at e (hash_license_evidence fs sha256 ps root) = Inr d \<longleftrightarrow>
     (\<exists>bs. evidence_ok fs e root ps bs \<and> d = sha256 (concat bs))"
  unfolding hash_license_evidence_def using assms
  by (simp only: value_attempt settles_pure settles_evidence_loop value_pure)
    (auto simp: value_evidence_loop path_after_def split: list.split)

lemma value_validate_source:
  assumes "files_still fs e"
  shows "value_at e (validate_source fs sha256 root s) = Inr () \<longleftrightarrow> source_ok fs sha256 e root s"
  unfolding validate_source_def using assms
  by (simp only: value_attempt settles_pure settles_attempt settles_hash value_pure)
    (auto simp: value_hash source_ok_def validate_source_fields_Inr validate_gitlinks_Inr)

lemma value_validate_sources:
  assumes "files_still fs e"
  shows "value_at e (validate_sources_from fs sha256 root previous ss) = Inr () \<longleftrightarrow>
     list_all (source_ok fs sha256 e root) ss \<and> sorted_wrt (<) (map so_name ss)
     \<and> (case ss of [] \<Rightarrow> True | s # _ \<Rightarrow> name_after previous (so_name s))"
proof (induction ss arbitrary: previous)
  case (Cons s ss)
  have "value_at e (validate_sources_from fs sha256 root previous (s # ss)) = Inr () \<longleftrightarrow>
      source_ok fs sha256 e root s \<and> name_after previous (so_name s)
      \<and> value_at e (validate_sources_from fs sha256 root (Some (so_name s)) ss) = Inr ()"
    unfolding validate_sources_from.simps using assms
    by (simp only: value_attempt settles_attempt settles_pure settles_validate_source
          settles_validate_sources value_pure)
      (auto simp: value_validate_source)
  moreover have "sorted_wrt (<) (map so_name (s # ss)) \<longleftrightarrow>
      (case ss of [] \<Rightarrow> True | t # _ \<Rightarrow> name_after (Some (so_name s)) (so_name t))
      \<and> sorted_wrt (<) (map so_name ss)"
    unfolding list.map(2) sorted_wrt_head by (simp add: name_after_def split: list.split)
  ultimately show ?case by (auto simp: Cons.IH simp del: sorted_wrt.simps list.map)
qed simp

lemma value_validate_lock:
  assumes "files_still fs e"
  shows "value_at e (validate_lock fs sha256 l root) = Inr () \<longleftrightarrow> lock_ok fs sha256 e root l"
  unfolding validate_lock_def using assms
  by (simp only: value_attempt settles_pure settles_validate_sources value_pure)
    (auto simp: value_validate_sources lock_ok_def validate_lock_fields_Inr name_after_def
      split: list.split)

lemma value_validate_source_lock:
  assumes "files_still fs e"
  shows "value_at e (validate_source_lock fs sha256 toml path repository_root) = Inr l \<longleftrightarrow>
     (\<exists>m root canonical b. fst (rf_lstat fs path e) = Inr m \<and> fm_kind m \<noteq> Symlink
        \<and> fst (rf_canonicalize fs repository_root e) = Inr root
        \<and> fst (rf_canonicalize fs path e) = Inr canonical \<and> path_starts_with canonical root
        \<and> fst (rf_read fs canonical e) = Inr b
        \<and> length b \<le> MAX_SOURCE_LOCK_BYTES \<and> utf8_valid b \<and> toml b = Inr l
        \<and> lock_ok fs sha256 e root l)"
  unfolding validate_source_lock_def using assms
  by (simp only: value_attempt settles_attempt settles_pure settles_with_err settles_observe
        settles_reject_symlink settles_validate_lock files_stillD value_pure value_with_err value_observe)
    (auto simp: value_reject_symlink value_validate_lock parse_lock_def)

text \<open>The validation only reads.\<close>

lemma silent_reject [simp]: "only_does E (reject_symlink fs p l)"
  by (auto simp: reject_symlink_def)

lemma silent_evidence [simp]: "only_does E (evidence_loop fs root q seen acc ps)"
  by (induction ps arbitrary: q seen acc) (auto simp: read_evidence_def)

lemma silent_sources [simp]: "only_does E (validate_sources_from fs sha256 root q ss)"
  by (induction ss arbitrary: q) (auto simp: validate_source_def hash_license_evidence_def)

lemma silent_lock [simp]: "only_does E (validate_source_lock fs sha256 toml path root)"
  by (auto simp: validate_source_lock_def validate_lock_def)

end
