(* ===== verification/Source_Bundle.thy ===== *)
theory Source_Bundle
  imports Source_Lock Cli
begin

text \<open>
  \<open>xtask/src/source_bundle.rs\<close>: deterministic archives of the locked sources, from cached repositories.
  The system is a record \<open>bundler\<close>: the process runner \<open>git\<close> is run through, the file system, and
  \<open>tar\<close>, the third-party crate: \<open>tar_entries\<close> cuts an archive into headers and contents, \<open>tar_block\<close>
  is what is appended for one of them. A file that is opened is a handle; a file is written by
  creating it and appending to it.
\<close>

section \<open>The system\<close>

record tar_entry =
  te_header :: bytes
  te_data :: "(io_error, bytes) result"

record tar_codec =
  tar_entries :: "bytes \<Rightarrow> (io_error, (io_error, tar_entry) result list) result"
  tar_is_file :: "bytes \<Rightarrow> bool"
  tar_size :: "bytes \<Rightarrow> (io_error, nat) result"
  tar_resize :: "nat \<Rightarrow> bytes \<Rightarrow> bytes"
  tar_block :: "bytes \<Rightarrow> bytes \<Rightarrow> bytes"
  tar_end :: bytes

datatype create_failure = Already_Exists | Create_Failed io_error

record 'e bundler =
  bn_runner :: "'e runner"
  bn_files :: "'e repo_files"
  bn_sha256 :: "bytes \<Rightarrow> string"
  bn_toml :: "string \<Rightarrow> (string, source_lock) result"
  bn_tar :: tar_codec
  bn_read_dir :: "string \<Rightarrow> 'e \<Rightarrow> (io_error, (io_error, dir_entry) result list) result \<times> 'e"
  bn_create_dir :: "string \<Rightarrow> 'e \<Rightarrow> (io_error, unit) result \<times> 'e"
  bn_rename :: "string \<Rightarrow> string \<Rightarrow> 'e \<Rightarrow> (io_error, unit) result \<times> 'e"
  bn_remove_file :: "string \<Rightarrow> 'e \<Rightarrow> (io_error, unit) result \<times> 'e"
  bn_remove_dir_all :: "string \<Rightarrow> 'e \<Rightarrow> (io_error, unit) result \<times> 'e"
  bn_create :: "string \<Rightarrow> 'e \<Rightarrow> (io_error, unit) result \<times> 'e"
  bn_create_new :: "string \<Rightarrow> 'e \<Rightarrow> (create_failure, unit) result \<times> 'e"
  bn_append :: "string \<Rightarrow> bytes \<Rightarrow> 'e \<Rightarrow> (io_error, unit) result \<times> 'e"
  bn_sync :: "string \<Rightarrow> 'e \<Rightarrow> (io_error, unit) result \<times> 'e"
  bn_open_nofollow :: "string \<Rightarrow> 'e \<Rightarrow> (io_error, nat) result \<times> 'e"
  bn_fstat :: "nat \<Rightarrow> 'e \<Rightarrow> (io_error, file_meta) result \<times> 'e"
  bn_read_handle :: "nat \<Rightarrow> 'e \<Rightarrow> (io_error, bytes) result \<times> 'e"
  bn_rewind :: "nat \<Rightarrow> 'e \<Rightarrow> (io_error, unit) result \<times> 'e"

record bundle_error =
  bu_code :: string
  bu_message :: string

record bundle_artifact =
  ba_filename :: string
  ba_sha256 :: string

definition bundle_err :: "string \<Rightarrow> string \<Rightarrow> bundle_error" where
  "bundle_err code message = \<lparr>bu_code = code, bu_message = message\<rparr>"

definition bundle_exit_code :: "bundle_error \<Rightarrow> u8" where
  "bundle_exit_code e = (if bu_code e = ''SOURCE_BUNDLE_IO'' then 2 else 1)"

definition bundle_io :: "string \<Rightarrow> io_error \<Rightarrow> bundle_error" where
  "bundle_io ctx e = bundle_err ''SOURCE_BUNDLE_IO'' (ctx @ '': '' @ io_text e)"

text \<open>An access to the system whose error has a context.\<close>

definition io_step :: "string \<Rightarrow> ('e \<Rightarrow> (io_error, 'a) result \<times> 'e) \<Rightarrow> ('e, (bundle_error, 'a) result) effect"
where
  "io_step ctx f = with_err (bundle_io ctx) (observe f)"

text \<open>One of which the result does not matter.\<close>

definition ignored :: "('e \<Rightarrow> (io_error, 'a) result \<times> 'e) \<Rightarrow> ('e, unit) effect" where
  "ignored f = do { _ \<leftarrow> observe f; State_Monad.return () }"

definition output_invalid :: "string \<Rightarrow> bundle_error" where
  "output_invalid = bundle_err ''SOURCE_BUNDLE_OUTPUT_INVALID''"
definition git_output_invalid :: "string \<Rightarrow> bundle_error" where
  "git_output_invalid = bundle_err ''SOURCE_BUNDLE_GIT_OUTPUT_INVALID''"
definition config_invalid :: "string \<Rightarrow> bundle_error" where
  "config_invalid = bundle_err ''SOURCE_BUNDLE_CACHE_CONFIG_INVALID''"
definition path_invalid :: "string \<Rightarrow> bundle_error" where
  "path_invalid = bundle_err ''SOURCE_BUNDLE_PATH_INVALID''"

definition MAX_GIT_OUTPUT_BYTES :: nat where "MAX_GIT_OUTPUT_BYTES = 33554432"
definition MAX_LFS_POINTER_BYTES :: nat where "MAX_LFS_POINTER_BYTES = 1024"
definition MAX_LFS_OBJECT_BYTES :: nat where "MAX_LFS_OBJECT_BYTES = 1073741824"

section \<open>Git\<close>

definition process_error_text :: "process_error \<Rightarrow> string" where
  "process_error_text e = (case e of
       Invalid_Executable \<Rightarrow> ''process executable must be an absolute path''
     | Spawn \<Rightarrow> ''process could not be spawned''
     | Timeout \<Rightarrow> ''process exceeded its deadline''
     | Pipe_Io \<Rightarrow> ''process pipe I/O failed''
     | Join \<Rightarrow> ''process reader thread could not be joined''
     | Invalid_Termination \<Rightarrow> ''process termination status is unsupported'')"

definition git_request :: "string \<Rightarrow> string list \<Rightarrow> duration \<Rightarrow> process_request" where
  "git_request repository args timeout = \<lparr>rq_executable = ''/usr/bin/git'',
     rq_args = [''-c'', ''core.hooksPath=/dev/null'', ''-c'', ''core.attributesFile=/dev/null'',
       ''-c'', ''advice.detachedHead=false'', ''-C'', repository] @ args,
     rq_timeout = timeout, rq_stdout_limit = MAX_GIT_OUTPUT_BYTES,
     rq_stderr_limit = MAX_GIT_OUTPUT_BYTES,
     rq_environment = [(''GIT_CONFIG_NOSYSTEM'', ''1''), (''GIT_CONFIG_GLOBAL'', ''/dev/null''),
       (''GIT_LFS_SKIP_SMUDGE'', ''1''), (''GIT_NO_REPLACE_OBJECTS'', ''1'')]\<rparr>"

definition git_result :: "process_output \<Rightarrow> (bundle_error, process_output) result" where
  "git_result po = (if po_termination po \<noteq> Exit 0
     then Inl (bundle_err ''SOURCE_BUNDLE_GIT_FAILED''
       ''git rejected a source identity or archive operation'') else Inr po)"

definition run_git_with_timeout :: "'e bundler \<Rightarrow> string \<Rightarrow> string list \<Rightarrow> duration
    \<Rightarrow> ('e, (bundle_error, process_output) result) effect" where
  "run_git_with_timeout bn repository args timeout =
     attempt (with_err (\<lambda>e. bundle_err ''SOURCE_BUNDLE_GIT_FAILED''
         (''bounded git execution failed: '' @ process_error_text e))
       (run_process (bn_runner bn) (git_request repository args timeout))) (\<lambda>po.
     pure (git_result po))"

definition git_output :: "process_output \<Rightarrow> (bundle_error, bytes) result" where
  "git_output po = (if po_stdout_overflow po \<or> po_stderr_overflow po
     then Inl (git_output_invalid (''git output exceeded '' @ show_nat MAX_GIT_OUTPUT_BYTES @ '' bytes''))
     else Inr (po_stdout po))"

definition git_bytes :: "'e bundler \<Rightarrow> string \<Rightarrow> string list \<Rightarrow> ('e, (bundle_error, bytes) result) effect"
where
  "git_bytes bn repository args =
     attempt (run_git_with_timeout bn repository args (from_secs 30)) (\<lambda>po. pure (git_output po))"

definition trim_newlines :: "string \<Rightarrow> string" where
  "trim_newlines s = rev (dropWhile (\<lambda>c. c = nl \<or> c = cr) (rev s))"

definition git_text_of :: "bytes \<Rightarrow> (bundle_error, string) result" where
  "git_text_of b = (if utf8_valid b then Inr (trim_newlines b)
     else Inl (git_output_invalid ''git output is not UTF-8''))"

definition git_text :: "'e bundler \<Rightarrow> string \<Rightarrow> string list \<Rightarrow> ('e, (bundle_error, string) result) effect"
where
  "git_text bn repository args =
     attempt (git_bytes bn repository args) (\<lambda>b. pure (git_text_of b))"

section \<open>Directories\<close>

definition require_real_directory :: "'e bundler \<Rightarrow> string \<Rightarrow> string
    \<Rightarrow> ('e, (bundle_error, string) result) effect" where
  "require_real_directory bn path label =
     attempt (io_step ''inspect directory'' (rf_lstat (bn_files bn) path)) (\<lambda>m.
       if fm_kind m \<noteq> Directory then pure (Inl (path_invalid (label @ '' must be a real directory'')))
       else io_step ''canonicalize directory'' (rf_canonicalize (bn_files bn) path))"

definition require_empty_output :: "'e bundler \<Rightarrow> string \<Rightarrow> ('e, (bundle_error, string) result) effect"
where
  "require_empty_output bn path =
     attempt (io_step ''inspect output'' (rf_lstat (bn_files bn) path)) (\<lambda>m.
     if fm_kind m \<noteq> Directory then pure (Inl (output_invalid ''output must be a real directory''))
     else attempt (io_step ''read output'' (bn_read_dir bn path)) (\<lambda>entries.
       case entries of
         Inl e # _ \<Rightarrow> pure (Inl (bundle_io ''read output'' e))
       | Inr _ # _ \<Rightarrow> pure (Inl (output_invalid ''output directory must be empty''))
       | [] \<Rightarrow> io_step ''canonicalize output'' (rf_canonicalize (bn_files bn) path)))"

definition safe_git_dir :: "'e bundler \<Rightarrow> string \<Rightarrow> ('e, (bundle_error, string) result) effect" where
  "safe_git_dir bn repository =
     attempt (git_text bn repository [''rev-parse'', ''--absolute-git-dir'']) (\<lambda>dir.
     attempt (require_real_directory bn dir ''Git object directory'') (\<lambda>git_dir.
     attempt (io_step ''canonicalize cached source'' (rf_canonicalize (bn_files bn) repository))
       (\<lambda>repository.
       pure (if \<not> same_path git_dir repository \<and> \<not> path_starts_with git_dir repository
             then Inl (path_invalid ''Git object directory must be inside the cached source'')
             else Inr git_dir))))"

section \<open>The cached repository\<close>

definition affects_archive :: "string \<Rightarrow> bool" where
  "affects_archive name = (let n = ascii_lowercase name in
     starts_with ''filter.'' n \<or> starts_with ''tar.'' n \<or> starts_with ''include.'' n
     \<or> starts_with ''includeif.'' n \<or> n = ''core.alternaterefscommand'')"

definition check_config_name :: "bytes \<Rightarrow> (bundle_error, unit) result" where
  "check_config_name raw =
     (if \<not> utf8_valid raw
      then Inl (config_invalid ''cached repository configuration key is not UTF-8'')
      else if affects_archive raw
      then Inl (config_invalid ''cached repository defines an archive-affecting command'')
      else Inr ())"

definition NUL :: char where "NUL = CHR 0x00"

definition metadata_absent :: "(io_error, file_meta) result \<Rightarrow> (bundle_error, unit) result" where
  "metadata_absent r = (case r of
       Inl (Not_Found _) \<Rightarrow> Inr ()
     | Inl e \<Rightarrow> Inl (bundle_io ''inspect cached Git metadata'' e)
     | Inr m \<Rightarrow> if fm_kind m = Regular_File \<and> fm_len m = 0 then Inr ()
         else Inl (config_invalid ''cached repository contains mutable archive or object metadata''))"

definition check_metadata :: "'e bundler \<Rightarrow> string \<Rightarrow> ('e, (bundle_error, unit) result) effect" where
  "check_metadata bn path =
     do { r \<leftarrow> observe (rf_lstat (bn_files bn) path); pure (metadata_absent r) }"

definition verify_safe_cache_metadata :: "'e bundler \<Rightarrow> string
    \<Rightarrow> ('e, (bundle_error, unit) result) effect" where
  "verify_safe_cache_metadata bn repository =
     attempt (safe_git_dir bn repository) (\<lambda>git_dir.
       each_attempt (check_metadata bn) (map (path_join git_dir)
         [''info/attributes'', ''objects/info/alternates'', ''objects/info/http-alternates'']))"

definition config_names :: "bytes \<Rightarrow> bytes list" where
  "config_names b = filter (\<lambda>n. n \<noteq> []) (split_on NUL b)"

definition config_args :: "string list" where
  "config_args = [''config'', ''--local'', ''--no-includes'', ''--null'', ''--name-only'',
     ''--get-regexp'', ''.*'']"

definition verify_safe_local_config :: "'e bundler \<Rightarrow> string \<Rightarrow> ('e, (bundle_error, unit) result) effect"
where
  "verify_safe_local_config bn repository =
     attempt (git_bytes bn repository config_args) (\<lambda>b.
     attempt (pure (check_each check_config_name (config_names b))) (\<lambda>_.
       verify_safe_cache_metadata bn repository))"

definition verify_origin :: "'e bundler \<Rightarrow> string \<Rightarrow> source_record
    \<Rightarrow> ('e, (bundle_error, unit) result) effect" where
  "verify_origin bn repository s =
     attempt (git_text bn repository [''remote'', ''get-url'', ''origin'']) (\<lambda>actual.
       pure (ensure (actual = so_url s) (bundle_err ''SOURCE_BUNDLE_ORIGIN_MISMATCH''
         (''cached origin mismatch for '' @ so_name s))))"

definition tag_moved :: "source_record \<Rightarrow> bundle_error" where
  "tag_moved s = bundle_err ''SOURCE_BUNDLE_TAG_MOVED'' (''tag identity mismatch for '' @ so_name s)"

text \<open>A git command whose text must be the expected one.\<close>

definition expect_git :: "'e bundler \<Rightarrow> string \<Rightarrow> bundle_error \<Rightarrow> string list \<times> string
    \<Rightarrow> ('e, (bundle_error, unit) result) effect" where
  "expect_git bn repository err c =
     attempt (git_text bn repository (fst c)) (\<lambda>t. pure (ensure (t = snd c) err))"

definition tag_reference :: "string \<Rightarrow> string" where
  "tag_reference tag = ''refs/tags/'' @ tag"

definition peel :: "string \<Rightarrow> string" where
  "peel r = r @ ''^{commit}''"

text \<open>The queries that establish the identity, with the answers the lock pins.\<close>

definition identity_queries :: "source_record \<Rightarrow> (string list \<times> string) list option" where
  "identity_queries s = (case so_kind s of
       Git_Tag \<Rightarrow> (case so_tag s of None \<Rightarrow> None
         | Some t \<Rightarrow> Some [([''cat-file'', ''-t'', tag_reference t], ''commit''),
             ([''rev-parse'', tag_reference t], so_commit s)])
     | Git_Annotated_Tag \<Rightarrow> (case so_tag s of None \<Rightarrow> None
         | Some t \<Rightarrow> (case so_tag_object s of None \<Rightarrow> None
           | Some obj \<Rightarrow> Some [([''cat-file'', ''-t'', tag_reference t], ''tag''),
               ([''rev-parse'', tag_reference t], obj),
               ([''rev-parse'', peel (tag_reference t)], so_commit s)]))
     | Git_Commit \<Rightarrow> Some [([''rev-parse'', peel (so_commit s)], so_commit s)])"

definition identity_error :: "source_record \<Rightarrow> bundle_error" where
  "identity_error s = (if so_kind s = Git_Commit
     then bundle_err ''SOURCE_BUNDLE_COMMIT_MISMATCH'' (''commit is unavailable for '' @ so_name s)
     else tag_moved s)"

definition verify_identity :: "'e bundler \<Rightarrow> string \<Rightarrow> source_record
    \<Rightarrow> ('e, (bundle_error, unit) result) effect" where
  "verify_identity bn repository s = (case identity_queries s of
       None \<Rightarrow> pure (Inl (bundle_err ''PANIC'' ''validated tag''))
     | Some qs \<Rightarrow> each_attempt (expect_git bn repository (identity_error s)) qs)"

section \<open>Gitlinks\<close>

text \<open>\<open>str::split_whitespace\<close>.\<close>

fun word_tokens :: "string \<Rightarrow> string list \<Rightarrow> string list" where
  "word_tokens acc [] = (if acc = [] then [] else [acc])"
| "word_tokens acc (c # cs) =
     (if is_whitespace c then (if acc = [] then word_tokens [] cs else acc # word_tokens [] cs)
      else word_tokens (acc @ c) cs)"

definition split_whitespace :: "string \<Rightarrow> string list" where
  "split_whitespace s = word_tokens [] (utf8_chars s)"

definition safe_relative_path :: "string \<Rightarrow> bool" where
  "safe_relative_path p = (p \<noteq> [] \<and> \<not> is_absolute p \<and> list_all is_normal (path_components p))"

text \<open>One record of \<open>git ls-tree\<close>: the path and object of a gitlink, or nothing for any other entry.\<close>

definition tree_record :: "bytes \<Rightarrow> (bundle_error, (path_component list \<times> string) option) result" where
  "tree_record r =
     (if \<not> utf8_valid r then Inl (git_output_invalid ''git tree output is not UTF-8'')
      else case split_once tab r of
        None \<Rightarrow> Inl (git_output_invalid ''git tree record is malformed'')
      | Some (meta, path) \<Rightarrow> (case split_whitespace meta of
          [mode, kind, oid] \<Rightarrow>
            if mode \<noteq> ''160000'' then Inr None
            else if \<not> safe_relative_path path \<or> \<not> lower_hex 40 oid
            then Inl (git_output_invalid ''gitlink path or object ID is invalid'')
            else Inr (Some (path_components path, oid))
        | _ \<Rightarrow> Inl (git_output_invalid ''git tree metadata is malformed'')))"

definition tree_gitlinks :: "bytes \<Rightarrow> (bundle_error, (path_component list, string) bmap) result" where
  "tree_gitlinks b = and_then (traverse tree_record (filter (\<lambda>r. r \<noteq> []) (split_on NUL b))) (\<lambda>ls.
     Inr (bm_of_list (List.map_filter id ls)))"

definition list_gitlinks :: "'e bundler \<Rightarrow> string \<Rightarrow> string
    \<Rightarrow> ('e, (bundle_error, (path_component list, string) bmap) result) effect" where
  "list_gitlinks bn repository commit =
     attempt (git_bytes bn repository [''ls-tree'', ''-r'', ''-z'', commit]) (\<lambda>b. pure (tree_gitlinks b))"

definition gitlink_mismatch :: "source_record \<Rightarrow> bundle_error" where
  "gitlink_mismatch s = bundle_err ''SOURCE_BUNDLE_GITLINK_MISMATCH''
     (''gitlink identity mismatch for '' @ so_name s)"

definition check_declared :: "source_record \<Rightarrow> (path_component list, string) bmap
    \<Rightarrow> path_component list \<times> string \<Rightarrow> (bundle_error, unit) result" where
  "check_declared s declared l = (case bm_get declared (fst l) of
       None \<Rightarrow> Inl (bundle_err ''SOURCE_BUNDLE_GITLINK_UNDECLARED''
         (''undeclared gitlink in '' @ so_name s))
     | Some expected \<Rightarrow> ensure (expected = snd l) (gitlink_mismatch s))"

definition verify_gitlink_source :: "(string, source_record) bmap \<Rightarrow> source_record \<Rightarrow> source_gitlink
    \<Rightarrow> (bundle_error, unit) result" where
  "verify_gitlink_source sources parent g = (case gl_source g of
       None \<Rightarrow> Inl (bundle_err ''PANIC'' ''validated bundled gitlink'')
     | Some child_name \<Rightarrow> (case bm_get sources child_name of
         None \<Rightarrow> Inl (gitlink_mismatch parent)
       | Some child \<Rightarrow> ensure (so_commit child = gl_commit g) (gitlink_mismatch parent)))"

definition declared_gitlinks :: "source_record \<Rightarrow> (path_component list, string) bmap" where
  "declared_gitlinks s = bm_of_list (map (\<lambda>g. (path_components (gl_path g), gl_commit g)) (so_gitlinks s))"

definition match_gitlinks :: "(string, source_record) bmap \<Rightarrow> source_record
    \<Rightarrow> (path_component list, string) bmap \<Rightarrow> (bundle_error, unit) result" where
  "match_gitlinks sources s actual =
     and_then (check_each (check_declared s (declared_gitlinks s)) actual) (\<lambda>_.
     and_then (ensure (length actual = length (declared_gitlinks s)) (gitlink_mismatch s)) (\<lambda>_.
     check_each (verify_gitlink_source sources s)
       (filter (\<lambda>g. gl_disposition g = Bundled) (so_gitlinks s))))"

definition verify_gitlinks :: "'e bundler \<Rightarrow> string \<Rightarrow> source_record \<Rightarrow> (string, source_record) bmap
    \<Rightarrow> ('e, (bundle_error, unit) result) effect" where
  "verify_gitlinks bn repository s sources =
     attempt (list_gitlinks bn repository (so_commit s)) (\<lambda>actual. pure (match_gitlinks sources s actual))"

section \<open>Git LFS objects\<close>

record lfs_pointer =
  lp_oid :: string
  lp_size :: nat

definition pointer_invalid :: "string \<Rightarrow> bundle_error" where
  "pointer_invalid = bundle_err ''SOURCE_BUNDLE_LFS_POINTER_INVALID''"

definition LFS_VERSION :: string where
  "LFS_VERSION = ''version https://git-lfs.github.com/spec/v1'' @ [nl]"

definition parse_lfs_pointer :: "bytes \<Rightarrow> (bundle_error, lfs_pointer option) result" where
  "parse_lfs_pointer b =
     (if \<not> starts_with LFS_VERSION b then Inr None
      else if \<not> utf8_valid b then Inl (pointer_invalid ''Git LFS pointer is not UTF-8'')
      else let lines = str_lines b in
        if length lines \<noteq> 3 \<or> \<not> ends_with [nl] b
        then Inl (pointer_invalid ''Git LFS pointer does not use the supported canonical form'')
        else
          and_then (ok_or (pointer_invalid ''Git LFS pointer has no SHA-256 object ID'')
            (strip_prefix ''oid sha256:'' (lines ! 1))) (\<lambda>oid.
          and_then (ok_or (pointer_invalid ''Git LFS pointer has no object size'')
            (strip_prefix ''size '' (lines ! 2))) (\<lambda>size.
          and_then (ok_or (pointer_invalid ''Git LFS pointer size is invalid'') (parse_u64 size)) (\<lambda>n.
          and_then (ensure (lower_hex 64 oid \<and> unat n \<le> MAX_LFS_OBJECT_BYTES)
            (pointer_invalid ''Git LFS object identity or size is invalid'')) (\<lambda>_.
            Inr (Some \<lparr>lp_oid = oid, lp_size = unat n\<rparr>))))))"

definition object_missing :: bundle_error where
  "object_missing = bundle_err ''SOURCE_BUNDLE_LFS_OBJECT_MISSING''
     ''a source-locked Git LFS object is absent from the offline cache''"

definition object_invalid :: "string \<Rightarrow> bundle_error" where
  "object_invalid = bundle_err ''SOURCE_BUNDLE_LFS_OBJECT_INVALID''"

definition object_io :: "string \<Rightarrow> io_error \<Rightarrow> bundle_error" where
  "object_io ctx e = (case e of Not_Found _ \<Rightarrow> object_missing | _ \<Rightarrow> bundle_io ctx e)"

definition object_path :: "string \<Rightarrow> string \<Rightarrow> string" where
  "object_path object_root oid = path_join (path_join (path_join object_root (take 2 oid))
     (take 2 (drop 2 oid))) oid"

definition lfs_object_path :: "'e bundler \<Rightarrow> string \<Rightarrow> string \<Rightarrow> ('e, (bundle_error, string) result) effect"
where
  "lfs_object_path bn git_dir oid =
     (let object_root = path_join git_dir ''lfs/objects'' in
     attempt (with_err (object_io ''canonicalize Git LFS object directory'')
       (observe (rf_canonicalize (bn_files bn) object_root))) (\<lambda>canonical_root.
     attempt (pure (ensure (path_starts_with canonical_root git_dir)
       (object_invalid ''Git LFS object directory must remain inside the cached source''))) (\<lambda>_.
     (let path = object_path object_root oid in
     attempt (with_err (object_io ''inspect Git LFS object'')
       (observe (rf_lstat (bn_files bn) path))) (\<lambda>m.
     attempt (pure (ensure (fm_kind m = Regular_File)
       (object_invalid ''Git LFS object must be a regular non-symlink file''))) (\<lambda>_.
     attempt (io_step ''canonicalize Git LFS object'' (rf_canonicalize (bn_files bn) path)) (\<lambda>canonical.
       pure (if path_starts_with canonical canonical_root then Inr canonical
             else Inl (object_invalid ''Git LFS object must remain inside the object directory'')))))))))"

text \<open>\<open>hash_reader\<close> of an open file: what is read is what was hashed.\<close>

definition hash_handle :: "'e bundler \<Rightarrow> nat \<Rightarrow> ('e, (bundle_error, string) result) effect" where
  "hash_handle bn h = attempt (io_step ''read source archive'' (bn_read_handle bn h)) (\<lambda>b.
     pure (Inr (bn_sha256 bn b)))"

definition object_wrong :: bundle_error where
  "object_wrong = object_invalid ''Git LFS object size or SHA-256 does not match its pointer''"

definition open_verified_lfs_object :: "'e bundler \<Rightarrow> string \<Rightarrow> lfs_pointer
    \<Rightarrow> ('e, (bundle_error, nat) result) effect" where
  "open_verified_lfs_object bn git_dir p =
     attempt (lfs_object_path bn git_dir (lp_oid p)) (\<lambda>path.
     attempt (io_step ''open Git LFS object without following symlinks'' (bn_open_nofollow bn path)) (\<lambda>h.
     attempt (io_step ''read Git LFS object metadata'' (bn_fstat bn h)) (\<lambda>m.
     attempt (pure (ensure (fm_kind m = Regular_File \<and> fm_len m = lp_size p) object_wrong)) (\<lambda>_.
     attempt (hash_handle bn h) (\<lambda>d.
     attempt (pure (ensure (d = lp_oid p) object_wrong)) (\<lambda>_.
     attempt (io_step ''rewind verified Git LFS object'' (bn_rewind bn h)) (\<lambda>_.
       pure (Inr h))))))))"

section \<open>Archives\<close>

text \<open>An entry small enough to be a pointer.\<close>

definition maybe_pointer :: "tar_codec \<Rightarrow> tar_entry \<Rightarrow> (bundle_error, bool) result" where
  "maybe_pointer tc t =
     (if \<not> tar_is_file tc (te_header t) then Inr False
      else and_then (map_err (bundle_io ''read archive entry size'') (tar_size tc (te_header t))) (\<lambda>n.
        Inr (n \<le> MAX_LFS_POINTER_BYTES)))"

definition entry_pointer :: "tar_codec \<Rightarrow> tar_entry \<Rightarrow> (bundle_error, (bytes \<times> lfs_pointer option) option) result"
where
  "entry_pointer tc t = and_then (maybe_pointer tc t) (\<lambda>small.
     if \<not> small then Inr None
     else and_then (map_err (bundle_io ''read possible LFS pointer'') (te_data t)) (\<lambda>b.
       and_then (parse_lfs_pointer b) (\<lambda>p. Inr (Some (b, p)))))"

fun any_pointer :: "tar_codec \<Rightarrow> (io_error, tar_entry) result list \<Rightarrow> (bundle_error, bool) result" where
  "any_pointer tc [] = Inr False"
| "any_pointer tc (Inl e # _) = Inl (bundle_io ''read raw archive entry'' e)"
| "any_pointer tc (Inr t # rest) = and_then (entry_pointer tc t) (\<lambda>r.
     case r of Some (_, Some _) \<Rightarrow> Inr True | _ \<Rightarrow> any_pointer tc rest)"

definition entries_of :: "tar_codec \<Rightarrow> bytes \<Rightarrow> (bundle_error, (io_error, tar_entry) result list) result"
where
  "entries_of tc b = map_err (bundle_io ''read raw archive'') (tar_entries tc b)"

definition open_raw :: "'e bundler \<Rightarrow> string \<Rightarrow> ('e, (bundle_error, bytes) result) effect" where
  "open_raw bn raw = io_step ''open raw archive'' (rf_read (bn_files bn) raw)"

definition archive_has_lfs_pointers :: "'e bundler \<Rightarrow> string \<Rightarrow> ('e, (bundle_error, bool) result) effect"
where
  "archive_has_lfs_pointers bn raw =
     attempt (open_raw bn raw) (\<lambda>b.
       pure (and_then (entries_of (bn_tar bn) b) (any_pointer (bn_tar bn))))"

definition create_draft :: "'e bundler \<Rightarrow> string \<Rightarrow> ('e, (bundle_error, unit) result) effect" where
  "create_draft bn path = with_err (\<lambda>f. case f of
       Already_Exists \<Rightarrow> output_invalid ''temporary materialized archive path must not already exist''
     | Create_Failed e \<Rightarrow> bundle_io ''create materialized archive'' e) (observe (bn_create_new bn path))"

definition append_to :: "'e bundler \<Rightarrow> string \<Rightarrow> string \<Rightarrow> bytes \<Rightarrow> ('e, (bundle_error, unit) result) effect"
where
  "append_to bn ctx path b = attempt (io_step ctx (bn_append bn path b)) (\<lambda>_. do {
     emit (Wrote path b);
     pure (Inr ())
   })"

definition copy_raw_archive :: "'e bundler \<Rightarrow> string \<Rightarrow> string \<Rightarrow> ('e, (bundle_error, unit) result) effect"
where
  "copy_raw_archive bn raw draft =
     attempt (open_raw bn raw) (\<lambda>b.
     attempt (create_draft bn draft) (\<lambda>_.
     attempt (append_to bn ''copy filter-free raw archive'' draft b) (\<lambda>_.
       io_step ''sync filter-free raw archive'' (bn_sync bn draft))))"

definition append_entry :: "'e bundler \<Rightarrow> string \<Rightarrow> string \<Rightarrow> tar_entry
    \<Rightarrow> ('e, (bundle_error, unit) result) effect" where
  "append_entry bn git_dir draft t =
     attempt (pure (entry_pointer (bn_tar bn) t)) (\<lambda>r.
       case r of
         Some (_, Some p) \<Rightarrow>
           attempt (open_verified_lfs_object bn git_dir p) (\<lambda>h.
           attempt (io_step ''append materialized LFS object'' (bn_read_handle bn h)) (\<lambda>content.
             append_to bn ''append materialized LFS object'' draft
               (tar_block (bn_tar bn) (tar_resize (bn_tar bn) (lp_size p) (te_header t)) content)))
       | Some (b, None) \<Rightarrow> append_to bn ''append source archive entry'' draft
           (tar_block (bn_tar bn) (te_header t) b)
       | None \<Rightarrow>
           attempt (pure (map_err (bundle_io ''append source archive entry'') (te_data t))) (\<lambda>b.
             append_to bn ''append source archive entry'' draft (tar_block (bn_tar bn) (te_header t) b)))"

definition append_result :: "'e bundler \<Rightarrow> string \<Rightarrow> string \<Rightarrow> (io_error, tar_entry) result
    \<Rightarrow> ('e, (bundle_error, unit) result) effect" where
  "append_result bn git_dir draft r = (case r of
       Inl e \<Rightarrow> pure (Inl (bundle_io ''read raw archive entry'' e))
     | Inr t \<Rightarrow> append_entry bn git_dir draft t)"

definition materialize_entries :: "'e bundler \<Rightarrow> bytes \<Rightarrow> string \<Rightarrow> string
    \<Rightarrow> ('e, (bundle_error, unit) result) effect" where
  "materialize_entries bn raw git_dir draft =
     attempt (create_draft bn draft) (\<lambda>_.
     attempt (pure (entries_of (bn_tar bn) raw)) (\<lambda>entries.
     attempt (each_attempt (append_result bn git_dir draft) entries) (\<lambda>_.
     attempt (append_to bn ''finish materialized archive'' draft (tar_end (bn_tar bn))) (\<lambda>_.
       io_step ''sync materialized archive'' (bn_sync bn draft)))))"

text \<open>\<open>Path::with_extension\<close>: what follows the last dot of the file name is replaced.\<close>

fun trim_rev_path :: "string \<Rightarrow> string" where
  "trim_rev_path (c # d # cs) = (if c = CHR ''/'' then trim_rev_path (d # cs)
     else if c = CHR ''.'' \<and> d = CHR ''/'' then trim_rev_path cs else c # d # cs)"
| "trim_rev_path cs = cs"

definition file_stem :: "string \<Rightarrow> string" where
  "file_stem name = (case name_extension name of None \<Rightarrow> name
     | Some x \<Rightarrow> take (length name - length x - 1) name)"

definition with_extension :: "string \<Rightarrow> string \<Rightarrow> string" where
  "with_extension p x = (case path_file_name p of
       None \<Rightarrow> p
     | Some name \<Rightarrow> (let base = rev (trim_rev_path (rev p)) in
         take (length base - (length name - length (file_stem name))) base @ ''.'' @ x))"

definition rename_file :: "'e bundler \<Rightarrow> string \<Rightarrow> string \<Rightarrow> string \<Rightarrow> ('e, (bundle_error, unit) result) effect"
where
  "rename_file bn ctx src dst = attempt (io_step ctx (bn_rename bn src dst)) (\<lambda>_. do {
     emit (Renamed src dst);
     pure (Inr ())
   })"

text \<open>A result after which a file is removed if it is an error.\<close>

definition removing_on_error :: "'e bundler \<Rightarrow> string \<Rightarrow> ('e, (bundle_error, 'a) result) effect
    \<Rightarrow> ('e, (bundle_error, 'a) result) effect" where
  "removing_on_error bn path m = do {
     r \<leftarrow> m;
     (case r of
        Inl e \<Rightarrow> do { ignored (bn_remove_file bn path); pure (Inl e) }
      | Inr a \<Rightarrow> pure (Inr a))
   }"

definition materialize_lfs_archive :: "'e bundler \<Rightarrow> string \<Rightarrow> string \<Rightarrow> string
    \<Rightarrow> ('e, (bundle_error, unit) result) effect" where
  "materialize_lfs_archive bn repository raw output =
     attempt (safe_git_dir bn repository) (\<lambda>git_dir.
     (let draft = with_extension output ''materializing.tar'' in
     attempt (archive_has_lfs_pointers bn raw) (\<lambda>pointers.
     if pointers then
       attempt (open_raw bn raw) (\<lambda>b.
       removing_on_error bn draft (attempt (materialize_entries bn b git_dir draft) (\<lambda>_.
         rename_file bn ''publish materialized archive'' draft output)))
     else
       removing_on_error bn draft (attempt (copy_raw_archive bn raw draft) (\<lambda>_.
         rename_file bn ''publish materialized archive'' draft output)))))"

definition raw_absent :: "(io_error, file_meta) result \<Rightarrow> (bundle_error, unit) result" where
  "raw_absent r = (case r of
       Inl (Not_Found _) \<Rightarrow> Inr ()
     | Inl e \<Rightarrow> Inl (bundle_io ''inspect temporary raw archive path'' e)
     | Inr _ \<Rightarrow> Inl (output_invalid ''temporary raw archive path must not already exist''))"

definition archive_args :: "string \<Rightarrow> string \<Rightarrow> string \<Rightarrow> string list" where
  "archive_args source_name raw commit = [''archive'', ''--format=tar'', ''--prefix'',
     source_name @ ''/'', ''--output'', raw, commit]"

definition create_archive_from_commit :: "'e bundler \<Rightarrow> string \<Rightarrow> string \<Rightarrow> string \<Rightarrow> string
    \<Rightarrow> ('e, (bundle_error, unit) result) effect" where
  "create_archive_from_commit bn repository source_name commit archive =
     (let raw = with_extension archive ''raw.tar'' in
     attempt (do { r \<leftarrow> observe (rf_lstat (bn_files bn) raw); pure (raw_absent r) }) (\<lambda>_.
     attempt (pure (ensure (utf8_valid raw) (output_invalid ''archive path is not UTF-8''))) (\<lambda>_.
     attempt (removing_on_error bn raw
       (run_git_with_timeout bn repository (archive_args source_name raw commit) (from_secs 900)))
       (\<lambda>_. do {
         r \<leftarrow> materialize_lfs_archive bn repository raw archive;
         ignored (bn_remove_file bn raw);
         pure r
       }))))"

definition hash_file :: "'e bundler \<Rightarrow> string \<Rightarrow> ('e, (bundle_error, string) result) effect" where
  "hash_file bn path = attempt (io_step ''open source archive'' (rf_read (bn_files bn) path)) (\<lambda>b. do {
     emit (Was_Read path b);
     pure (Inr (bn_sha256 bn b))
   })"

definition hash_cached_source :: "'e bundler \<Rightarrow> string \<Rightarrow> string \<Rightarrow> string \<Rightarrow> string
    \<Rightarrow> ('e, (bundle_error, string) result) effect" where
  "hash_cached_source bn repository source_name commit archive =
     attempt (pure (ensure (is_source_identifier source_name \<and> lower_hex 40 commit)
       (bundle_err ''SOURCE_BUNDLE_IDENTITY_INVALID'' ''source name or commit identity is invalid''))) (\<lambda>_.
     attempt (do { r \<leftarrow> observe (rf_lstat (bn_files bn) archive);
         pure (ensure (\<not> is_ok r) (output_invalid ''explicit archive output must not already exist'')) }) (\<lambda>_.
     attempt (pure (ok_or (output_invalid ''explicit archive output requires a parent directory'')
       (path_parent archive))) (\<lambda>parent.
     attempt (require_real_directory bn parent ''archive parent'') (\<lambda>_.
     attempt (require_real_directory bn repository ''cached source'') (\<lambda>repository.
     attempt (verify_safe_local_config bn repository) (\<lambda>_.
     attempt (expect_git bn repository (bundle_err ''SOURCE_BUNDLE_COMMIT_MISMATCH''
         ''explicit commit is unavailable from the cached source'')
       ([''rev-parse'', peel commit], commit)) (\<lambda>_.
     attempt (create_archive_from_commit bn repository source_name commit archive) (\<lambda>_.
       hash_file bn archive))))))))"

section \<open>The bundle\<close>

definition archive_name :: "source_record \<Rightarrow> string" where
  "archive_name s = so_name s @ ''.tar''"

text \<open>One source: its archive is in the staging directory, or was removed again.\<close>

definition bundle_source :: "'e bundler \<Rightarrow> (string, source_record) bmap \<Rightarrow> string \<Rightarrow> string
    \<Rightarrow> source_record \<Rightarrow> ('e, (bundle_error, bundle_artifact option) result) effect" where
  "bundle_source bn sources cache staging s =
     attempt (require_real_directory bn (path_join cache (so_name s)) ''cached source'') (\<lambda>repository.
     attempt (verify_safe_local_config bn repository) (\<lambda>_.
     attempt (verify_origin bn repository s) (\<lambda>_.
     attempt (verify_identity bn repository s) (\<lambda>_.
     attempt (verify_gitlinks bn repository s sources) (\<lambda>_.
     (let archive = path_join staging (archive_name s) in
     attempt (create_archive_from_commit bn repository (so_name s) (so_commit s) archive) (\<lambda>_.
     attempt (hash_file bn archive) (\<lambda>digest.
     attempt (pure (ensure (digest = so_archive_sha256 s) (bundle_err ''SOURCE_BUNDLE_ARCHIVE_MISMATCH''
       (''archive digest mismatch for '' @ so_name s)))) (\<lambda>_.
     if so_redistribution s = Source_Allowed
     then pure (Inr (Some \<lparr>ba_filename = archive_name s, ba_sha256 = digest\<rparr>))
     else attempt (io_step ''remove external-only source archive'' (bn_remove_file bn archive)) (\<lambda>_.
       pure (Inr None)))))))))))"

definition checksum_line :: "bundle_artifact \<Rightarrow> string" where
  "checksum_line a = ba_sha256 a @ ''  '' @ ba_filename a @ [nl]"

definition write_checksums :: "'e bundler \<Rightarrow> string \<Rightarrow> bundle_artifact list
    \<Rightarrow> ('e, (bundle_error, unit) result) effect" where
  "write_checksums bn path as =
     attempt (io_step ''create checksum manifest'' (bn_create bn path)) (\<lambda>_.
     attempt (each_attempt (\<lambda>a. append_to bn ''write checksum manifest'' path (checksum_line a)) as) (\<lambda>_.
       io_step ''sync checksum manifest'' (bn_sync bn path)))"

definition bundle_into_staging :: "'e bundler \<Rightarrow> source_lock \<Rightarrow> string \<Rightarrow> string
    \<Rightarrow> ('e, (bundle_error, bundle_artifact list) result) effect" where
  "bundle_into_staging bn l cache staging =
     (let sources = bm_of_list (map (\<lambda>s. (so_name s, s)) (sl_sources l)) in
     attempt (collect_attempt (bundle_source bn sources cache staging) (sl_sources l)) (\<lambda>rs.
     (let artifacts = List.map_filter id rs in
     attempt (write_checksums bn (path_join staging ''SHA256SUMS'') artifacts) (\<lambda>_.
       pure (Inr artifacts)))))"

definition publish :: "'e bundler \<Rightarrow> string \<Rightarrow> string \<Rightarrow> bundle_artifact list
    \<Rightarrow> ('e, (bundle_error, unit) result) effect" where
  "publish bn staging out as =
     attempt (each_attempt (\<lambda>a. rename_file bn ''publish source archive''
         (path_join staging (ba_filename a)) (path_join out (ba_filename a))) as) (\<lambda>_.
       rename_file bn ''publish source checksums'' (path_join staging ''SHA256SUMS'')
         (path_join out ''SHA256SUMS''))"

definition lock_failure :: "lock_error \<Rightarrow> bundle_error" where
  "lock_failure e = bundle_err (le_code e) (le_message e)"

definition make_staging :: "'e bundler \<Rightarrow> string \<Rightarrow> ('e, (bundle_error, unit) result) effect" where
  "make_staging bn staging = attempt (io_step ''create staging directory'' (bn_create_dir bn staging)) (\<lambda>_. do {
     emit (Made_Dir staging);
     pure (Inr ())
   })"

text \<open>The staging directory is removed whatever happened; the failure of that is ignored.\<close>

definition remove_staging :: "'e bundler \<Rightarrow> string \<Rightarrow> ('e, unit) effect" where
  "remove_staging bn staging = do { ignored (bn_remove_dir_all bn staging); emit (Removed staging) }"

definition bundle_sources :: "'e bundler \<Rightarrow> string \<Rightarrow> string \<Rightarrow> string \<Rightarrow> string
    \<Rightarrow> ('e, (bundle_error, bundle_artifact list) result) effect" where
  "bundle_sources bn lock_path repository_root cache out =
     attempt (with_err lock_failure
       (validate_source_lock (bn_files bn) (bn_sha256 bn) (bn_toml bn) lock_path repository_root)) (\<lambda>l.
     attempt (pure (ensure (sl_status l = Lock_Sealed) (bundle_err ''SOURCE_BUNDLE_LOCK_UNSEALED''
       ''source bundles require a sealed source lock''))) (\<lambda>_.
     attempt (require_real_directory bn cache ''source cache'') (\<lambda>cache.
     attempt (require_empty_output bn out) (\<lambda>out.
     (let staging = path_join out ''.source-bundle-staging'' in
     attempt (make_staging bn staging) (\<lambda>_. do {
       r \<leftarrow> attempt (bundle_into_staging bn l cache staging) (\<lambda>as.
              attempt (publish bn staging out as) (\<lambda>_. pure (Inr as)));
       remove_staging bn staging;
       pure r
     }))))))"

end
