(* ===== verification/Command_Query.thy ===== *)
theory Command_Query
  imports Host
begin

text \<open>
  What a success has established: facts about the events it left, which stay true whatever else is
  logged. And the interface of a bounded query: a command whose complete output is the answer. The
  clients decode the answer, or insist that several answers are blank; the providers are the \<open>git\<close> and
  \<open>rpm\<close> queries of the developer tools, each of which runs one fixed request.
\<close>

section \<open>Established facts\<close>

text \<open>Every set of events that includes those of a successful run of \<open>m\<close> satisfies \<open>P\<close> of its result.\<close>

definition establishes :: "('a \<Rightarrow> event set \<Rightarrow> bool) \<Rightarrow> ('e, ('x, 'a) result) effect \<Rightarrow> bool" where
  "establishes P m = leaves (\<lambda>a evs. \<forall>E. set evs \<subseteq> E \<longrightarrow> P a E) m"

named_theorems established "what the steps establish"

lemma establishes_leaves: "establishes P m \<Longrightarrow> leaves (\<lambda>a evs. P a (set evs)) m"
  unfolding establishes_def by (erule leaves_weaken) simp

lemma establishes_run:
  assumes "establishes P m" "run_state m w = (Inr a, w')"
  shows "P a (set (log w'))"
  using leavesD [OF assms(1) [unfolded establishes_def] assms(2)] by auto

lemma establishes_weaken: "establishes P m \<Longrightarrow> (\<And>a E. P a E \<Longrightarrow> Q a E) \<Longrightarrow> establishes Q m"
  unfolding establishes_def by (erule leaves_weaken) blast

lemma establishes_attempt [established]:
  assumes "establishes P m" "\<And>a. establishes (Q a) (f a)"
  shows "establishes (\<lambda>b E. \<exists>a. P a E \<and> Q a b E) (attempt m f)"
  unfolding establishes_def
  by (rule leaves_then [OF assms(1) [unfolded establishes_def] assms(2) [unfolded establishes_def]])
    (metis le_supE set_append)

lemma establishes_pure [established]: "establishes (\<lambda>a _. r = Inr a) (pure r)"
  unfolding establishes_def by (rule leaves_weaken [OF leaves_pure]) simp

lemma establishes_with_err [established]: "establishes P m \<Longrightarrow> establishes P (with_err g m)"
  unfolding establishes_def by (rule leaves_with_err)

lemma establishes_only: "only_does F m \<Longrightarrow> establishes (\<lambda>_ _. True) m"
  unfolding establishes_def leaves_def only_does_def by (metis snd_conv)

lemma establishes_observe [established]: "establishes (\<lambda>_ _. True) (observe f)"
  by (rule establishes_only [OF only_runs_observe])

lemma establishes_each:
  "(\<And>x. establishes (\<lambda>_. P x) (f x)) \<Longrightarrow>
   establishes (\<lambda>_ E. list_all (\<lambda>x. P x E) xs) (each_attempt f xs)"
proof (induction xs)
  case Nil
  show ?case unfolding each_attempt.simps by (rule establishes_weaken [OF establishes_pure]) simp
next
  case (Cons x xs)
  show ?case
    unfolding each_attempt.simps
    by (rule establishes_weaken [OF establishes_attempt [OF Cons.prems Cons.IH [OF Cons.prems]]]) simp
qed

lemma establishes_collect:
  "(\<And>x. establishes (P x) (f x)) \<Longrightarrow>
   establishes (\<lambda>ys E. list_all2 (\<lambda>x y. P x y E) xs ys) (collect_attempt f xs)"
proof (induction xs)
  case Nil
  show ?case unfolding collect_attempt.simps by (rule establishes_weaken [OF establishes_pure]) simp
next
  case (Cons x xs)
  show ?case
    unfolding collect_attempt.simps
    by (rule establishes_weaken [OF establishes_attempt [OF Cons.prems establishes_attempt
          [OF Cons.IH [OF Cons.prems] establishes_pure]]]) auto
qed

lemma does_if: "only_does E a \<Longrightarrow> only_does E b \<Longrightarrow> only_does E (if c then a else b)"
  by simp

section \<open>Queries\<close>

text \<open>The event of a command that ended with exit code 0 within its limits.\<close>

definition complete_answer :: "process_request \<Rightarrow> bytes \<Rightarrow> event \<Rightarrow> bool" where
  "complete_answer rq b ev \<longleftrightarrow> (\<exists>po. ev = Ran rq (Inr po) \<and> po_termination po = Exit 0
     \<and> \<not> po_stdout_overflow po \<and> \<not> po_stderr_overflow po \<and> b = po_stdout po)"

definition answered :: "process_request \<Rightarrow> (bytes \<Rightarrow> bool) \<Rightarrow> event set \<Rightarrow> bool" where
  "answered rq P E \<longleftrightarrow> (\<exists>ev \<in> E. \<exists>b. complete_answer rq b ev \<and> P b)"

lemma answered_weaken: "answered rq P E \<Longrightarrow> (\<And>b. P b \<Longrightarrow> Q b) \<Longrightarrow> answered rq Q E"
  by (auto simp: answered_def)

locale command_query =
  fixes query :: "'p \<Rightarrow> 'q \<Rightarrow> ('e, ('x, string) result) effect"
    and request :: "'p \<Rightarrow> 'q \<Rightarrow> process_request"
  assumes answers: "leaves (\<lambda>b evs. \<exists>ev. evs = [ev] \<and> complete_answer (request p q) b ev) (query p q)"
    and asks: "only_does (ran (\<lambda>rq. rq = request p q)) (query p q)"
begin

lemma answer: "establishes (\<lambda>b. answered (request p q) (\<lambda>c. c = b)) (query p q)"
  unfolding establishes_def by (rule leaves_weaken [OF answers]) (auto simp: answered_def)

lemma decoded:
  "establishes (\<lambda>a. answered (request p q) (\<lambda>b. parse b = Inr a)) (attempt (query p q) (\<lambda>b. pure (parse b)))"
  by (rule establishes_weaken [OF establishes_attempt [OF answer establishes_pure]])
    (auto intro: answered_weaken)

text \<open>Several questions, each with an answer that is accepted.\<close>

lemma all_accepted:
  "establishes (\<lambda>_ E. list_all (\<lambda>q. answered (request p q) P E) qs)
     (each_attempt (\<lambda>q. attempt (query p q) (\<lambda>b. pure (ensure (P b) err))) qs)"
  by (rule establishes_each, rule establishes_weaken [OF decoded]) (auto intro: answered_weaken)

text \<open>What is asked.\<close>

lemma decoded_asks: "only_does (ran (\<lambda>rq. rq = request p q)) (attempt (query p q) (\<lambda>b. pure (parse b)))"
  by (intro only_runs_attempt asks only_runs_pure)

lemma all_ask:
  "only_does (ran (\<lambda>rq. \<exists>q \<in> set qs. rq = request p q))
     (each_attempt (\<lambda>q. attempt (query p q) (\<lambda>b. pure (ensure (P b) err))) qs)"
  by (intro only_runs_each only_runs_weaken [OF decoded_asks]) auto

end

section \<open>Outcomes\<close>

text \<open>What a run has done, and what its success has established.\<close>

lemma outcome:
  assumes "establishes P m" "only_does F m"
  shows "case run_state m w of (r, w') \<Rightarrow> \<exists>evs. log w' = log w @ evs \<and> list_all F evs
     \<and> (case r of Inl _ \<Rightarrow> True | Inr a \<Rightarrow> P a (set evs))"
proof -
  obtain r w' where run: "run_state m w = (r, w')" by fastforce
  from only_doesE [OF assms(2) run] obtain evs where evs: "log w' = log w @ evs" "list_all F evs" .
  moreover have "P a (set evs)" if "r = Inr a" for a
    using leavesD [OF establishes_leaves [OF assms(1)]] run that evs(1) by fastforce
  ultimately show ?thesis unfolding run by (auto split: sum.split)
qed


text \<open>A fact that holds if a check before it succeeded.\<close>

lemma establishes_given:
  assumes "C \<Longrightarrow> establishes P m" "establishes (\<lambda>_ _. True) m"
  shows "establishes (\<lambda>a E. C \<longrightarrow> P a E) m"
  using assms by (cases C) (auto elim: establishes_weaken)

lemma silent_run:
  "only_does (\<lambda>_. False) m \<Longrightarrow> run_state m w = (a, w') \<Longrightarrow> log w' = log w"
  by (erule (1) only_doesE) (auto simp: list_all_iff)

text \<open>A check that a path is absent.\<close>

lemma absent_run: "run_state (do { r \<leftarrow> observe f; pure (ensure (\<not> is_ok r) m) }) w = (Inr u, w') \<longleftrightarrow>
   (\<exists>io e. f (env w) = (Inl io, e) \<and> w' = w\<lparr>env := e\<rparr>)"
proof (cases "f (env w)")
  case (Pair r e)
  then show ?thesis by (cases r) (auto simp: observe_def)
qed

lemma establishes_ran:
  assumes "only_does F m"
  shows "establishes (\<lambda>a _. \<exists>u v. run_state m u = (Inr a, v)) m"
  unfolding establishes_def leaves_def using assms unfolding only_does_def by (metis snd_conv)

end
