(* ===== verification/Bundle_Laws.thy ===== *)
theory Bundle_Laws
  imports Source_Bundle Command_Query
begin

text \<open>
  What a bundle of sources has seen when it succeeds: the pinned origin, identity and gitlinks of every
  cached repository, and the digest of every archive; and what it published and removed. And what a
  materialised archive consists of.
\<close>

section \<open>Traces of the steps\<close>

text \<open>A step of which the trace does not matter.\<close>

lemma leaves_ignored: "only_does E m \<Longrightarrow> leaves (\<lambda>_ _. True) m"
  unfolding leaves_def only_does_def by (metis snd_conv)

lemma leaves_observed: "leaves (\<lambda>_ evs. evs = []) (with_err g (observe f))"
  by (rule leaves_with_err [OF leaves_observe])

lemma leaves_io_step: "leaves (\<lambda>_ evs. evs = []) (io_step ctx f)"
  unfolding io_step_def by (rule leaves_observed)

lemma leaves_bind_pure:
  "leaves (\<lambda>_ evs. evs = []) (do { r \<leftarrow> observe f; pure (g r) })"
  by (auto simp: leaves_def observe_run split: prod.splits)

text \<open>The complete output of a \<open>git\<close> command, and its text.\<close>

definition git_said :: "string \<Rightarrow> string list \<Rightarrow> bytes \<Rightarrow> event \<Rightarrow> bool" where
  "git_said repository args = complete_answer (git_request repository args (from_secs 30))"

definition git_answered :: "string \<Rightarrow> string list \<Rightarrow> string \<Rightarrow> event list \<Rightarrow> bool" where
  "git_answered repository args t evs \<longleftrightarrow>
     (\<exists>ev \<in> set evs. \<exists>b. git_said repository args b ev \<and> git_text_of b = Inr t)"

lemma git_answered_app [simp]:
  "git_answered repository args t (xs @ ys)
     \<longleftrightarrow> git_answered repository args t xs \<or> git_answered repository args t ys"
  by (auto simp: git_answered_def)

lemma git_result_Inr [simp]: "git_result po = Inr q \<longleftrightarrow> q = po \<and> po_termination po = Exit 0"
  by (auto simp: git_result_def)

lemma git_output_Inr [simp]:
  "git_output po = Inr b \<longleftrightarrow> \<not> po_stdout_overflow po \<and> \<not> po_stderr_overflow po \<and> b = po_stdout po"
  by (auto simp: git_output_def)

lemma leaves_run_git:
  "leaves (\<lambda>po evs. evs = [Ran (git_request repository args t) (Inr po)] \<and> po_termination po = Exit 0)
     (run_git_with_timeout bn repository args t)"
  unfolding run_git_with_timeout_def
  by (rule leaves_then [OF leaves_with_err [OF leaves_process] leaves_pure]) auto

lemma leaves_git_bytes:
  "leaves (\<lambda>b evs. \<exists>ev. evs = [ev] \<and> git_said repository args b ev) (git_bytes bn repository args)"
  unfolding git_bytes_def git_said_def complete_answer_def
  by (rule leaves_then [OF leaves_run_git leaves_pure]) auto

interpretation git: command_query "git_bytes bn" "\<lambda>repository args. git_request repository args (from_secs 30)"
  for bn
  by unfold_locales
    (rule leaves_git_bytes [unfolded git_said_def], auto simp: git_bytes_def run_git_with_timeout_def
      intro!: only_runs_attempt only_runs_with_err only_runs_process)

lemma leaves_git_text:
  "leaves (\<lambda>t evs. git_answered repository args t evs) (git_text bn repository args)"
  unfolding git_text_def git_answered_def
  by (rule leaves_then [OF leaves_git_bytes leaves_pure]) auto

lemma leaves_expect_git:
  "leaves (\<lambda>_ evs. git_answered repository (fst c) (snd c) evs) (expect_git bn repository err c)"
  unfolding expect_git_def
  by (rule leaves_then [OF leaves_git_text leaves_pure]) auto

lemma leaves_queries:
  "leaves (\<lambda>_ evs. list_all (\<lambda>c. git_answered repository (fst c) (snd c) evs) qs)
     (each_attempt (expect_git bn repository err) qs)"
proof (rule leaves_weaken [OF leaves_each [OF leaves_expect_git]])
  fix evs
  assume "\<exists>ess. evs = concat ess
      \<and> list_all2 (\<lambda>c es. \<exists>u. git_answered repository (fst c) (snd c) es) qs ess"
  then obtain ess where "evs = concat ess"
    and "list_all2 (\<lambda>c es. git_answered repository (fst c) (snd c) es) qs ess" by auto
  from this(2) this(1) show "list_all (\<lambda>c. git_answered repository (fst c) (snd c) evs) qs"
    by (induction arbitrary: evs) (auto simp: list_all_iff)
qed

section \<open>A verified source\<close>

definition identity_seen :: "string \<Rightarrow> source_record \<Rightarrow> event list \<Rightarrow> bool" where
  "identity_seen repository s evs \<longleftrightarrow> git_answered repository [''remote'', ''get-url'', ''origin''] (so_url s) evs
     \<and> (\<exists>qs. identity_queries s = Some qs
          \<and> list_all (\<lambda>c. git_answered repository (fst c) (snd c) evs) qs)"

text \<open>The gitlinks of the commit are the declared ones, and the bundled ones are locked sources.\<close>

definition gitlinks_seen :: "string \<Rightarrow> (string, source_record) bmap \<Rightarrow> source_record \<Rightarrow> event list \<Rightarrow> bool"
where
  "gitlinks_seen repository sources s evs \<longleftrightarrow>
     (\<exists>ev \<in> set evs. \<exists>b. git_said repository [''ls-tree'', ''-r'', ''-z'', so_commit s] b ev
        \<and> tree_gitlinks b = Inr (declared_gitlinks s))
     \<and> list_all (\<lambda>g. gl_disposition g = Bundled \<longrightarrow> (\<exists>name child. gl_source g = Some name
          \<and> bm_get sources name = Some child \<and> so_commit child = gl_commit g)) (so_gitlinks s)"

definition config_seen :: "string \<Rightarrow> event list \<Rightarrow> bool" where
  "config_seen repository evs \<longleftrightarrow> (\<exists>ev \<in> set evs. \<exists>b. git_said repository config_args b ev
     \<and> list_all (\<lambda>n. utf8_valid n \<and> \<not> affects_archive n) (config_names b))"

lemma bm_wf_eq:
  assumes "bm_wf m" "bm_wf n" "set m \<subseteq> set n" "length m = length n"
  shows "m = n"
proof -
  have d: "distinct m" "distinct n" using assms(1,2) by (auto dest!: bm_wf_distinct simp: distinct_map)
  then have "card (set m) = card (set n)" using assms(4) by (simp add: distinct_card)
  with assms(3) have "set m = set n" by (simp add: card_subset_eq)
  then have "bm_get m k = bm_get n k" for k
    using bm_get_Some [OF assms(1), of k] bm_get_Some [OF assms(2), of k] by (metis not_None_eq)
  then have "bm_get m = bm_get n" by (rule ext)
  then show ?thesis using bm.entries_unique [OF assms(1,2)] by simp
qed

lemma tree_gitlinks_wf: "tree_gitlinks b = Inr m \<Longrightarrow> bm_wf m"
  by (auto simp: tree_gitlinks_def)

lemma match_gitlinks_Inr:
  assumes "bm_wf actual"
  shows "match_gitlinks sources s actual = Inr () \<longleftrightarrow> actual = declared_gitlinks s
     \<and> list_all (\<lambda>g. gl_disposition g = Bundled \<longrightarrow> (\<exists>name child. gl_source g = Some name
          \<and> bm_get sources name = Some child \<and> so_commit child = gl_commit g)) (so_gitlinks s)"
proof -
  have wf: "bm_wf (declared_gitlinks s)" by (simp add: declared_gitlinks_def)
  have "check_declared s (declared_gitlinks s) l = Inr () \<longleftrightarrow> l \<in> set (declared_gitlinks s)" for l
    using bm_get_Some [OF wf, of "fst l" "snd l"]
    by (auto simp: check_declared_def split: option.splits)
  then have "(\<forall>l \<in> set actual. check_declared s (declared_gitlinks s) l = Inr ())
      \<and> length actual = length (declared_gitlinks s) \<longleftrightarrow> actual = declared_gitlinks s"
    using bm_wf_eq [OF assms wf] by auto
  moreover have "verify_gitlink_source sources s g = Inr () \<longleftrightarrow> (\<exists>name child. gl_source g = Some name
      \<and> bm_get sources name = Some child \<and> so_commit child = gl_commit g)" for g
    by (auto simp: verify_gitlink_source_def split: option.splits)
  ultimately show ?thesis by (auto simp: match_gitlinks_def list_all_iff)
qed

lemma leaves_verify_gitlinks:
  "leaves (\<lambda>_ evs. gitlinks_seen repository sources s evs) (verify_gitlinks bn repository s sources)"
  unfolding verify_gitlinks_def list_gitlinks_def
proof (rule leaves_then [OF leaves_then [OF leaves_git_bytes leaves_pure] leaves_pure])
  show "\<exists>ev b. xs @ ys = [ev] \<and> git_said repository [''ls-tree'', ''-r'', ''-z'', so_commit s] b ev
      \<and> tree_gitlinks b = Inr m"
    if "\<exists>ev. xs = [ev] \<and> git_said repository [''ls-tree'', ''-r'', ''-z'', so_commit s] b ev"
      "tree_gitlinks b = Inr m \<and> ys = []" for b m xs ys
    using that by auto
  show "gitlinks_seen repository sources s (xs @ ys)"
    if "\<exists>ev b. xs = [ev] \<and> git_said repository [''ls-tree'', ''-r'', ''-z'', so_commit s] b ev
        \<and> tree_gitlinks b = Inr m"
      "match_gitlinks sources s m = Inr u \<and> ys = []" for m u xs ys
  proof -
    from that(1) obtain ev b where b: "xs = [ev]" "tree_gitlinks b = Inr m"
      "git_said repository [''ls-tree'', ''-r'', ''-z'', so_commit s] b ev" by blast
    from that(2) have "match_gitlinks sources s m = Inr ()" by simp
    with match_gitlinks_Inr [OF tree_gitlinks_wf [OF b(2)]] b that(2)
    show ?thesis by (auto simp: gitlinks_seen_def)
  qed
qed

text \<open>What a step may do to files: write, and rename only to the archive it makes.\<close>

definition makes :: "string \<Rightarrow> event \<Rightarrow> bool" where
  "makes archive ev = (case ev of Renamed src dst \<Rightarrow> dst = archive | Made_Dir _ \<Rightarrow> False
     | Removed _ \<Rightarrow> False | _ \<Rightarrow> True)"

lemma makes_simps [simp]:
  "makes x (Ran rq r)" "makes x (Wrote p b)" "makes x (Was_Read p b)" "makes x (Renamed p q) \<longleftrightarrow> q = x"
  by (simp_all add: makes_def)

lemma does_io_step [simp]: "only_does E (io_step ctx f)"
  by (simp add: io_step_def only_runs_with_err)

lemma does_ignored [simp]: "only_does E (ignored f)"
  by (auto simp: ignored_def)

lemma does_removing: "only_does E m \<Longrightarrow> only_does E (removing_on_error bn p m)"
  unfolding removing_on_error_def by (intro only_runs_bind) (auto split: sum.split)

lemma does_run_git: "(\<And>r. E (Ran (git_request repository args t) r)) \<Longrightarrow>
   only_does E (run_git_with_timeout bn repository args t)"
  unfolding run_git_with_timeout_def
  by (intro only_runs_attempt only_runs_with_err only_does_process only_runs_pure)

lemma does_git: "(\<And>rq r. E (Ran rq r)) \<Longrightarrow> only_does E (git_bytes bn repository args)"
    "(\<And>rq r. E (Ran rq r)) \<Longrightarrow> only_does E (git_text bn repository args)"
  unfolding git_text_def git_bytes_def
  by (intro only_runs_attempt only_runs_pure does_run_git; simp)+

lemma does_real_directory [simp]: "only_does E (require_real_directory bn p l)"
  unfolding require_real_directory_def by (intro only_runs_attempt does_if) simp_all

lemma does_safe_git_dir: "(\<And>rq r. E (Ran rq r)) \<Longrightarrow> only_does E (safe_git_dir bn repository)"
  unfolding safe_git_dir_def by (intro only_runs_attempt does_git) simp_all

lemma does_cache_metadata: "(\<And>rq r. E (Ran rq r)) \<Longrightarrow> only_does E (verify_safe_cache_metadata bn repository)"
  unfolding verify_safe_cache_metadata_def check_metadata_def
  by (intro only_runs_attempt only_runs_each only_runs_bind does_safe_git_dir) simp_all

lemma does_safe_config: "(\<And>rq r. E (Ran rq r)) \<Longrightarrow> only_does E (verify_safe_local_config bn repository)"
  unfolding verify_safe_local_config_def
  by (intro only_runs_attempt does_git does_cache_metadata) simp_all

lemma does_identity: "(\<And>rq r. E (Ran rq r)) \<Longrightarrow> only_does E (verify_identity bn repository s)"
  unfolding verify_identity_def expect_git_def
  by (auto split: option.split intro!: only_runs_each only_runs_attempt does_git)

lemma does_origin: "(\<And>rq r. E (Ran rq r)) \<Longrightarrow> only_does E (verify_origin bn repository s)"
  unfolding verify_origin_def by (intro only_runs_attempt does_git) simp_all

lemma does_gitlinks: "(\<And>rq r. E (Ran rq r)) \<Longrightarrow> only_does E (verify_gitlinks bn repository s sources)"
  unfolding verify_gitlinks_def list_gitlinks_def by (intro only_runs_attempt does_git) simp_all

lemma does_create_draft [simp]: "only_does E (create_draft bn p)"
  by (simp add: create_draft_def only_runs_with_err)

lemma does_append: "(\<And>b. E (Wrote p b)) \<Longrightarrow> only_does E (append_to bn ctx p b)"
  unfolding append_to_def by (intro only_runs_attempt only_runs_bind only_does_emit) simp_all

lemma does_open_object [simp]: "only_does E (open_verified_lfs_object bn git_dir p)"
  unfolding open_verified_lfs_object_def lfs_object_path_def hash_handle_def Let_def
  by (intro only_runs_attempt only_runs_with_err) simp_all

lemma does_append_entry: "(\<And>b. E (Wrote p b)) \<Longrightarrow> only_does E (append_entry bn git_dir p t)"
  unfolding append_entry_def
  by (intro only_runs_attempt only_runs_pure) (auto split: option.split intro!: only_runs_attempt does_append)

lemma does_materialize: "(\<And>b. E (Wrote p b)) \<Longrightarrow> only_does E (materialize_entries bn raw git_dir p)"
  unfolding materialize_entries_def append_result_def
  by (intro only_runs_attempt only_runs_each does_append)
    (auto split: sum.split intro!: does_append_entry)

lemma does_copy_raw: "(\<And>b. E (Wrote p b)) \<Longrightarrow> only_does E (copy_raw_archive bn raw p)"
  unfolding copy_raw_archive_def open_raw_def by (intro only_runs_attempt does_append) simp_all

lemma does_rename: "E (Renamed p q) \<Longrightarrow> only_does E (rename_file bn ctx p q)"
  unfolding rename_file_def by (intro only_runs_attempt only_runs_bind only_does_emit) simp_all

lemma does_lfs_archive: "only_does (makes archive) (materialize_lfs_archive bn repository raw archive)"
  unfolding materialize_lfs_archive_def archive_has_lfs_pointers_def open_raw_def Let_def
  by (intro only_runs_attempt does_if does_removing does_safe_git_dir does_materialize does_copy_raw
      does_rename) simp_all

lemma does_create_archive:
  "only_does (makes archive) (create_archive_from_commit bn repository n commit archive)"
  unfolding create_archive_from_commit_def Let_def
  by (intro only_runs_attempt only_runs_bind does_removing does_run_git does_lfs_archive) simp_all

lemma does_hash_file: "(\<And>b. E (Was_Read p b)) \<Longrightarrow> only_does E (hash_file bn p)"
  unfolding hash_file_def by (intro only_runs_attempt only_runs_bind only_does_emit) simp_all

lemma does_bundle_source:
  "only_does (makes (path_join staging (archive_name s))) (bundle_source bn sources cache staging s)"
  unfolding bundle_source_def Let_def
  by (intro only_runs_attempt does_if does_safe_config does_origin does_identity does_gitlinks
      does_create_archive does_hash_file) simp_all

section \<open>A source and its archive\<close>

lemma leaves_safe_config:
  "leaves (\<lambda>_ evs. config_seen repository evs) (verify_safe_local_config bn repository)"
  unfolding verify_safe_local_config_def
proof (rule leaves_then [OF leaves_git_bytes leaves_then [OF leaves_pure leaves_ignored]])
  show "only_does (\<lambda>_. True) (verify_safe_cache_metadata bn repository)"
    by (rule does_cache_metadata) simp
  show "\<forall>n \<in> set (config_names b). utf8_valid n \<and> \<not> affects_archive n"
    if "check_each check_config_name (config_names b) = Inr a \<and> xs = []" for b a and xs :: "event list"
    using that by (auto simp: check_config_name_def split: if_splits)
qed (auto simp: config_seen_def list_all_iff)

lemma leaves_identity:
  "leaves (\<lambda>_ evs. \<exists>qs. identity_queries s = Some qs
      \<and> list_all (\<lambda>c. git_answered repository (fst c) (snd c) evs) qs) (verify_identity bn repository s)"
  unfolding verify_identity_def
  by (cases "identity_queries s") (auto simp: leaves_def intro: leaves_weaken [OF leaves_queries,
      unfolded leaves_def, rule_format])

lemma leaves_origin:
  "leaves (\<lambda>_ evs. git_answered repository [''remote'', ''get-url'', ''origin''] (so_url s) evs)
     (verify_origin bn repository s)"
  unfolding verify_origin_def by (rule leaves_then [OF leaves_git_text leaves_pure]) auto

lemma leaves_hash_file:
  "leaves (\<lambda>d evs. \<exists>b. evs = [Was_Read p b] \<and> d = bn_sha256 bn b) (hash_file bn p)"
  unfolding hash_file_def
  by (auto simp: leaves_def attempt_Inr run_state_emit io_step_def with_err_Inr observe_run)

text \<open>What a success for one source has seen, with the digest of the archive last.\<close>

definition source_seen :: "'e bundler \<Rightarrow> (string, source_record) bmap \<Rightarrow> string \<Rightarrow> source_record
    \<Rightarrow> bundle_artifact option \<Rightarrow> event list \<Rightarrow> bool" where
  "source_seen bn sources staging s r evs \<longleftrightarrow> (\<exists>repository content es.
     evs = es @ [Was_Read (path_join staging (archive_name s)) content]
     \<and> config_seen repository es \<and> identity_seen repository s es
     \<and> gitlinks_seen repository sources s es
     \<and> bn_sha256 bn content = so_archive_sha256 s)
   \<and> r = (if so_redistribution s = Source_Allowed
          then Some \<lparr>ba_filename = archive_name s, ba_sha256 = so_archive_sha256 s\<rparr> else None)"

lemma seen_app:
  "config_seen repository xs \<Longrightarrow> config_seen repository (xs @ ys)"
  "config_seen repository ys \<Longrightarrow> config_seen repository (xs @ ys)"
  "identity_seen repository s xs \<Longrightarrow> identity_seen repository s (xs @ ys)"
  "identity_seen repository s ys \<Longrightarrow> identity_seen repository s (xs @ ys)"
  "gitlinks_seen repository sources s xs \<Longrightarrow> gitlinks_seen repository sources s (xs @ ys)"
  "gitlinks_seen repository sources s ys \<Longrightarrow> gitlinks_seen repository sources s (xs @ ys)"
  by (auto simp: config_seen_def identity_seen_def gitlinks_seen_def list_all_iff)

text \<open>A trace that ends with the digest of an archive, after events that satisfy \<open>K\<close>.\<close>

definition ends_hashed :: "string \<Rightarrow> (bytes \<Rightarrow> 'a \<Rightarrow> bool) \<Rightarrow> (event list \<Rightarrow> bool) \<Rightarrow> 'a \<Rightarrow> event list \<Rightarrow> bool"
where
  "ends_hashed archive D K r evs \<longleftrightarrow>
     (\<exists>content es. evs = es @ [Was_Read archive content] \<and> K es \<and> D content r)"

lemma hashed_after:
  assumes "leaves (\<lambda>_ xs. J xs) m" "\<And>a. leaves (ends_hashed archive D K) (f a)"
    and "\<And>xs ys. J xs \<Longrightarrow> J (xs @ ys)" "\<And>xs ys. K ys \<Longrightarrow> K (xs @ ys)"
  shows "leaves (ends_hashed archive D (\<lambda>es. J es \<and> K es)) (attempt m f)"
proof (rule leaves_then [OF assms(1,2)])
  fix r xs ys
  assume "J xs" "ends_hashed archive D K r ys"
  then obtain content es where "ys = es @ [Was_Read archive content]" "K es" "D content r"
    unfolding ends_hashed_def by blast
  with \<open>J xs\<close> assms(3,4) show "ends_hashed archive D (\<lambda>es. J es \<and> K es) r (xs @ ys)"
    unfolding ends_hashed_def by (intro exI [of _ content] exI [of _ "xs @ es"]) simp
qed

definition verified_content :: "'e bundler \<Rightarrow> source_record \<Rightarrow> bytes \<Rightarrow> bundle_artifact option \<Rightarrow> bool" where
  "verified_content bn s content r = (bn_sha256 bn content = so_archive_sha256 s
     \<and> r = (if so_redistribution s = Source_Allowed
          then Some \<lparr>ba_filename = archive_name s, ba_sha256 = so_archive_sha256 s\<rparr> else None))"

lemma leaves_hash_checked:
  "leaves (ends_hashed archive (verified_content bn s) (\<lambda>_. True))
     (attempt (hash_file bn archive) (\<lambda>digest.
     attempt (pure (ensure (digest = so_archive_sha256 s) err)) (\<lambda>_.
     if so_redistribution s = Source_Allowed
     then pure (Inr (Some \<lparr>ba_filename = archive_name s, ba_sha256 = digest\<rparr>))
     else attempt (io_step ctx (bn_remove_file bn archive)) (\<lambda>_. pure (Inr None)))))"
proof (rule leaves_then [OF leaves_hash_file])
  fix digest
  show "leaves (\<lambda>r evs. evs = [] \<and> digest = so_archive_sha256 s
      \<and> r = (if so_redistribution s = Source_Allowed
          then Some \<lparr>ba_filename = archive_name s, ba_sha256 = digest\<rparr> else None))
    (attempt (pure (ensure (digest = so_archive_sha256 s) err)) (\<lambda>_.
     if so_redistribution s = Source_Allowed
     then pure (Inr (Some \<lparr>ba_filename = archive_name s, ba_sha256 = digest\<rparr>))
     else attempt (io_step ctx (bn_remove_file bn archive)) (\<lambda>_. pure (Inr None))))"
    by (auto simp: leaves_def attempt_Inr io_step_def with_err_Inr observe_run split: if_splits)
qed (auto simp: ends_hashed_def verified_content_def)

lemma leaves_bundle_source:
  "leaves (source_seen bn sources staging s) (bundle_source bn sources cache staging s)"
proof -
  let ?archive = "path_join staging (archive_name s)"
  let ?D = "verified_content bn s"
  note anything = leaves_ignored [where E = "\<lambda>_. True"]
  have "leaves (ends_hashed ?archive ?D (\<lambda>es. config_seen repository es
      \<and> git_answered repository [''remote'', ''get-url'', ''origin''] (so_url s) es
      \<and> (\<exists>qs. identity_queries s = Some qs
          \<and> list_all (\<lambda>c. git_answered repository (fst c) (snd c) es) qs)
      \<and> gitlinks_seen repository sources s es \<and> True \<and> True))
    (attempt (verify_safe_local_config bn repository) (\<lambda>_.
     attempt (verify_origin bn repository s) (\<lambda>_.
     attempt (verify_identity bn repository s) (\<lambda>_.
     attempt (verify_gitlinks bn repository s sources) (\<lambda>_.
     attempt (create_archive_from_commit bn repository (so_name s) (so_commit s) ?archive) (\<lambda>_.
     attempt (hash_file bn ?archive) (\<lambda>digest.
     attempt (pure (ensure (digest = so_archive_sha256 s) (bundle_err ''SOURCE_BUNDLE_ARCHIVE_MISMATCH''
       (''archive digest mismatch for '' @ so_name s)))) (\<lambda>_.
     if so_redistribution s = Source_Allowed
     then pure (Inr (Some \<lparr>ba_filename = archive_name s, ba_sha256 = digest\<rparr>))
     else attempt (io_step ''remove external-only source archive'' (bn_remove_file bn ?archive)) (\<lambda>_.
       pure (Inr None))))))))))" for repository
    by (rule hashed_after [OF leaves_safe_config hashed_after [OF leaves_origin
          hashed_after [OF leaves_identity hashed_after [OF leaves_verify_gitlinks
          hashed_after [OF leaves_ignored [OF does_create_archive] leaves_hash_checked]]]]])
      (auto simp: seen_app list_all_iff)
  then have "leaves (source_seen bn sources staging s)
    (attempt (verify_safe_local_config bn repository) (\<lambda>_.
     attempt (verify_origin bn repository s) (\<lambda>_.
     attempt (verify_identity bn repository s) (\<lambda>_.
     attempt (verify_gitlinks bn repository s sources) (\<lambda>_.
     attempt (create_archive_from_commit bn repository (so_name s) (so_commit s) ?archive) (\<lambda>_.
     attempt (hash_file bn ?archive) (\<lambda>digest.
     attempt (pure (ensure (digest = so_archive_sha256 s) (bundle_err ''SOURCE_BUNDLE_ARCHIVE_MISMATCH''
       (''archive digest mismatch for '' @ so_name s)))) (\<lambda>_.
     if so_redistribution s = Source_Allowed
     then pure (Inr (Some \<lparr>ba_filename = archive_name s, ba_sha256 = digest\<rparr>))
     else attempt (io_step ''remove external-only source archive'' (bn_remove_file bn ?archive)) (\<lambda>_.
       pure (Inr None))))))))))" for repository
    by (rule leaves_weaken) (auto simp: ends_hashed_def verified_content_def source_seen_def identity_seen_def)
  then show ?thesis
    unfolding bundle_source_def Let_def
    by (rule leaves_silent [OF does_real_directory])
qed

section \<open>The whole bundle\<close>

lemma collect_attempt_trace:
  assumes "\<And>x. leaves (P x) (f x)" "run_state (collect_attempt f xs) w = (Inr ys, w')"
  shows "\<exists>ess. log w' = log w @ concat ess \<and> length ys = length xs
     \<and> list_all2 (\<lambda>(x, y) es. P x y es) (zip xs ys) ess"
  using assms(2)
proof (induction xs arbitrary: w ys)
  case Nil
  then show ?case by (intro exI [of _ "[]"]) simp
next
  case (Cons x xs)
  then obtain y u zs where y: "run_state (f x) w = (Inr y, u)"
    and zs: "run_state (collect_attempt f xs) u = (Inr zs, w')" and ys: "ys = y # zs"
    by (auto simp: attempt_Inr)
  from leavesD [OF assms(1) y] obtain es where "log u = log w @ es" "P x y es" by blast
  moreover from Cons.IH [OF zs] obtain ess where "log w' = log u @ concat ess" "length zs = length xs"
    "list_all2 (\<lambda>(x, y) es. P x y es) (zip xs zs) ess" by blast
  ultimately show ?case using ys by (intro exI [of _ "es # ess"]) simp
qed

definition artifact_of :: "source_record \<Rightarrow> bundle_artifact" where
  "artifact_of s = \<lparr>ba_filename = archive_name s, ba_sha256 = so_archive_sha256 s\<rparr>"

definition allowed_artifacts :: "source_lock \<Rightarrow> bundle_artifact list" where
  "allowed_artifacts l = map artifact_of (filter (\<lambda>s. so_redistribution s = Source_Allowed) (sl_sources l))"

definition locked_sources :: "source_lock \<Rightarrow> (string, source_record) bmap" where
  "locked_sources l = bm_of_list (map (\<lambda>s. (so_name s, s)) (sl_sources l))"

definition sums_path :: "string \<Rightarrow> string" where
  "sums_path dir = path_join dir ''SHA256SUMS''"

text \<open>The renames of a publication, in order.\<close>

definition publication :: "string \<Rightarrow> string \<Rightarrow> bundle_artifact list \<Rightarrow> event list" where
  "publication staging out as =
     map (\<lambda>a. Renamed (path_join staging (ba_filename a)) (path_join out (ba_filename a))) as
     @ [Renamed (sums_path staging) (sums_path out)]"

text \<open>The trace of a complete staging: every source verified, then the checksums of the archives.\<close>

definition staged :: "'e bundler \<Rightarrow> source_lock \<Rightarrow> string \<Rightarrow> event list \<Rightarrow> bool" where
  "staged bn l staging evs \<longleftrightarrow> (\<exists>ess. list_all2 (\<lambda>s es. \<exists>r. source_seen bn (locked_sources l) staging s r es)
       (sl_sources l) ess
     \<and> evs = concat ess @ map (\<lambda>a. Wrote (sums_path staging) (checksum_line a)) (allowed_artifacts l))"

lemma source_seen_artifacts:
  "length ys = length ss \<Longrightarrow> list_all2 (\<lambda>(s, r) es. source_seen bn sources staging s r es) (zip ss ys) ess
   \<Longrightarrow> List.map_filter id ys = map artifact_of (filter (\<lambda>s. so_redistribution s = Source_Allowed) ss)
     \<and> list_all2 (\<lambda>s es. \<exists>r. source_seen bn sources staging s r es) ss ess"
proof (induction ss arbitrary: ys ess)
  case (Cons s ss)
  then obtain r rs es esss where "ys = r # rs" "ess = es # esss" "length rs = length ss"
    "source_seen bn sources staging s r es"
    "list_all2 (\<lambda>(s, r) es. source_seen bn sources staging s r es) (zip ss rs) esss"
    by (cases ys) (auto simp: list_all2_Cons1)
  moreover from this(4) have "r = (if so_redistribution s = Source_Allowed then Some (artifact_of s) else None)"
    by (simp add: source_seen_def artifact_of_def)
  ultimately show ?case using Cons.IH [of rs esss] by (auto simp: List.map_filter_def)
qed (simp add: List.map_filter_def)

lemma leaves_append: "leaves (\<lambda>_ evs. evs = [Wrote p b]) (append_to bn ctx p b)"
  by (auto simp: leaves_def append_to_def attempt_Inr run_state_emit io_step_def with_err_Inr observe_run)

lemma leaves_rename: "leaves (\<lambda>_ evs. evs = [Renamed p q]) (rename_file bn ctx p q)"
  by (auto simp: leaves_def rename_file_def attempt_Inr run_state_emit io_step_def with_err_Inr observe_run)

lemma leaves_checksums:
  "leaves (\<lambda>_ evs. evs = map (\<lambda>a. Wrote p (checksum_line a)) as) (write_checksums bn p as)"
proof -
  have "leaves (\<lambda>_ evs. evs = concat (map (\<lambda>a. [Wrote p (checksum_line a)]) as))
      (each_attempt (\<lambda>a. append_to bn ''write checksum manifest'' p (checksum_line a)) as)"
    by (rule leaves_each_exact) (rule leaves_append)
  then have each: "leaves (\<lambda>_ evs. evs = map (\<lambda>a. Wrote p (checksum_line a)) as)
      (each_attempt (\<lambda>a. append_to bn ''write checksum manifest'' p (checksum_line a)) as)" by simp
  show ?thesis
    unfolding write_checksums_def
    by (rule leaves_silent [OF does_io_step], rule leaves_then [OF each leaves_io_step]) simp
qed

lemma leaves_publish: "leaves (\<lambda>_ evs. evs = publication staging out as) (publish bn staging out as)"
proof -
  have "leaves (\<lambda>_ evs. evs = concat (map (\<lambda>a. [Renamed (path_join staging (ba_filename a))
        (path_join out (ba_filename a))]) as))
      (each_attempt (\<lambda>a. rename_file bn ''publish source archive''
         (path_join staging (ba_filename a)) (path_join out (ba_filename a))) as)"
    by (rule leaves_each_exact) (rule leaves_rename)
  then show ?thesis
    unfolding publish_def publication_def sums_path_def
    by (rule leaves_then [OF _ leaves_rename]) simp
qed

lemma does_publish: "only_does (\<lambda>ev. ev \<in> set (publication staging out as)) (publish bn staging out as)"
  unfolding publish_def publication_def sums_path_def
  by (intro only_runs_attempt only_runs_each does_rename) auto

lemma leaves_staging:
  "leaves (\<lambda>as evs. as = allowed_artifacts l \<and> staged bn l staging evs)
     (bundle_into_staging bn l cache staging)"
  unfolding leaves_def
proof (intro allI impI)
  fix w as w'
  assume "run_state (bundle_into_staging bn l cache staging) w = (Inr as, w')"
  then obtain rs u where
    rs: "run_state (collect_attempt (bundle_source bn (locked_sources l) cache staging) (sl_sources l)) w
      = (Inr rs, u)" and as: "as = List.map_filter id rs"
    and sums: "run_state (write_checksums bn (sums_path staging) (List.map_filter id rs)) u = (Inr (), w')"
    by (auto simp: bundle_into_staging_def Let_def attempt_Inr locked_sources_def sums_path_def)
  from collect_attempt_trace [OF leaves_bundle_source rs] obtain ess where
    ess: "log u = log w @ concat ess" "length rs = length (sl_sources l)"
    "list_all2 (\<lambda>(s, r) es. source_seen bn (locked_sources l) staging s r es) (zip (sl_sources l) rs) ess"
    by blast
  from source_seen_artifacts [OF ess(2,3)] as have as': "as = allowed_artifacts l"
    and seen: "list_all2 (\<lambda>s es. \<exists>r. source_seen bn (locked_sources l) staging s r es) (sl_sources l) ess"
    by (simp_all add: allowed_artifacts_def)
  from leavesD [OF leaves_checksums sums] as as' have
    "log w' = log u @ map (\<lambda>a. Wrote (sums_path staging) (checksum_line a)) (allowed_artifacts l)" by simp
  with ess(1) seen as' show "\<exists>evs. log w' = log w @ evs
      \<and> as = allowed_artifacts l \<and> staged bn l staging evs"
    unfolding staged_def by auto
qed

text \<open>What an incomplete staging may have done.\<close>

definition within_staging :: "source_lock \<Rightarrow> string \<Rightarrow> event \<Rightarrow> bool" where
  "within_staging l staging ev \<longleftrightarrow> (\<exists>s \<in> set (sl_sources l). makes (path_join staging (archive_name s)) ev)
     \<or> (\<exists>b. ev = Wrote (sums_path staging) b)"

lemma does_staging: "only_does (within_staging l staging) (bundle_into_staging bn l cache staging)"
proof -
  have "only_does (within_staging l staging) (bundle_source bn sources cache staging s)"
    if "s \<in> set (sl_sources l)" for sources s
    by (rule only_does_weaken [OF does_bundle_source]) (use that in \<open>auto simp: within_staging_def\<close>)
  then show ?thesis
    unfolding bundle_into_staging_def write_checksums_def Let_def sums_path_def [symmetric]
    by (intro only_runs_attempt only_runs_collect only_runs_each does_append only_runs_pure does_io_step)
      (auto simp: within_staging_def)
qed

text \<open>
  What a run of the bundling has done, by its result: nothing; or a staging directory made first and
  removed last, with either an incomplete staging and nothing published, or a complete staging and the
  publication, the whole of it if the run succeeded.
\<close>

definition bundle_trace :: "'e bundler \<Rightarrow> source_lock \<Rightarrow> string \<Rightarrow>
    (bundle_error, bundle_artifact list) result \<Rightarrow> event list \<Rightarrow> bool" where
  "bundle_trace bn l out r evs \<longleftrightarrow> (let staging = path_join out ''.source-bundle-staging'' in
     \<exists>es ps. evs = Made_Dir staging # es @ ps @ [Removed staging]
       \<and> (case r of
            Inr as \<Rightarrow> staged bn l staging es \<and> as = allowed_artifacts l
              \<and> ps = publication staging out as
          | Inl _ \<Rightarrow> ps = [] \<and> list_all (within_staging l staging) es
              \<or> staged bn l staging es
                \<and> list_all (\<lambda>ev. ev \<in> set (publication staging out (allowed_artifacts l))) ps))"

lemma stage_and_publish:
  assumes "run_state (attempt (bundle_into_staging bn l cache staging) (\<lambda>as.
      attempt (publish bn staging out as) (\<lambda>_. pure (Inr as)))) w = (r, w')"
  shows "\<exists>es ps. log w' = log w @ es @ ps \<and> (case r of
       Inr as \<Rightarrow> staged bn l staging es \<and> as = allowed_artifacts l \<and> ps = publication staging out as
     | Inl _ \<Rightarrow> ps = [] \<and> list_all (within_staging l staging) es
         \<or> staged bn l staging es
           \<and> list_all (\<lambda>ev. ev \<in> set (publication staging out (allowed_artifacts l))) ps)"
proof -
  obtain s u where s: "run_state (bundle_into_staging bn l cache staging) w = (s, u)" by fastforce
  show ?thesis
  proof (cases s)
    case (Inl e)
    with assms s have "r = Inl e" "w' = u" by (simp_all add: run_state_attempt)
    moreover obtain es where "log u = log w @ es" "list_all (within_staging l staging) es"
      by (rule only_doesE [OF does_staging s])
    ultimately show ?thesis by (intro exI [of _ es] exI [of _ "[]"]) simp
  next
    case (Inr as)
    from leavesD [OF leaves_staging] s Inr obtain es where
      es: "log u = log w @ es" "as = allowed_artifacts l" "staged bn l staging es" by blast
    obtain t v where t: "run_state (publish bn staging out as) u = (t, v)" by fastforce
    with assms s Inr have r: "r = (case t of Inl e \<Rightarrow> Inl e | Inr _ \<Rightarrow> Inr as)" "w' = v"
      by (auto simp: run_state_attempt split: sum.splits)
    show ?thesis
    proof (cases t)
      case failed: (Inl e)
      obtain ps where "log v = log u @ ps"
          "list_all (\<lambda>ev. ev \<in> set (publication staging out as)) ps"
        by (rule only_doesE [OF does_publish t])
      with es r failed show ?thesis by (intro exI [of _ es] exI [of _ ps]) simp
    next
      case published: (Inr x)
      from leavesD [OF leaves_publish] t published have "log v = log u @ publication staging out as"
        by blast
      with es r published show ?thesis
        by (intro exI [of _ es] exI [of _ "publication staging out as"]) simp
    qed
  qed
qed

lemma does_empty_output [simp]: "only_does E (require_empty_output bn p)"
  unfolding require_empty_output_def by (intro only_runs_attempt does_if) (auto split: list.split sum.split)

lemma bundle_sources_steps:
  assumes "run_state (bundle_sources bn lock_path repository_root cache out) w = (r, w')"
  shows "log w' = log w \<and> (\<exists>e. r = Inl e)
    \<or> (\<exists>l cache' out' evs u v x. run_state (validate_source_lock (bn_files bn) (bn_sha256 bn) (bn_toml bn)
          lock_path repository_root) w = (Inr l, u) \<and> sl_status l = Lock_Sealed
        \<and> run_state (require_real_directory bn cache ''source cache'') u = (Inr cache', v)
        \<and> run_state (require_empty_output bn out) v = (Inr out', x)
        \<and> log w' = log w @ evs \<and> bundle_trace bn l out' r evs)"
proof -
  have quiet: "only_does (\<lambda>_. False) (with_err g (validate_source_lock fs sha256 toml path root))"
    for g fs sha256 toml path root
    by (intro only_runs_with_err silent_lock)
  let ?lock = "validate_source_lock (bn_files bn) (bn_sha256 bn) (bn_toml bn) lock_path repository_root"
  obtain ls u1 where l: "run_state (with_err lock_failure ?lock) w = (ls, u1)" by fastforce
  show ?thesis
  proof (cases ls)
    case (Inl e)
    with assms l silent_run [OF quiet l] show ?thesis
      by (auto simp: bundle_sources_def run_state_attempt)
  next
    case lock: (Inr l)
    then have valid: "run_state ?lock w = (Inr l, u1)" using l by (simp add: with_err_Inr)
    have u1: "log u1 = log w" by (rule silent_run [OF quiet l])
    show ?thesis
    proof (cases "sl_status l = Lock_Sealed")
      case False
      with assms l lock u1 show ?thesis
        by (auto simp: bundle_sources_def run_state_attempt ensure_def split: prod.splits)
    next
      case sealed: True
      obtain c u2 where c: "run_state (require_real_directory bn cache ''source cache'') u1 = (c, u2)"
        by fastforce
      obtain d u3 where d: "run_state (require_empty_output bn out) u2 = (d, u3)" by fastforce
      have logs: "log u2 = log w" "log u3 = log w"
        using silent_run [OF does_real_directory c] silent_run [OF does_empty_output d] u1 by simp_all
      show ?thesis
      proof (cases "\<exists>cache' out'. c = Inr cache' \<and> d = Inr out'")
        case False
        then have "(\<exists>e. r = Inl e) \<and> log w' = log w"
          using assms l lock sealed c d logs
          by (cases c; cases d) (auto simp: bundle_sources_def run_state_attempt ensure_def)
        then show ?thesis by blast
      next
        case True
        then obtain cache' out' where cd: "c = Inr cache'" "d = Inr out'" by blast
        let ?staging = "path_join out' ''.source-bundle-staging''"
        obtain m u4 where m: "run_state (make_staging bn ?staging) u3 = (m, u4)" by fastforce
        show ?thesis
        proof (cases m)
          case (Inl e)
          with m have "log u4 = log u3"
            by (auto simp: make_staging_def run_state_attempt io_step_def with_err_def observe_run
                split: prod.splits sum.splits)
          with assms l lock sealed c d cd m Inl logs show ?thesis
            by (auto simp: bundle_sources_def run_state_attempt ensure_def Let_def)
        next
          case made: (Inr x)
          from m made have u4: "log u4 = log u3 @ [Made_Dir ?staging]"
            by (auto simp: make_staging_def attempt_Inr run_state_emit io_step_def with_err_Inr observe_run)
          obtain s u5 where s: "run_state (attempt (bundle_into_staging bn l cache' ?staging) (\<lambda>as.
              attempt (publish bn ?staging out' as) (\<lambda>_. pure (Inr as)))) u4 = (s, u5)" by fastforce
          with assms l lock sealed c d cd m made have r: "r = s"
            and w': "log w' = log u5 @ [Removed ?staging]"
            by (auto simp: bundle_sources_def run_state_attempt ensure_def Let_def remove_staging_def
                ignored_def run_state_emit observe_def split: prod.splits)
          from stage_and_publish [OF s] obtain es ps where
            "log u5 = log u4 @ es @ ps" and cases: "case s of
               Inr as \<Rightarrow> staged bn l ?staging es \<and> as = allowed_artifacts l
                 \<and> ps = publication ?staging out' as
             | Inl _ \<Rightarrow> ps = [] \<and> list_all (within_staging l ?staging) es
                 \<or> staged bn l ?staging es
                   \<and> list_all (\<lambda>ev. ev \<in> set (publication ?staging out' (allowed_artifacts l))) ps"
            by blast
          then have "log w' = log w @ Made_Dir ?staging # es @ ps @ [Removed ?staging]"
            using w' u4 logs by simp
          moreover have "bundle_trace bn l out' r (Made_Dir ?staging # es @ ps @ [Removed ?staging])"
            unfolding bundle_trace_def Let_def r using cases by blast
          ultimately show ?thesis using valid sealed c d unfolding cd by blast
        qed
      qed
    qed
  qed
qed

lemma bundle_sources_trace:
  assumes "run_state (bundle_sources bn lock_path repository_root cache out) w = (r, w')"
  shows "log w' = log w \<and> (\<exists>e. r = Inl e)
    \<or> (\<exists>l out' evs u v. run_state (validate_source_lock (bn_files bn) (bn_sha256 bn) (bn_toml bn)
          lock_path repository_root) u = (Inr l, v) \<and> sl_status l = Lock_Sealed
        \<and> log w' = log w @ evs \<and> bundle_trace bn l out' r evs)"
  using bundle_sources_steps [OF assms] by blast

section \<open>A materialised archive\<close>

text \<open>The contents of open files and of the raw archive, which do not change while they are read.\<close>

definition handle_contents :: "(nat \<Rightarrow> bytes) \<Rightarrow> 'e bundler \<Rightarrow> bool" where
  "handle_contents c bn \<longleftrightarrow> (\<forall>h e b. fst (bn_read_handle bn h e) = Inr b \<longrightarrow> b = c h)"

definition file_content :: "'e repo_files \<Rightarrow> string \<Rightarrow> bytes \<Rightarrow> bool" where
  "file_content fs p b \<longleftrightarrow> (\<forall>e x. fst (rf_read fs p e) = Inr x \<longrightarrow> x = b)"

text \<open>What an entry becomes: a pointer is replaced by the object it names, anything else is kept.\<close>

definition block_of :: "'e bundler \<Rightarrow> tar_entry \<Rightarrow> bytes \<Rightarrow> bool" where
  "block_of bn t blk \<longleftrightarrow> (let tc = bn_tar bn in case entry_pointer tc t of
       Inl _ \<Rightarrow> False
     | Inr (Some (_, Some p)) \<Rightarrow> (\<exists>content. bn_sha256 bn content = lp_oid p
         \<and> blk = tar_block tc (tar_resize tc (lp_size p) (te_header t)) content)
     | Inr _ \<Rightarrow> (\<exists>b. te_data t = Inr b \<and> blk = tar_block tc (te_header t) b))"

text \<open>The writes of a materialisation: one block for each entry, in order, and the end.\<close>

definition materialised :: "'e bundler \<Rightarrow> bytes \<Rightarrow> string \<Rightarrow> event list \<Rightarrow> bool" where
  "materialised bn raw draft evs \<longleftrightarrow> (\<exists>entries blocks. tar_entries (bn_tar bn) raw = Inr (map Inr entries)
     \<and> list_all2 (block_of bn) entries blocks
     \<and> evs = map (Wrote draft) (blocks @ [tar_end (bn_tar bn)]))"

lemma leaves_observe_value:
  "leaves (\<lambda>b evs. evs = [] \<and> (\<exists>e. fst (f e) = Inr b)) (io_step ctx f)"
  unfolding leaves_def io_step_def
  by (auto simp: with_err_Inr observe_run) (metis fst_conv)

lemma leaves_read_handle:
  assumes "handle_contents c bn"
  shows "leaves (\<lambda>b evs. evs = [] \<and> b = c h) (io_step ctx (bn_read_handle bn h))"
  by (rule leaves_weaken [OF leaves_observe_value]) (use assms in \<open>auto simp: handle_contents_def\<close>)

lemma leaves_open_object:
  assumes "handle_contents c bn"
  shows "leaves (\<lambda>h evs. evs = [] \<and> bn_sha256 bn (c h) = lp_oid p) (open_verified_lfs_object bn git_dir p)"
  unfolding leaves_def
proof (intro allI impI)
  fix w h w'
  assume run: "run_state (open_verified_lfs_object bn git_dir p) w = (Inr h, w')"
  then have "log w' = log w" by (rule silent_run [OF does_open_object])
  moreover from run obtain b e where "fst (bn_read_handle bn h e) = Inr b" "bn_sha256 bn b = lp_oid p"
    by (auto simp: open_verified_lfs_object_def hash_handle_def io_step_def attempt_Inr with_err_Inr
        observe_run) (metis fst_conv)
  ultimately show "\<exists>evs. log w' = log w @ evs \<and> evs = [] \<and> bn_sha256 bn (c h) = lp_oid p"
    using assms by (auto simp: handle_contents_def)
qed

lemma attempt_pure [simp]: "attempt (pure (Inr a)) f = f a"
  by (simp add: attempt_def pure_def)

lemma leaves_only: "only_does E m \<Longrightarrow> leaves (\<lambda>_ evs. list_all E evs) m"
  unfolding leaves_def only_does_def by (metis snd_conv)

lemma entry_data: "entry_pointer tc t = Inr (Some (b, p)) \<Longrightarrow> te_data t = Inr b"
  by (auto simp: entry_pointer_def and_then_Inr split: if_splits)

lemma leaves_append_entry:
  assumes "handle_contents c bn"
  shows "leaves (\<lambda>_ evs. \<exists>blk. evs = [Wrote draft blk] \<and> block_of bn t blk) (append_entry bn git_dir draft t)"
proof (cases "entry_pointer (bn_tar bn) t")
  case (Inl e)
  then show ?thesis by (simp add: append_entry_def leaves_def attempt_Inr)
next
  case (Inr r)
  consider "r = None" | b where "r = Some (b, None)" | b p where "r = Some (b, Some p)"
    by (cases r) (auto, metis option.exhaust)
  then show ?thesis
  proof cases
    case 1
    with Inr show ?thesis
      unfolding append_entry_def
      by (auto simp: leaves_def attempt_Inr block_of_def Let_def dest!: leavesD [OF leaves_append])
  next
    case (2 b)
    with Inr show ?thesis
      unfolding append_entry_def
      by (auto simp: leaves_def attempt_Inr block_of_def Let_def entry_data dest!: leavesD [OF leaves_append])
  next
    case (3 b p)
    let ?block = "tar_block (bn_tar bn) (tar_resize (bn_tar bn) (lp_size p) (te_header t))"
    have content: "leaves (\<lambda>_ evs. evs = [Wrote draft (?block (c h))])
      (attempt (io_step ''append materialized LFS object'' (bn_read_handle bn h)) (\<lambda>content.
         append_to bn ''append materialized LFS object'' draft (?block content)))" for h
      by (rule leaves_then [OF leaves_read_handle [OF assms] leaves_append]) simp
    have "leaves (\<lambda>_ evs. \<exists>content. bn_sha256 bn content = lp_oid p \<and> evs = [Wrote draft (?block content)])
      (attempt (open_verified_lfs_object bn git_dir p) (\<lambda>h.
       attempt (io_step ''append materialized LFS object'' (bn_read_handle bn h)) (\<lambda>content.
         append_to bn ''append materialized LFS object'' draft (?block content))))"
      by (rule leaves_then [OF leaves_open_object [OF assms] content]) auto
    then have "leaves (\<lambda>_ evs. \<exists>blk. evs = [Wrote draft blk] \<and> block_of bn t blk)
      (attempt (open_verified_lfs_object bn git_dir p) (\<lambda>h.
       attempt (io_step ''append materialized LFS object'' (bn_read_handle bn h)) (\<lambda>content.
         append_to bn ''append materialized LFS object'' draft (?block content))))"
      by (rule leaves_weaken) (auto simp: block_of_def Let_def Inr 3)
    then show ?thesis by (simp add: append_entry_def Inr 3 attempt_pure)
  qed
qed

lemma leaves_append_result:
  assumes "handle_contents c bn"
  shows "leaves (\<lambda>_ evs. \<exists>t blk. r = Inr t \<and> evs = [Wrote draft blk] \<and> block_of bn t blk)
    (append_result bn git_dir draft r)"
  by (cases r) (auto simp: append_result_def intro: leaves_refused leaves_weaken [OF leaves_append_entry [OF assms]])

lemma leaves_entries:
  assumes "handle_contents c bn"
  shows "leaves (\<lambda>_ evs. \<exists>ts blocks. entries = map Inr ts \<and> list_all2 (block_of bn) ts blocks
      \<and> evs = map (Wrote draft) blocks) (each_attempt (append_result bn git_dir draft) entries)"
proof (rule leaves_weaken [OF leaves_each [OF leaves_append_result [OF assms]]])
  fix evs :: "event list"
  assume "\<exists>ess. evs = concat ess \<and> list_all2 (\<lambda>r es. \<exists>(u::unit) t blk. r = Inr t \<and> es = [Wrote draft blk]
      \<and> block_of bn t blk) entries ess"
  then obtain ess where "list_all2 (\<lambda>r es. \<exists>(u::unit) t blk. r = Inr t \<and> es = [Wrote draft blk]
      \<and> block_of bn t blk) entries ess" and "evs = concat ess" by blast
  then show "\<exists>ts blocks. entries = map Inr ts \<and> list_all2 (block_of bn) ts blocks
      \<and> evs = map (Wrote draft) blocks"
  proof (induction arbitrary: evs)
    case (Cons r rs es ess)
    then obtain t blk where "r = Inr t" "es = [Wrote draft blk]" "block_of bn t blk" by blast
    moreover from Cons.IH [OF refl] obtain ts blocks where "rs = map Inr ts"
      "list_all2 (block_of bn) ts blocks" "concat ess = map (Wrote draft) blocks" by blast
    ultimately show ?case
      using Cons.prems by (intro exI [of _ "t # ts"] exI [of _ "blk # blocks"]) simp
  qed simp
qed

lemma leaves_materialize:
  assumes "handle_contents c bn"
  shows "leaves (\<lambda>_ evs. materialised bn raw draft evs) (materialize_entries bn raw git_dir draft)"
proof -
  have finish: "leaves (\<lambda>_ evs. evs = [Wrote draft (tar_end (bn_tar bn))])
    (attempt (append_to bn ''finish materialized archive'' draft (tar_end (bn_tar bn))) (\<lambda>_.
       io_step ''sync materialized archive'' (bn_sync bn draft)))"
    by (rule leaves_then [OF leaves_append leaves_io_step]) simp
  have body: "leaves (\<lambda>_ evs. \<exists>ts blocks. entries = map Inr ts \<and> list_all2 (block_of bn) ts blocks
      \<and> evs = map (Wrote draft) (blocks @ [tar_end (bn_tar bn)]))
    (attempt (each_attempt (append_result bn git_dir draft) entries) (\<lambda>_.
     attempt (append_to bn ''finish materialized archive'' draft (tar_end (bn_tar bn))) (\<lambda>_.
       io_step ''sync materialized archive'' (bn_sync bn draft))))" for entries
    by (rule leaves_then [OF leaves_entries [OF assms] finish]) auto
  have created: "only_does (\<lambda>_. False) (create_draft bn draft)" by (rule does_create_draft)
  show ?thesis
    unfolding materialize_entries_def
    by (rule leaves_silent [OF created leaves_then [OF leaves_pure body]])
      (auto simp: materialised_def entries_of_def)
qed

lemma leaves_removing: "leaves P m \<Longrightarrow> leaves P (removing_on_error bn p m)"
  by (fastforce simp: leaves_def removing_on_error_def split: prod.splits sum.splits)

lemma leaves_copy_raw:
  assumes "file_content (bn_files bn) raw b"
  shows "leaves (\<lambda>_ evs. evs = [Wrote draft b]) (copy_raw_archive bn raw draft)"
proof -
  have opened: "leaves (\<lambda>x evs. evs = [] \<and> x = b) (open_raw bn raw)"
    unfolding open_raw_def
    by (rule leaves_weaken [OF leaves_observe_value]) (use assms in \<open>auto simp: file_content_def\<close>)
  have written: "leaves (\<lambda>_ evs. evs = [Wrote draft x])
    (attempt (create_draft bn draft) (\<lambda>_.
     attempt (append_to bn ''copy filter-free raw archive'' draft x) (\<lambda>_.
       io_step ''sync filter-free raw archive'' (bn_sync bn draft))))" for x
    by (rule leaves_silent [OF does_create_draft leaves_then [OF leaves_append leaves_io_step]]) simp
  show ?thesis
    unfolding copy_raw_archive_def by (rule leaves_then [OF opened written]) simp
qed

text \<open>Whether an archive has an entry that is a pointer.\<close>

definition has_pointers :: "'e bundler \<Rightarrow> bytes \<Rightarrow> (bundle_error, bool) result" where
  "has_pointers bn b = and_then (entries_of (bn_tar bn) b) (any_pointer (bn_tar bn))"

definition archive_of :: "'e bundler \<Rightarrow> bytes \<Rightarrow> string \<Rightarrow> event list \<Rightarrow> bool" where
  "archive_of bn b draft evs \<longleftrightarrow> (case has_pointers bn b of
       Inl _ \<Rightarrow> False
     | Inr True \<Rightarrow> materialised bn b draft evs
     | Inr False \<Rightarrow> evs = [Wrote draft b])"

lemma leaves_lfs_archive:
  assumes "handle_contents c bn" "file_content (bn_files bn) raw b"
  shows "leaves (\<lambda>_ evs. \<exists>gs ws. evs = gs @ ws @ [Renamed (with_extension output ''materializing.tar'') output]
       \<and> list_all (ran (\<lambda>_. True)) gs
       \<and> archive_of bn b (with_extension output ''materializing.tar'') ws)
     (materialize_lfs_archive bn repository raw output)"
proof -
  let ?draft = "with_extension output ''materializing.tar''"
  have opened: "leaves (\<lambda>x evs. evs = [] \<and> x = b) (open_raw bn raw)"
    unfolding open_raw_def
    by (rule leaves_weaken [OF leaves_observe_value]) (use assms in \<open>auto simp: file_content_def\<close>)
  have pointers: "leaves (\<lambda>q evs. evs = [] \<and> has_pointers bn b = Inr q) (archive_has_lfs_pointers bn raw)"
    unfolding archive_has_lfs_pointers_def
    by (rule leaves_then [OF opened leaves_pure]) (simp add: has_pointers_def)
  have git: "only_does (ran (\<lambda>_. True)) (safe_git_dir bn repository)"
    by (rule does_safe_git_dir) simp
  have materialised: "leaves (\<lambda>_ evs. \<exists>ws. evs = ws @ [Renamed ?draft output] \<and> materialised bn b ?draft ws)
    (attempt (open_raw bn raw) (\<lambda>x.
       removing_on_error bn ?draft (attempt (materialize_entries bn x git_dir ?draft) (\<lambda>_.
         rename_file bn ''publish materialized archive'' ?draft output))))" for git_dir
  proof (rule leaves_then [OF opened leaves_removing [OF leaves_then [OF leaves_materialize [OF assms(1)] leaves_rename]]])
  qed auto
  have copied: "leaves (\<lambda>_ evs. evs = [Wrote ?draft b, Renamed ?draft output])
    (removing_on_error bn ?draft (attempt (copy_raw_archive bn raw ?draft) (\<lambda>_.
         rename_file bn ''publish materialized archive'' ?draft output)))"
    by (rule leaves_removing [OF leaves_then [OF leaves_copy_raw [OF assms(2)] leaves_rename]]) simp
  have branch: "leaves (\<lambda>_ evs. \<exists>ws. evs = ws @ [Renamed ?draft output] \<and> archive_of bn b ?draft ws)
    (if q then attempt (open_raw bn raw) (\<lambda>x.
        removing_on_error bn ?draft (attempt (materialize_entries bn x git_dir ?draft) (\<lambda>_.
          rename_file bn ''publish materialized archive'' ?draft output)))
     else removing_on_error bn ?draft (attempt (copy_raw_archive bn raw ?draft) (\<lambda>_.
         rename_file bn ''publish materialized archive'' ?draft output)))"
    if "has_pointers bn b = Inr q" for q git_dir
    using that leaves_weaken [OF materialised] leaves_weaken [OF copied]
    by (cases q) (simp_all add: archive_of_def)
  have publish: "leaves (\<lambda>_ evs. \<exists>ws. evs = ws @ [Renamed ?draft output] \<and> archive_of bn b ?draft ws)
    (attempt (archive_has_lfs_pointers bn raw) (\<lambda>q.
     if q then attempt (open_raw bn raw) (\<lambda>x.
        removing_on_error bn ?draft (attempt (materialize_entries bn x git_dir ?draft) (\<lambda>_.
          rename_file bn ''publish materialized archive'' ?draft output)))
     else removing_on_error bn ?draft (attempt (copy_raw_archive bn raw ?draft) (\<lambda>_.
         rename_file bn ''publish materialized archive'' ?draft output))))" for git_dir
    unfolding leaves_def
  proof (intro allI impI)
    fix w u w'
    assume "run_state (attempt (archive_has_lfs_pointers bn raw) (\<lambda>q.
       if q then attempt (open_raw bn raw) (\<lambda>x.
          removing_on_error bn ?draft (attempt (materialize_entries bn x git_dir ?draft) (\<lambda>_.
            rename_file bn ''publish materialized archive'' ?draft output)))
       else removing_on_error bn ?draft (attempt (copy_raw_archive bn raw ?draft) (\<lambda>_.
           rename_file bn ''publish materialized archive'' ?draft output)))) w = (Inr u, w')"
    then show "\<exists>evs. log w' = log w @ evs
        \<and> (\<exists>ws. evs = ws @ [Renamed ?draft output] \<and> archive_of bn b ?draft ws)"
      unfolding attempt_Inr [where m = "archive_has_lfs_pointers bn raw"]
      using leavesD [OF pointers] leavesD [OF branch] by (elim exE conjE) fastforce
  qed
  show ?thesis
    unfolding materialize_lfs_archive_def Let_def
    by (rule leaves_then [OF leaves_only [OF git] publish]) fastforce
qed

section \<open>Directories and archives of a run\<close>

text \<open>A directory that is no link, by its canonical name, and one that is empty as well.\<close>

definition real_directory :: "'e bundler \<Rightarrow> string \<Rightarrow> 'e \<Rightarrow> string \<Rightarrow> 'e \<Rightarrow> bool" where
  "real_directory bn p e d v \<longleftrightarrow> (\<exists>m u. rf_lstat (bn_files bn) p e = (Inr m, u) \<and> fm_kind m = Directory
     \<and> rf_canonicalize (bn_files bn) p u = (Inr d, v))"

definition empty_directory :: "'e bundler \<Rightarrow> string \<Rightarrow> 'e \<Rightarrow> string \<Rightarrow> 'e \<Rightarrow> bool" where
  "empty_directory bn p e d v \<longleftrightarrow> (\<exists>m u x. rf_lstat (bn_files bn) p e = (Inr m, u) \<and> fm_kind m = Directory
     \<and> bn_read_dir bn p u = (Inr [], x) \<and> rf_canonicalize (bn_files bn) p x = (Inr d, v))"

lemma io_step_run: "run_state (io_step ctx f) w = (Inr a, w') \<longleftrightarrow> (\<exists>e. f (env w) = (Inr a, e) \<and> w' = w\<lparr>env := e\<rparr>)"
  by (auto simp: io_step_def with_err_Inr observe_run)

lemma real_directory_run:
  "run_state (require_real_directory bn p label) w = (Inr d, w') \<longleftrightarrow>
     (\<exists>e. real_directory bn p (env w) d e \<and> w' = w\<lparr>env := e\<rparr>)"
  by (auto simp: require_real_directory_def real_directory_def attempt_Inr io_step_run split: if_splits)

lemma empty_directory_run:
  "run_state (require_empty_output bn p) w = (Inr d, w') \<longleftrightarrow>
     (\<exists>e. empty_directory bn p (env w) d e \<and> w' = w\<lparr>env := e\<rparr>)"
proof -
  have entries: "run_state (case entries of
      Inl e # _ \<Rightarrow> pure (Inl (bundle_io ''read output'' e))
    | Inr _ # _ \<Rightarrow> pure (Inl (output_invalid ''output directory must be empty''))
    | [] \<Rightarrow> io_step ctx f) v = (Inr d, w') \<longleftrightarrow> entries = [] \<and> (\<exists>e. f (env v) = (Inr d, e) \<and> w' = v\<lparr>env := e\<rparr>)"
    for entries :: "(io_error, 'b) result list" and ctx f and v :: "'a world"
    by (cases entries) (auto simp: io_step_run split: sum.split)
  show ?thesis
    unfolding require_empty_output_def empty_directory_def attempt_Inr
    by (auto simp: io_step_run attempt_Inr entries split: if_splits)
qed

text \<open>
  The archive of a commit: \<open>git archive\<close> wrote the raw archive and ended with 0; then the draft was
  written and renamed to the archive.
\<close>

definition archive_made :: "string \<Rightarrow> string \<Rightarrow> string \<Rightarrow> string \<Rightarrow> event list \<Rightarrow> bool" where
  "archive_made repository name commit archive evs \<longleftrightarrow>
     (let draft = with_extension archive ''materializing.tar'' in
     \<exists>po gs ws. evs = Ran (git_request repository
          (archive_args name (with_extension archive ''raw.tar'') commit) (from_secs 900)) (Inr po)
          # gs @ ws @ [Renamed draft archive]
     \<and> po_termination po = Exit 0 \<and> list_all (ran (\<lambda>_. True)) gs
     \<and> ws \<noteq> [] \<and> list_all (\<lambda>ev. \<exists>b. ev = Wrote draft b) ws)"

definition drafted :: "string \<Rightarrow> event list \<Rightarrow> bool" where
  "drafted draft evs \<longleftrightarrow> evs \<noteq> [] \<and> list_all (\<lambda>ev. \<exists>b. ev = Wrote draft b) evs"

lemma drafted_after:
  assumes "only_does (\<lambda>ev. \<exists>b. ev = Wrote draft b) m" "\<And>a. leaves (\<lambda>_. drafted draft) (f a)"
  shows "leaves (\<lambda>_. drafted draft) (attempt m f)"
  by (rule leaves_then [OF leaves_only [OF assms(1)] assms(2)]) (auto simp: drafted_def)

lemma drafted_append:
  "leaves (\<lambda>_. drafted draft) (attempt (append_to bn ctx draft b) (\<lambda>_. io_step ctx' f))"
  by (rule leaves_then [OF leaves_append leaves_io_step]) (simp add: drafted_def)

lemma drafted_materialize: "leaves (\<lambda>_. drafted draft) (materialize_entries bn raw git_dir draft)"
proof -
  have "only_does (\<lambda>ev. \<exists>b. ev = Wrote draft b) (each_attempt (append_result bn git_dir draft) entries)" for entries
    unfolding append_result_def
    by (intro only_runs_each) (auto split: sum.split intro!: does_append_entry)
  then show ?thesis
    unfolding materialize_entries_def by (intro drafted_after drafted_append) simp_all
qed

lemma drafted_copy: "leaves (\<lambda>_. drafted draft) (copy_raw_archive bn raw draft)"
  unfolding copy_raw_archive_def open_raw_def by (intro drafted_after drafted_append) simp_all

lemma leaves_create_archive:
  "leaves (\<lambda>_. archive_made repository name commit archive) (create_archive_from_commit bn repository name commit archive)"
proof -
  let ?draft = "with_extension archive ''materializing.tar''"
  let ?raw = "with_extension archive ''raw.tar''"
  let ?P = "\<lambda>_ evs. \<exists>ws. evs = ws @ [Renamed ?draft archive] \<and> drafted ?draft ws"
  have published: "leaves ?P (removing_on_error bn ?draft (attempt m (\<lambda>_. rename_file bn ctx ?draft archive)))"
    if "leaves (\<lambda>_. drafted ?draft) m" for m :: "('a, (bundle_error, unit) result) effect" and ctx
    by (rule leaves_removing [OF leaves_then [OF that leaves_rename]]) simp
  have publish: "leaves ?P (attempt (archive_has_lfs_pointers bn ?raw) (\<lambda>q.
     if q then attempt (open_raw bn ?raw) (\<lambda>x.
        removing_on_error bn ?draft (attempt (materialize_entries bn x git_dir ?draft) (\<lambda>_.
          rename_file bn ''publish materialized archive'' ?draft archive)))
     else removing_on_error bn ?draft (attempt (copy_raw_archive bn ?raw ?draft) (\<lambda>_.
         rename_file bn ''publish materialized archive'' ?draft archive))))" for git_dir
    unfolding archive_has_lfs_pointers_def open_raw_def
    by (intro leaves_silent leaves_if published drafted_materialize drafted_copy) (simp_all add: only_runs_attempt)
  have git: "only_does (ran (\<lambda>_. True)) (safe_git_dir bn repository)"
    by (rule does_safe_git_dir) simp
  have whole: "leaves (\<lambda>_ evs. \<exists>gs ws. evs = gs @ ws @ [Renamed ?draft archive] \<and> list_all (ran (\<lambda>_. True)) gs
      \<and> drafted ?draft ws) (materialize_lfs_archive bn repository ?raw archive)"
    unfolding materialize_lfs_archive_def Let_def
    by (rule leaves_then [OF leaves_only [OF git] publish]) fastforce
  have kept: "leaves (\<lambda>_ evs. \<exists>gs ws. evs = gs @ ws @ [Renamed ?draft archive] \<and> list_all (ran (\<lambda>_. True)) gs
      \<and> drafted ?draft ws) (do { r \<leftarrow> materialize_lfs_archive bn repository ?raw archive;
         ignored (bn_remove_file bn ?raw); pure r })"
    using whole by (auto simp: leaves_def ignored_def observe_def split: prod.splits)
  have args: "leaves (\<lambda>_. archive_made repository name commit archive)
     (attempt (removing_on_error bn ?raw
       (run_git_with_timeout bn repository (archive_args name ?raw commit) (from_secs 900))) (\<lambda>_. do {
         r \<leftarrow> materialize_lfs_archive bn repository ?raw archive;
         ignored (bn_remove_file bn ?raw);
         pure r
       }))"
    by (rule leaves_then [OF leaves_removing [OF leaves_run_git] kept])
      (auto simp: archive_made_def Let_def drafted_def)
  show ?thesis
    unfolding create_archive_from_commit_def Let_def
    by (intro leaves_silent args only_runs_bind only_runs_observe only_runs_pure)
qed

text \<open>
  The digest of the archive of a commit, from the run: the output did not exist, its parent is a real
  directory, and so is the repository, whose configuration was seen to be safe and whose commit was known;
  then the archive was made from it, and read.
\<close>

definition commit_hashed :: "'e bundler \<Rightarrow> string \<Rightarrow> string \<Rightarrow> string \<Rightarrow> string \<Rightarrow> 'e \<Rightarrow> string \<Rightarrow> event list \<Rightarrow> bool"
where
  "commit_hashed bn repository name commit output e d evs \<longleftrightarrow>
     is_source_identifier name \<and> lower_hex 40 commit
   \<and> (\<exists>io u parent p v real x cs rs as content.
       rf_lstat (bn_files bn) output e = (Inl io, u)
     \<and> path_parent output = Some parent \<and> real_directory bn parent u p v
     \<and> real_directory bn repository v real x
     \<and> evs = cs @ rs @ as @ [Was_Read output content]
     \<and> config_seen real cs \<and> git_answered real [''rev-parse'', peel commit] commit rs
     \<and> archive_made real name commit output as \<and> d = bn_sha256 bn content)"

lemma hash_cached_run:
  assumes "run_state (hash_cached_source bn repository name commit output) w = (Inr d, w')"
  shows "\<exists>evs. commit_hashed bn repository name commit output (env w) d evs \<and> log w' = log w @ evs"
proof -
  let ?err = "bundle_err ''SOURCE_BUNDLE_COMMIT_MISMATCH'' ''explicit commit is unavailable from the cached source''"
  from assms obtain io u parent p v real x w1 w2 w3 where
    ok: "is_source_identifier name" "lower_hex 40 commit" "rf_lstat (bn_files bn) output (env w) = (Inl io, u)"
      "path_parent output = Some parent" "real_directory bn parent u p v" "real_directory bn repository v real x"
    and runs: "run_state (verify_safe_local_config bn real) (w\<lparr>env := x\<rparr>) = (Inr (), w1)"
      "run_state (expect_git bn real ?err ([''rev-parse'', peel commit], commit)) w1 = (Inr (), w2)"
      "run_state (create_archive_from_commit bn real name commit output) w2 = (Inr (), w3)"
      "run_state (hash_file bn output) w3 = (Inr d, w')"
    unfolding hash_cached_source_def
    by (simp only: attempt_Inr real_directory_run absent_run run_state_pure ensure_Inr ok_or_Inr) auto
  obtain cs where cs: "log w1 = log w @ cs" "config_seen real cs"
    using leavesD [OF leaves_safe_config runs(1)] by auto
  obtain rs where rs: "log w2 = log w1 @ rs" "git_answered real [''rev-parse'', peel commit] commit rs"
    using leavesD [OF leaves_expect_git runs(2)] by auto
  obtain as where as: "log w3 = log w2 @ as" "archive_made real name commit output as"
    using leavesD [OF leaves_create_archive runs(3)] by auto
  obtain content where content: "log w' = log w3 @ [Was_Read output content]" "d = bn_sha256 bn content"
    using leavesD [OF leaves_hash_file runs(4)] by auto
  have "log w' = log w @ cs @ rs @ as @ [Was_Read output content]"
    using cs(1) rs(1) as(1) content(1) by simp
  moreover have "commit_hashed bn repository name commit output (env w) d (cs @ rs @ as @ [Was_Read output content])"
    unfolding commit_hashed_def using ok cs(2) rs(2) as(2) content(2) by blast
  ultimately show ?thesis by blast
qed

text \<open>The runs of a bundle that succeeds.\<close>

lemma bundle_sources_run:
  assumes "run_state (bundle_sources bn lock_path root cache out) w = (Inr as, w')"
  shows "\<exists>l u cache' x out' y evs.
     run_state (validate_source_lock (bn_files bn) (bn_sha256 bn) (bn_toml bn) lock_path root) w = (Inr l, u)
   \<and> sl_status l = Lock_Sealed \<and> real_directory bn cache (env u) cache' x \<and> empty_directory bn out x out' y
   \<and> bundle_trace bn l out' (Inr as) evs \<and> log w' = log w @ evs"
proof -
  from bundle_sources_steps [OF assms] obtain l cache' out' evs u v x where
    l: "run_state (validate_source_lock (bn_files bn) (bn_sha256 bn) (bn_toml bn) lock_path root) w = (Inr l, u)"
      "sl_status l = Lock_Sealed"
    and c: "run_state (require_real_directory bn cache ''source cache'') u = (Inr cache', v)"
    and d: "run_state (require_empty_output bn out) v = (Inr out', x)"
    and t: "log w' = log w @ evs" "bundle_trace bn l out' (Inr as) evs" by auto
  from c obtain y where y: "real_directory bn cache (env u) cache' y" "v = u\<lparr>env := y\<rparr>"
    unfolding real_directory_run by blast
  from d obtain z where "empty_directory bn out y out' z"
    unfolding empty_directory_run y(2) by auto
  with l t y(1) show ?thesis by blast
qed

end
