(* ===== verification/Source_Properties.thy ===== *)
theory Source_Properties
  imports Bundle_Laws
begin

text \<open>
  The properties of the source locks and of the bundles made from them.
\<close>

section \<open>A sealed lock of one source\<close>

definition sample_hex :: "nat \<Rightarrow> string" where
  "sample_hex n = replicate n CHR ''b''"

definition sample_source :: source_record where
  "sample_source = \<lparr>so_name = ''driver'', so_role = ''firmware'', so_kind = Git_Commit,
     so_url = ''https://example.org/driver.git'', so_tag = None, so_tag_object = None,
     so_commit = sample_hex 40, so_archive_sha256 = sample_hex 64, so_license_expression = ''MIT'',
     so_license_files = [''LICENSE''], so_license_evidence_sha256 = sample_hex 64,
     so_redistribution = Source_Allowed,
     so_gitlinks = [\<lparr>gl_path = ''third/party'', gl_commit = sample_hex 40,
       gl_disposition = Disabled, gl_source = None, gl_packages = [],
       gl_build_option = Some ''USE_PARTY=OFF''\<rparr>]\<rparr>"

definition sample_lock :: source_lock where
  "sample_lock = \<lparr>sl_schema_version = 1, sl_status = Lock_Sealed, sl_profile_id = ''fedora-44'',
     sl_target = \<lparr>tg_distribution_id = ''fedora'', tg_version_id = ''44'', tg_architecture = ''x86_64'',
       tg_pci_vendor = ''8086'', tg_pci_device = ''7d1d''\<rparr>,
     sl_sources = [sample_source]\<rparr>"

text \<open>A file system in which everything is a regular file with the content \<open>b\<close>.\<close>

definition sample_repository :: "bytes \<Rightarrow> unit repo_files" where
  "sample_repository b = \<lparr>rf_lstat = (\<lambda>_ e. (Inr \<lparr>fm_kind = Regular_File, fm_len = length b\<rparr>, e)),
     rf_canonicalize = (\<lambda>p e. (Inr p, e)), rf_is_file = (\<lambda>_ e. (True, e)),
     rf_read = (\<lambda>_ e. (Inr b, e))\<rparr>"

lemma sample_repository_still: "files_still (sample_repository b) e"
  by (simp add: files_still_def sample_repository_def)

lemma scalar_ok_graph: "v \<noteq> [] \<Longrightarrow> length v \<le> 4096 \<Longrightarrow> list_all is_graph v \<Longrightarrow> scalar_ok v"
  by (simp add: scalar_ok_def MAX_SCALAR_BYTES_def any_control_graph)

lemma sample_hex_ok:
  "0 < n \<Longrightarrow> n \<le> 4096 \<Longrightarrow> scalar_ok (sample_hex n)" "lower_hex n (sample_hex n)"
proof -
  have hex: "is_graph CHR ''b''" "is_lower_hex CHR ''b''" by code_simp+
  then show "0 < n \<Longrightarrow> n \<le> 4096 \<Longrightarrow> scalar_ok (sample_hex n)"
    by (intro scalar_ok_graph) (auto simp: sample_hex_def list_all_iff)
  show "lower_hex n (sample_hex n)" using hex by (simp add: lower_hex_def sample_hex_def list_all_iff)
qed

lemma sample_fields_ok: "source_fields_ok sample_source"
proof -
  have names: "is_source_identifier ''driver''" "is_source_identifier ''firmware''"
    "list_all is_graph ''https://example.org/driver.git''" "list_all is_graph ''driver''"
    "list_all is_graph ''firmware''" "list_all is_graph ''MIT''" by code_simp+
  then have "list_all scalar_ok (source_scalars sample_source)"
    by (simp add: source_scalars_def sample_source_def scalar_ok_graph sample_hex_ok)
  moreover have "is_https_url (so_url sample_source)"
    using names(3) by (simp add: is_https_url_def sample_source_def starts_with_def any_control_graph)
  moreover have "nonzero_sha256 (sample_hex 64)"
    by (simp add: nonzero_sha256_def sample_hex_ok) (simp add: sample_hex_def list_ex_iff)
  ultimately show ?thesis
    using names(1,2) sample_hex_ok(2) [of 40]
    by (simp add: source_fields_ok_def)
      (simp add: sample_source_def git_identity_ok_def MAX_LICENSE_FILES_def)
qed

lemma sample_lock_ok: "lock_ok (sample_repository b) (\<lambda>_. sample_hex 64) e ''/r'' sample_lock"
proof -
  have "relative_normal ''LICENSE''" "path_starts_with (path_join ''/r'' ''LICENSE'') ''/r''" by code_simp+
  then have "evidence_ok (sample_repository b) e ''/r'' [''LICENSE''] [b]"
    by (simp add: evidence_ok_def evidence_at_def sample_repository_def)
  moreover have "gitlinks_ok (so_gitlinks sample_source)" by code_simp
  ultimately have "source_ok (sample_repository b) (\<lambda>_. sample_hex 64) e ''/r'' sample_source"
    using sample_fields_ok unfolding source_ok_def by (auto simp: sample_source_def)
  moreover have "list_all (list_all is_graph) (lock_scalars sample_lock)"
    "lower_hex 4 (tg_pci_vendor (sl_target sample_lock))" "lower_hex 4 (tg_pci_device (sl_target sample_lock))"
    by code_simp+
  moreover from this(1) have "list_all scalar_ok (lock_scalars sample_lock)"
    by (simp add: lock_scalars_def sample_lock_def scalar_ok_graph)
  ultimately show ?thesis by (simp add: lock_ok_def) (simp add: sample_lock_def MAX_SOURCES_def)
qed

section \<open>Properties\<close>

text \<open>C21. On a file system at rest, a source lock is accepted exactly when it is no link, lies inside
the repository, is bounded and UTF-8, decodes, and satisfies the declarative predicate of a valid lock:
sources sorted by name, each with safe scalars, the tag fields its kind needs, nonzero digests, sorted
evidence files inside the repository whose joined content has the recorded digest, and sorted gitlinks
each with exactly the fields of its disposition.\<close>

theorem source_lock_exact:
  assumes "files_still fs (env w)"
  shows "fst (run_state (validate_source_lock fs sha256 toml path repository_root) w) = Inr l \<longleftrightarrow>
     (\<exists>m root canonical b. fst (rf_lstat fs path (env w)) = Inr m \<and> fm_kind m \<noteq> Symlink
        \<and> fst (rf_canonicalize fs repository_root (env w)) = Inr root
        \<and> fst (rf_canonicalize fs path (env w)) = Inr canonical \<and> path_starts_with canonical root
        \<and> fst (rf_read fs canonical (env w)) = Inr b
        \<and> length b \<le> MAX_SOURCE_LOCK_BYTES \<and> utf8_valid b \<and> toml b = Inr l
        \<and> lock_ok fs sha256 (env w) root l)"
  using value_run [OF settles_validate_source_lock [OF assms] refl] value_validate_source_lock [OF assms]
  by simp

theorem source_lock_exact_witness:
  "fst (run_state (validate_source_lock (sample_repository []) (\<lambda>_. sample_hex 64)
      (\<lambda>_. Inr sample_lock) ''/r/lock.toml'' ''/r'') \<lparr>env = (), log = []\<rparr>) = Inr sample_lock"
proof -
  have "path_starts_with ''/r/lock.toml'' ''/r''" by code_simp
  with sample_lock_ok [of "[]" "()"] show ?thesis
    by (subst source_lock_exact [OF sample_repository_still])
      (simp add: sample_repository_def MAX_SOURCE_LOCK_BYTES_def utf8_valid_def)
qed

text \<open>C20. A bundling run does nothing to the output unless the lock was accepted and is sealed. Then it
first makes its staging directory and last removes it; it publishes only after every locked source was
verified (safe configuration, pinned origin, pinned identity, exactly the declared gitlinks) and the
archive it made has the locked digest; and it succeeds only with exactly the archives that may be
redistributed and their checksums moved to the output.\<close>

theorem bundle_outcome:
  "case run_state (bundle_sources bn lock_path repository_root cache out) w of (r, w') \<Rightarrow>
     log w' = log w \<and> (\<exists>e. r = Inl e)
     \<or> (\<exists>l out' evs u v. run_state (validate_source_lock (bn_files bn) (bn_sha256 bn) (bn_toml bn)
            lock_path repository_root) u = (Inr l, v) \<and> sl_status l = Lock_Sealed
          \<and> log w' = log w @ evs \<and> bundle_trace bn l out' r evs)"
proof -
  obtain r w' where run: "run_state (bundle_sources bn lock_path repository_root cache out) w = (r, w')"
    by fastforce
  from bundle_sources_trace [OF run] show ?thesis unfolding run prod.case .
qed

section \<open>Pointers of large files\<close>

definition render_lfs_pointer :: "lfs_pointer \<Rightarrow> bytes" where
  "render_lfs_pointer p = LFS_VERSION @ ''oid sha256:'' @ lp_oid p @ [nl]
     @ ''size '' @ show_nat (lp_size p) @ [nl]"

lemma hex_no_newline:
  assumes "list_all is_lower_hex s"
  shows "nl \<notin> set s" "s \<noteq> [] \<Longrightarrow> last s \<noteq> cr"
proof -
  have "\<not> is_lower_hex nl" "\<not> is_lower_hex cr" by code_simp+
  with assms show "nl \<notin> set s" "s \<noteq> [] \<Longrightarrow> last s \<noteq> cr"
    by (auto simp: list_all_iff dest: last_in_set)
qed

lemma hex_ascii: "list_all is_lower_hex s \<Longrightarrow> is_ascii s"
  by (fastforce simp: is_ascii_def list_all_iff is_lower_hex_def is_digit_def)

lemma str_lines_three:
  assumes "nl \<notin> set a" "a \<noteq> []" "last a \<noteq> cr" "nl \<notin> set b" "b \<noteq> []" "last b \<noteq> cr"
    "nl \<notin> set c" "c \<noteq> []" "last c \<noteq> cr"
  shows "str_lines (a @ nl # b @ nl # c @ nl # []) = [a, b, c]"
  using assms by (simp add: str_lines_app)

lemma parse_rendered:
  assumes "lower_hex 64 (lp_oid p)" "lp_size p \<le> MAX_LFS_OBJECT_BYTES"
  shows "parse_lfs_pointer (render_lfs_pointer p) = Inr (Some p)"
proof -
  let ?v = "''version https://git-lfs.github.com/spec/v1''"
  let ?o = "''oid sha256:'' @ lp_oid p"
  let ?s = "''size '' @ show_nat (lp_size p)"
  from assms(1) have oid: "list_all is_lower_hex (lp_oid p)" "lp_oid p \<noteq> []"
    by (auto simp: lower_hex_def)
  have digits: "list_all is_lower_hex (show_nat (lp_size p))"
    using all_digitsD [OF all_digits_show_nat, of _ "lp_size p"]
    by (auto simp: list_all_iff is_lower_hex_def is_digit_def)
  have plain: "nl \<notin> set ?o" "last ?o \<noteq> cr" "nl \<notin> set ?s" "last ?s \<noteq> cr"
    using hex_no_newline [OF oid(1)] hex_no_newline [OF digits] oid(2) by auto
  have form: "render_lfs_pointer p = ?v @ nl # ?o @ nl # ?s @ nl # []"
    by (simp add: render_lfs_pointer_def LFS_VERSION_def)
  have lines: "str_lines (render_lfs_pointer p) = [?v, ?o, ?s]"
    unfolding form using plain by (intro str_lines_three) simp_all
  have "is_ascii (render_lfs_pointer p)"
    using hex_ascii [OF oid(1)] hex_ascii [OF digits]
    by (simp add: render_lfs_pointer_def LFS_VERSION_def is_ascii_def)
  then have utf8: "utf8_valid (render_lfs_pointer p)" by (rule utf8_valid_ascii)
  have ends: "ends_with [nl] (render_lfs_pointer p)" "starts_with LFS_VERSION (render_lfs_pointer p)"
    by (auto simp: ends_with_iff starts_with_iff render_lfs_pointer_def)
  have "lp_size p < 2 ^ 64" using assms(2) by (simp add: MAX_LFS_OBJECT_BYTES_def)
  then have "parse_u64 (show_nat (lp_size p)) = Some (of_nat (lp_size p))"
    "unat (of_nat (lp_size p) :: u64) = lp_size p"
    by (simp_all add: parse_u64_def unsigned_of_nat take_bit_nat_eq_self)
  with lines utf8 ends assms show ?thesis by (simp add: parse_lfs_pointer_def Let_def)
qed

text \<open>A pointer as Git LFS writes it is read back, whatever object it names, if the object has at
most 1 GiB.\<close>

theorem lfs_pointer_roundtrip:
  assumes "lower_hex 64 (lp_oid p)" "lp_size p \<le> MAX_LFS_OBJECT_BYTES"
  shows "parse_lfs_pointer (render_lfs_pointer p) = Inr (Some p)"
  using assms by (rule parse_rendered)

theorem lfs_pointer_roundtrip_witness:
  "parse_lfs_pointer (render_lfs_pointer \<lparr>lp_oid = sample_hex 64, lp_size = 1073741824\<rparr>)
     = Inr (Some \<lparr>lp_oid = sample_hex 64, lp_size = 1073741824\<rparr>)"
  by (rule lfs_pointer_roundtrip) (simp_all add: lower_hex_def sample_hex_def is_lower_hex_def
      MAX_LFS_OBJECT_BYTES_def list_all_iff)

section \<open>Materialised archives\<close>

text \<open>A system in which every archive is one entry, every object has the content \<open>object\<close>, and the
git directory is inside the repository.\<close>

definition sample_git :: "unit runner" where
  "sample_git rq e = (Inr \<lparr>po_termination = Exit 0, po_stdout = ''/r/.git'' @ [nl],
     po_stdout_overflow = False, po_stderr_overflow = False\<rparr>, e)"

definition sample_tar :: tar_codec where
  "sample_tar = \<lparr>tar_entries = (\<lambda>b. Inr [Inr \<lparr>te_header = ''header'', te_data = Inr b\<rparr>]),
     tar_is_file = (\<lambda>_. True), tar_size = (\<lambda>_. Inr 127), tar_resize = (\<lambda>n h. h @ show_nat n),
     tar_block = (\<lambda>h d. h @ d), tar_end = ''end''\<rparr>"

definition sample_bundler :: "bytes \<Rightarrow> unit bundler" where
  "sample_bundler b = \<lparr>bn_runner = sample_git,
     bn_files = \<lparr>rf_lstat = (\<lambda>p e. (Inr \<lparr>fm_kind = (if p = ''/r/.git'' then Directory else Regular_File),
         fm_len = 6\<rparr>, e)),
       rf_canonicalize = (\<lambda>p e. (Inr p, e)), rf_is_file = (\<lambda>_ e. (True, e)), rf_read = (\<lambda>_ e. (Inr b, e))\<rparr>,
     bn_sha256 = (\<lambda>_. sample_hex 64), bn_toml = (\<lambda>_. Inr sample_lock), bn_tar = sample_tar,
     bn_read_dir = (\<lambda>_ e. (Inr [], e)), bn_create_dir = (\<lambda>_ e. (Inr (), e)),
     bn_rename = (\<lambda>_ _ e. (Inr (), e)), bn_remove_file = (\<lambda>_ e. (Inr (), e)),
     bn_remove_dir_all = (\<lambda>_ e. (Inr (), e)), bn_create = (\<lambda>_ e. (Inr (), e)),
     bn_create_new = (\<lambda>_ e. (Inr (), e)), bn_append = (\<lambda>_ _ e. (Inr (), e)),
     bn_sync = (\<lambda>_ e. (Inr (), e)), bn_open_nofollow = (\<lambda>_ e. (Inr 0, e)),
     bn_fstat = (\<lambda>_ e. (Inr \<lparr>fm_kind = Regular_File, fm_len = 6\<rparr>, e)),
     bn_read_handle = (\<lambda>_ e. (Inr ''object'', e)), bn_rewind = (\<lambda>_ e. (Inr (), e))\<rparr>"

definition sample_pointer :: bytes where
  "sample_pointer = render_lfs_pointer \<lparr>lp_oid = sample_hex 64, lp_size = 6\<rparr>"

lemma sample_bundler_fields [simp]:
  "bn_tar (sample_bundler b) = sample_tar"
  "rf_read (bn_files (sample_bundler b)) p e = (Inr b, e)"
  "bn_read_handle (sample_bundler b) h e = (Inr ''object'', e)"
  "bn_sync (sample_bundler b) p e = (Inr (), e)"
  by (simp_all add: sample_bundler_def)

lemma fst_attempt:
  "fst (run_state m w) = Inr a \<Longrightarrow> (\<And>u. fst (run_state (f a) u) = Inr b)
   \<Longrightarrow> fst (run_state (attempt m f) w) = Inr b"
  by (cases "run_state m w") (simp add: run_state_attempt)

lemma fst_removing: "fst (run_state m w) = Inr a \<Longrightarrow> fst (run_state (removing_on_error bn p m) w) = Inr a"
  by (cases "run_state m w") (simp add: removing_on_error_def)

lemma run_observe_unit: "run_state (observe f) w = (fst (f ()), w)" for w :: "unit world"
  by (simp add: observe_def split: prod.split)

lemma run_io_unit: "run_state (io_step ctx f) w = (map_err (bundle_io ctx) (fst (f ())), w)"
  for w :: "unit world"
  by (simp add: io_step_def with_err_def run_observe_unit)

text \<open>C24. If open files and the raw archive do not change while they are read, a successful
materialisation queried git and then renamed exactly one draft to the output: the raw archive itself
when no entry is a pointer, and otherwise one block for each entry, in order, in which a pointer is
replaced by an object with the digest the pointer names and every other entry is kept.\<close>

theorem lfs_archive_exact:
  assumes "handle_contents c bn" "file_content (bn_files bn) raw b"
    and "run_state (materialize_lfs_archive bn repository raw output) w = (Inr (), w')"
  shows "\<exists>gs ws. log w' = log w @ gs @ ws @ [Renamed (with_extension output ''materializing.tar'') output]
       \<and> list_all (ran (\<lambda>_. True)) gs
       \<and> archive_of bn b (with_extension output ''materializing.tar'') ws"
  using leavesD [OF leaves_lfs_archive [OF assms(1,2)] assms(3)] by blast

theorem lfs_archive_exact_witness:
  "\<exists>gs ws. log (snd (run_state (materialize_lfs_archive (sample_bundler sample_pointer) ''/r'' ''/o/raw'' ''/o/a.tar'')
        \<lparr>env = (), log = []\<rparr>)) = gs @ ws @ [Renamed ''/o/a.materializing.tar'' ''/o/a.tar'']
     \<and> list_all (ran (\<lambda>_. True)) gs
     \<and> archive_of (sample_bundler sample_pointer) sample_pointer ''/o/a.materializing.tar'' ws"
proof -
  let ?bn = "sample_bundler sample_pointer"
  have fixed: "handle_contents (\<lambda>_. ''object'') ?bn" "file_content (bn_files ?bn) ''/o/raw'' sample_pointer"
    by (simp_all add: handle_contents_def file_content_def sample_bundler_def)
  have parsed: "parse_lfs_pointer sample_pointer = Inr (Some \<lparr>lp_oid = sample_hex 64, lp_size = 6\<rparr>)"
    unfolding sample_pointer_def by (rule parse_rendered) (simp_all add: sample_hex_ok MAX_LFS_OBJECT_BYTES_def)
  have draft: "with_extension ''/o/a.tar'' ''materializing.tar'' = ''/o/a.materializing.tar''" by code_simp
  have paths: "same_path ''/r/.git'' ''/r'' = False" "path_starts_with ''/r/.git'' ''/r''"
    "git_text_of (''/r/.git'' @ [nl]) = Inr ''/r/.git''" by code_simp+
  let ?evs = "[Ran (git_request ''/r'' [''rev-parse'', ''--absolute-git-dir''] (from_secs 30))
    (fst (sample_git (git_request ''/r'' [''rev-parse'', ''--absolute-git-dir''] (from_secs 30)) ()))]"
  have git: "run_state (safe_git_dir ?bn ''/r'') w = (Inr ''/r/.git'', w\<lparr>log := log w @ ?evs\<rparr>)"
    for w :: "unit world"
    using paths by (simp add: safe_git_dir_def git_text_def git_bytes_def run_git_with_timeout_def
        require_real_directory_def run_state_attempt run_io_unit run_observe_unit run_process_def
        sample_bundler_def sample_git_def git_result_def git_output_def with_err_def from_secs_def)
  have entries_of: "entries_of sample_tar b = Inr [Inr \<lparr>te_header = ''header'', te_data = Inr b\<rparr>]" for b
    by (simp add: entries_of_def sample_tar_def)
  have pointer: "entry_pointer sample_tar \<lparr>te_header = ''header'', te_data = Inr sample_pointer\<rparr>
      = Inr (Some (sample_pointer, Some \<lparr>lp_oid = sample_hex 64, lp_size = 6\<rparr>))"
    using parsed by (simp add: entry_pointer_def maybe_pointer_def sample_tar_def MAX_LFS_POINTER_BYTES_def)
  let ?root = "path_join ''/r/.git'' ''lfs/objects''"
  let ?object = "object_path ?root (sample_hex 64)"
  have object: "path_starts_with ?root ''/r/.git''" "path_starts_with ?object ?root" "?object \<noteq> ''/r/.git''"
    by code_simp+
  then have opened: "run_state (open_verified_lfs_object ?bn ''/r/.git'' \<lparr>lp_oid = sample_hex 64, lp_size = 6\<rparr>) w
      = (Inr 0, w)" for w :: "unit world"
    by (simp add: open_verified_lfs_object_def lfs_object_path_def Let_def hash_handle_def run_state_attempt
        run_io_unit run_observe_unit with_err_def sample_bundler_def)
  have created: "run_state (create_draft ?bn q) w = (Inr (), w)" for q and w :: "unit world"
    by (simp add: create_draft_def with_err_def run_observe_unit sample_bundler_def)
  have appended: "fst (run_state (append_to ?bn ctx q x) w) = Inr ()" for ctx q x and w :: "unit world"
    by (simp add: append_to_def run_state_attempt run_io_unit run_state_emit sample_bundler_def)
  have renamed: "fst (run_state (rename_file ?bn ctx q x) w) = Inr ()" for ctx q x and w :: "unit world"
    by (simp add: rename_file_def run_state_attempt run_io_unit run_state_emit sample_bundler_def)
  have entry: "fst (run_state (append_entry ?bn ''/r/.git'' q \<lparr>te_header = ''header'', te_data = Inr sample_pointer\<rparr>) w)
      = Inr ()" for q and w :: "unit world"
    using opened appended by (simp add: append_entry_def pointer run_state_attempt run_io_unit)
  have entries: "each_attempt (append_result ?bn ''/r/.git'' q) [Inr \<lparr>te_header = ''header'', te_data = Inr sample_pointer\<rparr>]
      = attempt (append_entry ?bn ''/r/.git'' q \<lparr>te_header = ''header'', te_data = Inr sample_pointer\<rparr>) (\<lambda>_. pure (Inr ()))"
    for q
    by (simp add: append_result_def)
  have "fst (run_state (materialize_entries ?bn sample_pointer ''/r/.git'' q) w) = Inr ()" for q and w :: "unit world"
    unfolding materialize_entries_def sample_bundler_fields entries_of attempt_pure entries
    by (intro fst_attempt) (simp_all add: created entry appended run_io_unit)
  then have published: "fst (run_state (removing_on_error ?bn q (attempt (materialize_entries ?bn sample_pointer ''/r/.git'' q)
      (\<lambda>_. rename_file ?bn ctx q x))) w) = Inr ()" for q ctx x and w :: "unit world"
    by (intro fst_removing fst_attempt) (simp_all add: renamed)
  have "run_state (archive_has_lfs_pointers ?bn ''/o/raw'') w = (Inr True, w)" for w :: "unit world"
    by (simp add: archive_has_lfs_pointers_def open_raw_def run_state_attempt run_io_unit entries_of pointer)
  then have "fst (run_state (materialize_lfs_archive ?bn ''/r'' ''/o/raw'' ''/o/a.tar'') \<lparr>env = (), log = []\<rparr>) = Inr ()"
    by (simp add: materialize_lfs_archive_def Let_def run_state_attempt git open_raw_def run_io_unit published)
  then show ?thesis
    using lfs_archive_exact [OF fixed, of "''/r''" "''/o/a.tar''" "\<lparr>env = (), log = []\<rparr>"]
    unfolding draft by (metis append_Nil prod.collapse world.select_convs(2))
qed

end
