(* ===== verification/Rpm_Package.thy ===== *)
theory Rpm_Package
  imports Source_Bundle Command_Query
begin

text \<open>
  \<open>xtask/src/fedora_package.rs\<close>: the inspection of a driver RPM and a firmware RPM. The system is a record
  \<open>packager\<close>: the process runner, the file system, SHA-256, and the decoders of \<open>serde_json\<close> for a string
  and for an optional string.
\<close>

record 'e packager =
  pk_runner :: "'e runner"
  pk_files :: "'e repo_files"
  pk_sha256 :: "bytes \<Rightarrow> string"
  pk_json :: "string \<Rightarrow> (string, string) result"
  pk_json_option :: "string \<Rightarrow> (string, string option) result"

section \<open>Standard library\<close>

text \<open>\<open>str::splitn\<close>.\<close>

fun splitn :: "nat \<Rightarrow> 'a \<Rightarrow> 'a list \<Rightarrow> 'a list list" where
  "splitn 0 c s = []"
| "splitn (Suc 0) c s = [s]"
| "splitn (Suc (Suc n)) c s = (case split_once c s of
     None \<Rightarrow> [s] | Some (a, b) \<Rightarrow> a # splitn (Suc n) c b)"

text \<open>\<open>u32::from_str_radix\<close> with radix 8.\<close>

definition is_octal :: "char \<Rightarrow> bool" where
  "is_octal c = (48 \<le> (of_char c :: nat) \<and> (of_char c :: nat) \<le> 55)"

definition octal_value :: "string \<Rightarrow> nat" where
  "octal_value s = foldl (\<lambda>n c. 8 * n + digit_val c) 0 s"

definition parse_octal :: "string \<Rightarrow> u32 option" where
  "parse_octal s =
     (let ds = (case s of c # d # ds \<Rightarrow> if c = CHR ''+'' then d # ds else s | _ \<Rightarrow> s)
      in if ds \<noteq> [] \<and> list_all is_octal ds \<and> octal_value ds < 2 ^ 32
         then Some (of_nat (octal_value ds)) else None)"

text \<open>The output of a query as lines, each of which is decoded.\<close>

definition decode_table :: "'x \<Rightarrow> (string \<Rightarrow> ('x, 'a) result) \<Rightarrow> bytes \<Rightarrow> ('x, 'a list) result" where
  "decode_table malformed row b = and_then (utf8_text malformed b) (\<lambda>t. traverse row (str_lines t))"

section \<open>Policy and records\<close>

definition DRIVER_NAME :: string where "DRIVER_NAME = ''intel-npu-driver''"
definition DRIVER_ARCH :: string where "DRIVER_ARCH = ''x86_64''"
definition DRIVER_LICENSE :: string where
  "DRIVER_LICENSE = ''/usr/share/licenses/intel-npu-driver/LICENSE.md''"
definition DRIVER_SONAME :: string where "DRIVER_SONAME = ''/usr/lib64/libze_intel_npu.so.1''"
definition DRIVER_VERSIONED :: string where
  "DRIVER_VERSIONED = ''/usr/lib64/libze_intel_npu.so.1.38.0''"
definition DRIVER_UNVERSIONED :: string where "DRIVER_UNVERSIONED = ''/usr/lib64/libze_intel_npu.so''"
definition FIRMWARE_NAME :: string where "FIRMWARE_NAME = ''intel-npu-stack-firmware''"
definition FIRMWARE_ARCH :: string where "FIRMWARE_ARCH = ''noarch''"
definition FIRMWARE_LICENSE_DIRECTORY :: string where
  "FIRMWARE_LICENSE_DIRECTORY = ''/usr/share/licenses/intel-npu-stack-firmware''"
definition FIRMWARE_NOTICE_MANIFEST :: string where
  "FIRMWARE_NOTICE_MANIFEST = ''/usr/share/licenses/intel-npu-stack-firmware/SHA256.json''"
definition FIRMWARE_LICENSE :: string where
  "FIRMWARE_LICENSE = ''/usr/share/licenses/intel-npu-stack-firmware/COPYRIGHT''"
definition FIRMWARE_PATH :: string where
  "FIRMWARE_PATH = ''/usr/lib/firmware/updates/intel/vpu/vpu_40xx_v1.bin''"
definition FIRMWARE_PROVIDE :: string where
  "FIRMWARE_PROVIDE = ''intel-npu-firmware = 1.38.0''"

record driver_package_policy =
  dp_driver_nevr :: string
  dp_loader_requirement :: string
  dp_firmware_nevr :: string
  dp_firmware_sha256 :: string

record package_error =
  pe_code :: string
  pe_message :: string

definition package_fault :: "string \<Rightarrow> string \<Rightarrow> package_error" where
  "package_fault code message = \<lparr>pe_code = code, pe_message = message\<rparr>"

record rpm_identity =
  ri_name :: string
  ri_nevr :: string
  ri_architecture :: string
  ri_file_digest_algorithm :: string

record rpm_relation =
  rl_name :: string
  rl_operator :: string
  rl_version :: "string option"

record rpm_file =
  rf_path :: string
  rf_mode :: u32
  rf_digest :: string
  rf_flags :: string

definition safe_scalar :: "string \<Rightarrow> bool" where
  "safe_scalar v = (v \<noteq> [] \<and> length v \<le> 4096 \<and> \<not> any_control v)"

definition driver_malformed :: package_error where
  "driver_malformed = package_fault ''FEDORA_PACKAGE_QUERY_MALFORMED'' ''RPM query returned malformed metadata''"

definition driver_policy_ok :: "driver_package_policy \<Rightarrow> bool" where
  "driver_policy_ok pol = (safe_scalar (dp_driver_nevr pol) \<and> safe_scalar (dp_loader_requirement pol)
     \<and> safe_scalar (dp_firmware_nevr pol) \<and> lower_hex 64 (dp_firmware_sha256 pol))"

definition validate_driver_policy :: "driver_package_policy \<Rightarrow> (package_error, unit) result" where
  "validate_driver_policy pol = ensure (driver_policy_ok pol) (package_fault ''FEDORA_PACKAGE_POLICY_INVALID''
     ''package policy contains an invalid identity or digest'')"

section \<open>Inputs and queries\<close>

definition MAX_RPM_BYTES :: nat where "MAX_RPM_BYTES = 4294967296"

definition rpm_path_invalid :: "string \<Rightarrow> package_error" where
  "rpm_path_invalid = package_fault ''FEDORA_PACKAGE_PATH_INVALID''"

text \<open>A regular file of bounded size that is not empty.\<close>

definition bounded_file :: "nat \<Rightarrow> file_meta \<Rightarrow> bool" where
  "bounded_file limit m = (fm_kind m = Regular_File \<and> fm_len m \<noteq> 0 \<and> fm_len m \<le> limit)"

definition require_rpm :: "'e packager \<Rightarrow> string \<Rightarrow> ('e, (package_error, string) result) effect" where
  "require_rpm pk path =
     attempt (with_err (\<lambda>_. rpm_path_invalid ''RPM input is unavailable'')
       (observe (rf_lstat (pk_files pk) path))) (\<lambda>m.
     attempt (pure (ensure (is_absolute path \<and> bounded_file MAX_RPM_BYTES m)
       (rpm_path_invalid ''RPM input must be an absolute, bounded, regular non-symlink file''))) (\<lambda>_.
       with_err (\<lambda>_. rpm_path_invalid ''RPM input cannot be canonicalized'')
         (observe (rf_canonicalize (pk_files pk) path))))"

definition driver_rpm_request :: "string \<Rightarrow> string list \<Rightarrow> process_request" where
  "driver_rpm_request path options = \<lparr>rq_executable = ''/usr/bin/rpm'',
     rq_args = [''--noplugins'', ''-qp''] @ options @ [path], rq_timeout = from_secs 10,
     rq_stdout_limit = 4194304, rq_stderr_limit = 65536, rq_environment = []\<rparr>"

definition driver_rpm_query :: "'e packager \<Rightarrow> string \<Rightarrow> string list
    \<Rightarrow> ('e, (package_error, bytes) result) effect" where
  "driver_rpm_query pk path options =
     attempt (with_err (\<lambda>_. package_fault ''FEDORA_PACKAGE_QUERY_FAILED'' ''bounded RPM query failed'')
       (run_process (pk_runner pk) (driver_rpm_request path options))) (\<lambda>po.
     pure (complete_output (package_fault ''FEDORA_PACKAGE_QUERY_FAILED''
       ''RPM rejected a package or exceeded its query bounds'') po))"

text \<open>The two bytes that the query language reads as a newline, and as a tab.\<close>

definition esc_n :: string where "esc_n = [CHR 0x5C, CHR ''n'']"
definition esc_t :: string where "esc_t = [CHR 0x5C, CHR ''t'']"

definition driver_identity_format :: string where
  "driver_identity_format = ''%{NAME:json}'' @ esc_n @ ''%{EPOCHNUM}'' @ esc_n @ ''%{VERSION:json}'' @ esc_n
     @ ''%{RELEASE:json}'' @ esc_n @ ''%{ARCH:json}'' @ esc_n @ ''%{FILEDIGESTALGO:hashalgo}'' @ esc_n"

definition driver_json :: "'e packager \<Rightarrow> string \<Rightarrow> (package_error, string) result" where
  "driver_json pk v = map_err (\<lambda>_. driver_malformed) (pk_json pk v)"

definition nonempty_option :: "string option \<Rightarrow> string option" where
  "nonempty_option v = (case v of Some [] \<Rightarrow> None | _ \<Rightarrow> v)"

definition driver_json_option :: "'e packager \<Rightarrow> string \<Rightarrow> (package_error, string option) result" where
  "driver_json_option pk v = (if v = ''(none)'' then Inr None
     else and_then (map_err (\<lambda>_. driver_malformed) (pk_json_option pk v)) (\<lambda>o'. Inr (nonempty_option o')))"

definition driver_identity :: "'e packager \<Rightarrow> bytes \<Rightarrow> (package_error, rpm_identity) result" where
  "driver_identity pk b = and_then (utf8_text driver_malformed b) (\<lambda>t. case str_lines t of
     [n, epoch, v, r, a, algorithm] \<Rightarrow>
       and_then (driver_json pk n) (\<lambda>name.
       and_then (driver_json pk v) (\<lambda>version.
       and_then (driver_json pk r) (\<lambda>release.
       and_then (driver_json pk a) (\<lambda>architecture.
         if \<not> all_digits epoch then Inl driver_malformed
         else Inr \<lparr>ri_name = name, ri_nevr = epoch @ '':'' @ version @ ''-'' @ release,
           ri_architecture = architecture, ri_file_digest_algorithm = algorithm\<rparr>))))
   | _ \<Rightarrow> Inl driver_malformed)"

definition driver_query_identity :: "'e packager \<Rightarrow> string \<Rightarrow> ('e, (package_error, rpm_identity) result) effect"
where
  "driver_query_identity pk path =
     attempt (driver_rpm_query pk path [''--queryformat'', driver_identity_format]) (\<lambda>b.
       pure (driver_identity pk b))"

definition identity_matches :: "rpm_identity \<Rightarrow> string \<Rightarrow> string \<Rightarrow> string \<Rightarrow> bool" where
  "identity_matches i name nevr architecture = (ri_name i = name \<and> ri_nevr i = nevr
     \<and> ri_architecture i = architecture \<and> ri_file_digest_algorithm i = ''SHA256'')"

definition driver_validate_identity :: "string \<Rightarrow> string \<Rightarrow> string \<Rightarrow> rpm_identity \<Rightarrow> (package_error, unit) result"
where
  "driver_validate_identity name nevr architecture i = ensure (identity_matches i name nevr architecture)
     (package_fault ''FEDORA_PACKAGE_IDENTITY_INVALID''
       ''RPM name, NEVR, architecture, or file digest algorithm is invalid'')"

datatype relation_kind = Requires | Provides

definition relation_format :: "relation_kind \<Rightarrow> string" where
  "relation_format k = (case k of
       Requires \<Rightarrow> ''[%{REQUIRENAME:json}'' @ esc_t @ ''%{REQUIREFLAGS:depflags}'' @ esc_t
         @ ''%{REQUIREVERSION:json}'' @ esc_n @ '']''
     | Provides \<Rightarrow> ''[%{PROVIDENAME:json}'' @ esc_t @ ''%{PROVIDEFLAGS:depflags}'' @ esc_t
         @ ''%{PROVIDEVERSION:json}'' @ esc_n @ '']'')"

definition operator_ok :: "string \<Rightarrow> bool" where
  "operator_ok x = (length x \<le> 4 \<and> list_all (\<lambda>c. c \<in> set ''<=>'') x)"

definition driver_relation :: "'e packager \<Rightarrow> string \<Rightarrow> (package_error, rpm_relation) result" where
  "driver_relation pk line = (case split_on tab line of
       [n, operator, v] \<Rightarrow>
         and_then (driver_json pk n) (\<lambda>name.
         and_then (driver_json_option pk v) (\<lambda>version.
           if \<not> safe_scalar name \<or> \<not> operator_ok operator
              \<or> (case version of None \<Rightarrow> False | Some x \<Rightarrow> \<not> safe_scalar x)
           then Inl driver_malformed
           else Inr \<lparr>rl_name = name, rl_operator = operator, rl_version = version\<rparr>))
     | _ \<Rightarrow> Inl driver_malformed)"

definition driver_query_relations :: "'e packager \<Rightarrow> string \<Rightarrow> relation_kind
    \<Rightarrow> ('e, (package_error, rpm_relation list) result) effect" where
  "driver_query_relations pk path k =
     attempt (driver_rpm_query pk path [''--queryformat'', relation_format k]) (\<lambda>b.
       pure (decode_table driver_malformed (driver_relation pk) b))"

definition relation_text :: "rpm_relation \<Rightarrow> string \<Rightarrow> string" where
  "relation_text r version = rl_name r @ '' '' @ rl_operator r @ '' '' @ version"

definition has_relation :: "string \<Rightarrow> rpm_relation list \<Rightarrow> bool" where
  "has_relation expected rs = list_ex (\<lambda>r. case rl_version r of None \<Rightarrow> False
     | Some version \<Rightarrow> relation_text r version = expected) rs"

definition driver_require_relation :: "string \<Rightarrow> rpm_relation list \<Rightarrow> (package_error, unit) result" where
  "driver_require_relation expected rs = ensure (has_relation expected rs)
     (package_fault ''FEDORA_PACKAGE_DEPENDENCY_INVALID''
       ''RPM is missing an exact required dependency or provide'')"

definition script_options :: "string list list" where
  "script_options = [[''--scripts''], [''--triggers''], [''--filetriggers'']]"

definition driver_reject_scripts :: "'e packager \<Rightarrow> string \<Rightarrow> ('e, (package_error, unit) result) effect" where
  "driver_reject_scripts pk path = each_attempt (\<lambda>option.
     attempt (driver_rpm_query pk path option) (\<lambda>b.
       pure (ensure (b = []) (package_fault ''FEDORA_PACKAGE_SCRIPT_INVALID''
         ''provider RPMs must not contain maintainer or trigger scripts'')))) script_options"

section \<open>Files\<close>

definition driver_files_format :: string where
  "driver_files_format = ''[%{FILENAMES:json}'' @ esc_t @ ''%{FILEMODES:octal}'' @ esc_t
     @ ''%{FILEDIGESTS:json}'' @ esc_t @ ''%{FILEFLAGS:fflags}'' @ esc_n @ '']''"

definition driver_file :: "'e packager \<Rightarrow> string \<Rightarrow> (package_error, rpm_file) result" where
  "driver_file pk line = (case splitn 4 tab line of
       [p, m, d, flags] \<Rightarrow>
         and_then (driver_json pk p) (\<lambda>path.
         and_then (ok_or driver_malformed (parse_octal (dropWhile (\<lambda>c. c = CHR ''0'') m))) (\<lambda>mode.
         and_then (driver_json pk d) (\<lambda>digest.
           if \<not> starts_with ''/'' path \<or> any_control path
              \<or> (digest \<noteq> [] \<and> \<not> lower_hex 64 digest) \<or> any_control flags
           then Inl driver_malformed
           else Inr \<lparr>rf_path = path, rf_mode = mode, rf_digest = digest, rf_flags = flags\<rparr>)))
     | _ \<Rightarrow> Inl driver_malformed)"

definition driver_query_files :: "'e packager \<Rightarrow> string \<Rightarrow> ('e, (package_error, rpm_file list) result) effect"
where
  "driver_query_files pk path =
     attempt (driver_rpm_query pk path [''--queryformat'', driver_files_format]) (\<lambda>b.
       pure (decode_table driver_malformed (driver_file pk) b))"

definition is_license :: "string \<Rightarrow> rpm_file \<Rightarrow> bool" where
  "is_license path f = (rf_path f = path \<and> CHR ''l'' \<in> set (rf_flags f))"

definition driver_require_license :: "rpm_file list \<Rightarrow> string \<Rightarrow> (package_error, unit) result" where
  "driver_require_license files path = ensure (list_ex (is_license path) files)
     (package_fault ''FEDORA_PACKAGE_LICENSE_INVALID'' ''RPM lacks its required packaged license evidence'')"

definition has_file :: "rpm_file list \<Rightarrow> string \<Rightarrow> bool" where
  "has_file files path = list_ex (\<lambda>f. rf_path f = path) files"

definition driver_path_approved :: "string \<Rightarrow> bool" where
  "driver_path_approved p = (p = ''/usr/lib/.build-id'' \<or> p = ''/usr/share/doc/intel-npu-driver''
     \<or> p = ''/usr/share/licenses/intel-npu-driver'' \<or> starts_with ''/usr/lib64/libze_intel_npu.so.1'' p
     \<or> starts_with ''/usr/lib/.build-id/'' p \<or> starts_with ''/usr/share/doc/intel-npu-driver/'' p
     \<or> starts_with ''/usr/share/licenses/intel-npu-driver/'' p)"

definition validate_driver_files :: "rpm_file list \<Rightarrow> (package_error, unit) result" where
  "validate_driver_files files =
     (if list_ex (\<lambda>f. rf_path f = DRIVER_UNVERSIONED \<or> \<not> driver_path_approved (rf_path f)) files
         \<or> \<not> has_file files DRIVER_SONAME \<or> \<not> has_file files DRIVER_VERSIONED
      then Inl (package_fault ''FEDORA_PACKAGE_FILE_INVALID''
        ''driver RPM owns an unapproved path or lacks its versioned SONAME files'')
      else driver_require_license files DRIVER_LICENSE)"

text \<open>The modes \<open>0o040755\<close> and \<open>0o100644\<close>.\<close>

definition MODE_DIRECTORY_755 :: u32 where "MODE_DIRECTORY_755 = 16877"
definition MODE_FILE_644 :: u32 where "MODE_FILE_644 = 33188"

definition firmware_file_refused :: "rpm_file \<Rightarrow> bool" where
  "firmware_file_refused f =
     (if rf_path f = FIRMWARE_PATH \<or> rf_path f = FIRMWARE_LICENSE then False
      else if rf_path f = FIRMWARE_LICENSE_DIRECTORY then rf_mode f \<noteq> MODE_DIRECTORY_755
      else if rf_path f = FIRMWARE_NOTICE_MANIFEST
      then rf_mode f \<noteq> MODE_FILE_644 \<or> CHR ''l'' \<notin> set (rf_flags f) \<or> \<not> lower_hex 64 (rf_digest f)
      else True)"

definition firmware_invalid :: "string \<Rightarrow> package_error" where
  "firmware_invalid = package_fault ''FEDORA_PACKAGE_FIRMWARE_INVALID''"

definition validate_firmware_files :: "string \<Rightarrow> rpm_file list \<Rightarrow> (package_error, unit) result" where
  "validate_firmware_files expected_sha256 files =
     (if list_ex firmware_file_refused files
      then Inl (package_fault ''FEDORA_PACKAGE_FILE_INVALID''
        ''firmware RPM owns a path outside the approved firmware and license files'')
      else and_then (driver_require_license files FIRMWARE_LICENSE) (\<lambda>_.
        case find (\<lambda>f. rf_path f = FIRMWARE_PATH) files of
          None \<Rightarrow> Inl (firmware_invalid ''firmware RPM lacks the Lunar Lake firmware payload'')
        | Some f \<Rightarrow> ensure (rf_mode f = MODE_FILE_644 \<and> rf_digest f = expected_sha256)
            (firmware_invalid ''firmware mode or SHA-256 does not match the locked payload'')))"

section \<open>The pair\<close>

definition validate_fedora_driver_packages :: "'e packager \<Rightarrow> string \<Rightarrow> string \<Rightarrow> driver_package_policy
    \<Rightarrow> ('e, (package_error, unit) result) effect" where
  "validate_fedora_driver_packages pk driver_path firmware_path pol =
     attempt (pure (validate_driver_policy pol)) (\<lambda>_.
     attempt (require_rpm pk driver_path) (\<lambda>driver.
     attempt (require_rpm pk firmware_path) (\<lambda>firmware.
     attempt (driver_query_identity pk driver) (\<lambda>i.
     attempt (pure (driver_validate_identity DRIVER_NAME (dp_driver_nevr pol) DRIVER_ARCH i)) (\<lambda>_.
     attempt (driver_query_identity pk firmware) (\<lambda>i.
     attempt (pure (driver_validate_identity FIRMWARE_NAME (dp_firmware_nevr pol) FIRMWARE_ARCH i)) (\<lambda>_.
     attempt (driver_query_relations pk driver Requires) (\<lambda>rs.
     attempt (pure (driver_require_relation (dp_loader_requirement pol) rs)) (\<lambda>_.
     attempt (driver_query_relations pk firmware Provides) (\<lambda>rs.
     attempt (pure (driver_require_relation FIRMWARE_PROVIDE rs)) (\<lambda>_.
     attempt (driver_reject_scripts pk driver) (\<lambda>_.
     attempt (driver_reject_scripts pk firmware) (\<lambda>_.
     attempt (driver_query_files pk driver) (\<lambda>files.
     attempt (pure (validate_driver_files files)) (\<lambda>_.
     attempt (driver_query_files pk firmware) (\<lambda>files.
       pure (validate_firmware_files (dp_firmware_sha256 pol) files)))))))))))))))))"

section \<open>What an accepted pair has shown\<close>

lemma leaves_driver_query:
  "leaves (\<lambda>b evs. \<exists>ev. evs = [ev] \<and> complete_answer (driver_rpm_request path options) b ev)
     (driver_rpm_query pk path options)"
  unfolding driver_rpm_query_def complete_answer_def
  by (rule leaves_then [OF leaves_with_err [OF leaves_process] leaves_pure])
    (auto simp: complete_output_def split: if_splits)

interpretation driver_rpm: command_query "driver_rpm_query pk" driver_rpm_request for pk
  by unfold_locales
    (rule leaves_driver_query, auto simp: driver_rpm_query_def intro!: only_runs_with_err only_runs_process)

text \<open>The pair, as the answers of \<open>rpm\<close> show it.\<close>

definition driver_shown :: "'e packager \<Rightarrow> string \<Rightarrow> driver_package_policy \<Rightarrow> event set \<Rightarrow> bool" where
  "driver_shown pk path pol E \<longleftrightarrow> (\<exists>i rs files.
     answered (driver_rpm_request path [''--queryformat'', driver_identity_format])
       (\<lambda>b. driver_identity pk b = Inr i) E
   \<and> identity_matches i DRIVER_NAME (dp_driver_nevr pol) DRIVER_ARCH
   \<and> answered (driver_rpm_request path [''--queryformat'', relation_format Requires])
       (\<lambda>b. decode_table driver_malformed (driver_relation pk) b = Inr rs) E
   \<and> has_relation (dp_loader_requirement pol) rs
   \<and> list_all (\<lambda>o'. answered (driver_rpm_request path o') (\<lambda>b. b = []) E) script_options
   \<and> answered (driver_rpm_request path [''--queryformat'', driver_files_format])
       (\<lambda>b. decode_table driver_malformed (driver_file pk) b = Inr files) E
   \<and> list_all (\<lambda>f. rf_path f \<noteq> DRIVER_UNVERSIONED \<and> driver_path_approved (rf_path f)) files
   \<and> has_file files DRIVER_SONAME \<and> has_file files DRIVER_VERSIONED
   \<and> list_ex (is_license DRIVER_LICENSE) files)"

definition firmware_shown :: "'e packager \<Rightarrow> string \<Rightarrow> driver_package_policy \<Rightarrow> event set \<Rightarrow> bool" where
  "firmware_shown pk path pol E \<longleftrightarrow> (\<exists>i rs files f.
     answered (driver_rpm_request path [''--queryformat'', driver_identity_format])
       (\<lambda>b. driver_identity pk b = Inr i) E
   \<and> identity_matches i FIRMWARE_NAME (dp_firmware_nevr pol) FIRMWARE_ARCH
   \<and> answered (driver_rpm_request path [''--queryformat'', relation_format Provides])
       (\<lambda>b. decode_table driver_malformed (driver_relation pk) b = Inr rs) E
   \<and> has_relation FIRMWARE_PROVIDE rs
   \<and> list_all (\<lambda>o'. answered (driver_rpm_request path o') (\<lambda>b. b = []) E) script_options
   \<and> answered (driver_rpm_request path [''--queryformat'', driver_files_format])
       (\<lambda>b. decode_table driver_malformed (driver_file pk) b = Inr files) E
   \<and> list_all (\<lambda>g. \<not> firmware_file_refused g) files
   \<and> list_ex (is_license FIRMWARE_LICENSE) files
   \<and> find (\<lambda>g. rf_path g = FIRMWARE_PATH) files = Some f
   \<and> rf_mode f = MODE_FILE_644 \<and> rf_digest f = dp_firmware_sha256 pol)"

lemma establishes_require_rpm [established]: "establishes (\<lambda>_ _. True) (require_rpm pk path)"
  by (rule establishes_only [where F = "\<lambda>_. False"]) (auto simp: require_rpm_def)

lemma driver_steps [established]:
  "establishes (\<lambda>i. answered (driver_rpm_request path [''--queryformat'', driver_identity_format])
      (\<lambda>b. driver_identity pk b = Inr i)) (driver_query_identity pk path)"
  "establishes (\<lambda>rs. answered (driver_rpm_request path [''--queryformat'', relation_format k])
      (\<lambda>b. decode_table driver_malformed (driver_relation pk) b = Inr rs)) (driver_query_relations pk path k)"
  "establishes (\<lambda>_ E. list_all (\<lambda>o'. answered (driver_rpm_request path o') (\<lambda>b. b = []) E) script_options)
      (driver_reject_scripts pk path)"
  "establishes (\<lambda>files. answered (driver_rpm_request path [''--queryformat'', driver_files_format])
      (\<lambda>b. decode_table driver_malformed (driver_file pk) b = Inr files)) (driver_query_files pk path)"
  unfolding driver_query_identity_def driver_query_relations_def driver_reject_scripts_def
    driver_query_files_def
  by (rule driver_rpm.decoded driver_rpm.all_accepted)+

lemma validate_driver_files_Inr: "validate_driver_files files = Inr () \<longleftrightarrow>
     list_all (\<lambda>f. rf_path f \<noteq> DRIVER_UNVERSIONED \<and> driver_path_approved (rf_path f)) files
     \<and> has_file files DRIVER_SONAME \<and> has_file files DRIVER_VERSIONED
     \<and> list_ex (is_license DRIVER_LICENSE) files"
  by (auto simp: validate_driver_files_def driver_require_license_def list_ex_iff list_all_iff)

lemma validate_firmware_files_Inr: "validate_firmware_files d files = Inr () \<longleftrightarrow>
     list_all (\<lambda>g. \<not> firmware_file_refused g) files \<and> list_ex (is_license FIRMWARE_LICENSE) files
     \<and> (\<exists>f. find (\<lambda>g. rf_path g = FIRMWARE_PATH) files = Some f
          \<and> rf_mode f = MODE_FILE_644 \<and> rf_digest f = d)"
  by (auto simp: validate_firmware_files_def driver_require_license_def list_ex_iff list_all_iff
      split: option.split)

lemma establishes_driver_packages:
  "establishes (\<lambda>_ E. driver_policy_ok pol \<and> (\<exists>driver firmware.
      driver_shown pk driver pol E \<and> firmware_shown pk firmware pol E))
     (validate_fedora_driver_packages pk driver_path firmware_path pol)"
  unfolding validate_fedora_driver_packages_def
  by (rule establishes_weaken, (rule established)+)
    (simp add: validate_driver_policy_def driver_validate_identity_def driver_require_relation_def
      driver_shown_def firmware_shown_def validate_driver_files_Inr validate_firmware_files_Inr, blast)

text \<open>What the inspections do: package queries, \<open>readelf\<close>, and reading files.\<close>

definition inspection_event :: "event \<Rightarrow> bool" where
  "inspection_event ev = (case ev of
       Ran rq _ \<Rightarrow> rq_executable rq = ''/usr/bin/rpm'' \<and> take 2 (rq_args rq) = [''--noplugins'', ''-qp'']
         \<or> rq_executable rq = ''/usr/bin/readelf''
     | Was_Read _ _ \<Rightarrow> True
     | _ \<Rightarrow> False)"

lemma does_driver_query [simp]: "only_does inspection_event (driver_rpm_query pk path options)"
  unfolding driver_rpm_query_def
  by (intro only_runs_attempt only_runs_with_err only_does_process only_runs_pure)
    (simp add: inspection_event_def driver_rpm_request_def)

lemma does_require_rpm [simp]: "only_does F (require_rpm pk path)"
  by (auto simp: require_rpm_def)

lemma does_driver_packages:
  "only_does inspection_event (validate_fedora_driver_packages pk driver_path firmware_path pol)"
  unfolding validate_fedora_driver_packages_def driver_query_identity_def driver_query_relations_def
    driver_reject_scripts_def driver_query_files_def
  by (intro only_runs_attempt only_runs_pure only_runs_each does_driver_query does_require_rpm)

end
