(* ===== verification/Openvino_Package.thy ===== *)
theory Openvino_Package
  imports Rpm_Package
begin

text \<open>
  \<open>xtask/src/fedora_openvino_package.rs\<close>: the inspection of the ten OpenVINO and NPU compiler RPMs and of
  their extracted payload: identities, dependencies, ownership of files, and the dynamic sections of
  the libraries as \<open>readelf\<close> prints them.
\<close>

unbundle bit_operations_syntax

section \<open>Policy\<close>

definition REQUIRED_PACKAGES :: "string list" where
  "REQUIRED_PACKAGES = [''intel-npu-compiler'', ''libopenvino-ir-frontend'',
     ''libopenvino-onnx-frontend'', ''libopenvino-paddle-frontend'', ''libopenvino-pytorch-frontend'',
     ''libopenvino-tensorflow-frontend'', ''libopenvino-tensorflow-lite-frontend'', ''openvino'',
     ''openvino-devel'', ''openvino-plugins'']"

definition FRONTENDS :: "string list" where
  "FRONTENDS = [''libopenvino-ir-frontend'', ''libopenvino-onnx-frontend'',
     ''libopenvino-paddle-frontend'', ''libopenvino-pytorch-frontend'',
     ''libopenvino-tensorflow-frontend'', ''libopenvino-tensorflow-lite-frontend'']"

record required_elf =
  re_owner :: string
  re_path :: string
  re_soname :: string
  re_soname_required :: bool

definition REQUIRED_ELFS :: "required_elf list" where
  "REQUIRED_ELFS = [
     \<lparr>re_owner = ''openvino'', re_path = ''/usr/lib64/libopenvino.so.2026.2.1'',
       re_soname = ''libopenvino.so.2621'', re_soname_required = True\<rparr>,
     \<lparr>re_owner = ''openvino-plugins'',
       re_path = ''/usr/lib64/openvino-2026.2.1/libopenvino_intel_cpu_plugin.so'',
       re_soname = ''libopenvino_intel_cpu_plugin.so'', re_soname_required = False\<rparr>,
     \<lparr>re_owner = ''openvino-plugins'',
       re_path = ''/usr/lib64/openvino-2026.2.1/libopenvino_intel_gpu_plugin.so'',
       re_soname = ''libopenvino_intel_gpu_plugin.so'', re_soname_required = False\<rparr>,
     \<lparr>re_owner = ''openvino-plugins'',
       re_path = ''/usr/lib64/openvino-2026.2.1/libopenvino_intel_npu_plugin.so'',
       re_soname = ''libopenvino_intel_npu_plugin.so'', re_soname_required = False\<rparr>,
     \<lparr>re_owner = ''intel-npu-compiler'',
       re_path = ''/usr/lib64/openvino-2026.2.1/libopenvino_intel_npu_compiler.so'',
       re_soname = ''libopenvino_intel_npu_compiler.so'', re_soname_required = False\<rparr>,
     \<lparr>re_owner = ''intel-npu-compiler'',
       re_path = ''/usr/lib64/openvino-2026.2.1/libopenvino_intel_npu_compiler_loader.so'',
       re_soname = ''libopenvino_intel_npu_compiler_loader.so'', re_soname_required = True\<rparr>]"

record openvino_policy =
  ov_openvino_nevr :: string
  ov_driver_requirement :: string

record openvino_error =
  oe_code :: string
  oe_message :: string

definition openvino_err :: "string \<Rightarrow> string \<Rightarrow> openvino_error" where
  "openvino_err code message = \<lparr>oe_code = code, oe_message = message\<rparr>"

record openvino_package =
  op_name :: string
  op_nevr :: string
  op_architecture :: string
  op_requires :: "rpm_relation list"
  op_files :: "rpm_file list"

record elf_metadata =
  em_soname :: "string option"
  em_needed :: "string list"

definition package_set_invalid :: openvino_error where
  "package_set_invalid = openvino_err ''FEDORA_OPENVINO_PACKAGE_SET_INVALID''
     ''candidate must contain each exact OpenVINO RPM once''"

definition openvino_malformed :: openvino_error where
  "openvino_malformed = openvino_err ''FEDORA_OPENVINO_QUERY_MALFORMED''
     ''RPM query returned malformed metadata''"

definition elf_invalid :: openvino_error where
  "elf_invalid = openvino_err ''FEDORA_OPENVINO_ELF_INVALID''
     ''OpenVINO ELF payload, digest, architecture, or dynamic metadata is invalid''"

definition openvino_policy_invalid :: "string \<Rightarrow> openvino_error" where
  "openvino_policy_invalid = openvino_err ''FEDORA_OPENVINO_POLICY_INVALID''"

definition validate_openvino_policy :: "openvino_policy \<Rightarrow> (openvino_error, unit) result" where
  "validate_openvino_policy pol = ensure (safe_scalar (ov_openvino_nevr pol)
       \<and> starts_with ''0:'' (ov_openvino_nevr pol) \<and> safe_scalar (ov_driver_requirement pol))
     (openvino_policy_invalid ''OpenVINO package policy contains an invalid identity'')"

section \<open>Processes and files\<close>

definition tool_request :: "string \<Rightarrow> string list \<Rightarrow> duration \<Rightarrow> process_request" where
  "tool_request executable args timeout = \<lparr>rq_executable = executable, rq_args = args,
     rq_timeout = timeout, rq_stdout_limit = 8388608, rq_stderr_limit = 65536, rq_environment = []\<rparr>"

text \<open>The process of a tool; every failure becomes the one error of its caller.\<close>

definition run_tool :: "'e packager \<Rightarrow> openvino_error \<Rightarrow> process_request
    \<Rightarrow> ('e, (openvino_error, bytes) result) effect" where
  "run_tool pk err rq =
     attempt (with_err (\<lambda>_. err) (run_process (pk_runner pk) rq)) (\<lambda>po. pure (complete_output err po))"

definition openvino_rpm_request :: "string \<Rightarrow> string list \<Rightarrow> process_request" where
  "openvino_rpm_request path options =
     tool_request ''/usr/bin/rpm'' ([''--noplugins'', ''-qp''] @ options @ [path]) (from_secs 10)"

definition openvino_rpm_query :: "'e packager \<Rightarrow> string \<Rightarrow> string list
    \<Rightarrow> ('e, (openvino_error, bytes) result) effect" where
  "openvino_rpm_query pk path options = run_tool pk
     (openvino_err ''FEDORA_OPENVINO_QUERY_FAILED'' ''bounded RPM query failed'')
     (openvino_rpm_request path options)"

definition readelf_request :: "string \<Rightarrow> string list \<Rightarrow> process_request" where
  "readelf_request path options = tool_request ''/usr/bin/readelf'' (options @ [path]) (from_secs 15)"

definition run_readelf :: "'e packager \<Rightarrow> string \<Rightarrow> string list \<Rightarrow> ('e, (openvino_error, bytes) result) effect"
where
  "run_readelf pk path options = run_tool pk elf_invalid (readelf_request path options)"

definition openvino_require_rpm :: "'e packager \<Rightarrow> string \<Rightarrow> ('e, (openvino_error, string) result) effect" where
  "openvino_require_rpm pk path =
     attempt (with_err (\<lambda>_. package_set_invalid) (observe (rf_lstat (pk_files pk) path))) (\<lambda>m.
     attempt (pure (ensure (is_absolute path \<and> bounded_file MAX_RPM_BYTES m) package_set_invalid)) (\<lambda>_.
       with_err (\<lambda>_. package_set_invalid) (observe (rf_canonicalize (pk_files pk) path))))"

definition require_payload_root :: "'e packager \<Rightarrow> string \<Rightarrow> ('e, (openvino_error, string) result) effect" where
  "require_payload_root pk path =
     attempt (with_err (\<lambda>_. elf_invalid) (observe (rf_lstat (pk_files pk) path))) (\<lambda>m.
     attempt (pure (ensure (is_absolute path \<and> fm_kind m = Directory) elf_invalid)) (\<lambda>_.
       with_err (\<lambda>_. elf_invalid) (observe (rf_canonicalize (pk_files pk) path))))"

definition MAX_ELF_BYTES :: nat where "MAX_ELF_BYTES = 2147483648"

text \<open>The path without its root: the leading separators are stripped.\<close>

definition payload_path :: "string \<Rightarrow> string \<Rightarrow> string" where
  "payload_path root rpm_path = path_join root (dropWhile (\<lambda>c. c = CHR ''/'') rpm_path)"

definition require_payload_file :: "'e packager \<Rightarrow> string \<Rightarrow> string
    \<Rightarrow> ('e, (openvino_error, string) result) effect" where
  "require_payload_file pk root rpm_path =
     attempt (pure (ensure (is_absolute rpm_path) elf_invalid)) (\<lambda>_.
     attempt (with_err (\<lambda>_. elf_invalid) (observe (rf_lstat (pk_files pk) (payload_path root rpm_path)))) (\<lambda>m.
     attempt (pure (ensure (bounded_file MAX_ELF_BYTES m) elf_invalid)) (\<lambda>_.
     attempt (with_err (\<lambda>_. elf_invalid) (observe (rf_canonicalize (pk_files pk) (payload_path root rpm_path))))
       (\<lambda>canonical.
       pure (if path_starts_with canonical root then Inr canonical else Inl elf_invalid)))))"

text \<open>The digest of a file; the log keeps what was read.\<close>

definition sha256_file :: "'e packager \<Rightarrow> string \<Rightarrow> ('e, (openvino_error, string) result) effect" where
  "sha256_file pk path =
     attempt (with_err (\<lambda>_. elf_invalid) (observe (rf_read (pk_files pk) path))) (\<lambda>b. do {
       emit (Was_Read path b);
       pure (Inr (pk_sha256 pk b))
     })"

section \<open>Packages\<close>

definition identity_format :: string where
  "identity_format = ''%{NAME:json}'' @ [nl] @ ''%{EPOCHNUM}'' @ [nl] @ ''%{VERSION:json}'' @ [nl]
     @ ''%{RELEASE:json}'' @ [nl] @ ''%{ARCH:json}'' @ [nl] @ ''%{FILEDIGESTALGO:hashalgo}'' @ [nl]"

definition requires_format :: string where
  "requires_format = ''[%{REQUIRENAME:json}'' @ [tab] @ ''%{REQUIREFLAGS:depflags}'' @ [tab]
     @ ''%{REQUIREVERSION:json}'' @ [nl] @ '']''"

definition files_format :: string where
  "files_format = ''[%{FILENAMES:json}'' @ [tab] @ ''%{FILEMODES:octal}'' @ [tab]
     @ ''%{FILEDIGESTS:json}'' @ [tab] @ ''%{FILEFLAGS:fflags}'' @ [nl] @ '']''"

definition openvino_json :: "'e packager \<Rightarrow> string \<Rightarrow> (openvino_error, string) result" where
  "openvino_json pk v = map_err (\<lambda>_. openvino_malformed) (pk_json pk v)"

definition openvino_json_option :: "'e packager \<Rightarrow> string \<Rightarrow> (openvino_error, string option) result" where
  "openvino_json_option pk v = (if v = ''(none)'' then Inr None
     else and_then (map_err (\<lambda>_. openvino_malformed) (pk_json_option pk v)) (\<lambda>o'. Inr (nonempty_option o')))"

text \<open>Name, NEVR and architecture.\<close>

definition openvino_identity :: "'e packager \<Rightarrow> bytes \<Rightarrow> (openvino_error, string \<times> string \<times> string) result"
where
  "openvino_identity pk b = and_then (utf8_text openvino_malformed b) (\<lambda>t. case str_lines t of
     [n, epoch, v, r, a, algorithm] \<Rightarrow>
       and_then (openvino_json pk n) (\<lambda>name.
       and_then (openvino_json pk v) (\<lambda>version.
       and_then (openvino_json pk r) (\<lambda>release.
       and_then (openvino_json pk a) (\<lambda>architecture.
         if \<not> all_digits epoch \<or> algorithm \<noteq> ''SHA256'' then Inl openvino_malformed
         else Inr (name, epoch @ '':'' @ version @ ''-'' @ release, architecture)))))
   | _ \<Rightarrow> Inl openvino_malformed)"

definition openvino_relation :: "'e packager \<Rightarrow> string \<Rightarrow> (openvino_error, rpm_relation) result" where
  "openvino_relation pk line = (case split_on tab line of
       [n, operator, v] \<Rightarrow>
         and_then (openvino_json pk n) (\<lambda>name.
         and_then (openvino_json_option pk v) (\<lambda>version.
           Inr \<lparr>rl_name = name, rl_operator = operator, rl_version = version\<rparr>))
     | _ \<Rightarrow> Inl openvino_malformed)"

definition openvino_file :: "'e packager \<Rightarrow> string \<Rightarrow> (openvino_error, rpm_file) result" where
  "openvino_file pk line = (case splitn 4 tab line of
       [p, m, d, flags] \<Rightarrow>
         and_then (openvino_json pk p) (\<lambda>path.
         (let digits = dropWhile (\<lambda>c. c = CHR ''0'') m in
         and_then (ok_or openvino_malformed (parse_octal (if digits = [] then ''0'' else digits))) (\<lambda>mode.
         and_then (openvino_json pk d) (\<lambda>digest.
           if \<not> starts_with ''/'' path \<or> any_control path \<or> (digest \<noteq> [] \<and> \<not> lower_hex 64 digest)
           then Inl openvino_malformed
           else Inr \<lparr>rf_path = path, rf_mode = mode, rf_digest = digest, rf_flags = flags\<rparr>))))
     | _ \<Rightarrow> Inl openvino_malformed)"

definition openvino_query_relations :: "'e packager \<Rightarrow> string
    \<Rightarrow> ('e, (openvino_error, rpm_relation list) result) effect" where
  "openvino_query_relations pk path =
     attempt (openvino_rpm_query pk path [''--queryformat'', requires_format]) (\<lambda>b.
       pure (decode_table openvino_malformed (openvino_relation pk) b))"

definition openvino_query_files :: "'e packager \<Rightarrow> string
    \<Rightarrow> ('e, (openvino_error, rpm_file list) result) effect" where
  "openvino_query_files pk path =
     attempt (openvino_rpm_query pk path [''--queryformat'', files_format]) (\<lambda>b.
       pure (decode_table openvino_malformed (openvino_file pk) b))"

definition openvino_query_package :: "'e packager \<Rightarrow> string
    \<Rightarrow> ('e, (openvino_error, openvino_package) result) effect" where
  "openvino_query_package pk path =
     attempt (attempt (openvino_rpm_query pk path [''--queryformat'', identity_format]) (\<lambda>b.
       pure (openvino_identity pk b))) (\<lambda>i.
     attempt (openvino_query_relations pk path) (\<lambda>rs.
     attempt (openvino_query_files pk path) (\<lambda>files.
       pure (Inr \<lparr>op_name = fst i, op_nevr = fst (snd i), op_architecture = snd (snd i),
         op_requires = rs, op_files = files\<rparr>))))"

definition openvino_reject_scripts :: "'e packager \<Rightarrow> string \<Rightarrow> ('e, (openvino_error, unit) result) effect" where
  "openvino_reject_scripts pk path = each_attempt (\<lambda>option.
     attempt (openvino_rpm_query pk path option) (\<lambda>b.
       pure (ensure (b = []) (openvino_err ''FEDORA_OPENVINO_SCRIPT_INVALID''
         ''OpenVINO provider RPMs must not contain scripts or triggers'')))) script_options"

definition openvino_require_relation :: "string \<Rightarrow> rpm_relation list \<Rightarrow> (openvino_error, unit) result" where
  "openvino_require_relation expected rs = ensure (has_relation expected rs)
     (openvino_err ''FEDORA_OPENVINO_DEPENDENCY_INVALID''
       ''OpenVINO package closure lacks an exact required dependency'')"

section \<open>Dependencies and ownership\<close>

text \<open>The index operator of a map, which panics on a missing key.\<close>

definition indexed :: "(string, 'a) bmap \<Rightarrow> string \<Rightarrow> ('a \<Rightarrow> (openvino_error, 'b) result)
    \<Rightarrow> (openvino_error, 'b) result" where
  "indexed m k f = (case bm_get m k of
       None \<Rightarrow> Inl (openvino_err ''PANIC'' ''no entry found for key'') | Some v \<Rightarrow> f v)"

text \<open>The dependencies of the closure: which package must require what.\<close>

definition required_relations :: "openvino_policy \<Rightarrow> string \<Rightarrow> (string \<times> string) list" where
  "required_relations pol version_release =
     map (\<lambda>n. (n, ''openvino(x86-64) = '' @ version_release)) (filter (\<lambda>n. n \<noteq> ''openvino'') REQUIRED_PACKAGES)
     @ map (\<lambda>f. (''openvino'', f @ ''(x86-64) = '' @ version_release)) FRONTENDS
     @ [(''openvino-plugins'', ''intel-npu-compiler(x86-64) = '' @ version_release),
        (''intel-npu-compiler'', ov_driver_requirement pol)]"

definition validate_relations :: "(string, openvino_package) bmap \<Rightarrow> openvino_policy
    \<Rightarrow> (openvino_error, unit) result" where
  "validate_relations packages pol =
     and_then (ok_or (openvino_policy_invalid ''OpenVINO NEVR must use an explicit zero epoch'')
       (strip_prefix ''0:'' (ov_openvino_nevr pol))) (\<lambda>version_release.
     check_each (\<lambda>(n, expected). indexed packages n (\<lambda>p. openvino_require_relation expected (op_requires p)))
       (required_relations pol version_release))"

text \<open>The file type bits of a mode, and those of a directory and of a regular file.\<close>

definition file_type :: "u32 \<Rightarrow> u32" where "file_type m = m AND 61440"
definition TYPE_DIRECTORY :: u32 where "TYPE_DIRECTORY = 16384"
definition TYPE_REGULAR :: u32 where "TYPE_REGULAR = 32768"

definition openvino_path_ok :: "string \<Rightarrow> bool" where
  "openvino_path_ok p = (starts_with ''/usr/'' p \<and> \<not> starts_with ''/opt/'' p \<and> \<not> contains_sub ''//'' p
     \<and> \<not> list_ex (\<lambda>c. c = Parent_Dir) (path_components p))"

text \<open>The loop over all files, with the paths owned so far.\<close>

fun ownership_loop :: "string set \<Rightarrow> rpm_file list \<Rightarrow> (openvino_error, unit) result" where
  "ownership_loop owners [] = Inr ()"
| "ownership_loop owners (f # fs) =
     (if \<not> openvino_path_ok (rf_path f)
      then Inl (openvino_err ''FEDORA_OPENVINO_FILE_INVALID''
        ''OpenVINO RPM owns a path outside the Fedora prefix'')
      else if file_type (rf_mode f) = TYPE_DIRECTORY then ownership_loop owners fs
      else if rf_path f \<in> owners
      then Inl (openvino_err ''FEDORA_OPENVINO_FILE_OVERLAP''
        ''OpenVINO subpackages own a duplicate non-directory path'')
      else ownership_loop (insert (rf_path f) owners) fs)"

definition OPENVINO_LICENSE :: string where "OPENVINO_LICENSE = ''/usr/share/licenses/openvino/LICENSE''"

definition validate_ownership :: "(string, openvino_package) bmap \<Rightarrow> (openvino_error, unit) result" where
  "validate_ownership packages =
     and_then (ownership_loop {} (concat (map op_files (bm_values packages)))) (\<lambda>_.
     indexed packages ''openvino'' (\<lambda>p. ensure (list_ex (is_license OPENVINO_LICENSE) (op_files p))
       (openvino_err ''FEDORA_OPENVINO_LICENSE_INVALID'' ''OpenVINO runtime RPM lacks its packaged license'')))"

section \<open>Libraries\<close>

text \<open>\<open>str::trim_start\<close>.\<close>

definition trim_start :: "string \<Rightarrow> string" where
  "trim_start s = concat (dropWhile is_whitespace (utf8_chars s))"

definition elf_text :: "bytes \<Rightarrow> (openvino_error, string) result" where
  "elf_text b = utf8_text elf_invalid b"

definition type_line :: "string \<Rightarrow> bool" where
  "type_line line = (case strip_prefix ''Type:'' (trim_start line) of
       None \<Rightarrow> False
     | Some v \<Rightarrow> (case split_whitespace v of w # _ \<Rightarrow> w = ''DYN'' | [] \<Rightarrow> False))"

definition header_ok :: "string \<Rightarrow> bool" where
  "header_ok h = (contains_sub ''Class:                             ELF64'' h
     \<and> contains_sub ''Machine:                           Advanced Micro Devices X86-64'' h
     \<and> list_ex type_line (str_lines h))"

definition dynamic_ok :: "string \<Rightarrow> bool" where
  "dynamic_ok d = (\<not> contains_sub ''(RPATH)'' d \<and> \<not> contains_sub ''(RUNPATH)'' d
     \<and> \<not> list_ex (\<lambda>l. contains_sub ''(FLAGS_1)'' l \<and> ''PIE'' \<in> set (split_whitespace l)) (str_lines d))"

definition comment_ok :: "string \<Rightarrow> bool" where
  "comment_ok c = (\<not> contains_sub ''ubuntu'' (ascii_lowercase c))"

text \<open>What stands in brackets on a line.\<close>

definition bracketed :: "string \<Rightarrow> string option" where
  "bracketed line = (case split_once CHR ''['' line of
       None \<Rightarrow> None
     | Some (_, rest) \<Rightarrow> map_option fst (split_once CHR '']'' rest))"

definition dynamic_value :: "string \<Rightarrow> (openvino_error, string) result" where
  "dynamic_value line = and_then (ok_or elf_invalid (bracketed line)) (\<lambda>v.
     if \<not> safe_scalar v \<or> CHR ''/'' \<in> set v then Inl elf_invalid else Inr v)"

definition dynamic_values :: "string \<Rightarrow> string \<Rightarrow> (openvino_error, string list) result" where
  "dynamic_values marker dynamic = traverse dynamic_value (filter (contains_sub marker) (str_lines dynamic))"

definition elf_of :: "string \<Rightarrow> (openvino_error, elf_metadata) result" where
  "elf_of dynamic =
     and_then (dynamic_values ''(SONAME)'' dynamic) (\<lambda>sonames.
     if length sonames > 1 then Inl elf_invalid
     else and_then (dynamic_values ''(NEEDED)'' dynamic) (\<lambda>needed.
       Inr \<lparr>em_soname = (case sonames of [] \<Rightarrow> None | s # _ \<Rightarrow> Some s), em_needed = needed\<rparr>))"

text \<open>A text that \<open>readelf\<close> prints and that is accepted.\<close>

definition checked_text :: "(string \<Rightarrow> bool) \<Rightarrow> bytes \<Rightarrow> (openvino_error, string) result" where
  "checked_text P b = and_then (elf_text b) (\<lambda>t. and_then (ensure (P t) elf_invalid) (\<lambda>_. Inr t))"

definition readelf_text :: "'e packager \<Rightarrow> string \<Rightarrow> string list \<Rightarrow> (string \<Rightarrow> bool)
    \<Rightarrow> ('e, (openvino_error, string) result) effect" where
  "readelf_text pk path options P =
     attempt (run_readelf pk path options) (\<lambda>b. pure (checked_text P b))"

definition query_elf :: "'e packager \<Rightarrow> string \<Rightarrow> ('e, (openvino_error, elf_metadata) result) effect" where
  "query_elf pk path =
     attempt (readelf_text pk path [''--file-header''] header_ok) (\<lambda>_.
     attempt (readelf_text pk path [''--dynamic''] dynamic_ok) (\<lambda>dynamic.
     attempt (readelf_text pk path [''--section-headers''] (\<lambda>_. True)) (\<lambda>sections.
     attempt (if contains_sub ''.comment'' sections
       then attempt (readelf_text pk path [''--string-dump=.comment''] comment_ok) (\<lambda>_. pure (Inr ()))
       else pure (Inr ())) (\<lambda>_.
       pure (elf_of dynamic)))))"

text \<open>One required library: its payload has the digest of its package, and an admissible name.\<close>

definition soname_ok :: "required_elf \<Rightarrow> elf_metadata \<Rightarrow> bool" where
  "soname_ok re em = (case em_soname em of Some s \<Rightarrow> s = re_soname re | None \<Rightarrow> \<not> re_soname_required re)"

definition required_digest :: "(string, openvino_package) bmap \<Rightarrow> required_elf \<Rightarrow> (openvino_error, string) result"
where
  "required_digest packages re = indexed packages (re_owner re) (\<lambda>p.
     and_then (ok_or elf_invalid (find (\<lambda>f. rf_path f = re_path re) (op_files p))) (\<lambda>f.
       if rf_digest f = [] then Inl elf_invalid else Inr (rf_digest f)))"

definition inspect_elf :: "'e packager \<Rightarrow> (string, openvino_package) bmap \<Rightarrow> string \<Rightarrow> required_elf
    \<Rightarrow> ('e, (openvino_error, elf_metadata) result) effect" where
  "inspect_elf pk packages payload_root re =
     attempt (pure (required_digest packages re)) (\<lambda>digest.
     attempt (require_payload_file pk payload_root (re_path re)) (\<lambda>payload.
     attempt (sha256_file pk payload) (\<lambda>actual.
     attempt (pure (ensure (actual = digest) elf_invalid)) (\<lambda>_.
     attempt (query_elf pk payload) (\<lambda>em.
       pure (if soname_ok re em then Inr em else Inl elf_invalid))))))"

text \<open>Every library of the candidate that is needed is one of those that were inspected.\<close>

definition closure_ok :: "elf_metadata list \<Rightarrow> bool" where
  "closure_ok ems = list_all (\<lambda>em. list_all (\<lambda>n. \<not> (starts_with ''libopenvino'' n
     \<and> Some n \<notin> em_soname ` set ems)) (em_needed em)) ems"

definition validate_elf_payloads :: "'e packager \<Rightarrow> (string, openvino_package) bmap \<Rightarrow> string
    \<Rightarrow> ('e, (openvino_error, unit) result) effect" where
  "validate_elf_payloads pk packages payload_root =
     attempt (collect_attempt (inspect_elf pk packages payload_root) REQUIRED_ELFS) (\<lambda>ems.
       pure (ensure (closure_ok ems) (openvino_err ''FEDORA_OPENVINO_ELF_CLOSURE_INVALID''
         ''OpenVINO ELF has an unresolved candidate-library dependency'')))"

section \<open>The closure\<close>

text \<open>The loop over the RPMs, with the files and the packages seen so far.\<close>

fun package_loop :: "'e packager \<Rightarrow> path_component list set \<Rightarrow> (string, openvino_package) bmap \<Rightarrow> string list
    \<Rightarrow> ('e, (openvino_error, (string, openvino_package) bmap) result) effect" where
  "package_loop pk seen packages [] = pure (Inr packages)"
| "package_loop pk seen packages (path # paths) =
     attempt (openvino_require_rpm pk path) (\<lambda>canonical.
     attempt (pure (ensure (path_components canonical \<notin> seen) package_set_invalid)) (\<lambda>_.
     attempt (openvino_query_package pk canonical) (\<lambda>p.
     attempt (pure (ensure (bm_get packages (op_name p) = None) package_set_invalid)) (\<lambda>_.
     attempt (openvino_reject_scripts pk canonical) (\<lambda>_.
       package_loop pk (insert (path_components canonical) seen) (bm_insert (op_name p) p packages) paths)))))"

definition identity_valid :: "openvino_policy \<Rightarrow> openvino_package \<Rightarrow> bool" where
  "identity_valid pol p = (op_nevr p = ov_openvino_nevr pol \<and> op_architecture p = ''x86_64'')"

text \<open>What is checked once all packages are known.\<close>

definition validate_closure :: "openvino_policy \<Rightarrow> (string, openvino_package) bmap
    \<Rightarrow> (openvino_error, unit) result" where
  "validate_closure pol packages =
     and_then (ensure (bm_keys packages = REQUIRED_PACKAGES) package_set_invalid) (\<lambda>_.
     and_then (check_each (\<lambda>p. ensure (identity_valid pol p) (openvino_err ''FEDORA_OPENVINO_IDENTITY_INVALID''
       ''OpenVINO RPM identity, NEVR, or architecture is invalid'')) (bm_values packages)) (\<lambda>_.
     and_then (validate_relations packages pol) (\<lambda>_.
       validate_ownership packages)))"

definition validate_fedora_openvino_packages :: "'e packager \<Rightarrow> string list \<Rightarrow> string \<Rightarrow> openvino_policy
    \<Rightarrow> ('e, (openvino_error, unit) result) effect" where
  "validate_fedora_openvino_packages pk paths payload_root pol =
     attempt (pure (validate_openvino_policy pol)) (\<lambda>_.
     attempt (require_payload_root pk payload_root) (\<lambda>root.
     attempt (pure (ensure (length paths = length REQUIRED_PACKAGES) package_set_invalid)) (\<lambda>_.
     attempt (package_loop pk {} [] paths) (\<lambda>packages.
     attempt (pure (validate_closure pol packages)) (\<lambda>_.
       validate_elf_payloads pk packages root)))))"

section \<open>What an accepted closure has shown\<close>

lemma run_tool_answers:
  "leaves (\<lambda>b evs. \<exists>ev. evs = [ev] \<and> complete_answer rq b ev) (run_tool pk err rq)"
  unfolding run_tool_def complete_answer_def
  by (rule leaves_then [OF leaves_with_err [OF leaves_process] leaves_pure])
    (auto simp: complete_output_def split: if_splits)

lemma run_tool_asks: "only_does (ran (\<lambda>q. q = rq)) (run_tool pk err rq)"
  unfolding run_tool_def by (intro only_runs_attempt only_runs_with_err only_runs_process only_runs_pure) simp

interpretation openvino_rpm: command_query "openvino_rpm_query pk" openvino_rpm_request for pk
  unfolding openvino_rpm_query_def by unfold_locales (rule run_tool_answers run_tool_asks)+

interpretation readelf: command_query "run_readelf pk" readelf_request for pk
  unfolding run_readelf_def by unfold_locales (rule run_tool_answers run_tool_asks)+

definition package_shown :: "'e packager \<Rightarrow> openvino_package \<Rightarrow> event set \<Rightarrow> bool" where
  "package_shown pk p E \<longleftrightarrow> (\<exists>path.
     answered (openvino_rpm_request path [''--queryformat'', identity_format])
       (\<lambda>b. openvino_identity pk b = Inr (op_name p, op_nevr p, op_architecture p)) E
   \<and> answered (openvino_rpm_request path [''--queryformat'', requires_format])
       (\<lambda>b. decode_table openvino_malformed (openvino_relation pk) b = Inr (op_requires p)) E
   \<and> answered (openvino_rpm_request path [''--queryformat'', files_format])
       (\<lambda>b. decode_table openvino_malformed (openvino_file pk) b = Inr (op_files p)) E
   \<and> list_all (\<lambda>o'. answered (openvino_rpm_request path o') (\<lambda>b. b = []) E) script_options)"

lemma set_insert_subset: "set (bm_insert k v m) \<subseteq> insert (k, v) (set m)"
  by (induction k v m rule: bm_insert.induct) auto

lemma establishes_loop:
  "bm_wf packages \<Longrightarrow> \<forall>(n, p) \<in> set packages. op_name p = n \<Longrightarrow>
   establishes (\<lambda>ps E. bm_wf ps \<and> (\<forall>(n, p) \<in> set ps. op_name p = n
       \<and> ((n, p) \<in> set packages \<or> package_shown pk p E)))
     (package_loop pk seen packages paths)"
proof (induction paths arbitrary: seen packages)
  case Nil
  then show ?case
    unfolding package_loop.simps by (intro establishes_weaken [OF establishes_pure]) auto
next
  case (Cons path paths)
  have silent: "establishes (\<lambda>_ _. True) (openvino_require_rpm pk path)"
    by (rule establishes_only [where F = "\<lambda>_. False"]) (auto simp: openvino_require_rpm_def)
  have query: "establishes (\<lambda>p E. \<exists>i rs files.
      answered (openvino_rpm_request c [''--queryformat'', identity_format])
        (\<lambda>b. openvino_identity pk b = Inr i) E
    \<and> answered (openvino_rpm_request c [''--queryformat'', requires_format])
        (\<lambda>b. decode_table openvino_malformed (openvino_relation pk) b = Inr rs) E
    \<and> answered (openvino_rpm_request c [''--queryformat'', files_format])
        (\<lambda>b. decode_table openvino_malformed (openvino_file pk) b = Inr files) E
    \<and> p = \<lparr>op_name = fst i, op_nevr = fst (snd i), op_architecture = snd (snd i),
          op_requires = rs, op_files = files\<rparr>) (openvino_query_package pk c)" for c
    unfolding openvino_query_package_def openvino_query_relations_def openvino_query_files_def
    by (rule establishes_weaken, (rule openvino_rpm.decoded establishes_attempt establishes_pure)+) blast
  have scripts: "establishes (\<lambda>_ E. list_all (\<lambda>o'. answered (openvino_rpm_request c o') (\<lambda>b. b = []) E) script_options)
      (openvino_reject_scripts pk c)" for c
    unfolding openvino_reject_scripts_def by (rule openvino_rpm.all_accepted)
  have rest: "establishes (\<lambda>ps E. bm_wf ps \<and> (\<forall>(n, q) \<in> set ps. op_name q = n
       \<and> ((n, q) = (op_name p, p) \<or> (n, q) \<in> set packages \<or> package_shown pk q E)))
     (package_loop pk s (bm_insert (op_name p) p packages) paths)" for p s
    by (rule establishes_weaken [OF Cons.IH])
      (use Cons.prems in \<open>auto simp: bm_insert_wf dest!: set_insert_subset [THEN subsetD]\<close>)
  show ?case
    unfolding package_loop.simps
    by (rule establishes_weaken, (rule silent query scripts rest establishes_attempt establishes_pure)+)
      (fastforce simp: package_shown_def)
qed

text \<open>The files of the closure: each path is approved, and what is no directory has one owner.\<close>

definition owned_once :: "rpm_file list \<Rightarrow> bool" where
  "owned_once files = (list_all (\<lambda>f. openvino_path_ok (rf_path f)) files
     \<and> distinct (map rf_path (filter (\<lambda>f. file_type (rf_mode f) \<noteq> TYPE_DIRECTORY) files)))"

lemma ownership_loop_Inr: "ownership_loop owners fs = Inr () \<longleftrightarrow> owned_once fs
   \<and> owners \<inter> rf_path ` set (filter (\<lambda>f. file_type (rf_mode f) \<noteq> TYPE_DIRECTORY) fs) = {}"
proof (induction owners fs rule: ownership_loop.induct)
  case (2 owners f fs)
  then show ?case by (auto simp: owned_once_def)
qed (simp add: owned_once_def)

lemma indexed_Inr: "indexed m k f = Inr a \<longleftrightarrow> (\<exists>v. bm_get m k = Some v \<and> f v = Inr a)"
  by (simp add: indexed_def split: option.split)

definition closure_valid :: "openvino_policy \<Rightarrow> (string, openvino_package) bmap \<Rightarrow> bool" where
  "closure_valid pol packages \<longleftrightarrow> bm_keys packages = REQUIRED_PACKAGES
     \<and> list_all (identity_valid pol) (bm_values packages)
     \<and> (\<exists>v. ov_openvino_nevr pol = ''0:'' @ v \<and> list_all (\<lambda>(n, expected). \<exists>p. bm_get packages n = Some p
          \<and> has_relation expected (op_requires p)) (required_relations pol v))
     \<and> owned_once (concat (map op_files (bm_values packages)))
     \<and> (\<exists>p. bm_get packages ''openvino'' = Some p \<and> list_ex (is_license OPENVINO_LICENSE) (op_files p))"

lemma validate_closure_Inr: "validate_closure pol packages = Inr () \<longleftrightarrow> closure_valid pol packages"
proof -
  have relations: "validate_relations packages pol = Inr () \<longleftrightarrow>
      (\<exists>v. ov_openvino_nevr pol = ''0:'' @ v \<and> list_all (\<lambda>(n, expected). \<exists>p. bm_get packages n = Some p
          \<and> has_relation expected (op_requires p)) (required_relations pol v))"
    by (auto simp: validate_relations_def list_all_iff indexed_Inr openvino_require_relation_def
        split: prod.splits)
  have ownership: "validate_ownership packages = Inr () \<longleftrightarrow>
      owned_once (concat (map op_files (bm_values packages)))
      \<and> (\<exists>p. bm_get packages ''openvino'' = Some p \<and> list_ex (is_license OPENVINO_LICENSE) (op_files p))"
    by (simp add: validate_ownership_def ownership_loop_Inr indexed_Inr)
  show ?thesis
    unfolding validate_closure_def closure_valid_def
    by (simp add: relations ownership list_all_iff)
qed

text \<open>
  An inspected library: its package records a digest, the file that was read has it, and \<open>readelf\<close>
  showed a shared object for the platform, without search paths, with an admissible name.
\<close>

definition elf_shown :: "'e packager \<Rightarrow> (string, openvino_package) bmap \<Rightarrow> required_elf \<Rightarrow> elf_metadata
    \<Rightarrow> event set \<Rightarrow> bool" where
  "elf_shown pk packages re em E \<longleftrightarrow> (\<exists>path p f content dynamic.
     bm_get packages (re_owner re) = Some p \<and> f \<in> set (op_files p) \<and> rf_path f = re_path re
   \<and> Was_Read path content \<in> E \<and> rf_digest f = pk_sha256 pk content
   \<and> answered (readelf_request path [''--file-header'']) (\<lambda>b. \<exists>t. checked_text header_ok b = Inr t) E
   \<and> answered (readelf_request path [''--dynamic'']) (\<lambda>b. checked_text dynamic_ok b = Inr dynamic) E
   \<and> elf_of dynamic = Inr em \<and> soname_ok re em)"

lemma find_Some_in: "find P xs = Some x \<Longrightarrow> x \<in> set xs \<and> P x"
  by (metis find_Some_iff nth_mem)

lemma establishes_sha256:
  "establishes (\<lambda>d E. \<exists>b. Was_Read path b \<in> E \<and> d = pk_sha256 pk b) (sha256_file pk path)"
  unfolding establishes_def sha256_file_def
  by (fastforce simp: leaves_def attempt_Inr run_state_emit with_err_Inr observe_run)

lemma establishes_query_elf:
  "establishes (\<lambda>em E. \<exists>dynamic.
       answered (readelf_request path [''--file-header'']) (\<lambda>b. \<exists>t. checked_text header_ok b = Inr t) E
     \<and> answered (readelf_request path [''--dynamic'']) (\<lambda>b. checked_text dynamic_ok b = Inr dynamic) E
     \<and> elf_of dynamic = Inr em) (query_elf pk path)"
proof -
  have silent: "establishes (\<lambda>_ _. True)
      (if c then attempt (attempt (run_readelf pk path [''--string-dump=.comment''])
         (\<lambda>b. pure (checked_text comment_ok b))) (\<lambda>_. pure (Inr ())) else pure (Inr ()))" for c
    by (rule establishes_only [where F = "\<lambda>_. True"])
      (auto simp: run_readelf_def run_tool_def intro!: only_runs_attempt only_runs_with_err only_does_process)
  show ?thesis
    unfolding query_elf_def readelf_text_def
    by (rule establishes_weaken, (rule readelf.decoded silent establishes_attempt establishes_pure)+)
      (blast intro: answered_weaken)
qed

lemma required_digest_Inr:
  "required_digest packages re = Inr d \<Longrightarrow> \<exists>p f. bm_get packages (re_owner re) = Some p
     \<and> f \<in> set (op_files p) \<and> rf_path f = re_path re \<and> rf_digest f = d"
  by (auto simp: required_digest_def indexed_Inr split: if_splits dest!: find_Some_in)

lemma establishes_inspect_elf:
  "establishes (\<lambda>em. elf_shown pk packages re em) (inspect_elf pk packages root re)"
proof -
  have silent: "establishes (\<lambda>_ _. True) (require_payload_file pk root (re_path re))"
    by (rule establishes_only [where F = "\<lambda>_. False"]) (auto simp: require_payload_file_def)
  show ?thesis
    unfolding inspect_elf_def
    by (rule establishes_weaken, (rule silent establishes_sha256 establishes_query_elf establishes_attempt
          establishes_pure)+)
      (simp add: elf_shown_def split: if_splits, blast dest: required_digest_Inr)
qed

definition openvino_accepted :: "'e packager \<Rightarrow> openvino_policy \<Rightarrow> event set \<Rightarrow> bool" where
  "openvino_accepted pk pol E \<longleftrightarrow> (\<exists>packages ems. closure_valid pol packages
     \<and> (\<forall>(n, p) \<in> set packages. op_name p = n \<and> package_shown pk p E)
     \<and> list_all2 (\<lambda>re em. elf_shown pk packages re em E) REQUIRED_ELFS ems \<and> closure_ok ems)"

lemma establishes_openvino:
  "establishes (\<lambda>_. openvino_accepted pk pol) (validate_fedora_openvino_packages pk paths payload_root pol)"
proof -
  have silent: "establishes (\<lambda>_ _. True) (require_payload_root pk payload_root)"
    by (rule establishes_only [where F = "\<lambda>_. False"]) (auto simp: require_payload_root_def)
  have loop: "establishes (\<lambda>ps E. \<forall>(n, p) \<in> set ps. op_name p = n \<and> package_shown pk p E)
      (package_loop pk {} [] paths)"
    by (rule establishes_weaken [OF establishes_loop]) auto
  show ?thesis
    unfolding validate_fedora_openvino_packages_def validate_elf_payloads_def openvino_accepted_def
    by (rule establishes_weaken, (rule silent loop establishes_collect establishes_inspect_elf
          establishes_attempt establishes_pure)+)
      (simp add: validate_closure_Inr, blast)
qed

lemma does_run_tool:
  "(\<And>r. inspection_event (Ran rq r)) \<Longrightarrow> only_does inspection_event (run_tool pk err rq)"
  unfolding run_tool_def by (intro only_runs_attempt only_runs_with_err only_does_process only_runs_pure)

lemma does_tools [simp]:
  "only_does inspection_event (openvino_rpm_query pk path options)"
  "only_does inspection_event (run_readelf pk path options)"
  unfolding openvino_rpm_query_def run_readelf_def
  by (intro does_run_tool; simp add: inspection_event_def openvino_rpm_request_def readelf_request_def
      tool_request_def)+

lemma does_sha256 [simp]: "only_does inspection_event (sha256_file pk path)"
  unfolding sha256_file_def
  by (intro only_runs_attempt only_runs_with_err only_runs_observe only_runs_bind only_does_emit only_runs_pure)
    (simp add: inspection_event_def)

lemma does_query_elf [simp]: "only_does inspection_event (query_elf pk path)"
  unfolding query_elf_def readelf_text_def by (intro only_runs_attempt only_runs_pure does_if) simp_all

lemma does_package_loop: "only_does inspection_event (package_loop pk seen packages paths)"
proof (induction paths arbitrary: seen packages)
  case (Cons path paths)
  show ?case
    unfolding package_loop.simps openvino_require_rpm_def openvino_query_package_def
      openvino_query_relations_def openvino_query_files_def openvino_reject_scripts_def
    by (intro only_runs_attempt only_runs_with_err only_runs_each only_runs_observe only_runs_pure Cons.IH
        does_tools)
qed simp

lemma does_openvino:
  "only_does inspection_event (validate_fedora_openvino_packages pk paths payload_root pol)"
  unfolding validate_fedora_openvino_packages_def require_payload_root_def validate_elf_payloads_def
    inspect_elf_def require_payload_file_def
  by (intro only_runs_attempt only_runs_with_err only_runs_collect only_runs_observe only_runs_pure
      does_package_loop does_sha256 does_query_elf)

end
