(* ===== verification/Fedora_Profile.thy ===== *)
theory Fedora_Profile
  imports Openvino_Package
begin

text \<open>
  \<open>xtask/src/fedora_profile.rs\<close>: the generation of a candidate profile from the fourteen runtime RPMs. The
  system is a record \<open>generator\<close>: the process runner and file system of the package inspections, the
  decoders and encoders of \<open>toml\<close> and \<open>serde_json\<close>, and the temporary file of \<open>tempfile\<close>, which is made
  in a directory, written, synchronised and linked to the output, or removed.
\<close>

section \<open>The system\<close>

record file_evidence =
  fe_path :: string
  fe_sha256 :: string
  fe_mode :: u32
  fe_license :: bool

type_synonym requirement = "string \<times> string \<times> string"

record package_evidence =
  pv_filename :: string
  pv_name :: string
  pv_nevr :: string
  pv_arch :: string
  pv_sha256 :: string
  pv_license :: string
  pv_source_rpm :: string
  pv_files :: "file_evidence list"
  pv_requirements :: "requirement list"

record license_evidence =
  lv_source_lock_sha256 :: string
  lv_package_sha256 :: string
  lv_license :: string
  lv_owner_name :: string
  lv_owner_sha256 :: string
  lv_files :: "file_evidence list"

record 'e generator =
  gn_packager :: "'e packager"
  gn_lock_toml :: "string \<Rightarrow> (string, source_lock) result"
  gn_profile_toml :: "string \<Rightarrow> (string, profile) result"
  gn_encode :: "profile \<Rightarrow> (string, string) result"
  gn_license_json :: "license_evidence \<Rightarrow> (string, bytes) result"
  gn_read_dir :: "string \<Rightarrow> 'e \<Rightarrow> (io_error, (io_error, dir_entry) result list) result \<times> 'e"
  gn_make_draft :: "string \<Rightarrow> 'e \<Rightarrow> (io_error, string) result \<times> 'e"
  gn_write :: "string \<Rightarrow> bytes \<Rightarrow> 'e \<Rightarrow> (io_error, unit) result \<times> 'e"
  gn_sync :: "string \<Rightarrow> 'e \<Rightarrow> (io_error, unit) result \<times> 'e"
  gn_persist :: "string \<Rightarrow> string \<Rightarrow> 'e \<Rightarrow> (io_error, unit) result \<times> 'e"
  gn_remove :: "string \<Rightarrow> 'e \<Rightarrow> (io_error, unit) result \<times> 'e"
  gn_sync_directory :: "string \<Rightarrow> 'e \<Rightarrow> (io_error, unit) result \<times> 'e"

record candidate_evidence =
  ce_status :: string
  ce_profile_sha256 :: string
  ce_source_lock_sha256 :: string
  ce_packages :: "package_evidence list"

definition io_reading :: "('e \<Rightarrow> (io_error, 'a) result \<times> 'e) \<Rightarrow> ('e, (string, 'a) result) effect" where
  "io_reading f = with_err io_text (observe f)"

definition digest_file :: "'e packager \<Rightarrow> string \<Rightarrow> ('e, (string, string) result) effect" where
  "digest_file pk path = attempt (io_reading (rf_read (pk_files pk) path)) (\<lambda>b. do {
     emit (Was_Read path b);
     pure (Inr (pk_sha256 pk b))
   })"

definition profile_rpm_request :: "string \<Rightarrow> string list \<Rightarrow> process_request" where
  "profile_rpm_request path args = \<lparr>rq_executable = ''/usr/bin/rpm'',
     rq_args = [''--noplugins'', ''-qp''] @ args @ [path], rq_timeout = from_secs 15,
     rq_stdout_limit = 4194304, rq_stderr_limit = 65536, rq_environment = [(''PATH'', ''/usr/bin:/bin'')]\<rparr>"

definition UTF8_ERROR :: string where "UTF8_ERROR = ''invalid utf-8 sequence''"

definition profile_query :: "'e packager \<Rightarrow> string \<Rightarrow> string list \<Rightarrow> ('e, (string, string) result) effect" where
  "profile_query pk path args =
     attempt (with_err process_error_text (run_process (pk_runner pk) (profile_rpm_request path args))) (\<lambda>po.
       pure (and_then (complete_output ''bounded RPM query failed'' po) (utf8_text UTF8_ERROR)))"

section \<open>The expected providers\<close>

definition OPENVINO_PROVIDERS :: "string list" where
  "OPENVINO_PROVIDERS = [''openvino'', ''openvino-plugins'', ''intel-npu-compiler'',
     ''libopenvino-ir-frontend'', ''libopenvino-onnx-frontend'', ''libopenvino-paddle-frontend'',
     ''libopenvino-pytorch-frontend'', ''libopenvino-tensorflow-frontend'',
     ''libopenvino-tensorflow-lite-frontend'']"

definition expected_packages :: "(string, string \<times> string) bmap" where
  "expected_packages = bm_of_list
     (map (\<lambda>n. (n, (''0:2026.2.1-2.intelnpu.fc44'', ''x86_64''))) OPENVINO_PROVIDERS
      @ [(''intel-npu-driver'', (''0:1.38.0-1.intelnpu.fc44'', ''x86_64'')),
         (''intel-npu-stack-firmware'', (''0:1.38.0-1.intelnpu.fc44'', ''noarch'')),
         (''oneapi-level-zero'', (''0:1.32.0-1.intelnpu.fc44'', ''x86_64'')),
         (''intel-npu-stack'', (''0:0.2.0-4.intelnpu.fc44'', ''noarch'')),
         (''intel-npu-stack-tools'', (''0:0.2.0-4.intelnpu.fc44'', ''x86_64''))])"

definition expected_license :: "string \<Rightarrow> string" where
  "expected_license name =
     (if name = ''intel-npu-stack'' then ''Apache-2.0''
      else if name = ''intel-npu-stack-tools''
      then ''Apache-2.0 AND Artistic-2.0 AND BSD-3-Clause AND ISC AND MIT AND MPL-2.0 AND Unicode-3.0 AND (Apache-2.0 WITH LLVM-exception)''
      else if name = ''intel-npu-compiler''
      then ''Apache-2.0 AND MIT AND BSL-1.0 AND HPND AND BSD-3-Clause AND (GPL-2.0-only OR BSD-3-Clause) AND (Apache-2.0 WITH LLVM-exception) AND NCSA AND BSD-2-Clause AND ISC AND Spencer-94 AND Unicode-DFS-2015 AND LicenseRef-LLVM-MD5''
      else if name = ''intel-npu-driver''
      then ''MIT AND Apache-2.0 AND (GPL-2.0-only WITH Linux-syscall-note)''
      else if name = ''intel-npu-stack-firmware'' then ''LicenseRef-Intel-firmware''
      else if name = ''oneapi-level-zero'' then ''MIT''
      else ''Apache-2.0 AND MIT AND BSL-1.0 AND HPND AND BSD-3-Clause AND (GPL-2.0-only OR BSD-3-Clause)'')"

definition required_payload :: "string \<Rightarrow> string list" where
  "required_payload name =
     (if name = ''intel-npu-stack'' then []
      else if name = ''intel-npu-stack-tools''
      then [''/usr/bin/intel-npu-stack'', ''/usr/libexec/intel-npu-stack/intel-npu-level-zero-probe'',
            ''/usr/libexec/intel-npu-stack/intel-npu-openvino-probe'',
            ''/usr/share/intel-npu-stack/installed-manifest.toml'']
      else if name = ''intel-npu-driver'' then [''/usr/lib64/libze_intel_npu.so.1.38.0'']
      else if name = ''intel-npu-stack-firmware''
      then [''/usr/lib/firmware/updates/intel/vpu/vpu_40xx_v1.bin'']
      else if name = ''oneapi-level-zero''
      then [''/usr/lib64/libze_loader.so.1.32.0'', ''/usr/lib64/libze_tracing_layer.so.1.32.0'',
            ''/usr/lib64/libze_validation_layer.so.1.32.0'']
      else if name = ''openvino''
      then [''/usr/lib64/libopenvino.so.2026.2.1'', ''/usr/lib64/libopenvino_c.so.2026.2.1'']
      else if name = ''intel-npu-compiler''
      then [''/usr/lib64/openvino-2026.2.1/libopenvino_intel_npu_compiler.so'',
            ''/usr/lib64/openvino-2026.2.1/libopenvino_intel_npu_compiler_loader.so'']
      else if name = ''openvino-plugins''
      then [''/usr/lib64/openvino-2026.2.1/cache.json'',
            ''/usr/lib64/openvino-2026.2.1/libopenvino_auto_plugin.so'',
            ''/usr/lib64/openvino-2026.2.1/libopenvino_hetero_plugin.so'',
            ''/usr/lib64/openvino-2026.2.1/libopenvino_intel_cpu_plugin.so'',
            ''/usr/lib64/openvino-2026.2.1/libopenvino_intel_gpu_plugin.so'',
            ''/usr/lib64/openvino-2026.2.1/libopenvino_intel_npu_plugin.so'']
      else [''/usr/lib64/'' @ map (\<lambda>c. if c = CHR ''-'' then CHR ''_'' else c) name @ ''.so.2026.2.1''])"

section \<open>One RPM\<close>

text \<open>\<open>trim_start_matches("0:")\<close>.\<close>

fun trim_epochs :: "string \<Rightarrow> string" where
  "trim_epochs (c # d # cs) = (if c = CHR ''0'' \<and> d = CHR '':'' then trim_epochs cs else c # d # cs)"
| "trim_epochs cs = cs"

definition profile_identity_format :: string where
  "profile_identity_format = ''%{NAME}'' @ [nl] @ ''%{EPOCHNUM}:%{VERSION}-%{RELEASE}'' @ [nl] @ ''%{ARCH}'' @ [nl]
     @ ''%{LICENSE}'' @ [nl] @ ''%{FILEDIGESTALGO}'' @ [nl]"

definition identity_lines :: "string \<Rightarrow> (string \<times> string \<times> string \<times> string) option" where
  "identity_lines t = (case str_lines t of
     [n, e, a, l, algorithm] \<Rightarrow> if algorithm = ''8'' then Some (n, e, a, l) else None | _ \<Rightarrow> None)"

text \<open>Name, NEVR, architecture and licence of an expected provider.\<close>

definition profile_identity :: "string \<Rightarrow> (string, string \<times> string \<times> string \<times> string) result" where
  "profile_identity t =
     and_then (ok_or ''RPM identity or digest algorithm'' (identity_lines t)) (\<lambda>(n, e, a, l).
       case bm_get expected_packages n of
         None \<Rightarrow> Inl ''unexpected RPM provider''
       | Some (nevr, arch) \<Rightarrow>
           and_then (ensure (nevr = e \<and> arch = a) ''wrong provider version/release/architecture'') (\<lambda>_.
           and_then (ensure (l = expected_license n)
             ''package license differs from reviewed provider policy'') (\<lambda>_.
             Inr (n, nevr, arch, l))))"

definition utf8_name :: "string option \<Rightarrow> string option" where
  "utf8_name n = (case n of Some s \<Rightarrow> if utf8_valid s then Some s else None | None \<Rightarrow> None)"

definition rpm_filename :: "string \<Rightarrow> string \<Rightarrow> string \<Rightarrow> string" where
  "rpm_filename name nevr arch = name @ ''-'' @ trim_epochs nevr @ ''.'' @ arch @ ''.rpm''"

definition check_filename :: "string \<Rightarrow> string \<Rightarrow> string \<Rightarrow> string \<Rightarrow> (string, string) result" where
  "check_filename path name nevr arch =
     and_then (ok_or ''invalid RPM filename'' (utf8_name (path_file_name path))) (\<lambda>filename.
     and_then (ensure (filename = rpm_filename name nevr arch) ''RPM filename does not match identity'') (\<lambda>_.
       Inr filename))"

definition profile_requirement :: "'e packager \<Rightarrow> string \<Rightarrow> (string, requirement) result" where
  "profile_requirement pk line = (case split_on tab line of
       [n, operator, v] \<Rightarrow>
         and_then (pk_json pk n) (\<lambda>name.
         and_then (ensure (name \<noteq> ''rpmlib(ShortCircuited)'') ''short-circuit RPM rejected'') (\<lambda>_.
         and_then (if v = ''(none)'' then Inr [] else pk_json pk v) (\<lambda>version.
           Inr (name, operator, version))))
     | _ \<Rightarrow> Inl ''invalid RPM requirement record'')"

definition octal_error :: "string \<Rightarrow> string" where
  "octal_error s = (let ds = (case s of c # d # ds \<Rightarrow> if c = CHR ''+'' then d # ds else s | _ \<Rightarrow> s) in
     if ds = [] then ''cannot parse integer from empty string''
     else if \<not> list_all is_octal ds then ''invalid digit found in string''
     else ''number too large to fit in target type'')"

definition profile_path_ok :: "string \<Rightarrow> bool" where
  "profile_path_ok p = (starts_with ''/usr/'' p \<and> \<not> contains_sub ''//'' p \<and> \<not> contains_sub ''/./'' p
     \<and> \<not> ends_with ''/'' p \<and> \<not> any_control p
     \<and> \<not> list_ex (\<lambda>c. c = Parent_Dir \<or> c = Cur_Dir) (path_components p))"

definition TYPE_SYMLINK :: u32 where "TYPE_SYMLINK = 40960"
definition SPECIAL_BITS :: u32 where "SPECIAL_BITS = 3584"

text \<open>The evidence of a file, or nothing for a directory.\<close>

definition profile_file :: "'e packager \<Rightarrow> string \<Rightarrow> (string, file_evidence option) result" where
  "profile_file pk line = (case split_on tab line of
       [p, m, d, flags] \<Rightarrow>
         and_then (pk_json pk p) (\<lambda>name.
         and_then (ensure (profile_path_ok name) ''unsafe RPM file path'') (\<lambda>_.
         and_then (ok_or (octal_error m) (parse_octal m)) (\<lambda>mode.
         and_then (ensure (mode AND SPECIAL_BITS = 0) ''special permission bits rejected'') (\<lambda>_.
         and_then (ensure (file_type mode \<in> {TYPE_DIRECTORY, TYPE_REGULAR, TYPE_SYMLINK})
           ''special RPM file type rejected'') (\<lambda>_.
         and_then (pk_json pk d) (\<lambda>digest.
         and_then (ensure (\<not> (file_type mode = TYPE_REGULAR \<and> \<not> lower_hex 64 digest))
           ''regular file digest required'') (\<lambda>_.
           Inr (if file_type mode \<noteq> TYPE_DIRECTORY
             then Some \<lparr>fe_path = name, fe_sha256 = digest, fe_mode = mode,
               fe_license = CHR ''l'' \<in> set flags\<rparr> else None))))))))
     | _ \<Rightarrow> Inl ''invalid RPM file record'')"

text \<open>A \<open>BTreeSet\<close>: sorted, without repetitions.\<close>

definition sorted_set :: "'a::linorder list \<Rightarrow> 'a list" where
  "sorted_set xs = bm_keys (bm_of_list (map (\<lambda>x. (x, ())) xs))"

definition source_rpm_ok :: "string \<Rightarrow> bool" where
  "source_rpm_ok s = (ends_with ''.src.rpm'' s \<and> CHR ''/'' \<notin> set s \<and> \<not> any_whitespace s)"

definition MAX_RUNTIME_RPM :: nat where "MAX_RUNTIME_RPM = 1073741824"

definition profile_rows :: "(string \<Rightarrow> (string, 'a) result) \<Rightarrow> string \<Rightarrow> (string, 'a list) result" where
  "profile_rows row t = traverse row (str_lines t)"

definition inspect_rpm :: "'e packager \<Rightarrow> string \<Rightarrow> ('e, (string, package_evidence) result) effect" where
  "inspect_rpm pk path =
     attempt (io_reading (rf_lstat (pk_files pk) path)) (\<lambda>m.
     attempt (pure (ensure (bounded_file MAX_RUNTIME_RPM m)
       ''RPM must be a regular file no larger than 1 GiB'')) (\<lambda>_.
     attempt (digest_file pk path) (\<lambda>sha256.
     attempt (attempt (profile_query pk path [''--queryformat'', profile_identity_format]) (\<lambda>t.
       pure (profile_identity t))) (\<lambda>(name, nevr, arch, license).
     attempt (pure (check_filename path name nevr arch)) (\<lambda>filename.
     attempt (each_attempt (\<lambda>flag. attempt (profile_query pk path flag) (\<lambda>t.
       pure (ensure (trim t = []) ''script-bearing RPM rejected''))) script_options) (\<lambda>_.
     attempt (attempt (profile_query pk path [''--queryformat'', requires_format]) (\<lambda>t.
       pure (profile_rows (profile_requirement pk) t))) (\<lambda>rs.
     attempt (attempt (profile_query pk path [''--queryformat'', files_format]) (\<lambda>t.
       pure (profile_rows (profile_file pk) t))) (\<lambda>fs.
     (let files = sort_key fe_path (List.map_filter id fs) in
     attempt (pure (ensure (name \<noteq> ''intel-npu-stack'' \<or> files = []) ''metapackage must own no files'')) (\<lambda>_.
     attempt (attempt (profile_query pk path [''--queryformat'', ''%{SOURCERPM}'']) (\<lambda>t.
       pure (and_then (ensure (source_rpm_ok t) ''source RPM identity required'') (\<lambda>_. Inr t)))) (\<lambda>source_rpm.
     attempt (digest_file pk path) (\<lambda>again.
     attempt (pure (ensure (sha256 = again) ''RPM changed during inspection'')) (\<lambda>_.
       pure (Inr \<lparr>pv_filename = filename, pv_name = name, pv_nevr = nevr, pv_arch = arch,
         pv_sha256 = sha256, pv_license = license, pv_source_rpm = source_rpm, pv_files = files,
         pv_requirements = sorted_set rs\<rparr>))))))))))))))"

section \<open>The set of RPMs\<close>

definition panic :: string where "panic = ''PANIC''"

text \<open>The index operator of a map.\<close>

definition at_key :: "(string, 'a) bmap \<Rightarrow> string \<Rightarrow> (string, 'a) result" where
  "at_key m k = ok_or panic (bm_get m k)"

definition owns_license :: "package_evidence \<Rightarrow> bool" where
  "owns_license p = list_ex (\<lambda>f. fe_license f \<and> file_type (fe_mode f) = TYPE_REGULAR) (pv_files p)"

definition openvino_relation_required :: requirement where
  "openvino_relation_required = (''openvino(x86-64)'', ''='', ''2026.2.1-2.intelnpu.fc44'')"

definition shared_family :: "package_evidence \<Rightarrow> bool" where
  "shared_family p = (pv_name p = ''openvino-plugins'' \<or> starts_with ''libopenvino-'' (pv_name p))"

definition license_provider :: "package_evidence \<Rightarrow> (string, package_evidence) bmap
    \<Rightarrow> (string, package_evidence) result" where
  "license_provider p packages =
     (if owns_license p then Inr p
      else and_then (at_key packages ''openvino'') (\<lambda>owner.
        and_then (ensure (shared_family p \<and> owns_license owner \<and> pv_source_rpm p = pv_source_rpm owner
            \<and> pv_license p = pv_license owner \<and> openvino_relation_required \<in> set (pv_requirements p))
          (pv_name p @ '' has no bound package-owned license evidence'')) (\<lambda>_. Inr owner)))"

text \<open>The loop over the entries, with the paths owned and the packages seen so far.\<close>

fun own_files :: "string set \<Rightarrow> file_evidence list \<Rightarrow> (string, string set) result" where
  "own_files owned [] = Inr owned"
| "own_files owned (f # fs) =
     and_then (ensure (fe_path f \<notin> owned) ''cross-package file overlap'') (\<lambda>_.
       own_files (insert (fe_path f) owned) fs)"

fun rpm_loop :: "'e packager \<Rightarrow> string set \<Rightarrow> (string, package_evidence) bmap \<Rightarrow> string list
    \<Rightarrow> ('e, (string, (string, package_evidence) bmap) result) effect" where
  "rpm_loop pk owned packages [] = pure (Inr packages)"
| "rpm_loop pk owned packages (path # paths) =
     attempt (inspect_rpm pk path) (\<lambda>p.
     attempt (pure (own_files owned (pv_files p))) (\<lambda>owned'.
     attempt (pure (ensure (bm_get packages (pv_name p) = None) ''duplicate provider'')) (\<lambda>_.
       rpm_loop pk owned' (bm_insert (pv_name p) p packages) paths)))"

definition owns_regular :: "package_evidence \<Rightarrow> string \<Rightarrow> bool" where
  "owns_regular p path = list_ex (\<lambda>f. fe_path f = path \<and> file_type (fe_mode f) = TYPE_REGULAR) (pv_files p)"

definition without_arch :: "string \<Rightarrow> string" where
  "without_arch name = (case strip_suffix ''(x86-64)'' name of None \<Rightarrow> name | Some n \<Rightarrow> n)"

text \<open>A requirement of a provider of the set names exactly that provider.\<close>

definition requirement_pinned :: "(string, package_evidence) bmap \<Rightarrow> requirement \<Rightarrow> bool" where
  "requirement_pinned packages r = (case r of (name, operator, version) \<Rightarrow>
     (case bm_get packages (without_arch name) of
        None \<Rightarrow> True
      | Some provider \<Rightarrow> operator = ''='' \<and> trim_epochs version = trim_epochs (pv_nevr provider)))"

definition check_package :: "(string, package_evidence) bmap \<Rightarrow> package_evidence \<Rightarrow> (string, unit) result" where
  "check_package packages p =
     and_then (if pv_name p \<noteq> ''intel-npu-stack''
       then and_then (license_provider p packages) (\<lambda>_. Inr ()) else Inr ()) (\<lambda>_.
     and_then (check_each (\<lambda>path. ensure (owns_regular p path) ''required provider payload missing'')
       (required_payload (pv_name p))) (\<lambda>_.
     check_each (\<lambda>r. ensure (requirement_pinned packages r)
       ''contradictory or unpinned internal provider requirement'') (pv_requirements p)))"

definition exact_requirements :: "(string \<times> string) list" where
  "exact_requirements =
     map (\<lambda>d. (''intel-npu-stack'', d)) [''intel-npu-stack-tools'', ''intel-npu-driver'',
       ''intel-npu-stack-firmware'', ''oneapi-level-zero'', ''openvino'', ''openvino-plugins'',
       ''intel-npu-compiler'']
     @ map (\<lambda>d. (''intel-npu-stack-tools'', d)) [''oneapi-level-zero'', ''openvino'']"

definition exact_relation :: "package_evidence \<Rightarrow> requirement" where
  "exact_relation p = (pv_name p @ (if pv_arch p = ''x86_64'' then ''(x86-64)'' else []), ''='',
     trim_epochs (pv_nevr p))"

definition check_exact :: "(string, package_evidence) bmap \<Rightarrow> string \<times> string \<Rightarrow> (string, unit) result" where
  "check_exact packages d =
     and_then (at_key packages (snd d)) (\<lambda>p.
     and_then (at_key packages (fst d)) (\<lambda>q.
       ensure (exact_relation p \<in> set (pv_requirements q)) ''exact provider requirement missing''))"

definition MODE_EXECUTABLE :: u32 where "MODE_EXECUTABLE = 33261"

definition TOOLS :: "string list" where
  "TOOLS = [''/usr/bin/intel-npu-stack'', ''/usr/libexec/intel-npu-stack/intel-npu-level-zero-probe'',
     ''/usr/libexec/intel-npu-stack/intel-npu-openvino-probe'']"

definition check_tools :: "(string, package_evidence) bmap \<Rightarrow> (string, unit) result" where
  "check_tools packages = and_then (at_key packages ''intel-npu-stack-tools'') (\<lambda>p.
     and_then (check_each (\<lambda>x. ensure (list_ex (\<lambda>f. fe_path f = x \<and> fe_mode f = MODE_EXECUTABLE) (pv_files p))
       ''tools executable path/mode mismatch'') TOOLS) (\<lambda>_.
     ensure (owns_regular p ''/usr/share/intel-npu-stack/installed-manifest.toml'')
       ''installed manifest missing''))"

definition check_provider_set :: "(string, package_evidence) bmap \<Rightarrow> (string, unit) result" where
  "check_provider_set packages =
     and_then (ensure (bm_keys packages = bm_keys expected_packages) ''incomplete runtime provider set'') (\<lambda>_.
     and_then (check_each (check_package packages) (bm_values packages)) (\<lambda>_.
     and_then (check_each (check_exact packages) exact_requirements) (\<lambda>_.
     check_tools packages)))"

section \<open>The profile\<close>

record component_row =
  ow_capability :: string
  ow_package :: string
  ow_source :: string
  ow_mandatory :: string

definition component_matrix :: "component_row list" where
  "component_matrix = [
     \<lparr>ow_capability = ''npu_firmware'', ow_package = ''intel-npu-stack-firmware'',
       ow_source = ''linux-npu-driver'',
       ow_mandatory = ''/usr/lib/firmware/updates/intel/vpu/vpu_40xx_v1.bin''\<rparr>,
     \<lparr>ow_capability = ''level_zero_loader'', ow_package = ''oneapi-level-zero'',
       ow_source = ''level-zero'', ow_mandatory = ''/usr/lib64/libze_loader.so.1.32.0''\<rparr>,
     \<lparr>ow_capability = ''npu_userspace_driver'', ow_package = ''intel-npu-driver'',
       ow_source = ''linux-npu-driver'', ow_mandatory = ''/usr/lib64/libze_intel_npu.so.1.38.0''\<rparr>,
     \<lparr>ow_capability = ''npu_compiler'', ow_package = ''intel-npu-compiler'', ow_source = ''npu-compiler'',
       ow_mandatory = ''/usr/lib64/openvino-2026.2.1/libopenvino_intel_npu_compiler.so''\<rparr>,
     \<lparr>ow_capability = ''openvino_runtime'', ow_package = ''openvino'', ow_source = ''openvino'',
       ow_mandatory = ''/usr/lib64/libopenvino.so.2026.2.1''\<rparr>,
     \<lparr>ow_capability = ''openvino_npu_plugin'', ow_package = ''openvino-plugins'', ow_source = ''openvino'',
       ow_mandatory = ''/usr/lib64/openvino-2026.2.1/libopenvino_intel_npu_plugin.so''\<rparr>]"

definition critical_file :: "file_evidence \<Rightarrow> bool" where
  "critical_file f = (file_type (fe_mode f) = TYPE_REGULAR
     \<and> (starts_with ''/usr/lib64/'' (fe_path f) \<or> starts_with ''/usr/lib/firmware/'' (fe_path f)))"

definition critical_files :: "package_evidence \<Rightarrow> installed_file list" where
  "critical_files p = map (\<lambda>f. \<lparr>if_path = fe_path f, if_sha256 = fe_sha256 f\<rparr>) (filter critical_file (pv_files p))"

definition upstream_version :: "string \<Rightarrow> string" where
  "upstream_version nevr = hd (split_on CHR ''-'' (case split_on CHR '':'' nevr of _ # v # _ \<Rightarrow> v | _ \<Rightarrow> []))"

definition component_of :: "'e generator \<Rightarrow> source_lock \<Rightarrow> string \<Rightarrow> (string, package_evidence) bmap
    \<Rightarrow> component_row \<Rightarrow> (string, string \<times> component_requirement) result" where
  "component_of gn lock lock_sha256 packages row =
     and_then (at_key packages (ow_package row)) (\<lambda>p.
     and_then (ok_or ''component source missing'' (find (\<lambda>s. so_name s = ow_source row) (sl_sources lock))) (\<lambda>source.
     and_then (ensure (list_ex (\<lambda>f. if_path f = ow_mandatory row) (critical_files p))
       ''critical component file missing'') (\<lambda>_.
     and_then (license_provider p packages) (\<lambda>owner.
     and_then (gn_license_json gn \<lparr>lv_source_lock_sha256 = lock_sha256, lv_package_sha256 = pv_sha256 p,
         lv_license = pv_license p, lv_owner_name = pv_name owner, lv_owner_sha256 = pv_sha256 owner,
         lv_files = filter fe_license (pv_files owner)\<rparr>) (\<lambda>evidence.
       Inr (ow_capability row, \<lparr>cr_version = upstream_version (pv_nevr p), cr_source = so_url source,
         cr_sha256 = pv_sha256 p,
         cr_provider = \<lparr>np_package = ow_package row, np_version = pv_nevr p,
           np_activation = (if ow_capability row = ''npu_firmware'' then Reboot else Immediate),
           np_files = critical_files p\<rparr>,
         cr_license = \<lparr>lr_expression = pv_license p, lr_redistribution = Allowed,
           lr_evidence_sha256 = pk_sha256 (gn_packager gn) evidence\<rparr>\<rparr>))))))"

definition generated_profile :: "(string \<times> component_requirement) list \<Rightarrow> profile" where
  "generated_profile components = \<lparr>p_schema_version = 1, p_id = ''fedora-44-lunar-lake-x86_64'',
     p_stack_release = ''0.2.0'', p_status = Candidate, p_package_manager = Rpm, p_conflicts = [],
     p_platform = \<lparr>ps_id = ''fedora'', ps_version_id = ''44'', ps_arch = ''x86_64''\<rparr>,
     p_hardware = [PciId ''8086'' ''643e''],
     p_kernel = \<lparr>kr_min = ''7.1.13'', kr_max_exclusive = ''7.1.14'', kr_module = ''intel_vpu''\<rparr>,
     p_components = bm_of_list components, p_qualification = None\<rparr>"

definition profile_header :: "string \<Rightarrow> string" where
  "profile_header lock_sha256 = ''# SPDX-License-Identifier: Apache-2.0'' @ [nl]
     @ ''# Generated candidate; no channel may select it.'' @ [nl]
     @ ''# source_lock_sha256 = '' @ lock_sha256 @ [nl]"

text \<open>The document: the encoded profile below its comments, which parses.\<close>

definition profile_body :: "'e generator \<Rightarrow> string \<Rightarrow> profile \<Rightarrow> (string, string) result" where
  "profile_body gn lock_sha256 p =
     and_then (gn_encode gn p) (\<lambda>t.
     (let body = profile_header lock_sha256 @ t in
     and_then (map_err schema_error_text (parse_toml (gn_profile_toml gn) body)) (\<lambda>_. Inr body)))"

definition target_ok :: "source_lock \<Rightarrow> bool" where
  "target_ok l = (sl_target l = \<lparr>tg_distribution_id = ''fedora'', tg_version_id = ''44'',
     tg_architecture = ''x86_64'', tg_pci_vendor = ''8086'', tg_pci_device = ''643e''\<rparr>)"

definition lock_error_text :: "lock_error \<Rightarrow> string" where
  "lock_error_text e = le_code e @ '': '' @ le_message e"

text \<open>The parent of the output, or the current directory.\<close>

definition output_parent :: "string \<Rightarrow> string" where
  "output_parent output = (case path_parent output of None \<Rightarrow> ''.'' | Some p \<Rightarrow> if p = [] then ''.'' else p)"

text \<open>The document in a temporary file that is linked to the output, which must not exist.\<close>

definition publish_profile :: "'e generator \<Rightarrow> string \<Rightarrow> string \<Rightarrow> string \<Rightarrow> ('e, (string, unit) result) effect"
where
  "publish_profile gn parent output body =
     attempt (io_reading (gn_make_draft gn parent)) (\<lambda>draft. do {
       r \<leftarrow> attempt (io_reading (gn_write gn draft body)) (\<lambda>_.
            attempt (io_reading (gn_sync gn draft)) (\<lambda>_.
            io_reading (gn_persist gn draft output)));
       (case r of
          Inl e \<Rightarrow> do { _ \<leftarrow> observe (gn_remove gn draft); pure (Inl e) }
        | Inr _ \<Rightarrow> do { emit (Wrote output body); io_reading (gn_sync_directory gn parent) })
     })"

text \<open>Everything before the publication: the directory of the output, the document, the digest of the
lock and the packages.\<close>

definition prepare_candidate :: "'e generator \<Rightarrow> string \<Rightarrow> string \<Rightarrow> string
    \<Rightarrow> ('e, (string, string \<times> string \<times> string \<times> (string, package_evidence) bmap) result) effect" where
  "prepare_candidate gn rpms repository output =
     (let pk = gn_packager gn; fs = pk_files pk in
     attempt (do { r \<leftarrow> observe (rf_lstat fs output); pure (ensure (\<not> is_ok r) ''output already exists'') }) (\<lambda>_.
     attempt (io_reading (rf_canonicalize fs rpms)) (\<lambda>rpms.
     attempt (io_reading (rf_canonicalize fs (output_parent output))) (\<lambda>parent.
     attempt (pure (ensure (\<not> path_starts_with parent rpms) ''output must be outside RPM inputs'')) (\<lambda>_.
     (let lock_path = path_join repository ''packaging/fedora/44/provider-sources.toml'' in
     attempt (with_err lock_error_text
       (validate_source_lock fs (pk_sha256 pk) (gn_lock_toml gn) lock_path repository)) (\<lambda>lock.
     attempt (pure (ensure (target_ok lock) ''source lock target mismatch'')) (\<lambda>_.
     attempt (digest_file pk lock_path) (\<lambda>lock_sha256.
     attempt (io_reading (gn_read_dir gn rpms)) (\<lambda>listed.
     attempt (pure (map_err io_text (traverse id listed))) (\<lambda>entries.
     attempt (pure (ensure (length entries = 14) ''exactly fourteen runtime RPMs required'')) (\<lambda>_.
     attempt (rpm_loop pk {} [] (map (\<lambda>d. path_join rpms (de_name d)) entries)) (\<lambda>packages.
     attempt (pure (check_provider_set packages)) (\<lambda>_.
     attempt (pure (traverse (component_of gn lock lock_sha256 packages) component_matrix)) (\<lambda>components.
     attempt (pure (profile_body gn lock_sha256 (generated_profile components))) (\<lambda>body.
       pure (Inr (parent, body, lock_sha256, packages))))))))))))))))))"

definition generate_candidate :: "'e generator \<Rightarrow> string \<Rightarrow> string \<Rightarrow> string
    \<Rightarrow> ('e, (string, candidate_evidence) result) effect" where
  "generate_candidate gn rpms repository output =
     attempt (prepare_candidate gn rpms repository output) (\<lambda>(parent, body, lock_sha256, packages).
     attempt (publish_profile gn parent output body) (\<lambda>_.
       pure (Inr \<lparr>ce_status = ''candidate'', ce_profile_sha256 = pk_sha256 (gn_packager gn) body, ce_source_lock_sha256 = lock_sha256,
         ce_packages = bm_values packages\<rparr>)))"

section \<open>What an inspected RPM has shown\<close>

lemma profile_query_answers:
  "leaves (\<lambda>b evs. \<exists>ev. evs = [ev] \<and> complete_answer (profile_rpm_request path args) b ev) (profile_query pk path args)"
  unfolding profile_query_def complete_answer_def
  by (rule leaves_then [OF leaves_with_err [OF leaves_process] leaves_pure])
    (auto simp: complete_output_def utf8_text_def split: if_splits)

interpretation profile_rpm: command_query "profile_query pk" profile_rpm_request for pk
  by unfold_locales (rule profile_query_answers, auto simp: profile_query_def
    intro!: only_runs_attempt only_runs_with_err only_runs_process)

lemma does_profile_query [simp]: "only_does inspection_event (profile_query pk path args)"
  unfolding profile_query_def
  by (intro only_runs_attempt only_runs_with_err only_does_process only_runs_pure)
    (simp add: inspection_event_def profile_rpm_request_def)

lemma does_io_reading [simp]: "only_does F (io_reading f)"
  by (auto simp: io_reading_def)

lemma does_digest_file [simp]: "only_does inspection_event (digest_file pk path)"
  unfolding digest_file_def
  by (intro only_runs_attempt does_io_reading only_runs_bind only_does_emit only_runs_pure)
    (simp add: inspection_event_def)

lemma establishes_reading [established]: "establishes (\<lambda>_ _. True) (io_reading f)"
  by (rule establishes_only [OF does_io_reading])

lemma establishes_digest [established]:
  "establishes (\<lambda>d E. \<exists>b. Was_Read path b \<in> E \<and> d = pk_sha256 pk b) (digest_file pk path)"
  unfolding establishes_def digest_file_def io_reading_def
  by (fastforce simp: leaves_def attempt_Inr run_state_emit with_err_Inr observe_run)

text \<open>The rows of the answers about requirements and files, and what each states.\<close>

definition requirement_row :: "'e packager \<Rightarrow> string \<Rightarrow> requirement \<Rightarrow> bool" where
  "requirement_row pk line r \<longleftrightarrow> (\<exists>n v. split_on tab line = [n, fst (snd r), v]
     \<and> pk_json pk n = Inr (fst r) \<and> fst r \<noteq> ''rpmlib(ShortCircuited)''
     \<and> (if v = ''(none)'' then snd (snd r) = [] else pk_json pk v = Inr (snd (snd r))))"

definition file_row :: "'e packager \<Rightarrow> string \<Rightarrow> file_evidence option \<Rightarrow> bool" where
  "file_row pk line r \<longleftrightarrow> (\<exists>p m d flags name mode digest. split_on tab line = [p, m, d, flags]
     \<and> pk_json pk p = Inr name \<and> profile_path_ok name
     \<and> parse_octal m = Some mode \<and> mode AND SPECIAL_BITS = 0 \<and> pk_json pk d = Inr digest
     \<and> (file_type mode = TYPE_DIRECTORY \<and> r = None
      \<or> (file_type mode = TYPE_SYMLINK \<or> file_type mode = TYPE_REGULAR \<and> lower_hex 64 digest)
         \<and> r = Some \<lparr>fe_path = name, fe_sha256 = digest, fe_mode = mode, fe_license = CHR ''l'' \<in> set flags\<rparr>))"

lemma requirement_rows:
  "profile_rows (profile_requirement pk) t = Inr rs \<longleftrightarrow> list_all2 (requirement_row pk) (str_lines t) rs"
proof -
  have "profile_requirement pk line = Inr r \<longleftrightarrow> requirement_row pk line r" for line r
    by (cases r) (auto simp: profile_requirement_def requirement_row_def split: list.splits)
  then show ?thesis by (simp add: profile_rows_def traverse_Inr)
qed

lemma types_differ: "TYPE_DIRECTORY \<noteq> TYPE_REGULAR" "TYPE_SYMLINK \<noteq> TYPE_REGULAR" "TYPE_SYMLINK \<noteq> TYPE_DIRECTORY"
  by (simp_all add: TYPE_DIRECTORY_def TYPE_REGULAR_def TYPE_SYMLINK_def)

lemma file_rows:
  "profile_rows (profile_file pk) t = Inr fs \<longleftrightarrow> list_all2 (file_row pk) (str_lines t) fs"
proof -
  have "profile_file pk line = Inr r \<longleftrightarrow> file_row pk line r" for line r
  proof (cases "\<exists>p m d flags. split_on tab line = [p, m, d, flags]")
    case True
    then obtain p m d flags where l: "split_on tab line = [p, m, d, flags]" by blast
    show ?thesis
      unfolding profile_file_def file_row_def l using types_differ by auto
  next
    case False
    then show ?thesis by (auto simp: profile_file_def file_row_def split: list.splits)
  qed
  then show ?thesis by (simp add: profile_rows_def traverse_Inr)
qed

text \<open>An identity answer states an expected provider, at its version, architecture and licence.\<close>

definition provider_identity :: "package_evidence \<Rightarrow> string \<Rightarrow> bool" where
  "provider_identity p t \<longleftrightarrow> str_lines t = [pv_name p, pv_nevr p, pv_arch p, pv_license p, ''8'']
     \<and> bm_get expected_packages (pv_name p) = Some (pv_nevr p, pv_arch p)
     \<and> pv_license p = expected_license (pv_name p)"

lemma profile_identity_shows:
  assumes "profile_identity t = Inr (n, v, a, l)" "pv_name p = n" "pv_nevr p = v" "pv_arch p = a" "pv_license p = l"
  shows "provider_identity p t"
  using assms by (auto simp: profile_identity_def identity_lines_def provider_identity_def
      split: option.splits list.splits if_splits prod.splits)

text \<open>
  The events of the inspection of one RPM: the file is read first and last, with the same digest, and
  between the two every answer about it is complete. They show the identity, which is that of the file's
  name, no script of any kind, the requirements, the files and the source RPM; the metapackage owns no file.
\<close>

definition rpm_inspected :: "'e packager \<Rightarrow> string \<Rightarrow> package_evidence \<Rightarrow> event list \<Rightarrow> bool" where
  "rpm_inspected pk path p evs \<longleftrightarrow> (\<exists>content es again rs fs.
     evs = Was_Read path content # es @ [Was_Read path again]
   \<and> pv_sha256 p = pk_sha256 pk content \<and> pk_sha256 pk again = pk_sha256 pk content
   \<and> path_file_name path = Some (pv_filename p)
   \<and> pv_filename p = rpm_filename (pv_name p) (pv_nevr p) (pv_arch p)
   \<and> answered (profile_rpm_request path [''--queryformat'', profile_identity_format])
       (provider_identity p) (set es)
   \<and> list_all (\<lambda>o'. answered (profile_rpm_request path o') (\<lambda>t. trim t = []) (set es)) script_options
   \<and> answered (profile_rpm_request path [''--queryformat'', requires_format])
       (\<lambda>t. list_all2 (requirement_row pk) (str_lines t) rs) (set es) \<and> pv_requirements p = sorted_set rs
   \<and> answered (profile_rpm_request path [''--queryformat'', files_format])
       (\<lambda>t. list_all2 (file_row pk) (str_lines t) fs) (set es)
   \<and> pv_files p = sort_key fe_path (List.map_filter id fs)
   \<and> (pv_name p = ''intel-npu-stack'' \<longrightarrow> pv_files p = [])
   \<and> answered (profile_rpm_request path [''--queryformat'', ''%{SOURCERPM}''])
       (\<lambda>t. t = pv_source_rpm p \<and> source_rpm_ok t) (set es))"

text \<open>A trace that ends with a read of a path, after events that establish \<open>P\<close> of the result and the
content.\<close>

definition ends_read :: "string \<Rightarrow> ('a \<Rightarrow> bytes \<Rightarrow> event set \<Rightarrow> bool) \<Rightarrow> 'a \<Rightarrow> event list \<Rightarrow> bool" where
  "ends_read path P a evs \<longleftrightarrow> (\<exists>es again. evs = es @ [Was_Read path again] \<and> (\<forall>E. set es \<subseteq> E \<longrightarrow> P a again E))"

lemma ends_attempt:
  assumes "establishes P m" "\<And>a. leaves (ends_read path (Q a)) (f a)"
  shows "leaves (ends_read path (\<lambda>b c E. \<exists>a. P a E \<and> Q a b c E)) (attempt m f)"
proof (rule leaves_then [OF assms(1) [unfolded establishes_def] assms(2)])
  fix a b xs ys
  assume x: "\<forall>E. set xs \<subseteq> E \<longrightarrow> P a E" and "ends_read path (Q a) b ys"
  then obtain es again where y: "ys = es @ [Was_Read path again]" "\<forall>E. set es \<subseteq> E \<longrightarrow> Q a b again E"
    unfolding ends_read_def by blast
  have "\<exists>a. P a E \<and> Q a b again E" if "set (xs @ es) \<subseteq> E" for E
    using that x y(2) by (intro exI [of _ a]) simp
  with y(1) show "ends_read path (\<lambda>b c E. \<exists>a. P a E \<and> Q a b c E) b (xs @ ys)"
    unfolding ends_read_def by (intro exI [of _ "xs @ es"] exI [of _ again]) simp
qed

lemma leaves_digest:
  "leaves (\<lambda>d evs. \<exists>b. evs = [Was_Read path b] \<and> d = pk_sha256 pk b) (digest_file pk path)"
  by (auto simp: leaves_def digest_file_def io_reading_def attempt_Inr run_state_emit with_err_Inr observe_run)

lemma ends_digest:
  "leaves (ends_read path (\<lambda>b c E. x (pk_sha256 pk c) = Inr () \<and> y (pk_sha256 pk c) = Inr b))
     (attempt (digest_file pk path) (\<lambda>d. attempt (pure (x d)) (\<lambda>_. pure (y d))))"
proof (rule leaves_then [OF leaves_digest])
  show "leaves (\<lambda>b evs. evs = [] \<and> x d = Inr () \<and> y d = Inr b) (attempt (pure (x d)) (\<lambda>_. pure (y d)))" for d
    by (rule leaves_then [OF leaves_pure leaves_pure]) auto
qed (auto simp: ends_read_def)

lemma ends_weaken: "leaves (ends_read path P) m \<Longrightarrow> (\<And>a c E. P a c E \<Longrightarrow> Q a c E) \<Longrightarrow> leaves (ends_read path Q) m"
  by (erule leaves_weaken) (unfold ends_read_def, blast)

lemma check_filename_Inr: "check_filename path name nevr arch = Inr f \<longleftrightarrow>
    path_file_name path = Some f \<and> utf8_valid f \<and> f = rpm_filename name nevr arch"
  by (auto simp: check_filename_def utf8_name_def split: option.splits if_splits)

lemma rpm_inspectedI:
  assumes "pk_sha256 pk content = pk_sha256 pk again" "pv_sha256 p = pk_sha256 pk content"
    "path_file_name path = Some (pv_filename p)"
    "pv_filename p = rpm_filename (pv_name p) (pv_nevr p) (pv_arch p)"
    "answered (profile_rpm_request path [''--queryformat'', profile_identity_format])
       (provider_identity p) (set es)"
    "list_all (\<lambda>o'. answered (profile_rpm_request path o') (\<lambda>t. trim t = []) (set es)) script_options"
    "answered (profile_rpm_request path [''--queryformat'', requires_format])
       (\<lambda>t. list_all2 (requirement_row pk) (str_lines t) rs) (set es)" "pv_requirements p = sorted_set rs"
    "answered (profile_rpm_request path [''--queryformat'', files_format])
       (\<lambda>t. list_all2 (file_row pk) (str_lines t) fs) (set es)"
    "pv_files p = sort_key fe_path (List.map_filter id fs)"
    "pv_name p = ''intel-npu-stack'' \<longrightarrow> pv_files p = []"
    "answered (profile_rpm_request path [''--queryformat'', ''%{SOURCERPM}''])
       (\<lambda>t. t = pv_source_rpm p \<and> source_rpm_ok t) (set es)"
  shows "rpm_inspected pk path p (Was_Read path content # es @ [Was_Read path again])"
  unfolding rpm_inspected_def
  by (intro exI [of _ content] exI [of _ es] exI [of _ again] exI [of _ rs] exI [of _ fs] conjI refl assms
      assms(1) [symmetric])

lemma leaves_inspect_rpm: "leaves (rpm_inspected pk path) (inspect_rpm pk path)"
proof -
  note steps = profile_rpm.decoded profile_rpm.all_accepted establishes_pure
  have ending: "leaves (ends_read path (\<lambda>p again E. sha256 = pk_sha256 pk again \<and> pv_sha256 p = sha256
       \<and> path_file_name path = Some (pv_filename p)
       \<and> pv_filename p = rpm_filename (pv_name p) (pv_nevr p) (pv_arch p)
       \<and> answered (profile_rpm_request path [''--queryformat'', profile_identity_format])
           (provider_identity p) E
       \<and> list_all (\<lambda>o'. answered (profile_rpm_request path o') (\<lambda>t. trim t = []) E) script_options
       \<and> (\<exists>rs. answered (profile_rpm_request path [''--queryformat'', requires_format])
           (\<lambda>t. list_all2 (requirement_row pk) (str_lines t) rs) E \<and> pv_requirements p = sorted_set rs)
       \<and> (\<exists>fs. answered (profile_rpm_request path [''--queryformat'', files_format])
           (\<lambda>t. list_all2 (file_row pk) (str_lines t) fs) E
         \<and> pv_files p = sort_key fe_path (List.map_filter id fs))
       \<and> (pv_name p = ''intel-npu-stack'' \<longrightarrow> pv_files p = [])
       \<and> answered (profile_rpm_request path [''--queryformat'', ''%{SOURCERPM}''])
           (\<lambda>t. t = pv_source_rpm p \<and> source_rpm_ok t) E))
    (attempt (attempt (profile_query pk path [''--queryformat'', profile_identity_format]) (\<lambda>t.
       pure (profile_identity t))) (\<lambda>i.
     attempt (pure (check_filename path (fst i) (fst (snd i)) (fst (snd (snd i))))) (\<lambda>filename.
     attempt (each_attempt (\<lambda>flag. attempt (profile_query pk path flag) (\<lambda>t.
       pure (ensure (trim t = []) ''script-bearing RPM rejected''))) script_options) (\<lambda>_.
     attempt (attempt (profile_query pk path [''--queryformat'', requires_format]) (\<lambda>t.
       pure (profile_rows (profile_requirement pk) t))) (\<lambda>rs.
     attempt (attempt (profile_query pk path [''--queryformat'', files_format]) (\<lambda>t.
       pure (profile_rows (profile_file pk) t))) (\<lambda>fs.
     attempt (pure (ensure (fst i \<noteq> ''intel-npu-stack'' \<or> sort_key fe_path (List.map_filter id fs) = [])
       ''metapackage must own no files'')) (\<lambda>_.
     attempt (attempt (profile_query pk path [''--queryformat'', ''%{SOURCERPM}'']) (\<lambda>t.
       pure (and_then (ensure (source_rpm_ok t) ''source RPM identity required'') (\<lambda>_. Inr t)))) (\<lambda>source_rpm.
     attempt (digest_file pk path) (\<lambda>again.
     attempt (pure (ensure (sha256 = again) ''RPM changed during inspection'')) (\<lambda>_.
       pure (Inr \<lparr>pv_filename = filename, pv_name = fst i, pv_nevr = fst (snd i), pv_arch = fst (snd (snd i)),
         pv_sha256 = sha256, pv_license = snd (snd (snd i)), pv_source_rpm = source_rpm,
         pv_files = sort_key fe_path (List.map_filter id fs),
         pv_requirements = sorted_set rs\<rparr>)))))))))))" for sha256
    by (rule ends_weaken, (rule steps ends_attempt ends_digest)+)
      (elim exE conjE, clarsimp simp: requirement_rows file_rows check_filename_Inr,
        auto elim!: answered_weaken profile_identity_shows)
  have whole: "leaves (rpm_inspected pk path)
    (attempt (io_reading (rf_lstat (pk_files pk) path)) (\<lambda>m.
     attempt (pure (ensure (bounded_file MAX_RUNTIME_RPM m) err)) (\<lambda>_.
     attempt (digest_file pk path) (\<lambda>sha256. f sha256))))"
    if f: "\<And>sha256. leaves (ends_read path (Q sha256)) (f sha256)"
      and Q: "\<And>content p again es. Q (pk_sha256 pk content) p again (set es)
        \<Longrightarrow> rpm_inspected pk path p (Was_Read path content # es @ [Was_Read path again])" for f err Q
  proof (rule leaves_silent [OF does_io_reading leaves_silent [OF only_runs_pure leaves_then [OF leaves_digest f]]])
    fix a b xs ys
    assume "\<exists>c. xs = [Was_Read path c] \<and> a = pk_sha256 pk c" "ends_read path (Q a) b ys"
    then show "rpm_inspected pk path b (xs @ ys)" using Q by (auto simp: ends_read_def)
  qed
  show ?thesis
    unfolding inspect_rpm_def Let_def case_prod_beta
    by (rule whole, rule ending, elim exE conjE, rule rpm_inspectedI)
qed

lemma own_files_Inr: "own_files owned fs = Inr owned' \<longleftrightarrow>
   distinct (map fe_path fs) \<and> fe_path ` set fs \<inter> owned = {} \<and> owned' = owned \<union> fe_path ` set fs"
  by (induction owned fs rule: own_files.induct) auto

lemma does_inspect_rpm [simp]: "only_does inspection_event (inspect_rpm pk path)"
  unfolding inspect_rpm_def Let_def case_prod_beta
  by (intro only_runs_attempt only_runs_each only_runs_pure does_io_reading does_digest_file
      does_profile_query)

lemma does_rpm_loop: "only_does inspection_event (rpm_loop pk owned packages paths)"
proof (induction paths arbitrary: owned packages)
  case (Cons path paths)
  show ?case unfolding rpm_loop.simps by (intro only_runs_attempt only_runs_pure does_inspect_rpm Cons.IH)
qed simp

text \<open>A map from the names of packages, which are distinct, to the packages.\<close>

definition by_name :: "package_evidence list \<Rightarrow> (string, package_evidence) bmap \<Rightarrow> bool" where
  "by_name ps m \<longleftrightarrow> bm_wf m \<and> distinct (map pv_name ps) \<and> set m = (\<lambda>p. (pv_name p, p)) ` set ps"

lemma by_name_get: "by_name ps m \<Longrightarrow> bm_get m n = Some p \<longleftrightarrow> p \<in> set ps \<and> pv_name p = n"
  by (auto simp: by_name_def bm_get_Some)

lemma by_name_insert:
  assumes "by_name ps m" "bm_get m (pv_name p) = None" shows "by_name (ps @ [p]) (bm_insert (pv_name p) p m)"
proof -
  have m: "bm_wf m" "distinct (map pv_name ps)" "set m = (\<lambda>p. (pv_name p, p)) ` set ps"
    using assms(1) by (simp_all add: by_name_def)
  have fresh: "pv_name p \<notin> pv_name ` set ps"
    using assms(2) by (force simp: bm_get_None m(3))
  have wf: "bm_wf (bm_insert (pv_name p) p m)" using m(1) by (rule bm_insert_wf)
  have "(n, q) \<in> set (bm_insert (pv_name p) p m) \<longleftrightarrow> (n, q) = (pv_name p, p) \<or> (n, q) \<in> set m" for n q
    unfolding bm_get_Some [OF wf, symmetric] bm_get_Some [OF m(1), symmetric]
    using assms(2) by auto
  then have "set (bm_insert (pv_name p) p m) = insert (pv_name p, p) (set m)" by auto
  with m fresh wf show ?thesis by (simp add: by_name_def)
qed

lemma by_name_values: assumes "by_name ps m" shows "bm_values m = sort_key pv_name ps"
proof -
  have m: "bm_wf m" "distinct (map pv_name ps)" "set m = (\<lambda>p. (pv_name p, p)) ` set ps"
    using assms by (simp_all add: by_name_def)
  have pairs: "distinct m" "distinct (map (\<lambda>p. (pv_name p, p)) ps)"
    using bm_wf_distinct [OF m(1)] m(2)
    by (auto simp: distinct_map inj_on_def)
  have "mset m = mset (map (\<lambda>p. (pv_name p, p)) ps)"
    by (rule set_eq_iff_mset_eq_distinct [OF pairs, THEN iffD1]) (simp add: m(3))
  then have "image_mset snd (mset m) = image_mset snd (mset (map (\<lambda>p. (pv_name p, p)) ps))" by (rule arg_cong)
  then have ms: "mset (bm_values m) = mset ps" by (simp add: bm_values_def image_mset.compositionality comp_def)
  have "map pv_name (bm_values m) = map fst m"
    using m(3) by (auto simp: bm_values_def)
  then have "sorted (map pv_name (bm_values m))"
    using m(1) by (simp add: bm_wf_def strict_sorted_iff)
  moreover have "inj_on pv_name (set ps)" using m(2) by (simp add: distinct_map)
  ultimately show ?thesis
    using sort_key_inj_key_eq [of ps "bm_values m" pv_name] ms by simp
qed

text \<open>
  The inspected packages, in the order of the listing: each was inspected in turn, no name occurs twice,
  and no path is owned twice.
\<close>

definition set_inspected :: "'e packager \<Rightarrow> string list \<Rightarrow> package_evidence list \<Rightarrow> event list \<Rightarrow> bool" where
  "set_inspected pk paths ps evs \<longleftrightarrow> (\<exists>ess. evs = concat ess
     \<and> list_all2 (\<lambda>path r. rpm_inspected pk path (fst r) (snd r)) paths (zip ps ess) \<and> length ess = length ps
     \<and> distinct (map pv_name ps) \<and> distinct (map fe_path (concat (map pv_files ps))))"

lemma leaves_rpm_loop:
  assumes "by_name ps packages" "fe_path ` set (concat (map pv_files ps)) \<subseteq> owned"
    "distinct (map fe_path (concat (map pv_files ps)))"
  shows "leaves (\<lambda>m evs. \<exists>qs ess. evs = concat ess \<and> by_name (ps @ qs) m \<and> length ess = length qs
      \<and> list_all2 (\<lambda>path r. rpm_inspected pk path (fst r) (snd r)) paths (zip qs ess)
      \<and> distinct (map fe_path (concat (map pv_files (ps @ qs)))))
    (rpm_loop pk owned packages paths)"
  using assms
proof (induction paths arbitrary: owned packages ps)
  case Nil
  then show ?case
    unfolding rpm_loop.simps
    by (intro leaves_weaken [OF leaves_pure] exI [of _ "[]"] conjI) auto
next
  case (Cons path paths)
  let ?R = "\<lambda>ps paths m evs. \<exists>qs ess. evs = concat ess \<and> by_name (ps @ qs) m \<and> length ess = length qs
      \<and> list_all2 (\<lambda>path r. rpm_inspected pk path (fst r) (snd r)) paths (zip qs ess)
      \<and> distinct (map fe_path (concat (map pv_files (ps @ qs))))"
  have rest: "leaves (?R (ps @ [p]) paths) (rpm_loop pk owned' (bm_insert (pv_name p) p packages) paths)"
    if own: "own_files owned (pv_files p) = Inr owned'" and "bm_get packages (pv_name p) = None" for p owned'
  proof (rule Cons.IH)
    show "by_name (ps @ [p]) (bm_insert (pv_name p) p packages)" by (rule by_name_insert [OF Cons.prems(1) that(2)])
    have fresh: "distinct (map fe_path (pv_files p))" "fe_path ` set (pv_files p) \<inter> owned = {}"
      and owned': "owned' = owned \<union> fe_path ` set (pv_files p)" using own by (simp_all add: own_files_Inr)
    show "fe_path ` set (concat (map pv_files (ps @ [p]))) \<subseteq> owned'"
      using Cons.prems(2) by (auto simp: owned')
    have "fe_path ` set (concat (map pv_files ps)) \<inter> fe_path ` set (pv_files p) = {}"
      using fresh(2) Cons.prems(2) by blast
    with fresh(1) Cons.prems(3) show "distinct (map fe_path (concat (map pv_files (ps @ [p]))))" by simp
  qed
  have checked: "leaves (?R (ps @ [p]) paths) (attempt (pure (own_files owned (pv_files p))) (\<lambda>owned'.
     attempt (pure (ensure (bm_get packages (pv_name p) = None) ''duplicate provider'')) (\<lambda>_.
       rpm_loop pk owned' (bm_insert (pv_name p) p packages) paths)))" for p
    using rest [of p] by (auto simp: leaves_def attempt_Inr)
  show ?case
    unfolding rpm_loop.simps
  proof (rule leaves_then [OF leaves_inspect_rpm checked])
    fix p m xs ys
    assume "rpm_inspected pk path p xs" "?R (ps @ [p]) paths m ys"
    then obtain qs ess where "rpm_inspected pk path p xs" "ys = concat ess" "by_name ((ps @ [p]) @ qs) m"
      "length ess = length qs"
      "list_all2 (\<lambda>path r. rpm_inspected pk path (fst r) (snd r)) paths (zip qs ess)"
      "distinct (map fe_path (concat (map pv_files ((ps @ [p]) @ qs))))" by blast
    then show "?R ps (path # paths) m (xs @ ys)"
      by (intro exI [of _ "p # qs"] exI [of _ "xs # ess"] conjI) simp_all
  qed
qed

lemma leaves_set_inspected:
  "leaves (\<lambda>m evs. \<exists>ps. by_name ps m \<and> set_inspected pk paths ps evs) (rpm_loop pk {} [] paths)"
proof (rule leaves_weaken [OF leaves_rpm_loop [of "[]"]])
  show "by_name [] []" by (simp add: by_name_def)
qed (auto simp: set_inspected_def by_name_def)

section \<open>What a set of providers has shown\<close>

text \<open>The package that owns the licence of \<open>p\<close>: \<open>p\<close> itself or, for the plugins and the frontends, the
runtime of the same source and licence that they require at its exact version.\<close>

definition license_owner :: "package_evidence list \<Rightarrow> package_evidence \<Rightarrow> package_evidence \<Rightarrow> bool" where
  "license_owner ps p owner \<longleftrightarrow> (if \<exists>f \<in> set (pv_files p). fe_license f \<and> file_type (fe_mode f) = TYPE_REGULAR
     then owner = p
     else owner \<in> set ps \<and> pv_name owner = ''openvino''
       \<and> (\<exists>f \<in> set (pv_files owner). fe_license f \<and> file_type (fe_mode f) = TYPE_REGULAR)
       \<and> (pv_name p = ''openvino-plugins'' \<or> starts_with ''libopenvino-'' (pv_name p))
       \<and> pv_source_rpm p = pv_source_rpm owner \<and> pv_license p = pv_license owner
       \<and> (''openvino(x86-64)'', ''='', ''2026.2.1-2.intelnpu.fc44'') \<in> set (pv_requirements p))"

definition regular_of :: "package_evidence \<Rightarrow> string \<Rightarrow> bool" where
  "regular_of p path \<longleftrightarrow> (\<exists>f \<in> set (pv_files p). fe_path f = path \<and> file_type (fe_mode f) = TYPE_REGULAR)"

text \<open>A requirement on a package of the set, by its name or its name and architecture.\<close>

definition requires_of :: "package_evidence \<Rightarrow> package_evidence \<Rightarrow> string \<Rightarrow> string \<Rightarrow> bool" where
  "requires_of p q operator version \<longleftrightarrow> (\<exists>name. (name, operator, version) \<in> set (pv_requirements p)
     \<and> (name = pv_name q @ ''(x86-64)'' \<or> name = pv_name q \<and> \<not> ends_with ''(x86-64)'' name))"

text \<open>
  The set: exactly the expected names; every licence owned; every pinned payload a regular file of its
  package; every requirement between the packages is on the exact version; the metapackage requires the
  parts of the stack at their versions, and the tools the loader and the runtime; and the tools own the
  three programs with their modes and the installed manifest.
\<close>

definition providers_ok :: "package_evidence list \<Rightarrow> bool" where
  "providers_ok ps \<longleftrightarrow> pv_name ` set ps = fst ` set expected_packages
     \<and> (\<forall>p \<in> set ps. pv_name p \<noteq> ''intel-npu-stack'' \<longrightarrow> (\<exists>owner. license_owner ps p owner))
     \<and> (\<forall>p \<in> set ps. \<forall>path \<in> set (required_payload (pv_name p)). regular_of p path)
     \<and> (\<forall>p \<in> set ps. \<forall>q \<in> set ps. \<forall>operator version. requires_of p q operator version \<longrightarrow>
          operator = ''='' \<and> trim_epochs version = trim_epochs (pv_nevr q))
     \<and> (\<forall>p \<in> set ps. \<forall>q \<in> set ps.
          pv_name p = ''intel-npu-stack'' \<and> pv_name q \<in> {''intel-npu-stack-tools'', ''intel-npu-driver'',
            ''intel-npu-stack-firmware'', ''oneapi-level-zero'', ''openvino'', ''openvino-plugins'',
            ''intel-npu-compiler''}
          \<or> pv_name p = ''intel-npu-stack-tools'' \<and> pv_name q \<in> {''oneapi-level-zero'', ''openvino''}
          \<longrightarrow> (pv_name q @ (if pv_arch q = ''x86_64'' then ''(x86-64)'' else []), ''='', trim_epochs (pv_nevr q))
               \<in> set (pv_requirements p))
     \<and> (\<forall>p \<in> set ps. pv_name p = ''intel-npu-stack-tools'' \<longrightarrow>
          regular_of p ''/usr/share/intel-npu-stack/installed-manifest.toml''
        \<and> (\<forall>path \<in> {''/usr/bin/intel-npu-stack'', ''/usr/libexec/intel-npu-stack/intel-npu-level-zero-probe'',
             ''/usr/libexec/intel-npu-stack/intel-npu-openvino-probe''}.
             \<exists>f \<in> set (pv_files p). fe_path f = path \<and> fe_mode f = 33261))"

lemma owns_regular_iff: "owns_regular p path \<longleftrightarrow> regular_of p path"
  by (auto simp: owns_regular_def regular_of_def list_ex_iff)

lemma at_key_named: "by_name ps m \<Longrightarrow> at_key m n = Inr p \<longleftrightarrow> p \<in> set ps \<and> pv_name p = n"
  by (simp add: at_key_def by_name_get)

lemma license_provider_shows:
  assumes "by_name ps m" "p \<in> set ps" "license_provider p m = Inr owner"
  shows "license_owner ps p owner" "owner \<in> set ps"
proof -
  have "(\<exists>f \<in> set (pv_files q). fe_license f \<and> file_type (fe_mode f) = TYPE_REGULAR) \<longleftrightarrow> owns_license q" for q
    by (auto simp: owns_license_def list_ex_iff)
  then show "license_owner ps p owner" "owner \<in> set ps"
    using assms(2,3) unfolding license_owner_def license_provider_def
    by (auto simp: at_key_named [OF assms(1)] shared_family_def openvino_relation_required_def split: if_splits)
qed

lemma without_arch_named:
  "name = n @ ''(x86-64)'' \<or> name = n \<and> \<not> ends_with ''(x86-64)'' name \<Longrightarrow> without_arch name = n"
  by (auto simp: without_arch_def strip_suffix_def ends_with_def split: option.split)

lemma check_provider_set_Inr: "check_provider_set m = Inr u \<longleftrightarrow> bm_keys m = bm_keys expected_packages
     \<and> (\<forall>p \<in> set (bm_values m). check_package m p = Inr ())
     \<and> (\<forall>d \<in> set exact_requirements. check_exact m d = Inr ()) \<and> check_tools m = Inr ()"
  by (cases u) (simp only: check_provider_set_def and_then_Inr ensure_Inr check_each_Inr, blast)

lemmas check_simps = and_then_simps and_then_Inr check_each_Inr ensure_Inr simp_thms ex_simps sum.inject

lemma check_package_Inr: "check_package m p = Inr u \<longleftrightarrow>
     (pv_name p \<noteq> ''intel-npu-stack'' \<longrightarrow> (\<exists>owner. license_provider p m = Inr owner))
   \<and> (\<forall>path \<in> set (required_payload (pv_name p)). owns_regular p path)
   \<and> (\<forall>r \<in> set (pv_requirements p). requirement_pinned m r)"
  by (cases "pv_name p = ''intel-npu-stack''") (simp_all only: check_package_def check_simps if_True if_False)

lemma check_tools_Inr:
  assumes "at_key m ''intel-npu-stack-tools'' = Inr p"
  shows "check_tools m = Inr u \<longleftrightarrow>
     (\<forall>x \<in> set TOOLS. list_ex (\<lambda>f. fe_path f = x \<and> fe_mode f = MODE_EXECUTABLE) (pv_files p))
   \<and> owns_regular p ''/usr/share/intel-npu-stack/installed-manifest.toml''"
  by (simp only: check_tools_def assms check_simps)

lemma package_license:
  assumes "by_name ps m" "check_package m p = Inr u" "pv_name p \<noteq> ''intel-npu-stack''" "p \<in> set ps"
  shows "\<exists>owner. license_owner ps p owner"
proof -
  from assms(2) [unfolded check_package_Inr, THEN conjunct1] assms(3)
  obtain owner where "license_provider p m = Inr owner" by blast
  from license_provider_shows(1) [OF assms(1,4) this] show ?thesis by blast
qed

lemma package_payload:
  "check_package m p = Inr u \<Longrightarrow> path \<in> set (required_payload (pv_name p)) \<Longrightarrow> regular_of p path"
  unfolding check_package_Inr owns_regular_iff by (elim conjE) (rule bspec)

lemma package_pinned:
  assumes "by_name ps m" "check_package m p = Inr u" "q \<in> set ps" "requires_of p q operator version"
  shows "operator = ''='' \<and> trim_epochs version = trim_epochs (pv_nevr q)"
proof -
  obtain name where r: "(name, operator, version) \<in> set (pv_requirements p)" and n: "without_arch name = pv_name q"
    using assms(4) without_arch_named unfolding requires_of_def by blast
  have "bm_get m (pv_name q) = Some q" using assms(3) by (simp add: by_name_get [OF assms(1)])
  moreover have "requirement_pinned m (name, operator, version)"
    using assms(2) [unfolded check_package_Inr] r by blast
  ultimately show ?thesis using n by (simp add: requirement_pinned_def)
qed

lemma exact_shows:
  assumes m: "by_name ps m" and c: "check_exact m (pv_name p, pv_name q) = Inr u"
    and "p \<in> set ps" "q \<in> set ps"
  shows "(pv_name q @ (if pv_arch q = ''x86_64'' then ''(x86-64)'' else []), ''='', trim_epochs (pv_nevr q))
     \<in> set (pv_requirements p)"
proof -
  have "at_key m (pv_name p) = Inr p" "at_key m (pv_name q) = Inr q"
    using assms(3,4) by (simp_all add: at_key_named [OF m])
  with c show ?thesis by (simp add: check_exact_def exact_relation_def)
qed

lemma exact_pairs:
  assumes "n = ''intel-npu-stack'' \<and> d \<in> {''intel-npu-stack-tools'', ''intel-npu-driver'',
       ''intel-npu-stack-firmware'', ''oneapi-level-zero'', ''openvino'', ''openvino-plugins'',
       ''intel-npu-compiler''}
   \<or> n = ''intel-npu-stack-tools'' \<and> d \<in> {''oneapi-level-zero'', ''openvino''}"
  shows "(n, d) \<in> set exact_requirements"
  unfolding exact_requirements_def set_append set_map list.set
  using assms by (elim disjE conjE) (rule UnI1, rule image_eqI [of _ _ d], simp, assumption,
    rule UnI2, rule image_eqI [of _ _ d], simp, assumption)

lemma tools_payload:
  assumes "by_name ps m" "check_tools m = Inr u" "p \<in> set ps" "pv_name p = ''intel-npu-stack-tools''"
  shows "(\<forall>x \<in> set TOOLS. list_ex (\<lambda>f. fe_path f = x \<and> fe_mode f = MODE_EXECUTABLE) (pv_files p))
     \<and> owns_regular p ''/usr/share/intel-npu-stack/installed-manifest.toml''"
proof -
  have "at_key m ''intel-npu-stack-tools'' = Inr p" using assms(3,4) by (simp add: at_key_named [OF assms(1)])
  from check_tools_Inr [OF this, THEN iffD1, OF assms(2)] show ?thesis .
qed

lemma tool_modes:
  assumes "\<forall>x \<in> set TOOLS. list_ex (\<lambda>f. fe_path f = x \<and> fe_mode f = MODE_EXECUTABLE) (pv_files p)"
    "path \<in> set TOOLS"
  shows "\<exists>f \<in> set (pv_files p). fe_path f = path \<and> fe_mode f = 33261"
  using assms unfolding MODE_EXECUTABLE_def list_ex_iff by blast

lemma provider_set_shows:
  assumes m: "by_name ps m" and c: "check_provider_set m = Inr u"
  shows "providers_ok ps"
proof -
  note c = c [unfolded check_provider_set_Inr]
  have "set (bm_keys m) = set (bm_keys expected_packages)" using c by simp
  then have keys: "fst ` set m = fst ` set expected_packages" unfolding bm_keys_set .
  have "fst ` set m = pv_name ` set ps" using m by (simp add: by_name_def image_image)
  with keys have names: "pv_name ` set ps = fst ` set expected_packages" by simp
  have package: "check_package m p = Inr ()" if "p \<in> set ps" for p
    using c that by (simp add: by_name_values [OF m])
  show ?thesis
    unfolding providers_ok_def
  proof (intro conjI names ballI impI allI)
    show "\<exists>owner. license_owner ps p owner" if "p \<in> set ps" "pv_name p \<noteq> ''intel-npu-stack''" for p
      by (rule package_license [OF m package [OF that(1)] that(2,1)])
    show "regular_of p path" if "p \<in> set ps" "path \<in> set (required_payload (pv_name p))" for p path
      by (rule package_payload [OF package [OF that(1)] that(2)])
    show "operator = ''=''" "trim_epochs version = trim_epochs (pv_nevr q)"
      if "p \<in> set ps" "q \<in> set ps" "requires_of p q operator version" for p q operator version
      using package_pinned [OF m package [OF that(1)] that(2,3)] by (rule conjunct1, rule conjunct2)
    show "(pv_name q @ (if pv_arch q = ''x86_64'' then ''(x86-64)'' else []), ''='', trim_epochs (pv_nevr q))
        \<in> set (pv_requirements p)"
      if "p \<in> set ps" "q \<in> set ps" "pv_name p = ''intel-npu-stack'' \<and> pv_name q \<in> {''intel-npu-stack-tools'', ''intel-npu-driver'',
            ''intel-npu-stack-firmware'', ''oneapi-level-zero'', ''openvino'', ''openvino-plugins'',
            ''intel-npu-compiler''}
          \<or> pv_name p = ''intel-npu-stack-tools'' \<and> pv_name q \<in> {''oneapi-level-zero'', ''openvino''}" for p q
      by (rule exact_shows [OF m _ that(1,2)]) (rule c [THEN conjunct2, THEN conjunct2, THEN conjunct1, rule_format, OF exact_pairs [OF that(3)]])
    fix p assume p: "p \<in> set ps" "pv_name p = ''intel-npu-stack-tools''"
    have tools: "check_tools m = Inr ()" using c by blast
    show "regular_of p ''/usr/share/intel-npu-stack/installed-manifest.toml''"
      using tools_payload [OF m tools p] unfolding owns_regular_iff by (rule conjunct2)
    show "\<exists>f \<in> set (pv_files p). fe_path f = path \<and> fe_mode f = 33261"
      if "path \<in> {''/usr/bin/intel-npu-stack'', ''/usr/libexec/intel-npu-stack/intel-npu-level-zero-probe'',
             ''/usr/libexec/intel-npu-stack/intel-npu-openvino-probe''}" for path
      by (rule tool_modes [OF tools_payload [OF m tools p, THEN conjunct1]]) (use that in \<open>simp only: TOOLS_def list.set\<close>)
  qed
qed

text \<open>A component of the profile, from its row, the package of its name and the locked source.\<close>

definition component_made :: "'e generator \<Rightarrow> source_lock \<Rightarrow> string \<Rightarrow> package_evidence list \<Rightarrow> component_row
    \<Rightarrow> string \<times> component_requirement \<Rightarrow> bool" where
  "component_made gn lock lock_sha256 ps row c \<longleftrightarrow> (\<exists>p source owner evidence files.
     p \<in> set ps \<and> pv_name p = ow_package row
   \<and> find (\<lambda>s. so_name s = ow_source row) (sl_sources lock) = Some source
   \<and> files = map (\<lambda>f. \<lparr>if_path = fe_path f, if_sha256 = fe_sha256 f\<rparr>)
       (filter (\<lambda>f. file_type (fe_mode f) = TYPE_REGULAR
          \<and> (starts_with ''/usr/lib64/'' (fe_path f) \<or> starts_with ''/usr/lib/firmware/'' (fe_path f))) (pv_files p))
   \<and> ow_mandatory row \<in> if_path ` set files
   \<and> license_owner ps p owner
   \<and> gn_license_json gn \<lparr>lv_source_lock_sha256 = lock_sha256, lv_package_sha256 = pv_sha256 p,
       lv_license = pv_license p, lv_owner_name = pv_name owner, lv_owner_sha256 = pv_sha256 owner,
       lv_files = filter fe_license (pv_files owner)\<rparr> = Inr evidence
   \<and> c = (ow_capability row, \<lparr>cr_version = upstream_version (pv_nevr p), cr_source = so_url source,
       cr_sha256 = pv_sha256 p,
       cr_provider = \<lparr>np_package = ow_package row, np_version = pv_nevr p,
         np_activation = (if ow_capability row = ''npu_firmware'' then Reboot else Immediate),
         np_files = files\<rparr>,
       cr_license = \<lparr>lr_expression = pv_license p, lr_redistribution = Allowed,
         lr_evidence_sha256 = pk_sha256 (gn_packager gn) evidence\<rparr>\<rparr>))"

lemma component_of_shows:
  assumes m: "by_name ps m" and c: "component_of gn lock lock_sha256 m row = Inr c"
  shows "component_made gn lock lock_sha256 ps row c"
proof -
  from c obtain p source owner evidence where
    p: "at_key m (ow_package row) = Inr p" and rest:
    "find (\<lambda>s. so_name s = ow_source row) (sl_sources lock) = Some source"
    "list_ex (\<lambda>f. if_path f = ow_mandatory row) (critical_files p)"
    "license_provider p m = Inr owner"
    "gn_license_json gn \<lparr>lv_source_lock_sha256 = lock_sha256, lv_package_sha256 = pv_sha256 p,
       lv_license = pv_license p, lv_owner_name = pv_name owner, lv_owner_sha256 = pv_sha256 owner,
       lv_files = filter fe_license (pv_files owner)\<rparr> = Inr evidence"
    "c = (ow_capability row, \<lparr>cr_version = upstream_version (pv_nevr p), cr_source = so_url source,
       cr_sha256 = pv_sha256 p,
       cr_provider = \<lparr>np_package = ow_package row, np_version = pv_nevr p,
         np_activation = (if ow_capability row = ''npu_firmware'' then Reboot else Immediate),
         np_files = critical_files p\<rparr>,
       cr_license = \<lparr>lr_expression = pv_license p, lr_redistribution = Allowed,
         lr_evidence_sha256 = pk_sha256 (gn_packager gn) evidence\<rparr>\<rparr>)"
    by (auto simp: component_of_def)
  from p have "p \<in> set ps" "pv_name p = ow_package row" by (simp_all add: at_key_named [OF m])
  moreover have "ow_mandatory row \<in> if_path ` set (critical_files p)"
    using rest(2) unfolding list_ex_iff by (auto intro: rev_image_eqI)
  moreover have "license_owner ps p owner"
    by (rule license_provider_shows(1) [OF m _ rest(3)]) (rule calculation(1))
  ultimately show ?thesis
    unfolding component_made_def
    by (intro exI [of _ p] exI [of _ source] exI [of _ owner] exI [of _ evidence] exI [of _ "critical_files p"]
        conjI rest) (simp_all add: critical_files_def critical_file_def [abs_def])
qed

text \<open>
  The document of a candidate, from the run of the generation: the output did not exist, and its directory
  is not within that of the RPMs; the lock validated then has the target of the profile, and the digest
  is of the text read next; the directory was listed, with fourteen entries, each of which was inspected;
  the packages are an acceptable set; and the document is the encoded profile below its comments, which
  parses, with every component made from its package and its locked source.
\<close>

definition candidate_shown :: "'e generator \<Rightarrow> string \<Rightarrow> string \<Rightarrow> string \<Rightarrow> 'e world
    \<Rightarrow> string \<Rightarrow> package_evidence list \<Rightarrow> string \<Rightarrow> event list \<Rightarrow> bool" where
  "candidate_shown gn rpms repository output w lock_sha256 ps body evs \<longleftrightarrow>
     (let lock_path = path_join repository ''packaging/fedora/44/provider-sources.toml'';
          pk = gn_packager gn; fs = pk_files pk in
     \<exists>io e1 dir e2 parent e3 lock v content e4 ds e5 es components t q.
       rf_lstat fs output (env w) = (Inl io, e1)
     \<and> rf_canonicalize fs rpms e1 = (Inr dir, e2)
     \<and> rf_canonicalize fs (output_parent output) e2 = (Inr parent, e3) \<and> \<not> path_starts_with parent dir
     \<and> run_state (validate_source_lock fs (pk_sha256 pk) (gn_lock_toml gn) lock_path repository) (w\<lparr>env := e3\<rparr>)
         = (Inr lock, v)
     \<and> sl_target lock = \<lparr>tg_distribution_id = ''fedora'', tg_version_id = ''44'',
         tg_architecture = ''x86_64'', tg_pci_vendor = ''8086'', tg_pci_device = ''643e''\<rparr>
     \<and> rf_read fs lock_path (env v) = (Inr content, e4) \<and> lock_sha256 = pk_sha256 pk content
     \<and> gn_read_dir gn dir e4 = (Inr (map Inr ds), e5) \<and> length ds = 14
     \<and> evs = Was_Read lock_path content # es
     \<and> set_inspected pk (map (\<lambda>d. path_join dir (de_name d)) ds) ps es \<and> providers_ok ps
     \<and> list_all2 (component_made gn lock lock_sha256 ps) component_matrix components
     \<and> gn_encode gn (generated_profile components) = Inr t \<and> body = profile_header lock_sha256 @ t
     \<and> parse_toml (gn_profile_toml gn) body = Inr q)"

lemma io_reading_run: "run_state (io_reading f) w = (Inr a, w') \<longleftrightarrow> (\<exists>e. f (env w) = (Inr a, e) \<and> w' = w\<lparr>env := e\<rparr>)"
  by (auto simp: io_reading_def with_err_Inr observe_run)

lemma digest_file_run: "run_state (digest_file pk path) w = (Inr d, w') \<longleftrightarrow>
   (\<exists>b e. rf_read (pk_files pk) path (env w) = (Inr b, e) \<and> d = pk_sha256 pk b
      \<and> w' = \<lparr>env = e, log = log w @ [Was_Read path b]\<rparr>)"
  by (auto simp: digest_file_def attempt_Inr io_reading_run run_state_emit)

lemma traverse_id_Inr: "traverse id xs = Inr ys \<longleftrightarrow> xs = map Inr ys"
  unfolding traverse_Inr by (auto simp: list_all2_conv_all_nth intro: nth_equalityI)

lemma component_matrix_made:
  assumes "by_name ps m" "traverse (component_of gn lock lock_sha256 m) component_matrix = Inr components"
  shows "list_all2 (component_made gn lock lock_sha256 ps) component_matrix components"
  using assms(2) unfolding traverse_Inr by (rule list_all2_mono) (rule component_of_shows [OF assms(1)])

lemma profile_body_Inr: "profile_body gn lock_sha256 p = Inr body \<longleftrightarrow> (\<exists>t q. gn_encode gn p = Inr t
    \<and> body = profile_header lock_sha256 @ t \<and> parse_toml (gn_profile_toml gn) body = Inr q)"
  by (auto simp: profile_body_def Let_def)

lemma candidate_prepared:
  assumes "run_state (prepare_candidate gn rpms repository output) w = (Inr (parent, body, lock_sha256, packages), u)"
  shows "\<exists>ps evs. candidate_shown gn rpms repository output w lock_sha256 ps body evs
     \<and> bm_values packages = sort_key pv_name ps \<and> log u = log w @ evs"
proof -
  let ?pk = "gn_packager gn"
  let ?fs = "pk_files ?pk"
  let ?lock = "path_join repository ''packaging/fedora/44/provider-sources.toml''"
  from assms obtain io e1 dir e2 e3 lock v x y where
    out: "rf_lstat ?fs output (env w) = (Inl io, e1)" "rf_canonicalize ?fs rpms e1 = (Inr dir, e2)"
      "rf_canonicalize ?fs (output_parent output) e2 = (Inr parent, e3)" "\<not> path_starts_with parent dir"
    and lock: "run_state (validate_source_lock ?fs (pk_sha256 ?pk) (gn_lock_toml gn) ?lock repository)
        (w\<lparr>env := e3\<rparr>) = (Inr lock, v)" "target_ok lock"
    and x: "run_state (digest_file ?pk ?lock) v = (Inr lock_sha256, x)"
    and rest: "run_state (attempt (io_reading (gn_read_dir gn dir)) (\<lambda>listed.
     attempt (pure (map_err io_text (traverse id listed))) (\<lambda>entries.
     attempt (pure (ensure (length entries = 14) ''exactly fourteen runtime RPMs required'')) (\<lambda>_.
     attempt (rpm_loop ?pk {} [] (map (\<lambda>d. path_join dir (de_name d)) entries)) (\<lambda>packages.
     attempt (pure (check_provider_set packages)) (\<lambda>_.
     attempt (pure (traverse (component_of gn lock lock_sha256 packages) component_matrix)) (\<lambda>components.
     attempt (pure (profile_body gn lock_sha256 (generated_profile components))) (\<lambda>body.
       pure (Inr (parent, body, lock_sha256, packages)))))))))) x
        = (Inr (parent, body, lock_sha256, packages), u)"
    unfolding prepare_candidate_def Let_def
    by (simp only: attempt_Inr absent_run io_reading_run with_err_Inr run_state_pure ensure_Inr) auto
  from rest obtain ds e5 components where
    ds: "gn_read_dir gn dir (env x) = (Inr (map Inr ds), e5)" "length ds = 14"
    and loop: "run_state (rpm_loop ?pk {} [] (map (\<lambda>d. path_join dir (de_name d)) ds)) (x\<lparr>env := e5\<rparr>)
        = (Inr packages, u)"
    and made: "check_provider_set packages = Inr ()"
      "traverse (component_of gn lock lock_sha256 packages) component_matrix = Inr components"
      "profile_body gn lock_sha256 (generated_profile components) = Inr body"
    by (auto simp: attempt_Inr io_reading_run traverse_id_Inr)
  from x obtain content e4 where content: "rf_read ?fs ?lock (env v) = (Inr content, e4)"
      "lock_sha256 = pk_sha256 ?pk content" and x': "x = \<lparr>env = e4, log = log v @ [Was_Read ?lock content]\<rparr>"
    unfolding digest_file_run by blast
  from leavesD [OF leaves_set_inspected loop] obtain es ps where
    es: "log u = log x @ es" and ps: "by_name ps packages"
      "set_inspected ?pk (map (\<lambda>d. path_join dir (de_name d)) ds) ps es" by auto
  from made(3) obtain t q where body: "gn_encode gn (generated_profile components) = Inr t"
      "body = profile_header lock_sha256 @ t" "parse_toml (gn_profile_toml gn) body = Inr q"
    unfolding profile_body_Inr by blast
  have "log v = log w" using silent_run [OF silent_lock lock(1)] by simp
  then have logs: "log u = log w @ (Was_Read ?lock content # es)" by (simp add: es x')
  have ds': "gn_read_dir gn dir e4 = (Inr (map Inr ds), e5)" using ds(1) by (simp add: x')
  have "candidate_shown gn rpms repository output w lock_sha256 ps body (Was_Read ?lock content # es)"
    unfolding candidate_shown_def Let_def
    by (intro exI conjI, (rule out lock(1) content ds' ds(2) ps(2) body refl
          lock(2) [unfolded target_ok_def] provider_set_shows [OF ps(1) made(1)]
          component_matrix_made [OF ps(1) made(2)])+)
  with logs by_name_values [OF ps(1)] show ?thesis by blast
qed

lemma does_prepare: "only_does inspection_event (prepare_candidate gn rpms repository output)"
  unfolding prepare_candidate_def Let_def
  by (intro only_runs_attempt only_runs_bind only_runs_observe only_runs_pure only_runs_with_err silent_lock
      does_io_reading does_digest_file does_rpm_loop)


lemma publish_trace:
  assumes "run_state (publish_profile gn parent output body) w = (r, w')"
  shows "log w' = log w @ [Wrote output body] \<or> log w' = log w \<and> (\<exists>e. r = Inl e)"
proof -
  have quiet: "only_does (\<lambda>_. False) (attempt (io_reading (gn_write gn draft body)) (\<lambda>_.
      attempt (io_reading (gn_sync gn draft)) (\<lambda>_. io_reading (gn_persist gn draft output))))" for draft
    by (intro only_runs_attempt does_io_reading)
  have still: "run_state (io_reading f) u = (x, v) \<Longrightarrow> log v = log u" for f :: "'a \<Rightarrow> (io_error, 'c) result \<times> 'a" and u x v
    by (rule silent_run [OF does_io_reading])
  obtain d u where d: "run_state (io_reading (gn_make_draft gn parent)) w = (d, u)" by fastforce
  show ?thesis
  proof (cases d)
    case (Inl e)
    with assms d still [OF d] show ?thesis by (auto simp: publish_profile_def run_state_attempt)
  next
    case (Inr draft)
    obtain s v where s: "run_state (attempt (io_reading (gn_write gn draft body)) (\<lambda>_.
        attempt (io_reading (gn_sync gn draft)) (\<lambda>_. io_reading (gn_persist gn draft output)))) u = (s, v)"
      by fastforce
    have logs: "log v = log w" using still [OF d] silent_run [OF quiet s] by simp
    show ?thesis
    proof (cases s)
      case failed: (Inl e)
      with assms d Inr s logs show ?thesis
        by (auto simp: publish_profile_def run_state_attempt observe_run split: prod.splits)
    next
      case (Inr x)
      obtain t v' where t: "run_state (io_reading (gn_sync_directory gn parent))
          (v\<lparr>log := log v @ [Wrote output body]\<rparr>) = (t, v')" by fastforce
      with assms d \<open>d = Inr draft\<close> s Inr have "w' = v'"
        by (simp add: publish_profile_def run_state_attempt run_state_emit)
      with still [OF t] logs show ?thesis by simp
    qed
  qed
qed

lemma generate_trace:
  assumes "run_state (generate_candidate gn rpms repository output) w = (r, w')"
  shows "(\<exists>evs e. log w' = log w @ evs \<and> list_all inspection_event evs \<and> r = Inl e)
     \<or> (\<exists>evs lock_sha256 ps body. candidate_shown gn rpms repository output w lock_sha256 ps body evs
           \<and> list_all inspection_event evs \<and> log w' = log w @ evs @ [Wrote output body]
           \<and> (case r of Inl _ \<Rightarrow> True
             | Inr evidence \<Rightarrow> evidence = \<lparr>ce_status = ''candidate'', ce_profile_sha256 = pk_sha256 (gn_packager gn) body,
                 ce_source_lock_sha256 = lock_sha256, ce_packages = sort_key pv_name ps\<rparr>))"
proof -
  obtain p u where p: "run_state (prepare_candidate gn rpms repository output) w = (p, u)" by fastforce
  obtain evs where evs: "log u = log w @ evs" "list_all inspection_event evs"
    by (rule only_doesE [OF does_prepare p])
  show ?thesis
  proof (cases p)
    case (Inl e)
    with assms p evs show ?thesis by (auto simp: generate_candidate_def run_state_attempt)
  next
    case (Inr a)
    obtain parent body lock_sha256 packages where a: "a = (parent, body, lock_sha256, packages)"
      by (cases a) blast
    from candidate_prepared [OF p [unfolded Inr a]] evs(1)
    obtain ps where shown: "candidate_shown gn rpms repository output w lock_sha256 ps body evs"
      and ps: "bm_values packages = sort_key pv_name ps" by auto
    obtain s v where s: "run_state (publish_profile gn parent output body) u = (s, v)" by fastforce
    with assms p Inr have r: "w' = v" "r = (case s of Inl e \<Rightarrow> Inl e
        | Inr _ \<Rightarrow> Inr \<lparr>ce_status = ''candidate'', ce_profile_sha256 = pk_sha256 (gn_packager gn) body,
            ce_source_lock_sha256 = lock_sha256, ce_packages = sort_key pv_name ps\<rparr>)"
      by (auto simp: generate_candidate_def run_state_attempt a ps split: sum.splits)
    from publish_trace [OF s] show ?thesis
    proof (elim disjE conjE)
      assume "log v = log u @ [Wrote output body]"
      with evs r shown show ?thesis
        by (intro disjI2 exI [of _ evs] exI [of _ lock_sha256] exI [of _ ps] exI [of _ body])
          (auto split: sum.splits)
    next
      assume "log v = log u" "\<exists>e. s = Inl e"
      with evs r show ?thesis by (intro disjI1) auto
    qed
  qed
qed

end
