(* ===== verification/Xtask.thy ===== *)
theory Xtask
  imports Candidates Fedora_Profile Bundle_Laws
begin

text \<open>
  \<open>xtask/src/main.rs\<close>: the developer tool from the command \<open>clap\<close> has parsed to its exit code. The
  system is a record \<open>xtask\<close>: the systems of the tools it dispatches to, the current directory, the JSON
  texts of the three records as \<open>serde_json\<close> writes them, and the two output streams.
  A \<open>println!\<close> or \<open>eprintln!\<close> whose stream fails is a panic, whose exit code is 101.
\<close>

section \<open>The commands\<close>

record 'e xtask =
  xt_tools :: "'e tools"
  xt_bundler :: "'e bundler"
  xt_generator :: "'e generator"
  xt_arch :: string
  xt_current_dir :: "'e \<Rightarrow> (io_error, string) result \<times> 'e"
  xt_retarget_json :: "retarget_record \<Rightarrow> string"
  xt_observation_json :: "candidate_observation \<Rightarrow> string"
  xt_evidence_json :: "candidate_evidence \<Rightarrow> string"
  xt_stdout :: "'e writer"
  xt_stderr :: "'e writer"

datatype xtask_command =
    Retarget_Candidate string string string string
  | Collect_Candidate string string collection_mode bool
  | Generate_Fedora_Profile string string
  | Validate_Profiles string
  | Validate_Source_Lock string
  | Bundle_Sources string string string
  | Hash_Cached_Source string string string string

definition PANIC_EXIT :: u8 where "PANIC_EXIT = 101"

definition println :: "'e xtask \<Rightarrow> string \<Rightarrow> ('e, u8) effect" where
  "println xt t = do {
     r \<leftarrow> put (xt_stdout xt) (t @ [nl]);
     State_Monad.return (case r of Inr _ \<Rightarrow> 0 | Inl _ \<Rightarrow> PANIC_EXIT)
   }"

definition eprint_error :: "'e xtask \<Rightarrow> string \<Rightarrow> u8 \<Rightarrow> ('e, u8) effect" where
  "eprint_error xt message code = do {
     r \<leftarrow> observe (xt_stderr xt (''error: '' @ message @ [nl]));
     State_Monad.return (case r of Inr _ \<Rightarrow> code | Inl _ \<Rightarrow> PANIC_EXIT)
   }"

definition write_record :: "'e xtask \<Rightarrow> string \<Rightarrow> u8 \<Rightarrow> ('e, u8) effect" where
  "write_record xt json code = do {
     r \<leftarrow> attempt (put (xt_stdout xt) json) (\<lambda>_. put (xt_stdout xt) [nl]);
     State_Monad.return (case r of Inr _ \<Rightarrow> code | Inl _ \<Rightarrow> 2)
   }"

definition validation_failure_text :: "validation_failure \<Rightarrow> string" where
  "validation_failure_text f = (case f of
       Invalid_Profiles \<Rightarrow> ''one or more profiles are invalid''
     | Validation_Io m \<Rightarrow> ''filesystem error: '' @ m
     | Validation_Output m \<Rightarrow> ''output error: '' @ m)"

definition bundle_error_text :: "bundle_error \<Rightarrow> string" where
  "bundle_error_text e = bu_code e @ '': '' @ bu_message e"

definition profile_error_text :: "string \<Rightarrow> string" where
  "profile_error_text m = ''FEDORA_PROFILE_INVALID: '' @ m"

definition lock_status_debug :: "source_lock_status \<Rightarrow> string" where
  "lock_status_debug s = (case s of Lock_Draft \<Rightarrow> ''Draft'' | Lock_Sealed \<Rightarrow> ''Sealed'')"

text \<open>The result of a tool: what a success prints, and the text and exit code of an error.\<close>

definition settle :: "'e xtask \<Rightarrow> ('e, ('x, 'a) result) effect \<Rightarrow> ('x \<Rightarrow> string) \<Rightarrow> ('x \<Rightarrow> u8)
    \<Rightarrow> ('a \<Rightarrow> ('e, u8) effect) \<Rightarrow> ('e, u8) effect" where
  "settle xt m err code ok = do {
     r \<leftarrow> m;
     (case r of Inr a \<Rightarrow> ok a | Inl e \<Rightarrow> eprint_error xt (err e) (code e))
   }"

text \<open>A tool that needs the current directory.\<close>

definition in_current_dir :: "'e xtask \<Rightarrow> (string \<Rightarrow> ('e, u8) effect) \<Rightarrow> ('e, u8) effect" where
  "in_current_dir xt f = settle xt (observe (xt_current_dir xt))
     (\<lambda>e. ''cannot read current directory: '' @ io_text e) (\<lambda>_. 2) f"

definition retarget_command :: "'e xtask \<Rightarrow> string \<Rightarrow> string \<Rightarrow> string \<Rightarrow> string \<Rightarrow> ('e, u8) effect" where
  "retarget_command xt candidate i kernel_release output =
     settle xt (generate_retargeted (xt_tools xt) candidate i kernel_release output) id (\<lambda>_. 2)
       (\<lambda>rr. write_record xt (xt_retarget_json xt rr) 0)"

definition collect_command :: "'e xtask \<Rightarrow> string \<Rightarrow> string \<Rightarrow> collection_mode \<Rightarrow> bool \<Rightarrow> ('e, u8) effect" where
  "collect_command xt profile profile_sha256 mode accept_hardware_probes =
     settle xt (collect_system (xt_tools xt) (xt_arch xt) profile profile_sha256 mode accept_hardware_probes)
       id (\<lambda>_. 2)
       (\<lambda>co. write_record xt (xt_observation_json xt co) (exit_code (co_diagnostic co)))"

definition generate_command :: "'e xtask \<Rightarrow> string \<Rightarrow> string \<Rightarrow> ('e, u8) effect" where
  "generate_command xt rpms output =
     settle xt (attempt (with_err io_text (observe (xt_current_dir xt))) (\<lambda>root.
         with_err profile_error_text (generate_candidate (xt_generator xt) rpms root output)))
       id (\<lambda>_. 1) (\<lambda>ce. println xt (xt_evidence_json xt ce))"

definition validate_command :: "'e xtask \<Rightarrow> string \<Rightarrow> ('e, u8) effect" where
  "validate_command xt path =
     settle xt (validate_profiles_dir (xt_tools xt) (xt_stdout xt) path) validation_failure_text
       validation_exit_code (\<lambda>_. State_Monad.return 0)"

definition lock_command :: "'e xtask \<Rightarrow> string \<Rightarrow> ('e, u8) effect" where
  "lock_command xt path = in_current_dir xt (\<lambda>repository_root.
     (let bn = xt_bundler xt in
      settle xt (validate_source_lock (bn_files bn) (bn_sha256 bn) (bn_toml bn) path repository_root)
        lock_error_text lock_exit_code
        (\<lambda>l. println xt (''validated '' @ lock_status_debug (sl_status l) @ '' source lock with ''
           @ show_nat (length (sl_sources l)) @ '' records''))))"

definition bundle_command :: "'e xtask \<Rightarrow> string \<Rightarrow> string \<Rightarrow> string \<Rightarrow> ('e, u8) effect" where
  "bundle_command xt lock_path cache output = in_current_dir xt (\<lambda>repository_root.
     settle xt (bundle_sources (xt_bundler xt) lock_path repository_root cache output)
       bundle_error_text bundle_exit_code
       (\<lambda>as. println xt (''bundled '' @ show_nat (length as) @ '' source archives'')))"

definition hash_command :: "'e xtask \<Rightarrow> string \<Rightarrow> string \<Rightarrow> string \<Rightarrow> string \<Rightarrow> ('e, u8) effect" where
  "hash_command xt repository name commit output =
     settle xt (hash_cached_source (xt_bundler xt) repository name commit output)
       bundle_error_text bundle_exit_code
       (\<lambda>digest. println xt (digest @ ''  '' @ to_string_lossy output))"

definition xtask_main :: "'e xtask \<Rightarrow> xtask_command \<Rightarrow> ('e, u8) effect" where
  "xtask_main xt c = (case c of
       Retarget_Candidate candidate i k output \<Rightarrow> retarget_command xt candidate i k output
     | Collect_Candidate profile d mode accept \<Rightarrow> collect_command xt profile d mode accept
     | Generate_Fedora_Profile rpms output \<Rightarrow> generate_command xt rpms output
     | Validate_Profiles path \<Rightarrow> validate_command xt path
     | Validate_Source_Lock path \<Rightarrow> lock_command xt path
     | Bundle_Sources l cache output \<Rightarrow> bundle_command xt l cache output
     | Hash_Cached_Source repository name commit output \<Rightarrow> hash_command xt repository name commit output)"


section \<open>What exit code 0 means\<close>

text \<open>
  The events of a command that exits with 0, from the world it starts in: what it read or made, and then
  what it printed. The input is what was read from the given path, the directory and the lock are those
  that were there, the root is the current directory, and every tool ran to its end.
\<close>

definition accomplished :: "'e xtask \<Rightarrow> xtask_command \<Rightarrow> 'e world \<Rightarrow> event list \<Rightarrow> bool" where
  "accomplished xt c w evs \<longleftrightarrow> (let ts = xt_tools xt; bn = xt_bundler xt; gn = xt_generator xt in case c of
       Retarget_Candidate candidate i k output \<Rightarrow> (\<exists>input u t v.
         profile_read ts candidate (env w) input u \<and> retarget (tl_toml ts) input i k = Inr t
         \<and> tl_create_new ts output t u = (Inr (), v)
         \<and> evs = [Wrote output t, Displayed (xt_retarget_json xt
              \<lparr>rr_original_sha256 = tl_sha256 ts input, rr_candidate_sha256 = tl_sha256 ts t,
                rr_candidate_id = i, rr_kernel_release = k, rr_qualification_complete = False\<rparr>),
              Displayed [nl]])
     | Collect_Candidate profile d mode accept \<Rightarrow> mode = Probe \<and> accept \<and> (\<exists>co u es.
         collected ts (xt_arch xt) profile d mode w co u \<and> exit_code (co_diagnostic co) = 0
         \<and> log u = log w @ es \<and> evs = es @ [Displayed (xt_observation_json xt co), Displayed [nl]])
     | Generate_Fedora_Profile rpms output \<Rightarrow> (\<exists>root u lock_sha256 ps body es.
         xt_current_dir xt (env w) = (Inr root, u)
         \<and> candidate_shown gn rpms root output (w\<lparr>env := u\<rparr>) lock_sha256 ps body es
         \<and> evs = es @ [Wrote output body, Displayed (xt_evidence_json xt
              \<lparr>ce_status = ''candidate'', ce_profile_sha256 = pk_sha256 (gn_packager gn) body,
                ce_source_lock_sha256 = lock_sha256, ce_packages = sort_key pv_name ps\<rparr> @ [nl])])
     | Validate_Profiles path \<Rightarrow> (\<exists>ps ls u.
         directory_judged ts (xt_stdout xt) path (env w) (map Some ps) ls u \<and> distinct (map p_id ps)
         \<and> evs = shown_lines (ls @ [''validated '' @ show_nat (length ps) @ '' profiles'']))
     | Validate_Source_Lock path \<Rightarrow> (\<exists>root u l v. xt_current_dir xt (env w) = (Inr root, u)
         \<and> run_state (validate_source_lock (bn_files bn) (bn_sha256 bn) (bn_toml bn) path root)
             (w\<lparr>env := u\<rparr>) = (Inr l, v)
         \<and> evs = [Displayed (''validated '' @ lock_status_debug (sl_status l) @ '' source lock with ''
              @ show_nat (length (sl_sources l)) @ '' records'' @ [nl])])
     | Bundle_Sources lock_path cache output \<Rightarrow> (\<exists>root u l v cache' x out y as es.
         xt_current_dir xt (env w) = (Inr root, u)
         \<and> run_state (validate_source_lock (bn_files bn) (bn_sha256 bn) (bn_toml bn) lock_path root)
             (w\<lparr>env := u\<rparr>) = (Inr l, v)
         \<and> sl_status l = Lock_Sealed \<and> real_directory bn cache (env v) cache' x
         \<and> empty_directory bn output x out y \<and> bundle_trace bn l out (Inr as) es
         \<and> evs = es @ [Displayed (''bundled '' @ show_nat (length as) @ '' source archives'' @ [nl])])
     | Hash_Cached_Source repository name commit output \<Rightarrow> (\<exists>d es.
         commit_hashed bn repository name commit output (env w) d es
         \<and> evs = es @ [Displayed (d @ ''  '' @ to_string_lossy output @ [nl])]))"

lemma run_eprint_error:
  "run_state (eprint_error xt m k) w = (c, w') \<Longrightarrow> c = k \<or> c = PANIC_EXIT"
  by (auto simp: eprint_error_def split: prod.splits sum.splits)

lemma run_println:
  "run_state (println xt t) w = (c, w') \<Longrightarrow> c = PANIC_EXIT \<or> c = 0 \<and> log w' = log w @ [Displayed (t @ [nl])]"
  using leavesD [OF leaves_put, of "xt_stdout xt" "t @ [nl]" w]
  by (auto simp: println_def split: prod.splits sum.splits)

lemma run_write_record:
  assumes "run_state (write_record xt json k) w = (c, w')"
  shows "c = 2 \<or> c = k \<and> log w' = log w @ [Displayed json, Displayed [nl]]"
proof -
  have "leaves (\<lambda>_ es. es = [Displayed json, Displayed [nl]])
      (attempt (put (xt_stdout xt) json) (\<lambda>_. put (xt_stdout xt) [nl]))"
    by (rule leaves_then [OF leaves_put leaves_put]) simp
  from leavesD [OF this, of w] assms show ?thesis
    by (auto simp: write_record_def split: prod.splits sum.splits)
qed

text \<open>A tool settles its command: its error ends with its code, and a success goes on from its run.\<close>

lemma run_settle:
  assumes "run_state (settle xt m err code ok) w = (c, w')" "\<And>e. code e \<in> {1, 2}"
  shows "c \<in> {1, 2, PANIC_EXIT} \<or> (\<exists>a u. run_state m w = (Inr a, u) \<and> run_state (ok a) u = (c, w'))"
proof -
  obtain r u where r: "run_state m w = (r, u)" by fastforce
  show ?thesis
  proof (cases r)
    case (Inl e)
    with assms(1) r have "run_state (eprint_error xt (err e) (code e)) u = (c, w')"
      by (simp add: settle_def)
    with assms(2) [of e] show ?thesis by (auto dest: run_eprint_error)
  next
    case (Inr a)
    with assms(1) r show ?thesis by (simp add: settle_def)
  qed
qed

lemma exit_codes:
  "validation_exit_code f \<in> {1, 2}" "lock_exit_code e \<in> {1, 2}" "bundle_exit_code b \<in> {1, 2}"
  by (auto simp: validation_exit_code_def lock_exit_code_def bundle_exit_code_def split: validation_failure.split)


section \<open>Exit codes\<close>

definition settled :: "'e xtask \<Rightarrow> xtask_command \<Rightarrow> 'e world \<Rightarrow> u8 \<Rightarrow> 'e world \<Rightarrow> bool" where
  "settled xt c w code w' \<longleftrightarrow> code \<in> {1, 2, PANIC_EXIT}
     \<or> code = 0 \<and> (\<exists>evs. log w' = log w @ evs \<and> accomplished xt c w evs)"

lemma settledI: "code = 0 \<Longrightarrow> log w' = log w @ evs \<Longrightarrow> accomplished xt c w evs \<Longrightarrow> settled xt c w code w'"
  unfolding settled_def by blast

text \<open>Every command runs a tool, and then prints; a tool that needs the current directory goes first.\<close>

lemma settled_settle:
  assumes "run_state (settle xt m err code ok) w = (k, w')" "\<And>e. code e \<in> {1, 2}"
    and "\<And>a u. run_state m w = (Inr a, u) \<Longrightarrow> run_state (ok a) u = (k, w') \<Longrightarrow> settled xt c w k w'"
  shows "settled xt c w k w'"
  using run_settle [OF assms(1,2)] assms(3) unfolding settled_def by blast

lemma settled_println:
  assumes "run_state (println xt t) u = (k, w')" "log u = log w @ es"
    and "accomplished xt c w (es @ [Displayed (t @ [nl])])"
  shows "settled xt c w k w'"
  using run_println [OF assms(1)]
proof
  assume "k = 0 \<and> log w' = log u @ [Displayed (t @ [nl])]"
  with assms(2,3) show ?thesis by (intro settledI) simp_all
qed (simp add: settled_def)

lemma settled_record:
  assumes "run_state (write_record xt json x) u = (k, w')" "x \<in> {0, 1}" "log u = log w @ es"
    and "x = 0 \<Longrightarrow> accomplished xt c w (es @ [Displayed json, Displayed [nl]])"
  shows "settled xt c w k w'"
  using run_write_record [OF assms(1)]
proof
  assume "k = x \<and> log w' = log u @ [Displayed json, Displayed [nl]]"
  with assms(2-4) show ?thesis
    by (cases "x = 0") (auto simp: settled_def)
qed (simp add: settled_def)

lemma generate_retargeted_run:
  assumes "run_state (generate_retargeted ts candidate i k output) w = (Inr rr, w')"
  shows "\<exists>input u t v. profile_read ts candidate (env w) input u \<and> retarget (tl_toml ts) input i k = Inr t
    \<and> tl_create_new ts output t u = (Inr (), v) \<and> log w' = log w @ [Wrote output t]
    \<and> rr = \<lparr>rr_original_sha256 = tl_sha256 ts input, rr_candidate_sha256 = tl_sha256 ts t,
        rr_candidate_id = i, rr_kernel_release = k, rr_qualification_complete = False\<rparr>"
proof -
  have made: "run_state (do { emit (Wrote output t); observe (tl_create_new ts output t) }) v = (Inr x, w') \<longleftrightarrow>
      (\<exists>y. tl_create_new ts output t (env v) = (Inr x, y)
        \<and> w' = \<lparr>env = y, log = log v @ [Wrote output t]\<rparr>)" for t v x w'
    by (auto simp: run_state_emit observe_run)
  from assms show ?thesis
    unfolding generate_retargeted_def attempt_Inr read_profile_run with_err_Inr made by fastforce
qed

lemma retarget_settled:
  assumes "run_state (retarget_command xt candidate i k output) w = (c, w')"
  shows "settled xt (Retarget_Candidate candidate i k output) w c w'"
proof (rule settled_settle [OF assms [unfolded retarget_command_def]])
  fix rr u
  assume "run_state (generate_retargeted (xt_tools xt) candidate i k output) w = (Inr rr, u)"
    and w: "run_state (write_record xt (xt_retarget_json xt rr) 0) u = (c, w')"
  from generate_retargeted_run [OF this(1)] obtain input v t x where
    t: "profile_read (xt_tools xt) candidate (env w) input v" "retarget (tl_toml (xt_tools xt)) input i k = Inr t"
      "tl_create_new (xt_tools xt) output t v = (Inr (), x)" "log u = log w @ [Wrote output t]"
    and rr: "rr = \<lparr>rr_original_sha256 = tl_sha256 (xt_tools xt) input,
        rr_candidate_sha256 = tl_sha256 (xt_tools xt) t,
        rr_candidate_id = i, rr_kernel_release = k, rr_qualification_complete = False\<rparr>" by blast
  show "settled xt (Retarget_Candidate candidate i k output) w c w'"
    by (rule settled_record [OF w _ t(4)])
      (simp, simp add: accomplished_def Let_def rr, use t(1-3) in blast)
qed simp

text \<open>A collection that was not asked to probe, or did not, reports a check that is blocked.\<close>

lemma collected_zero:
  "collected ts arch profile sha mode w co u \<Longrightarrow> exit_code (co_diagnostic co) = 0 \<Longrightarrow> mode = Probe"
  by (auto simp: collected_def observed_candidate_def Let_def split: if_splits)

lemma collected_log:
  assumes "collected ts arch profile sha mode w co u" obtains es where "log u = log w @ es"
  using assms by (auto simp: collected_def observed_candidate_def Let_def)

lemma exit_code_bit: "exit_code r \<in> {0, 1}"
  by (simp add: exit_code_def split: overall_status.split)

lemma collect_settled:
  assumes "run_state (collect_command xt profile d mode accept) w = (c, w')"
  shows "settled xt (Collect_Candidate profile d mode accept) w c w'"
proof (rule settled_settle [OF assms [unfolded collect_command_def]])
  fix co u
  assume "run_state (collect_system (xt_tools xt) (xt_arch xt) profile d mode accept) w = (Inr co, u)"
    and w: "run_state (write_record xt (xt_observation_json xt co) (exit_code (co_diagnostic co))) u = (c, w')"
  from collect_system_run [OF this(1)] have ok: "mode = Probe \<longleftrightarrow> accept"
    "collected (xt_tools xt) (xt_arch xt) profile d mode w co u" by blast+
  obtain es where es: "log u = log w @ es" by (rule collected_log [OF ok(2)])
  show "settled xt (Collect_Candidate profile d mode accept) w c w'"
    by (rule settled_record [OF w exit_code_bit es])
      (simp add: accomplished_def Let_def, use ok collected_zero [OF ok(2)] es in blast)
qed simp

lemma generate_settled:
  assumes "run_state (generate_command xt rpms output) w = (c, w')"
  shows "settled xt (Generate_Fedora_Profile rpms output) w c w'"
proof (rule settled_settle [OF assms [unfolded generate_command_def]])
  fix ce u
  assume "run_state (attempt (with_err io_text (observe (xt_current_dir xt))) (\<lambda>root.
         with_err profile_error_text (generate_candidate (xt_generator xt) rpms root output))) w = (Inr ce, u)"
    and w: "run_state (println xt (xt_evidence_json xt ce)) u = (c, w')"
  from this(1) obtain root v where root: "xt_current_dir xt (env w) = (Inr root, v)"
    and run: "run_state (generate_candidate (xt_generator xt) rpms root output) (w\<lparr>env := v\<rparr>) = (Inr ce, u)"
    by (auto simp: attempt_Inr with_err_Inr observe_run)
  from generate_trace [OF run] obtain es lock_sha256 ps body where
    c: "candidate_shown (xt_generator xt) rpms root output (w\<lparr>env := v\<rparr>) lock_sha256 ps body es"
      "log u = log w @ es @ [Wrote output body]"
    and ce: "ce = \<lparr>ce_status = ''candidate'', ce_profile_sha256 = pk_sha256 (gn_packager (xt_generator xt)) body,
        ce_source_lock_sha256 = lock_sha256, ce_packages = sort_key pv_name ps\<rparr>" by auto
  show "settled xt (Generate_Fedora_Profile rpms output) w c w'"
    by (rule settled_println [OF w c(2)])
      (simp add: accomplished_def Let_def ce, use root c(1) in blast)
qed simp

lemma validate_settled:
  assumes "run_state (validate_command xt path) w = (c, w')"
  shows "settled xt (Validate_Profiles path) w c w'"
proof (rule settled_settle [OF assms [unfolded validate_command_def] exit_codes(1)])
  fix a :: unit and u
  assume "run_state (validate_profiles_dir (xt_tools xt) (xt_stdout xt) path) w = (Inr a, u)"
    and w: "run_state (State_Monad.return 0) u = (c, w')"
  then have "run_state (validate_profiles_dir (xt_tools xt) (xt_stdout xt) path) w = (Inr (), u)"
    by (cases a) simp
  from validate_dir_Inr [OF this] w show "settled xt (Validate_Profiles path) w c w'"
    by (auto simp: settled_def accomplished_def Let_def)
qed

lemma current_dir_settled:
  assumes "run_state (in_current_dir xt f) w = (k, w')"
    and "\<And>root u. xt_current_dir xt (env w) = (Inr root, u) \<Longrightarrow>
      run_state (f root) (w\<lparr>env := u\<rparr>) = (k, w') \<Longrightarrow> settled xt c w k w'"
  shows "settled xt c w k w'"
  by (rule settled_settle [OF assms(1) [unfolded in_current_dir_def]]) (auto simp: observe_run intro: assms(2))

lemma lock_settled:
  assumes "run_state (lock_command xt path) w = (c, w')"
  shows "settled xt (Validate_Source_Lock path) w c w'"
proof (rule current_dir_settled [OF assms [unfolded lock_command_def Let_def]])
  fix root u
  assume root: "xt_current_dir xt (env w) = (Inr root, u)"
  let ?lock = "validate_source_lock (bn_files (xt_bundler xt)) (bn_sha256 (xt_bundler xt)) (bn_toml (xt_bundler xt)) path root"
  assume run: "run_state (settle xt ?lock lock_error_text lock_exit_code (\<lambda>l.
      println xt (''validated '' @ lock_status_debug (sl_status l) @ '' source lock with ''
        @ show_nat (length (sl_sources l)) @ '' records''))) (w\<lparr>env := u\<rparr>) = (c, w')"
  show "settled xt (Validate_Source_Lock path) w c w'"
    using run_settle [OF run exit_codes(2)]
  proof (elim disjE exE conjE)
    fix l v
    assume l: "run_state ?lock (w\<lparr>env := u\<rparr>) = (Inr l, v)"
      and w: "run_state (println xt (''validated '' @ lock_status_debug (sl_status l) @ '' source lock with ''
        @ show_nat (length (sl_sources l)) @ '' records'')) v = (c, w')"
    have "log v = log w @ []" using silent_run [OF silent_lock l] by simp
    then show ?thesis
      by (rule settled_println [OF w])
        (simp add: accomplished_def Let_def, use root l in blast)
  qed (simp add: settled_def)
qed

lemma bundle_settled:
  assumes "run_state (bundle_command xt lock_path cache output) w = (c, w')"
  shows "settled xt (Bundle_Sources lock_path cache output) w c w'"
proof (rule current_dir_settled [OF assms [unfolded bundle_command_def]])
  fix root u
  assume root: "xt_current_dir xt (env w) = (Inr root, u)"
  assume run: "run_state (settle xt (bundle_sources (xt_bundler xt) lock_path root cache output)
      bundle_error_text bundle_exit_code (\<lambda>as.
      println xt (''bundled '' @ show_nat (length as) @ '' source archives''))) (w\<lparr>env := u\<rparr>) = (c, w')"
  show "settled xt (Bundle_Sources lock_path cache output) w c w'"
    using run_settle [OF run exit_codes(3)]
  proof (elim disjE exE conjE)
    fix as x
    assume "run_state (bundle_sources (xt_bundler xt) lock_path root cache output) (w\<lparr>env := u\<rparr>) = (Inr as, x)"
      and w: "run_state (println xt (''bundled '' @ show_nat (length as) @ '' source archives'')) x = (c, w')"
    from bundle_sources_run [OF this(1)] obtain l v cache' y out z es where
      b: "run_state (validate_source_lock (bn_files (xt_bundler xt)) (bn_sha256 (xt_bundler xt))
            (bn_toml (xt_bundler xt)) lock_path root) (w\<lparr>env := u\<rparr>) = (Inr l, v)"
        "sl_status l = Lock_Sealed" "real_directory (xt_bundler xt) cache (env v) cache' y"
        "empty_directory (xt_bundler xt) output y out z"
        "bundle_trace (xt_bundler xt) l out (Inr as) es" and es: "log x = log w @ es" by auto
    show ?thesis
      by (rule settled_println [OF w es])
        (simp add: accomplished_def Let_def, use root b in blast)
  qed (simp add: settled_def)
qed

lemma hash_settled:
  assumes "run_state (hash_command xt repository name commit output) w = (c, w')"
  shows "settled xt (Hash_Cached_Source repository name commit output) w c w'"
proof (rule settled_settle [OF assms [unfolded hash_command_def] exit_codes(3)])
  fix d u
  assume "run_state (hash_cached_source (xt_bundler xt) repository name commit output) w = (Inr d, u)"
    and w: "run_state (println xt (d @ ''  '' @ to_string_lossy output)) u = (c, w')"
  from hash_cached_run [OF this(1)] obtain es where
    es: "commit_hashed (xt_bundler xt) repository name commit output (env w) d es" "log u = log w @ es" by blast
  show "settled xt (Hash_Cached_Source repository name commit output) w c w'"
    by (rule settled_println [OF w es(2)])
      (simp add: accomplished_def Let_def, use es(1) in blast)
qed

lemma main_settled:
  "run_state (xtask_main xt c) w = (k, w') \<Longrightarrow> settled xt c w k w'"
  unfolding xtask_main_def
  by (cases c) (simp_all add: retarget_settled collect_settled generate_settled validate_settled lock_settled
      bundle_settled hash_settled)

end
