(* ===== verification/Packaging_Properties.thy ===== *)
theory Packaging_Properties
  imports Xtask
begin

text \<open>
  The properties of the packaging tools and of the program that runs the developer tools.
\<close>

section \<open>The inspections\<close>

text \<open>What counts as an approved path of the driver package is decided by its text: a path with parent
components that leaves the directory, or one that continues the name of the library, is approved too.\<close>

lemma unapproved_path_accepted:
  "driver_path_approved ''/usr/share/doc/intel-npu-driver/../../../lib64/x''"
  "driver_path_approved ''/usr/lib64/libze_intel_npu.so.1.other''"
  by (code_simp, code_simp)

text \<open>C28. An inspection of the driver and firmware packages only asks \<open>rpm\<close> about them, and succeeds only
if the policy is well formed and the complete answers show: each package with its name, version and
architecture and a SHA-256 digest algorithm, the pinned loader requirement and the firmware provision, no
script of any kind, both driver names and no unversioned one, both licences, and the firmware file with its
mode and pinned digest; and every path of the driver package is one of three approved directories or begins
with the text of one of them and a slash, or with that of the library name. The check of the paths is of
their text alone: it does not refuse parent components, so it does not show that the files lie in these
directories.\<close>

theorem driver_packages_inspected:
  "case run_state (validate_fedora_driver_packages pk driver firmware pol) w of (r, w') \<Rightarrow>
     \<exists>evs. log w' = log w @ evs \<and> list_all inspection_event evs
       \<and> (case r of Inl _ \<Rightarrow> True | Inr _ \<Rightarrow> driver_policy_ok pol
            \<and> (\<exists>d f. driver_shown pk d pol (set evs) \<and> firmware_shown pk f pol (set evs)))"
  by (rule outcome [OF establishes_driver_packages does_driver_packages])

text \<open>C27. An inspection of the OpenVINO packages only asks \<open>rpm\<close> and \<open>readelf\<close> and reads libraries, and
succeeds only if the complete answers show exactly the required packages, each with the identity of the
policy and without scripts; the required relations between them; approved paths, of which each that is no
directory has one owner; and every required library with the digest its package records, a platform ELF
header, no search path, its own name, and needs that the set itself satisfies.\<close>

theorem openvino_closure_inspected:
  "case run_state (validate_fedora_openvino_packages pk paths payload_root pol) w of (r, w') \<Rightarrow>
     \<exists>evs. log w' = log w @ evs \<and> list_all inspection_event evs
       \<and> (case r of Inl _ \<Rightarrow> True | Inr _ \<Rightarrow> openvino_accepted pk pol (set evs))"
  by (rule outcome [OF establishes_openvino does_openvino])

section \<open>The generated candidate\<close>

text \<open>C26. A generation only inspects packages until it publishes one document, and it succeeds only after
the publication. The document was made in a run in which the output was absent and its directory outside
that of the packages, the lock was valid with the fixed target, and the directory listed fourteen entries.
Each entry was inspected by complete answers between two reads of the file with the same digest: they show
an expected provider at its version, architecture and licence, in a file of that name, without scripts. The
set has exactly the expected names, no path twice, an owner for every licence, every pinned payload, only
exact requirements between its packages, the required ones among them, and the tools with their modes. Each
component is made from its package and its locked source, and the document parses. A failure has published
nothing or that whole document.\<close>

theorem candidate_generation:
  "case run_state (generate_candidate gn rpms repository output) w of (r, w') \<Rightarrow>
     (\<exists>evs e. log w' = log w @ evs \<and> list_all inspection_event evs \<and> r = Inl e)
     \<or> (\<exists>evs lock_sha256 ps body. candidate_shown gn rpms repository output w lock_sha256 ps body evs
           \<and> list_all inspection_event evs \<and> log w' = log w @ evs @ [Wrote output body]
           \<and> (case r of Inl _ \<Rightarrow> True
             | Inr evidence \<Rightarrow> evidence = \<lparr>ce_status = ''candidate'', ce_profile_sha256 = pk_sha256 (gn_packager gn) body,
                 ce_source_lock_sha256 = lock_sha256, ce_packages = sort_key pv_name ps\<rparr>))"
proof -
  obtain r w' where run: "run_state (generate_candidate gn rpms repository output) w = (r, w')" by fastforce
  from generate_trace [OF run] show ?thesis unfolding run prod.case .
qed

section \<open>The program\<close>

text \<open>C25. The developer tool exits with 0, 1, 2 or, when a stream fails in a printing macro, 101. It exits
with 0 only if its command did what it is for, and then said so. The document read at the given path was
retargeted, and the result was created; a probing collection was accepted, was of the profile read at its
path, and found nothing required to fail; the generated candidate was published; every profile of the
directory listed then is valid; the lock read from the current directory is valid, or it is sealed and was
bundled from the cache into an empty directory; or the commit was known to the repository, its archive was
made by \<open>git archive\<close> and published, and the digest printed is that of the archive read then.\<close>

theorem xtask_exit_means:
  "case run_state (xtask_main xt c) w of (code, w') \<Rightarrow>
     code \<in> {1, 2, PANIC_EXIT} \<or> code = 0 \<and> (\<exists>evs. log w' = log w @ evs \<and> accomplished xt c w evs)"
proof -
  obtain k w' where run: "run_state (xtask_main xt c) w = (k, w')" by fastforce
  from main_settled [OF run] show ?thesis unfolding run prod.case settled_def .
qed

end
