(* ===== verification/Spec2Isabelle.thy ===== *)
theory Spec2Isabelle
  imports Platform_Properties Runtime_Properties Install_Properties Transaction_Properties
    Cli_Properties Candidate_Properties Source_Properties Packaging_Properties
begin

text \<open>
  The Intel NPU stack: the tools that decide whether a machine can run the packaged NPU runtime,
  inspect an installed runtime, and install it on Fedora by one reviewed, signed and checked
  transaction. This development is a shallow embedding of the Rust crates
  under \<open>src/crates\<close> and \<open>src/xtask\<close>, theory by theory in the order in which they depend on each other.

  \<^bold>\<open>The parts and how they interact.\<close>
  A capability profile (\<open>stack-schema\<close>) names a platform, a kernel range, PCI devices, packages and
  probes. The platform detection (\<open>stack-platform\<close>) reads facts from the root file system; the
  selection (\<open>stack-core\<close>) compares profiles with facts under a policy and produces a profile or an
  error, and a report of checks with one verdict. The runtime inspection (\<open>stack-runtime\<close>) produces
  the checks: package state through \<open>rpm\<close>, device nodes, the activity counters, and two helper
  programs whose output is a bounded JSON protocol; every process goes through one supervised
  runner. The installer (\<open>stack-install\<close>) downloads a release, authenticates it, chooses the profile,
  selects packages, prepares a transaction with DNF in private directories, shows it, asks, checks
  everything again, runs the privileged steps and verifies the result. The developer tool (\<open>xtask\<close>)
  validates profiles and source locks, bundles the locked sources, inspects the packages that are built
  from them, and generates, retargets and observes the candidate profiles that the installer later reads.

  \<^bold>\<open>Which theory models which file\<close> (definitions keep the names of the source).

  \<^item> \<open>Prelude\<close>, \<open>Ordmap\<close>, \<open>Effects\<close>: the standard library as the source uses it. A Rust string is the
    list of its UTF-8 bytes; \<open>Result\<close> is a sum with the error on the left; a \<open>BTreeMap\<close> or \<open>BTreeSet\<close>
    is an association list sorted by key; code with effects is a state monad over a \<open>world\<close> whose
    environment is abstract and may change at every call, with a ghost log of what was done.
  \<^item> \<open>Kernel\<close>, \<open>Profile\<close>: \<open>stack-schema\<close>: \<open>kernel.rs\<close>, \<open>profile.rs\<close>, \<open>error.rs\<close>. Kernel components are
    64-bit. The parser gives a raw profile, \<open>validate\<close> and its parts are the source's checks in order.
  \<^item> \<open>Os_Release\<close>, \<open>Platform\<close>: \<open>stack-platform\<close>: the \<open>os-release\<close> parser and the readers of the facts,
    over a view of the file system.
  \<^item> \<open>Matching\<close>, \<open>Report\<close>: \<open>stack-core\<close>: \<open>select_profile\<close>, and the aggregation of checks.
  \<^item> \<open>Strict_Json\<close>, \<open>Protocol\<close>: \<open>strict_json.rs\<close>, \<open>protocol.rs\<close>: the visitor that refuses repeated
    keys and the validation of probe reports.
  \<^item> \<open>Process\<close>: \<open>process.rs\<close>: spawning, the two readers, the supervising loop, the classification.
  \<^item> \<open>Activity\<close>, \<open>Device\<close>, \<open>Package\<close>, \<open>Inspect\<close>: the files of \<open>stack-runtime\<close> of these names: each
    check, and the composition into \<open>status\<close>, \<open>doctor\<close> and the preflight.
  \<^item> \<open>Manifest\<close>, \<open>Policy\<close>, \<open>Inventory\<close>: the release metadata, the options and the choice of the profile,
    and the RPM database (\<open>manifest.rs\<close>, \<open>lib.rs\<close>, \<open>policy.rs\<close>, \<open>inventory.rs\<close>).
  \<^item> \<open>Host\<close>: the file-system calls, private directories and paths the installer uses.
  \<^item> \<open>Signature\<close>, \<open>Native_Rpm\<close>: \<open>signature.rs\<close>; \<open>fedora_rpm.rs\<close> and \<open>project_rpm.rs\<close>.
  \<^item> \<open>Native_Plan\<close>: \<open>fedora.rs\<close>: the stored transaction bound to packages and inventory; the preview.
  \<^item> \<open>Dnf\<close>: \<open>dnf.rs\<close>: the planning run. \<open>Transport\<close>: \<open>transport.rs\<close>: the download and the release binding.
  \<^item> \<open>Review\<close>, \<open>Lifecycle\<close>: \<open>review.rs\<close>, \<open>lifecycle.rs\<close>.
  \<^item> \<open>Fedora_Sources\<close>, \<open>Prepare\<close>, \<open>Transaction\<close>: \<open>prepare.rs\<close>: the repository configuration, the
    private tree with the planning and the snapshot, and the composition with the privileged replay.
  \<^item> \<open>Installer\<close>: \<open>main.rs\<close>, \<open>trust.rs\<close>: the program from parsed options to exit code. \<open>Harness\<close>:
    \<open>examples/guest-harness.rs\<close>: its variant for virtual machines, with fabricated platform facts.
  \<^item> \<open>Cli\<close>: \<open>stack-cli\<close>: \<open>profiles.rs\<close>, \<open>diagnostic.rs\<close>, \<open>lib.rs\<close>, \<open>main.rs\<close>: the diagnostic
    command from parsed arguments to exit code, and the buffered streams of the production program.
  \<^item> \<open>Candidates\<close>: \<open>xtask\<close>: \<open>lib.rs\<close>, \<open>kernel_candidate.rs\<close>, \<open>candidate_collection.rs\<close>: the validation of a
    directory of profiles, a candidate for another kernel, and one observation of a candidate.
  \<^item> \<open>Source_Lock\<close>, \<open>Source_Bundle\<close>: \<open>xtask\<close>: \<open>source_lock.rs\<close>, \<open>source_bundle.rs\<close>: the lock of the sources
    with its licence evidence, and the archives made from cached repositories.
  \<^item> \<open>Command_Query\<close>: what a successful run has established about its log, and the interface of a query
    by a command, on which the \<open>git\<close>, \<open>rpm\<close> and \<open>readelf\<close> inspections rest.
  \<^item> \<open>Rpm_Package\<close>, \<open>Openvino_Package\<close>, \<open>Fedora_Profile\<close>: \<open>xtask\<close>: \<open>fedora_package.rs\<close>,
    \<open>fedora_openvino_package.rs\<close>, \<open>fedora_profile.rs\<close>: the inspections of the driver pair and of the OpenVINO
    closure, and the generation of a candidate profile from the runtime packages.
  \<^item> \<open>Xtask\<close>: \<open>xtask/src/main.rs\<close>: the developer tool from its parsed command to its exit code.
  \<^item> \<open>Samples\<close>: concrete values for the witnesses.

  \<^bold>\<open>What the lemmas show.\<close>
  The theories of the components hold, beside the definitions, their functional laws: which inputs
  each parser accepts and what it returns, what every validator means, that operations of the
  ordered maps keep their order. \<open>Inspect_Laws\<close> has the shape of the inspection reports; \<open>Plan_Laws\<close>
  that a plan covers exactly what the inventory lacks; \<open>Bundle_Laws\<close> what a bundle of sources has
  verified and published; \<open>Stored_Laws\<close>, \<open>Sources_Laws\<close> and
  \<open>Replay_Laws\<close> what a successful check has seen, as predicates on the log, with \<open>leaves\<close> as the
  triple of a step and a trace; \<open>Install_Laws\<close> composes them along the run of a program that installs a release;
  \<open>Error_Laws\<close> bounds the errors of every step. The properties are in \<open>Platform_Properties\<close>,
  \<open>Runtime_Properties\<close>, \<open>Install_Properties\<close>, \<open>Transaction_Properties\<close>, \<open>Cli_Properties\<close>,
  \<open>Candidate_Properties\<close>, \<open>Source_Properties\<close> and \<open>Packaging_Properties\<close>, each after a text that
  names it. Where a property says what a success means, it is tied to the run: the texts, listings and facts
  it speaks of are those the system gave in the states between the calls of that run, in the order of the
  calls (\<open>diagnosis\<close> in \<open>Cli\<close>, \<open>collected\<close> and \<open>directory_judged\<close> in \<open>Candidates\<close>, \<open>commit_hashed\<close> in
  \<open>Bundle_Laws\<close>, \<open>candidate_shown\<close> in \<open>Fedora_Profile\<close>, \<open>accomplished\<close> in \<open>Xtask\<close>), and what is checked of
  them is written out beside the checks of the code, which are proved to imply it. Three statements are as
  weak as the code: the approved paths of the driver package are text prefixes, a second record of an
  installed package at its exact version passes the verification, and an exit seen by the poll after the
  time limit is accepted.

  \<^bold>\<open>Interfaces.\<close> \<open>ordered_map\<close> (\<open>Ordmap\<close>) is the contract of \<open>BTreeMap\<close>, given by the sorted
  association lists; \<open>bounded_runner\<close> (\<open>Process\<close>) that of the process runner, given by the supervised
  runner; \<open>inspectors\<close> (\<open>Inspect_Laws\<close>) that of the four inspectors the composition calls, given by the
  production ones; \<open>command_query\<close> (\<open>Command_Query\<close>) that of a command whose complete output is the answer,
  given by the \<open>git\<close>, \<open>rpm\<close> and \<open>readelf\<close> queries of the developer tools; \<open>release_program\<close>
  (\<open>Install_Laws\<close>) and its extension \<open>listed_program\<close> (\<open>Error_Laws\<close>) that of a program that installs the pinned
  release, given by the installer and by the virtual-machine harness. The type classes of linear orders are instantiated for kernel versions, PCI
  identifiers and installed packages, whose Rust types derive \<open>Ord\<close>.

  \<^bold>\<open>Parameters.\<close> What is not under \<open>src\<close> is an argument of the definitions that use it, and nothing is
  assumed of it beyond what a statement says: the decoders of \<open>serde_json\<close> and \<open>toml\<close> (a function from
  bytes to a document or nothing; for the strict visitor and the optional fields, the sequence of
  events with repeated keys and explicit nulls), SHA-256, the programs \<open>curl\<close>, \<open>gpg\<close>, \<open>rpm\<close>,
  \<open>rpmkeys\<close>, \<open>readelf\<close>, \<open>git\<close> and \<open>dnf5\<close> (the answers of the process runner or of the child), the file system and
  \<open>tempfile\<close> (the records \<open>host\<close> and \<open>fs_view\<close> of functions that may answer differently at every call),
  the terminal, and the executor of privileged commands. The bytes of \<open>trust/release-public.asc\<close>, which
  the build includes, are a parameter too, and so is the version of the tool.

  \<^bold>\<open>Bounds, loops and fuel.\<close> Every limit is the constant of the source. Reader loops consume the list of
  results of their \<open>read\<close> calls and so are structural. The two loops that poll a child (\<open>supervise\<close>
  in \<open>Process\<close>, \<open>watch\<close> in \<open>Dnf\<close>) are total functions whose measure is the time that is left until the
  deadline: each turn sleeps at least the poll interval, so no fuel is needed and their end is part
  of the model. Fixed-width counters are words where they can wrap; sizes are natural numbers
  compared with the limits of the source, which keeps them far below the width.

  \<^bold>\<open>Choices of the model.\<close> Pointer equality of a plan is equality of addresses; a value that owns a
  private directory is a function body (\<open>with_temp\<close>) or a stretch of code (\<open>owning\<close>) at whose end, or
  early return, the directory is removed, which the log records. The process runner joins its readers
  after the child was reaped; a grandchild that keeps a pipe open is a reader that has more events, so
  the time after the kill is not bounded by the deadline, and no statement says that it is. Standard
  output of the installer is line-buffered and every text it writes ends a line or is flushed, so the
  final flush is not a step. Text of operating-system errors is kept where the source prints it and
  nothing depends on it.

  \<^bold>\<open>Not modelled.\<close> The command line parsers (\<open>clap\<close>), because a definition for them would not be a translation of
  code under \<open>src\<close>; the C++ helpers, whose protocol is
  modelled on the side of Rust; the tests of the crates; scripts, specifications, vendored licence
  material and packaging data.

  \<^bold>\<open>Plan.\<close> The Rust program is modelled. What could be added are laws: the writer of the pretty JSON that
  the tools print, and the command line grammars, once their libraries are part of the repository.
\<close>

end
